(* ===== verification/Prelude.thy ===== *)
theory Prelude
  imports Complex_Main "HOL-Library.Word" "HOL-Library.Char_ord" "HOL-Library.List_Lexorder"
begin

unbundle bit_operations_syntax

text \<open>
  Shared vocabulary of the development: byte strings and the string functions of the Rust
  standard library that the sources use, decimal printing, and the effect type of the
  engine.  Strings are UTF-8 byte strings (\<open>string\<close> is a list of bytes), so \<open>length\<close> is
  Rust's \<open>len()\<close> and \<open>\<le>\<close> is its byte-wise order.

  An effectful function of the engine that returns a \<open>Result\<close> is a function from the world
  to an error or a value and the next world; \<open>bindE\<close> is the \<open>?\<close> operator.  The Hoare-style
  predicate \<open>hoare\<close> and its rules carry the proofs about such functions.
\<close>

named_theorems io_simps \<open>unfolding rules of the effect combinators\<close>
named_theorems hoare_rules \<open>Hoare rules of the effect combinators\<close>

type_synonym u8 = "8 word"
type_synonym u32 = "32 word"
type_synonym u64 = "64 word"
type_synonym u128 = "128 word"

section \<open>Strings\<close>

text \<open>\<open>str::split\<close> on a character: always at least one component.\<close>

fun split_on :: "char \<Rightarrow> string \<Rightarrow> string list" where
  "split_on c [] = [[]]"
| "split_on c (x # xs) =
     (if x = c then [] # split_on c xs
      else (case split_on c xs of [] \<Rightarrow> [[x]] | y # ys \<Rightarrow> (x # y) # ys))"

text \<open>\<open>str::split_once\<close>: at the first occurrence.\<close>

fun split_once :: "char \<Rightarrow> string \<Rightarrow> (string \<times> string) option" where
  "split_once c [] = None"
| "split_once c (x # xs) =
     (if x = c then Some ([], xs)
      else (case split_once c xs of None \<Rightarrow> None | Some (a, b) \<Rightarrow> Some (x # a, b)))"

text \<open>\<open>str::rfind\<close>: the index of the last occurrence.\<close>

fun rfind :: "char \<Rightarrow> string \<Rightarrow> nat option" where
  "rfind c [] = None"
| "rfind c (x # xs) =
     (case rfind c xs of Some i \<Rightarrow> Some (Suc i) | None \<Rightarrow> if x = c then Some 0 else None)"

text \<open>\<open>str::starts_with\<close> for a string, \<open>str::strip_prefix\<close>, \<open>str::trim_start_matches\<close>.\<close>

fun strip_prefix :: "string \<Rightarrow> string \<Rightarrow> string option" where
  "strip_prefix [] s = Some s"
| "strip_prefix (p # ps) [] = None"
| "strip_prefix (p # ps) (x # xs) = (if p = x then strip_prefix ps xs else None)"

definition trim_start :: "char \<Rightarrow> string \<Rightarrow> string" where
  "trim_start c s = dropWhile (\<lambda>x. x = c) s"

text \<open>\<open>s.rsplit(c).next()\<close>: the part after the last \<open>c\<close>, or all of \<open>s\<close>.\<close>

definition rsplit_next :: "char \<Rightarrow> string \<Rightarrow> string" where
  "rsplit_next c s = (case rfind c s of None \<Rightarrow> s | Some i \<Rightarrow> drop (Suc i) s)"

definition starts_with_char :: "char \<Rightarrow> string \<Rightarrow> bool" where
  "starts_with_char c s = (case s of [] \<Rightarrow> False | x # _ \<Rightarrow> x = c)"

text \<open>\<open>to_ascii_lowercase\<close> on bytes.\<close>

definition ascii_lower_char :: "char \<Rightarrow> char" where
  "ascii_lower_char c =
     (if CHR ''A'' \<le> c \<and> c \<le> CHR ''Z'' then char_of ((of_char c :: nat) + 32) else c)"

definition to_ascii_lowercase :: "string \<Rightarrow> string" where
  "to_ascii_lowercase s = map ascii_lower_char s"

definition is_ascii :: "string \<Rightarrow> bool" where
  "is_ascii s = list_all (\<lambda>c. (of_char c :: nat) < 128) s"

text \<open>Decimal printing of unsigned integers.\<close>

definition digit_char :: "nat \<Rightarrow> char" where
  "digit_char n = char_of (48 + n)"

fun show_nat :: "nat \<Rightarrow> string" where
  "show_nat n = (if n < 10 then [digit_char n] else show_nat (n div 10) @ [digit_char (n mod 10)])"

declare show_nat.simps [simp del]

lemma split_on_nonempty [simp]: "split_on c s \<noteq> []"
  by (induction s) (auto split: list.splits)

lemma split_on_no_sep: "c \<notin> set s \<Longrightarrow> split_on c s = [s]"
  by (induction s) auto

lemma split_on_append:
  "split_on c (a @ c # b) = split_on c a @ split_on c b"
  by (induction a) (auto split: list.splits)

lemma split_on_component_no_sep: "x \<in> set (split_on c s) \<Longrightarrow> c \<notin> set x"
proof (induction s arbitrary: x)
  case Nil
  then show ?case by simp
next
  case (Cons a s)
  show ?case
  proof (cases "a = c")
    case True
    with Cons show ?thesis by auto
  next
    case False
    obtain y ys where ys: "split_on c s = y # ys" by (cases "split_on c s") auto
    then have "c \<notin> set y" and "\<And>z. z \<in> set ys \<Longrightarrow> c \<notin> set z"
      using Cons.IH by auto
    with False ys Cons.prems show ?thesis by auto
  qed
qed

lemma split_once_None_iff: "split_once c s = None \<longleftrightarrow> c \<notin> set s"
  by (induction s) (auto split: option.splits)

lemma split_once_append: "c \<notin> set a \<Longrightarrow> split_once c (a @ c # b) = Some (a, b)"
  by (induction a) auto

lemma split_once_SomeD: "split_once c s = Some (a, b) \<Longrightarrow> s = a @ c # b \<and> c \<notin> set a"
  by (induction s arbitrary: a) (auto split: if_splits option.splits prod.splits)

lemma rfind_None_iff: "rfind c s = None \<longleftrightarrow> c \<notin> set s"
  by (induction s) (auto split: option.splits)

lemma rfind_SomeD:
  "rfind c s = Some i \<Longrightarrow> i < length s \<and> s = take i s @ c # drop (Suc i) s \<and> c \<notin> set (drop (Suc i) s)"
  by (induction s arbitrary: i)
     (auto split: if_splits option.splits simp: rfind_None_iff)

lemma rfind_append: "c \<notin> set b \<Longrightarrow> rfind c (a @ c # b) = Some (length a)"
  by (induction a) (auto simp: rfind_None_iff split: option.splits)

lemma rsplit_next_append: "c \<notin> set b \<Longrightarrow> rsplit_next c (a @ c # b) = b"
  by (simp add: rsplit_next_def rfind_append)

lemma rsplit_next_no_sep: "c \<notin> set (rsplit_next c s)"
  by (auto simp: rsplit_next_def rfind_None_iff split: option.splits dest: rfind_SomeD)

lemma rsplit_next_whole: "c \<notin> set s \<Longrightarrow> rsplit_next c s = s"
  by (simp add: rsplit_next_def rfind_None_iff split: option.splits) (metis option.distinct(1) rfind_None_iff)

lemma strip_prefix_append [simp]: "strip_prefix p (p @ s) = Some s"
  by (induction p) auto

lemma strip_prefix_SomeD: "strip_prefix p s = Some r \<Longrightarrow> s = p @ r"
  by (induction p s rule: strip_prefix.induct) (auto split: if_splits)

lemma is_ascii_append [simp]: "is_ascii (a @ b) \<longleftrightarrow> is_ascii a \<and> is_ascii b"
  by (simp add: is_ascii_def)

lemma is_ascii_Cons [simp]: "is_ascii (c # b) \<longleftrightarrow> (of_char c :: nat) < 128 \<and> is_ascii b"
  by (simp add: is_ascii_def)

lemma is_ascii_Nil [simp]: "is_ascii []"
  by (simp add: is_ascii_def)

lemma is_ascii_subset: "is_ascii s \<Longrightarrow> set t \<subseteq> set s \<Longrightarrow> is_ascii t"
  by (auto simp: is_ascii_def list_all_iff)

section \<open>Effects\<close>

type_synonym ('w, 'e, 'a) io = "'w \<Rightarrow> ('e + 'a) \<times> 'w"

definition returnE :: "'a \<Rightarrow> ('w, 'e, 'a) io" where
  [io_simps]: "returnE x = (\<lambda>w. (Inr x, w))"

definition throwE :: "'e \<Rightarrow> ('w, 'e, 'a) io" where
  [io_simps]: "throwE e = (\<lambda>w. (Inl e, w))"

definition bindE :: "('w, 'e, 'a) io \<Rightarrow> ('a \<Rightarrow> ('w, 'e, 'b) io) \<Rightarrow> ('w, 'e, 'b) io" where
  [io_simps]: "bindE m f = (\<lambda>w. case m w of (Inl e, w') \<Rightarrow> (Inl e, w') | (Inr x, w') \<Rightarrow> f x w')"

text \<open>\<open>map_err\<close>: convert the error of a port into the caller's error.\<close>

definition map_errE :: "('e \<Rightarrow> 'f) \<Rightarrow> ('w, 'e, 'a) io \<Rightarrow> ('w, 'f, 'a) io" where
  [io_simps]: "map_errE g m = (\<lambda>w. case m w of (Inl e, w') \<Rightarrow> (Inl (g e), w') | (Inr x, w') \<Rightarrow> (Inr x, w'))"

text \<open>\<open>match m.await\<close>: the result of a fallible call as a value.\<close>

definition tryE :: "('w, 'e, 'a) io \<Rightarrow> ('w, 'f, 'e + 'a) io" where
  [io_simps]: "tryE m = (\<lambda>w. case m w of (r, w') \<Rightarrow> (Inr r, w'))"

text \<open>An infallible effect, and one that only changes the world.\<close>

definition liftE :: "('w \<Rightarrow> 'a \<times> 'w) \<Rightarrow> ('w, 'e, 'a) io" where
  [io_simps]: "liftE f = (\<lambda>w. case f w of (x, w') \<Rightarrow> (Inr x, w'))"

definition modifyE :: "('w \<Rightarrow> 'w) \<Rightarrow> ('w, 'e, unit) io" where
  [io_simps]: "modifyE f = (\<lambda>w. (Inr (), f w))"

text \<open>A fallible pure value: \<open>x?\<close> on a \<open>Result\<close> that needed no effect.\<close>

definition resultE :: "'e + 'a \<Rightarrow> ('w, 'e, 'a) io" where
  [io_simps]: "resultE r = (\<lambda>w. (r, w))"

section \<open>Hoare rules\<close>

text \<open>
  \<open>hoare P m Q R\<close>: from a world with \<open>P\<close>, \<open>m\<close> ends in \<open>Q\<close> of its value and the
  final world, or in \<open>R\<close> of its error and the final world.  Every model function is total,
  so this is total correctness.
\<close>

definition hoare ::
  "('w \<Rightarrow> bool) \<Rightarrow> ('w, 'e, 'a) io \<Rightarrow> ('a \<Rightarrow> 'w \<Rightarrow> bool) \<Rightarrow> ('e \<Rightarrow> 'w \<Rightarrow> bool) \<Rightarrow> bool" where
  "hoare P m Q R \<longleftrightarrow>
     (\<forall>w. P w \<longrightarrow> (case m w of (Inl e, w') \<Rightarrow> R e w' | (Inr x, w') \<Rightarrow> Q x w'))"

lemma hoareI:
  assumes "\<And>w e w'. P w \<Longrightarrow> m w = (Inl e, w') \<Longrightarrow> R e w'"
    and "\<And>w x w'. P w \<Longrightarrow> m w = (Inr x, w') \<Longrightarrow> Q x w'"
  shows "hoare P m Q R"
  unfolding hoare_def
proof (intro allI impI)
  fix w
  assume P: "P w"
  obtain r w' where mw: "m w = (r, w')" by (cases "m w")
  with P assms show "case m w of (Inl e, w') \<Rightarrow> R e w' | (Inr x, w') \<Rightarrow> Q x w'"
    by (cases r) auto
qed

lemma hoare_InrD: "hoare P m Q R \<Longrightarrow> P w \<Longrightarrow> m w = (Inr x, w') \<Longrightarrow> Q x w'"
  by (force simp: hoare_def)

lemma hoare_InlD: "hoare P m Q R \<Longrightarrow> P w \<Longrightarrow> m w = (Inl e, w') \<Longrightarrow> R e w'"
  by (force simp: hoare_def)

lemma hoare_weaken:
  assumes "hoare P m Q R" and "\<And>w. P' w \<Longrightarrow> P w"
    and "\<And>x w. Q x w \<Longrightarrow> Q' x w" and "\<And>e w. R e w \<Longrightarrow> R' e w"
  shows "hoare P' m Q' R'"
  using assms by (intro hoareI) (blast dest: hoare_InlD hoare_InrD)+

lemma hoare_pre: "hoare P m Q R \<Longrightarrow> (\<And>w. P' w \<Longrightarrow> P w) \<Longrightarrow> hoare P' m Q R"
  by (rule hoare_weaken)

lemma hoare_return [hoare_rules]: "hoare (Q x) (returnE x) Q R"
  by (simp add: hoare_def returnE_def)

lemma hoare_throw [hoare_rules]: "hoare (R e) (throwE e) Q R"
  by (simp add: hoare_def throwE_def)

lemma hoare_modify [hoare_rules]: "hoare (\<lambda>w. Q () (f w)) (modifyE f) Q R"
  by (simp add: hoare_def modifyE_def)

lemma hoare_lift [hoare_rules]: "hoare (\<lambda>w. Q (fst (f w)) (snd (f w))) (liftE f) Q R"
  by (simp add: hoare_def liftE_def split: prod.splits)

lemma hoare_bind:
  assumes "hoare P m B R" and "\<And>x. hoare (B x) (f x) Q R"
  shows "hoare P (bindE m f) Q R"
proof (rule hoareI)
  fix w e w'
  assume P: "P w" and b: "bindE m f w = (Inl e, w')"
  obtain r w1 where mw: "m w = (r, w1)" by (cases "m w")
  from b mw P assms show "R e w'"
    by (cases r) (auto simp: bindE_def dest: hoare_InlD hoare_InrD)
next
  fix w x w'
  assume P: "P w" and b: "bindE m f w = (Inr x, w')"
  obtain r w1 where mw: "m w = (r, w1)" by (cases "m w")
  from b mw P assms show "Q x w'"
    by (cases r) (auto simp: bindE_def dest: hoare_InlD hoare_InrD)
qed

lemma hoare_map_err:
  assumes "hoare P m Q (\<lambda>e. R (g e))"
  shows "hoare P (map_errE g m) Q R"
  using assms
  by (fastforce simp: hoare_def map_errE_def split: prod.splits sum.splits)

lemma hoare_try:
  assumes "hoare P m (\<lambda>x. Q (Inr x)) (\<lambda>e. Q (Inl e))"
  shows "hoare P (tryE m) Q R"
proof (rule hoareI)
  fix w x w'
  assume P: "P w" and t: "tryE m w = (Inr x, w')"
  from t have "m w = (x, w')" by (auto simp: tryE_def split: prod.splits)
  with P assms show "Q x w'" by (cases x) (auto dest: hoare_InlD hoare_InrD)
qed (auto simp: tryE_def split: prod.splits)

lemma hoare_result [hoare_rules]:
  "hoare (\<lambda>w. (\<forall>e. r = Inl e \<longrightarrow> R e w) \<and> (\<forall>x. r = Inr x \<longrightarrow> Q x w)) (resultE r) Q R"
  by (cases r) (auto simp: hoare_def resultE_def)

lemma hoare_if:
  "(b \<Longrightarrow> hoare P m Q R) \<Longrightarrow> (\<not> b \<Longrightarrow> hoare P n Q R) \<Longrightarrow> hoare P (if b then m else n) Q R"
  by simp

text \<open>
  An invariant of an effect: kept whether it returns or fails.  The rules below let a
  proof that every port keeps an observation compose to a proof that a phase keeps it.
\<close>

definition keeps :: "('w \<Rightarrow> bool) \<Rightarrow> ('w, 'e, 'a) io \<Rightarrow> bool" where
  "keeps I m \<longleftrightarrow> (\<forall>w. I w \<longrightarrow> I (snd (m w)))"

lemma keeps_return [intro, simp]: "keeps I (returnE x)"
  by (simp add: keeps_def returnE_def)

lemma keeps_throw [intro, simp]: "keeps I (throwE e)"
  by (simp add: keeps_def throwE_def)

lemma keeps_result [intro, simp]: "keeps I (resultE e)"
  by (simp add: keeps_def resultE_def)

lemma keeps_modify [intro]: "(\<And>w. I w \<Longrightarrow> I (f w)) \<Longrightarrow> keeps I (modifyE f)"
  by (simp add: keeps_def modifyE_def)

lemma keeps_lift [intro]: "(\<And>w. I w \<Longrightarrow> I (snd (f w))) \<Longrightarrow> keeps I (liftE f)"
  by (simp add: keeps_def liftE_def split: prod.splits) (metis snd_conv)

lemma keeps_bind [intro]:
  assumes "keeps I m" and "\<And>x. keeps I (f x)"
  shows "keeps I (bindE m f)"
  unfolding keeps_def
proof (intro allI impI)
  fix w
  assume "I w"
  obtain r w1 where mw: "m w = (r, w1)" by (cases "m w")
  with assms(1) \<open>I w\<close> have "I w1" by (force simp: keeps_def)
  with mw assms(2) show "I (snd (bindE m f w))"
    by (cases r) (auto simp: bindE_def keeps_def)
qed

lemma keeps_map_err [intro]: "keeps I m \<Longrightarrow> keeps I (map_errE g m)"
  by (fastforce simp: keeps_def map_errE_def split: prod.splits sum.splits)

lemma keeps_try [intro]: "keeps I m \<Longrightarrow> keeps I (tryE m)"
  by (fastforce simp: keeps_def tryE_def split: prod.splits)

lemma keeps_if [intro]: "keeps I m \<Longrightarrow> keeps I n \<Longrightarrow> keeps I (if b then m else n)"
  by simp

lemma keeps_iff_hoare: "keeps I m \<longleftrightarrow> hoare I m (\<lambda>_. I) (\<lambda>_. I)"
proof
  assume "keeps I m"
  then show "hoare I m (\<lambda>_. I) (\<lambda>_. I)"
    by (intro hoareI) (force simp: keeps_def)+
next
  assume h: "hoare I m (\<lambda>_. I) (\<lambda>_. I)"
  show "keeps I m"
    unfolding keeps_def
  proof (intro allI impI)
    fix w
    assume "I w"
    then show "I (snd (m w))"
      using h by (cases "m w"; cases "fst (m w)") (auto dest: hoare_InlD hoare_InrD)
  qed
qed

lemma keepsD: "keeps I m \<Longrightarrow> I w \<Longrightarrow> m w = (r, w') \<Longrightarrow> I w'"
  by (force simp: keeps_def)

lemma hoare_conj_keeps:
  assumes "hoare P m Q R" and "keeps I m"
  shows "hoare (\<lambda>w. P w \<and> I w) m (\<lambda>x w. Q x w \<and> I w) (\<lambda>e w. R e w \<and> I w)"
  using assms by (intro hoareI) (auto dest: hoare_InlD hoare_InrD keepsD)

lemma bindE_InrE:
  assumes "bindE m f w = (Inr y, w')"
  obtains x w1 where "m w = (Inr x, w1)" and "f x w1 = (Inr y, w')"
  using assms by (auto simp: bindE_def split: prod.splits sum.splits)

lemma map_errE_InrE:
  assumes "map_errE g m w = (Inr y, w')"
  obtains "m w = (Inr y, w')"
  using assms by (auto simp: map_errE_def split: prod.splits sum.splits)

end
