(* ===== verification/Protocol.thy ===== *)
theory Protocol
  imports Prelude
begin

text \<open>
  The vocabulary of \<open>crates/onesync-protocol\<close>: the string enums (\<open>enums.rs\<close>), typed
  identifiers (\<open>id.rs\<close>), the primitive newtypes and the content digest
  (\<open>primitives.rs\<close>), and JSON values as far as op metadata and audit payloads need them.

  Third-party functions (the text form of a ULID) are arguments of the definitions that
  use them.
\<close>

section \<open>Enums\<close>

datatype file_kind = File | Directory
datatype account_kind = Personal | Business
datatype pair_status = Initializing | Active | Paused | Errored | Removed
datatype file_sync_state = Clean | Dirty | PendingUpload | PendingDownload | PendingConflict | InFlight
datatype file_op_kind =
  Upload | Download | LocalDelete | RemoteDelete | LocalMkdir | RemoteMkdir | LocalRename | RemoteRename
datatype file_op_status = Enqueued | InProgress | Backoff | Success | Failed
datatype run_trigger = Scheduled | LocalEvent | RemoteWebhook | CliForce | BackoffRetry
datatype run_outcome = OutcomeSuccess | OutcomePartialFailure | OutcomeAborted
datatype conflict_side = SideLocal | SideRemote
datatype conflict_resolution = Auto | Manual
datatype audit_level = LevelInfo | LevelWarn | LevelError
datatype log_level = LogInfo | LogDebug | LogTrace

text \<open>The derived \<open>Debug\<close> form of an op kind, and the serde form of a conflict side.\<close>

fun file_op_kind_debug :: "file_op_kind \<Rightarrow> string" where
  "file_op_kind_debug Upload = ''Upload''"
| "file_op_kind_debug Download = ''Download''"
| "file_op_kind_debug LocalDelete = ''LocalDelete''"
| "file_op_kind_debug RemoteDelete = ''RemoteDelete''"
| "file_op_kind_debug LocalMkdir = ''LocalMkdir''"
| "file_op_kind_debug RemoteMkdir = ''RemoteMkdir''"
| "file_op_kind_debug LocalRename = ''LocalRename''"
| "file_op_kind_debug RemoteRename = ''RemoteRename''"

fun conflict_side_json :: "conflict_side \<Rightarrow> string" where
  "conflict_side_json SideLocal = ''local''"
| "conflict_side_json SideRemote = ''remote''"

section \<open>JSON\<close>

datatype json =
    JNull
  | JBool bool
  | JNum nat
  | JString string
  | JArray "json list"
  | JObject "(string \<times> json) list"

type_synonym json_map = "(string \<times> json) list"

text \<open>\<open>Map::insert\<close> replaces the value of an existing key; \<open>Map::get\<close> is \<open>map_of\<close>.\<close>

fun json_insert :: "string \<Rightarrow> json \<Rightarrow> json_map \<Rightarrow> json_map" where
  "json_insert k v [] = [(k, v)]"
| "json_insert k v ((k', v') # m) = (if k = k' then (k, v) # m else (k', v') # json_insert k v m)"

fun json_as_str :: "json \<Rightarrow> string option" where
  "json_as_str (JString s) = Some s"
| "json_as_str _ = None"

fun json_as_bool :: "json \<Rightarrow> bool option" where
  "json_as_bool (JBool b) = Some b"
| "json_as_bool _ = None"

definition json_get_str :: "json_map \<Rightarrow> string \<Rightarrow> string option" where
  "json_get_str m k = (case map_of m k of None \<Rightarrow> None | Some v \<Rightarrow> json_as_str v)"

definition json_get_bool :: "json_map \<Rightarrow> string \<Rightarrow> bool option" where
  "json_get_bool m k = (case map_of m k of None \<Rightarrow> None | Some v \<Rightarrow> json_as_bool v)"

lemma map_of_json_insert [simp]: "map_of (json_insert k v m) = (map_of m)(k \<mapsto> v)"
  by (induction k v m rule: json_insert.induct) auto

lemma json_get_str_insert [simp]:
  "json_get_str (json_insert k v m) k' = (if k' = k then json_as_str v else json_get_str m k')"
  by (simp add: json_get_str_def)

lemma json_get_bool_insert [simp]:
  "json_get_bool (json_insert k v m) k' = (if k' = k then json_as_bool v else json_get_bool m k')"
  by (simp add: json_get_bool_def)

lemma json_get_Nil [simp]: "json_get_str [] k = None" "json_get_bool [] k = None"
  by (simp_all add: json_get_str_def json_get_bool_def)

section \<open>Primitives\<close>

text \<open>A UTC instant, in nanoseconds from the Unix epoch (chrono's resolution).\<close>

type_synonym timestamp = int

datatype etag = ETag (etag_str: string)
datatype drive_item_id = DriveItemId (drive_item_id_str: string)
datatype drive_id = DriveId (drive_id_str: string)
datatype delta_cursor = DeltaCursor (delta_cursor_str: string)
datatype keychain_ref = KeychainRef (keychain_ref_str: string)

text \<open>The BLAKE3 digest: 32 bytes in the source's fixed-size array.\<close>

datatype content_hash = ContentHash (hash_bytes: "u8 list")

datatype content_hash_parse_error = WrongLength nat | NonHex nat

definition decode_nibble :: "char \<Rightarrow> u8 option" where
  "decode_nibble c =
     (let b = (of_char c :: u8) in
      if of_char CHR ''0'' \<le> b \<and> b \<le> of_char CHR ''9'' then Some (b - of_char CHR ''0'')
      else if of_char CHR ''a'' \<le> b \<and> b \<le> of_char CHR ''f'' then Some (b - of_char CHR ''a'' + 10)
      else if of_char CHR ''A'' \<le> b \<and> b \<le> of_char CHR ''F'' then Some (b - of_char CHR ''A'' + 10)
      else None)"

text \<open>The loop over \<open>chunks(2)\<close>; \<open>i\<close> is the chunk index.\<close>

fun decode_hex_chunks :: "nat \<Rightarrow> string \<Rightarrow> content_hash_parse_error + u8 list" where
  "decode_hex_chunks i (a # b # rest) =
     (case decode_nibble a of
        None \<Rightarrow> Inl (NonHex (i * 2))
      | Some hi \<Rightarrow>
          (case decode_nibble b of
             None \<Rightarrow> Inl (NonHex (i * 2 + 1))
           | Some lo \<Rightarrow>
               (case decode_hex_chunks (Suc i) rest of
                  Inl e \<Rightarrow> Inl e
                | Inr bs \<Rightarrow> Inr ((push_bit 4 hi OR lo) # bs))))"
| "decode_hex_chunks i _ = Inr []"

definition content_hash_from_str :: "string \<Rightarrow> content_hash_parse_error + content_hash" where
  "content_hash_from_str s =
     (if length s \<noteq> 64 then Inl (WrongLength (length s))
      else (case decode_hex_chunks 0 s of Inl e \<Rightarrow> Inl e | Inr bs \<Rightarrow> Inr (ContentHash bs)))"

definition hex_digit :: "u8 \<Rightarrow> char" where
  "hex_digit n = (if n < 10 then char_of (48 + unat n) else char_of (87 + unat n))"

definition show_byte_02x :: "u8 \<Rightarrow> string" where
  "show_byte_02x b = [hex_digit (drop_bit 4 b), hex_digit (b AND 15)]"

definition content_hash_display :: "content_hash \<Rightarrow> string" where
  "content_hash_display h = concat (map show_byte_02x (hash_bytes h))"

definition wf_content_hash :: "content_hash \<Rightarrow> bool" where
  "wf_content_hash h = (length (hash_bytes h) = 32)"

section \<open>Identifiers\<close>

text \<open>\<open>Id<T>\<close> is a ULID with a phantom tag; the tag's prefix is passed where it is printed.\<close>

datatype 't id_of = Id (id_ulid: u128)

datatype pair_tag = PairTag
datatype account_tag = AccountTag
datatype conflict_tag = ConflictTag
datatype sync_run_tag = SyncRunTag
datatype file_op_tag = FileOpTag
datatype audit_tag = AuditTag

type_synonym pair_id = "pair_tag id_of"
type_synonym account_id = "account_tag id_of"
type_synonym conflict_id = "conflict_tag id_of"
type_synonym sync_run_id = "sync_run_tag id_of"
type_synonym file_op_id = "file_op_tag id_of"
type_synonym audit_event_id = "audit_tag id_of"

definition pair_prefix :: string where "pair_prefix = ''pair''"
definition account_prefix :: string where "account_prefix = ''acct''"
definition conflict_prefix :: string where "conflict_prefix = ''cfl''"
definition sync_run_prefix :: string where "sync_run_prefix = ''run''"
definition file_op_prefix :: string where "file_op_prefix = ''op''"
definition audit_prefix :: string where "audit_prefix = ''aud''"

datatype id_parse_error =
    MissingSeparator
  | WrongPrefix string string
  | MalformedUlid string

definition id_display :: "(u128 \<Rightarrow> string) \<Rightarrow> string \<Rightarrow> 't id_of \<Rightarrow> string" where
  "id_display ulid_show prefix i = prefix @ ''_'' @ ulid_show (id_ulid i)"

definition id_from_str ::
  "(string \<Rightarrow> string + u128) \<Rightarrow> string \<Rightarrow> string \<Rightarrow> id_parse_error + 't id_of" where
  "id_from_str ulid_parse expected s =
     (case split_once CHR ''_'' s of
        None \<Rightarrow> Inl MissingSeparator
      | Some (prefix, body) \<Rightarrow>
          if prefix \<noteq> expected then Inl (WrongPrefix prefix expected)
          else (case ulid_parse body of
                  Inl e \<Rightarrow> Inl (MalformedUlid e)
                | Inr u \<Rightarrow> Inr (Id u)))"

section \<open>Lemmas\<close>

lemma nibble_cases:
  assumes "n < (16 :: u8)"
  shows "n \<in> {0, 1, 2, 3, 4, 5, 6, 7, 8, 9, 10, 11, 12, 13, 14, 15}"
proof -
  have "unat n < 16" using assms by (simp add: word_less_nat_alt)
  then have "unat n \<in> {0, 1, 2, 3, 4, 5, 6, 7, 8, 9, 10, 11, 12, 13, 14, 15}" by (simp; presburger)
  then have "word_of_nat (unat n) \<in> (word_of_nat :: nat \<Rightarrow> u8) ` {0, 1, 2, 3, 4, 5, 6, 7, 8, 9, 10, 11, 12, 13, 14, 15}"
    by (rule imageI)
  then show ?thesis by simp
qed

lemma decode_nibble_hex_digit: "n < 16 \<Longrightarrow> decode_nibble (hex_digit n) = Some n"
  by (drule nibble_cases) (elim insertE emptyE; hypsubst; code_simp)

lemma high_nibble_less: "drop_bit 4 (b :: u8) < 16"
  using unsigned_less [of b, where ?'a = nat]
  by (simp add: word_less_nat_alt unat_drop_bit_eq drop_bit_nat_def div_less_iff_less_mult)

lemma low_nibble_less: "(b :: u8) AND 15 < 16"
  by (rule le_less_trans [OF word_and_le1]) simp

lemma nibbles_join: "push_bit 4 (drop_bit 4 b) OR (b AND 15) = (b :: u8)"
proof -
  have "(15 :: u8) = mask 4" by (simp add: mask_eq_exp_minus_1)
  then have "b AND 15 = take_bit 4 b" by (simp add: take_bit_eq_mask)
  then show ?thesis
    by simp (rule bit_word_eqI, auto simp: bit_simps)
qed

lemma length_show_byte [simp]: "length (show_byte_02x b) = 2"
  by (simp add: show_byte_02x_def)

lemma length_hash_display: "length (content_hash_display h) = 2 * length (hash_bytes h)"
  by (simp add: content_hash_display_def length_concat comp_def sum_list_triv)

lemma decode_hex_chunks_show:
  "decode_hex_chunks i (concat (map show_byte_02x bs)) = Inr bs"
proof (induction bs arbitrary: i)
  case Nil
  then show ?case by simp
next
  case (Cons b bs)
  then show ?case
    by (simp add: show_byte_02x_def decode_nibble_hex_digit high_nibble_less low_nibble_less
        nibbles_join)
qed

lemma decode_hex_chunks_length:
  "decode_hex_chunks i s = Inr bs \<Longrightarrow> length bs = length s div 2"
  by (induction i s arbitrary: bs rule: decode_hex_chunks.induct)
     (auto split: option.splits sum.splits)

lemma decode_hex_chunks_NonHex:
  "decode_hex_chunks i s = Inl e \<Longrightarrow>
   \<exists>k < length s. e = NonHex (i * 2 + k) \<and> decode_nibble (s ! k) = None
     \<and> (\<forall>j < k. decode_nibble (s ! j) \<noteq> None)"
proof (induction i s arbitrary: e rule: decode_hex_chunks.induct)
  case (1 i a b rest)
  show ?case
  proof (cases "decode_nibble a")
    case None
    with "1.prems" show ?thesis by (intro exI [of _ 0]) auto
  next
    case hi: (Some hi)
    show ?thesis
    proof (cases "decode_nibble b")
      case None
      with hi "1.prems" show ?thesis by (intro exI [of _ 1]) auto
    next
      case lo: (Some lo)
      with hi "1.prems" have rest: "decode_hex_chunks (Suc i) rest = Inl e"
        by (auto split: sum.splits)
      from "1.IH" [OF hi lo rest] obtain k where k: "k < length rest" "e = NonHex (Suc i * 2 + k)"
        "decode_nibble (rest ! k) = None" "\<forall>j<k. decode_nibble (rest ! j) \<noteq> None" by blast
      have "\<forall>j < Suc (Suc k). decode_nibble ((a # b # rest) ! j) \<noteq> None"
        using hi lo k(4) by (auto simp: less_Suc_eq_0_disj)
      with k show ?thesis by (intro exI [of _ "Suc (Suc k)"]) auto
    qed
  qed
qed auto

text \<open>
  The text form of a content digest is faithful: printing any 32-byte digest and parsing
  it back returns the digest.
\<close>
theorem content_hash_roundtrip:
  assumes "wf_content_hash h"
  shows "content_hash_from_str (content_hash_display h) = Inr h"
proof -
  have "length (content_hash_display h) = 64"
    using assms by (simp add: length_hash_display wf_content_hash_def)
  then show ?thesis
    by (simp add: content_hash_from_str_def content_hash_display_def decode_hex_chunks_show)
qed

theorem content_hash_roundtrip_witness:
  "content_hash_from_str (content_hash_display (ContentHash (replicate 32 0xAB)))
   = Inr (ContentHash (replicate 32 0xAB))"
  by (rule content_hash_roundtrip) (simp add: wf_content_hash_def)

text \<open>
  Parsing a digest accepts exactly the strings of 64 hexadecimal characters; it always
  yields 32 bytes, and on a 64-byte string that is not hexadecimal it reports the position of
  the first offending character.
\<close>
theorem content_hash_from_str_cases:
  "case content_hash_from_str s of
     Inr h \<Rightarrow> length s = 64 \<and> wf_content_hash h
   | Inl (WrongLength n) \<Rightarrow> n = length s \<and> n \<noteq> 64
   | Inl (NonHex k) \<Rightarrow> length s = 64 \<and> k < 64 \<and> decode_nibble (s ! k) = None
       \<and> list_all (\<lambda>c. decode_nibble c \<noteq> None) (take k s)"
proof (cases "length s = 64")
  case False
  then show ?thesis by (simp add: content_hash_from_str_def)
next
  case len: True
  show ?thesis
  proof (cases "decode_hex_chunks 0 s")
    case (Inl e)
    from decode_hex_chunks_NonHex [OF Inl] obtain k where "k < length s" "e = NonHex k"
      "decode_nibble (s ! k) = None" "\<forall>j<k. decode_nibble (s ! j) \<noteq> None" by auto
    then show ?thesis
      using len Inl by (auto simp: content_hash_from_str_def list_all_length)
  next
    case (Inr bs)
    with decode_hex_chunks_length [OF Inr] len show ?thesis
      by (simp add: content_hash_from_str_def wf_content_hash_def)
  qed
qed

text \<open>
  Identifiers round-trip: an id printed under its own prefix parses back to itself, and
  parsing it under any other prefix fails with \<open>WrongPrefix\<close>, so ids of different kinds are
  never confused.
\<close>
theorem id_roundtrip:
  assumes ulid: "\<And>u. ulid_parse (ulid_show u) = Inr u" and sep: "CHR ''_'' \<notin> set prefix"
  shows "id_from_str ulid_parse expected (id_display ulid_show prefix i) =
     (if prefix = expected then Inr i else Inl (WrongPrefix prefix expected))"
  using split_once_append [OF sep, of "ulid_show (id_ulid i)"] ulid
  by (cases i) (simp add: id_from_str_def id_display_def)

theorem id_roundtrip_witness:
  "id_from_str (\<lambda>s. Inr (word_of_nat (length s))) pair_prefix
     (id_display (\<lambda>u. replicate (unat u) CHR ''0'') pair_prefix (Id 3 :: pair_id))
   = (Inr (Id 3) :: id_parse_error + pair_id)"
  using id_roundtrip [where ulid_parse = "\<lambda>s. Inr (word_of_nat (length s))"
      and ulid_show = "\<lambda>u. replicate (unat u) CHR ''0''" and prefix = pair_prefix
      and expected = pair_prefix and i = "Id 3 :: pair_id"]
  by (simp add: pair_prefix_def del: replicate.simps)

end
