(* ===== verification/Paths.thy ===== *)
theory Paths
  imports Protocol
begin

text \<open>
  Path newtypes (\<open>crates/onesync-protocol/src/path.rs\<close>): validation of relative and
  absolute paths, the record \<open>lib\<close> of library functions the model is parameterised by, and
  the path facts every component uses: what a parsed path can contain and how joining a root
  and a relative path behaves.
\<close>

section \<open>Path types and validation\<close>

definition MAX_PATH_BYTES :: nat where "MAX_PATH_BYTES = 1024"

datatype rel_path = RelPath (rel_str: string)
datatype abs_path = AbsPath (abs_str: string)

datatype path_parse_error =
    Empty
  | TooLong nat nat
  | EmbeddedNul
  | ParentComponent
  | LeadingSlash
  | NotAbsolute

fun path_parse_error_display :: "path_parse_error \<Rightarrow> string" where
  "path_parse_error_display Empty = ''path is empty''"
| "path_parse_error_display (TooLong got limit) =
     ''path exceeds '' @ show_nat limit @ ''-byte limit (got '' @ show_nat got @ '')''"
| "path_parse_error_display EmbeddedNul = ''path contains embedded NUL''"
| "path_parse_error_display ParentComponent = ''path contains a `..` component''"
| "path_parse_error_display LeadingSlash =
     ''relative path must not start with '' @ [CHR 0x27, CHR ''/'', CHR 0x27]"
| "path_parse_error_display NotAbsolute =
     ''absolute path must start with '' @ [CHR 0x27, CHR ''/'', CHR 0x27]"

definition validate_common :: "string \<Rightarrow> path_parse_error + unit" where
  "validate_common s =
     (if s = [] then Inl Empty
      else if length s > MAX_PATH_BYTES then Inl (TooLong (length s) MAX_PATH_BYTES)
      else if CHR 0x00 \<in> set s then Inl EmbeddedNul
      else if ''..'' \<in> set (split_on CHR ''/'' s) then Inl ParentComponent
      else Inr ())"

definition rel_path_from_str :: "(string \<Rightarrow> string) \<Rightarrow> string \<Rightarrow> path_parse_error + rel_path" where
  "rel_path_from_str nfc s =
     (if starts_with_char CHR ''/'' s then Inl LeadingSlash
      else (case validate_common (nfc s) of Inl e \<Rightarrow> Inl e | Inr _ \<Rightarrow> Inr (RelPath (nfc s))))"

definition abs_path_from_str :: "string \<Rightarrow> path_parse_error + abs_path" where
  "abs_path_from_str s =
     (if \<not> starts_with_char CHR ''/'' s then Inl NotAbsolute
      else (case validate_common s of Inl e \<Rightarrow> Inl e | Inr _ \<Rightarrow> Inr (AbsPath s)))"

text \<open>The derived order on \<open>RelPath\<close> is the byte order of its string.\<close>

instantiation rel_path :: linorder
begin

definition less_eq_rel_path :: "rel_path \<Rightarrow> rel_path \<Rightarrow> bool" where
  "less_eq_rel_path a b \<longleftrightarrow> rel_str a \<le> rel_str b"

definition less_rel_path :: "rel_path \<Rightarrow> rel_path \<Rightarrow> bool" where
  "less_rel_path a b \<longleftrightarrow> rel_str a < rel_str b"

instance
  by standard (auto simp: less_eq_rel_path_def less_rel_path_def rel_path.expand)

end

section \<open>Library functions\<close>

text \<open>
  Third-party and standard-library functions used by the code: \<open>str::nfc\<close>
  (unicode-normalization), \<open>str::to_lowercase\<close>, the hexadecimal BLAKE3 digest of a byte
  string, chrono's \<open>%Y-%m-%dT%H-%M-%SZ\<close>, the text form of a ULID, and the order in which a
  \<open>HashMap\<close> is iterated (of the given keys, or as positions of its entries).
\<close>

record lib =
  lib_nfc :: "string \<Rightarrow> string"
  lib_lowercase :: "string \<Rightarrow> string"
  lib_blake3_hex :: "string \<Rightarrow> string"
  lib_format_utc :: "timestamp \<Rightarrow> string"
  lib_ulid_show :: "u128 \<Rightarrow> string"
  lib_ulid_parse :: "string \<Rightarrow> string + u128"
  lib_hash_order :: "rel_path list \<Rightarrow> rel_path list"
  lib_map_order :: "nat \<Rightarrow> nat list"

abbreviation parse_rel :: "lib \<Rightarrow> string \<Rightarrow> path_parse_error + rel_path" where
  "parse_rel L \<equiv> rel_path_from_str (lib_nfc L)"

text \<open>
  What the code relies on: NFC leaves ASCII text as it is and does not put a slash in front
  of a text that does not start with one; a \<open>HashMap\<close> iterates over each of its keys once.
\<close>

definition nfc_laws :: "(string \<Rightarrow> string) \<Rightarrow> bool" where
  "nfc_laws nfc \<longleftrightarrow>
     (\<forall>s. is_ascii s \<longrightarrow> nfc s = s)
     \<and> (\<forall>s. starts_with_char CHR ''/'' (nfc s) \<longrightarrow> starts_with_char CHR ''/'' s)"

definition map_order_laws :: "(nat \<Rightarrow> nat list) \<Rightarrow> bool" where
  "map_order_laws ord \<longleftrightarrow> (\<forall>n. distinct (ord n) \<and> set (ord n) = {..<n})"

definition hash_order_laws :: "(rel_path list \<Rightarrow> rel_path list) \<Rightarrow> bool" where
  "hash_order_laws ord \<longleftrightarrow> (\<forall>ks. set (ord ks) = set ks \<and> (distinct ks \<longrightarrow> distinct (ord ks)))"

section \<open>What a valid path is\<close>

definition wf_path :: "string \<Rightarrow> bool" where
  "wf_path s \<longleftrightarrow> s \<noteq> [] \<and> length s \<le> MAX_PATH_BYTES \<and> CHR 0x00 \<notin> set s
     \<and> ''..'' \<notin> set (split_on CHR ''/'' s)"

definition wf_rel :: "rel_path \<Rightarrow> bool" where
  "wf_rel p \<longleftrightarrow> wf_path (rel_str p) \<and> \<not> starts_with_char CHR ''/'' (rel_str p)"

definition wf_abs :: "abs_path \<Rightarrow> bool" where
  "wf_abs p \<longleftrightarrow> wf_path (abs_str p) \<and> starts_with_char CHR ''/'' (abs_str p)"

lemma validate_common_Inr: "validate_common s = Inr u \<longleftrightarrow> wf_path s"
  by (simp add: validate_common_def wf_path_def not_less)



lemma rel_path_from_str_Inr:
  "rel_path_from_str nfc s = Inr p \<longleftrightarrow>
     \<not> starts_with_char CHR ''/'' s \<and> wf_path (nfc s) \<and> p = RelPath (nfc s)"
  by (auto simp: rel_path_from_str_def validate_common_Inr split: sum.splits)
     (metis validate_common_Inr sum.exhaust_sel Inr_Inl_False projl_def sum.distinct(1))

lemma abs_path_from_str_Inr:
  "abs_path_from_str s = Inr p \<longleftrightarrow>
     starts_with_char CHR ''/'' s \<and> wf_path s \<and> p = AbsPath s"
  by (auto simp: abs_path_from_str_def validate_common_Inr split: sum.splits)
     (metis validate_common_Inr sum.distinct(1))

text \<open>
  C40: Path validation establishes the path discipline: every relative path that parses is
  non-empty, at most 1024 bytes, free of NUL bytes and of \<open>..\<close> components, and does not
  start with a slash; every absolute path that parses starts with one and is otherwise as
  restricted.
\<close>
theorem parsed_paths_wf:
  assumes "nfc_laws nfc"
  shows "(\<forall>p. rel_path_from_str nfc s = Inr p \<longrightarrow> wf_rel p)
    \<and> (\<forall>q. abs_path_from_str s = Inr q \<longrightarrow> wf_abs q)"
proof -
  have slash: "starts_with_char CHR ''/'' (nfc s) \<Longrightarrow> starts_with_char CHR ''/'' s"
    using assms unfolding nfc_laws_def by blast
  show ?thesis
    using slash by (auto simp: rel_path_from_str_Inr abs_path_from_str_Inr wf_rel_def wf_abs_def)
qed

lemma nfc_laws_id: "nfc_laws (\<lambda>s. s)"
  by (simp add: nfc_laws_def)

theorem parsed_paths_wf_witness:
  "rel_path_from_str (\<lambda>s. s) ''a/b'' = Inr (RelPath ''a/b'') \<and> wf_rel (RelPath ''a/b'')"
proof -
  have p: "rel_path_from_str (\<lambda>s. s) ''a/b'' = Inr (RelPath ''a/b'')"
    by (simp add: rel_path_from_str_Inr wf_path_def starts_with_char_def MAX_PATH_BYTES_def)
  with parsed_paths_wf [OF nfc_laws_id, of "''a/b''"] show ?thesis by simp
qed

section \<open>Joining a root and a relative path\<close>

text \<open>
  Both \<open>join_abs\<close> (cycle.rs) and \<open>join_path\<close> (executor.rs) parse \<open>root/rel\<close> as an
  absolute path; the string itself is \<open>join_str\<close>.
\<close>

definition join_str :: "abs_path \<Rightarrow> string \<Rightarrow> string" where
  "join_str lroot rel = abs_str lroot @ ''/'' @ rel"

lemma split_join_str:
  "split_on CHR ''/'' (join_str lroot rel) = split_on CHR ''/'' (abs_str lroot) @ split_on CHR ''/'' rel"
  using split_on_append [of "CHR ''/''" "abs_str lroot" rel] by (simp add: join_str_def)

lemma join_str_parse:
  assumes "wf_abs lroot" and "wf_path rel" and "length (join_str lroot rel) \<le> MAX_PATH_BYTES"
  shows "abs_path_from_str (join_str lroot rel) = Inr (AbsPath (join_str lroot rel))"
  using assms split_join_str [of lroot rel]
  by (auto simp: abs_path_from_str_Inr wf_abs_def wf_path_def join_str_def starts_with_char_def
      split: list.splits)

lemma join_str_parse_wf: "abs_path_from_str (join_str lroot rel) = Inr p \<Longrightarrow> wf_abs p \<and> abs_str p = join_str lroot rel"
  by (auto simp: abs_path_from_str_Inr wf_abs_def)

end
