(* ===== verification/Entities.thy ===== *)
theory Entities
  imports Paths
begin

text \<open>
  The persisted entities and the remote types of \<open>crates/onesync-protocol\<close>: \<open>FileSide\<close>,
  \<open>FileEntry\<close>, \<open>FileOp\<close>, \<open>Pair\<close>, \<open>Conflict\<close>, \<open>SyncRun\<close>, \<open>AuditEvent\<close>, \<open>Account\<close>,
  \<open>InstanceConfig\<close>, and \<open>RemoteItem\<close>, \<open>DeltaPage\<close>, \<open>UploadSession\<close>.
  Field names carry a prefix per record.
\<close>

section \<open>Sides and entries\<close>

record file_side =
  fs_kind :: file_kind
  fs_size_bytes :: u64
  fs_content_hash :: "content_hash option"
  fs_mtime :: timestamp
  fs_etag :: "etag option"
  fs_remote_item_id :: "drive_item_id option"

text \<open>
  \<open>identifies_same_content_as\<close>; the \<open>debug_assert!\<close> of the source is compiled out of
  release builds and is stated separately as \<open>hashes_carried\<close>.
\<close>

definition identifies_same_content_as :: "file_side \<Rightarrow> file_side \<Rightarrow> bool" where
  "identifies_same_content_as a b \<longleftrightarrow>
     fs_kind a = fs_kind b \<and> fs_size_bytes a = fs_size_bytes b
     \<and> fs_content_hash a = fs_content_hash b"

definition hashes_carried :: "file_side \<Rightarrow> file_side \<Rightarrow> bool" where
  "hashes_carried a b \<longleftrightarrow>
     fs_kind a = Directory \<or> fs_content_hash a \<noteq> None
     \<or> fs_kind b = Directory \<or> fs_content_hash b \<noteq> None"

record file_entry =
  fe_pair_id :: pair_id
  fe_relative_path :: rel_path
  fe_kind :: file_kind
  fe_sync_state :: file_sync_state
  fe_local :: "file_side option"
  fe_remote :: "file_side option"
  fe_synced :: "file_side option"
  fe_pending_op_id :: "file_op_id option"
  fe_updated_at :: timestamp

section \<open>Errors, operations, runs, conflicts, audit events\<close>

record error_envelope =
  ee_kind :: string
  ee_message :: string
  ee_retryable :: bool
  ee_request_id :: "string option"
  ee_context :: json_map

record rpc_error =
  re_code :: int
  re_message :: string
  re_data :: "error_envelope option"

record file_op =
  op_id :: file_op_id
  op_run_id :: sync_run_id
  op_pair_id :: pair_id
  op_relative_path :: rel_path
  op_kind :: file_op_kind
  op_status :: file_op_status
  op_attempts :: nat
  op_last_error :: "error_envelope option"
  op_metadata :: json_map
  op_enqueued_at :: timestamp
  op_started_at :: "timestamp option"
  op_finished_at :: "timestamp option"

record pair =
  pr_id :: pair_id
  pr_account_id :: account_id
  pr_local_path :: abs_path
  pr_remote_item_id :: drive_item_id
  pr_remote_path :: string
  pr_display_name :: string
  pr_status :: pair_status
  pr_paused :: bool
  pr_delta_token :: "delta_cursor option"
  pr_errored_reason :: "string option"
  pr_created_at :: timestamp
  pr_updated_at :: timestamp
  pr_last_sync_at :: "timestamp option"
  pr_conflict_count :: u32
  pr_webhook_enabled :: bool

record conflict =
  cf_id :: conflict_id
  cf_pair_id :: pair_id
  cf_relative_path :: rel_path
  cf_winner :: conflict_side
  cf_loser_relative_path :: rel_path
  cf_local_side :: file_side
  cf_remote_side :: file_side
  cf_detected_at :: timestamp
  cf_resolved_at :: "timestamp option"
  cf_resolution :: "conflict_resolution option"
  cf_note :: "string option"

record sync_run =
  sr_id :: sync_run_id
  sr_pair_id :: pair_id
  sr_trigger :: run_trigger
  sr_started_at :: timestamp
  sr_finished_at :: "timestamp option"
  sr_local_ops :: u32
  sr_remote_ops :: u32
  sr_bytes_uploaded :: u64
  sr_bytes_downloaded :: u64
  sr_outcome :: "run_outcome option"
  sr_outcome_detail :: "string option"

record audit_event =
  ev_id :: audit_event_id
  ev_ts :: timestamp
  ev_level :: audit_level
  ev_kind :: string
  ev_pair_id :: "pair_id option"
  ev_payload :: json_map

record account =
  ac_id :: account_id
  ac_kind :: account_kind
  ac_upn :: string
  ac_tenant_id :: string
  ac_drive_id :: drive_id
  ac_display_name :: string
  ac_keychain_ref :: keychain_ref
  ac_scopes :: "string list"
  ac_created_at :: timestamp
  ac_updated_at :: timestamp

record instance_config =
  ic_log_level :: log_level
  ic_notify :: bool
  ic_allow_metered :: bool
  ic_min_free_gib :: u32
  ic_updated_at :: timestamp
  ic_azure_ad_client_id :: string
  ic_webhook_listener_port :: "16 word option"
  ic_webhook_notification_url :: "string option"

section \<open>Remote items\<close>

record file_hashes =
  fh_sha1_hash :: "string option"
  fh_quick_xor_hash :: "string option"

record parent_reference =
  pref_id :: "string option"
  pref_drive_id :: "string option"
  pref_path :: "string option"

text \<open>\<open>folder\<close> carries its child count, \<open>file\<close> its hashes, \<open>deleted\<close> nothing.\<close>

record remote_item =
  ri_id :: string
  ri_name :: string
  ri_size :: u64
  ri_e_tag :: "string option"
  ri_c_tag :: "string option"
  ri_last_modified :: "string option"
  ri_folder :: "u64 option"
  ri_file :: "file_hashes option"
  ri_deleted :: "unit option"
  ri_parent_reference :: "parent_reference option"

definition is_deleted :: "remote_item \<Rightarrow> bool" where
  "is_deleted r = (ri_deleted r \<noteq> None)"

definition is_folder :: "remote_item \<Rightarrow> bool" where
  "is_folder r = (ri_folder r \<noteq> None)"

record delta_page =
  dp_items :: "remote_item list"
  dp_next_link :: "string option"
  dp_delta_token :: "delta_cursor option"

datatype remote_item_id = RemoteItemId (remote_item_id_str: string)

record upload_session =
  us_upload_url :: string
  us_bytes_uploaded :: u64

type_synonym bytes = "u8 list"

section \<open>Content equality\<close>

text \<open>
  The content equality of two file sides is an equivalence relation that ignores mtime,
  etag and remote id: it depends on kind, size and content hash only.
\<close>
theorem content_equality_equivalence:
  "equivp identifies_same_content_as
   \<and> identifies_same_content_as
       (a\<lparr>fs_mtime := t, fs_etag := et, fs_remote_item_id := r\<rparr>) b
     = identifies_same_content_as a b"
  by (auto simp: identifies_same_content_as_def intro!: equivpI reflpI sympI transpI)

end
