(* ===== verification/Engine_Limits.thy ===== *)
theory Engine_Limits
  imports Prelude
begin

text \<open>
  The compile-time limits of \<open>crates/onesync-core/src/limits.rs\<close> that the modelled code
  uses.  \<open>u64\<close> limits that only bound lengths and delays are natural numbers.
\<close>

definition KIB :: nat where "KIB = 1024"
definition MIB :: nat where "MIB = 1024 * KIB"
definition GIB :: nat where "GIB = 1024 * MIB"

definition RETRY_MAX_ATTEMPTS :: nat where "RETRY_MAX_ATTEMPTS = 5"
definition RETRY_BACKOFF_BASE_MS :: nat where "RETRY_BACKOFF_BASE_MS = 1000"
definition CONFLICT_MTIME_TOLERANCE_MS :: nat where "CONFLICT_MTIME_TOLERANCE_MS = 1000"
definition CONFLICT_RENAME_RETRIES :: nat where "CONFLICT_RENAME_RETRIES = 8"
definition GRAPH_SMALL_UPLOAD_MAX_BYTES :: nat where "GRAPH_SMALL_UPLOAD_MAX_BYTES = 4 * MIB"
definition TOKEN_REFRESH_LEEWAY_S :: nat where "TOKEN_REFRESH_LEEWAY_S = 120"
definition HASH_BLOCK_BYTES :: nat where "HASH_BLOCK_BYTES = 1024 * 1024"
definition SESSION_CHUNK_BYTES :: nat where "SESSION_CHUNK_BYTES = 10 * MIB"
definition GRAPH_RPS_PER_ACCOUNT :: nat where "GRAPH_RPS_PER_ACCOUNT = 8"
definition DELTA_POLL_INTERVAL_MS :: nat where "DELTA_POLL_INTERVAL_MS = 30000"
definition REMOTE_DEBOUNCE_MS :: nat where "REMOTE_DEBOUNCE_MS = 2000"
definition MAX_PAIRS_PER_INSTANCE :: nat where "MAX_PAIRS_PER_INSTANCE = 16"
definition AUDIT_RETENTION_DAYS :: nat where "AUDIT_RETENTION_DAYS = 30"
definition RUN_HISTORY_RETENTION_DAYS :: nat where "RUN_HISTORY_RETENTION_DAYS = 90"
definition CONFLICT_RETENTION_DAYS :: nat where "CONFLICT_RETENTION_DAYS = 180"
definition IPC_FRAME_MAX_BYTES :: nat where "IPC_FRAME_MAX_BYTES = MIB"

lemmas limit_defs = KIB_def MIB_def GIB_def RETRY_MAX_ATTEMPTS_def RETRY_BACKOFF_BASE_MS_def
  CONFLICT_MTIME_TOLERANCE_MS_def CONFLICT_RENAME_RETRIES_def GRAPH_SMALL_UPLOAD_MAX_BYTES_def
  TOKEN_REFRESH_LEEWAY_S_def HASH_BLOCK_BYTES_def SESSION_CHUNK_BYTES_def

end
