(* ===== verification/Ports.thy ===== *)
theory Ports
  imports Entities Engine_Limits
begin

text \<open>
  The ports of the engine (\<open>crates/onesync-core/src/ports\<close>): one record of operations per
  trait, over an arbitrary world type, the error types of the ports with their \<open>Display\<close>
  forms, and the context of a cycle.  A trait object may do anything to the world it is
  handed, so nothing about an operation is assumed here; what a client relies on is stated
  as a locale where it is used.
\<close>

section \<open>Port errors\<close>

datatype local_fs_error =
    LfNotFound string
  | LfPermissionDenied string
  | LfNotMounted string
  | LfDiskFull
  | LfQuotaExceeded
  | LfAlreadyRunning string
  | LfCrossVolumeRename string
  | LfInvalidPath string
  | LfRaced
  | LfIo string

fun local_fs_error_display :: "local_fs_error \<Rightarrow> string" where
  "local_fs_error_display (LfNotFound s) = ''not found: '' @ s"
| "local_fs_error_display (LfPermissionDenied s) = ''permission denied: '' @ s"
| "local_fs_error_display (LfNotMounted s) = ''not mounted: '' @ s"
| "local_fs_error_display LfDiskFull = ''disk full''"
| "local_fs_error_display LfQuotaExceeded = ''quota exceeded''"
| "local_fs_error_display (LfAlreadyRunning s) = ''already running: '' @ s"
| "local_fs_error_display (LfCrossVolumeRename m) = ''cross-volume rename ('' @ m @ '')''"
| "local_fs_error_display (LfInvalidPath r) = ''invalid path: '' @ r"
| "local_fs_error_display LfRaced = ''raced (mtime changed under us)''"
| "local_fs_error_display (LfIo s) = ''io: '' @ s"

datatype graph_error =
    GeUnauthorized
  | GeReAuthRequired
  | GeForbidden
  | GeNotFound
  | GeNameConflict
  | GeResyncRequired
  | GeStale string
  | GeInvalidRange
  | GeThrottled nat
  | GeTransient string
  | GeNetwork string
  | GeDecode string
  | GeHashMismatch
  | GeTooLarge

fun graph_error_display :: "graph_error \<Rightarrow> string" where
  "graph_error_display GeUnauthorized = ''unauthorized''"
| "graph_error_display GeReAuthRequired = ''re-authentication required''"
| "graph_error_display GeForbidden = ''forbidden''"
| "graph_error_display GeNotFound = ''not found''"
| "graph_error_display GeNameConflict = ''name conflict''"
| "graph_error_display GeResyncRequired = ''resync required''"
| "graph_error_display (GeStale t) = ''stale (server etag '' @ t @ '')''"
| "graph_error_display GeInvalidRange = ''invalid range''"
| "graph_error_display (GeThrottled n) = ''throttled (retry after '' @ show_nat n @ ''s)''"
| "graph_error_display (GeTransient s) = ''transient: '' @ s"
| "graph_error_display (GeNetwork d) = ''network: '' @ d"
| "graph_error_display (GeDecode d) = ''decode: '' @ d"
| "graph_error_display GeHashMismatch = ''hash mismatch''"
| "graph_error_display GeTooLarge = ''file too large''"

datatype state_error = SeIo string | SeSchema string | SeNotFound string | SeConstraint string

fun state_error_display :: "state_error \<Rightarrow> string" where
  "state_error_display (SeIo s) = ''backend i/o: '' @ s"
| "state_error_display (SeSchema s) = ''schema mismatch: '' @ s"
| "state_error_display (SeNotFound s) = ''not found: '' @ s"
| "state_error_display (SeConstraint s) = ''constraint violated: '' @ s"

datatype engine_error = EngPort string | EngShutdown

fun engine_error_display :: "engine_error \<Rightarrow> string" where
  "engine_error_display (EngPort s) = ''port error: '' @ s"
| "engine_error_display EngShutdown = ''shutting down''"

section \<open>Operating-system paths\<close>

text \<open>\<open>PathBuf\<close> holds arbitrary bytes; \<open>Path::to_str\<close> succeeds on valid UTF-8 only.\<close>

datatype path_buf = PathBuf string

definition utf8_cont :: "nat \<Rightarrow> bool" where
  "utf8_cont b \<longleftrightarrow> 128 \<le> b \<and> b \<le> 191"

fun utf8_valid :: "nat list \<Rightarrow> bool" where
  "utf8_valid [] = True"
| "utf8_valid (a # r) =
     (if a < 128 then utf8_valid r
      else if 194 \<le> a \<and> a \<le> 223 then
        (case r of b # r' \<Rightarrow> utf8_cont b \<and> utf8_valid r' | _ \<Rightarrow> False)
      else if 224 \<le> a \<and> a \<le> 239 then
        (case r of
           b # c # r' \<Rightarrow> utf8_cont b \<and> utf8_cont c \<and> (a = 224 \<longrightarrow> 160 \<le> b)
             \<and> (a = 237 \<longrightarrow> b \<le> 159) \<and> utf8_valid r'
         | _ \<Rightarrow> False)
      else if 240 \<le> a \<and> a \<le> 244 then
        (case r of
           b # c # d # r' \<Rightarrow> utf8_cont b \<and> utf8_cont c \<and> utf8_cont d \<and> (a = 240 \<longrightarrow> 144 \<le> b)
             \<and> (a = 244 \<longrightarrow> b \<le> 143) \<and> utf8_valid r'
         | _ \<Rightarrow> False)
      else False)"

fun path_to_str :: "path_buf \<Rightarrow> string option" where
  "path_to_str (PathBuf s) = (if utf8_valid (map of_char s) then Some s else None)"

record local_scan =
  ls_entries :: "(path_buf \<times> file_side) list"
  ls_symlinks_skipped :: "path_buf list"

section \<open>The traits\<close>

record 'w state_store =
  st_account_upsert :: "account \<Rightarrow> ('w, state_error, unit) io"
  st_account_get :: "account_id \<Rightarrow> ('w, state_error, account option) io"
  st_pair_upsert :: "pair \<Rightarrow> ('w, state_error, unit) io"
  st_pair_get :: "pair_id \<Rightarrow> ('w, state_error, pair option) io"
  st_pairs_active :: "('w, state_error, pair list) io"
  st_file_entry_upsert :: "file_entry \<Rightarrow> ('w, state_error, unit) io"
  st_file_entry_get :: "pair_id \<Rightarrow> rel_path \<Rightarrow> ('w, state_error, file_entry option) io"
  st_file_entry_get_ci :: "pair_id \<Rightarrow> rel_path \<Rightarrow> ('w, state_error, file_entry option) io"
  st_file_entries_dirty :: "pair_id \<Rightarrow> nat \<Rightarrow> ('w, state_error, file_entry list) io"
  st_run_record :: "sync_run \<Rightarrow> ('w, state_error, unit) io"
  st_op_insert :: "file_op \<Rightarrow> ('w, state_error, unit) io"
  st_op_update_status :: "file_op_id \<Rightarrow> file_op_status \<Rightarrow> nat \<Rightarrow> ('w, state_error, unit) io"
  st_conflict_insert :: "conflict \<Rightarrow> ('w, state_error, unit) io"
  st_conflicts_unresolved :: "pair_id \<Rightarrow> ('w, state_error, conflict list) io"
  st_audit_append :: "audit_event \<Rightarrow> ('w, state_error, unit) io"
  st_config_get :: "('w, state_error, instance_config option) io"
  st_config_upsert :: "instance_config \<Rightarrow> ('w, state_error, unit) io"
  st_accounts_list :: "('w, state_error, account list) io"
  st_account_remove :: "account_id \<Rightarrow> ('w, state_error, unit) io"
  st_pairs_list :: "account_id option \<Rightarrow> bool \<Rightarrow> ('w, state_error, pair list) io"
  st_conflict_get :: "conflict_id \<Rightarrow> ('w, state_error, conflict option) io"
  st_conflict_resolve ::
    "conflict_id \<Rightarrow> conflict_resolution \<Rightarrow> timestamp \<Rightarrow> string option \<Rightarrow> ('w, state_error, unit) io"
  st_runs_recent :: "pair_id \<Rightarrow> nat \<Rightarrow> ('w, state_error, sync_run list) io"
  st_run_get :: "sync_run_id \<Rightarrow> ('w, state_error, sync_run option) io"
  st_audit_recent :: "nat \<Rightarrow> ('w, state_error, audit_event list) io"
  st_audit_search ::
    "timestamp \<Rightarrow> timestamp \<Rightarrow> audit_level option \<Rightarrow> pair_id option \<Rightarrow> nat
     \<Rightarrow> ('w, state_error, audit_event list) io"
  st_backup_to :: "path_buf \<Rightarrow> ('w, state_error, unit) io"
  st_compact_now :: "timestamp \<Rightarrow> ('w, state_error, unit) io"

record 'w remote_drive =
  rd_delta :: "drive_id \<Rightarrow> delta_cursor option \<Rightarrow> ('w, graph_error, delta_page) io"
  rd_item_by_path :: "drive_id \<Rightarrow> string \<Rightarrow> ('w, graph_error, remote_item option) io"
  rd_download :: "remote_item_id \<Rightarrow> ('w, graph_error, bytes) io"
  rd_upload_small :: "remote_item_id \<Rightarrow> string \<Rightarrow> bytes \<Rightarrow> ('w, graph_error, remote_item) io"
  rd_upload_session :: "remote_item_id \<Rightarrow> string \<Rightarrow> u64 \<Rightarrow> ('w, graph_error, upload_session) io"
  rd_rename :: "remote_item_id \<Rightarrow> string \<Rightarrow> ('w, graph_error, remote_item) io"
  rd_delete :: "remote_item_id \<Rightarrow> ('w, graph_error, unit) io"
  rd_mkdir :: "remote_item_id \<Rightarrow> string \<Rightarrow> ('w, graph_error, remote_item) io"
  rd_subscribe :: "drive_id \<Rightarrow> string \<Rightarrow> string \<Rightarrow> ('w, graph_error, string) io"
  rd_unsubscribe :: "string \<Rightarrow> ('w, graph_error, unit) io"
  rd_renew_subscription :: "string \<Rightarrow> string \<Rightarrow> ('w, graph_error, unit) io"

record 'w local_fs =
  lf_scan :: "abs_path \<Rightarrow> ('w, local_fs_error, local_scan) io"
  lf_read :: "abs_path \<Rightarrow> ('w, local_fs_error, bytes) io"
  lf_write_atomic :: "abs_path \<Rightarrow> bytes \<Rightarrow> ('w, local_fs_error, file_side) io"
  lf_rename :: "abs_path \<Rightarrow> abs_path \<Rightarrow> ('w, local_fs_error, unit) io"
  lf_delete :: "abs_path \<Rightarrow> ('w, local_fs_error, unit) io"
  lf_mkdir_p :: "abs_path \<Rightarrow> ('w, local_fs_error, unit) io"
  lf_hash :: "abs_path \<Rightarrow> ('w, local_fs_error, content_hash) io"

text \<open>
  \<open>Clock\<close>, \<open>IdGenerator\<close> and \<open>AuditSink\<close> have one infallible method each; \<open>getrandom\<close>
  and \<open>tokio::time::sleep\<close> are the two library calls of the execute phase.
\<close>

record 'w runtime =
  rt_now :: "'w \<Rightarrow> timestamp \<times> 'w"
  rt_new_ulid :: "'w \<Rightarrow> u128 \<times> 'w"
  rt_emit :: "audit_event \<Rightarrow> 'w \<Rightarrow> 'w"
  rt_getrandom_u64 :: "'w \<Rightarrow> u64 option \<times> 'w"
  rt_sleep_ms :: "nat \<Rightarrow> 'w \<Rightarrow> 'w"

section \<open>The context of a cycle\<close>

record 'w cycle_ctx =
  cx_lib :: lib
  cx_pair_id :: pair_id
  cx_local_root :: abs_path
  cx_drive_id :: drive_id
  cx_cursor :: "delta_cursor option"
  cx_trigger :: run_trigger
  cx_state :: "'w state_store"
  cx_remote :: "'w remote_drive"
  cx_local :: "'w local_fs"
  cx_runtime :: "'w runtime"
  cx_host_name :: string

definition new_id :: "'w runtime \<Rightarrow> 'w \<Rightarrow> 't id_of \<times> 'w" where
  "new_id rt w = (case rt_new_ulid rt w of (u, w') \<Rightarrow> (Id u, w'))"

definition clock_now :: "'w cycle_ctx \<Rightarrow> ('w, 'e, timestamp) io" where
  "clock_now cx = liftE (rt_now (cx_runtime cx))"

definition fresh_id :: "'w cycle_ctx \<Rightarrow> ('w, 'e, 't id_of) io" where
  "fresh_id cx = liftE (new_id (cx_runtime cx))"

definition emit :: "'w cycle_ctx \<Rightarrow> audit_event \<Rightarrow> ('w, 'e, unit) io" where
  "emit cx ev = modifyE (rt_emit (cx_runtime cx) ev)"

text \<open>\<open>.map_err(|e| EngineError::Port(e.to_string()))?\<close> for the three fallible ports.\<close>

definition state_call :: "('w, state_error, 'a) io \<Rightarrow> ('w, engine_error, 'a) io" where
  "state_call m = map_errE (\<lambda>e. EngPort (state_error_display e)) m"

definition remote_call :: "('w, graph_error, 'a) io \<Rightarrow> ('w, engine_error, 'a) io" where
  "remote_call m = map_errE (\<lambda>e. EngPort (graph_error_display e)) m"

definition local_call :: "('w, local_fs_error, 'a) io \<Rightarrow> ('w, engine_error, 'a) io" where
  "local_call m = map_errE (\<lambda>e. EngPort (local_fs_error_display e)) m"

lemmas port_call_defs = state_call_def remote_call_def local_call_def clock_now_def fresh_id_def emit_def

lemma keeps_state_call [intro]: "keeps I m \<Longrightarrow> keeps I (state_call m)"
  by (auto simp: state_call_def)

lemma keeps_remote_call [intro]: "keeps I m \<Longrightarrow> keeps I (remote_call m)"
  by (auto simp: remote_call_def)

lemma keeps_local_call [intro]: "keeps I m \<Longrightarrow> keeps I (local_call m)"
  by (auto simp: local_call_def)

end
