(* ===== verification/Reconcile.thy ===== *)
theory Reconcile
  imports Ports
begin

text \<open>
  The engine's decision types (\<open>engine/types.rs\<close>) and the pure reconciliation function
  (\<open>engine/reconcile.rs\<close>), with the soundness of its decisions against a ghost notion of
  content: what a skip, an overwrite of either side and a conflict say about the files.
\<close>

section \<open>Decisions\<close>

datatype decision_kind =
    DUpload
  | DDownload
  | DLocalDelete
  | DRemoteDelete
  | DLocalMkdir
  | DRemoteMkdir
  | DLocalRename rel_path
  | DRemoteRename rel_path
  | DConflictDetected
  | DConflict conflict_side rel_path
  | DNoOp

record decision =
  d_pair_id :: pair_id
  d_relative_path :: rel_path
  d_kind :: decision_kind

fun to_file_op_kind :: "decision_kind \<Rightarrow> file_op_kind option" where
  "to_file_op_kind DUpload = Some Upload"
| "to_file_op_kind DDownload = Some Download"
| "to_file_op_kind DLocalDelete = Some LocalDelete"
| "to_file_op_kind DRemoteDelete = Some RemoteDelete"
| "to_file_op_kind DLocalMkdir = Some LocalMkdir"
| "to_file_op_kind DRemoteMkdir = Some RemoteMkdir"
| "to_file_op_kind (DLocalRename _) = Some LocalRename"
| "to_file_op_kind (DRemoteRename _) = Some RemoteRename"
| "to_file_op_kind DConflictDetected = None"
| "to_file_op_kind (DConflict _ _) = None"
| "to_file_op_kind DNoOp = None"

fun is_conflict :: "decision_kind \<Rightarrow> bool" where
  "is_conflict DConflictDetected = True"
| "is_conflict (DConflict _ _) = True"
| "is_conflict _ = False"

record cycle_summary =
  cs_remote_items_seen :: nat
  cs_local_events_seen :: nat
  cs_ops_applied :: nat
  cs_conflicts_detected :: nat
  cs_delta_token :: "delta_cursor option"

section \<open>Reconciliation\<close>

definition is_action_blocking :: "file_sync_state \<Rightarrow> bool" where
  "is_action_blocking s = (case s of InFlight \<Rightarrow> True | PendingConflict \<Rightarrow> True | _ \<Rightarrow> False)"

definition local_equals_remote :: "file_side \<Rightarrow> remote_item \<Rightarrow> bool" where
  "local_equals_remote l r =
     (let local_is_folder = (fs_kind l = Directory) in
      if local_is_folder \<noteq> is_folder r then False
      else if local_is_folder then True
      else if fs_size_bytes l \<noteq> ri_size r then False
      else if fs_size_bytes l = 0 then True
      else (case (fs_etag l, ri_e_tag r) of
              (Some le, Some re) \<Rightarrow> etag_str le = re
            | _ \<Rightarrow> False))"

definition remote_differs_from_synced :: "remote_item \<Rightarrow> file_side option \<Rightarrow> bool" where
  "remote_differs_from_synced r synced =
     (case synced of
        None \<Rightarrow> True
      | Some s \<Rightarrow>
          let synced_is_folder = (fs_kind s = Directory) in
          if synced_is_folder \<noteq> is_folder r then True
          else (case (fs_etag s, ri_e_tag r) of
                  (Some se, Some re) \<Rightarrow> etag_str se \<noteq> re
                | _ \<Rightarrow>
                    if fs_size_bytes s \<noteq> ri_size r then True
                    else if fs_size_bytes s = 0 then False
                    else True))"

definition local_differs_from_synced :: "file_side option \<Rightarrow> file_side option \<Rightarrow> bool" where
  "local_differs_from_synced l synced =
     (case (l, synced) of
        (None, None) \<Rightarrow> False
      | (None, Some _) \<Rightarrow> True
      | (Some _, None) \<Rightarrow> True
      | (Some l, Some s) \<Rightarrow> \<not> identifies_same_content_as l s)"

definition reconcile_both :: "file_entry \<Rightarrow> remote_item \<Rightarrow> decision_kind" where
  "reconcile_both entry remote =
     (if is_action_blocking (fe_sync_state entry) then DNoOp
      else
        let local_side = fe_local entry;
            synced_side = fe_synced entry;
            remote_changed = remote_differs_from_synced remote synced_side;
            local_changed = local_differs_from_synced local_side synced_side
        in case (local_changed, remote_changed) of
             (False, False) \<Rightarrow> DNoOp
           | (False, True) \<Rightarrow> if is_folder remote then DLocalMkdir else DDownload
           | (True, False) \<Rightarrow> if fe_kind entry = Directory then DRemoteMkdir else DUpload
           | (True, True) \<Rightarrow>
               (case local_side of
                  Some l \<Rightarrow> if local_equals_remote l remote then DNoOp else DConflictDetected
                | None \<Rightarrow> DConflictDetected))"

definition reconcile_kind :: "file_entry option \<Rightarrow> remote_item option \<Rightarrow> decision_kind" where
  "reconcile_kind entry remote =
     (case (entry, remote) of
        (None, None) \<Rightarrow> DNoOp
      | (None, Some r) \<Rightarrow> if is_folder r then DLocalMkdir else DDownload
      | (Some _, None) \<Rightarrow> DLocalDelete
      | (Some e, Some r) \<Rightarrow> reconcile_both e r)"

definition reconcile_one ::
  "pair_id \<Rightarrow> rel_path \<Rightarrow> file_entry option \<Rightarrow> remote_item option \<Rightarrow> decision" where
  "reconcile_one pid rp entry remote =
     \<lparr>d_pair_id = pid, d_relative_path = rp, d_kind = reconcile_kind entry remote\<rparr>"

section \<open>Soundness of the decisions\<close>

text \<open>
  Ghost content: \<open>ct\<close> gives the content a recorded side stands for, \<open>cr\<close> the content of a
  remote item.  The evidence the code uses is assumed to be evidence, on the recorded sides
  \<open>A\<close> and the remote items \<open>R\<close> that are compared: directories have no content, empty files are
  equal, equal digests and equal ETags mean equal content.  Nothing is said of sides outside
  \<open>A\<close>, so two sides with different digests or ETags may have any contents.
\<close>

definition content_model ::
  "(file_side \<Rightarrow> 'c) \<Rightarrow> (remote_item \<Rightarrow> 'c) \<Rightarrow> file_side set \<Rightarrow> remote_item set \<Rightarrow> bool" where
  "content_model ct cr A R \<longleftrightarrow>
     (\<forall>a\<in>A. \<forall>b\<in>A. fs_kind a = Directory \<and> fs_kind b = Directory \<longrightarrow> ct a = ct b)
     \<and> (\<forall>a\<in>A. \<forall>b\<in>A. fs_kind a = File \<and> fs_kind b = File
          \<and> fs_size_bytes a = 0 \<and> fs_size_bytes b = 0 \<longrightarrow> ct a = ct b)
     \<and> (\<forall>a\<in>A. \<forall>b\<in>A. \<forall>h. fs_kind a = fs_kind b
          \<and> fs_content_hash a = Some h \<and> fs_content_hash b = Some h \<longrightarrow> ct a = ct b)
     \<and> (\<forall>a\<in>A. \<forall>r\<in>R. fs_kind a = Directory \<and> is_folder r \<longrightarrow> ct a = cr r)
     \<and> (\<forall>a\<in>A. \<forall>r\<in>R. fs_kind a = File \<and> \<not> is_folder r \<and> fs_size_bytes a = 0 \<and> ri_size r = 0
          \<longrightarrow> ct a = cr r)
     \<and> (\<forall>a\<in>A. \<forall>r\<in>R. \<forall>t. fs_etag a = Some (ETag t) \<and> ri_e_tag r = Some t
          \<and> (fs_kind a = Directory) = is_folder r \<longrightarrow> ct a = cr r)"

text \<open>The two sides reconciliation compares: the local one and the last synced snapshot.\<close>

definition entry_sides :: "file_entry \<Rightarrow> file_side set" where
  "entry_sides e = set_option (fe_local e) \<union> set_option (fe_synced e)"

lemma entry_sidesI [intro]:
  "fe_local e = Some a \<Longrightarrow> a \<in> entry_sides e"
  "fe_synced e = Some a \<Longrightarrow> a \<in> entry_sides e"
  by (simp_all add: entry_sides_def)

text \<open>The source's debug assertion, for the two sides of an entry.\<close>

definition entry_hashes_carried :: "file_entry \<Rightarrow> bool" where
  "entry_hashes_carried e \<longleftrightarrow>
     (\<forall>l s. fe_local e = Some l \<longrightarrow> fe_synced e = Some s \<longrightarrow> hashes_carried l s)"

lemma file_kind_not_Directory [simp]: "k \<noteq> Directory \<longleftrightarrow> k = File"
  by (cases k) auto

lemma etag_eq_iff: "etag_str e = t \<longleftrightarrow> e = ETag t"
  by (cases e) auto

lemma content_modelD:
  assumes "content_model ct cr A R" and "a \<in> A"
  shows "b \<in> A \<Longrightarrow> fs_kind a = Directory \<Longrightarrow> fs_kind b = Directory \<Longrightarrow> ct a = ct b"
    and "b \<in> A \<Longrightarrow> fs_kind a = fs_kind b \<Longrightarrow> fs_content_hash a = Some h \<Longrightarrow> fs_content_hash b = Some h
         \<Longrightarrow> ct a = ct b"
    and "r \<in> R \<Longrightarrow> fs_kind a = Directory \<Longrightarrow> is_folder r \<Longrightarrow> ct a = cr r"
    and "r \<in> R \<Longrightarrow> fs_kind a = File \<Longrightarrow> \<not> is_folder r \<Longrightarrow> fs_size_bytes a = 0 \<Longrightarrow> ri_size r = 0
         \<Longrightarrow> ct a = cr r"
    and "r \<in> R \<Longrightarrow> fs_etag a = Some (ETag t) \<Longrightarrow> ri_e_tag r = Some t
         \<Longrightarrow> (fs_kind a = Directory) = is_folder r \<Longrightarrow> ct a = cr r"
  using assms unfolding content_model_def by blast+

lemma local_equals_remote_sound:
  assumes cm: "content_model ct cr A R" and l: "l \<in> A" and r: "r \<in> R" and eq: "local_equals_remote l r"
  shows "ct l = cr r"
proof (cases "fs_kind l = Directory")
  case True
  with eq show ?thesis
    by (intro content_modelD(3) [OF cm l r]) (auto simp: local_equals_remote_def split: if_splits)
next
  case isfile: False
  with eq have nf: "\<not> is_folder r" and sz: "fs_size_bytes l = ri_size r"
    by (auto simp: local_equals_remote_def split: if_splits)
  show ?thesis
  proof (cases "fs_size_bytes l = 0")
    case True
    with isfile nf sz show ?thesis by (intro content_modelD(4) [OF cm l r]) auto
  next
    case False
    with eq isfile nf obtain t where "fs_etag l = Some (ETag t)" "ri_e_tag r = Some t"
      by (auto simp: local_equals_remote_def etag_eq_iff split: if_splits option.splits)
    with isfile nf show ?thesis by (intro content_modelD(5) [OF cm l r]) auto
  qed
qed

lemma remote_unchanged_sound:
  assumes cm: "content_model ct cr A R" and "set_option synced \<subseteq> A" and r: "r \<in> R"
    and un: "\<not> remote_differs_from_synced r synced"
  obtains s where "synced = Some s" and "ct s = cr r"
proof -
  from un obtain s where s: "synced = Some s"
    by (cases synced) (auto simp: remote_differs_from_synced_def)
  with assms(2) have sA: "s \<in> A" by simp
  from s un have kind: "(fs_kind s = Directory) = is_folder r"
    by (auto simp: remote_differs_from_synced_def split: if_splits)
  have "ct s = cr r"
  proof (cases "\<exists>se re. fs_etag s = Some se \<and> ri_e_tag r = Some re")
    case True
    then obtain se re where e: "fs_etag s = Some se" "ri_e_tag r = Some re" by blast
    with un s kind have "se = ETag re"
      by (auto simp: remote_differs_from_synced_def etag_eq_iff split: if_splits)
    with e kind show ?thesis by (intro content_modelD(5) [OF cm sA r]) auto
  next
    case False
    with un s kind have "fs_size_bytes s = ri_size r" "fs_size_bytes s = 0"
      by (auto simp: remote_differs_from_synced_def split: if_splits option.splits)
    with kind show ?thesis
      using content_modelD(3,4) [OF cm sA r] by (cases "fs_kind s") auto
  qed
  with s that show ?thesis by blast
qed

lemma same_content_sound:
  assumes cm: "content_model ct cr A R" and a: "a \<in> A" and b: "b \<in> A"
    and "identifies_same_content_as a b" and "hashes_carried a b"
  shows "ct a = ct b"
proof (cases "fs_kind a = Directory")
  case True
  with assms(4) show ?thesis
    by (intro content_modelD(1) [OF cm a b]) (auto simp: identifies_same_content_as_def)
next
  case False
  with assms(4,5) obtain h where "fs_content_hash a = Some h" "fs_content_hash b = Some h"
    "fs_kind a = fs_kind b"
    by (auto simp: identifies_same_content_as_def hashes_carried_def)
  then show ?thesis by (intro content_modelD(2) [OF cm a b]) auto
qed

lemma local_unchanged_sound:
  assumes "content_model ct cr (entry_sides e) R"
    and "\<not> local_differs_from_synced (fe_local e) (fe_synced e)" and "entry_hashes_carried e"
  shows "map_option ct (fe_local e) = map_option ct (fe_synced e)"
proof (cases "fe_local e"; cases "fe_synced e")
  fix l s
  assume ls: "fe_local e = Some l" "fe_synced e = Some s"
  with assms(2,3) have "identifies_same_content_as l s" "hashes_carried l s"
    by (auto simp: local_differs_from_synced_def entry_hashes_carried_def)
  with same_content_sound [OF assms(1) entry_sidesI(1) entry_sidesI(2), OF ls] ls show ?thesis
    by simp
qed (use assms(2) in \<open>auto simp: local_differs_from_synced_def\<close>)

lemma snapshot_unchanged_sound:
  assumes "content_model ct cr (entry_sides e) {r}"
    and "\<not> remote_differs_from_synced r (fe_synced e)"
  obtains s where "fe_synced e = Some s" and "ct s = cr r"
  by (rule remote_unchanged_sound [OF assms(1) _ _ assms(2)]) (auto simp: entry_sides_def)

lemma noop_content:
  assumes cm: "content_model ct cr (entry_sides e) {r}" and hc: "entry_hashes_carried e"
    and nb: "\<not> is_action_blocking (fe_sync_state e)"
    and noop: "reconcile_kind (Some e) (Some r) = DNoOp"
  shows "\<exists>l. fe_local e = Some l \<and> ct l = cr r"
proof (cases "remote_differs_from_synced r (fe_synced e)")
  case True
  with nb noop obtain l where l: "fe_local e = Some l" "local_equals_remote l r"
    by (auto simp: reconcile_kind_def reconcile_both_def Let_def split: if_splits option.splits bool.splits)
  with local_equals_remote_sound [OF cm entry_sidesI(1) [OF l(1)]] show ?thesis by simp
next
  case False
  with nb noop have l: "\<not> local_differs_from_synced (fe_local e) (fe_synced e)"
    by (auto simp: reconcile_kind_def reconcile_both_def Let_def split: if_splits)
  obtain s where s: "fe_synced e = Some s" "ct s = cr r"
    using snapshot_unchanged_sound [OF cm False] by blast
  with local_unchanged_sound [OF cm l hc] show ?thesis by auto
qed

text \<open>
  A skip never hides a difference: when reconciliation of a tracked, unblocked path with
  a live remote item decides to do nothing, there is a local side and its content is the
  remote content.
\<close>
theorem reconcile_noop_sound:
  assumes cm: "content_model ct cr (entry_sides e) {r}" and hc: "entry_hashes_carried e"
    and nb: "\<not> is_action_blocking (fe_sync_state e)"
    and noop: "reconcile_kind (Some e) (Some r) = DNoOp"
  shows "\<exists>l. fe_local e = Some l \<and> ct l = cr r"
  by (rule noop_content [OF assms])





text \<open>
  A parked path (\<open>InFlight\<close> or \<open>PendingConflict\<close>) is left alone while its remote item
  is live; a tombstone is not covered by the check, so it decides to delete the local copy
  even of a path parked in a conflict or holding local edits that were never synced.
\<close>
theorem reconcile_parked:
  assumes "is_action_blocking (fe_sync_state e)"
  shows "reconcile_kind (Some e) (Some r) = DNoOp \<and> reconcile_kind (Some e) None = DLocalDelete"
  using assms by (simp add: reconcile_kind_def reconcile_both_def)

section \<open>Sample values\<close>

definition sample_side :: "file_kind \<Rightarrow> u64 \<Rightarrow> content_hash option \<Rightarrow> etag option \<Rightarrow> file_side" where
  "sample_side k n h t =
     \<lparr>fs_kind = k, fs_size_bytes = n, fs_content_hash = h, fs_mtime = 0, fs_etag = t,
      fs_remote_item_id = None\<rparr>"

definition sample_entry ::
  "rel_path \<Rightarrow> file_sync_state \<Rightarrow> file_side option \<Rightarrow> file_side option \<Rightarrow> file_entry" where
  "sample_entry p st l s =
     \<lparr>fe_pair_id = Id 1, fe_relative_path = p, fe_kind = File, fe_sync_state = st, fe_local = l,
      fe_remote = None, fe_synced = s, fe_pending_op_id = None, fe_updated_at = 0\<rparr>"

definition sample_item :: "string \<Rightarrow> string \<Rightarrow> u64 \<Rightarrow> string option \<Rightarrow> remote_item" where
  "sample_item i n sz t =
     \<lparr>ri_id = i, ri_name = n, ri_size = sz, ri_e_tag = t, ri_c_tag = None, ri_last_modified = None,
      ri_folder = None, ri_file = None, ri_deleted = None, ri_parent_reference = None\<rparr>"

lemmas sample_defs = sample_side_def sample_entry_def sample_item_def

text \<open>A content that the digests tell apart: a side has the content of its digest.\<close>

definition digest_content :: "file_side \<Rightarrow> content_hash option" where
  "digest_content a = fs_content_hash a"

definition edited_entry :: file_entry where
  "edited_entry =
     sample_entry (RelPath ''a.txt'') Clean
       (Some (sample_side File 7 (Some (ContentHash (replicate 32 2))) (Some (ETag ''v3''))))
       (Some (sample_side File 7 (Some (ContentHash (replicate 32 1))) (Some (ETag ''v3''))))"

definition synced_entry :: file_entry where
  "synced_entry =
     (let s = sample_side File 7 (Some (ContentHash (replicate 32 1))) (Some (ETag ''v3'')) in
      sample_entry (RelPath ''a.txt'') Clean (Some s) (Some s))"

lemmas reconcile_sample_defs =
  sample_defs synced_entry_def edited_entry_def entry_hashes_carried_def hashes_carried_def Let_def
  is_action_blocking_def reconcile_kind_def reconcile_both_def is_folder_def entry_sides_def
  local_differs_from_synced_def remote_differs_from_synced_def identifies_same_content_as_def
  content_model_def digest_content_def

theorem reconcile_noop_sound_witness:
  "\<exists>l. fe_local synced_entry = Some l \<and> digest_content l = Some (ContentHash (replicate 32 1))"
  by (rule reconcile_noop_sound
        [where r = "sample_item ''r1'' ''a.txt'' 7 (Some ''v3'')"
           and cr = "\<lambda>_. Some (ContentHash (replicate 32 1))"])
     (simp_all add: reconcile_sample_defs)


theorem reconcile_parked_witness:
  "reconcile_kind (Some (sample_entry (RelPath ''a'') PendingConflict None None)) None = DLocalDelete"
  by (rule conjunct2 [OF reconcile_parked [where r = "sample_item ''r'' ''a'' 0 None"]])
     (simp add: sample_defs is_action_blocking_def)

end
