(* ===== verification/Planner.thy ===== *)
theory Planner
  imports Reconcile "HOL-Library.Multiset"
begin

text \<open>
  The planner (\<open>engine/planner.rs\<close>): decisions become file operations, directories first,
  deletions last, everything else in input order.  \<open>plan_loop\<close> is the source's loop over the
  three vectors; its identifiers come from the id generator of the runtime.
\<close>

definition make_op ::
  "file_op_id \<Rightarrow> sync_run_id \<Rightarrow> pair_id \<Rightarrow> rel_path \<Rightarrow> file_op_kind \<Rightarrow> timestamp \<Rightarrow> file_op" where
  "make_op i run pid rp kind now =
     \<lparr>op_id = i, op_run_id = run, op_pair_id = pid, op_relative_path = rp, op_kind = kind,
      op_status = Enqueued, op_attempts = 0, op_last_error = None, op_metadata = [],
      op_enqueued_at = now, op_started_at = None, op_finished_at = None\<rparr>"

fun is_mkdir_kind :: "file_op_kind \<Rightarrow> bool" where
  "is_mkdir_kind LocalMkdir = True"
| "is_mkdir_kind RemoteMkdir = True"
| "is_mkdir_kind _ = False"

fun is_delete_kind :: "file_op_kind \<Rightarrow> bool" where
  "is_delete_kind LocalDelete = True"
| "is_delete_kind RemoteDelete = True"
| "is_delete_kind _ = False"

fun plan_loop ::
  "'w runtime \<Rightarrow> sync_run_id \<Rightarrow> timestamp \<Rightarrow> decision list \<Rightarrow> file_op list \<Rightarrow> file_op list
   \<Rightarrow> file_op list \<Rightarrow> 'w \<Rightarrow> file_op list \<times> 'w" where
  "plan_loop rt run now [] mkdir_ops delete_ops other_ops w =
     (mkdir_ops @ other_ops @ delete_ops, w)"
| "plan_loop rt run now (d # ds) mkdir_ops delete_ops other_ops w =
     (case to_file_op_kind (d_kind d) of
        None \<Rightarrow> plan_loop rt run now ds mkdir_ops delete_ops other_ops w
      | Some kind \<Rightarrow>
          (case new_id rt w of
             (i, w') \<Rightarrow>
               let op = make_op i run (d_pair_id d) (d_relative_path d) kind now in
               if is_mkdir_kind kind then
                 plan_loop rt run now ds (mkdir_ops @ [op]) delete_ops other_ops w'
               else if is_delete_kind kind then
                 plan_loop rt run now ds mkdir_ops (delete_ops @ [op]) other_ops w'
               else
                 plan_loop rt run now ds mkdir_ops delete_ops (other_ops @ [op]) w'))"

definition plan :: "'w runtime \<Rightarrow> decision list \<Rightarrow> sync_run_id \<Rightarrow> timestamp \<Rightarrow> 'w \<Rightarrow> file_op list \<times> 'w" where
  "plan rt ds run now w = plan_loop rt run now ds [] [] [] w"

section \<open>What a plan is\<close>

text \<open>The key of an operation or a decision: what is done to which path.\<close>

definition op_key :: "file_op \<Rightarrow> pair_id \<times> rel_path \<times> file_op_kind" where
  "op_key op = (op_pair_id op, op_relative_path op, op_kind op)"

fun decision_keys :: "decision list \<Rightarrow> (pair_id \<times> rel_path \<times> file_op_kind) list" where
  "decision_keys [] = []"
| "decision_keys (d # ds) =
     (case to_file_op_kind (d_kind d) of
        None \<Rightarrow> decision_keys ds
      | Some k \<Rightarrow> (d_pair_id d, d_relative_path d, k) # decision_keys ds)"

definition kind_class :: "file_op_kind \<Rightarrow> nat" where
  "kind_class k = (if is_mkdir_kind k then 0 else if is_delete_kind k then 2 else 1)"

definition in_class :: "nat \<Rightarrow> pair_id \<times> rel_path \<times> file_op_kind \<Rightarrow> bool" where
  "in_class n k = (kind_class (snd (snd k)) = n)"

text \<open>The identifiers that \<open>n\<close> calls of the generator hand out.\<close>

fun issued :: "'w runtime \<Rightarrow> nat \<Rightarrow> 'w \<Rightarrow> u128 list" where
  "issued rt 0 w = []"
| "issued rt (Suc n) w = (case rt_new_ulid rt w of (u, w') \<Rightarrow> u # issued rt n w')"

definition fresh_op :: "sync_run_id \<Rightarrow> timestamp \<Rightarrow> file_op \<Rightarrow> bool" where
  "fresh_op run now op \<longleftrightarrow>
     op = make_op (op_id op) run (op_pair_id op) (op_relative_path op) (op_kind op) now"

lemma fresh_make_op [simp]: "fresh_op run now (make_op i run pid rp k now)"
  by (simp add: fresh_op_def make_op_def)

lemma op_key_make_op [simp]: "op_key (make_op i run pid rp k now) = (pid, rp, k)"
  by (simp add: op_key_def make_op_def)

lemma op_id_make_op [simp]: "op_id (make_op i run pid rp k now) = i"
  by (simp add: make_op_def)

lemma mkdir_not_delete: "is_mkdir_kind k \<Longrightarrow> \<not> is_delete_kind k"
  by (cases k) auto

lemma in_class_simps [simp]:
  "in_class 0 (a, b, k) = is_mkdir_kind k"
  "in_class (Suc 0) (a, b, k) = (\<not> is_mkdir_kind k \<and> \<not> is_delete_kind k)"
  "in_class 2 (a, b, k) = is_delete_kind k"
  by (auto simp: in_class_def kind_class_def dest: mkdir_not_delete)

lemma plan_loop_keys:
  assumes "plan_loop rt run now ds mk del oth w = (ops, w')"
  shows "map op_key ops =
     map op_key mk @ filter (in_class 0) (decision_keys ds)
     @ map op_key oth @ filter (in_class 1) (decision_keys ds)
     @ map op_key del @ filter (in_class 2) (decision_keys ds)"
  using assms
  by (induction rt run now ds mk del oth w arbitrary: ops w' rule: plan_loop.induct)
     (auto split: option.splits prod.splits if_splits simp: Let_def dest: mkdir_not_delete)

lemma plan_loop_fresh:
  assumes "plan_loop rt run now ds mk del oth w = (ops, w')"
    and "\<forall>op \<in> set (mk @ del @ oth). fresh_op run now op"
  shows "\<forall>op \<in> set ops. fresh_op run now op"
  using assms
  by (induction rt run now ds mk del oth w arbitrary: ops w' rule: plan_loop.induct)
     (auto split: option.splits prod.splits if_splits simp: Let_def)

lemma plan_loop_ids:
  assumes "plan_loop rt run now ds mk del oth w = (ops, w')"
  shows "image_mset (id_ulid \<circ> op_id) (mset ops) =
     image_mset (id_ulid \<circ> op_id) (mset (mk @ del @ oth))
     + mset (issued rt (length (decision_keys ds)) w)"
  using assms
  by (induction rt run now ds mk del oth w arbitrary: ops w' rule: plan_loop.induct)
     (auto split: option.splits prod.splits if_splits simp: Let_def new_id_def)

text \<open>The depth at which \<open>limits.rs\<close> says that planning truncates the queue.\<close>

definition MAX_QUEUE_DEPTH_PER_PAIR :: nat where "MAX_QUEUE_DEPTH_PER_PAIR = 4096"

lemma plan_length: "length (fst (plan rt ds run now w)) = length (decision_keys ds)"
proof -
  obtain ops w' where p: "plan_loop rt run now ds [] [] [] w = (ops, w')"
    by (cases "plan_loop rt run now ds [] [] [] w")
  have "size (image_mset (id_ulid \<circ> op_id) (mset ops)) = length (issued rt (length (decision_keys ds)) w)"
    using plan_loop_ids [OF p] by simp
  moreover have "length (issued rt n w) = n" for n
    by (induction n arbitrary: w) (auto split: prod.splits)
  ultimately show ?thesis using p by (simp add: plan_def)
qed

lemma replicated_keys:
  "decision_keys (replicate n \<lparr>d_pair_id = p, d_relative_path = r, d_kind = DUpload\<rparr>)
     = replicate n (p, r, Upload)"
  by (induction n) simp_all

text \<open>
  C38: The plan does exactly what was decided, in a safe order: its operations are the
  actionable decisions, directory creations first, deletions last, each class in the order of
  the input; every operation is freshly enqueued with no attempts and no metadata.  Every
  actionable decision is planned, however many there are: the code has no truncation at
  \<open>MAX_QUEUE_DEPTH_PER_PAIR\<close>, although the comment on that limit says that planning truncates
  there, so there are decisions whose plan is longer.
\<close>
theorem plan_ordered_partition:
  "map op_key (fst (plan rt ds run now w)) =
     filter (in_class 0) (decision_keys ds) @ filter (in_class 1) (decision_keys ds)
     @ filter (in_class 2) (decision_keys ds)
   \<and> list_all (fresh_op run now) (fst (plan rt ds run now w))
   \<and> length (fst (plan rt ds run now w)) = length (decision_keys ds)
   \<and> (\<exists>many. MAX_QUEUE_DEPTH_PER_PAIR < length (fst (plan rt many run now w)))"
proof -
  obtain ops w' where p: "plan_loop rt run now ds [] [] [] w = (ops, w')"
    by (cases "plan_loop rt run now ds [] [] [] w")
  have "\<exists>many. MAX_QUEUE_DEPTH_PER_PAIR < length (fst (plan rt many run now w))"
  proof
    show "MAX_QUEUE_DEPTH_PER_PAIR < length (fst (plan rt
      (replicate (Suc MAX_QUEUE_DEPTH_PER_PAIR) \<lparr>d_pair_id = Id 1, d_relative_path = RelPath ''a'', d_kind = DUpload\<rparr>)
      run now w))"
      unfolding plan_length replicated_keys by simp
  qed
  moreover have "fst (plan rt ds run now w) = ops" using p by (simp add: plan_def)
  moreover note plan_length [of rt ds run now w]
  ultimately show ?thesis
    using plan_loop_keys [OF p] plan_loop_fresh [OF p] by (simp add: list_all_iff)
qed

text \<open>
  Each planned operation gets its own identifier from the generator and none is dropped:
  there is one operation per actionable decision (the plan is never truncated at a queue
  depth), and when the generator does not repeat itself the operation ids are distinct.
\<close>
theorem plan_ids_distinct:
  assumes "distinct (issued rt (length (decision_keys ds)) w)"
  shows "distinct (map op_id (fst (plan rt ds run now w)))
    \<and> length (fst (plan rt ds run now w)) = length (decision_keys ds)"
proof -
  obtain ops w' where p: "plan_loop rt run now ds [] [] [] w = (ops, w')"
    by (cases "plan_loop rt run now ds [] [] [] w")
  have "mset (map (id_ulid \<circ> op_id) ops) = mset (issued rt (length (decision_keys ds)) w)"
    using plan_loop_ids [OF p] by simp
  then have "distinct (map (id_ulid \<circ> op_id) ops)"
    using assms by (metis mset_eq_imp_distinct_iff)
  then have "distinct (map op_id ops)"
    by (auto simp: distinct_map inj_on_def)
  with p plan_length [of rt ds run now w] show ?thesis by (simp add: plan_def)
qed

text \<open>A runtime whose world is a counter, for concrete runs.\<close>

definition counter_runtime :: "nat runtime" where
  "counter_runtime =
     \<lparr>rt_now = (\<lambda>w. (0, w)), rt_new_ulid = (\<lambda>w. (word_of_nat w, Suc w)), rt_emit = (\<lambda>_ w. w),
      rt_getrandom_u64 = (\<lambda>w. (None, w)), rt_sleep_ms = (\<lambda>_ w. w)\<rparr>"

definition sample_decisions :: "decision list" where
  "sample_decisions =
     [\<lparr>d_pair_id = Id 1, d_relative_path = RelPath ''old'', d_kind = DLocalDelete\<rparr>,
      \<lparr>d_pair_id = Id 1, d_relative_path = RelPath ''d/f'', d_kind = DDownload\<rparr>,
      \<lparr>d_pair_id = Id 1, d_relative_path = RelPath ''same'', d_kind = DNoOp\<rparr>,
      \<lparr>d_pair_id = Id 1, d_relative_path = RelPath ''d'', d_kind = DLocalMkdir\<rparr>]"

theorem plan_ids_distinct_witness:
  "distinct (map op_id (fst (plan counter_runtime sample_decisions (Id 9) 0 1)))
   \<and> length (fst (plan counter_runtime sample_decisions (Id 9) 0 1)) = 3"
proof -
  have d: "distinct (issued counter_runtime (length (decision_keys sample_decisions)) 1)"
    by (simp add: sample_decisions_def counter_runtime_def numeral_eq_Suc)
  from plan_ids_distinct [OF d, of "Id 9" 0] show ?thesis
    by (simp add: sample_decisions_def)
qed

end
