(* ===== verification/Conflict_Policy.thy ===== *)
theory Conflict_Policy
  imports Reconcile
begin

text \<open>
  The conflict policy (\<open>engine/conflict.rs\<close>): which side wins and where the losing copy is
  kept; and the case-collision names (\<open>engine/case_collision.rs\<close>).
\<close>

section \<open>Winner selection\<close>

record conflict_outcome =
  co_winner :: conflict_side
  co_loser_path :: rel_path

text \<open>\<open>(a - b).num_milliseconds().unsigned_abs()\<close>: chrono truncates towards zero.\<close>

definition diff_ms :: "timestamp \<Rightarrow> timestamp \<Rightarrow> nat" where
  "diff_ms a b = nat (\<bar>a - b\<bar> div 1000000)"

text \<open>The two parts of a path before and after its last slash, as \<open>build_loser_path\<close> cuts it.\<close>

definition split_dir_file :: "string \<Rightarrow> string \<times> string" where
  "split_dir_file s =
     (case rfind CHR ''/'' s of None \<Rightarrow> ([], s) | Some i \<Rightarrow> (take i s, drop (Suc i) s))"

definition split_stem_ext :: "string \<Rightarrow> string \<times> string" where
  "split_stem_ext f =
     (case rfind CHR ''.'' f of None \<Rightarrow> (f, []) | Some i \<Rightarrow> (take i f, drop i f))"

definition loser_name :: "lib \<Rightarrow> string \<Rightarrow> string \<Rightarrow> timestamp \<Rightarrow> nat \<Rightarrow> string" where
  "loser_name L file host_name detected_at attempt =
     (case split_stem_ext file of
        (stem, ext) \<Rightarrow>
          let suffix = (if attempt = 0 then [] else ''.'' @ show_nat attempt) in
          stem @ '' (conflict '' @ lib_format_utc L detected_at @ '' from '' @ host_name @ '')''
            @ suffix @ ext)"

definition build_loser_path ::
  "lib \<Rightarrow> rel_path \<Rightarrow> string \<Rightarrow> timestamp \<Rightarrow> nat \<Rightarrow> path_parse_error + rel_path" where
  "build_loser_path L original host_name detected_at attempt =
     (case split_dir_file (rel_str original) of
        (dir, file) \<Rightarrow>
          let name = loser_name L file host_name detected_at attempt;
              loser_path = (if dir = [] then name else dir @ ''/'' @ name)
          in parse_rel L loser_path)"

definition pick_winner_and_loser ::
  "lib \<Rightarrow> timestamp \<Rightarrow> timestamp \<Rightarrow> rel_path \<Rightarrow> string \<Rightarrow> timestamp \<Rightarrow> nat
   \<Rightarrow> path_parse_error + conflict_outcome" where
  "pick_winner_and_loser L local_mtime remote_mtime rp host_name detected_at attempt =
     (let winner = (if diff_ms local_mtime remote_mtime > CONFLICT_MTIME_TOLERANCE_MS
                       \<and> local_mtime > remote_mtime
                    then SideLocal else SideRemote)
      in case build_loser_path L rp host_name detected_at attempt of
           Inl e \<Rightarrow> Inl e
         | Inr p \<Rightarrow> Inr \<lparr>co_winner = winner, co_loser_path = p\<rparr>)"

definition rename_retry_limit :: nat where
  "rename_retry_limit = CONFLICT_RENAME_RETRIES"

text \<open>
  The local side wins a conflict exactly when its mtime is at least 1001 ms after the
  remote one (the difference is truncated to whole milliseconds before it is compared with
  the tolerance of 1000 ms); everything closer, and every older local side, goes to the remote.
\<close>
theorem local_wins_iff:
  assumes "pick_winner_and_loser L lm rm rp host t n = Inr oc"
  shows "co_winner oc = SideLocal \<longleftrightarrow> lm - rm \<ge> 1001 * 1000000"
proof -
  have "diff_ms lm rm > 1000 \<and> lm > rm \<longleftrightarrow> lm - rm \<ge> 1001 * 1000000"
    unfolding diff_ms_def by (cases "lm > rm") (auto simp: zless_nat_eq_int_zless)
  then show ?thesis
    using assms by (auto simp: pick_winner_and_loser_def CONFLICT_MTIME_TOLERANCE_MS_def split: sum.splits)
qed

section \<open>The loser's path\<close>

lemma split_dir_file_join:
  "split_dir_file s = (d, f) \<Longrightarrow> CHR ''/'' \<notin> set f \<and> (s = f \<and> d = [] \<or> s = d @ CHR ''/'' # f)"
  by (auto simp: split_dir_file_def rfind_None_iff split: option.splits dest: rfind_SomeD)

lemma split_stem_ext_join: "split_stem_ext f = (a, b) \<Longrightarrow> f = a @ b"
  by (auto simp: split_stem_ext_def split: option.splits)

definition loser_path_str :: "lib \<Rightarrow> string \<Rightarrow> string \<Rightarrow> timestamp \<Rightarrow> nat \<Rightarrow> string" where
  "loser_path_str L s host t n =
     (case split_dir_file s of
        (dir, file) \<Rightarrow> (if dir = [] then loser_name L file host t n
                        else dir @ ''/'' @ loser_name L file host t n))"

lemma build_loser_path_eq:
  "build_loser_path L p host t n = parse_rel L (loser_path_str L (rel_str p) host t n)"
  by (simp add: build_loser_path_def loser_path_str_def Let_def split: prod.splits)

lemma digit_char_ascii: "n < 10 \<Longrightarrow> (of_char (digit_char n) :: nat) < 128 \<and> digit_char n \<noteq> CHR ''/'' \<and> digit_char n \<noteq> CHR 0x00"
proof -
  assume "n < 10"
  then have "n \<in> {0, 1, 2, 3, 4, 5, 6, 7, 8, 9}" by (simp; presburger)
  then show ?thesis by (elim insertE emptyE; hypsubst; code_simp)
qed

lemma show_nat_chars:
  "\<forall>c \<in> set (show_nat n). (of_char c :: nat) < 128 \<and> c \<noteq> CHR ''/'' \<and> c \<noteq> CHR 0x00"
proof (induction n rule: show_nat.induct)
  case (1 n)
  show ?case
  proof (cases "n < 10")
    case True
    then show ?thesis by (simp add: show_nat.simps [of n] digit_char_ascii)
  next
    case False
    with 1 show ?thesis
      by (simp add: show_nat.simps [of n] digit_char_ascii)
  qed
qed

text \<open>A text that can stand in a file name: ASCII, no slash, no NUL.\<close>

definition name_text :: "string \<Rightarrow> bool" where
  "name_text s \<longleftrightarrow> is_ascii s \<and> CHR ''/'' \<notin> set s \<and> CHR 0x00 \<notin> set s"

lemma name_text_append [simp]: "name_text (a @ b) \<longleftrightarrow> name_text a \<and> name_text b"
  by (auto simp: name_text_def)

lemma name_text_Cons [simp]:
  "name_text (c # s) \<longleftrightarrow> (of_char c :: nat) < 128 \<and> c \<noteq> CHR ''/'' \<and> c \<noteq> CHR 0x00 \<and> name_text s"
  by (auto simp: name_text_def)

lemma name_text_Nil [simp]: "name_text []"
  by (simp add: name_text_def)

lemma name_text_show_nat [simp]: "name_text (show_nat n)"
  using show_nat_chars [of n] by (auto simp: name_text_def is_ascii_def list_all_iff)

lemma loser_name_text:
  assumes "name_text file" and "name_text host" and "name_text (lib_format_utc L t)"
  shows "name_text (loser_name L file host t n)"
proof -
  obtain a b where ab: "split_stem_ext file = (a, b)" by (cases "split_stem_ext file")
  with assms(1) split_stem_ext_join [OF ab] have "name_text a" "name_text b" by auto
  with assms ab show ?thesis
    by (simp add: loser_name_def Let_def)
qed

lemma loser_name_length: "length file + 18 \<le> length (loser_name L file host t n)"
  by (cases "split_stem_ext file")
     (auto simp: loser_name_def Let_def dest!: split_stem_ext_join)

lemma loser_name_space: "CHR '' '' \<in> set (loser_name L file host t n)"
  by (cases "split_stem_ext file") (simp add: loser_name_def Let_def)

lemma path_with_new_leaf:
  assumes wf: "wf_rel p" and asc: "is_ascii (rel_str p)"
    and df: "split_dir_file (rel_str p) = (d, f)"
    and nm: "name_text nm" and long: "length f < length nm" "2 < length nm"
    and q: "q = (if d = [] then nm else d @ ''/'' @ nm)" and len: "length q \<le> MAX_PATH_BYTES"
  shows "wf_path q" and "\<not> starts_with_char CHR ''/'' q" and "is_ascii q"
    and "split_dir_file q = (d, nm)" and "q \<noteq> rel_str p"
proof -
  have ns: "CHR ''/'' \<notin> set nm" "CHR 0x00 \<notin> set nm" "is_ascii nm"
    using nm by (auto simp: name_text_def)
  from split_dir_file_join [OF df]
  have p: "rel_str p = f \<and> d = [] \<or> rel_str p = d @ CHR ''/'' # f" by blast
  have pwf: "CHR 0x00 \<notin> set (rel_str p)" "''..'' \<notin> set (split_on CHR ''/'' (rel_str p))"
    "\<not> starts_with_char CHR ''/'' (rel_str p)"
    using wf by (auto simp: wf_rel_def wf_path_def)
  have nm_ne: "nm \<noteq> []" "nm \<noteq> ''..''" using long(2) by auto
  have comps: "''..'' \<notin> set (split_on CHR ''/'' q)"
  proof (cases "d = []")
    case True
    with q ns nm_ne show ?thesis by (simp add: split_on_no_sep)
  next
    case False
    with p pwf have "''..'' \<notin> set (split_on CHR ''/'' d)" by (auto simp: split_on_append)
    with False q ns nm_ne show ?thesis by (simp add: split_on_append split_on_no_sep)
  qed
  show "wf_path q"
    using comps len p pwf ns nm_ne q by (auto simp: wf_path_def)
  show "\<not> starts_with_char CHR ''/'' q"
    using p pwf ns nm_ne q by (cases d; cases nm) (auto simp: starts_with_char_def)
  show "is_ascii q"
    using p asc ns q by auto
  show "split_dir_file q = (d, nm)"
  proof -
    have "rfind CHR ''/'' nm = None" using ns by (simp add: rfind_None_iff)
    with q ns show ?thesis by (simp add: split_dir_file_def rfind_append)
  qed
  show "q \<noteq> rel_str p"
    using p q long ns by auto
qed

text \<open>
  The losing copy is kept next to the original under a new name: for ASCII names the
  conflict path parses, lies in the same directory, keeps the extension, satisfies the path
  discipline and is never the path of the original file.
\<close>
theorem loser_path_ok:
  assumes laws: "nfc_laws (lib_nfc L)" and wf: "wf_rel p" and asc: "is_ascii (rel_str p)"
    and host: "name_text host" and ts: "name_text (lib_format_utc L t)"
    and len: "length (loser_path_str L (rel_str p) host t n) \<le> MAX_PATH_BYTES"
  shows "\<exists>q x. build_loser_path L p host t n = Inr q \<and> wf_rel q \<and> q \<noteq> p
    \<and> fst (split_dir_file (rel_str q)) = fst (split_dir_file (rel_str p))
    \<and> rel_str q = x @ snd (split_stem_ext (snd (split_dir_file (rel_str p))))"
proof -
  obtain d f where df: "split_dir_file (rel_str p) = (d, f)" by (cases "split_dir_file (rel_str p)")
  let ?nm = "loser_name L f host t n"
  let ?q = "loser_path_str L (rel_str p) host t n"
  have q: "?q = (if d = [] then ?nm else d @ ''/'' @ ?nm)"
    by (simp add: loser_path_str_def df)
  have "set f \<subseteq> set (rel_str p)" "CHR 0x00 \<notin> set (rel_str p)"
    using split_dir_file_join [OF df] wf by (auto simp: wf_rel_def wf_path_def)
  then have "name_text f"
    using split_dir_file_join [OF df] is_ascii_subset [OF asc] by (auto simp: name_text_def)
  then have nm: "name_text ?nm" using host ts by (rule loser_name_text)
  have long: "length f < length ?nm" "2 < length ?nm"
    using loser_name_length [of f L host t n] by auto
  note facts = path_with_new_leaf [OF wf asc df nm long q len]
  have id: "lib_nfc L ?q = ?q" using laws facts(3) by (simp add: nfc_laws_def)
  have b: "build_loser_path L p host t n = Inr (RelPath ?q)"
    using facts(1,2) id by (simp add: build_loser_path_eq rel_path_from_str_Inr)
  obtain a e where ae: "split_stem_ext f = (a, e)" by (cases "split_stem_ext f")
  have "\<exists>x. ?q = x @ e"
    using q ae by (auto simp: loser_name_def Let_def)
  with b facts df ae show ?thesis
    by (intro exI [of _ "RelPath ?q"]) (auto simp: wf_rel_def)
qed

definition ascii_lib :: lib where
  "ascii_lib =
     \<lparr>lib_nfc = (\<lambda>s. s), lib_lowercase = to_ascii_lowercase, lib_blake3_hex = (\<lambda>_. ''0123456789abcdef''),
      lib_format_utc = (\<lambda>_. ''2026-05-12T10-00-00Z''), lib_ulid_show = (\<lambda>u. show_nat (unat u)),
      lib_ulid_parse = (\<lambda>_. Inl ''unsupported''), lib_hash_order = (\<lambda>ks. ks),
      lib_map_order = (\<lambda>n. [0..<n])\<rparr>"

lemma ascii_lib_nfc [simp]: "lib_nfc ascii_lib = (\<lambda>s. s)"
  by (simp add: ascii_lib_def)

theorem loser_path_ok_witness:
  "\<exists>q x. build_loser_path ascii_lib (RelPath ''docs/a.txt'') ''mac'' 0 0 = Inr q \<and> wf_rel q
    \<and> q \<noteq> RelPath ''docs/a.txt'' \<and> fst (split_dir_file (rel_str q)) = ''docs''
    \<and> rel_str q = x @ ''.txt''"
  using loser_path_ok [of ascii_lib "RelPath ''docs/a.txt''" "''mac''" 0 0]
  by (simp add: nfc_laws_id wf_rel_def wf_path_def starts_with_char_def MAX_PATH_BYTES_def
      loser_path_str_def loser_name_def split_dir_file_def split_stem_ext_def ascii_lib_def)

theorem local_wins_iff_witness:
  "\<exists>oc. pick_winner_and_loser ascii_lib (2 * 1000000000) 0 (RelPath ''a'') ''mac'' 0 0 = Inr oc
     \<and> co_winner oc = SideLocal"
proof -
  obtain q where b: "build_loser_path ascii_lib (RelPath ''a'') ''mac'' 0 0 = Inr q"
    using loser_path_ok [of ascii_lib "RelPath ''a''" "''mac''" 0 0]
    by (auto simp: nfc_laws_id wf_rel_def wf_path_def starts_with_char_def MAX_PATH_BYTES_def
      loser_path_str_def loser_name_def split_dir_file_def split_stem_ext_def ascii_lib_def)
  then obtain oc where oc: "pick_winner_and_loser ascii_lib (2 * 1000000000) 0 (RelPath ''a'') ''mac'' 0 0 = Inr oc"
    by (simp add: pick_winner_and_loser_def)
  with local_wins_iff [OF oc] show ?thesis by auto
qed

section \<open>Case collisions\<close>

definition HASH_HEX_LEN :: nat where "HASH_HEX_LEN = 7"

definition short_hash :: "lib \<Rightarrow> string \<Rightarrow> string" where
  "short_hash L bytes = take HASH_HEX_LEN (lib_blake3_hex L bytes)"

text \<open>Here the parent keeps its slash and a dotfile is all stem.\<close>

definition case_collision_rename_target :: "lib \<Rightarrow> rel_path \<Rightarrow> string" where
  "case_collision_rename_target L original =
     (let s = rel_str original;
          short = short_hash L s;
          (parent, basename) =
            (case rfind CHR ''/'' s of
               None \<Rightarrow> ([], s)
             | Some i \<Rightarrow> (take (Suc i) s, drop (Suc i) s));
          (stem, ext) =
            (case rfind CHR ''.'' basename of
               Some i \<Rightarrow> (if i > 0 then (take i basename, drop i basename) else (basename, []))
             | None \<Rightarrow> (basename, []))
      in parent @ stem @ '' (case-collision-'' @ short @ '')'' @ ext)"

definition case_fold_key :: "lib \<Rightarrow> string \<Rightarrow> string" where
  "case_fold_key L s = lib_lowercase L (lib_nfc L s)"

definition case_folds_equal :: "lib \<Rightarrow> rel_path \<Rightarrow> rel_path \<Rightarrow> bool" where
  "case_folds_equal L a b \<longleftrightarrow> case_fold_key L (rel_str a) = case_fold_key L (rel_str b)"

lemma case_folds_equal_refl [simp]: "case_folds_equal L p p"
  by (simp add: case_folds_equal_def)

lemma case_folds_equal_sym: "case_folds_equal L p q \<Longrightarrow> case_folds_equal L q p"
  by (simp add: case_folds_equal_def)

text \<open>
  The disambiguated name of a case-collision loser stays in the directory of the
  original and differs from it: both paths split into the same directory part and a leaf, and
  the new leaf is the old one with ` (case-collision-<7 hex>)` inserted, 25 bytes longer.
\<close>
theorem case_collision_target_disambiguates:
  assumes "\<And>s. HASH_HEX_LEN \<le> length (lib_blake3_hex L s)"
    and "\<And>s. CHR ''/'' \<notin> set (lib_blake3_hex L s)"
  shows "\<exists>d stem ext. rel_str p = d @ stem @ ext \<and> CHR ''/'' \<notin> set (stem @ ext)
    \<and> (d = [] \<or> last d = CHR ''/'')
    \<and> case_collision_rename_target L p
        = d @ stem @ '' (case-collision-'' @ short_hash L (rel_str p) @ '')'' @ ext
    \<and> rsplit_next CHR ''/'' (case_collision_rename_target L p)
        = stem @ '' (case-collision-'' @ short_hash L (rel_str p) @ '')'' @ ext
    \<and> length (case_collision_rename_target L p) = length (rel_str p) + 25"
proof -
  let ?s = "rel_str p"
  let ?ins = "'' (case-collision-'' @ short_hash L ?s @ '')''"
  define d where "d = (case rfind CHR ''/'' ?s of None \<Rightarrow> [] | Some i \<Rightarrow> take (Suc i) ?s)"
  define b where "b = (case rfind CHR ''/'' ?s of None \<Rightarrow> ?s | Some i \<Rightarrow> drop (Suc i) ?s)"
  have s: "?s = d @ b" by (simp add: d_def b_def split: option.splits)
  have ns: "CHR ''/'' \<notin> set b"
    by (auto simp: b_def rfind_None_iff split: option.splits dest: rfind_SomeD)
  have dl: "d = [] \<or> (\<exists>d'. d = d' @ ''/'')"
    by (auto simp: d_def split: option.splits dest!: rfind_SomeD simp: take_Suc_conv_app_nth)
       (metis nth_append_length length_take min.absorb2 less_imp_le)
  obtain stem ext where se: "b = stem @ ext" and tgt: "case_collision_rename_target L p = d @ stem @ ?ins @ ext"
  proof -
    have db: "(case rfind CHR ''/'' ?s of None \<Rightarrow> ([], ?s) | Some i \<Rightarrow> (take (Suc i) ?s, drop (Suc i) ?s)) = (d, b)"
      by (simp add: d_def b_def split: option.splits)
    obtain stem ext where se: "(case rfind CHR ''.'' b of
        Some i \<Rightarrow> (if i > 0 then (take i b, drop i b) else (b, [])) | None \<Rightarrow> (b, [])) = (stem, ext)"
      by fastforce
    have "case_collision_rename_target L p = d @ stem @ ?ins @ ext"
      unfolding case_collision_rename_target_def Let_def
      by (simp only: db se prod.case append_assoc)
    moreover from se have "b = stem @ ext" by (auto split: option.splits if_splits)
    ultimately show ?thesis using that by blast
  qed
  have hs: "CHR ''/'' \<notin> set (short_hash L ?s)"
    using assms(2) by (auto simp: short_hash_def dest: in_set_takeD)
  have leaf: "CHR ''/'' \<notin> set (stem @ ?ins @ ext)" using ns se hs by auto
  have "rsplit_next CHR ''/'' (d @ stem @ ?ins @ ext) = stem @ ?ins @ ext"
    using dl
  proof
    assume "d = []"
    with leaf show ?thesis by (simp add: rsplit_next_whole)
  next
    assume "\<exists>d'. d = d' @ ''/''"
    then obtain d' where "d = d' @ ''/''" by blast
    with rsplit_next_append [OF leaf, of d'] show ?thesis by simp
  qed
  moreover have "length (short_hash L ?s) = 7"
    using assms(1) by (simp add: short_hash_def HASH_HEX_LEN_def)
  ultimately show ?thesis
    using s ns se tgt dl by (intro exI [of _ d] exI [of _ stem] exI [of _ ext]) auto
qed

theorem case_collision_target_disambiguates_witness:
  "length (case_collision_rename_target ascii_lib (RelPath ''d/Foo.txt'')) = 34"
  using case_collision_target_disambiguates [of ascii_lib "RelPath ''d/Foo.txt''"]
  by (auto simp: ascii_lib_def HASH_HEX_LEN_def)

end
