(* ===== verification/Executor.thy ===== *)
theory Executor
  imports Planner Conflict_Policy
begin

text \<open>
  The executor (\<open>engine/executor.rs\<close>): one function per operation kind, driving the local
  and remote ports; the errors it raises and which of them are retried.
\<close>

section \<open>Errors\<close>

datatype exec_error =
    ExLocal local_fs_error
  | ExRemote graph_error
  | ExNotImplemented file_op_kind
  | ExInvalidOp string

fun exec_error_display :: "exec_error \<Rightarrow> string" where
  "exec_error_display (ExLocal e) = ''local fs: '' @ local_fs_error_display e"
| "exec_error_display (ExRemote e) = ''remote: '' @ graph_error_display e"
| "exec_error_display (ExNotImplemented k) = ''not implemented: '' @ file_op_kind_debug k"
| "exec_error_display (ExInvalidOp r) = ''invalid op: '' @ r"

fun is_retriable :: "exec_error \<Rightarrow> bool" where
  "is_retriable (ExLocal LfRaced) = True"
| "is_retriable (ExLocal (LfIo _)) = True"
| "is_retriable (ExLocal _) = False"
| "is_retriable (ExRemote (GeThrottled _)) = True"
| "is_retriable (ExRemote (GeTransient _)) = True"
| "is_retriable (ExRemote (GeNetwork _)) = True"
| "is_retriable (ExRemote _) = False"
| "is_retriable (ExNotImplemented _) = False"
| "is_retriable (ExInvalidOp _) = False"

section \<open>Helpers\<close>

definition require_meta_str :: "lib \<Rightarrow> file_op \<Rightarrow> string \<Rightarrow> exec_error + string" where
  "require_meta_str L op key =
     (case json_get_str (op_metadata op) key of
        Some s \<Rightarrow> Inr s
      | None \<Rightarrow> Inl (ExInvalidOp
          (''op '' @ id_display (lib_ulid_show L) file_op_prefix (op_id op) @ '' (kind=''
           @ file_op_kind_debug (op_kind op) @ '') missing string metadata.'' @ key)))"

definition join_path :: "abs_path \<Rightarrow> string \<Rightarrow> exec_error + abs_path" where
  "join_path lroot rel =
     (case abs_path_from_str (join_str lroot rel) of
        Inr p \<Rightarrow> Inr p
      | Inl _ \<Rightarrow> Inl (ExLocal (LfInvalidPath
          (''cannot join '' @ abs_str lroot @ '' with '' @ rel))))"

definition leaf_name :: "string \<Rightarrow> string" where
  "leaf_name rel = rsplit_next CHR ''/'' rel"

definition unwrap_or_default :: "string option \<Rightarrow> string" where
  "unwrap_or_default so = (case so of Some s \<Rightarrow> s | None \<Rightarrow> [])"

section \<open>One function per kind\<close>

definition execute_local_mkdir ::
  "file_op \<Rightarrow> abs_path \<Rightarrow> 'w local_fs \<Rightarrow> ('w, exec_error, file_op_status) io" where
  "execute_local_mkdir op lroot fs =
     bindE (resultE (join_path lroot (rel_str (op_relative_path op)))) (\<lambda>abs.
     bindE (map_errE ExLocal (lf_mkdir_p fs abs)) (\<lambda>_.
     returnE Success))"

definition execute_local_delete ::
  "file_op \<Rightarrow> abs_path \<Rightarrow> 'w local_fs \<Rightarrow> ('w, exec_error, file_op_status) io" where
  "execute_local_delete op lroot fs =
     bindE (resultE (join_path lroot (rel_str (op_relative_path op)))) (\<lambda>abs.
     bindE (tryE (lf_delete fs abs)) (\<lambda>r.
     case r of
       Inr _ \<Rightarrow> returnE Success
     | Inl (LfNotFound _) \<Rightarrow> returnE Success
     | Inl e \<Rightarrow> throwE (ExLocal e)))"

definition execute_download ::
  "file_op \<Rightarrow> abs_path \<Rightarrow> 'w local_fs \<Rightarrow> 'w remote_drive \<Rightarrow> ('w, exec_error, file_op_status) io" where
  "execute_download op lroot fs rd =
     (let remote_id_str = unwrap_or_default (json_get_str (op_metadata op) ''remote_item_id'');
          remote_id = RemoteItemId remote_id_str
      in bindE (map_errE ExRemote (rd_download rd remote_id)) (\<lambda>stream.
         bindE (resultE (join_path lroot (rel_str (op_relative_path op)))) (\<lambda>abs.
         bindE (map_errE ExLocal (lf_write_atomic fs abs stream)) (\<lambda>_.
         returnE Success))))"

definition execute_upload ::
  "file_op \<Rightarrow> abs_path \<Rightarrow> 'w local_fs \<Rightarrow> 'w remote_drive \<Rightarrow> ('w, exec_error, file_op_status) io" where
  "execute_upload op lroot fs rd =
     bindE (resultE (join_path lroot (rel_str (op_relative_path op)))) (\<lambda>abs.
     bindE (map_errE ExLocal (lf_read fs abs)) (\<lambda>contents.
     let parent_id_str = unwrap_or_default (json_get_str (op_metadata op) ''parent_remote_id'');
         parent_id = RemoteItemId parent_id_str;
         name = leaf_name (rel_str (op_relative_path op))
     in if length contents \<le> GRAPH_SMALL_UPLOAD_MAX_BYTES then
          bindE (map_errE ExRemote (rd_upload_small rd parent_id name contents)) (\<lambda>_.
          returnE Success)
        else
          let size = word_of_nat (length contents) in
          bindE (map_errE ExRemote (rd_upload_session rd parent_id name size)) (\<lambda>session.
          returnE Success)))"

definition execute_remote_mkdir ::
  "lib \<Rightarrow> file_op \<Rightarrow> 'w remote_drive \<Rightarrow> ('w, exec_error, file_op_status) io" where
  "execute_remote_mkdir L op rd =
     bindE (resultE (require_meta_str L op ''parent_remote_id'')) (\<lambda>parent_id_str.
     let parent_id = RemoteItemId parent_id_str;
         name = leaf_name (rel_str (op_relative_path op))
     in bindE (map_errE ExRemote (rd_mkdir rd parent_id name)) (\<lambda>_.
        returnE Success))"

definition execute_remote_delete ::
  "lib \<Rightarrow> file_op \<Rightarrow> 'w remote_drive \<Rightarrow> ('w, exec_error, file_op_status) io" where
  "execute_remote_delete L op rd =
     bindE (resultE (require_meta_str L op ''remote_item_id'')) (\<lambda>item_id_str.
     bindE (tryE (rd_delete rd (RemoteItemId item_id_str))) (\<lambda>r.
     case r of
       Inr _ \<Rightarrow> returnE Success
     | Inl GeNotFound \<Rightarrow> returnE Success
     | Inl e \<Rightarrow> throwE (ExRemote e)))"

definition execute_local_rename ::
  "lib \<Rightarrow> file_op \<Rightarrow> abs_path \<Rightarrow> 'w local_fs \<Rightarrow> ('w, exec_error, file_op_status) io" where
  "execute_local_rename L op lroot fs =
     bindE (resultE (require_meta_str L op ''new_path'')) (\<lambda>new_path_str.
     bindE (resultE (join_path lroot (rel_str (op_relative_path op)))) (\<lambda>src.
     bindE (resultE (join_path lroot new_path_str)) (\<lambda>dst.
     bindE (map_errE ExLocal (lf_rename fs src dst)) (\<lambda>_.
     returnE Success))))"

definition execute_remote_rename ::
  "lib \<Rightarrow> file_op \<Rightarrow> 'w remote_drive \<Rightarrow> ('w, exec_error, file_op_status) io" where
  "execute_remote_rename L op rd =
     bindE (resultE (require_meta_str L op ''remote_item_id'')) (\<lambda>item_id_str.
     bindE (case json_get_str (op_metadata op) ''new_name'' of
              Some name \<Rightarrow> returnE name
            | None \<Rightarrow>
                (case json_get_str (op_metadata op) ''new_path'' of
                   Some path \<Rightarrow> returnE (leaf_name path)
                 | None \<Rightarrow> throwE (ExInvalidOp
                     (''RemoteRename op '' @ id_display (lib_ulid_show L) file_op_prefix (op_id op)
                      @ '' missing metadata.new_name and metadata.new_path'')))) (\<lambda>new_name.
     bindE (map_errE ExRemote (rd_rename rd (RemoteItemId item_id_str) new_name)) (\<lambda>_.
     returnE Success)))"

definition execute ::
  "lib \<Rightarrow> file_op \<Rightarrow> abs_path \<Rightarrow> 'w local_fs \<Rightarrow> 'w remote_drive \<Rightarrow> ('w, exec_error, file_op_status) io" where
  "execute L op lroot fs rd =
     (case op_kind op of
        LocalMkdir \<Rightarrow> execute_local_mkdir op lroot fs
      | LocalDelete \<Rightarrow> execute_local_delete op lroot fs
      | Download \<Rightarrow> execute_download op lroot fs rd
      | Upload \<Rightarrow> execute_upload op lroot fs rd
      | RemoteMkdir \<Rightarrow> execute_remote_mkdir L op rd
      | RemoteDelete \<Rightarrow> execute_remote_delete L op rd
      | LocalRename \<Rightarrow> execute_local_rename L op lroot fs
      | RemoteRename \<Rightarrow> execute_remote_rename L op rd)"

lemmas execute_kind_defs = execute_local_mkdir_def execute_local_delete_def execute_download_def
  execute_upload_def execute_remote_mkdir_def execute_remote_delete_def execute_local_rename_def
  execute_remote_rename_def

section \<open>Confinement\<close>

text \<open>A path below a root: valid, and of the form \<open>root/rel\<close>.\<close>

definition below :: "abs_path \<Rightarrow> abs_path \<Rightarrow> bool" where
  "below lroot p \<longleftrightarrow> wf_abs p \<and> (\<exists>rel. abs_str p = abs_str lroot @ ''/'' @ rel)"

text \<open>Two filesystems that behave alike below a root, whatever they do elsewhere.\<close>

definition agree_below :: "abs_path \<Rightarrow> 'w local_fs \<Rightarrow> 'w local_fs \<Rightarrow> bool" where
  "agree_below lroot a b \<longleftrightarrow>
     (\<forall>p. below lroot p \<longrightarrow>
        lf_read a p = lf_read b p \<and> lf_write_atomic a p = lf_write_atomic b p
        \<and> lf_delete a p = lf_delete b p \<and> lf_mkdir_p a p = lf_mkdir_p b p
        \<and> (\<forall>q. below lroot q \<longrightarrow> lf_rename a p q = lf_rename b p q))"

lemma join_path_below: "join_path lroot rel = Inr p \<Longrightarrow> below lroot p"
proof -
  assume "join_path lroot rel = Inr p"
  then have "abs_path_from_str (join_str lroot rel) = Inr p"
    by (auto simp: join_path_def split: sum.splits)
  from join_str_parse_wf [OF this] show "below lroot p"
    by (auto simp: below_def join_str_def)
qed

lemma bindE_result_cong:
  assumes "\<And>x. r = Inr x \<Longrightarrow> f x = g x"
  shows "bindE (resultE r) f = bindE (resultE r) g"
  using assms by (cases r) (auto simp: bindE_def resultE_def)

lemma agree_belowD:
  assumes "agree_below lroot a b" and "join_path lroot rel = Inr p"
  shows "lf_read a p = lf_read b p" and "lf_write_atomic a p = lf_write_atomic b p"
    and "lf_delete a p = lf_delete b p" and "lf_mkdir_p a p = lf_mkdir_p b p"
    and "join_path lroot rel' = Inr q \<Longrightarrow> lf_rename a p q = lf_rename b p q"
  using assms join_path_below by (fastforce simp: agree_below_def)+

text \<open>
  Execution is confined to the pair root: no operation, whatever its path or metadata,
  touches the local filesystem outside the root.  Two filesystems that agree below the root
  give the same run, and a path below the root has no parent-directory component.
\<close>
theorem execute_confined:
  assumes "agree_below lroot a b"
  shows "execute L op lroot a rd = execute L op lroot b rd
    \<and> (\<forall>p. below lroot p \<longrightarrow> ''..'' \<notin> set (split_on CHR ''/'' (abs_str p)))"
proof
  note eq = agree_belowD [OF assms]
  show "execute L op lroot a rd = execute L op lroot b rd"
  proof (cases "op_kind op")
    case LocalMkdir
    then show ?thesis
      by (simp add: execute_def execute_local_mkdir_def) (rule bindE_result_cong, simp add: eq)
  next
    case LocalDelete
    then show ?thesis
      by (simp add: execute_def execute_local_delete_def) (rule bindE_result_cong, simp add: eq)
  next
    case Download
    have "bindE (resultE (join_path lroot rel))
            (\<lambda>abs. bindE (map_errE ExLocal (lf_write_atomic a abs s)) (\<lambda>_. returnE Success))
        = bindE (resultE (join_path lroot rel))
            (\<lambda>abs. bindE (map_errE ExLocal (lf_write_atomic b abs s)) (\<lambda>_. returnE Success))"
      for rel s
      by (rule bindE_result_cong) (simp add: eq)
    with Download show ?thesis by (simp add: execute_def execute_download_def)
  next
    case Upload
    then show ?thesis
      by (simp add: execute_def execute_upload_def) (rule bindE_result_cong, simp add: eq)
  next
    case LocalRename
    then show ?thesis
      by (simp add: execute_def execute_local_rename_def)
         (intro bindE_result_cong, simp add: eq)
  qed (simp_all add: execute_def)
  show "\<forall>p. below lroot p \<longrightarrow> ''..'' \<notin> set (split_on CHR ''/'' (abs_str p))"
    by (simp add: below_def wf_abs_def wf_path_def)
qed

section \<open>What execution returns\<close>

lemma execute_Inr_Success: "execute L op lroot fs rd w = (Inr st, w') \<Longrightarrow> st = Success"
  unfolding execute_def execute_kind_defs
  by (cases "op_kind op")
     (auto simp: io_simps Let_def split: prod.splits sum.splits local_fs_error.splits
        graph_error.splits option.splits if_splits)

lemma fresh_op_metadata: "fresh_op run now op \<Longrightarrow> op_metadata op = []"
proof -
  assume "fresh_op run now op"
  then have "op_metadata op
      = op_metadata (make_op (op_id op) run (op_pair_id op) (op_relative_path op) (op_kind op) now)"
    unfolding fresh_op_def by (rule arg_cong)
  then show ?thesis by (simp add: make_op_def)
qed

lemma require_meta_fresh:
  "fresh_op run now op \<Longrightarrow> \<exists>r. require_meta_str L op key = Inl (ExInvalidOp r)"
  by (simp add: fresh_op_metadata require_meta_str_def)

definition needs_metadata :: "file_op_kind \<Rightarrow> bool" where
  "needs_metadata k \<longleftrightarrow> k \<in> {RemoteMkdir, RemoteDelete, LocalRename, RemoteRename}"

text \<open>
  An operation straight from the planner has no metadata, so a planned \<open>RemoteMkdir\<close>,
  \<open>RemoteDelete\<close> or rename always fails: execution reports an invalid operation without
  calling any port, and the error is not retried.
\<close>
theorem planned_op_without_metadata_fails:
  assumes "fresh_op run now op" and "needs_metadata (op_kind op)"
  shows "\<exists>r. execute L op lroot fs rd w = (Inl (ExInvalidOp r), w) \<and> \<not> is_retriable (ExInvalidOp r)"
proof -
  have m: "\<exists>r. require_meta_str L op key = Inl (ExInvalidOp r)" for key
    by (rule require_meta_fresh [OF assms(1)])
  show ?thesis
    using assms(2) m [of "''parent_remote_id''"] m [of "''remote_item_id''"] m [of "''new_path''"]
    by (auto simp: needs_metadata_def execute_def execute_kind_defs io_simps)
qed

text \<open>
  A planned download asks the remote drive for the item with the empty id (the planner
  records none), and nothing is written locally unless that request succeeds: if it fails, the
  operation fails with the same error in the world the request left.
\<close>
theorem planned_download_uses_empty_id:
  assumes "fresh_op run now op" and "op_kind op = Download"
    and "rd_download rd (RemoteItemId []) w = (Inl e, w')"
  shows "execute L op lroot fs rd w = (Inl (ExRemote e), w')"
proof -
  have "op_metadata op = []" using assms(1) by (rule fresh_op_metadata)
  with assms(2,3) show ?thesis
    by (simp add: execute_def execute_download_def unwrap_or_default_def io_simps)
qed

text \<open>
  A file above 4 MiB is reported as uploaded although none of its bytes are sent: once
  the file is read and an upload session is opened, execution succeeds in the world in which
  the session was opened.
\<close>
theorem large_upload_sends_nothing:
  assumes "op_kind op = Upload"
    and "join_path lroot (rel_str (op_relative_path op)) = Inr p"
    and "lf_read fs p w = (Inr contents, w1)" and "4 * 1024 * 1024 < length contents"
    and "rd_upload_session rd (RemoteItemId (unwrap_or_default
           (json_get_str (op_metadata op) ''parent_remote_id'')))
           (leaf_name (rel_str (op_relative_path op))) (word_of_nat (length contents)) w1
         = (Inr session, w2)"
  shows "execute L op lroot fs rd w = (Inr Success, w2)"
  using assms by (simp add: execute_def execute_upload_def io_simps Let_def limit_defs)

text \<open>
  Deletions are idempotent: deleting a local file or a remote item that is already gone
  counts as success.
\<close>
theorem delete_of_missing_succeeds:
  "(op_kind op = LocalDelete \<and> join_path lroot (rel_str (op_relative_path op)) = Inr p
      \<and> lf_delete fs p w = (Inl (LfNotFound msg), w') \<longrightarrow>
      execute L op lroot fs rd w = (Inr Success, w'))
   \<and> (op_kind op = RemoteDelete \<and> json_get_str (op_metadata op) ''remote_item_id'' = Some i
      \<and> rd_delete rd (RemoteItemId i) w = (Inl GeNotFound, w') \<longrightarrow>
      execute L op lroot fs rd w = (Inr Success, w'))"
  by (auto simp: execute_def execute_kind_defs require_meta_str_def io_simps)

text \<open>
  Which failures are worth a retry: exactly the local races and I/O errors and the
  remote throttling, transient and network errors; never an invalid or unimplemented
  operation.
\<close>
theorem is_retriable_iff:
  "is_retriable e \<longleftrightarrow>
     e = ExLocal LfRaced \<or> (\<exists>s. e = ExLocal (LfIo s)) \<or> (\<exists>n. e = ExRemote (GeThrottled n))
     \<or> (\<exists>s. e = ExRemote (GeTransient s)) \<or> (\<exists>s. e = ExRemote (GeNetwork s))"
  by (cases e rule: is_retriable.cases) auto

section \<open>A recording world\<close>

text \<open>Ports over a log of calls, for concrete runs; every call succeeds.\<close>

type_synonym call_log = "string list"

definition log_fs :: "bytes \<Rightarrow> call_log local_fs" where
  "log_fs contents =
     \<lparr>lf_scan = (\<lambda>p w. (Inr \<lparr>ls_entries = [], ls_symlinks_skipped = []\<rparr>, w)),
      lf_read = (\<lambda>p w. (Inr contents, w @ [''read '' @ abs_str p])),
      lf_write_atomic = (\<lambda>p bs w. (Inr (sample_side File 0 None None), w @ [''write '' @ abs_str p])),
      lf_rename = (\<lambda>p q w. (Inr (), w @ [''rename '' @ abs_str p @ '' '' @ abs_str q])),
      lf_delete = (\<lambda>p w. (Inr (), w @ [''delete '' @ abs_str p])),
      lf_mkdir_p = (\<lambda>p w. (Inr (), w @ [''mkdir '' @ abs_str p])),
      lf_hash = (\<lambda>p w. (Inl LfRaced, w))\<rparr>"

definition log_rd :: "call_log remote_drive" where
  "log_rd =
     \<lparr>rd_delta = (\<lambda>d c w. (Inr \<lparr>dp_items = [], dp_next_link = None, dp_delta_token = None\<rparr>, w)),
      rd_item_by_path = (\<lambda>d p w. (Inr None, w)),
      rd_download = (\<lambda>i w. if remote_item_id_str i = [] then (Inl GeNotFound, w @ [''download''])
                           else (Inr [1], w @ [''download '' @ remote_item_id_str i])),
      rd_upload_small = (\<lambda>p n bs w. (Inr (sample_item n n 0 None), w @ [''put '' @ n])),
      rd_upload_session =
        (\<lambda>p n sz w. (Inr \<lparr>us_upload_url = ''u'', us_bytes_uploaded = 0\<rparr>, w @ [''session '' @ n])),
      rd_rename = (\<lambda>i n w. (Inr (sample_item n n 0 None), w @ [''rename '' @ n])),
      rd_delete = (\<lambda>i w. (Inl GeNotFound, w @ [''delete''])),
      rd_mkdir = (\<lambda>p n w. (Inr (sample_item n n 0 None), w @ [''mkdir '' @ n])),
      rd_subscribe = (\<lambda>d u c w. (Inr ''sub'', w)),
      rd_unsubscribe = (\<lambda>s w. (Inr (), w)),
      rd_renew_subscription = (\<lambda>s e w. (Inr (), w))\<rparr>"

definition sample_op :: "file_op_kind \<Rightarrow> file_op" where
  "sample_op k = make_op (Id 5) (Id 9) (Id 1) (RelPath ''d/a.bin'') k 0"

lemma fresh_sample_op: "fresh_op (Id 9) 0 (sample_op k)"
  by (simp add: sample_op_def)

lemma join_sample: "join_path (AbsPath ''/r'') ''d/a.bin'' = Inr (AbsPath ''/r/d/a.bin'')"
  by (simp add: join_path_def join_str_def abs_path_from_str_def validate_common_def
      starts_with_char_def MAX_PATH_BYTES_def)

lemma log_fs_read: "lf_read (log_fs bs) p w = (Inr bs, w @ [''read '' @ abs_str p])"
  by (simp add: log_fs_def)

theorem execute_confined_witness:
  "execute ascii_lib (sample_op LocalMkdir) (AbsPath ''/r'') (log_fs []) log_rd
   = execute ascii_lib (sample_op LocalMkdir) (AbsPath ''/r'')
       ((log_fs [])\<lparr>lf_mkdir_p := (\<lambda>p w. if abs_str p = ''/etc'' then (Inl LfDiskFull, w)
                                        else lf_mkdir_p (log_fs []) p w)\<rparr>) log_rd"
proof -
  have "agree_below (AbsPath ''/r'') (log_fs [])
       ((log_fs [])\<lparr>lf_mkdir_p := (\<lambda>p w. if abs_str p = ''/etc'' then (Inl LfDiskFull, w)
                                        else lf_mkdir_p (log_fs []) p w)\<rparr>)"
    by (auto simp: agree_below_def below_def fun_eq_iff)
  from execute_confined [OF this] show ?thesis by blast
qed

theorem planned_op_without_metadata_fails_witness:
  "\<exists>r. execute ascii_lib (sample_op RemoteMkdir) (AbsPath ''/r'') (log_fs []) log_rd []
        = (Inl (ExInvalidOp r), [])"
  using planned_op_without_metadata_fails [OF fresh_sample_op, of RemoteMkdir ascii_lib
      "AbsPath ''/r''" "log_fs []" log_rd "[]"]
  by (auto simp: needs_metadata_def sample_op_def make_op_def)

theorem planned_download_uses_empty_id_witness:
  "execute ascii_lib (sample_op Download) (AbsPath ''/r'') (log_fs []) log_rd []
   = (Inl (ExRemote GeNotFound), [''download''])"
  by (rule planned_download_uses_empty_id [OF fresh_sample_op])
     (simp_all add: sample_op_def make_op_def log_rd_def)

theorem large_upload_sends_nothing_witness:
  "execute ascii_lib (sample_op Upload) (AbsPath ''/r'') (log_fs (replicate (5 * 1024 * 1024) 7)) log_rd []
   = (Inr Success, [''read /r/d/a.bin'', ''session a.bin''])"
proof (rule large_upload_sends_nothing)
  show "op_kind (sample_op Upload) = Upload" by (simp add: sample_op_def make_op_def)
  show "join_path (AbsPath ''/r'') (rel_str (op_relative_path (sample_op Upload))) = Inr (AbsPath ''/r/d/a.bin'')"
    by (simp add: sample_op_def make_op_def join_sample)
  show "lf_read (log_fs (replicate (5 * 1024 * 1024) 7)) (AbsPath ''/r/d/a.bin'') []
      = (Inr (replicate (5 * 1024 * 1024) 7), [''read /r/d/a.bin''])"
    by (simp only: log_fs_read append.simps abs_path.sel)
  show "4 * 1024 * 1024 < length (replicate (5 * 1024 * 1024) (7 :: u8))"
    by (simp only: length_replicate)
  show "rd_upload_session log_rd (RemoteItemId (unwrap_or_default
           (json_get_str (op_metadata (sample_op Upload)) ''parent_remote_id'')))
           (leaf_name (rel_str (op_relative_path (sample_op Upload))))
           (word_of_nat (length (replicate (5 * 1024 * 1024) (7 :: u8)))) [''read /r/d/a.bin'']
      = (Inr \<lparr>us_upload_url = ''u'', us_bytes_uploaded = 0\<rparr>, [''read /r/d/a.bin'', ''session a.bin''])"
    by (simp add: log_rd_def sample_op_def make_op_def leaf_name_def rsplit_next_def)
qed

theorem delete_of_missing_succeeds_witness:
  "execute ascii_lib ((sample_op RemoteDelete)\<lparr>op_metadata := [(''remote_item_id'', JString ''x'')]\<rparr>)
     (AbsPath ''/r'') (log_fs []) log_rd [] = (Inr Success, [''delete''])"
proof (rule delete_of_missing_succeeds [THEN conjunct2, THEN mp])
  show "op_kind ((sample_op RemoteDelete)\<lparr>op_metadata := [(''remote_item_id'', JString ''x'')]\<rparr>) = RemoteDelete
    \<and> json_get_str (op_metadata ((sample_op RemoteDelete)
         \<lparr>op_metadata := [(''remote_item_id'', JString ''x'')]\<rparr>)) ''remote_item_id'' = Some ''x''
    \<and> rd_delete log_rd (RemoteItemId ''x'') [] = (Inl GeNotFound, [''delete''])"
    by (simp add: sample_op_def make_op_def json_get_str_def log_rd_def)
qed

end
