(* ===== verification/Observations.thy ===== *)
theory Observations
  imports Conflict_Policy "HOL-Library.AList" "HOL-Library.Multiset"
begin

text \<open>
  The pure helpers of \<open>engine/cycle.rs\<close>: the path of a delta item, the sides and rows built
  from what the remote and the local scan report, the strict local divergence check, and
  the detection of case collisions within one delta page.

  A \<open>HashMap\<close> is an association list with distinct keys (\<open>AList.update\<close> inserts); where
  the code iterates over one, the order is \<open>lib_hash_order\<close> of its keys.
\<close>

section \<open>Paths of observed items\<close>

definition parent_dir_of_item :: "remote_item \<Rightarrow> string" where
  "parent_dir_of_item item =
     (case ri_parent_reference item of
        None \<Rightarrow> []
      | Some p \<Rightarrow>
          (case pref_path p of
             None \<Rightarrow> []
           | Some path \<Rightarrow>
               let rest = (case split_once CHR '':'' path of None \<Rightarrow> path | Some (_, after) \<Rightarrow> after)
               in trim_start CHR ''/'' rest))"

definition ok :: "'e + 'a \<Rightarrow> 'a option" where
  "ok r = (case r of Inl _ \<Rightarrow> None | Inr x \<Rightarrow> Some x)"

definition build_rel_path_from_item :: "lib \<Rightarrow> remote_item \<Rightarrow> rel_path option" where
  "build_rel_path_from_item L item =
     (let parent_dir = parent_dir_of_item item;
          full = (if parent_dir = [] then ri_name item else parent_dir @ ''/'' @ ri_name item)
      in ok (parse_rel L full))"

definition rel_from_abs :: "lib \<Rightarrow> abs_path \<Rightarrow> path_buf \<Rightarrow> rel_path option" where
  "rel_from_abs L lroot pb =
     (case path_to_str pb of
        None \<Rightarrow> None
      | Some s \<Rightarrow>
          (case strip_prefix (abs_str lroot) s of
             None \<Rightarrow> None
           | Some t \<Rightarrow>
               let rel = trim_start CHR ''/'' t
               in if rel = [] then None else ok (parse_rel L rel)))"

definition join_abs :: "abs_path \<Rightarrow> rel_path \<Rightarrow> abs_path option" where
  "join_abs lroot rel = ok (abs_path_from_str (join_str lroot (rel_str rel)))"

section \<open>Sides and rows\<close>

definition remote_side_from_item :: "remote_item \<Rightarrow> timestamp \<Rightarrow> file_side" where
  "remote_side_from_item item now =
     \<lparr>fs_kind = (if is_folder item then Directory else File),
      fs_size_bytes = ri_size item,
      fs_content_hash = None,
      fs_mtime = now,
      fs_etag = map_option ETag (ri_e_tag item),
      fs_remote_item_id = Some (DriveItemId (ri_id item))\<rparr>"

definition synthetic_remote_side :: file_side where
  "synthetic_remote_side =
     \<lparr>fs_kind = File, fs_size_bytes = 0, fs_content_hash = None, fs_mtime = 0, fs_etag = None,
      fs_remote_item_id = None\<rparr>"

definition build_remote_observation ::
  "pair_id \<Rightarrow> rel_path \<Rightarrow> file_entry option \<Rightarrow> remote_item option \<Rightarrow> file_side option
   \<Rightarrow> timestamp \<Rightarrow> file_entry option" where
  "build_remote_observation pid rp existing remote_opt new_remote now =
     (case existing of
        Some e \<Rightarrow> Some (e\<lparr>fe_remote := new_remote, fe_updated_at := now\<rparr>)
      | None \<Rightarrow>
          (case remote_opt of
             None \<Rightarrow> None
           | Some item \<Rightarrow> Some
               \<lparr>fe_pair_id = pid, fe_relative_path = rp,
                fe_kind = (if is_folder item then Directory else File),
                fe_sync_state = PendingDownload, fe_local = None, fe_remote = new_remote,
                fe_synced = None, fe_pending_op_id = None, fe_updated_at = now\<rparr>))"

definition local_diverges_from_synced :: "file_side \<Rightarrow> file_side option \<Rightarrow> bool" where
  "local_diverges_from_synced side synced_opt =
     (case synced_opt of
        None \<Rightarrow> True
      | Some synced \<Rightarrow>
          if fs_kind side \<noteq> fs_kind synced then True
          else if fs_kind side = Directory then False
          else if fs_size_bytes side \<noteq> fs_size_bytes synced then True
          else if fs_size_bytes side = 0 then False
          else (case (fs_content_hash side, fs_content_hash synced) of
                  (Some l, Some s) \<Rightarrow> l \<noteq> s
                | _ \<Rightarrow> True))"

definition classify_outcome :: "nat \<Rightarrow> nat \<Rightarrow> run_outcome" where
  "classify_outcome applied failed =
     (if failed = 0 then OutcomeSuccess
      else if applied = 0 then OutcomePartialFailure
      else OutcomePartialFailure)"

section \<open>Case collisions within a page\<close>

type_synonym 'v path_map = "(rel_path \<times> 'v) list"

fun bucket_push :: "string \<Rightarrow> rel_path \<Rightarrow> (string \<times> rel_path list) list \<Rightarrow> (string \<times> rel_path list) list" where
  "bucket_push k p [] = [(k, [p])]"
| "bucket_push k p ((k', ps) # bs) =
     (if k' = k then (k', ps @ [p]) # bs else (k', ps) # bucket_push k p bs)"

fun fill_buckets :: "lib \<Rightarrow> remote_item list \<Rightarrow> (string \<times> rel_path list) list \<Rightarrow> (string \<times> rel_path list) list" where
  "fill_buckets L [] bs = bs"
| "fill_buckets L (item # items) bs =
     (case build_rel_path_from_item L item of
        None \<Rightarrow> fill_buckets L items bs
      | Some p \<Rightarrow> fill_buckets L items (bucket_push (case_fold_key L (rel_str p)) p bs))"

fun insert_dropped :: "rel_path list \<Rightarrow> rel_path \<Rightarrow> rel_path path_map \<Rightarrow> rel_path path_map" where
  "insert_dropped [] canonical res = res"
| "insert_dropped (d # ds) canonical res = insert_dropped ds canonical (AList.update d canonical res)"

fun drop_losers :: "(string \<times> rel_path list) list \<Rightarrow> rel_path path_map \<Rightarrow> rel_path path_map" where
  "drop_losers [] res = res"
| "drop_losers ((k, paths) # bs) res =
     (if length paths \<le> 1 then drop_losers bs res
      else (case sort paths of
              [] \<Rightarrow> drop_losers bs res
            | canonical # losers \<Rightarrow> drop_losers bs (insert_dropped losers canonical res)))"

definition detect_remote_case_collisions :: "lib \<Rightarrow> remote_item list \<Rightarrow> rel_path path_map" where
  "detect_remote_case_collisions L items = drop_losers (fill_buckets L items []) []"

definition find_case_collision :: "lib \<Rightarrow> rel_path \<Rightarrow> 'v path_map \<Rightarrow> rel_path option" where
  "find_case_collision L p by_path =
     find (\<lambda>r. r \<noteq> p \<and> case_folds_equal L r p) (lib_hash_order L (map fst by_path))"

subsection \<open>What the detection returns\<close>

definition page_paths :: "lib \<Rightarrow> remote_item list \<Rightarrow> rel_path list" where
  "page_paths L items = List.map_filter (build_rel_path_from_item L) items"

abbreviation fold_of :: "lib \<Rightarrow> rel_path \<Rightarrow> string" where
  "fold_of L p \<equiv> case_fold_key L (rel_str p)"

definition old_bucket :: "(string \<times> rel_path list) list \<Rightarrow> string \<Rightarrow> rel_path list" where
  "old_bucket bs k = (case map_of bs k of None \<Rightarrow> [] | Some ps \<Rightarrow> ps)"

lemma bucket_push_keys: "fst ` set (bucket_push k p bs) = insert k (fst ` set bs)"
  by (induction k p bs rule: bucket_push.induct) auto

lemma bucket_push_distinct: "distinct (map fst bs) \<Longrightarrow> distinct (map fst (bucket_push k p bs))"
  by (induction k p bs rule: bucket_push.induct) (auto simp: bucket_push_keys)

lemma old_bucket_push:
  "distinct (map fst bs) \<Longrightarrow>
     old_bucket (bucket_push k p bs) x = (if x = k then old_bucket bs k @ [p] else old_bucket bs x)"
  by (induction k p bs rule: bucket_push.induct) (auto simp: old_bucket_def split: option.splits)

lemma fill_buckets_spec:
  assumes "distinct (map fst bs)"
  shows "distinct (map fst (fill_buckets L items bs))"
    and "old_bucket (fill_buckets L items bs) k
           = old_bucket bs k @ filter (\<lambda>q. fold_of L q = k) (page_paths L items)"
  using assms
  by (induction L items bs rule: fill_buckets.induct)
     (auto simp: page_paths_def map_filter_simps bucket_push_distinct old_bucket_push split: option.splits)

lemma insert_dropped_map:
  "map_of (insert_dropped ds c res) p = (if p \<in> set ds then Some c else map_of res p)"
  by (induction ds c res rule: insert_dropped.induct) (auto simp: update_conv)

lemma drop_losers_map:
  assumes "distinct (map fst bs)" and "\<And>k ps q. (k, ps) \<in> set bs \<Longrightarrow> q \<in> set ps \<Longrightarrow> f q = k"
  shows "map_of (drop_losers bs res) p =
    (let b = sort (old_bucket bs (f p)) in if p \<in> set (tl b) then Some (hd b) else map_of res p)"
  using assms
proof (induction bs res rule: drop_losers.induct)
  case (1 res)
  then show ?case by (simp add: old_bucket_def)
next
  case (2 k paths bs res)
  have d: "distinct (map fst bs)" "\<And>k ps q. (k, ps) \<in> set bs \<Longrightarrow> q \<in> set ps \<Longrightarrow> f q = k"
    using "2.prems" by auto
  have kf: "q \<in> set paths \<Longrightarrow> f q = k" for q using "2.prems"(2) by auto
  have kn: "old_bucket bs k = []" using "2.prems"(1)
    by (auto simp: old_bucket_def map_of_eq_None_iff split: option.splits dest!: map_of_SomeD intro: rev_image_eqI)
  show ?case
  proof (cases "length paths \<le> 1")
    case True
    then have "tl (sort paths) = []" by (cases paths) auto
    moreover have "map_of (drop_losers bs res) p =
      (let b = sort (old_bucket bs (f p)) in if p \<in> set (tl b) then Some (hd b) else map_of res p)"
      using "2.IH"(1) [OF True] d by blast
    ultimately show ?thesis using True kn
      by (cases "f p = k") (auto simp: old_bucket_def Let_def)
  next
    case False
    then obtain c ds where cd: "sort paths = c # ds"
      by (cases "sort paths") (auto dest: arg_cong [where f = length])
    have "map_of (drop_losers bs (insert_dropped ds c res)) p =
      (let b = sort (old_bucket bs (f p))
       in if p \<in> set (tl b) then Some (hd b) else map_of (insert_dropped ds c res) p)"
      using "2.IH"(3) [OF False cd] d by blast
    moreover have "p \<in> set ds \<Longrightarrow> f p = k"
      using cd kf by (metis list.set_intros(2) set_sort)
    ultimately show ?thesis using False cd kn
      by (cases "f p = k") (auto simp: old_bucket_def Let_def insert_dropped_map)
  qed
qed

lemma detect_map:
  "map_of (detect_remote_case_collisions L items) p =
     (let b = sort (filter (\<lambda>q. case_folds_equal L q p) (page_paths L items))
      in if p \<in> set (tl b) then Some (hd b) else None)"
proof -
  let ?bs = "fill_buckets L items []"
  have d: "distinct (map fst ?bs)"
    and b: "old_bucket ?bs k = filter (\<lambda>q. fold_of L q = k) (page_paths L items)" for k
    using fill_buckets_spec [of "[]" L items] by (simp_all add: old_bucket_def)
  have k: "(k, ps) \<in> set ?bs \<Longrightarrow> q \<in> set ps \<Longrightarrow> fold_of L q = k" for k ps q
    using d b [of k] by (auto simp: old_bucket_def)
  have "map_of (drop_losers ?bs []) p =
    (let b = sort (old_bucket ?bs (fold_of L p)) in if p \<in> set (tl b) then Some (hd b) else map_of [] p)"
    by (rule drop_losers_map [OF d]) (rule k)
  with b show ?thesis
    by (simp add: detect_remote_case_collisions_def case_folds_equal_def Let_def)
qed

lemma count_list_filter: "count_list (filter P xs) x = (if P x then count_list xs x else 0)"
  by (induction xs) auto

lemma sort_hd_Min: "xs \<noteq> [] \<Longrightarrow> hd (sort xs) = Min (set (xs :: 'a :: linorder list))"
proof -
  assume "xs \<noteq> []"
  then obtain y ys where y: "sort xs = y # ys" by (cases "sort xs") (auto dest: arg_cong [where f = length])
  have "sorted (y # ys)" using y by (metis sorted_sort)
  then have "y = Min (set (y # ys))" by (intro Min_eqI [symmetric]) auto
  with y show ?thesis by (metis list.sel(1) set_sort)
qed

lemma in_tl_sort_iff:
  "p \<in> set (tl (sort xs)) \<longleftrightarrow> p \<in> set xs \<and> (p \<noteq> hd (sort xs) \<or> 2 \<le> count_list xs (p :: 'a :: linorder))"
proof (cases "sort xs")
  case Nil
  then show ?thesis by (auto dest: arg_cong [where f = set])
next
  case (Cons c ds)
  have c: "count_list xs p = count_list (c # ds) p"
    by (metis Cons mset_sort count_mset)
  have s: "set xs = insert c (set ds)" by (metis Cons list.simps(15) set_sort)
  show ?thesis
    using c s Cons count_list_0_iff [of ds p] by (cases "p = c") (auto simp: Suc_le_eq)
qed

text \<open>
  The losers of one delta page: a path is dropped exactly when it is in the page and
  either is not the smallest path of its case-fold class or is that smallest path but occurs
  twice; the path it is dropped for is the smallest of its class.  So of two spellings of a
  name one is kept, and of two items with the very same path none.
\<close>
theorem detect_collisions_iff:
  "map_of (detect_remote_case_collisions L items) p = Some c \<longleftrightarrow>
     p \<in> set (page_paths L items)
     \<and> c = Min {q \<in> set (page_paths L items). case_folds_equal L q p}
     \<and> (c < p \<or> 2 \<le> count_list (page_paths L items) p)"
proof -
  let ?b = "filter (\<lambda>q. case_folds_equal L q p) (page_paths L items)"
  have cnt: "count_list ?b p = count_list (page_paths L items) p"
    by (simp add: count_list_filter)
  have hd: "p \<in> set (page_paths L items) \<Longrightarrow>
      hd (sort ?b) = Min {q \<in> set (page_paths L items). case_folds_equal L q p}"
    using sort_hd_Min [of ?b] by (force simp: filter_empty_conv)
  have "p \<in> set (page_paths L items) \<Longrightarrow>
      Min {q \<in> set (page_paths L items). case_folds_equal L q p} \<le> p"
    by (rule Min_le) (simp_all add: case_folds_equal_def)
  then have lt: "p \<in> set (page_paths L items) \<Longrightarrow>
      Min {q \<in> set (page_paths L items). case_folds_equal L q p} < p \<longleftrightarrow>
      p \<noteq> Min {q \<in> set (page_paths L items). case_folds_equal L q p}"
    by (auto simp: less_le)
  show ?thesis
    using in_tl_sort_iff [of p ?b] cnt hd lt by (auto simp: detect_map Let_def)
qed

section \<open>Paths and roots\<close>

lemma utf8_valid_ascii: "\<forall>b \<in> set bs. b < 128 \<Longrightarrow> utf8_valid bs"
  by (induction bs) auto

lemma path_to_str_ascii: "is_ascii s \<Longrightarrow> path_to_str (PathBuf s) = Some s"
  by (simp add: utf8_valid_ascii is_ascii_def list_all_iff)

lemma trim_start_no [simp]: "\<not> starts_with_char c s \<Longrightarrow> trim_start c s = s"
  by (cases s) (auto simp: trim_start_def starts_with_char_def)

lemma trim_start_Cons [simp]: "trim_start c (c # s) = trim_start c s"
  by (simp add: trim_start_def)

text \<open>
  A scan and the executor agree on names: the absolute path that the root and a
  relative path are joined to is mapped back to that relative path.
\<close>
theorem rel_from_join:
  assumes "nfc_laws (lib_nfc L)" and "wf_abs lroot" and "wf_rel p"
    and "is_ascii (abs_str lroot)" and "is_ascii (rel_str p)"
    and "length (join_str lroot (rel_str p)) \<le> MAX_PATH_BYTES"
  shows "\<exists>q. join_abs lroot p = Some q \<and> rel_from_abs L lroot (PathBuf (abs_str q)) = Some p"
proof -
  have w: "wf_path (rel_str p)" "\<not> starts_with_char CHR ''/'' (rel_str p)" "rel_str p \<noteq> []"
    using assms(3) by (auto simp: wf_rel_def wf_path_def)
  have n: "lib_nfc L (rel_str p) = rel_str p" using assms(1,5) by (simp add: nfc_laws_def)
  have j: "join_abs lroot p = Some (AbsPath (join_str lroot (rel_str p)))"
    using join_str_parse [OF assms(2) w(1) assms(6)] by (simp add: join_abs_def ok_def)
  have "is_ascii (join_str lroot (rel_str p))" using assms(4,5) by (simp add: join_str_def)
  then have "rel_from_abs L lroot (PathBuf (join_str lroot (rel_str p))) = ok (parse_rel L (rel_str p))"
    using w by (simp add: rel_from_abs_def path_to_str_ascii del: path_to_str.simps)
       (simp add: join_str_def)
  moreover have "parse_rel L (rel_str p) = Inr p"
    using w n by (simp add: rel_path_from_str_Inr)
  ultimately show ?thesis using j by (simp add: ok_def)
qed

theorem rel_from_join_witness:
  "\<exists>q. join_abs (AbsPath ''/r'') (RelPath ''a/b'') = Some q
     \<and> rel_from_abs ascii_lib (AbsPath ''/r'') (PathBuf (abs_str q)) = Some (RelPath ''a/b'')"
  by (rule rel_from_join)
     (simp_all add: nfc_laws_id wf_abs_def wf_rel_def wf_path_def starts_with_char_def join_str_def
        MAX_PATH_BYTES_def)

text \<open>
  The root is matched as a string, not as a directory: a path in a sibling directory
  whose name merely extends the root's name is taken to be inside the root.
\<close>
theorem sibling_taken_for_child:
  assumes "nfc_laws (lib_nfc L)" and "is_ascii (abs_str lroot)" and "is_ascii s"
    and "wf_path s" and "\<not> starts_with_char CHR ''/'' s"
  shows "rel_from_abs L lroot (PathBuf (abs_str lroot @ s)) = Some (RelPath s)"
proof -
  have s: "lib_nfc L s = s" "s \<noteq> []" using assms by (auto simp: nfc_laws_def wf_path_def)
  then have "parse_rel L s = Inr (RelPath s)" using assms(4,5) by (simp add: rel_path_from_str_Inr)
  with assms s show ?thesis
    by (simp add: rel_from_abs_def path_to_str_ascii ok_def del: path_to_str.simps)
qed

theorem sibling_taken_for_child_witness:
  "rel_from_abs ascii_lib (AbsPath ''/sync'') (PathBuf ''/synced/a'') = Some (RelPath ''ed/a'')"
  using sibling_taken_for_child [of ascii_lib "AbsPath ''/sync''" "''ed/a''"]
  by (simp add: nfc_laws_id wf_path_def starts_with_char_def MAX_PATH_BYTES_def)

section \<open>The two divergence checks\<close>

text \<open>
  The scan's divergence check is stricter than the reconciler's in exactly one
  situation: two files of equal, non-zero size that both carry no hash.  There the scan
  plans an upload while the reconciler takes the file for unchanged.
\<close>
theorem divergence_checks_differ:
  "(local_diverges_from_synced l (Some s) \<and> \<not> local_differs_from_synced (Some l) (Some s)) \<longleftrightarrow>
     (fs_kind l = File \<and> fs_kind s = File \<and> fs_size_bytes l = fs_size_bytes s
      \<and> fs_size_bytes l \<noteq> 0 \<and> fs_content_hash l = None \<and> fs_content_hash s = None)"
  by (cases "fs_kind l"; cases "fs_kind s")
     (auto simp: local_diverges_from_synced_def local_differs_from_synced_def
        identifies_same_content_as_def split: option.splits)

end
