(* ===== verification/Observability.thy ===== *)
theory Observability
  imports Ports
begin

text \<open>The audit events of a cycle (\<open>engine/observability.rs\<close>).\<close>

definition make_event ::
  "audit_event_id \<Rightarrow> timestamp \<Rightarrow> audit_level \<Rightarrow> string \<Rightarrow> pair_id option \<Rightarrow> json_map \<Rightarrow> audit_event" where
  "make_event i ts level kind pid payload =
     \<lparr>ev_id = i, ev_ts = ts, ev_level = level, ev_kind = kind, ev_pair_id = pid, ev_payload = payload\<rparr>"

definition cycle_started :: "audit_event_id \<Rightarrow> timestamp \<Rightarrow> pair_id \<Rightarrow> audit_event" where
  "cycle_started i ts pid = make_event i ts LevelInfo ''sync_cycle_started'' (Some pid) []"

definition cycle_finished ::
  "audit_event_id \<Rightarrow> timestamp \<Rightarrow> pair_id \<Rightarrow> nat \<Rightarrow> nat \<Rightarrow> audit_event" where
  "cycle_finished i ts pid ops_applied conflicts =
     make_event i ts LevelInfo ''sync_cycle_finished'' (Some pid)
       (json_insert ''conflicts_detected'' (JNum conflicts)
         (json_insert ''ops_applied'' (JNum ops_applied) []))"

definition op_failed ::
  "audit_event_id \<Rightarrow> timestamp \<Rightarrow> pair_id \<Rightarrow> string \<Rightarrow> string \<Rightarrow> audit_event" where
  "op_failed i ts pid relative_path reason =
     make_event i ts LevelError ''file_op_failed'' (Some pid)
       (json_insert ''reason'' (JString reason)
         (json_insert ''relative_path'' (JString relative_path) []))"

definition conflict_detected ::
  "audit_event_id \<Rightarrow> timestamp \<Rightarrow> pair_id \<Rightarrow> string \<Rightarrow> audit_event" where
  "conflict_detected i ts pid relative_path =
     make_event i ts LevelWarn ''conflict_detected'' (Some pid)
       (json_insert ''relative_path'' (JString relative_path) [])"

end
