(* ===== verification/Retry.thy ===== *)
theory Retry
  imports Ports
begin

text \<open>
  The retry schedule (\<open>engine/retry.rs\<close>) and the jitter sources of \<open>engine/cycle.rs\<close>.
  \<open>f64\<close> fractions are real numbers; the delay is the truncated product, as in the source.
\<close>

datatype retry_step = RetryImmediate | RetryBackoff nat | RetryExhausted

definition f64_EPSILON :: real where "f64_EPSILON = 1 / 2 ^ 52"

definition clampR :: "real \<Rightarrow> real \<Rightarrow> real \<Rightarrow> real" where
  "clampR lo hi x = (if x < lo then lo else if hi < x then hi else x)"

definition u64_MAX :: nat where "u64_MAX = 2 ^ 64 - 1"

definition retry_decision :: "nat \<Rightarrow> real \<Rightarrow> retry_step" where
  "retry_decision attempt jitter_fraction =
     (if attempt = 0 then RetryImmediate
      else if attempt \<ge> RETRY_MAX_ATTEMPTS then RetryExhausted
      else
        let shift = min (attempt - 1) 6;
            cap_factor = (2::nat) ^ shift;
            ceiling_ms = min u64_MAX (RETRY_BACKOFF_BASE_MS * cap_factor);
            jf = clampR 0 (1 - f64_EPSILON) jitter_fraction
        in RetryBackoff (nat \<lfloor>jf * real ceiling_ms\<rfloor>))"

definition should_retry :: "nat \<Rightarrow> bool" where
  "should_retry attempt \<longleftrightarrow> attempt < RETRY_MAX_ATTEMPTS"

definition pseudo_jitter :: "nat \<Rightarrow> real" where
  "pseudo_jitter attempt = (if attempt mod 2 = 1 then 0.25 else 0)"

definition random_jitter :: "'w runtime \<Rightarrow> nat \<Rightarrow> 'w \<Rightarrow> real \<times> 'w" where
  "random_jitter rt attempt w =
     (case rt_getrandom_u64 rt w of
        (None, w') \<Rightarrow> (pseudo_jitter attempt, w')
      | (Some n, w') \<Rightarrow> (clampR 0 1 (real (unat n) / real u64_MAX), w'))"

section \<open>The schedule\<close>

lemma clampR_bounds: "lo \<le> hi \<Longrightarrow> lo \<le> clampR lo hi x \<and> clampR lo hi x \<le> hi"
  by (simp add: clampR_def)

lemma retry_exhausted_iff [simp]: "retry_decision a j = RetryExhausted \<longleftrightarrow> RETRY_MAX_ATTEMPTS \<le> a"
  by (auto simp: retry_decision_def Let_def RETRY_MAX_ATTEMPTS_def)

lemma retry_immediate_iff [simp]: "retry_decision a j = RetryImmediate \<longleftrightarrow> a = 0"
  by (auto simp: retry_decision_def Let_def)

lemma retry_backoff_less:
  assumes "retry_decision a j = RetryBackoff d"
  shows "0 < a" and "a < RETRY_MAX_ATTEMPTS" and "d < RETRY_BACKOFF_BASE_MS * 2 ^ (a - 1)"
proof -
  show a: "0 < a" "a < RETRY_MAX_ATTEMPTS"
    using assms by (auto simp: retry_decision_def not_le split: if_splits)
  let ?c = "RETRY_BACKOFF_BASE_MS * 2 ^ (a - 1)"
  let ?j = "clampR 0 (1 - f64_EPSILON) j"
  have "a \<in> {1, 2, 3, 4}" using a by (simp add: RETRY_MAX_ATTEMPTS_def) presburger
  then have c: "min u64_MAX (RETRY_BACKOFF_BASE_MS * 2 ^ min (a - 1) 6) = ?c"
    by (auto simp: u64_MAX_def RETRY_BACKOFF_BASE_MS_def)
  have d: "d = nat \<lfloor>?j * real ?c\<rfloor>"
    using assms a c by (auto simp: retry_decision_def Let_def)
  have j: "0 \<le> ?j" "?j < 1"
    using clampR_bounds [of 0 "1 - f64_EPSILON" j] by (auto simp: f64_EPSILON_def)
  have "?j * real ?c < 1 * real ?c"
    using j by (intro mult_strict_right_mono) (auto simp: RETRY_BACKOFF_BASE_MS_def)
  with j show "d < ?c"
    unfolding d by (simp add: nat_less_iff floor_less_iff)
qed

text \<open>
  The retry schedule is bounded: the first attempt is immediate, attempts one to four
  wait strictly less than 1000 ms times a power of two (1, 2, 4, 8 seconds) whatever the
  jitter, and from the fifth on the budget is exhausted; so an operation makes at most five
  attempts and sleeps less than 15 seconds in total.
\<close>
theorem retry_schedule:
  "(retry_decision a j = RetryImmediate \<longleftrightarrow> a = 0)
   \<and> (retry_decision a j = RetryExhausted \<longleftrightarrow> \<not> should_retry a)
   \<and> (\<forall>d. retry_decision a j = RetryBackoff d \<longrightarrow> 0 < a \<and> a < 5 \<and> d < 1000 * 2 ^ (a - 1))
   \<and> (\<Sum>k \<in> {1..<RETRY_MAX_ATTEMPTS}.
        case retry_decision k (js k) of RetryBackoff d \<Rightarrow> d | _ \<Rightarrow> 0) < 15000"
proof -
  have one: "(case retry_decision k (js k) of RetryBackoff d \<Rightarrow> d | _ \<Rightarrow> 0) \<le> 1000 * 2 ^ (k - 1) - 1" for k
    using retry_backoff_less(3) [of k "js k"]
    by (cases "retry_decision k (js k)")
       (auto simp: RETRY_BACKOFF_BASE_MS_def simp del: retry_exhausted_iff retry_immediate_iff)
  have "(\<Sum>k \<in> {1..<RETRY_MAX_ATTEMPTS}. case retry_decision k (js k) of RetryBackoff d \<Rightarrow> d | _ \<Rightarrow> 0)
     \<le> (\<Sum>k \<in> {1..<RETRY_MAX_ATTEMPTS}. 1000 * 2 ^ (k - 1) - 1)"
    by (intro sum_mono one)
  also have "(\<Sum>k \<in> {1..<RETRY_MAX_ATTEMPTS}. 1000 * 2 ^ (k - 1) - (1::nat)) < 15000"
  proof -
    have "{1..<RETRY_MAX_ATTEMPTS} = {1, 2, 3, 4}" by (auto simp: RETRY_MAX_ATTEMPTS_def)
    then show ?thesis by simp
  qed
  finally show ?thesis
    using retry_backoff_less [of a j]
    by (auto simp: should_retry_def RETRY_MAX_ATTEMPTS_def RETRY_BACKOFF_BASE_MS_def)
qed

theorem retry_schedule_witness:
  "retry_decision 2 0.5 = RetryBackoff 1000 \<and> (1000::nat) < 1000 * 2 ^ (2 - 1)"
proof -
  have "retry_decision 2 0.5 = RetryBackoff 1000"
    by (simp add: retry_decision_def RETRY_MAX_ATTEMPTS_def RETRY_BACKOFF_BASE_MS_def u64_MAX_def
        clampR_def f64_EPSILON_def)
  with retry_schedule [of 2 "0.5" "\<lambda>_. 0"] show ?thesis by auto
qed

end
