(* ===== verification/Cycle_World.thy ===== *)
theory Cycle_World
  imports Executor Observations Observability Retry
begin

text \<open>
  The interfaces that the phases of a cycle rely on, as locales: what the row of a file
  entry, the row of a pair and the conflict rows are after each call of the state store, and
  that every other port leaves them alone.  Their laws are discharged by the in-memory store
  (\<open>Mem_Store\<close>); the phases prove their lemmas inside them.
\<close>

named_theorems frame_rules \<open>composition rules for effects that leave an observation alone\<close>

section \<open>Framing\<close>

definition frames :: "('w \<Rightarrow> 'b) \<Rightarrow> ('w, 'e, 'a) io \<Rightarrow> bool" where
  "frames v m \<longleftrightarrow> (\<forall>w. v (snd (m w)) = v w)"

definition frames_step :: "('w \<Rightarrow> 'b) \<Rightarrow> ('w \<Rightarrow> 'a \<times> 'w) \<Rightarrow> bool" where
  "frames_step v f \<longleftrightarrow> (\<forall>w. v (snd (f w)) = v w)"

lemma framesD:
  assumes "frames v m" and "m w = (r, w')"
  shows "v w' = v w"
proof -
  have "v (snd (m w)) = v w" using assms(1) by (simp add: frames_def)
  with assms(2) show ?thesis by simp
qed

lemma framesI: "(\<And>w r w'. m w = (r, w') \<Longrightarrow> v w' = v w) \<Longrightarrow> frames v m"
  by (simp add: frames_def) (metis prod.collapse)

lemma frames_stepD:
  assumes "frames_step v f" and "f w = (x, w')"
  shows "v w' = v w"
proof -
  have "v (snd (f w)) = v w" using assms(1) by (simp add: frames_step_def)
  with assms(2) show ?thesis by simp
qed

lemma frames_return [frame_rules]: "frames v (returnE x)"
  by (simp add: frames_def returnE_def)

lemma frames_throw [frame_rules]: "frames v (throwE x)"
  by (simp add: frames_def throwE_def)

lemma frames_result [frame_rules]: "frames v (resultE x)"
  by (simp add: frames_def resultE_def)

lemma frames_bind [frame_rules]:
  "frames v m \<Longrightarrow> (\<And>x. frames v (f x)) \<Longrightarrow> frames v (bindE m f)"
  by (rule framesI)
     (auto simp: bindE_def split: prod.splits sum.splits, (metis framesD)+)

lemma frames_map_err [frame_rules]: "frames v m \<Longrightarrow> frames v (map_errE g m)"
  by (rule framesI) (auto simp: map_errE_def split: prod.splits sum.splits dest!: framesD)

lemma frames_try [frame_rules]: "frames v m \<Longrightarrow> frames v (tryE m)"
  by (rule framesI) (auto simp: tryE_def split: prod.splits dest!: framesD)

lemma frames_lift [frame_rules]: "frames_step v f \<Longrightarrow> frames v (liftE f)"
  by (rule framesI) (auto simp: liftE_def split: prod.splits dest!: frames_stepD)

lemma frames_modify [frame_rules]: "(\<And>w. v (f w) = v w) \<Longrightarrow> frames v (modifyE f)"
  by (simp add: frames_def modifyE_def)

lemma frames_state_call [frame_rules]: "frames v m \<Longrightarrow> frames v (state_call m)"
  by (simp add: state_call_def frames_map_err)

lemma frames_remote_call [frame_rules]: "frames v m \<Longrightarrow> frames v (remote_call m)"
  by (simp add: remote_call_def frames_map_err)

lemma frames_local_call [frame_rules]: "frames v m \<Longrightarrow> frames v (local_call m)"
  by (simp add: local_call_def frames_map_err)

lemma frames_keeps: "frames v m \<longleftrightarrow> (\<forall>E. keeps (\<lambda>w. v w = E) m)"
  by (auto simp: frames_def keeps_def)

lemma hoare_frames: "frames v m \<Longrightarrow> hoare (\<lambda>w. P (v w)) m (\<lambda>_ w. P (v w)) (\<lambda>_ w. P (v w))"
  by (intro hoareI) (auto dest: framesD)

text \<open>The ports around the store leave an observation alone.\<close>

definition ports_frame :: "('w \<Rightarrow> 'b) \<Rightarrow> 'w cycle_ctx \<Rightarrow> bool" where
  "ports_frame v cx \<longleftrightarrow>
     (\<forall>d c. frames v (rd_delta (cx_remote cx) d c))
     \<and> (\<forall>i. frames v (rd_download (cx_remote cx) i))
     \<and> (\<forall>p n b. frames v (rd_upload_small (cx_remote cx) p n b))
     \<and> (\<forall>p n k. frames v (rd_upload_session (cx_remote cx) p n k))
     \<and> (\<forall>i n. frames v (rd_rename (cx_remote cx) i n))
     \<and> (\<forall>i. frames v (rd_delete (cx_remote cx) i))
     \<and> (\<forall>p n. frames v (rd_mkdir (cx_remote cx) p n))
     \<and> (\<forall>p. frames v (lf_scan (cx_local cx) p))
     \<and> (\<forall>p. frames v (lf_read (cx_local cx) p))
     \<and> (\<forall>p b. frames v (lf_write_atomic (cx_local cx) p b))
     \<and> (\<forall>p q. frames v (lf_rename (cx_local cx) p q))
     \<and> (\<forall>p. frames v (lf_delete (cx_local cx) p))
     \<and> (\<forall>p. frames v (lf_mkdir_p (cx_local cx) p))
     \<and> frames_step v (rt_now (cx_runtime cx))
     \<and> frames_step v (rt_new_ulid (cx_runtime cx))
     \<and> (\<forall>e w. v (rt_emit (cx_runtime cx) e w) = v w)
     \<and> frames_step v (rt_getrandom_u64 (cx_runtime cx))
     \<and> (\<forall>n w. v (rt_sleep_ms (cx_runtime cx) n w) = v w)"

text \<open>The calls of the store on the tables of runs, operations and the log.\<close>

definition op_tables_frame :: "('w \<Rightarrow> 'b) \<Rightarrow> 'w cycle_ctx \<Rightarrow> bool" where
  "op_tables_frame v cx \<longleftrightarrow>
     (\<forall>r. frames v (st_run_record (cx_state cx) r))
     \<and> (\<forall>r. frames v (st_op_insert (cx_state cx) r))
     \<and> (\<forall>i s n. frames v (st_op_update_status (cx_state cx) i s n))"

lemma frames_new_id: "frames_step v (rt_new_ulid rt) \<Longrightarrow> frames_step v (new_id rt)"
  by (auto simp: frames_step_def new_id_def split: prod.split) (metis snd_conv)

lemma frames_runtime [frame_rules]:
  assumes "ports_frame v cx"
  shows "frames v (clock_now cx)" and "frames v (fresh_id cx)" and "frames v (emit cx ev)"
  using assms frames_new_id [of v "cx_runtime cx"]
  by (auto simp: ports_frame_def clock_now_def fresh_id_def emit_def intro!: frame_rules)

lemma frames_ports [frame_rules]:
  assumes "ports_frame v cx"
  shows "frames v (rd_delta (cx_remote cx) d c)" and "frames v (lf_scan (cx_local cx) p)"
    and "frames v (lf_rename (cx_local cx) p q)"
  using assms by (simp_all add: ports_frame_def)

lemma frames_case_option [frame_rules]:
  "frames v n \<Longrightarrow> (\<And>x. frames v (f x)) \<Longrightarrow> frames v (case o' of None \<Rightarrow> n | Some x \<Rightarrow> f x)"
  by (cases o') auto

lemma frames_if [frame_rules]:
  "frames v m \<Longrightarrow> frames v n \<Longrightarrow> frames v (if b then m else n)"
  by auto

lemma frames_execute:
  assumes "ports_frame v cx"
  shows "frames v (execute (cx_lib cx) op (cx_local_root cx) (cx_local cx) (cx_remote cx))"
  using assms
  by (auto simp: execute_def execute_kind_defs ports_frame_def Let_def
      intro!: frame_rules split: file_op_kind.split option.split sum.split
        local_fs_error.split graph_error.split)

section \<open>Effects that never fail\<close>

named_theorems sure_rules \<open>rules for effects that never raise an error\<close>

definition sure :: "('w, 'e, 'a) io \<Rightarrow> ('a \<Rightarrow> bool) \<Rightarrow> bool" where
  "sure m Q \<longleftrightarrow> (\<forall>w. \<exists>x w'. m w = (Inr x, w') \<and> Q x)"

lemma sure_weaken: "sure m Q \<Longrightarrow> (\<And>x. Q x \<Longrightarrow> R x) \<Longrightarrow> sure m R"
  unfolding sure_def by blast

lemma sure_return [sure_rules]: "Q x \<Longrightarrow> sure (returnE x) Q"
  by (simp add: sure_def returnE_def)

lemma sure_bind:
  assumes "sure m B" and "\<And>x. B x \<Longrightarrow> sure (f x) Q"
  shows "sure (bindE m f) Q"
  unfolding sure_def
proof
  fix w
  obtain x w1 where "m w = (Inr x, w1)" "B x" using assms(1) unfolding sure_def by blast
  with assms(2) show "\<exists>y w'. bindE m f w = (Inr y, w') \<and> Q y"
    by (simp add: bindE_def sure_def)
qed

lemma sure_bind_any [sure_rules]: "sure m (\<lambda>_. True) \<Longrightarrow> (\<And>x. sure (f x) Q) \<Longrightarrow> sure (bindE m f) Q"
  by (rule sure_bind)

lemma sure_lift [sure_rules]: "sure (liftE f) (\<lambda>_. True)"
  by (simp add: sure_def liftE_def split: prod.split)

lemma sure_modify [sure_rules]: "sure (modifyE f) (\<lambda>_. True)"
  by (simp add: sure_def modifyE_def)

lemma sure_try [sure_rules]: "sure (tryE m) (\<lambda>_. True)"
  by (simp add: sure_def tryE_def split: prod.split)

lemma sure_runtime [sure_rules]:
  "sure (clock_now cx) (\<lambda>_. True)" "sure (fresh_id cx) (\<lambda>_. True)" "sure (emit cx ev) (\<lambda>_. True)"
  by (simp_all add: clock_now_def fresh_id_def emit_def sure_rules)

section \<open>The interfaces\<close>

definition upd_entry ::
  "(pair_id \<Rightarrow> rel_path \<Rightarrow> file_entry option) \<Rightarrow> file_entry \<Rightarrow> pair_id \<Rightarrow> rel_path \<Rightarrow> file_entry option" where
  "upd_entry E e = E(fe_pair_id e := (E (fe_pair_id e))(fe_relative_path e := Some e))"

lemma upd_entry_same [simp]: "fe_pair_id e = p \<Longrightarrow> fe_relative_path e = r \<Longrightarrow> upd_entry E e p r = Some e"
  by (auto simp: upd_entry_def)

lemma upd_entry_other: "(p, r) \<noteq> (fe_pair_id e, fe_relative_path e) \<Longrightarrow> upd_entry E e p r = E p r"
  by (auto simp: upd_entry_def)

lemma upd_entry_apply:
  "upd_entry E e p r = (if p = fe_pair_id e \<and> r = fe_relative_path e then Some e else E p r)"
  by (auto simp: upd_entry_def)

text \<open>Every row is stored under its own key.\<close>

definition keyed :: "(pair_id \<Rightarrow> rel_path \<Rightarrow> file_entry option) \<Rightarrow> bool" where
  "keyed E \<longleftrightarrow> (\<forall>p r e. E p r = Some e \<longrightarrow> fe_pair_id e = p \<and> fe_relative_path e = r)"

lemma keyed_upd [simp]: "keyed E \<Longrightarrow> keyed (upd_entry E e)"
  by (auto simp: keyed_def upd_entry_apply)

text \<open>Rows of file entries: a lookup returns what the last upsert of the key stored.\<close>

locale entry_view =
  fixes cx :: "'w cycle_ctx"
    and entries :: "'w \<Rightarrow> pair_id \<Rightarrow> rel_path \<Rightarrow> file_entry option"
  assumes get_frame: "frames entries (st_file_entry_get (cx_state cx) p r)"
    and get_value: "st_file_entry_get (cx_state cx) p r w = (Inr x, w') \<Longrightarrow> x = entries w p r"
    and get_ci_frame: "frames entries (st_file_entry_get_ci (cx_state cx) p r)"
    and upsert_ok: "st_file_entry_upsert (cx_state cx) e w = (Inr u, w') \<Longrightarrow>
                      entries w' = upd_entry (entries w) e"
    and upsert_failed: "st_file_entry_upsert (cx_state cx) e w = (Inl er, w') \<Longrightarrow> entries w' = entries w"
    and pair_get_frame: "frames entries (st_pair_get (cx_state cx) q)"
    and pair_upsert_frame: "frames entries (st_pair_upsert (cx_state cx) pr)"
    and conflict_insert_frame: "frames entries (st_conflict_insert (cx_state cx) cf)"
    and op_tables: "op_tables_frame entries cx"
    and ports: "ports_frame entries cx"
begin

lemma hoare_get:
  "hoare (\<lambda>w. entries w = E) (state_call (st_file_entry_get (cx_state cx) p r))
     (\<lambda>x w. x = E p r \<and> entries w = E) (\<lambda>_ w. entries w = E)"
  unfolding state_call_def
  by (rule hoare_map_err) (auto intro!: hoareI dest: get_value framesD [OF get_frame])

lemma hoare_upsert:
  "hoare (\<lambda>w. entries w = E) (state_call (st_file_entry_upsert (cx_state cx) e))
     (\<lambda>_ w. entries w = upd_entry E e) (\<lambda>_ w. entries w = E)"
  unfolding state_call_def
  by (rule hoare_map_err) (auto intro!: hoareI dest: upsert_ok upsert_failed)

lemma hoare_framed:
  "frames entries m \<Longrightarrow> hoare (\<lambda>w. entries w = E) m (\<lambda>_ w. entries w = E) (\<lambda>_ w. entries w = E)"
  by (auto intro!: hoareI dest: framesD)

lemmas framed_calls =
  frames_runtime [OF ports] frames_ports [OF ports] frames_execute [OF ports] get_ci_frame get_frame
  pair_get_frame pair_upsert_frame conflict_insert_frame
  op_tables [unfolded op_tables_frame_def, THEN conjunct1, rule_format]
  op_tables [unfolded op_tables_frame_def, THEN conjunct2, THEN conjunct1, rule_format]
  op_tables [unfolded op_tables_frame_def, THEN conjunct2, THEN conjunct2, rule_format]

end

text \<open>Rows of pairs: the cursor of a pair only moves by an upsert of the pair.\<close>

locale pair_view =
  fixes cx :: "'w cycle_ctx"
    and pairs :: "'w \<Rightarrow> pair_id \<Rightarrow> pair option"
  assumes pv_get_frame: "frames pairs (st_pair_get (cx_state cx) q)"
    and pv_get_value: "st_pair_get (cx_state cx) q w = (Inr x, w') \<Longrightarrow> x = pairs w q"
    and pv_upsert_ok: "st_pair_upsert (cx_state cx) pr w = (Inr u, w') \<Longrightarrow>
                         pairs w' = (pairs w)(pr_id pr := Some pr)"
    and pv_upsert_failed: "st_pair_upsert (cx_state cx) pr w = (Inl er, w') \<Longrightarrow> pairs w' = pairs w"
    and pv_entry_get_frame: "frames pairs (st_file_entry_get (cx_state cx) p r)"
    and pv_entry_get_ci_frame: "frames pairs (st_file_entry_get_ci (cx_state cx) p r)"
    and pv_entry_upsert_frame: "frames pairs (st_file_entry_upsert (cx_state cx) e)"
    and pv_conflict_insert_frame: "frames pairs (st_conflict_insert (cx_state cx) cf)"
    and pv_op_tables: "op_tables_frame pairs cx"
    and pv_ports: "ports_frame pairs cx"
begin

lemmas pv_framed_calls =
  frames_runtime [OF pv_ports] frames_ports [OF pv_ports] frames_execute [OF pv_ports] pv_get_frame
  pv_entry_get_frame pv_entry_get_ci_frame pv_entry_upsert_frame pv_conflict_insert_frame
  pv_op_tables [unfolded op_tables_frame_def, THEN conjunct1, rule_format]
  pv_op_tables [unfolded op_tables_frame_def, THEN conjunct2, THEN conjunct1, rule_format]
  pv_op_tables [unfolded op_tables_frame_def, THEN conjunct2, THEN conjunct2, rule_format]

end

text \<open>Rows of operations, written by insert and by status updates only.\<close>

locale op_view =
  fixes cx :: "'w cycle_ctx"
    and ops :: "'w \<Rightarrow> file_op_id \<Rightarrow> file_op option"
  assumes ov_insert_ok: "st_op_insert (cx_state cx) op w = (Inr u, w') \<Longrightarrow>
                           ops w' = (ops w)(op_id op := Some op)"
    and ov_insert_failed: "st_op_insert (cx_state cx) op w = (Inl er, w') \<Longrightarrow> ops w' = ops w"
    and ov_update_ok: "st_op_update_status (cx_state cx) i st n w = (Inr u, w') \<Longrightarrow>
          ops w' = (ops w)(i := map_option (\<lambda>op. op\<lparr>op_status := st, op_attempts := n\<rparr>) (ops w i))"
    and ov_update_failed: "st_op_update_status (cx_state cx) i st n w = (Inl er, w') \<Longrightarrow> ops w' = ops w"
    and ov_entry_get_frame: "frames ops (st_file_entry_get (cx_state cx) p r)"
    and ov_entry_upsert_frame: "frames ops (st_file_entry_upsert (cx_state cx) e)"
    and ov_ports: "ports_frame ops cx"

text \<open>The same over a store that never refuses such a write.\<close>

locale reliable_op_view = op_view +
  assumes insert_succeeds: "\<exists>w'. st_op_insert (cx_state cx) op w = (Inr (), w')"
    and update_succeeds: "\<exists>w'. st_op_update_status (cx_state cx) i st n w = (Inr (), w')"

text \<open>Conflict rows: inserted, never touched again by a cycle.\<close>

locale conflict_view =
  fixes cx :: "'w cycle_ctx"
    and conflicts :: "'w \<Rightarrow> conflict_id \<Rightarrow> conflict option"
  assumes cv_insert_ok: "st_conflict_insert (cx_state cx) c w = (Inr u, w') \<Longrightarrow>
                           conflicts w' = (conflicts w)(cf_id c := Some c)"
    and cv_insert_failed: "st_conflict_insert (cx_state cx) c w = (Inl er, w') \<Longrightarrow> conflicts w' = conflicts w"
    and cv_entry_get_frame: "frames conflicts (st_file_entry_get (cx_state cx) p r)"
    and cv_entry_upsert_frame: "frames conflicts (st_file_entry_upsert (cx_state cx) e)"
    and cv_ports: "ports_frame conflicts cx"

end
