(* ===== verification/Mem_Store.thy ===== *)
theory Mem_Store
  imports Cycle_World
begin

text \<open>
  The in-memory \<open>StateStore\<close> (\<open>crates/onesync-state/src/fakes.rs\<close>): one hash map per table.
  A hash map is an association list with distinct keys; its iteration order is
  \<open>lib_map_order\<close>.  A world pairs the store with an arbitrary state of everything else, and
  the store's operations are interpreted as the entry and pair interfaces of the engine.
\<close>

section \<open>Tables\<close>

type_synonym ('k, 'v) table = "('k \<times> 'v) list"

record mem_store =
  ms_accounts :: "(account_id, account) table"
  ms_pairs :: "(pair_id, pair) table"
  ms_file_entries :: "(pair_id \<times> rel_path, file_entry) table"
  ms_file_ops :: "(file_op_id, file_op) table"
  ms_conflicts :: "(conflict_id, conflict) table"
  ms_sync_runs :: "(sync_run_id, sync_run) table"
  ms_audit :: "audit_event list"
  ms_config :: "instance_config option"

type_synonym 'a mem_io = "(mem_store, state_error, 'a) io"

definition empty_store :: mem_store where
  "empty_store =
     \<lparr>ms_accounts = [], ms_pairs = [], ms_file_entries = [], ms_file_ops = [], ms_conflicts = [],
      ms_sync_runs = [], ms_audit = [], ms_config = None\<rparr>"

text \<open>\<open>HashMap::values\<close> in iteration order, \<open>get_mut\<close> and \<open>retain\<close>.\<close>

definition table_values :: "lib \<Rightarrow> ('k, 'v) table \<Rightarrow> 'v list" where
  "table_values L t = map (\<lambda>i. snd (t ! i)) (lib_map_order L (length t))"

definition table_modify :: "'k \<Rightarrow> ('v \<Rightarrow> 'v) \<Rightarrow> ('k, 'v) table \<Rightarrow> ('k, 'v) table" where
  "table_modify k f t = (case map_of t k of None \<Rightarrow> t | Some v \<Rightarrow> AList.update k (f v) t)"

definition table_retain :: "('k \<Rightarrow> 'v \<Rightarrow> bool) \<Rightarrow> ('k, 'v) table \<Rightarrow> ('k, 'v) table" where
  "table_retain P t = filter (\<lambda>(k, v). P k v) t"

definition is_none_or :: "('a \<Rightarrow> bool) \<Rightarrow> 'a option \<Rightarrow> bool" where
  "is_none_or P x = (case x of None \<Rightarrow> True | Some y \<Rightarrow> P y)"

lemma table_values_set:
  "map_order_laws (lib_map_order L) \<Longrightarrow> set (table_values L t) = snd ` set t"
proof -
  assume "map_order_laws (lib_map_order L)"
  then have "set (table_values L t) = snd ` (nth t ` {0..<length t})"
    by (auto simp: table_values_def map_order_laws_def image_image lessThan_atLeast0)
  then show ?thesis by (simp add: nth_image)
qed

lemma table_values_length:
  assumes "map_order_laws (lib_map_order L)"
  shows "length (table_values L t) = length t"
proof -
  have "length (lib_map_order L (length t)) = card (set (lib_map_order L (length t)))"
    by (rule distinct_card [symmetric]) (use assms in \<open>simp add: map_order_laws_def\<close>)
  also have "\<dots> = length t" using assms by (simp add: map_order_laws_def)
  finally show ?thesis by (simp add: table_values_def)
qed

lemma map_of_retain:
  "distinct (map fst t) \<Longrightarrow>
     map_of (table_retain P t) k = (case map_of t k of Some v \<Rightarrow> if P k v then Some v else None | None \<Rightarrow> None)"
  by (induction t) (auto simp: table_retain_def map_of_eq_None_iff split: option.splits)

section \<open>Operations\<close>

definition mem_account_upsert :: "account \<Rightarrow> unit mem_io" where
  "mem_account_upsert a s = (Inr (), s\<lparr>ms_accounts := AList.update (ac_id a) a (ms_accounts s)\<rparr>)"

definition mem_account_get :: "account_id \<Rightarrow> account option mem_io" where
  "mem_account_get i s = (Inr (map_of (ms_accounts s) i), s)"

definition mem_pair_upsert :: "pair \<Rightarrow> unit mem_io" where
  "mem_pair_upsert p s = (Inr (), s\<lparr>ms_pairs := AList.update (pr_id p) p (ms_pairs s)\<rparr>)"

definition mem_pair_get :: "pair_id \<Rightarrow> pair option mem_io" where
  "mem_pair_get i s = (Inr (map_of (ms_pairs s) i), s)"

definition pair_id_text :: "lib \<Rightarrow> pair \<Rightarrow> string" where
  "pair_id_text L p = id_display (lib_ulid_show L) pair_prefix (pr_id p)"

definition mem_pairs_active :: "lib \<Rightarrow> pair list mem_io" where
  "mem_pairs_active L s =
     (Inr (sort_key (pair_id_text L)
        (filter (\<lambda>p. pr_status p \<noteq> Removed) (table_values L (ms_pairs s)))), s)"

definition mem_file_entry_upsert :: "file_entry \<Rightarrow> unit mem_io" where
  "mem_file_entry_upsert e s =
     (let key = (fe_pair_id e, fe_relative_path e)
      in (Inr (), s\<lparr>ms_file_entries := AList.update key e (ms_file_entries s)\<rparr>))"

definition mem_file_entry_get :: "pair_id \<Rightarrow> rel_path \<Rightarrow> file_entry option mem_io" where
  "mem_file_entry_get pid path s = (Inr (map_of (ms_file_entries s) (pid, path)), s)"

definition mem_file_entry_get_ci :: "lib \<Rightarrow> pair_id \<Rightarrow> rel_path \<Rightarrow> file_entry option mem_io" where
  "mem_file_entry_get_ci L pid path s =
     (let target_lower = to_ascii_lowercase (rel_str path)
      in (Inr (find (\<lambda>e. fe_pair_id e = pid
                       \<and> to_ascii_lowercase (rel_str (fe_relative_path e)) = target_lower)
                 (table_values L (ms_file_entries s))), s))"

definition mem_file_entries_dirty :: "lib \<Rightarrow> pair_id \<Rightarrow> nat \<Rightarrow> file_entry list mem_io" where
  "mem_file_entries_dirty L pid limit s =
     (Inr (take limit (sort_key fe_updated_at
        (filter (\<lambda>e. fe_pair_id e = pid \<and> fe_sync_state e \<noteq> Clean)
          (table_values L (ms_file_entries s))))), s)"

definition mem_run_record :: "sync_run \<Rightarrow> unit mem_io" where
  "mem_run_record r s = (Inr (), s\<lparr>ms_sync_runs := AList.update (sr_id r) r (ms_sync_runs s)\<rparr>)"

definition mem_op_insert :: "file_op \<Rightarrow> unit mem_io" where
  "mem_op_insert op s = (Inr (), s\<lparr>ms_file_ops := AList.update (op_id op) op (ms_file_ops s)\<rparr>)"

definition mem_op_update_status :: "file_op_id \<Rightarrow> file_op_status \<Rightarrow> nat \<Rightarrow> unit mem_io" where
  "mem_op_update_status i status attempts s =
     (Inr (), s\<lparr>ms_file_ops :=
        table_modify i (\<lambda>op. op\<lparr>op_status := status, op_attempts := attempts\<rparr>) (ms_file_ops s)\<rparr>)"

definition mem_conflict_insert :: "conflict \<Rightarrow> unit mem_io" where
  "mem_conflict_insert c s = (Inr (), s\<lparr>ms_conflicts := AList.update (cf_id c) c (ms_conflicts s)\<rparr>)"

definition mem_conflicts_unresolved :: "lib \<Rightarrow> pair_id \<Rightarrow> conflict list mem_io" where
  "mem_conflicts_unresolved L pid s =
     (Inr (sort_key cf_detected_at
        (filter (\<lambda>c. cf_pair_id c = pid \<and> cf_resolved_at c = None)
          (table_values L (ms_conflicts s)))), s)"

definition mem_audit_append :: "audit_event \<Rightarrow> unit mem_io" where
  "mem_audit_append ev s = (Inr (), s\<lparr>ms_audit := ms_audit s @ [ev]\<rparr>)"

definition mem_config_get :: "instance_config option mem_io" where
  "mem_config_get s = (Inr (ms_config s), s)"

definition mem_config_upsert :: "instance_config \<Rightarrow> unit mem_io" where
  "mem_config_upsert cfg s = (Inr (), s\<lparr>ms_config := Some cfg\<rparr>)"

definition mem_accounts_list :: "lib \<Rightarrow> account list mem_io" where
  "mem_accounts_list L s =
     (Inr (sort_key (\<lambda>a. id_display (lib_ulid_show L) account_prefix (ac_id a))
        (table_values L (ms_accounts s))), s)"

definition mem_account_remove :: "lib \<Rightarrow> account_id \<Rightarrow> unit mem_io" where
  "mem_account_remove L i s =
     (let s = s\<lparr>ms_accounts := AList.delete i (ms_accounts s)\<rparr>;
          pair_ids = map pr_id (filter (\<lambda>p. pr_account_id p = i) (table_values L (ms_pairs s)));
          s = s\<lparr>ms_pairs := fold AList.delete pair_ids (ms_pairs s)\<rparr>;
          pair_set = set pair_ids;
          s = s\<lparr>ms_file_entries := table_retain (\<lambda>(p, _) _. p \<notin> pair_set) (ms_file_entries s)\<rparr>;
          s = s\<lparr>ms_file_ops := table_retain (\<lambda>_ op. op_pair_id op \<notin> pair_set) (ms_file_ops s)\<rparr>;
          s = s\<lparr>ms_conflicts := table_retain (\<lambda>_ c. cf_pair_id c \<notin> pair_set) (ms_conflicts s)\<rparr>;
          s = s\<lparr>ms_sync_runs := table_retain (\<lambda>_ r. sr_pair_id r \<notin> pair_set) (ms_sync_runs s)\<rparr>
      in (Inr (), s))"

definition mem_pairs_list :: "lib \<Rightarrow> account_id option \<Rightarrow> bool \<Rightarrow> pair list mem_io" where
  "mem_pairs_list L acct include_removed s =
     (Inr (sort_key (pair_id_text L)
        (filter (\<lambda>p. include_removed \<or> pr_status p \<noteq> Removed)
          (filter (\<lambda>p. is_none_or (\<lambda>a. pr_account_id p = a) acct) (table_values L (ms_pairs s))))), s)"

definition mem_conflict_get :: "conflict_id \<Rightarrow> conflict option mem_io" where
  "mem_conflict_get i s = (Inr (map_of (ms_conflicts s) i), s)"

definition mem_conflict_resolve ::
  "conflict_id \<Rightarrow> conflict_resolution \<Rightarrow> timestamp \<Rightarrow> string option \<Rightarrow> unit mem_io" where
  "mem_conflict_resolve i resolution resolved_at note s =
     (Inr (), s\<lparr>ms_conflicts := table_modify i
        (\<lambda>c. let c = c\<lparr>cf_resolved_at := Some resolved_at, cf_resolution := Some resolution\<rparr>
             in if note \<noteq> None then c\<lparr>cf_note := note\<rparr> else c) (ms_conflicts s)\<rparr>)"

definition mem_runs_recent :: "lib \<Rightarrow> pair_id \<Rightarrow> nat \<Rightarrow> sync_run list mem_io" where
  "mem_runs_recent L pid limit s =
     (Inr (take limit (sort_key (\<lambda>r. - sr_started_at r)
        (filter (\<lambda>r. sr_pair_id r = pid) (table_values L (ms_sync_runs s))))), s)"

definition mem_run_get :: "sync_run_id \<Rightarrow> sync_run option mem_io" where
  "mem_run_get i s = (Inr (map_of (ms_sync_runs s) i), s)"

definition mem_audit_recent :: "nat \<Rightarrow> audit_event list mem_io" where
  "mem_audit_recent limit s = (Inr (take limit (sort_key (\<lambda>e. - ev_ts e) (ms_audit s))), s)"

definition mem_audit_search ::
  "timestamp \<Rightarrow> timestamp \<Rightarrow> audit_level option \<Rightarrow> pair_id option \<Rightarrow> nat \<Rightarrow> audit_event list mem_io" where
  "mem_audit_search from_ts to_ts level pid limit s =
     (Inr (take limit (sort_key (\<lambda>e. - ev_ts e)
        (filter (\<lambda>e. is_none_or (\<lambda>p. ev_pair_id e = Some p) pid)
          (filter (\<lambda>e. is_none_or (\<lambda>l. ev_level e = l) level)
            (filter (\<lambda>e. from_ts \<le> ev_ts e \<and> ev_ts e \<le> to_ts) (ms_audit s)))))), s)"

definition mem_backup_to :: "path_buf \<Rightarrow> unit mem_io" where
  "mem_backup_to p s = (Inr (), s)"

definition mem_compact_now :: "timestamp \<Rightarrow> unit mem_io" where
  "mem_compact_now t s = (Inr (), s)"

section \<open>A world with an in-memory store\<close>

text \<open>
  \<open>mw_ext\<close> is everything outside the store: the drive, the file system, the clock, the id
  generator, the audit sink.  Their behaviour is arbitrary; they have no access to the store.
\<close>

record 'x mem_world =
  mw_store :: mem_store
  mw_ext :: 'x

definition on_store :: "'a mem_io \<Rightarrow> ('x mem_world, state_error, 'a) io" where
  "on_store m w = (case m (mw_store w) of (r, s) \<Rightarrow> (r, w\<lparr>mw_store := s\<rparr>))"

definition on_ext :: "('x, 'e, 'a) io \<Rightarrow> ('x mem_world, 'e, 'a) io" where
  "on_ext m w = (case m (mw_ext w) of (r, x) \<Rightarrow> (r, w\<lparr>mw_ext := x\<rparr>))"

definition on_ext_step :: "('x \<Rightarrow> 'a \<times> 'x) \<Rightarrow> 'x mem_world \<Rightarrow> 'a \<times> 'x mem_world" where
  "on_ext_step m w = (case m (mw_ext w) of (r, x) \<Rightarrow> (r, w\<lparr>mw_ext := x\<rparr>))"

definition mem_state_store :: "lib \<Rightarrow> 'x mem_world state_store" where
  "mem_state_store L =
     \<lparr>st_account_upsert = (\<lambda>a. on_store (mem_account_upsert a)),
      st_account_get = (\<lambda>i. on_store (mem_account_get i)),
      st_pair_upsert = (\<lambda>p. on_store (mem_pair_upsert p)),
      st_pair_get = (\<lambda>i. on_store (mem_pair_get i)),
      st_pairs_active = on_store (mem_pairs_active L),
      st_file_entry_upsert = (\<lambda>e. on_store (mem_file_entry_upsert e)),
      st_file_entry_get = (\<lambda>p r. on_store (mem_file_entry_get p r)),
      st_file_entry_get_ci = (\<lambda>p r. on_store (mem_file_entry_get_ci L p r)),
      st_file_entries_dirty = (\<lambda>p n. on_store (mem_file_entries_dirty L p n)),
      st_run_record = (\<lambda>r. on_store (mem_run_record r)),
      st_op_insert = (\<lambda>op. on_store (mem_op_insert op)),
      st_op_update_status = (\<lambda>i s n. on_store (mem_op_update_status i s n)),
      st_conflict_insert = (\<lambda>c. on_store (mem_conflict_insert c)),
      st_conflicts_unresolved = (\<lambda>p. on_store (mem_conflicts_unresolved L p)),
      st_audit_append = (\<lambda>e. on_store (mem_audit_append e)),
      st_config_get = on_store mem_config_get,
      st_config_upsert = (\<lambda>c. on_store (mem_config_upsert c)),
      st_accounts_list = on_store (mem_accounts_list L),
      st_account_remove = (\<lambda>i. on_store (mem_account_remove L i)),
      st_pairs_list = (\<lambda>a b. on_store (mem_pairs_list L a b)),
      st_conflict_get = (\<lambda>i. on_store (mem_conflict_get i)),
      st_conflict_resolve = (\<lambda>i r t n. on_store (mem_conflict_resolve i r t n)),
      st_runs_recent = (\<lambda>p n. on_store (mem_runs_recent L p n)),
      st_run_get = (\<lambda>i. on_store (mem_run_get i)),
      st_audit_recent = (\<lambda>n. on_store (mem_audit_recent n)),
      st_audit_search = (\<lambda>a b l p n. on_store (mem_audit_search a b l p n)),
      st_backup_to = (\<lambda>p. on_store (mem_backup_to p)),
      st_compact_now = (\<lambda>t. on_store (mem_compact_now t))\<rparr>"

definition ext_remote :: "'x remote_drive \<Rightarrow> 'x mem_world remote_drive" where
  "ext_remote rd =
     \<lparr>rd_delta = (\<lambda>d c. on_ext (rd_delta rd d c)),
      rd_item_by_path = (\<lambda>d p. on_ext (rd_item_by_path rd d p)),
      rd_download = (\<lambda>i. on_ext (rd_download rd i)),
      rd_upload_small = (\<lambda>p n b. on_ext (rd_upload_small rd p n b)),
      rd_upload_session = (\<lambda>p n k. on_ext (rd_upload_session rd p n k)),
      rd_rename = (\<lambda>i n. on_ext (rd_rename rd i n)),
      rd_delete = (\<lambda>i. on_ext (rd_delete rd i)),
      rd_mkdir = (\<lambda>p n. on_ext (rd_mkdir rd p n)),
      rd_subscribe = (\<lambda>d u c. on_ext (rd_subscribe rd d u c)),
      rd_unsubscribe = (\<lambda>s. on_ext (rd_unsubscribe rd s)),
      rd_renew_subscription = (\<lambda>s e. on_ext (rd_renew_subscription rd s e))\<rparr>"

definition ext_local :: "'x local_fs \<Rightarrow> 'x mem_world local_fs" where
  "ext_local fs =
     \<lparr>lf_scan = (\<lambda>p. on_ext (lf_scan fs p)),
      lf_read = (\<lambda>p. on_ext (lf_read fs p)),
      lf_write_atomic = (\<lambda>p b. on_ext (lf_write_atomic fs p b)),
      lf_rename = (\<lambda>p q. on_ext (lf_rename fs p q)),
      lf_delete = (\<lambda>p. on_ext (lf_delete fs p)),
      lf_mkdir_p = (\<lambda>p. on_ext (lf_mkdir_p fs p)),
      lf_hash = (\<lambda>p. on_ext (lf_hash fs p))\<rparr>"

definition ext_runtime :: "'x runtime \<Rightarrow> 'x mem_world runtime" where
  "ext_runtime rt =
     \<lparr>rt_now = on_ext_step (rt_now rt),
      rt_new_ulid = on_ext_step (rt_new_ulid rt),
      rt_emit = (\<lambda>e w. w\<lparr>mw_ext := rt_emit rt e (mw_ext w)\<rparr>),
      rt_getrandom_u64 = on_ext_step (rt_getrandom_u64 rt),
      rt_sleep_ms = (\<lambda>n w. w\<lparr>mw_ext := rt_sleep_ms rt n (mw_ext w)\<rparr>)\<rparr>"

text \<open>A context over the outside world becomes one over the store and the outside world.\<close>

definition mem_ctx :: "'x cycle_ctx \<Rightarrow> 'x mem_world cycle_ctx" where
  "mem_ctx c =
     \<lparr>cx_lib = cx_lib c, cx_pair_id = cx_pair_id c, cx_local_root = cx_local_root c,
      cx_drive_id = cx_drive_id c, cx_cursor = cx_cursor c, cx_trigger = cx_trigger c,
      cx_state = mem_state_store (cx_lib c), cx_remote = ext_remote (cx_remote c),
      cx_local = ext_local (cx_local c), cx_runtime = ext_runtime (cx_runtime c),
      cx_host_name = cx_host_name c\<rparr>"

definition mem_entries :: "'x mem_world \<Rightarrow> pair_id \<Rightarrow> rel_path \<Rightarrow> file_entry option" where
  "mem_entries w p r = map_of (ms_file_entries (mw_store w)) (p, r)"

definition mem_pairs :: "'x mem_world \<Rightarrow> pair_id \<Rightarrow> pair option" where
  "mem_pairs w p = map_of (ms_pairs (mw_store w)) p"

definition mem_ops :: "'x mem_world \<Rightarrow> file_op_id \<Rightarrow> file_op option" where
  "mem_ops w i = map_of (ms_file_ops (mw_store w)) i"

definition mem_conflicts :: "'x mem_world \<Rightarrow> conflict_id \<Rightarrow> conflict option" where
  "mem_conflicts w i = map_of (ms_conflicts (mw_store w)) i"

subsection \<open>The interfaces of the engine\<close>

lemma on_store_frames: "(\<And>s. v (snd (m s)) = v s) \<Longrightarrow> frames (\<lambda>w. v (mw_store w)) (on_store m)"
  by (simp add: frames_def on_store_def split: prod.split) (metis snd_conv)

lemma on_ext_frames: "frames (\<lambda>w. v (mw_store w)) (on_ext m)"
  by (simp add: frames_def on_ext_def split: prod.split)

lemma on_ext_step_frames: "frames_step (\<lambda>w. v (mw_store w)) (on_ext_step m)"
  by (simp add: frames_step_def on_ext_step_def split: prod.split)

lemma mem_ports_frame: "ports_frame (\<lambda>w. v (mw_store w)) (mem_ctx c)"
  by (simp add: ports_frame_def mem_ctx_def ext_remote_def ext_local_def ext_runtime_def
      on_ext_frames on_ext_step_frames)

lemma mem_entries_eq: "mem_entries = (\<lambda>w. (\<lambda>s p r. map_of (ms_file_entries s) (p, r)) (mw_store w))"
  by (simp add: fun_eq_iff mem_entries_def)

lemma mem_pairs_eq: "mem_pairs = (\<lambda>w. (\<lambda>s p. map_of (ms_pairs s) p) (mw_store w))"
  by (simp add: fun_eq_iff mem_pairs_def)

lemmas mem_op_defs =
  mem_file_entry_get_def mem_file_entry_get_ci_def mem_file_entry_upsert_def mem_pair_get_def
  mem_pair_upsert_def mem_conflict_insert_def mem_run_record_def mem_op_insert_def
  mem_op_update_status_def

lemma mem_ctx_state: "cx_state (mem_ctx c) = mem_state_store (cx_lib c)"
  by (simp add: mem_ctx_def)

lemma mem_ctx_simps [simp]:
  "cx_lib (mem_ctx c) = cx_lib c" "cx_pair_id (mem_ctx c) = cx_pair_id c"
  "cx_local_root (mem_ctx c) = cx_local_root c" "cx_drive_id (mem_ctx c) = cx_drive_id c"
  "cx_cursor (mem_ctx c) = cx_cursor c" "cx_trigger (mem_ctx c) = cx_trigger c"
  "cx_host_name (mem_ctx c) = cx_host_name c" "cx_remote (mem_ctx c) = ext_remote (cx_remote c)"
  "cx_local (mem_ctx c) = ext_local (cx_local c)"
  "cx_runtime (mem_ctx c) = ext_runtime (cx_runtime c)"
  by (simp_all add: mem_ctx_def)

named_theorems mem_calls \<open>the calls of a cycle over the in-memory store\<close>

definition mem_put :: "file_entry \<Rightarrow> 'x mem_world \<Rightarrow> 'x mem_world" where
  "mem_put e w = w\<lparr>mw_store := snd (mem_file_entry_upsert e (mw_store w))\<rparr>"

lemma mem_entry_calls [mem_calls]:
  "st_file_entry_get (cx_state (mem_ctx c)) p r w = (Inr (mem_entries w p r), w)"
  "st_file_entry_upsert (cx_state (mem_ctx c)) e w = (Inr (), mem_put e w)"
  by (simp_all add: mem_ctx_state mem_state_store_def on_store_def mem_file_entry_get_def
      mem_file_entry_upsert_def mem_entries_def mem_put_def Let_def)

lemma mem_put_views [mem_calls]:
  "mem_entries (mem_put e w) = upd_entry (mem_entries w) e" "mem_pairs (mem_put e w) = mem_pairs w"
  "mw_ext (mem_put e w) = mw_ext w"
  by (simp_all add: mem_put_def mem_entries_def mem_pairs_def mem_file_entry_upsert_def Let_def
      upd_entry_def fun_eq_iff update_conv)

lemma ext_step_calls [mem_calls]:
  "rt_now (ext_runtime rt) w = (fst (rt_now rt (mw_ext w)), w\<lparr>mw_ext := snd (rt_now rt (mw_ext w))\<rparr>)"
  "rt_new_ulid (ext_runtime rt) w =
     (fst (rt_new_ulid rt (mw_ext w)), w\<lparr>mw_ext := snd (rt_new_ulid rt (mw_ext w))\<rparr>)"
  "rt_getrandom_u64 (ext_runtime rt) w =
     (fst (rt_getrandom_u64 rt (mw_ext w)), w\<lparr>mw_ext := snd (rt_getrandom_u64 rt (mw_ext w))\<rparr>)"
  "rt_emit (ext_runtime rt) ev w = w\<lparr>mw_ext := rt_emit rt ev (mw_ext w)\<rparr>"
  by (simp_all add: ext_runtime_def on_ext_step_def split: prod.split)

lemma mem_views_ext [mem_calls]:
  "mem_entries (w\<lparr>mw_ext := x\<rparr>) = mem_entries w" "mem_pairs (w\<lparr>mw_ext := x\<rparr>) = mem_pairs w"
  by (simp_all add: mem_entries_def mem_pairs_def fun_eq_iff)

text \<open>The store never refuses a call.\<close>

lemma mem_sure:
  "sure (state_call (st_file_entry_get (cx_state (mem_ctx c)) p r)) (\<lambda>_. True)"
  "sure (state_call (st_file_entry_get_ci (cx_state (mem_ctx c)) p r)) (\<lambda>_. True)"
  "sure (state_call (st_file_entry_upsert (cx_state (mem_ctx c)) e)) (\<lambda>_. True)"
  "sure (state_call (st_pair_get (cx_state (mem_ctx c)) q)) (\<lambda>_. True)"
  "sure (state_call (st_pair_upsert (cx_state (mem_ctx c)) pr)) (\<lambda>_. True)"
  "sure (state_call (st_conflict_insert (cx_state (mem_ctx c)) cf)) (\<lambda>_. True)"
  "sure (state_call (st_run_record (cx_state (mem_ctx c)) rn)) (\<lambda>_. True)"
  by (simp_all add: sure_def state_call_def map_errE_def mem_ctx_state mem_state_store_def
      on_store_def mem_op_defs Let_def)

interpretation mem: entry_view "mem_ctx c" mem_entries for c :: "'x cycle_ctx"
proof unfold_locales
  show "ports_frame mem_entries (mem_ctx c)"
    unfolding mem_entries_eq by (rule mem_ports_frame)
qed (auto simp: mem_ctx_state mem_state_store_def mem_entries_eq op_tables_frame_def mem_op_defs
    Let_def on_store_def upd_entry_def fun_eq_iff update_conv intro!: on_store_frames)

interpretation mem: pair_view "mem_ctx c" mem_pairs for c :: "'x cycle_ctx"
proof unfold_locales
  show "ports_frame mem_pairs (mem_ctx c)"
    unfolding mem_pairs_eq by (rule mem_ports_frame)
qed (auto simp: mem_ctx_state mem_state_store_def mem_pairs_eq op_tables_frame_def mem_op_defs
    Let_def on_store_def fun_eq_iff update_conv intro!: on_store_frames)

lemma mem_ops_eq: "mem_ops = (\<lambda>w. (\<lambda>s i. map_of (ms_file_ops s) i) (mw_store w))"
  by (simp add: fun_eq_iff mem_ops_def)

lemma mem_conflicts_eq: "mem_conflicts = (\<lambda>w. (\<lambda>s i. map_of (ms_conflicts s) i) (mw_store w))"
  by (simp add: fun_eq_iff mem_conflicts_def)

interpretation mem: reliable_op_view "mem_ctx c" mem_ops for c :: "'x cycle_ctx"
proof unfold_locales
  show "ports_frame mem_ops (mem_ctx c)"
    unfolding mem_ops_eq by (rule mem_ports_frame)
qed (auto simp: mem_ctx_state mem_state_store_def mem_ops_eq mem_op_defs table_modify_def
    Let_def on_store_def fun_eq_iff update_conv intro!: on_store_frames split: option.split)

interpretation mem: conflict_view "mem_ctx c" mem_conflicts for c :: "'x cycle_ctx"
proof unfold_locales
  show "ports_frame mem_conflicts (mem_ctx c)"
    unfolding mem_conflicts_eq by (rule mem_ports_frame)
qed (auto simp: mem_ctx_state mem_state_store_def mem_conflicts_eq mem_op_defs
    Let_def on_store_def fun_eq_iff update_conv intro!: on_store_frames)

section \<open>Well-formed stores\<close>

definition wf_table :: "('v \<Rightarrow> 'k) \<Rightarrow> ('k, 'v) table \<Rightarrow> bool" where
  "wf_table key t \<longleftrightarrow> distinct (map fst t) \<and> (\<forall>(k, v) \<in> set t. key v = k)"

definition entry_key :: "file_entry \<Rightarrow> pair_id \<times> rel_path" where
  "entry_key e = (fe_pair_id e, fe_relative_path e)"

definition wf_store :: "mem_store \<Rightarrow> bool" where
  "wf_store s \<longleftrightarrow>
     wf_table ac_id (ms_accounts s) \<and> wf_table pr_id (ms_pairs s)
     \<and> wf_table entry_key (ms_file_entries s) \<and> wf_table op_id (ms_file_ops s)
     \<and> wf_table cf_id (ms_conflicts s) \<and> wf_table sr_id (ms_sync_runs s)"

lemma keyed_mem_entries: "wf_store (mw_store w) \<Longrightarrow> keyed (mem_entries w)"
  by (auto simp: wf_store_def wf_table_def keyed_def mem_entries_def entry_key_def dest!: map_of_SomeD)

text \<open>One call of an operation that changes the store.\<close>

inductive mem_step :: "lib \<Rightarrow> mem_store \<Rightarrow> mem_store \<Rightarrow> bool" for L where
  step_account_upsert: "mem_account_upsert a s = (r, s') \<Longrightarrow> mem_step L s s'"
| step_pair_upsert: "mem_pair_upsert p s = (r, s') \<Longrightarrow> mem_step L s s'"
| step_file_entry_upsert: "mem_file_entry_upsert e s = (r, s') \<Longrightarrow> mem_step L s s'"
| step_run_record: "mem_run_record run s = (r, s') \<Longrightarrow> mem_step L s s'"
| step_op_insert: "mem_op_insert op s = (r, s') \<Longrightarrow> mem_step L s s'"
| step_op_update_status: "mem_op_update_status i st n s = (r, s') \<Longrightarrow> mem_step L s s'"
| step_conflict_insert: "mem_conflict_insert c s = (r, s') \<Longrightarrow> mem_step L s s'"
| step_conflict_resolve: "mem_conflict_resolve ci res t note s = (r, s') \<Longrightarrow> mem_step L s s'"
| step_audit_append: "mem_audit_append ev s = (r, s') \<Longrightarrow> mem_step L s s'"
| step_config_upsert: "mem_config_upsert cfg s = (r, s') \<Longrightarrow> mem_step L s s'"
| step_account_remove: "mem_account_remove L acct s = (r, s') \<Longrightarrow> mem_step L s s'"

lemma wf_table_Nil [simp]: "wf_table key []"
  by (simp add: wf_table_def)

lemma in_update: "x \<in> set (AList.update k v t) \<Longrightarrow> x = (k, v) \<or> x \<in> set t"
  by (induction t) (auto split: if_splits)

lemma wf_table_update [simp]: "wf_table key t \<Longrightarrow> wf_table key (AList.update (key v) v t)"
  by (auto simp: wf_table_def distinct_update dest!: in_update)

lemma wf_table_modify:
  assumes "wf_table key t" and "\<And>v. key (f v) = key v"
  shows "wf_table key (table_modify k f t)"
proof (cases "map_of t k")
  case (Some v)
  then have "key v = k" using assms(1) by (auto simp: wf_table_def dest!: map_of_SomeD)
  then have "key (f v) = k" using assms(2) by simp
  with wf_table_update [OF assms(1), of "f v"] Some show ?thesis
    by (simp add: table_modify_def)
qed (use assms in \<open>simp add: table_modify_def\<close>)

lemma wf_table_retain [simp]: "wf_table key t \<Longrightarrow> wf_table key (table_retain P t)"
  by (auto simp: wf_table_def table_retain_def distinct_map inj_on_def)

lemma wf_table_delete: "wf_table key t \<Longrightarrow> wf_table key (AList.delete k t)"
  by (auto simp: wf_table_def AList.delete_eq distinct_map inj_on_def)

lemma wf_table_fold_delete: "wf_table key t \<Longrightarrow> wf_table key (fold AList.delete ks t)"
  by (induction ks arbitrary: t) (auto simp: wf_table_delete)

lemma wf_store_step: "mem_step L s s' \<Longrightarrow> wf_store s \<Longrightarrow> wf_store s'"
proof (induction rule: mem_step.induct)
  case (step_file_entry_upsert e s r s')
  then show ?case
    using wf_table_update [of entry_key "ms_file_entries s" e]
    by (auto simp: mem_file_entry_upsert_def wf_store_def Let_def entry_key_def)
next
  case (step_op_update_status i st n s r s')
  then show ?case by (auto simp: mem_op_update_status_def wf_store_def intro!: wf_table_modify)
next
  case (step_conflict_resolve ci res t nt s r s')
  then show ?case
    by (auto simp: mem_conflict_resolve_def wf_store_def Let_def intro!: wf_table_modify)
next
  case (step_account_remove acct s r s')
  then show ?case
    by (auto simp: mem_account_remove_def wf_store_def Let_def wf_table_delete wf_table_fold_delete)
qed (auto simp: wf_store_def mem_account_upsert_def mem_pair_upsert_def mem_run_record_def
    mem_op_insert_def mem_conflict_insert_def mem_audit_append_def mem_config_upsert_def)

text \<open>
  Every store that any sequence of calls builds from the empty one is well formed: each
  table has one row per key and each row is stored under its own key.
\<close>
theorem reachable_store_wf:
  assumes "(mem_step L)\<^sup>*\<^sup>* empty_store s"
  shows "wf_store s"
  using assms
proof (induction rule: rtranclp_induct)
  case base
  show ?case by (simp add: wf_store_def empty_store_def)
next
  case (step s s')
  then show ?case by (blast intro: wf_store_step)
qed

definition sample_pair :: "pair_id \<Rightarrow> account_id \<Rightarrow> pair" where
  "sample_pair p a =
     \<lparr>pr_id = p, pr_account_id = a, pr_local_path = AbsPath ''/r'', pr_remote_item_id = DriveItemId ''root'',
      pr_remote_path = ''/'', pr_display_name = ''pair'', pr_status = Active, pr_paused = False,
      pr_delta_token = None, pr_errored_reason = None, pr_created_at = 0, pr_updated_at = 0,
      pr_last_sync_at = None, pr_conflict_count = 0, pr_webhook_enabled = False\<rparr>"

lemma sample_pair_simps [simp]:
  "pr_id (sample_pair p a) = p" "pr_account_id (sample_pair p a) = a"
  "pr_status (sample_pair p a) = Active" "pr_delta_token (sample_pair p a) = None"
  by (simp_all add: sample_pair_def)

definition one_pair_store :: mem_store where
  "one_pair_store = snd (mem_pair_upsert (sample_pair (Id 1) (Id 2)) empty_store)"

theorem reachable_store_wf_witness:
  "wf_store one_pair_store \<and> map_of (ms_pairs one_pair_store) (Id 1) = Some (sample_pair (Id 1) (Id 2))"
proof
  have "mem_step ascii_lib empty_store one_pair_store"
    unfolding one_pair_store_def by (rule step_pair_upsert) (auto intro: prod.collapse [symmetric])
  then show "wf_store one_pair_store" by (intro reachable_store_wf [of ascii_lib]) blast
qed (simp add: one_pair_store_def mem_pair_upsert_def empty_store_def)

section \<open>Removing an account\<close>

definition owned_by :: "mem_store \<Rightarrow> account_id \<Rightarrow> pair_id \<Rightarrow> bool" where
  "owned_by s a p \<longleftrightarrow> (\<exists>pr. map_of (ms_pairs s) p = Some pr \<and> pr_account_id pr = a)"

lemma map_of_fold_delete: "map_of (fold AList.delete ks t) k = (if k \<in> set ks then None else map_of t k)"
  by (induction ks arbitrary: t) (auto simp: delete_conv)

lemma owned_pair_ids:
  assumes "map_order_laws (lib_map_order L)" and "wf_table pr_id (ms_pairs s)"
  shows "set (map pr_id (filter (\<lambda>p. pr_account_id p = a) (table_values L (ms_pairs s)))) = Collect (owned_by s a)"
proof -
  have "map_of (ms_pairs s) p = Some pr \<longleftrightarrow> (p, pr) \<in> set (ms_pairs s)" for p pr
    using assms(2) by (simp add: wf_table_def)
  moreover have "(p, pr) \<in> set (ms_pairs s) \<Longrightarrow> p = pr_id pr" for p pr
    using assms(2) by (auto simp: wf_table_def)
  ultimately show ?thesis
    using assms(1) by (force simp: table_values_set owned_by_def)
qed

text \<open>
  Removing an account removes exactly the account, its pairs and the entries, operations,
  conflicts and runs of those pairs; every other row, the log and the configuration stay.
\<close>
theorem account_remove_cascades:
  assumes "map_order_laws (lib_map_order L)" and "wf_store s"
    and "mem_account_remove L a s = (r, s')"
  shows "r = Inr () \<and> map_of (ms_accounts s') = (map_of (ms_accounts s))(a := None)
    \<and> (\<forall>p. map_of (ms_pairs s') p = (if owned_by s a p then None else map_of (ms_pairs s) p))
    \<and> (\<forall>p x. map_of (ms_file_entries s') (p, x)
             = (if owned_by s a p then None else map_of (ms_file_entries s) (p, x)))
    \<and> (\<forall>i. map_of (ms_file_ops s') i = (case map_of (ms_file_ops s) i of
             Some op \<Rightarrow> if owned_by s a (op_pair_id op) then None else Some op | None \<Rightarrow> None))
    \<and> (\<forall>i. map_of (ms_conflicts s') i = (case map_of (ms_conflicts s) i of
             Some c \<Rightarrow> if owned_by s a (cf_pair_id c) then None else Some c | None \<Rightarrow> None))
    \<and> (\<forall>i. map_of (ms_sync_runs s') i = (case map_of (ms_sync_runs s) i of
             Some x \<Rightarrow> if owned_by s a (sr_pair_id x) then None else Some x | None \<Rightarrow> None))
    \<and> ms_audit s' = ms_audit s \<and> ms_config s' = ms_config s"
proof -
  let ?ids = "map pr_id (filter (\<lambda>p. pr_account_id p = a) (table_values L (ms_pairs s)))"
  have own: "p \<in> set ?ids \<longleftrightarrow> owned_by s a p" for p
    using owned_pair_ids [OF assms(1), of s a] assms(2) by (simp add: wf_store_def)
  have d: "distinct (map fst (ms_file_entries s))" "distinct (map fst (ms_file_ops s))"
    "distinct (map fst (ms_conflicts s))" "distinct (map fst (ms_sync_runs s))"
    using assms(2) by (auto simp: wf_store_def wf_table_def)
  have s': "r = Inr ()" "s' = snd (mem_account_remove L a s)"
    using assms(3) by (auto simp: mem_account_remove_def Let_def)
  show ?thesis
    unfolding s'(2) mem_account_remove_def Let_def
    using s'(1) own d
    by (simp add: delete_conv' map_of_fold_delete map_of_retain fun_eq_iff del: set_map set_filter
        split: option.split)
qed

lemma ascii_map_order [simp]: "map_order_laws (lib_map_order ascii_lib)"
  by (auto simp: map_order_laws_def ascii_lib_def)

theorem account_remove_cascades_witness:
  "map_of (ms_pairs (snd (mem_account_remove ascii_lib (Id 2) one_pair_store))) (Id 1) = None"
proof -
  have w: "wf_store one_pair_store"
    by (simp add: wf_store_def one_pair_store_def mem_pair_upsert_def empty_store_def wf_table_def)
  have o: "owned_by one_pair_store (Id 2) (Id 1)"
    by (simp add: owned_by_def one_pair_store_def mem_pair_upsert_def empty_store_def)
  obtain r s' where m: "mem_account_remove ascii_lib (Id 2) one_pair_store = (r, s')" by fastforce
  from account_remove_cascades [OF ascii_map_order w m] o have "map_of (ms_pairs s') (Id 1) = None"
    by simp
  with m show ?thesis by simp
qed

section \<open>The dirty listing\<close>

text \<open>
  The listing of unsynced rows returns at most the limit, only rows of the pair that are
  not clean, oldest update first; with a limit no smaller than their number it returns all of
  them.
\<close>
theorem dirty_listing:
  assumes "map_order_laws (lib_map_order L)" and "wf_store s"
    and "mem_file_entries_dirty L pid n s = (Inr es, s')"
  shows "s' = s \<and> length es \<le> n \<and> sorted (map fe_updated_at es)
    \<and> (\<forall>e \<in> set es. map_of (ms_file_entries s) (entry_key e) = Some e
          \<and> fe_pair_id e = pid \<and> fe_sync_state e \<noteq> Clean)
    \<and> (length (ms_file_entries s) \<le> n \<longrightarrow>
         (\<forall>rp e. map_of (ms_file_entries s) (pid, rp) = Some e \<and> fe_sync_state e \<noteq> Clean \<longrightarrow> e \<in> set es))"
proof -
  let ?t = "ms_file_entries s"
  let ?f = "filter (\<lambda>e. fe_pair_id e = pid \<and> fe_sync_state e \<noteq> Clean) (table_values L ?t)"
  have es: "es = take n (sort_key fe_updated_at ?f)" "s' = s"
    using assms(3) by (auto simp: mem_file_entries_dirty_def)
  have wt: "distinct (map fst ?t)" "\<And>k e. (k, e) \<in> set ?t \<Longrightarrow> entry_key e = k"
    using assms(2) by (auto simp: wf_store_def wf_table_def)
  have row: "map_of ?t k = Some e \<longleftrightarrow> (k, e) \<in> set ?t" for k e using wt(1) by simp
  have vals: "set (table_values L ?t) = snd ` set ?t" using assms(1) by (rule table_values_set)
  have len: "length ?f \<le> length ?t"
    using table_values_length [OF assms(1), of ?t] length_filter_le [of _ "table_values L ?t"] by metis
  have "e \<in> set es" if "length ?t \<le> n" "map_of ?t (pid, rp) = Some e" "fe_sync_state e \<noteq> Clean" for rp e
  proof -
    have "e \<in> snd ` set ?t" using that(2) row by (metis image_eqI snd_conv)
    moreover have "fe_pair_id e = pid" using that(2) row wt(2) by (auto simp: entry_key_def)
    ultimately have "e \<in> set ?f" using that(3) vals by simp
    moreover have "es = sort_key fe_updated_at ?f" using es(1) len that(1) by simp
    ultimately show ?thesis by simp
  qed
  moreover have "map_of ?t (entry_key e) = Some e \<and> fe_pair_id e = pid \<and> fe_sync_state e \<noteq> Clean"
    if "e \<in> set es" for e
  proof -
    have "e \<in> set ?f" using that es(1) by (auto dest: in_set_takeD)
    then show ?thesis using vals wt(2) row by auto
  qed
  moreover have "sorted (map fe_updated_at es)"
    unfolding es(1) take_map [symmetric] by (intro sorted_wrt_take) simp
  moreover have "length es \<le> n" by (simp add: es(1))
  ultimately show ?thesis using es(2) by blast
qed

theorem dirty_listing_witness:
  "\<exists>es. mem_file_entries_dirty ascii_lib (Id 1) 5 empty_store = (Inr es, empty_store) \<and> length es \<le> 5"
proof -
  obtain es where d: "mem_file_entries_dirty ascii_lib (Id 1) 5 empty_store = (Inr es, empty_store)"
    by (simp add: mem_file_entries_dirty_def)
  have "wf_store empty_store" by (simp add: wf_store_def empty_store_def)
  from dirty_listing [OF ascii_map_order this d] d show ?thesis by blast
qed

section \<open>A concrete context\<close>

definition log_runtime :: "call_log runtime" where
  "log_runtime =
     \<lparr>rt_now = (\<lambda>w. (1000, w)),
      rt_new_ulid = (\<lambda>w. (word_of_nat (length w), w @ [''id''])),
      rt_emit = (\<lambda>e w. w @ [''emit '' @ ev_kind e]),
      rt_getrandom_u64 = (\<lambda>w. (None, w)),
      rt_sleep_ms = (\<lambda>n w. w @ [''sleep''])\<rparr>"

definition log_ctx :: "call_log cycle_ctx" where
  "log_ctx =
     \<lparr>cx_lib = ascii_lib, cx_pair_id = Id 1, cx_local_root = AbsPath ''/r'', cx_drive_id = DriveId ''d'',
      cx_cursor = None, cx_trigger = Scheduled, cx_state = undefined, cx_remote = log_rd,
      cx_local = log_fs [7], cx_runtime = log_runtime, cx_host_name = ''mac''\<rparr>"

definition log_world :: "mem_store \<Rightarrow> call_log mem_world" where
  "log_world s = \<lparr>mw_store = s, mw_ext = []\<rparr>"

definition sample_row :: "file_sync_state \<Rightarrow> file_side option \<Rightarrow> file_side option \<Rightarrow> file_side option \<Rightarrow> file_entry" where
  "sample_row st l r s =
     \<lparr>fe_pair_id = Id 1, fe_relative_path = RelPath ''d/a.bin'', fe_kind = File, fe_sync_state = st,
      fe_local = l, fe_remote = r, fe_synced = s, fe_pending_op_id = None, fe_updated_at = 0\<rparr>"

definition one_row_store :: "file_entry \<Rightarrow> mem_store" where
  "one_row_store e = snd (mem_file_entry_upsert e empty_store)"

lemma one_row_entries:
  "mem_entries (log_world (one_row_store e)) p r =
     (if p = fe_pair_id e \<and> r = fe_relative_path e then Some e else None)"
  by (simp add: mem_entries_def log_world_def one_row_store_def mem_file_entry_upsert_def empty_store_def Let_def)

end
