(* ===== verification/Delta_Phase.thy ===== *)
theory Delta_Phase
  imports Mem_Store "HOL-Library.Sublist"
begin

text \<open>
  Phases 1 and 3a of a cycle (\<open>engine/cycle.rs\<close>: \<open>phase_delta_reconcile\<close> and its helpers):
  one delta page is fetched, case collisions are set aside, every other item is persisted as
  the remote observation of its row and reconciled to a decision.
\<close>

text \<open>A rename target of a case-collision loser: current path, remote item id, new leaf name.\<close>

type_synonym rename_target = "rel_path \<times> string \<times> string"

definition warn_event ::
  "audit_event_id \<Rightarrow> timestamp \<Rightarrow> string \<Rightarrow> pair_id \<Rightarrow> json_map \<Rightarrow> audit_event" where
  "warn_event i ts kind pid payload =
     \<lparr>ev_id = i, ev_ts = ts, ev_level = LevelWarn, ev_kind = kind, ev_pair_id = Some pid,
      ev_payload = payload\<rparr>"

text \<open>The audit events of this phase draw their id first, then the time.\<close>

definition emit_warning :: "'w cycle_ctx \<Rightarrow> string \<Rightarrow> json_map \<Rightarrow> ('w, engine_error, unit) io" where
  "emit_warning cx kind payload =
     bindE (fresh_id cx) (\<lambda>i.
     bindE (clock_now cx) (\<lambda>ts.
     emit cx (warn_event i ts kind (cx_pair_id cx) payload)))"

definition new_leaf_of :: "rel_path \<Rightarrow> string" where
  "new_leaf_of target_rel = rsplit_next CHR ''/'' (rel_str target_rel)"

section \<open>Case collisions\<close>

fun process_losers ::
  "'w cycle_ctx \<Rightarrow> remote_item list \<Rightarrow> (rel_path \<times> rel_path) list \<Rightarrow> rename_target list
   \<Rightarrow> ('w, engine_error, rename_target list) io" where
  "process_losers cx items [] renames = returnE renames"
| "process_losers cx items ((dropped, canonical) # ls) renames =
     bindE (emit_warning cx ''remote.case_collision.dropped''
              (json_insert ''canonical'' (JString (rel_str canonical))
                (json_insert ''dropped'' (JString (rel_str dropped)) []))) (\<lambda>_.
     case parse_rel (cx_lib cx) (case_collision_rename_target (cx_lib cx) dropped) of
       Inl _ \<Rightarrow> process_losers cx items ls renames
     | Inr target_rel \<Rightarrow>
         (case find (\<lambda>i. build_rel_path_from_item (cx_lib cx) i = Some dropped) items of
            None \<Rightarrow> process_losers cx items ls renames
          | Some item \<Rightarrow>
              process_losers cx items ls (renames @ [(dropped, ri_id item, new_leaf_of target_rel)])))"

definition in_hash_order :: "lib \<Rightarrow> 'v path_map \<Rightarrow> (rel_path \<times> 'v) list" where
  "in_hash_order L m = map (\<lambda>k. (k, the (map_of m k))) (lib_hash_order L (map fst m))"

definition process_remote_case_collisions ::
  "'w cycle_ctx \<Rightarrow> remote_item list \<Rightarrow> rel_path path_map \<Rightarrow> ('w, engine_error, rename_target list) io" where
  "process_remote_case_collisions cx items collisions =
     process_losers cx items (in_hash_order (cx_lib cx) collisions) []"

text \<open>The vector \<open>collision_renames\<close> is an argument and part of the result.\<close>

definition skip_for_case_collision ::
  "'w cycle_ctx \<Rightarrow> rel_path \<Rightarrow> remote_item \<Rightarrow> rename_target list
   \<Rightarrow> ('w, engine_error, bool \<times> rename_target list) io" where
  "skip_for_case_collision cx rp item renames =
     bindE (state_call (st_file_entry_get_ci (cx_state cx) (cx_pair_id cx) rp)) (\<lambda>found.
     case found of
       None \<Rightarrow> returnE (False, renames)
     | Some existing \<Rightarrow>
         if fe_relative_path existing = rp then returnE (False, renames)
         else
           bindE (emit_warning cx ''file_entry.case_collision_detected''
                    (json_insert ''existing_path'' (JString (rel_str (fe_relative_path existing)))
                      (json_insert ''delta_path'' (JString (rel_str rp)) []))) (\<lambda>_.
           case parse_rel (cx_lib cx) (case_collision_rename_target (cx_lib cx) rp) of
             Inl _ \<Rightarrow> returnE (True, renames)
           | Inr target_rel \<Rightarrow> returnE (True, renames @ [(rp, ri_id item, new_leaf_of target_rel)])))"

section \<open>The phase\<close>

record delta_acc =
  da_decisions :: "decision list"
  da_conflicts :: nat
  da_renames :: "rename_target list"
  da_by_path :: "remote_item path_map"

record delta_outcome = delta_acc +
  do_items_seen :: nat
  do_delta_token :: "delta_cursor option"

definition live_item :: "remote_item \<Rightarrow> remote_item option" where
  "live_item item = (if is_deleted item then None else Some item)"

text \<open>
  One iteration of the loop over the page; \<open>observe_item\<close> is its second half, for an item
  that is not set aside.
\<close>

definition observe_item ::
  "'w cycle_ctx \<Rightarrow> rel_path \<Rightarrow> remote_item \<Rightarrow> file_entry option \<Rightarrow> rename_target list \<Rightarrow> delta_acc
   \<Rightarrow> ('w, engine_error, delta_acc) io" where
  "observe_item cx rp item entry renames acc =
     (let remote_opt = live_item item;
          by_path = (if is_deleted item then da_by_path acc
                     else AList.update rp item (da_by_path acc))
      in bindE (clock_now cx) (\<lambda>now.
         let new_remote = map_option (\<lambda>i. remote_side_from_item i now) remote_opt in
         bindE (case build_remote_observation (cx_pair_id cx) rp entry remote_opt new_remote now of
                  None \<Rightarrow> returnE ()
                | Some persisted \<Rightarrow> state_call (st_file_entry_upsert (cx_state cx) persisted)) (\<lambda>_.
         let d = reconcile_one (cx_pair_id cx) rp entry remote_opt in
         returnE \<lparr>da_decisions = da_decisions acc @ [d],
                  da_conflicts = (if is_conflict (d_kind d) then da_conflicts acc + 1
                                  else da_conflicts acc),
                  da_renames = renames,
                  da_by_path = by_path\<rparr>)))"

definition delta_item ::
  "'w cycle_ctx \<Rightarrow> rel_path path_map \<Rightarrow> remote_item \<Rightarrow> delta_acc \<Rightarrow> ('w, engine_error, delta_acc) io" where
  "delta_item cx collisions item acc =
     (case build_rel_path_from_item (cx_lib cx) item of
        None \<Rightarrow> returnE acc
      | Some rp \<Rightarrow>
          if map_of collisions rp \<noteq> None then returnE acc
          else
            bindE (state_call (st_file_entry_get (cx_state cx) (cx_pair_id cx) rp)) (\<lambda>entry.
            bindE (if entry = None \<and> ri_deleted item = None
                   then skip_for_case_collision cx rp item (da_renames acc)
                   else returnE (False, da_renames acc)) (\<lambda>(skip, renames).
            if skip then returnE (acc\<lparr>da_renames := renames\<rparr>)
            else observe_item cx rp item entry renames acc)))"

fun delta_loop ::
  "'w cycle_ctx \<Rightarrow> rel_path path_map \<Rightarrow> remote_item list \<Rightarrow> delta_acc \<Rightarrow> ('w, engine_error, delta_acc) io" where
  "delta_loop cx collisions [] acc = returnE acc"
| "delta_loop cx collisions (item # items) acc =
     bindE (delta_item cx collisions item acc) (delta_loop cx collisions items)"

definition phase_delta_reconcile :: "'w cycle_ctx \<Rightarrow> ('w, engine_error, delta_outcome) io" where
  "phase_delta_reconcile cx =
     bindE (remote_call (rd_delta (cx_remote cx) (cx_drive_id cx) (cx_cursor cx))) (\<lambda>delta_page.
     let collisions = detect_remote_case_collisions (cx_lib cx) (dp_items delta_page) in
     bindE (process_remote_case_collisions cx (dp_items delta_page) collisions) (\<lambda>renames.
     bindE (delta_loop cx collisions (dp_items delta_page)
              \<lparr>da_decisions = [], da_conflicts = 0, da_renames = renames, da_by_path = []\<rparr>) (\<lambda>acc.
     returnE \<lparr>da_decisions = da_decisions acc, da_conflicts = da_conflicts acc,
              da_renames = da_renames acc, da_by_path = da_by_path acc,
              do_items_seen = length (dp_items delta_page),
              do_delta_token = dp_delta_token delta_page\<rparr>)))"

section \<open>What one page does to the rows\<close>

text \<open>The row an observation leaves, and the decision and counters of an item that is kept.\<close>

definition observe ::
  "pair_id \<Rightarrow> (pair_id \<Rightarrow> rel_path \<Rightarrow> file_entry option) \<Rightarrow> rel_path \<Rightarrow> remote_item \<Rightarrow> timestamp
   \<Rightarrow> file_entry option" where
  "observe pid E rp item t =
     build_remote_observation pid rp (E pid rp) (live_item item)
       (map_option (\<lambda>i. remote_side_from_item i t) (live_item item)) t"

definition put_entry ::
  "(pair_id \<Rightarrow> rel_path \<Rightarrow> file_entry option) \<Rightarrow> file_entry option \<Rightarrow> pair_id \<Rightarrow> rel_path \<Rightarrow> file_entry option" where
  "put_entry E x = (case x of None \<Rightarrow> E | Some e \<Rightarrow> upd_entry E e)"

definition decide ::
  "pair_id \<Rightarrow> (pair_id \<Rightarrow> rel_path \<Rightarrow> file_entry option) \<Rightarrow> rel_path \<times> remote_item \<Rightarrow> decision" where
  "decide pid E = (\<lambda>(rp, item). reconcile_one pid rp (E pid rp) (live_item item))"

definition keep_item ::
  "pair_id \<Rightarrow> (pair_id \<Rightarrow> rel_path \<Rightarrow> file_entry option) \<Rightarrow> rel_path \<Rightarrow> remote_item \<Rightarrow> rename_target list
   \<Rightarrow> delta_acc \<Rightarrow> delta_acc" where
  "keep_item pid E rp item renames acc =
     \<lparr>da_decisions = da_decisions acc @ [decide pid E (rp, item)],
      da_conflicts = (if is_conflict (d_kind (decide pid E (rp, item))) then da_conflicts acc + 1
                      else da_conflicts acc),
      da_renames = renames,
      da_by_path = (if is_deleted item then da_by_path acc else AList.update rp item (da_by_path acc))\<rparr>"

lemma frames_keeps_same: "frames v m \<Longrightarrow> keeps v m"
  by (simp add: frames_def keeps_def)

lemma frames_emit_warning [frame_rules]: "ports_frame v cx \<Longrightarrow> frames v (emit_warning cx k p)"
  unfolding emit_warning_def by (intro frame_rules)

lemma frames_process_losers [frame_rules]:
  "ports_frame v cx \<Longrightarrow> frames v (process_losers cx items ls renames)"
  by (induction cx items ls renames rule: process_losers.induct)
     (auto intro!: frame_rules split: sum.split option.split)

lemma frames_skip:
  assumes "ports_frame v cx" and "\<And>p r. frames v (st_file_entry_get_ci (cx_state cx) p r)"
  shows "frames v (skip_for_case_collision cx rp item renames)"
  unfolding skip_for_case_collision_def
  using assms by (auto intro!: frame_rules split: sum.split option.split)

lemma frames_process [frame_rules]:
  "ports_frame v cx \<Longrightarrow> frames v (process_remote_case_collisions cx items collisions)"
  unfolding process_remote_case_collisions_def by (intro frame_rules)

context entry_view
begin

lemma hoare_put:
  "hoare (\<lambda>w. entries w = E)
     (case x of None \<Rightarrow> returnE () | Some e \<Rightarrow> state_call (st_file_entry_upsert (cx_state cx) e))
     (\<lambda>_ w. entries w = put_entry E x) (\<lambda>_ _. True)"
proof (cases x)
  case None
  then show ?thesis by (simp add: put_entry_def hoare_def returnE_def)
next
  case (Some e)
  then show ?thesis by (auto simp: put_entry_def intro: hoare_weaken [OF hoare_upsert])
qed

lemma observe_item_InrD:
  assumes run: "observe_item cx rp item (entries w (cx_pair_id cx) rp) rn acc w = (Inr acc', w')"
  shows "acc' = keep_item (cx_pair_id cx) (entries w) rp item rn acc
     \<and> (\<exists>t. entries w' = put_entry (entries w) (observe (cx_pair_id cx) (entries w) rp item t))"
proof -
  obtain t w1 where n: "(clock_now cx :: ('w, engine_error, timestamp) io) w = (Inr t, w1)"
      "bindE (case observe (cx_pair_id cx) (entries w) rp item t of
                  None \<Rightarrow> returnE ()
                | Some e \<Rightarrow> state_call (st_file_entry_upsert (cx_state cx) e)) (\<lambda>_.
         returnE (keep_item (cx_pair_id cx) (entries w) rp item rn acc)) w1 = (Inr acc', w')"
    using run unfolding observe_item_def Let_def
    by (rule bindE_InrE) (auto simp: observe_def keep_item_def decide_def)
  have e1: "entries w1 = entries w" using framesD [OF frames_runtime(1) [OF ports] n(1)] .
  obtain u w2 where
      "(case observe (cx_pair_id cx) (entries w) rp item t of None \<Rightarrow> returnE ()
        | Some e \<Rightarrow> state_call (st_file_entry_upsert (cx_state cx) e)) w1 = (Inr u, w2)"
    and "(returnE (keep_item (cx_pair_id cx) (entries w) rp item rn acc) :: ('w, engine_error, delta_acc) io) w2
           = (Inr acc', w')"
    using n(2) by (rule bindE_InrE)
  with hoare_InrD [OF hoare_put e1] show ?thesis by (auto simp: returnE_def)
qed

end

text \<open>
  A store in which rows can also be looked up by a spelling that agrees with theirs under
  \<open>same\<close>: in a tidy world the lookup finds a row exactly when there is one.
\<close>

locale spelling_view = entry_view cx entries
  for cx :: "'w cycle_ctx" and entries :: "'w \<Rightarrow> pair_id \<Rightarrow> rel_path \<Rightarrow> file_entry option" +
  fixes tidy :: "'w \<Rightarrow> bool" and same :: "rel_path \<Rightarrow> rel_path \<Rightarrow> bool"
  assumes tidy_keyed: "tidy w \<Longrightarrow> keyed (entries w)"
    and tidy_get: "frames tidy (st_file_entry_get (cx_state cx) p r)"
    and tidy_get_ci: "frames tidy (st_file_entry_get_ci (cx_state cx) p r)"
    and tidy_upsert: "keeps tidy (st_file_entry_upsert (cx_state cx) e)"
    and tidy_ports: "ports_frame tidy cx"
    and get_ci_Some: "tidy w \<Longrightarrow> st_file_entry_get_ci (cx_state cx) p r w = (Inr (Some e), w') \<Longrightarrow>
                        same (fe_relative_path e) r \<and> entries w p (fe_relative_path e) = Some e"
    and get_ci_None: "tidy w \<Longrightarrow> st_file_entry_get_ci (cx_state cx) p r w = (Inr None, w') \<Longrightarrow>
                        same q r \<Longrightarrow> entries w p q = None"
begin

lemma skip_iff_other_spelling:
  assumes run: "skip_for_case_collision cx rp item rn w = (Inr (skip, rn'), w')" and t: "tidy w"
    and n: "entries w (cx_pair_id cx) rp = None"
  shows "skip \<longleftrightarrow> (\<exists>q. same q rp \<and> entries w (cx_pair_id cx) q \<noteq> None)"
proof -
  obtain found w1 where g: "state_call (st_file_entry_get_ci (cx_state cx) (cx_pair_id cx) rp) w = (Inr found, w1)"
    and rest: "(case found of
       None \<Rightarrow> returnE (False, rn)
     | Some existing \<Rightarrow>
         if fe_relative_path existing = rp then returnE (False, rn)
         else
           bindE (emit_warning cx ''file_entry.case_collision_detected''
                    (json_insert ''existing_path'' (JString (rel_str (fe_relative_path existing)))
                      (json_insert ''delta_path'' (JString (rel_str rp)) []))) (\<lambda>_.
           case parse_rel (cx_lib cx) (case_collision_rename_target (cx_lib cx) rp) of
             Inl _ \<Rightarrow> returnE (True, rn)
           | Inr target_rel \<Rightarrow> returnE (True, rn @ [(rp, ri_id item, new_leaf_of target_rel)])))
         w1 = (Inr (skip, rn'), w')"
    using run unfolding skip_for_case_collision_def by (rule bindE_InrE)
  from g have g': "st_file_entry_get_ci (cx_state cx) (cx_pair_id cx) rp w = (Inr found, w1)"
    unfolding state_call_def by (rule map_errE_InrE)
  show ?thesis
  proof (cases found)
    case None
    with rest get_ci_None [OF t] g' show ?thesis by (auto simp: returnE_def)
  next
    case (Some e)
    with g' have e: "same (fe_relative_path e) rp" "entries w (cx_pair_id cx) (fe_relative_path e) = Some e"
      using get_ci_Some [OF t] by auto
    then have "fe_relative_path e \<noteq> rp" using n by auto
    with rest Some have skip by (auto simp: returnE_def elim!: bindE_InrE split: sum.splits)
    with e show ?thesis by blast
  qed
qed

lemma tidy_observe:
  assumes "observe_item cx rp item entry rn acc w = (x, w')" and "tidy w"
  shows "tidy w'"
proof -
  have "keeps tidy (case y of None \<Rightarrow> returnE () | Some e \<Rightarrow> state_call (st_file_entry_upsert (cx_state cx) e))" for y
    unfolding state_call_def by (cases y) (auto intro: tidy_upsert)
  then have "keeps tidy (observe_item cx rp item entry rn acc)"
    unfolding observe_item_def Let_def
    by (intro keeps_bind keeps_return frames_keeps_same [OF frames_runtime(1) [OF tidy_ports]])
  with assms show ?thesis by (simp add: keeps_def) (metis snd_conv)
qed

lemma delta_item_cases:
  assumes run: "delta_item cx collisions item acc w = (Inr acc', w')"
    and p: "build_rel_path_from_item (cx_lib cx) item = Some rp" and c: "map_of collisions rp = None"
    and t: "tidy w"
  obtains (skipped) rn where "entries w (cx_pair_id cx) rp = None" and "\<not> is_deleted item"
      and "\<exists>q. same q rp \<and> entries w (cx_pair_id cx) q \<noteq> None"
      and "acc' = acc\<lparr>da_renames := rn\<rparr>" and "entries w' = entries w" and "tidy w'"
    | (kept) rn t where
          "\<not> (entries w (cx_pair_id cx) rp = None \<and> \<not> is_deleted item
              \<and> (\<exists>q. same q rp \<and> entries w (cx_pair_id cx) q \<noteq> None))"
      and "acc' = keep_item (cx_pair_id cx) (entries w) rp item rn acc"
      and "entries w' = put_entry (entries w) (observe (cx_pair_id cx) (entries w) rp item t)" and "tidy w'"
proof -
  from run p c obtain entry w1 where
      g: "state_call (st_file_entry_get (cx_state cx) (cx_pair_id cx) rp) w = (Inr entry, w1)"
    and r1: "bindE (if entry = None \<and> ri_deleted item = None
                   then skip_for_case_collision cx rp item (da_renames acc)
                   else returnE (False, da_renames acc)) (\<lambda>(skip, renames).
            if skip then returnE (acc\<lparr>da_renames := renames\<rparr>)
            else observe_item cx rp item entry renames acc) w1 = (Inr acc', w')"
    by (simp add: delta_item_def) (erule bindE_InrE, blast)
  have e: "entry = entries w (cx_pair_id cx) rp" "entries w1 = entries w"
    using hoare_InrD [OF hoare_get refl g] by auto
  have t1: "tidy w1"
    using t framesD [OF frames_state_call [OF tidy_get] g] by simp
  from r1 obtain skip rn w2 where
      s: "(if entry = None \<and> ri_deleted item = None then skip_for_case_collision cx rp item (da_renames acc)
           else returnE (False, da_renames acc)) w1 = (Inr (skip, rn), w2)"
    and r2: "(if skip then returnE (acc\<lparr>da_renames := rn\<rparr>)
              else observe_item cx rp item entry rn acc) w2 = (Inr acc', w')"
    by (rule bindE_InrE) (auto split: prod.splits)
  have e2: "entries w2 = entries w"
    using s e(2) framesD [OF frames_skip [OF ports get_ci_frame]] by (auto simp: returnE_def split: if_splits)
  have t2: "tidy w2"
    using s t1 framesD [OF frames_skip [OF tidy_ports tidy_get_ci]] by (auto simp: returnE_def split: if_splits)
  have sk: "skip \<longleftrightarrow> entries w (cx_pair_id cx) rp = None \<and> \<not> is_deleted item
      \<and> (\<exists>q. same q rp \<and> entries w (cx_pair_id cx) q \<noteq> None)"
    using s e t1 skip_iff_other_spelling [of rp item "da_renames acc" w1 skip rn w2]
    by (auto simp: returnE_def is_deleted_def split: if_splits)
  show thesis
  proof (cases skip)
    case True
    with sk r2 e2 t2 show thesis by (intro skipped [of rn]) (auto simp: returnE_def)
  next
    case False
    with r2 e have "observe_item cx rp item (entries w (cx_pair_id cx) rp) rn acc w2 = (Inr acc', w')" by simp
    with e2 have o: "observe_item cx rp item (entries w2 (cx_pair_id cx) rp) rn acc w2 = (Inr acc', w')" by simp
    have "tidy w'" using tidy_observe [OF o t2] .
    with observe_item_InrD [OF o] e2 False sk show thesis using kept by metis
  qed
qed

end

text \<open>The items of a page that reach the store: they have a path and it is not dropped.\<close>

fun candidates :: "lib \<Rightarrow> rel_path path_map \<Rightarrow> remote_item list \<Rightarrow> (rel_path \<times> remote_item) list" where
  "candidates L collisions [] = []"
| "candidates L collisions (i # is) =
     (case build_rel_path_from_item L i of
        None \<Rightarrow> candidates L collisions is
      | Some rp \<Rightarrow> if map_of collisions rp \<noteq> None then candidates L collisions is
                    else (rp, i) # candidates L collisions is)"

text \<open>What keeping a list of items does to the rows: exactly their rows are observed.\<close>

definition page_effect ::
  "pair_id \<Rightarrow> (rel_path \<times> remote_item) list \<Rightarrow> (pair_id \<Rightarrow> rel_path \<Rightarrow> file_entry option)
   \<Rightarrow> (pair_id \<Rightarrow> rel_path \<Rightarrow> file_entry option) \<Rightarrow> bool" where
  "page_effect pid kept E E' \<longleftrightarrow>
     (\<forall>(rp, i) \<in> set kept. \<exists>t. E' pid rp = observe pid E rp i t)
     \<and> (\<forall>p r. p \<noteq> pid \<or> r \<notin> fst ` set kept \<longrightarrow> E' p r = E p r)"

definition live_map :: "(rel_path \<times> remote_item) list \<Rightarrow> remote_item path_map \<Rightarrow> remote_item path_map" where
  "live_map kept m = fold (\<lambda>(rp, i) m. if is_deleted i then m else AList.update rp i m) kept m"

lemma observe_put:
  assumes "keyed E"
  shows "put_entry E (observe pid E rp i t) p r = (if p = pid \<and> r = rp then observe pid E rp i t else E p r)"
    and "keyed (put_entry E (observe pid E rp i t))"
proof -
  have k: "fe_pair_id e = pid \<and> fe_relative_path e = rp" if "observe pid E rp i t = Some e" for e
    using that assms
    by (auto simp: observe_def build_remote_observation_def keyed_def split: option.splits)
  have n: "E pid rp = None" if "observe pid E rp i t = None"
    using that by (simp add: observe_def build_remote_observation_def split: option.splits)
  show "put_entry E (observe pid E rp i t) p r = (if p = pid \<and> r = rp then observe pid E rp i t else E p r)"
    using k n by (auto simp: put_entry_def upd_entry_apply split: option.split)
  show "keyed (put_entry E (observe pid E rp i t))"
    using assms by (simp add: put_entry_def split: option.split)
qed

lemma observe_cong: "E pid rp = E' pid rp \<Longrightarrow> observe pid E rp i t = observe pid E' rp i t"
  by (simp add: observe_def)

lemma page_effect_Cons:
  assumes k: "keyed E" and d: "rp \<notin> fst ` set kept"
    and e: "page_effect pid kept (put_entry E (observe pid E rp i t)) E'"
  shows "page_effect pid ((rp, i) # kept) E E'"
  unfolding page_effect_def
proof (intro conjI ballI allI impI)
  fix x
  assume "x \<in> set ((rp, i) # kept)"
  then consider "x = (rp, i)" | "x \<in> set kept" by auto
  then show "case x of (rp, i) \<Rightarrow> \<exists>t. E' pid rp = observe pid E rp i t"
  proof cases
    case 1
    have "E' pid rp = observe pid E rp i t"
      using e d by (simp add: page_effect_def observe_put(1) [OF k])
    with 1 show ?thesis by auto
  next
    case 2
    obtain rp' i' where x: "x = (rp', i')" by fastforce
    with 2 d have ne: "rp' \<noteq> rp" by force
    obtain t' where "E' pid rp' = observe pid (put_entry E (observe pid E rp i t)) rp' i' t'"
      using e 2 x by (auto simp: page_effect_def)
    also have "\<dots> = observe pid E rp' i' t'"
      by (rule observe_cong) (simp add: observe_put(1) [OF k] ne)
    finally show ?thesis using x by auto
  qed
next
  fix p r
  assume "p \<noteq> pid \<or> r \<notin> fst ` set ((rp, i) # kept)"
  then show "E' p r = E p r"
    using e by (auto simp: page_effect_def observe_put(1) [OF k])
qed

lemma decide_cong:
  "(\<And>x. x \<in> set l \<Longrightarrow> E pid (fst x) = E' pid (fst x)) \<Longrightarrow> map (decide pid E) l = map (decide pid E') l"
  by (auto simp: decide_def)

definition conflict_count :: "decision list \<Rightarrow> nat" where
  "conflict_count ds = length (filter (\<lambda>d. is_conflict (d_kind d)) ds)"

lemma candidates_paths:
  "map fst (candidates L col items) = filter (\<lambda>p. map_of col p = None) (page_paths L items)"
  by (induction L col items rule: candidates.induct)
     (auto simp: page_paths_def map_filter_simps split: option.splits)

lemma undropped_once:
  assumes "map_of (detect_remote_case_collisions L items) p = None" and "p \<in> set (page_paths L items)"
  shows "count_list (page_paths L items) p = 1"
proof -
  let ?b = "filter (\<lambda>q. case_folds_equal L q p) (page_paths L items)"
  have "p \<notin> set (tl (sort ?b))" using assms(1) by (auto simp: detect_map Let_def split: if_splits)
  with assms(2) have "\<not> 2 \<le> count_list ?b p" by (auto simp: in_tl_sort_iff)
  moreover have "count_list (page_paths L items) p \<noteq> 0" using assms(2) by (simp add: count_list_0_iff)
  ultimately show ?thesis by (simp add: count_list_filter)
qed

lemma candidates_distinct:
  "distinct (map fst (candidates L (detect_remote_case_collisions L items) items))"
  using undropped_once [of L items]
  by (auto simp: candidates_paths distinct_count_atmost_1 count_mset count_list_filter count_list_0_iff)

text \<open>
  The specification of the loop.  \<open>has\<close> says which paths have a row; of the candidates exactly
  those are set aside that are live, have no row and meet a row under another spelling of
  their path at that moment, a row made by an earlier item of the page included.  The others
  are observed and decided from the rows as they were before the page.
\<close>

fun kept_items ::
  "(rel_path \<Rightarrow> rel_path \<Rightarrow> bool) \<Rightarrow> (rel_path \<Rightarrow> bool) \<Rightarrow> (rel_path \<times> remote_item) list
   \<Rightarrow> (rel_path \<times> remote_item) list" where
  "kept_items same has [] = []"
| "kept_items same has ((rp, i) # cands) =
     (if \<not> has rp \<and> \<not> is_deleted i \<and> (\<exists>q. same q rp \<and> has q) then kept_items same has cands
      else (rp, i) # kept_items same (has(rp := has rp \<or> \<not> is_deleted i)) cands)"

definition page_spec ::
  "(rel_path \<Rightarrow> rel_path \<Rightarrow> bool) \<Rightarrow> pair_id \<Rightarrow> (rel_path \<times> remote_item) list
   \<Rightarrow> (pair_id \<Rightarrow> rel_path \<Rightarrow> file_entry option) \<Rightarrow> delta_acc
   \<Rightarrow> (pair_id \<Rightarrow> rel_path \<Rightarrow> file_entry option) \<Rightarrow> delta_acc \<Rightarrow> bool" where
  "page_spec same pid cands E acc E' acc' \<longleftrightarrow>
     (let kept = kept_items same (\<lambda>q. E pid q \<noteq> None) cands in
      da_decisions acc' = da_decisions acc @ map (decide pid E) kept
      \<and> da_conflicts acc' = da_conflicts acc + conflict_count (map (decide pid E) kept)
      \<and> da_by_path acc' = live_map kept (da_by_path acc)
      \<and> page_effect pid kept E E')"

lemma kept_items_subseq: "subseq (kept_items same has cands) cands"
proof (induction same has cands rule: kept_items.induct)
  case (2 same has rp i cands)
  then show ?case
    by (cases "\<not> has rp \<and> \<not> is_deleted i \<and> (\<exists>q. same q rp \<and> has q)")
       (simp_all only: kept_items.simps if_True if_False simp_thms list_emb_Cons2 subseq_Cons2, auto)
qed simp

lemma page_spec_Nil: "page_spec same pid [] E acc E acc"
  by (simp add: page_spec_def conflict_count_def live_map_def page_effect_def)

lemma page_spec_skip:
  assumes "page_spec same pid cands E (acc\<lparr>da_renames := rn\<rparr>) E' acc'"
    and "E pid rp = None" and "\<not> is_deleted i" and "\<exists>q. same q rp \<and> E pid q \<noteq> None"
  shows "page_spec same pid ((rp, i) # cands) E acc E' acc'"
  using assms by (auto simp: page_spec_def Let_def)

lemma subseq_subset: "subseq xs ys \<Longrightarrow> set xs \<subseteq> set ys"
  by (auto elim: list_emb_set)

lemma observe_rows:
  assumes k: "keyed E"
  shows "(\<lambda>q. put_entry E (observe pid E rp i t) pid q \<noteq> None)
       = (\<lambda>q. E pid q \<noteq> None)(rp := E pid rp \<noteq> None \<or> \<not> is_deleted i)"
proof (rule ext)
  have "observe pid E rp i t \<noteq> None \<longleftrightarrow> E pid rp \<noteq> None \<or> \<not> is_deleted i"
    by (auto simp: observe_def build_remote_observation_def live_item_def split: option.splits)
  then show "(put_entry E (observe pid E rp i t) pid q \<noteq> None)
      = ((\<lambda>q. E pid q \<noteq> None)(rp := E pid rp \<noteq> None \<or> \<not> is_deleted i)) q" for q
    by (simp add: observe_put(1) [OF k])
qed

lemma page_spec_keep:
  assumes k: "keyed E" and d: "rp \<notin> fst ` set cands"
    and stays: "\<not> (E pid rp = None \<and> \<not> is_deleted i \<and> (\<exists>q. same q rp \<and> E pid q \<noteq> None))"
    and sp: "page_spec same pid cands (put_entry E (observe pid E rp i t)) (keep_item pid E rp i rn acc) E' acc'"
  shows "page_spec same pid ((rp, i) # cands) E acc E' acc'"
proof -
  let ?E1 = "put_entry E (observe pid E rp i t)"
  define kept where "kept = kept_items same (\<lambda>q. ?E1 pid q \<noteq> None) cands"
  have kept: "kept_items same (\<lambda>q. E pid q \<noteq> None) ((rp, i) # cands) = (rp, i) # kept"
    using stays unfolding kept_def observe_rows [OF k] by (simp only: kept_items.simps if_False) auto
  have d': "rp \<notin> fst ` set kept"
    using d kept_items_subseq unfolding kept_def by (meson image_mono subseq_subset subsetD)
  have same: "r \<noteq> rp \<Longrightarrow> ?E1 pid r = E pid r" for r by (simp add: observe_put(1) [OF k])
  have dk: "map (decide pid ?E1) kept = map (decide pid E) kept"
    using d' by (intro decide_cong same) force
  have "page_effect pid ((rp, i) # kept) E E'"
    using sp by (intro page_effect_Cons [OF k d', where t = t]) (simp add: page_spec_def Let_def kept_def)
  then show ?thesis
    using sp dk unfolding page_spec_def kept Let_def kept_def [symmetric]
    by (simp add: keep_item_def conflict_count_def live_map_def)
qed

context spelling_view
begin

lemma delta_loop_spec:
  assumes "delta_loop cx col items acc w = (Inr acc', w')"
    and "distinct (map fst (candidates (cx_lib cx) col items))" and "tidy w"
  shows "page_spec same (cx_pair_id cx) (candidates (cx_lib cx) col items) (entries w) acc (entries w') acc'"
  using assms
proof (induction items arbitrary: acc w)
  case Nil
  then show ?case using page_spec_Nil by (auto simp: returnE_def)
next
  case (Cons item items)
  let ?c = "candidates (cx_lib cx) col"
  obtain acc1 w1 where one: "delta_item cx col item acc w = (Inr acc1, w1)"
    and rest: "delta_loop cx col items acc1 w1 = (Inr acc', w')"
    using Cons.prems(1) unfolding delta_loop.simps by (rule bindE_InrE)
  show ?case
  proof (cases "\<exists>rp. build_rel_path_from_item (cx_lib cx) item = Some rp \<and> map_of col rp = None")
    case False
    then have "?c (item # items) = ?c items" and "acc1 = acc" and "w1 = w"
      using one by (auto simp: delta_item_def returnE_def split: option.splits if_splits)
    with Cons.IH [OF rest] Cons.prems show ?thesis by simp
  next
    case True
    then obtain rp where p: "build_rel_path_from_item (cx_lib cx) item = Some rp" and c: "map_of col rp = None"
      by blast
    then have cand: "?c (item # items) = (rp, item) # ?c items" by simp
    with Cons.prems(2) have d: "rp \<notin> fst ` set (?c items)" "distinct (map fst (?c items))" by auto
    from one p c Cons.prems(3) show ?thesis
    proof (cases rule: delta_item_cases)
      case (skipped rn)
      from Cons.IH [OF rest d(2) skipped(6)] skipped(1-5) cand show ?thesis
        using page_spec_skip by metis
    next
      case (kept rn t)
      from Cons.IH [OF rest d(2) kept(4)] kept(2,3) cand
        page_spec_keep [OF tidy_keyed [OF Cons.prems(3)] d(1), of "cx_pair_id cx" item same t rn acc, OF kept(1)]
      show ?thesis by simp
    qed
  qed
qed

lemma phase_delta_spec:
  assumes run: "phase_delta_reconcile cx w = (Inr out, w')" and k: "tidy w"
  obtains page w1
  where "rd_delta (cx_remote cx) (cx_drive_id cx) (cx_cursor cx) w = (Inr page, w1)"
    and "page_spec same (cx_pair_id cx)
           (candidates (cx_lib cx) (detect_remote_case_collisions (cx_lib cx) (dp_items page)) (dp_items page))
           (entries w) \<lparr>da_decisions = [], da_conflicts = 0, da_renames = [], da_by_path = []\<rparr>
           (entries w') (delta_acc.truncate out)"
    and "do_items_seen out = length (dp_items page)" and "do_delta_token out = dp_delta_token page"
proof -
  let ?col = "\<lambda>page. detect_remote_case_collisions (cx_lib cx) (dp_items page)"
  obtain page w1 where d: "remote_call (rd_delta (cx_remote cx) (cx_drive_id cx) (cx_cursor cx)) w = (Inr page, w1)"
    and r1: "bindE (process_remote_case_collisions cx (dp_items page) (?col page)) (\<lambda>renames.
      bindE (delta_loop cx (?col page) (dp_items page)
              \<lparr>da_decisions = [], da_conflicts = 0, da_renames = renames, da_by_path = []\<rparr>) (\<lambda>acc.
      returnE \<lparr>da_decisions = da_decisions acc, da_conflicts = da_conflicts acc,
              da_renames = da_renames acc, da_by_path = da_by_path acc,
              do_items_seen = length (dp_items page), do_delta_token = dp_delta_token page\<rparr>)) w1 = (Inr out, w')"
    using run unfolding phase_delta_reconcile_def Let_def by (rule bindE_InrE)
  obtain rn w2 where pr: "process_remote_case_collisions cx (dp_items page) (?col page) w1 = (Inr rn, w2)"
    and r2: "bindE (delta_loop cx (?col page) (dp_items page)
              \<lparr>da_decisions = [], da_conflicts = 0, da_renames = rn, da_by_path = []\<rparr>) (\<lambda>acc.
      returnE \<lparr>da_decisions = da_decisions acc, da_conflicts = da_conflicts acc,
              da_renames = da_renames acc, da_by_path = da_by_path acc,
              do_items_seen = length (dp_items page), do_delta_token = dp_delta_token page\<rparr>) w2 = (Inr out, w')"
    using r1 by (rule bindE_InrE)
  have e2: "entries w2 = entries w"
    using framesD [OF frames_remote_call [OF frames_ports(1) [OF ports]] d]
      framesD [OF frames_process [OF ports] pr] by simp
  have t2: "tidy w2"
    using k framesD [OF frames_remote_call [OF frames_ports(1) [OF tidy_ports]] d]
      framesD [OF frames_process [OF tidy_ports] pr] by simp
  obtain acc' where l: "delta_loop cx (?col page) (dp_items page)
        \<lparr>da_decisions = [], da_conflicts = 0, da_renames = rn, da_by_path = []\<rparr> w2 = (Inr acc', w')"
    and o: "out = \<lparr>da_decisions = da_decisions acc', da_conflicts = da_conflicts acc',
              da_renames = da_renames acc', da_by_path = da_by_path acc',
              do_items_seen = length (dp_items page), do_delta_token = dp_delta_token page\<rparr>"
    using r2 by (rule bindE_InrE) (auto simp: returnE_def)
  have "delta_acc.truncate out = acc'" by (simp add: o delta_acc.truncate_def)
  with delta_loop_spec [OF l candidates_distinct t2] e2 have
    "page_spec same (cx_pair_id cx) (candidates (cx_lib cx) (?col page) (dp_items page)) (entries w)
       \<lparr>da_decisions = [], da_conflicts = 0, da_renames = [], da_by_path = []\<rparr> (entries w') (delta_acc.truncate out)"
    by (simp add: page_spec_def Let_def)
  moreover from d have "rd_delta (cx_remote cx) (cx_drive_id cx) (cx_cursor cx) w = (Inr page, w1)"
    unfolding remote_call_def by (rule map_errE_InrE)
  ultimately show thesis using that o by simp
qed

end

section \<open>The phase over the in-memory store\<close>

text \<open>Two paths whose spellings agree up to the case of ASCII letters.\<close>

definition same_spelling :: "rel_path \<Rightarrow> rel_path \<Rightarrow> bool" where
  "same_spelling p q \<longleftrightarrow> to_ascii_lowercase (rel_str p) = to_ascii_lowercase (rel_str q)"

definition mem_tidy :: "lib \<Rightarrow> 'x mem_world \<Rightarrow> bool" where
  "mem_tidy L w \<longleftrightarrow> wf_store (mw_store w) \<and> map_order_laws (lib_map_order L)"

lemma mem_get_ci_found:
  assumes t: "mem_tidy L w" and f: "mem_file_entry_get_ci L p r (mw_store w) = (Inr x, s')"
  shows "(\<forall>e. x = Some e \<longrightarrow> same_spelling (fe_relative_path e) r \<and> mem_entries w p (fe_relative_path e) = Some e)
    \<and> (\<forall>q. x = None \<longrightarrow> same_spelling q r \<longrightarrow> mem_entries w p q = None)"
proof -
  let ?t = "ms_file_entries (mw_store w)"
  have wf: "wf_table entry_key ?t" and v: "set (table_values L ?t) = snd ` set ?t"
    using t by (simp_all add: mem_tidy_def wf_store_def table_values_set)
  have row: "e \<in> snd ` set ?t \<longleftrightarrow> mem_entries w (fe_pair_id e) (fe_relative_path e) = Some e" for e
    using wf by (force simp: wf_table_def entry_key_def mem_entries_def)
  have key: "fe_pair_id e = p \<and> fe_relative_path e = q" if "mem_entries w p q = Some e" for e q
    using that wf by (auto simp: wf_table_def entry_key_def mem_entries_def dest!: map_of_SomeD)
  have x: "x = find (\<lambda>e. fe_pair_id e = p \<and> same_spelling (fe_relative_path e) r) (table_values L ?t)"
    using f by (auto simp: mem_file_entry_get_ci_def Let_def same_spelling_def)
  show ?thesis
  proof (intro conjI allI impI)
    fix e assume "x = Some e"
    then have "e \<in> set (table_values L ?t)" "fe_pair_id e = p" "same_spelling (fe_relative_path e) r"
      using x by (auto simp: find_Some_iff)
    then show "same_spelling (fe_relative_path e) r" "mem_entries w p (fe_relative_path e) = Some e"
      using row [of e] v by auto
  next
    fix q assume n: "x = None" "same_spelling q r"
    show "mem_entries w p q = None"
    proof (rule ccontr)
      assume "mem_entries w p q \<noteq> None"
      then obtain e where e: "mem_entries w p q = Some e" by auto
      with key [OF e] have "e \<in> set (table_values L ?t)" using row [of e] v by simp
      with n x key [OF e] show False by (auto simp: find_None_iff)
    qed
  qed
qed

lemma mem_tidy_eq: "mem_tidy L = (\<lambda>w. (\<lambda>s. wf_store s \<and> map_order_laws (lib_map_order L)) (mw_store w))"
  by (simp add: fun_eq_iff mem_tidy_def)

interpretation mem: spelling_view "mem_ctx c" mem_entries "mem_tidy (cx_lib c)" same_spelling
  for c :: "'x cycle_ctx"
proof unfold_locales
  show "ports_frame (mem_tidy (cx_lib c)) (mem_ctx c)"
    unfolding mem_tidy_eq by (rule mem_ports_frame)
next
  fix p r and w w' :: "'x mem_world" and e
  assume "mem_tidy (cx_lib c) w" "st_file_entry_get_ci (cx_state (mem_ctx c)) p r w = (Inr (Some e), w')"
  then show "same_spelling (fe_relative_path e) r \<and> mem_entries w p (fe_relative_path e) = Some e"
    using mem_get_ci_found [of "cx_lib c" w p r "Some e"]
    by (auto simp: mem_ctx_state mem_state_store_def on_store_def split: prod.splits)
next
  fix p r q and w w' :: "'x mem_world"
  assume "mem_tidy (cx_lib c) w" "st_file_entry_get_ci (cx_state (mem_ctx c)) p r w = (Inr None, w')"
    "same_spelling q r"
  then show "mem_entries w p q = None"
    using mem_get_ci_found [of "cx_lib c" w p r None]
    by (auto simp: mem_ctx_state mem_state_store_def on_store_def split: prod.splits)
qed (auto simp: mem_ctx_state mem_state_store_def mem_tidy_eq mem_op_defs keyed_mem_entries keeps_def
    Let_def on_store_def wf_store_def entry_key_def [symmetric] intro!: on_store_frames)

text \<open>The candidates of a page, as the phase computes them.\<close>

abbreviation page_candidates :: "lib \<Rightarrow> delta_page \<Rightarrow> (rel_path \<times> remote_item) list" where
  "page_candidates L page \<equiv>
     candidates L (detect_remote_case_collisions L (dp_items page)) (dp_items page)"

text \<open>
  C5: A delta page is persisted before it is acted on: when the phase returns, of the items of
  the page that have a path and are not dropped for a collision within the page, exactly
  those are set aside that are live, have no row, and meet the row of another spelling of
  their path (equal up to ASCII case) at that moment; every other one has been stored as the
  remote observation of its row, its decision is the reconciliation of the row as it was
  before the page with the item, the decisions come in page order, and no other row has
  changed.  Over the in-memory store, whatever the drive, the clock and the id generator do.
\<close>
theorem delta_page_observed:
  assumes "phase_delta_reconcile (mem_ctx c) w = (Inr out, w')" and "wf_store (mw_store w)"
    and "map_order_laws (lib_map_order (cx_lib c))"
  shows "\<exists>page x. rd_delta (cx_remote c) (cx_drive_id c) (cx_cursor c) (mw_ext w) = (Inr page, x)
    \<and> page_spec same_spelling (cx_pair_id c) (page_candidates (cx_lib c) page)
         (mem_entries w) \<lparr>da_decisions = [], da_conflicts = 0, da_renames = [], da_by_path = []\<rparr>
         (mem_entries w') (delta_acc.truncate out)
    \<and> do_items_seen out = length (dp_items page) \<and> do_delta_token out = dp_delta_token page"
proof -
  have t: "mem_tidy (cx_lib c) w" using assms(2,3) by (simp add: mem_tidy_def)
  obtain page w1 where
    d: "rd_delta (cx_remote (mem_ctx c)) (cx_drive_id (mem_ctx c)) (cx_cursor (mem_ctx c)) w = (Inr page, w1)"
    and rest: "page_spec same_spelling (cx_pair_id c) (page_candidates (cx_lib c) page)
         (mem_entries w) \<lparr>da_decisions = [], da_conflicts = 0, da_renames = [], da_by_path = []\<rparr>
         (mem_entries w') (delta_acc.truncate out)"
      "do_items_seen out = length (dp_items page)" "do_delta_token out = dp_delta_token page"
    using mem.phase_delta_spec [OF assms(1) t] by (metis mem_ctx_simps(1,2))
  from d have "\<exists>x. rd_delta (cx_remote c) (cx_drive_id c) (cx_cursor c) (mw_ext w) = (Inr page, x)"
    by (auto simp: ext_remote_def on_ext_def split: prod.splits)
  with rest show ?thesis by blast
qed

lemma observed_rows:
  assumes "phase_delta_reconcile (mem_ctx c) w = (Inr out, w')" and "wf_store (mw_store w)"
    and "map_order_laws (lib_map_order (cx_lib c))"
  obtains page x kept where "rd_delta (cx_remote c) (cx_drive_id c) (cx_cursor c) (mw_ext w) = (Inr page, x)"
    and "set kept \<subseteq> set (page_candidates (cx_lib c) page)"
    and "da_decisions out = map (decide (cx_pair_id c) (mem_entries w)) kept"
    and "page_effect (cx_pair_id c) kept (mem_entries w) (mem_entries w')"
proof -
  have t: "mem_tidy (cx_lib c) w" using assms(2,3) by (simp add: mem_tidy_def)
  obtain page w1 where
    d: "rd_delta (cx_remote (mem_ctx c)) (cx_drive_id (mem_ctx c)) (cx_cursor (mem_ctx c)) w = (Inr page, w1)"
    and sp: "page_spec same_spelling (cx_pair_id c) (page_candidates (cx_lib c) page)
         (mem_entries w) \<lparr>da_decisions = [], da_conflicts = 0, da_renames = [], da_by_path = []\<rparr>
         (mem_entries w') (delta_acc.truncate out)"
    using mem.phase_delta_spec [OF assms(1) t] by (metis mem_ctx_simps(1,2))
  from d obtain x where "rd_delta (cx_remote c) (cx_drive_id c) (cx_cursor c) (mw_ext w) = (Inr page, x)"
    by (auto simp: ext_remote_def on_ext_def split: prod.splits)
  moreover define kept where
    "kept = kept_items same_spelling (\<lambda>q. mem_entries w (cx_pair_id c) q \<noteq> None) (page_candidates (cx_lib c) page)"
  moreover have "set kept \<subseteq> set (page_candidates (cx_lib c) page)"
    unfolding kept_def by (rule subseq_subset [OF kept_items_subseq])
  moreover have "da_decisions out = map (decide (cx_pair_id c) (mem_entries w)) kept
      \<and> page_effect (cx_pair_id c) kept (mem_entries w) (mem_entries w')"
    using sp by (simp add: page_spec_def Let_def kept_def delta_acc.truncate_def)
  ultimately show ?thesis using that by blast
qed

text \<open>
  The delta phase never loses a row nor what a row knows of the local side: every row
  that was there is still there with the same local side, synced side, sync state and
  pending operation; only its remote side and its update time may have changed.
\<close>
theorem delta_keeps_local_knowledge:
  assumes "phase_delta_reconcile (mem_ctx c) w = (Inr out, w')" and "wf_store (mw_store w)"
    and "mem_entries w p r = Some e" and "map_order_laws (lib_map_order (cx_lib c))"
  shows "\<exists>rs t. mem_entries w' p r = Some (e\<lparr>fe_remote := rs, fe_updated_at := t\<rparr>)"
proof -
  obtain kept where pe: "page_effect (cx_pair_id c) kept (mem_entries w) (mem_entries w')"
    using observed_rows [OF assms(1,2,4)] by metis
  show ?thesis
  proof (cases "p = cx_pair_id c \<and> r \<in> fst ` set kept")
    case True
    then obtain i t where "mem_entries w' p r = observe p (mem_entries w) r i t"
      using pe by (force simp: page_effect_def)
    with assms(3) show ?thesis by (auto simp: observe_def build_remote_observation_def)
  next
    case False
    with pe assms(3) have "mem_entries w' p r = Some e" by (auto simp: page_effect_def)
    then show ?thesis
      by (intro exI [of _ "fe_remote e"] exI [of _ "fe_updated_at e"]) simp
  qed
qed

text \<open>
  Two items of one page with the same path are both ignored: the path gets no decision
  and its row is not touched, although the page counts as processed.
\<close>
theorem duplicate_items_ignored:
  assumes "phase_delta_reconcile (mem_ctx c) w = (Inr out, w')" and "wf_store (mw_store w)"
    and "rd_delta (cx_remote c) (cx_drive_id c) (cx_cursor c) (mw_ext w) = (Inr page, x)"
    and "2 \<le> count_list (page_paths (cx_lib c) (dp_items page)) p"
    and "map_order_laws (lib_map_order (cx_lib c))"
  shows "p \<notin> d_relative_path ` set (da_decisions out)
    \<and> mem_entries w' (cx_pair_id c) p = mem_entries w (cx_pair_id c) p"
proof -
  obtain kept where k: "set kept \<subseteq> set (page_candidates (cx_lib c) page)"
    and ds: "da_decisions out = map (decide (cx_pair_id c) (mem_entries w)) kept"
    and pe: "page_effect (cx_pair_id c) kept (mem_entries w) (mem_entries w')"
    using observed_rows [OF assms(1,2,5)] assms(3) by (metis Inr_inject prod.inject)
  let ?col = "detect_remote_case_collisions (cx_lib c) (dp_items page)"
  have "p \<in> set (page_paths (cx_lib c) (dp_items page))"
    using assms(4) by (metis count_notin not_numeral_le_zero)
  then have "map_of ?col p \<noteq> None" using undropped_once [of "cx_lib c" "dp_items page" p] assms(4) by auto
  then have "p \<notin> set (map fst (page_candidates (cx_lib c) page))"
    unfolding candidates_paths by simp
  then have nk: "p \<notin> fst ` set kept" using k by (auto simp only: set_map)
  have "d_relative_path (decide (cx_pair_id c) (mem_entries w) y) = fst y" for y
    by (simp add: decide_def reconcile_one_def split: prod.split)
  with nk ds pe show ?thesis by (auto simp: page_effect_def image_image)
qed

section \<open>Concrete pages\<close>

definition page_ctx :: "remote_item list \<Rightarrow> call_log cycle_ctx" where
  "page_ctx items = log_ctx\<lparr>cx_remote := log_rd\<lparr>rd_delta := (\<lambda>d cur w.
     (Inr \<lparr>dp_items = items, dp_next_link = None, dp_delta_token = Some (DeltaCursor ''next'')\<rparr>, w))\<rparr>\<rparr>"

lemma page_ctx_delta:
  "rd_delta (cx_remote (page_ctx items)) (cx_drive_id (page_ctx items)) (cx_cursor (page_ctx items)) x
     = (Inr \<lparr>dp_items = items, dp_next_link = None, dp_delta_token = Some (DeltaCursor ''next'')\<rparr>, x)"
  by (simp add: page_ctx_def)

lemma page_ctx_simps [simp]:
  "cx_lib (page_ctx items) = ascii_lib" "cx_pair_id (page_ctx items) = Id 1"
  "cx_runtime (page_ctx items) = log_runtime"
  by (simp_all add: page_ctx_def log_ctx_def)

lemma mem_frame_facts: "wf_store (mw_store (log_world empty_store))"
  by (simp add: log_world_def wf_store_def empty_store_def)

lemma mem_entries_empty: "mem_entries (log_world empty_store) p r = None"
  by (simp add: mem_entries_def log_world_def empty_store_def)

text \<open>On the in-memory store the phase fails only when the drive does.\<close>

lemma mem_delta_loop_returns: "\<exists>acc' w'. delta_loop (mem_ctx c) col items acc w = (Inr acc', w')"
proof -
  have "sure (delta_item (mem_ctx c) col i a) (\<lambda>_. True)" for i a
    unfolding delta_item_def observe_item_def skip_for_case_collision_def emit_warning_def Let_def
    by (auto intro!: sure_rules mem_sure split: option.split sum.split prod.split)
  then have "sure (delta_loop (mem_ctx c) col items a) (\<lambda>_. True)" for a
    by (induction items arbitrary: a) (auto intro!: sure_rules)
  then show ?thesis by (auto simp: sure_def)
qed

lemma sure_process_losers: "sure (process_losers cx items ls r) (\<lambda>_. True)"
  by (induction cx items ls r rule: process_losers.induct)
     (auto intro!: sure_rules simp: emit_warning_def split: sum.split option.split)

lemma page_ctx_returns: "\<exists>out w'. phase_delta_reconcile (mem_ctx (page_ctx items)) w = (Inr out, w')"
proof -
  let ?cx = "mem_ctx (page_ctx items)"
  let ?page = "\<lparr>dp_items = items, dp_next_link = None, dp_delta_token = Some (DeltaCursor ''next'')\<rparr>"
  have d: "remote_call (rd_delta (cx_remote ?cx) (cx_drive_id ?cx) (cx_cursor ?cx)) w = (Inr ?page, w)"
    using page_ctx_delta [of items] by (simp add: remote_call_def map_errE_def ext_remote_def on_ext_def)
  let ?col = "detect_remote_case_collisions (cx_lib ?cx) items"
  obtain rn w1 where p: "process_remote_case_collisions ?cx items ?col w = (Inr rn, w1)"
    unfolding process_remote_case_collisions_def using sure_process_losers unfolding sure_def by metis
  obtain acc w2 where "delta_loop ?cx ?col items
      \<lparr>da_decisions = [], da_conflicts = 0, da_renames = rn, da_by_path = []\<rparr> w1 = (Inr acc, w2)"
    using mem_delta_loop_returns by metis
  with d p show ?thesis
    by (simp add: phase_delta_reconcile_def bindE_def Let_def returnE_def)
qed

theorem delta_page_observed_witness:
  "\<exists>out w'. phase_delta_reconcile (mem_ctx (page_ctx [sample_item ''i'' ''a'' 5 None])) (log_world empty_store)
       = (Inr out, w') \<and> do_items_seen out = 1"
proof -
  obtain out w' where r: "phase_delta_reconcile (mem_ctx (page_ctx [sample_item ''i'' ''a'' 5 None]))
      (log_world empty_store) = (Inr out, w')" using page_ctx_returns by metis
  have "map_order_laws (lib_map_order (cx_lib (page_ctx [sample_item ''i'' ''a'' 5 None])))" by simp
  from delta_page_observed [OF r mem_frame_facts this] r show ?thesis by (auto simp: page_ctx_delta)
qed

theorem delta_keeps_local_knowledge_witness:
  "\<exists>out w' rs t. phase_delta_reconcile (mem_ctx (page_ctx [sample_item ''i'' ''d/a.bin'' 5 None]))
       (log_world (one_row_store (sample_row Dirty (Some synthetic_remote_side) None None))) = (Inr out, w')
     \<and> mem_entries w' (Id 1) (RelPath ''d/a.bin'')
        = Some ((sample_row Dirty (Some synthetic_remote_side) None None)\<lparr>fe_remote := rs, fe_updated_at := t\<rparr>)"
proof -
  let ?w = "log_world (one_row_store (sample_row Dirty (Some synthetic_remote_side) None None))"
  obtain out w' where r: "phase_delta_reconcile (mem_ctx (page_ctx [sample_item ''i'' ''d/a.bin'' 5 None])) ?w
      = (Inr out, w')" using page_ctx_returns by metis
  have "wf_store (mw_store ?w)"
    by (simp add: log_world_def one_row_store_def wf_store_def mem_file_entry_upsert_def empty_store_def
        wf_table_def entry_key_def Let_def)
  moreover have "mem_entries ?w (Id 1) (RelPath ''d/a.bin'')
      = Some (sample_row Dirty (Some synthetic_remote_side) None None)"
    by (simp add: one_row_entries sample_row_def)
  moreover have "map_order_laws (lib_map_order (cx_lib (page_ctx [sample_item ''i'' ''d/a.bin'' 5 None])))" by simp
  ultimately show ?thesis using delta_keeps_local_knowledge [OF r] r by blast
qed

theorem duplicate_items_ignored_witness:
  "\<exists>out w'. phase_delta_reconcile (mem_ctx (page_ctx [sample_item ''i'' ''a'' 5 None, sample_item ''j'' ''a'' 6 None]))
       (log_world empty_store) = (Inr out, w') \<and> RelPath ''a'' \<notin> d_relative_path ` set (da_decisions out)"
proof -
  let ?items = "[sample_item ''i'' ''a'' 5 None, sample_item ''j'' ''a'' 6 None]"
  obtain out w' where r: "phase_delta_reconcile (mem_ctx (page_ctx ?items)) (log_world empty_store) = (Inr out, w')"
    using page_ctx_returns by metis
  have "rel_path_from_str (\<lambda>s. s) ''a'' = Inr (RelPath ''a'')"
    by (simp add: rel_path_from_str_Inr wf_path_def starts_with_char_def MAX_PATH_BYTES_def)
  then have "page_paths ascii_lib ?items = [RelPath ''a'', RelPath ''a'']"
    by (simp add: page_paths_def map_filter_simps build_rel_path_from_item_def parent_dir_of_item_def
        sample_item_def ok_def)
  then have "2 \<le> count_list (page_paths (cx_lib (page_ctx ?items))
      (dp_items \<lparr>dp_items = ?items, dp_next_link = None, dp_delta_token = Some (DeltaCursor ''next'')\<rparr>)) (RelPath ''a'')"
    by simp
  from duplicate_items_ignored [OF r mem_frame_facts page_ctx_delta this] r show ?thesis by simp
qed

end
