(* ===== verification/Local_Phase.thy ===== *)
theory Local_Phase
  imports Delta_Phase
begin

text \<open>
  Phases 2 and 3b of a cycle (\<open>engine/cycle.rs\<close>: \<open>phase_local_uploads\<close>,
  \<open>handle_case_collision\<close>, \<open>apply_initial_sync_collisions\<close>): the local root is scanned, files
  the remote phase has not decided are queued for upload, local spellings that collide with
  a remote path are renamed, and downloads onto existing local files become conflicts.
\<close>

section \<open>A local file whose name collides with a remote one\<close>

definition collision_remote_side ::
  "remote_item path_map \<Rightarrow> rel_path \<Rightarrow> timestamp \<Rightarrow> file_side" where
  "collision_remote_side by_path remote_rel now =
     (case map_of by_path remote_rel of
        None \<Rightarrow> synthetic_remote_side
      | Some item \<Rightarrow> remote_side_from_item item now)"

text \<open>The function up to the parse of the new name, and from there on.\<close>

definition rename_local_loser ::
  "'w cycle_ctx \<Rightarrow> rel_path \<Rightarrow> file_side \<Rightarrow> rel_path \<Rightarrow> remote_item path_map \<Rightarrow> timestamp \<Rightarrow> rel_path
   \<Rightarrow> ('w, engine_error, unit) io" where
  "rename_local_loser cx local_rel local_side remote_rel by_path now loser_rel =
     (case join_abs (cx_local_root cx) local_rel of
        None \<Rightarrow> throwE (EngPort (''cannot join local_root with '' @ rel_str local_rel))
      | Some from_abs \<Rightarrow>
          (case join_abs (cx_local_root cx) loser_rel of
             None \<Rightarrow> throwE (EngPort (''cannot join local_root with '' @ rel_str loser_rel))
           | Some to_abs \<Rightarrow>
               bindE (local_call (lf_rename (cx_local cx) from_abs to_abs)) (\<lambda>_.
               let remote_side = collision_remote_side by_path remote_rel now in
               bindE (fresh_id cx) (\<lambda>cid.
               bindE (state_call (st_conflict_insert (cx_state cx)
                 \<lparr>cf_id = cid, cf_pair_id = cx_pair_id cx, cf_relative_path = remote_rel,
                  cf_winner = SideRemote, cf_loser_relative_path = loser_rel,
                  cf_local_side = local_side, cf_remote_side = remote_side,
                  cf_detected_at = now, cf_resolved_at = None, cf_resolution = None,
                  cf_note = None\<rparr>)) (\<lambda>_.
               bindE (state_call (st_file_entry_get (cx_state cx) (cx_pair_id cx) local_rel)) (\<lambda>found.
               bindE (case found of
                        None \<Rightarrow> returnE ()
                      | Some existing \<Rightarrow> state_call (st_file_entry_upsert (cx_state cx)
                          (existing\<lparr>fe_local := None, fe_sync_state := PendingConflict,
                                    fe_updated_at := now\<rparr>))) (\<lambda>_.
               bindE (fresh_id cx) (\<lambda>evid.
               emit cx (warn_event evid now ''local.case_collision.renamed'' (cx_pair_id cx)
                 (json_insert ''remote_path'' (JString (rel_str remote_rel))
                   (json_insert ''to'' (JString (rel_str loser_rel))
                     (json_insert ''from'' (JString (rel_str local_rel)) []))))))))))))"

definition handle_case_collision ::
  "'w cycle_ctx \<Rightarrow> rel_path \<Rightarrow> file_side \<Rightarrow> rel_path \<Rightarrow> remote_item path_map \<Rightarrow> ('w, engine_error, unit) io" where
  "handle_case_collision cx local_rel local_side remote_rel by_path =
     bindE (clock_now cx) (\<lambda>now.
     let rename_target_str = case_collision_rename_target (cx_lib cx) local_rel in
     case parse_rel (cx_lib cx) rename_target_str of
       Inl _ \<Rightarrow> throwE (EngPort
         (''case-collision rename produced an invalid path: '' @ rename_target_str))
     | Inr loser_rel \<Rightarrow> rename_local_loser cx local_rel local_side remote_rel by_path now loser_rel)"

section \<open>The scan\<close>

record local_outcome =
  lo_decisions :: "decision list"
  lo_events_seen :: nat
  lo_collisions_recorded :: nat
  lo_initial_collisions :: "(rel_path \<times> file_side) list"

definition needs_upload :: "file_side \<Rightarrow> file_entry option \<Rightarrow> bool" where
  "needs_upload side entry =
     (case entry of
        None \<Rightarrow> True
      | Some e \<Rightarrow> \<not> is_action_blocking (fe_sync_state e)
                  \<and> local_diverges_from_synced side (fe_synced e))"

definition upload_entry ::
  "pair_id \<Rightarrow> rel_path \<Rightarrow> file_side \<Rightarrow> file_entry option \<Rightarrow> timestamp \<Rightarrow> file_entry" where
  "upload_entry pid rp side entry now =
     \<lparr>fe_pair_id = pid, fe_relative_path = rp, fe_kind = fs_kind side,
      fe_sync_state = PendingUpload, fe_local = Some side,
      fe_remote = Option.bind entry fe_remote,
      fe_synced = Option.bind entry fe_synced,
      fe_pending_op_id = Option.bind entry fe_pending_op_id,
      fe_updated_at = now\<rparr>"

definition upload_kind :: "file_side \<Rightarrow> decision_kind" where
  "upload_kind side = (if fs_kind side = Directory then DRemoteMkdir else DUpload)"

text \<open>The end of one iteration: a path that is neither decided nor colliding.\<close>

definition queue_upload ::
  "'w cycle_ctx \<Rightarrow> rel_path \<Rightarrow> file_side \<Rightarrow> local_outcome \<Rightarrow> ('w, engine_error, local_outcome) io" where
  "queue_upload cx rp side acc =
     bindE (state_call (st_file_entry_get (cx_state cx) (cx_pair_id cx) rp)) (\<lambda>entry.
     if \<not> needs_upload side entry then returnE acc
     else
       bindE (clock_now cx) (\<lambda>now.
       bindE (state_call (st_file_entry_upsert (cx_state cx)
                (upload_entry (cx_pair_id cx) rp side entry now))) (\<lambda>_.
       returnE (acc\<lparr>lo_decisions := lo_decisions acc @
         [\<lparr>d_pair_id = cx_pair_id cx, d_relative_path = rp, d_kind = upload_kind side\<rparr>]\<rparr>))))"

definition local_entry ::
  "'w cycle_ctx \<Rightarrow> rel_path set \<Rightarrow> remote_item path_map \<Rightarrow> path_buf \<times> file_side \<Rightarrow> local_outcome
   \<Rightarrow> ('w, engine_error, local_outcome) io" where
  "local_entry cx already_decided by_path = (\<lambda>(pb, side) acc.
     (case rel_from_abs (cx_lib cx) (cx_local_root cx) pb of
        None \<Rightarrow> returnE acc
      | Some rp \<Rightarrow>
          if rp \<in> already_decided then
            returnE (case map_of by_path rp of
                       None \<Rightarrow> acc
                     | Some item \<Rightarrow>
                         if \<not> is_folder item
                         then acc\<lparr>lo_initial_collisions := lo_initial_collisions acc @ [(rp, side)]\<rparr>
                         else acc)
          else
            let acc = acc\<lparr>lo_events_seen := lo_events_seen acc + 1\<rparr> in
            (case find_case_collision (cx_lib cx) rp by_path of
               Some remote_path \<Rightarrow>
                 bindE (handle_case_collision cx rp side remote_path by_path) (\<lambda>_.
                 returnE (acc\<lparr>lo_collisions_recorded := lo_collisions_recorded acc + 1\<rparr>))
             | None \<Rightarrow> queue_upload cx rp side acc)))"

fun local_loop ::
  "'w cycle_ctx \<Rightarrow> rel_path set \<Rightarrow> remote_item path_map \<Rightarrow> (path_buf \<times> file_side) list \<Rightarrow> local_outcome
   \<Rightarrow> ('w, engine_error, local_outcome) io" where
  "local_loop cx already_decided by_path [] acc = returnE acc"
| "local_loop cx already_decided by_path (x # xs) acc =
     bindE (local_entry cx already_decided by_path x acc) (local_loop cx already_decided by_path xs)"

definition phase_local_uploads ::
  "'w cycle_ctx \<Rightarrow> rel_path set \<Rightarrow> remote_item path_map \<Rightarrow> ('w, engine_error, local_outcome) io" where
  "phase_local_uploads cx already_decided by_path =
     bindE (local_call (lf_scan (cx_local cx) (cx_local_root cx))) (\<lambda>scan.
     local_loop cx already_decided by_path (ls_entries scan)
       \<lparr>lo_decisions = [], lo_events_seen = 0, lo_collisions_recorded = 0,
        lo_initial_collisions = []\<rparr>)"

section \<open>Downloads onto existing local files\<close>

text \<open>\<open>iter_mut().find(..)\<close>: the first download of the path becomes a conflict.\<close>

fun upgrade_first :: "rel_path \<Rightarrow> decision list \<Rightarrow> (decision list \<times> bool)" where
  "upgrade_first rel [] = ([], False)"
| "upgrade_first rel (d # ds) =
     (if d_relative_path d = rel \<and> d_kind d = DDownload then (d\<lparr>d_kind := DConflictDetected\<rparr> # ds, True)
      else (case upgrade_first rel ds of (ds', b) \<Rightarrow> (d # ds', b)))"

fun collisions_loop ::
  "'w cycle_ctx \<Rightarrow> (rel_path \<times> file_side) list \<Rightarrow> decision list \<Rightarrow> nat
   \<Rightarrow> ('w, engine_error, decision list \<times> nat) io" where
  "collisions_loop cx [] decisions upgraded = returnE (decisions, upgraded)"
| "collisions_loop cx ((rel, local_side) # cs) decisions upgraded =
     (case upgrade_first rel decisions of
        (decisions, found) \<Rightarrow>
          let upgraded = (if found then upgraded + 1 else upgraded) in
          bindE (clock_now cx) (\<lambda>now.
          bindE (state_call (st_file_entry_get (cx_state cx) (cx_pair_id cx) rel)) (\<lambda>got.
          bindE (case got of
                   None \<Rightarrow> returnE ()
                 | Some entry \<Rightarrow> state_call (st_file_entry_upsert (cx_state cx)
                     (entry\<lparr>fe_local := Some local_side, fe_updated_at := now\<rparr>))) (\<lambda>_.
          collisions_loop cx cs decisions upgraded))))"

definition apply_initial_sync_collisions ::
  "'w cycle_ctx \<Rightarrow> decision list \<Rightarrow> (rel_path \<times> file_side) list
   \<Rightarrow> ('w, engine_error, decision list \<times> nat) io" where
  "apply_initial_sync_collisions cx decisions collisions = collisions_loop cx collisions decisions 0"

section \<open>What the scan does to the rows\<close>

text \<open>Read a row, write it back changed if it is there: the pattern of three functions.\<close>

definition put_changed ::
  "(pair_id \<Rightarrow> rel_path \<Rightarrow> file_entry option) \<Rightarrow> pair_id \<Rightarrow> rel_path \<Rightarrow> (file_entry \<Rightarrow> file_entry)
   \<Rightarrow> pair_id \<Rightarrow> rel_path \<Rightarrow> file_entry option" where
  "put_changed E p r f = (case E p r of None \<Rightarrow> E | Some e \<Rightarrow> upd_entry E (f e))"

context entry_view
begin

lemma hoare_framed_bind:
  assumes "frames entries m" and "\<And>x. hoare (\<lambda>w. entries w = E) (f x) Q (\<lambda>_ _. True)"
  shows "hoare (\<lambda>w. entries w = E) (bindE m f) Q (\<lambda>_ _. True)"
  by (rule hoare_bind [OF hoare_weaken [OF hoare_framed [OF assms(1)]] assms(2)]) auto

lemma hoare_framed_end:
  "frames entries m \<Longrightarrow> (\<And>x w. entries w = E \<Longrightarrow> Q x w) \<Longrightarrow> hoare (\<lambda>w. entries w = E) m Q (\<lambda>_ _. True)"
  by (auto intro: hoare_weaken [OF hoare_framed])

lemma hoare_get_bind:
  assumes "hoare (\<lambda>w. entries w = E) (f (E p r)) Q (\<lambda>_ _. True)"
  shows "hoare (\<lambda>w. entries w = E) (bindE (state_call (st_file_entry_get (cx_state cx) p r)) f) Q (\<lambda>_ _. True)"
proof (rule hoare_bind)
  show "hoare (\<lambda>w. entries w = E) (state_call (st_file_entry_get (cx_state cx) p r))
      (\<lambda>x w. x = E p r \<and> entries w = E) (\<lambda>_ _. True)"
    by (rule hoare_weaken [OF hoare_get]) auto
  fix x
  show "hoare (\<lambda>w. x = E p r \<and> entries w = E) (f x) Q (\<lambda>_ _. True)"
    using assms by (auto simp: hoare_def)
qed

lemma hoare_return_end: "(\<And>w. entries w = E \<Longrightarrow> Q x w) \<Longrightarrow> hoare (\<lambda>w. entries w = E) (returnE x) Q (\<lambda>_ _. True)"
  by (simp add: hoare_def returnE_def)

lemma hoare_upsert_bind:
  assumes "\<And>u. hoare (\<lambda>w. entries w = upd_entry E e) (f u) Q (\<lambda>_ _. True)"
  shows "hoare (\<lambda>w. entries w = E) (bindE (state_call (st_file_entry_upsert (cx_state cx) e)) f) Q (\<lambda>_ _. True)"
  by (rule hoare_bind [OF hoare_weaken [OF hoare_upsert] assms]) auto

lemma hoare_rmw:
  assumes "\<And>u. hoare (\<lambda>w. entries w = put_changed E p r g) (f u) Q (\<lambda>_ _. True)"
  shows "hoare (\<lambda>w. entries w = E)
    (bindE (state_call (st_file_entry_get (cx_state cx) p r)) (\<lambda>found.
     bindE (case found of None \<Rightarrow> returnE () | Some e \<Rightarrow> state_call (st_file_entry_upsert (cx_state cx) (g e))) f))
    Q (\<lambda>_ _. True)"
proof (rule hoare_get_bind)
  show "hoare (\<lambda>w. entries w = E)
     (bindE (case E p r of None \<Rightarrow> returnE () | Some e \<Rightarrow> state_call (st_file_entry_upsert (cx_state cx) (g e))) f)
     Q (\<lambda>_ _. True)"
  proof (cases "E p r")
    case None
    with assms show ?thesis by (auto simp: put_changed_def intro!: hoare_framed_bind frame_rules)
  next
    case (Some e)
    with assms show ?thesis by (auto simp: put_changed_def intro!: hoare_upsert_bind)
  qed
qed

lemma hoare_stop: "hoare P (throwE e) Q (\<lambda>_ _. True)"
  by (simp add: hoare_def throwE_def)

lemma hoare_rename_local_loser:
  "hoare (\<lambda>w. entries w = E) (rename_local_loser cx rp side rrel by_path now loser_rel)
     (\<lambda>_ w. entries w = put_changed E (cx_pair_id cx) rp
        (\<lambda>e. e\<lparr>fe_local := None, fe_sync_state := PendingConflict, fe_updated_at := now\<rparr>)) (\<lambda>_ _. True)"
proof (cases "join_abs (cx_local_root cx) rp")
  case None
  then show ?thesis by (simp add: rename_local_loser_def hoare_stop)
next
  case from_abs: (Some from_abs)
  show ?thesis
  proof (cases "join_abs (cx_local_root cx) loser_rel")
    case None
    with from_abs show ?thesis by (simp add: rename_local_loser_def hoare_stop)
  next
    case (Some to_abs)
    show ?thesis
      unfolding rename_local_loser_def from_abs Some option.case Let_def
      by (rule hoare_framed_bind [OF frames_local_call [OF frames_ports(3) [OF ports]]]
          hoare_framed_bind [OF frames_runtime(2) [OF ports]]
          hoare_framed_bind [OF frames_state_call [OF conflict_insert_frame]]
          hoare_rmw hoare_framed_end [OF frames_runtime(3) [OF ports]] | assumption)+
  qed
qed

lemma hoare_handle_case_collision:
  "hoare (\<lambda>w. entries w = E) (handle_case_collision cx rp side rrel by_path)
     (\<lambda>_ w. \<exists>t. entries w = put_changed E (cx_pair_id cx) rp
        (\<lambda>e. e\<lparr>fe_local := None, fe_sync_state := PendingConflict, fe_updated_at := t\<rparr>)) (\<lambda>_ _. True)"
  unfolding handle_case_collision_def Let_def
proof (rule hoare_framed_bind [OF frames_runtime(1) [OF ports]])
  fix now
  let ?L = "cx_lib cx" and ?target = "case_collision_rename_target (cx_lib cx) rp"
  let ?Q = "\<lambda>_ w. \<exists>t. entries w = put_changed E (cx_pair_id cx) rp
        (\<lambda>e. e\<lparr>fe_local := None, fe_sync_state := PendingConflict, fe_updated_at := t\<rparr>)"
  show "hoare (\<lambda>w. entries w = E) (case parse_rel ?L ?target of
       Inl _ \<Rightarrow> throwE (EngPort (''case-collision rename produced an invalid path: '' @ ?target))
     | Inr loser_rel \<Rightarrow> rename_local_loser cx rp side rrel by_path now loser_rel) ?Q (\<lambda>_ _. True)"
    by (cases "parse_rel ?L ?target") (auto intro: hoare_stop hoare_weaken [OF hoare_rename_local_loser])
qed

lemma hoare_queue_upload:
  "hoare (\<lambda>w. entries w = E) (queue_upload cx rp side acc)
     (\<lambda>acc' w. if needs_upload side (E (cx_pair_id cx) rp)
        then (\<exists>t. entries w = upd_entry E (upload_entry (cx_pair_id cx) rp side (E (cx_pair_id cx) rp) t))
             \<and> acc' = acc\<lparr>lo_decisions := lo_decisions acc @
                  [\<lparr>d_pair_id = cx_pair_id cx, d_relative_path = rp, d_kind = upload_kind side\<rparr>]\<rparr>
        else entries w = E \<and> acc' = acc) (\<lambda>_ _. True)"
  unfolding queue_upload_def
  by (rule hoare_get_bind)
     (auto intro!: hoare_framed_bind [OF framed_calls(1)] hoare_upsert_bind hoare_return_end)

end

text \<open>
  The rows before and after the scan: a row only changes on an undecided path of the pair, to
  pending upload or to a parked conflict, and keeps its remote and its synced side.
\<close>

definition scan_rows ::
  "pair_id \<Rightarrow> rel_path set \<Rightarrow> (pair_id \<Rightarrow> rel_path \<Rightarrow> file_entry option)
   \<Rightarrow> (pair_id \<Rightarrow> rel_path \<Rightarrow> file_entry option) \<Rightarrow> bool" where
  "scan_rows pid decided E E' \<longleftrightarrow>
     (\<forall>p r. E' p r = E p r
        \<or> (p = pid \<and> r \<notin> decided
            \<and> (\<exists>e. E' p r = Some e \<and> fe_remote e = Option.bind (E p r) fe_remote
                 \<and> fe_synced e = Option.bind (E p r) fe_synced
                 \<and> (fe_sync_state e = PendingUpload \<or> fe_sync_state e = PendingConflict))))"

text \<open>
  What stands behind an upload decision: a scanned file of that path, not decided by the
  remote phase and not colliding with a remote name, whose row waits for upload with a
  scanned local side.
\<close>

definition upload_backed ::
  "'w cycle_ctx \<Rightarrow> rel_path set \<Rightarrow> remote_item path_map \<Rightarrow> (path_buf \<times> file_side) set
   \<Rightarrow> (pair_id \<Rightarrow> rel_path \<Rightarrow> file_entry option) \<Rightarrow> decision \<Rightarrow> bool" where
  "upload_backed cx decided by_path S E d \<longleftrightarrow>
     (let rp = d_relative_path d;
          scanned = (\<lambda>side. \<exists>pb. (pb, side) \<in> S \<and> rel_from_abs (cx_lib cx) (cx_local_root cx) pb = Some rp)
      in d_pair_id d = cx_pair_id cx \<and> rp \<notin> decided
         \<and> find_case_collision (cx_lib cx) rp by_path = None
         \<and> (\<exists>side. scanned side \<and> d_kind d = upload_kind side)
         \<and> (\<exists>side e. scanned side \<and> E (cx_pair_id cx) rp = Some e
              \<and> fe_sync_state e = PendingUpload \<and> fe_local e = Some side))"

lemma scan_rows_refl [simp]: "scan_rows pid decided E E"
  by (simp add: scan_rows_def)

lemma scan_rows_upload:
  assumes "scan_rows pid decided E0 E" and "rp \<notin> decided"
  shows "scan_rows pid decided E0 (upd_entry E (upload_entry pid rp side (E pid rp) t))"
  unfolding scan_rows_def
proof (intro allI)
  fix p r
  have "Option.bind (E pid rp) fe_remote = Option.bind (E0 pid rp) fe_remote
      \<and> Option.bind (E pid rp) fe_synced = Option.bind (E0 pid rp) fe_synced"
    using assms(1) unfolding scan_rows_def by (metis Option.bind.simps(2))
  with assms show "upd_entry E (upload_entry pid rp side (E pid rp) t) p r = E0 p r
      \<or> (p = pid \<and> r \<notin> decided
          \<and> (\<exists>e. upd_entry E (upload_entry pid rp side (E pid rp) t) p r = Some e
               \<and> fe_remote e = Option.bind (E0 p r) fe_remote \<and> fe_synced e = Option.bind (E0 p r) fe_synced
               \<and> (fe_sync_state e = PendingUpload \<or> fe_sync_state e = PendingConflict)))"
    by (auto simp: scan_rows_def upd_entry_apply upload_entry_def)
qed

lemma put_changed_apply:
  assumes "keyed E" and "\<And>e. fe_pair_id (f e) = fe_pair_id e" and "\<And>e. fe_relative_path (f e) = fe_relative_path e"
  shows "put_changed E p r f q s = (if q = p \<and> s = r then map_option f (E p r) else E q s)"
    and "keyed (put_changed E p r f)"
  using assms by (auto simp: put_changed_def upd_entry_apply keyed_def split: option.splits)

lemma scan_rows_parked:
  assumes "scan_rows pid decided E0 E" and "rp \<notin> decided" and "keyed E"
  shows "scan_rows pid decided E0 (put_changed E pid rp
           (\<lambda>e. e\<lparr>fe_local := None, fe_sync_state := PendingConflict, fe_updated_at := t\<rparr>))"
  unfolding scan_rows_def
proof (intro allI)
  fix p r
  let ?E = "put_changed E pid rp (\<lambda>e. e\<lparr>fe_local := None, fe_sync_state := PendingConflict, fe_updated_at := t\<rparr>)"
  have b: "E pid rp = Some e \<Longrightarrow> Option.bind (E0 pid rp) fe_remote = fe_remote e
      \<and> Option.bind (E0 pid rp) fe_synced = fe_synced e" for e
    using assms(1) unfolding scan_rows_def by (metis Option.bind.simps(2) option.inject)
  have a: "?E p r = (if p = pid \<and> r = rp then map_option
      (\<lambda>e. e\<lparr>fe_local := None, fe_sync_state := PendingConflict, fe_updated_at := t\<rparr>) (E pid rp) else E p r)"
    by (rule put_changed_apply(1) [OF assms(3)]) simp_all
  show "?E p r = E0 p r
      \<or> (p = pid \<and> r \<notin> decided
          \<and> (\<exists>e. ?E p r = Some e
               \<and> fe_remote e = Option.bind (E0 p r) fe_remote \<and> fe_synced e = Option.bind (E0 p r) fe_synced
               \<and> (fe_sync_state e = PendingUpload \<or> fe_sync_state e = PendingConflict)))"
  proof (cases "p = pid \<and> r = rp")
    case False
    with a assms(1) show ?thesis unfolding scan_rows_def by (simp only: if_False)
  next
    case True
    then show ?thesis
    proof (cases "E pid rp")
      case None
      then have "E0 pid rp = None" using assms(1) unfolding scan_rows_def by (metis option.distinct(1))
      with None True a show ?thesis by simp
    next
      case (Some e)
      with True a b [OF Some] assms(2) show ?thesis by simp
    qed
  qed
qed

context entry_view
begin

abbreviation scan_inv ::
  "rel_path set \<Rightarrow> remote_item path_map \<Rightarrow> (path_buf \<times> file_side) set
   \<Rightarrow> (pair_id \<Rightarrow> rel_path \<Rightarrow> file_entry option) \<Rightarrow> local_outcome \<Rightarrow> 'w \<Rightarrow> bool" where
  "scan_inv decided by_path S E acc w \<equiv>
     keyed (entries w) \<and> scan_rows (cx_pair_id cx) decided E (entries w)
     \<and> (\<forall>d \<in> set (lo_decisions acc). upload_backed cx decided by_path S (entries w) d)"

lemma queue_upload_inv:
  assumes inv: "scan_inv decided by_path S E acc w" and x: "(pb, side) \<in> S"
    and rp: "rel_from_abs (cx_lib cx) (cx_local_root cx) pb = Some rp" "rp \<notin> decided"
      "find_case_collision (cx_lib cx) rp by_path = None"
    and run: "queue_upload cx rp side acc w = (Inr acc', w')"
  shows "scan_inv decided by_path S E acc' w'"
proof (cases "needs_upload side (entries w (cx_pair_id cx) rp)")
  case False
  then have "entries w' = entries w \<and> acc' = acc"
    using hoare_InrD [OF hoare_queue_upload refl run] by simp
  with inv show ?thesis by simp
next
  case True
  let ?pid = "cx_pair_id cx"
  obtain t where w': "entries w' = upd_entry (entries w) (upload_entry ?pid rp side (entries w ?pid rp) t)"
    and acc': "acc' = acc\<lparr>lo_decisions := lo_decisions acc @
        [\<lparr>d_pair_id = ?pid, d_relative_path = rp, d_kind = upload_kind side\<rparr>]\<rparr>"
    using hoare_InrD [OF hoare_queue_upload refl run] True by auto
  have row: "entries w' ?pid rp = Some (upload_entry ?pid rp side (entries w ?pid rp) t)"
    using w' by (simp add: upload_entry_def)
  have other: "r \<noteq> rp \<Longrightarrow> entries w' ?pid r = entries w ?pid r" for r
    using w' by (simp add: upd_entry_apply upload_entry_def)
  have "upload_backed cx decided by_path S (entries w') d" if "upload_backed cx decided by_path S (entries w) d" for d
  proof (cases "d_relative_path d = rp")
    case True
    with that row x rp(1) show ?thesis
      unfolding upload_backed_def Let_def by (fastforce simp: upload_entry_def)
  next
    case False
    with that other show ?thesis by (simp add: upload_backed_def Let_def)
  qed
  moreover have "upload_backed cx decided by_path S (entries w')
      \<lparr>d_pair_id = ?pid, d_relative_path = rp, d_kind = upload_kind side\<rparr>"
    using row x rp unfolding upload_backed_def Let_def by (fastforce simp: upload_entry_def)
  moreover have "keyed (entries w')" using inv w' by simp
  moreover have "scan_rows ?pid decided E (entries w')"
    unfolding w' by (rule scan_rows_upload) (use inv rp in auto)
  ultimately show ?thesis using inv acc' by auto
qed

lemma local_entry_inv:
  assumes inv: "scan_inv decided by_path S E acc w" and x: "x \<in> S"
    and run: "local_entry cx decided by_path x acc w = (Inr acc', w')"
  shows "scan_inv decided by_path S E acc' w'"
proof -
  obtain pb side where xp: "x = (pb, side)" by fastforce
  show ?thesis
  proof (cases "rel_from_abs (cx_lib cx) (cx_local_root cx) pb")
    case None
    with run xp inv show ?thesis by (simp add: local_entry_def returnE_def)
  next
    case (Some rp)
    consider (dec) "rp \<in> decided" | (coll) q where "rp \<notin> decided" "find_case_collision (cx_lib cx) rp by_path = Some q"
      | (up) "rp \<notin> decided" "find_case_collision (cx_lib cx) rp by_path = None" by fastforce
    then show ?thesis
    proof cases
      case dec
      with run xp Some inv show ?thesis
        by (auto simp: local_entry_def returnE_def split: option.splits if_splits)
    next
      case (coll q)
      from run obtain u where h: "handle_case_collision cx rp side q by_path w = (Inr u, w')"
        and a: "lo_decisions acc' = lo_decisions acc"
        using xp Some coll
        by (auto simp: local_entry_def Let_def bindE_def returnE_def split: prod.splits sum.splits)
      let ?f = "\<lambda>t e. e\<lparr>fe_local := None, fe_sync_state := PendingConflict, fe_updated_at := t\<rparr>"
      from hoare_InrD [OF hoare_handle_case_collision refl h]
      obtain t where w': "entries w' = put_changed (entries w) (cx_pair_id cx) rp (?f t)" by blast
      have k: "keyed (entries w)" using inv by simp
      have o: "entries w' (cx_pair_id cx) r = entries w (cx_pair_id cx) r" if "r \<noteq> rp" for r
        unfolding w' using that put_changed_apply(1) [OF k, of "?f t" "cx_pair_id cx" rp "cx_pair_id cx" r] by simp
      have "upload_backed cx decided by_path S (entries w') d"
        if "upload_backed cx decided by_path S (entries w) d" for d
      proof -
        have "d_relative_path d \<noteq> rp" using that coll(2) by (auto simp: upload_backed_def Let_def)
        with o that show ?thesis by (simp add: upload_backed_def Let_def)
      qed
      moreover have "keyed (entries w')" unfolding w' by (rule put_changed_apply(2) [OF k]) simp_all
      moreover have "scan_rows (cx_pair_id cx) decided E (entries w')"
        unfolding w' by (rule scan_rows_parked) (use inv coll in auto)
      ultimately show ?thesis using inv a by auto
    next
      case up
      then have "queue_upload cx rp side (acc\<lparr>lo_events_seen := lo_events_seen acc + 1\<rparr>) w = (Inr acc', w')"
        using run xp Some by (simp add: local_entry_def Let_def)
      then show ?thesis
        by (rule queue_upload_inv [rotated -1]) (use inv x xp Some up in auto)
    qed
  qed
qed

lemma local_loop_inv:
  "local_loop cx decided by_path xs acc w = (Inr acc', w') \<Longrightarrow> set xs \<subseteq> S \<Longrightarrow>
     scan_inv decided by_path S E acc w \<Longrightarrow> scan_inv decided by_path S E acc' w'"
proof (induction xs arbitrary: acc w)
  case Nil
  then show ?case by (simp add: returnE_def)
next
  case (Cons x xs)
  obtain acc1 w1 where one: "local_entry cx decided by_path x acc w = (Inr acc1, w1)"
    and rest: "local_loop cx decided by_path xs acc1 w1 = (Inr acc', w')"
    using Cons.prems(1) unfolding local_loop.simps by (rule bindE_InrE)
  have "scan_inv decided by_path S E acc1 w1"
    by (rule local_entry_inv [OF _ _ one]) (use Cons.prems in auto)
  with Cons.IH [OF rest] Cons.prems(2) show ?case by simp
qed

end

text \<open>
  C6: The local scan only adds uploads, and backs each with a row: every decision of the scan
  is an upload or a remote directory for a scanned file whose path the remote phase has not
  decided and that collides with no remote name, and its row is pending upload with a
  scanned local side.  A row that changes at all keeps its remote and its synced side and is
  then pending upload or a parked conflict; decided paths and other pairs are not touched.
\<close>
theorem scan_queues_backed_uploads:
  assumes "phase_local_uploads (mem_ctx c) decided by_path w = (Inr out, w')" and "wf_store (mw_store w)"
  shows "\<exists>scan x. lf_scan (cx_local c) (cx_local_root c) (mw_ext w) = (Inr scan, x)
    \<and> scan_rows (cx_pair_id c) decided (mem_entries w) (mem_entries w')
    \<and> (\<forall>d \<in> set (lo_decisions out).
         upload_backed (mem_ctx c) decided by_path (set (ls_entries scan)) (mem_entries w') d)"
proof -
  obtain scan w1 where s: "local_call (lf_scan (cx_local (mem_ctx c)) (cx_local_root (mem_ctx c))) w = (Inr scan, w1)"
    and l: "local_loop (mem_ctx c) decided by_path (ls_entries scan)
       \<lparr>lo_decisions = [], lo_events_seen = 0, lo_collisions_recorded = 0, lo_initial_collisions = []\<rparr> w1 = (Inr out, w')"
    using assms(1) unfolding phase_local_uploads_def by (rule bindE_InrE)
  have e: "mem_entries w1 = mem_entries w"
    using framesD [OF frames_local_call [OF frames_ports(2) [OF mem.ports]] s] .
  have "keyed (mem_entries w)" using assms(2) by (rule keyed_mem_entries)
  then have "keyed (mem_entries w') \<and> scan_rows (cx_pair_id (mem_ctx c)) decided (mem_entries w) (mem_entries w')
      \<and> (\<forall>d \<in> set (lo_decisions out).
         upload_backed (mem_ctx c) decided by_path (set (ls_entries scan)) (mem_entries w') d)"
    by (intro mem.local_loop_inv [OF l subset_refl]) (simp add: e)
  moreover from s have "\<exists>x. lf_scan (cx_local c) (cx_local_root c) (mw_ext w) = (Inr scan, x)"
    by (auto simp: local_call_def map_errE_def ext_local_def on_ext_def split: prod.splits sum.splits)
  ultimately show ?thesis by auto
qed

definition scan_ctx :: "(path_buf \<times> file_side) list \<Rightarrow> call_log cycle_ctx" where
  "scan_ctx es = log_ctx\<lparr>cx_local := (log_fs [7])\<lparr>lf_scan := (\<lambda>p w.
     (Inr \<lparr>ls_entries = es, ls_symlinks_skipped = []\<rparr>, w))\<rparr>\<rparr>"

theorem scan_queues_backed_uploads_witness:
  "\<exists>out w'. phase_local_uploads (mem_ctx (scan_ctx [(PathBuf ''/r/a'', synthetic_remote_side)])) {} []
       (log_world empty_store) = (Inr out, w')
     \<and> lo_decisions out = [\<lparr>d_pair_id = Id 1, d_relative_path = RelPath ''a'', d_kind = DUpload\<rparr>]
     \<and> upload_backed (mem_ctx (scan_ctx [(PathBuf ''/r/a'', synthetic_remote_side)])) {} []
         {(PathBuf ''/r/a'', synthetic_remote_side)} (mem_entries w') (hd (lo_decisions out))"
proof -
  let ?es = "[(PathBuf ''/r/a'', synthetic_remote_side)]"
  let ?c = "scan_ctx ?es"
  have p: "parse_rel ascii_lib ''a'' = Inr (RelPath ''a'')"
    by (simp add: rel_path_from_str_Inr wf_path_def starts_with_char_def MAX_PATH_BYTES_def)
  have "is_ascii ''/r/a''" by simp
  then have rp: "rel_from_abs ascii_lib (AbsPath ''/r'') (PathBuf ''/r/a'') = Some (RelPath ''a'')"
    using p by (simp add: rel_from_abs_def path_to_str_ascii trim_start_def ok_def del: path_to_str.simps)
  have f: "find_case_collision ascii_lib (RelPath ''a'') ([] :: remote_item path_map) = None"
    by (simp add: find_case_collision_def ascii_lib_def)
  have c: "cx_lib ?c = ascii_lib" "cx_local_root ?c = AbsPath ''/r''" "cx_pair_id ?c = Id 1"
    by (simp_all add: scan_ctx_def log_ctx_def)
  have s: "lf_scan (cx_local ?c) (cx_local_root ?c) x = (Inr \<lparr>ls_entries = ?es, ls_symlinks_skipped = []\<rparr>, x)" for x
    by (simp add: scan_ctx_def)
  have k: "upload_kind synthetic_remote_side = DUpload"
    by (simp add: upload_kind_def synthetic_remote_side_def)
  obtain out w' where r: "phase_local_uploads (mem_ctx ?c) {} [] (log_world empty_store) = (Inr out, w')"
    and d: "lo_decisions out = [\<lparr>d_pair_id = Id 1, d_relative_path = RelPath ''a'', d_kind = DUpload\<rparr>]"
    using s c rp f k
    by (simp add: phase_local_uploads_def io_simps local_call_def ext_local_def on_ext_def local_entry_def
        Let_def queue_upload_def state_call_def mem_calls needs_upload_def clock_now_def
        mem_entries_empty)
  from scan_queues_backed_uploads [OF r mem_frame_facts] s d r show ?thesis by auto
qed

section \<open>Downloads that become conflicts\<close>

definition upgraded :: "rel_path set \<Rightarrow> decision \<Rightarrow> decision" where
  "upgraded P d = (if d_relative_path d \<in> P \<and> d_kind d = DDownload then d\<lparr>d_kind := DConflictDetected\<rparr> else d)"

lemma upgraded_path [simp]: "d_relative_path (upgraded P d) = d_relative_path d"
  by (simp add: upgraded_def)

lemma distinct_map_ConsD: "distinct (map f (x # xs)) \<Longrightarrow> f x = y \<Longrightarrow> z \<in> set xs \<Longrightarrow> f z \<noteq> y"
  by auto (metis imageI)

lemma upgrade_first_spec:
  assumes "distinct (map d_relative_path ds)"
  shows "upgrade_first rel ds = (map (upgraded {rel}) ds, \<exists>d \<in> set ds. d_relative_path d = rel \<and> d_kind d = DDownload)"
  using assms
proof (induction rel ds rule: upgrade_first.induct)
  case (2 rel d ds)
  show ?case
  proof (cases "d_relative_path d = rel \<and> d_kind d = DDownload")
    case True
    with distinct_map_ConsD [OF 2(2)] have "\<forall>x \<in> set ds. d_relative_path x \<noteq> rel" by blast
    then have "map (upgraded {rel}) ds = ds" by (intro map_idI) (auto simp: upgraded_def)
    with True show ?thesis by (auto simp: upgraded_def [of "{rel}" d])
  next
    case False
    with 2 show ?thesis by (auto simp: upgraded_def)
  qed
qed simp

lemma upgraded_twice: "upgraded P (upgraded Q d) = upgraded (P \<union> Q) d"
  by (simp add: upgraded_def)

lemma collisions_loop_spec:
  "collisions_loop cx cs ds n w = (Inr (ds', m), w') \<Longrightarrow> distinct (map d_relative_path ds) \<Longrightarrow>
     ds' = map (upgraded (fst ` set cs)) ds
     \<and> m + length (filter (\<lambda>d. d_kind d = DDownload) ds') = n + length (filter (\<lambda>d. d_kind d = DDownload) ds)"
proof (induction cx cs ds n arbitrary: w rule: collisions_loop.induct)
  case (1 cx decisions n)
  then show ?case by (auto simp: returnE_def upgraded_def)
next
  case (2 cx rel side cs ds n)
  let ?ds = "map (upgraded {rel}) ds"
  let ?hit = "\<exists>d \<in> set ds. d_relative_path d = rel \<and> d_kind d = DDownload"
  have up: "upgrade_first rel ds = (?ds, ?hit)" using upgrade_first_spec [OF 2(3)] .
  have dist: "distinct (map d_relative_path ?ds)" using 2(3) by (simp add: comp_def)
  have cnt: "(if ?hit then n + 1 else n) + length (filter (\<lambda>d. d_kind d = DDownload) ?ds)
      = n + length (filter (\<lambda>d. d_kind d = DDownload) ds)"
    using 2(3)
  proof (induction ds)
    case (Cons d ds)
    have "d_relative_path d = rel \<Longrightarrow> \<not> (\<exists>x \<in> set ds. d_relative_path x = rel)"
      using distinct_map_ConsD [OF Cons.prems] by blast
    with Cons show ?case by (auto simp: upgraded_def split: if_splits)
  qed simp
  from 2(2) obtain w1 where l: "collisions_loop cx cs ?ds (if ?hit then n + 1 else n) w1 = (Inr (ds', m), w')"
    unfolding collisions_loop.simps up prod.case Let_def by (elim bindE_InrE) blast
  from 2(1) [OF up [symmetric] refl l dist] cnt show ?case
    by (auto simp: upgraded_twice comp_def insert_commute)
qed

text \<open>
  Initial-sync collisions turn downloads into conflicts and nothing else: with one
  decision per path, exactly the downloads of the colliding paths become detected conflicts,
  every other decision and the order stay, and the count returned is the number upgraded.
\<close>
theorem initial_collisions_upgrade_downloads:
  assumes "apply_initial_sync_collisions cx ds cs w = (Inr (ds', n), w')" and "distinct (map d_relative_path ds)"
  shows "ds' = map (upgraded (fst ` set cs)) ds
    \<and> n = length (filter (\<lambda>d. d_relative_path d \<in> fst ` set cs \<and> d_kind d = DDownload) ds)"
proof -
  have l: "collisions_loop cx cs ds 0 w = (Inr (ds', n), w')"
    using assms(1) by (simp add: apply_initial_sync_collisions_def)
  from collisions_loop_spec [OF l assms(2)]
  have d: "ds' = map (upgraded (fst ` set cs)) ds"
    and m: "n + length (filter (\<lambda>d. d_kind d = DDownload) ds') = length (filter (\<lambda>d. d_kind d = DDownload) ds)"
    by auto
  have split: "length (filter (\<lambda>d. d_relative_path d \<in> P \<and> d_kind d = DDownload) ds)
      + length (filter (\<lambda>d. d_kind d = DDownload) (map (upgraded P) ds))
      = length (filter (\<lambda>d. d_kind d = DDownload) ds)" for P
    by (induction ds) (auto simp: upgraded_def)
  from split [of "fst ` set cs"] d m show ?thesis by simp
qed

theorem initial_collisions_upgrade_downloads_witness:
  "\<exists>ds' n w'. apply_initial_sync_collisions (mem_ctx log_ctx)
       [\<lparr>d_pair_id = Id 1, d_relative_path = RelPath ''a'', d_kind = DDownload\<rparr>]
       [(RelPath ''a'', synthetic_remote_side)] (log_world empty_store) = (Inr (ds', n), w')
     \<and> map d_kind ds' = [DConflictDetected] \<and> n = 1"
proof -
  let ?ds = "[\<lparr>d_pair_id = Id 1, d_relative_path = RelPath ''a'', d_kind = DDownload\<rparr>]"
  let ?cs = "[(RelPath ''a'', synthetic_remote_side)]"
  obtain ds' n w' where r: "apply_initial_sync_collisions (mem_ctx log_ctx) ?ds ?cs (log_world empty_store)
      = (Inr (ds', n), w')"
    by (simp add: apply_initial_sync_collisions_def io_simps clock_now_def state_call_def mem_calls
        mem_entries_empty)
  have "distinct (map d_relative_path ?ds)" by simp
  from initial_collisions_upgrade_downloads [OF r this] r show ?thesis by (simp add: upgraded_def)
qed

end
