(* ===== verification/Execute_Phase.thy ===== *)
theory Execute_Phase
  imports Mem_Store
begin

text \<open>
  Phase 5 of a cycle (\<open>engine/cycle.rs\<close>: \<open>phase_execute\<close>, \<open>update_file_entry_post_op\<close>,
  \<open>emit_op_state_failure\<close>): every planned operation is recorded, executed with retries, its
  status written back and its file entry brought up to date.

  The inner loop of \<open>phase_execute\<close> is \<open>attempt_loop\<close>, recursive in the number of the
  attempt; it ends because the retry budget runs out at the fifth.
\<close>

section \<open>Failures of the store and the row of an operation\<close>

definition emit_op_failed :: "'w cycle_ctx \<Rightarrow> file_op \<Rightarrow> string \<Rightarrow> ('w, engine_error, unit) io" where
  "emit_op_failed cx op reason =
     bindE (fresh_id cx) (\<lambda>fail_id.
     bindE (clock_now cx) (\<lambda>ts.
     emit cx (op_failed fail_id ts (cx_pair_id cx) (rel_str (op_relative_path op)) reason)))"

definition emit_op_state_failure ::
  "'w cycle_ctx \<Rightarrow> file_op \<Rightarrow> string \<Rightarrow> state_error \<Rightarrow> ('w, engine_error, unit) io" where
  "emit_op_state_failure cx op context error =
     emit_op_failed cx op (context @ '': '' @ state_error_display error)"

definition mkdir_synced_side :: "timestamp \<Rightarrow> file_side" where
  "mkdir_synced_side now =
     \<lparr>fs_kind = Directory, fs_size_bytes = 0, fs_content_hash = None, fs_mtime = now,
      fs_etag = None, fs_remote_item_id = None\<rparr>"

fun new_synced_side :: "file_op_kind \<Rightarrow> file_entry \<Rightarrow> timestamp \<Rightarrow> file_side option" where
  "new_synced_side Upload entry now = fe_local entry"
| "new_synced_side Download entry now = fe_remote entry"
| "new_synced_side LocalMkdir entry now = Some (mkdir_synced_side now)"
| "new_synced_side RemoteMkdir entry now = Some (mkdir_synced_side now)"
| "new_synced_side LocalDelete entry now = None"
| "new_synced_side RemoteDelete entry now = None"
| "new_synced_side LocalRename entry now = fe_synced entry"
| "new_synced_side RemoteRename entry now = fe_synced entry"

definition post_op_entry :: "file_op_kind \<Rightarrow> file_entry \<Rightarrow> timestamp \<Rightarrow> file_entry" where
  "post_op_entry kind entry now =
     entry\<lparr>fe_synced := new_synced_side kind entry now, fe_sync_state := Clean,
           fe_pending_op_id := None, fe_updated_at := now\<rparr>"

definition from_conflict :: "file_op \<Rightarrow> bool" where
  "from_conflict op \<longleftrightarrow> json_get_bool (op_metadata op) ''from_conflict'' = Some True"

definition update_file_entry_post_op :: "'w cycle_ctx \<Rightarrow> file_op \<Rightarrow> ('w, engine_error, unit) io" where
  "update_file_entry_post_op cx op =
     (if from_conflict op then returnE ()
      else
        bindE (state_call (st_file_entry_get (cx_state cx) (op_pair_id op) (op_relative_path op))) (\<lambda>found.
        case found of
          None \<Rightarrow> returnE ()
        | Some entry \<Rightarrow>
            bindE (clock_now cx) (\<lambda>now.
            state_call (st_file_entry_upsert (cx_state cx) (post_op_entry (op_kind op) entry now)))))"

section \<open>The loop over attempts and the loop over operations\<close>

text \<open>A status write whose failure is only logged.\<close>

definition write_status ::
  "'w cycle_ctx \<Rightarrow> file_op \<Rightarrow> file_op_status \<Rightarrow> string \<Rightarrow> ('w, engine_error, unit) io" where
  "write_status cx op status context =
     bindE (tryE (st_op_update_status (cx_state cx) (op_id op) status (op_attempts op))) (\<lambda>r.
     case r of
       Inl e \<Rightarrow> emit_op_state_failure cx op context e
     | Inr _ \<Rightarrow> returnE ())"

definition sleep_ms :: "'w cycle_ctx \<Rightarrow> nat \<Rightarrow> ('w, 'e, unit) io" where
  "sleep_ms cx n = modifyE (rt_sleep_ms (cx_runtime cx) n)"

text \<open>The branch for \<open>Ok(status)\<close>: whether the operation counts as applied.\<close>

definition finish_executed :: "'w cycle_ctx \<Rightarrow> file_op \<Rightarrow> file_op_status \<Rightarrow> ('w, engine_error, bool) io" where
  "finish_executed cx op status =
     bindE (write_status cx op status ''op_update_status(success path)'') (\<lambda>_.
     if status = Success then
       bindE (tryE (update_file_entry_post_op cx op)) (\<lambda>r.
       bindE (case r of
                Inl e \<Rightarrow> emit_op_failed cx op (''post-op update: '' @ engine_error_display e)
              | Inr _ \<Rightarrow> returnE ()) (\<lambda>_.
       returnE True))
     else returnE False)"

definition finish_failed :: "'w cycle_ctx \<Rightarrow> file_op \<Rightarrow> exec_error \<Rightarrow> ('w, engine_error, bool) io" where
  "finish_failed cx op e =
     bindE (write_status cx op Failed ''op_update_status(error path)'') (\<lambda>_.
     bindE (emit_op_failed cx op (exec_error_display e)) (\<lambda>_.
     returnE False))"

definition throttle_pause :: "'w cycle_ctx \<Rightarrow> exec_error \<Rightarrow> ('w, engine_error, unit) io" where
  "throttle_pause cx e =
     (case e of
        ExRemote (GeThrottled retry_after_s) \<Rightarrow> sleep_ms cx (retry_after_s * 1000)
      | _ \<Rightarrow> returnE ())"

definition backoff_pause :: "'w cycle_ctx \<Rightarrow> retry_step \<Rightarrow> ('w, engine_error, unit) io" where
  "backoff_pause cx d = (case d of RetryBackoff delay_ms \<Rightarrow> sleep_ms cx delay_ms | _ \<Rightarrow> returnE ())"

function attempt_loop :: "'w cycle_ctx \<Rightarrow> file_op \<Rightarrow> nat \<Rightarrow> ('w, engine_error, bool) io" where
  "attempt_loop cx op attempt =
     bindE (liftE (random_jitter (cx_runtime cx) attempt)) (\<lambda>jitter.
     let d = retry_decision attempt jitter in
     if d = RetryExhausted then
       bindE (write_status cx op Failed ''op_update_status(Failed)'') (\<lambda>_. returnE False)
     else
       bindE (backoff_pause cx d) (\<lambda>_.
       let op = op\<lparr>op_attempts := attempt + 1\<rparr> in
       bindE (tryE (execute (cx_lib cx) op (cx_local_root cx) (cx_local cx) (cx_remote cx))) (\<lambda>r.
       case r of
         Inr status \<Rightarrow> finish_executed cx op status
       | Inl e \<Rightarrow>
           if is_retriable e then
             bindE (throttle_pause cx e) (\<lambda>_. attempt_loop cx op (attempt + 1))
           else finish_failed cx op e)))"
  by pat_completeness auto

termination
  by (relation "measure (\<lambda>(cx, op, attempt). RETRY_MAX_ATTEMPTS - attempt)")
     (auto simp: not_le)

declare attempt_loop.simps [simp del]

text \<open>Induction over the attempts that are left.\<close>

lemma attempt_induct [case_names 1]:
  assumes "\<And>op n. (\<And>op'. \<not> RETRY_MAX_ATTEMPTS \<le> n \<Longrightarrow> P op' (Suc n)) \<Longrightarrow> P op n"
  shows "P op n"
proof (induction "RETRY_MAX_ATTEMPTS - n" arbitrary: op n rule: less_induct)
  case less
  show ?case
  proof (rule assms)
    fix op'
    assume "\<not> RETRY_MAX_ATTEMPTS \<le> n"
    then show "P op' (Suc n)" by (intro less) simp
  qed
qed

definition run_op :: "'w cycle_ctx \<Rightarrow> file_op \<Rightarrow> ('w, engine_error, bool) io" where
  "run_op cx op =
     bindE (tryE (st_op_insert (cx_state cx) op)) (\<lambda>r.
     case r of
       Inl e \<Rightarrow> bindE (emit_op_state_failure cx op ''op_insert'' e) (\<lambda>_. returnE False)
     | Inr _ \<Rightarrow> attempt_loop cx op 0)"

fun op_loop :: "'w cycle_ctx \<Rightarrow> file_op list \<Rightarrow> nat \<Rightarrow> nat \<Rightarrow> ('w, engine_error, nat \<times> nat) io" where
  "op_loop cx [] applied failed = returnE (applied, failed)"
| "op_loop cx (op # ops) applied failed =
     bindE (run_op cx op) (\<lambda>ok.
     if ok then op_loop cx ops (applied + 1) failed
     else op_loop cx ops applied (failed + 1))"

text \<open>The pair is \<open>ExecuteCounts\<close>: applied and failed.\<close>

definition phase_execute :: "'w cycle_ctx \<Rightarrow> file_op list \<Rightarrow> ('w, engine_error, nat \<times> nat) io" where
  "phase_execute cx ops = op_loop cx ops 0 0"

section \<open>The phase always ends and accounts for every operation\<close>

lemma sure_sleep [sure_rules]: "sure (sleep_ms cx n) (\<lambda>_. True)"
  by (simp add: sleep_ms_def sure_rules)

lemma sure_emit_op_failed [sure_rules]: "sure (emit_op_failed cx op s) (\<lambda>_. True)"
  unfolding emit_op_failed_def by (intro sure_rules)

lemma sure_emit_op_state_failure [sure_rules]: "sure (emit_op_state_failure cx op s e) (\<lambda>_. True)"
  unfolding emit_op_state_failure_def by (intro sure_rules)

lemma sure_write_status [sure_rules]: "sure (write_status cx op st s) (\<lambda>_. True)"
  unfolding write_status_def by (intro sure_rules) (auto split: sum.split intro!: sure_rules)

lemma sure_pauses [sure_rules]:
  "sure (throttle_pause cx e) (\<lambda>_. True)" "sure (backoff_pause cx d) (\<lambda>_. True)"
  unfolding throttle_pause_def backoff_pause_def
  by (auto split: exec_error.split graph_error.split retry_step.split intro!: sure_rules)

lemma sure_finish [sure_rules]:
  "sure (finish_executed cx op st) (\<lambda>_. True)" "sure (finish_failed cx op e) (\<lambda>_. True)"
  unfolding finish_executed_def finish_failed_def
  by (auto intro!: sure_rules split: sum.split)

lemma sure_attempt_loop: "sure (attempt_loop cx op n) (\<lambda>_. True)"
proof (induction op n rule: attempt_induct)
  case (1 op attempt)
  then show ?case
    unfolding attempt_loop.simps [of cx op attempt] Let_def
    by (auto intro!: sure_rules split: sum.split)
qed

lemma sure_run_op [sure_rules]: "sure (run_op cx op) (\<lambda>_. True)"
  unfolding run_op_def by (intro sure_rules) (auto split: sum.split intro!: sure_rules sure_attempt_loop)

lemma sure_op_loop: "sure (op_loop cx ops a f) (\<lambda>(a', f'). a' + f' = a + f + length ops)"
proof (induction cx ops a f rule: op_loop.induct)
  case (1 cx applied failed)
  show ?case by (simp add: sure_rules)
next
  case (2 cx op ops applied failed)
  have "sure (if ok then op_loop cx ops (applied + 1) failed else op_loop cx ops applied (failed + 1))
    (\<lambda>(a', f'). a' + f' = applied + failed + length (op # ops))" for ok
    using sure_weaken [OF "2.IH"(1)] sure_weaken [OF "2.IH"(2)] by (cases ok) fastforce+
  then show ?case by (simp only: op_loop.simps) (rule sure_bind_any [OF sure_run_op])
qed

text \<open>
  C2: The execute phase always completes: whatever the ports do, however often they fail and
  even if every write to the store fails, it returns counts, never an error, and each
  planned operation is counted exactly once as applied or failed.
\<close>
theorem phase_execute_accounts:
  "\<exists>applied failed w'. phase_execute cx ops w = (Inr (applied, failed), w')
     \<and> applied + failed = length ops"
  using sure_op_loop [of cx ops 0 0] by (fastforce simp: phase_execute_def sure_def)

section \<open>Inserts that fail\<close>

text \<open>
  An operation whose insert into the store fails is never executed: if the store refuses
  every insert, all operations count as failed and the outcome does not depend on the local
  file system or the remote drive at all.
\<close>
theorem refused_inserts_execute_nothing:
  assumes "\<And>op w. \<exists>e w'. st_op_insert (cx_state cx) op w = (Inl e, w')"
  shows "(\<exists>w'. phase_execute cx ops w = (Inr (0, length ops), w'))
    \<and> phase_execute (cx\<lparr>cx_local := fs, cx_remote := rd\<rparr>) ops w = phase_execute cx ops w"
proof -
  have one: "(\<exists>w'. run_op cx op w = (Inr False, w'))
    \<and> run_op (cx\<lparr>cx_local := fs, cx_remote := rd\<rparr>) op w = run_op cx op w" for op w
  proof -
    obtain e w1 where i: "st_op_insert (cx_state cx) op w = (Inl e, w1)" using assms by blast
    obtain x w2 where "emit_op_state_failure cx op ''op_insert'' e w1 = (Inr x, w2)"
      using sure_emit_op_state_failure [of cx op "''op_insert''" e] by (auto simp: sure_def)
    moreover have "emit_op_state_failure (cx\<lparr>cx_local := fs, cx_remote := rd\<rparr>) op ''op_insert'' e
        = emit_op_state_failure cx op ''op_insert'' e"
      by (simp add: emit_op_state_failure_def emit_op_failed_def port_call_defs)
    ultimately show ?thesis
      by (simp add: run_op_def io_simps i)
  qed
  have "(\<exists>w'. op_loop cx ops a f w = (Inr (a, f + length ops), w'))
    \<and> op_loop (cx\<lparr>cx_local := fs, cx_remote := rd\<rparr>) ops a f w = op_loop cx ops a f w" for a f
  proof (induction ops arbitrary: a f w)
    case Nil
    show ?case by (simp add: returnE_def)
  next
    case (Cons op ops)
    obtain w1 where "run_op cx op w = (Inr False, w1)" using one [of op w] by blast
    with one [of op w] Cons.IH [of a "f + 1" w1] show ?case by (simp add: bindE_def)
  qed
  from this [of 0 0] show ?thesis by (simp add: phase_execute_def)
qed

section \<open>What the phase leaves in a store\<close>

text \<open>Rules for invariants: the helpers keep whatever the ports they call keep.\<close>

lemma frames_sleep [frame_rules]: "ports_frame v cx \<Longrightarrow> frames v (sleep_ms cx n)"
  by (auto simp: sleep_ms_def ports_frame_def intro!: frame_rules)

lemma frames_pauses [frame_rules]:
  assumes "ports_frame v cx"
  shows "frames v (throttle_pause cx e)" and "frames v (backoff_pause cx d)"
  using frames_sleep [OF assms]
  by (auto simp: throttle_pause_def backoff_pause_def frame_rules
      split: exec_error.split graph_error.split retry_step.split)

lemma frames_emit_op_failed [frame_rules]:
  "ports_frame v cx \<Longrightarrow> frames v (emit_op_failed cx op s)"
  unfolding emit_op_failed_def by (intro frame_rules)

lemma frames_emit_op_state_failure [frame_rules]:
  "ports_frame v cx \<Longrightarrow> frames v (emit_op_state_failure cx op s e)"
  unfolding emit_op_state_failure_def by (intro frame_rules)

lemma frames_random_jitter:
  "ports_frame v cx \<Longrightarrow> frames_step v (random_jitter (cx_runtime cx) n)"
  unfolding ports_frame_def frames_step_def random_jitter_def
  by (auto split: prod.split option.split) (metis snd_conv)+

lemma frames_post_op:
  assumes "ports_frame v cx" and "\<And>p r. frames v (st_file_entry_get (cx_state cx) p r)"
    and "\<And>e. frames v (st_file_entry_upsert (cx_state cx) e)"
  shows "frames v (update_file_entry_post_op cx op)"
  unfolding update_file_entry_post_op_def
  using assms by (intro frame_rules) auto

definition settled :: "file_op \<Rightarrow> file_op_status \<Rightarrow> nat \<Rightarrow> file_op" where
  "settled row st n = row\<lparr>op_status := st, op_attempts := n\<rparr>"

context op_view
begin

lemmas ov_framed =
  frames_runtime [OF ov_ports] frames_execute [OF ov_ports] frames_sleep [OF ov_ports]
  frames_pauses [OF ov_ports] frames_emit_op_failed [OF ov_ports]
  frames_emit_op_state_failure [OF ov_ports] frames_lift [OF frames_random_jitter [OF ov_ports]]
  frames_post_op [OF ov_ports ov_entry_get_frame ov_entry_upsert_frame]

lemma ov_hoare: "frames ops m \<Longrightarrow> hoare (\<lambda>w. ops w = E) m (\<lambda>_ w. ops w = E) (\<lambda>_ w. ops w = E)"
  by (auto intro!: hoareI dest: framesD)

end

context reliable_op_view
begin

lemma hoare_write_status:
  assumes "E (op_id op) = Some row"
  shows "hoare (\<lambda>w. ops w = E) (write_status cx op st msg)
     (\<lambda>_ w. ops w = E(op_id op := Some (settled row st (op_attempts op)))) (\<lambda>_ _. False)"
proof (rule hoareI)
  fix w e w'
  assume "write_status cx op st msg w = (Inl e, w')"
  with sure_write_status [of cx op st msg] show False
    unfolding sure_def by (metis Inl_Inr_False prod.inject)
next
  fix w x w'
  assume w: "ops w = E" "write_status cx op st msg w = (Inr x, w')"
  obtain w1 where u: "st_op_update_status (cx_state cx) (op_id op) st (op_attempts op) w = (Inr (), w1)"
    using update_succeeds by blast
  with w(2) have "w' = w1" by (simp add: write_status_def io_simps)
  with ov_update_ok [OF u] w(1) assms show "ops w' = E(op_id op := Some (settled row st (op_attempts op)))"
    by (simp add: settled_def)
qed

lemma hoare_finish_executed:
  assumes "E (op_id op) = Some row"
  shows "hoare (\<lambda>w. ops w = E) (finish_executed cx op Success)
     (\<lambda>b w. b \<and> ops w = E(op_id op := Some (settled row Success (op_attempts op)))) (\<lambda>_ _. True)"
  unfolding finish_executed_def
proof (simp, rule hoare_bind)
  let ?E = "E(op_id op := Some (settled row Success (op_attempts op)))"
  show "hoare (\<lambda>w. ops w = E) (write_status cx op Success ''op_update_status(success path)'')
    (\<lambda>_ w. ops w = ?E) (\<lambda>_ _. True)"
    by (rule hoare_weaken [OF hoare_write_status [where E = E and op = op, OF assms]]) auto
  fix u
  show "hoare (\<lambda>w. ops w = ?E)
    (bindE (tryE (update_file_entry_post_op cx op)) (\<lambda>r. bindE (case r of
        Inl e \<Rightarrow> emit_op_failed cx op (''post-op update: '' @ engine_error_display e)
      | Inr _ \<Rightarrow> returnE ()) (\<lambda>_. returnE True)))
    (\<lambda>b w. b \<and> ops w = ?E) (\<lambda>_ _. True)"
  proof (rule hoare_bind)
    show "hoare (\<lambda>w. ops w = ?E) (tryE (update_file_entry_post_op cx op)) (\<lambda>_ w. ops w = ?E) (\<lambda>_ _. True)"
      by (rule hoare_weaken [OF ov_hoare [OF frames_try [OF frames_post_op [OF ov_ports ov_entry_get_frame ov_entry_upsert_frame]]]]) auto
  next
    fix r
    let ?log = "case r of
        Inl e \<Rightarrow> emit_op_failed cx op (''post-op update: '' @ engine_error_display e)
      | Inr _ \<Rightarrow> returnE ()"
    have "frames ops ?log" by (cases r) (auto intro: ov_framed frame_rules)
    then show "hoare (\<lambda>w. ops w = ?E) (bindE ?log (\<lambda>_. returnE True)) (\<lambda>b w. b \<and> ops w = ?E) (\<lambda>_ _. True)"
      by (auto intro!: hoareI simp: bindE_def returnE_def split: prod.splits sum.splits dest: framesD)
  qed
qed

lemma hoare_finish_failed:
  assumes "E (op_id op) = Some row"
  shows "hoare (\<lambda>w. ops w = E) (finish_failed cx op e)
     (\<lambda>b w. \<not> b \<and> ops w = E(op_id op := Some (settled row Failed (op_attempts op)))) (\<lambda>_ _. True)"
  unfolding finish_failed_def
proof (rule hoare_bind)
  let ?E = "E(op_id op := Some (settled row Failed (op_attempts op)))"
  show "hoare (\<lambda>w. ops w = E) (write_status cx op Failed ''op_update_status(error path)'')
    (\<lambda>_ w. ops w = ?E) (\<lambda>_ _. True)"
    by (rule hoare_weaken [OF hoare_write_status [where E = E and op = op, OF assms]]) auto
  fix u
  show "hoare (\<lambda>w. ops w = ?E) (bindE (emit_op_failed cx op (exec_error_display e)) (\<lambda>_. returnE False))
    (\<lambda>b w. \<not> b \<and> ops w = ?E) (\<lambda>_ _. True)"
    using frames_emit_op_failed [OF ov_ports, of op "exec_error_display e"]
    by (auto intro!: hoareI simp: bindE_def returnE_def split: prod.splits sum.splits dest: framesD)
qed

lemma hoare_exhausted:
  assumes "E (op_id op) = Some row" and "op_attempts op = RETRY_MAX_ATTEMPTS"
  shows "hoare (\<lambda>w. ops w = E)
     (bindE (write_status cx op Failed ''op_update_status(Failed)'') (\<lambda>_. returnE False))
     (\<lambda>b w. \<not> b \<and> ops w = E(op_id op := Some (settled row Failed RETRY_MAX_ATTEMPTS))) (\<lambda>_ _. True)"
proof (rule hoare_bind)
  show "hoare (\<lambda>w. ops w = E) (write_status cx op Failed ''op_update_status(Failed)'')
     (\<lambda>_ w. ops w = E(op_id op := Some (settled row Failed RETRY_MAX_ATTEMPTS))) (\<lambda>_ _. True)"
    using assms by (intro hoare_weaken [OF hoare_write_status [where E = E and op = op and row = row]]) auto
qed (auto intro: hoare_pre [OF hoare_return])

lemma hoare_execute_framed:
  "hoare (\<lambda>w. ops w = E) (tryE (execute (cx_lib cx) op (cx_local_root cx) (cx_local cx) (cx_remote cx)))
     (\<lambda>r w. ops w = E \<and> (\<forall>st. r = Inr st \<longrightarrow> st = Success)) (\<lambda>_ _. True)"
  by (auto intro!: hoareI simp: tryE_def split: prod.splits
      dest: framesD [OF frames_execute [OF ov_ports]] execute_Inr_Success)

lemma hoare_attempt_loop:
  assumes "E (op_id op) = Some row" and "n \<le> RETRY_MAX_ATTEMPTS" and "n = 0 \<or> op_attempts op = n"
  shows "hoare (\<lambda>w. ops w = E) (attempt_loop cx op n)
     (\<lambda>b w. \<exists>k. 1 \<le> k \<and> k \<le> RETRY_MAX_ATTEMPTS
        \<and> ops w = E(op_id op := Some (settled row (if b then Success else Failed) k)))
     (\<lambda>_ _. True)"
  using assms
proof (induction op n rule: attempt_induct)
  case (1 op n)
  let ?Q = "\<lambda>b w. \<exists>k. 1 \<le> k \<and> k \<le> RETRY_MAX_ATTEMPTS
        \<and> ops w = E(op_id op := Some (settled row (if b then Success else Failed) k))"
  let ?op = "op\<lparr>op_attempts := n + 1\<rparr>"
  let ?I = "\<lambda>w. ops w = E"
  have E: "E (op_id ?op) = Some row" using "1.prems" by simp
  have res: "hoare ?I (case r of
         Inr status \<Rightarrow> finish_executed cx ?op status
       | Inl e \<Rightarrow> if is_retriable e then bindE (throttle_pause cx e) (\<lambda>_. attempt_loop cx ?op (n + 1))
                  else finish_failed cx ?op e) ?Q (\<lambda>_ _. True)"
    if n: "n < RETRY_MAX_ATTEMPTS" and r: "\<And>st. r = Inr st \<Longrightarrow> st = Success" for r
  proof (cases r)
    case (Inr status)
    with r have "status = Success" by simp
    moreover from hoare_finish_executed [where E = E and op = ?op, OF E]
    have "hoare ?I (finish_executed cx ?op Success) ?Q (\<lambda>_ _. True)"
      by (rule hoare_weaken) (use n in \<open>auto intro!: exI [of _ "Suc n"]\<close>)
    ultimately show ?thesis using Inr by simp
  next
    case (Inl e)
    have "hoare ?I (bindE (throttle_pause cx e) (\<lambda>_. attempt_loop cx ?op (n + 1))) ?Q (\<lambda>_ _. True)"
    proof (rule hoare_bind)
      show "hoare ?I (throttle_pause cx e) (\<lambda>_. ?I) (\<lambda>_ _. True)"
        by (rule hoare_weaken [OF ov_hoare [OF frames_pauses(1) [OF ov_ports]]]) auto
      show "hoare ?I (attempt_loop cx ?op (n + 1)) ?Q (\<lambda>_ _. True)"
        using "1.IH" [of ?op] E n by (simp add: fun_upd_def)
    qed
    moreover from hoare_finish_failed [where E = E and op = ?op, OF E]
    have "hoare ?I (finish_failed cx ?op e) ?Q (\<lambda>_ _. True)"
      by (rule hoare_weaken) (use n in \<open>auto intro!: exI [of _ "Suc n"]\<close>)
    ultimately show ?thesis using Inl by simp
  qed
  show ?case
    unfolding attempt_loop.simps [of cx op n] Let_def
  proof (rule hoare_bind)
    show "hoare ?I (liftE (random_jitter (cx_runtime cx) n)) (\<lambda>_. ?I) (\<lambda>_ _. True)"
      by (rule hoare_weaken [OF ov_hoare [OF frames_lift [OF frames_random_jitter [OF ov_ports]]]]) auto
    fix j
    show "hoare ?I (if retry_decision n j = RetryExhausted
        then bindE (write_status cx op Failed ''op_update_status(Failed)'') (\<lambda>_. returnE False)
        else bindE (backoff_pause cx (retry_decision n j)) (\<lambda>_.
          bindE (tryE (execute (cx_lib cx) ?op (cx_local_root cx) (cx_local cx) (cx_remote cx))) (\<lambda>r.
          case r of Inl e \<Rightarrow> if is_retriable e
               then bindE (throttle_pause cx e) (\<lambda>_. attempt_loop cx ?op (n + 1))
               else finish_failed cx ?op e
             | Inr status \<Rightarrow> finish_executed cx ?op status))) ?Q (\<lambda>_ _. True)"
    proof (rule hoare_if, goal_cases)
      case 1
      then have "op_attempts op = RETRY_MAX_ATTEMPTS" using "1.prems" by (auto simp: RETRY_MAX_ATTEMPTS_def)
      from hoare_exhausted [where E = E and op = op, OF "1.prems"(1) this] show ?case
        by (rule hoare_weaken) (auto simp: RETRY_MAX_ATTEMPTS_def)
    next
      case 2
      then have n: "n < RETRY_MAX_ATTEMPTS" by simp
      show ?case
      proof (rule hoare_bind)
        show "hoare ?I (backoff_pause cx (retry_decision n j)) (\<lambda>_. ?I) (\<lambda>_ _. True)"
          by (rule hoare_weaken [OF ov_hoare [OF frames_pauses(2) [OF ov_ports]]]) auto
        show "hoare ?I (bindE (tryE (execute (cx_lib cx) ?op (cx_local_root cx) (cx_local cx) (cx_remote cx))) (\<lambda>r.
          case r of Inl e \<Rightarrow> if is_retriable e
               then bindE (throttle_pause cx e) (\<lambda>_. attempt_loop cx ?op (n + 1))
               else finish_failed cx ?op e
             | Inr status \<Rightarrow> finish_executed cx ?op status)) ?Q (\<lambda>_ _. True)"
        proof (rule hoare_bind [OF hoare_execute_framed])
          fix r
          show "hoare (\<lambda>w. ?I w \<and> (\<forall>st. r = Inr st \<longrightarrow> st = Success)) (case r of Inl e \<Rightarrow> if is_retriable e
               then bindE (throttle_pause cx e) (\<lambda>_. attempt_loop cx ?op (n + 1))
               else finish_failed cx ?op e
             | Inr status \<Rightarrow> finish_executed cx ?op status) ?Q (\<lambda>_ _. True)"
            using res [OF n, of r] by (auto simp: hoare_def)
        qed
      qed
    qed
  qed
qed

lemma hoare_run_op:
  "hoare (\<lambda>w. ops w = E) (run_op cx op)
     (\<lambda>b w. \<exists>k. 1 \<le> k \<and> k \<le> RETRY_MAX_ATTEMPTS
        \<and> ops w = E(op_id op := Some (settled op (if b then Success else Failed) k)))
     (\<lambda>_ _. True)"
  unfolding run_op_def
proof (rule hoare_bind)
  let ?E = "E(op_id op := Some op)"
  show "hoare (\<lambda>w. ops w = E) (tryE (st_op_insert (cx_state cx) op))
      (\<lambda>r w. r = Inr () \<and> ops w = ?E) (\<lambda>_ _. True)"
  proof (rule hoareI)
    fix w x w'
    assume w: "ops w = E" "tryE (st_op_insert (cx_state cx) op) w = (Inr x, w')"
    obtain w1 where i: "st_op_insert (cx_state cx) op w = (Inr (), w1)" using insert_succeeds by blast
    with w ov_insert_ok [OF i] show "x = Inr () \<and> ops w' = ?E" by (simp add: tryE_def)
  qed simp
  fix r
  have "hoare (\<lambda>w. ops w = ?E) (attempt_loop cx op 0)
     (\<lambda>b w. \<exists>k. 1 \<le> k \<and> k \<le> RETRY_MAX_ATTEMPTS
        \<and> ops w = E(op_id op := Some (settled op (if b then Success else Failed) k))) (\<lambda>_ _. True)"
    using hoare_attempt_loop [of ?E op op 0] by simp
  then show "hoare (\<lambda>w. r = Inr () \<and> ops w = ?E)
      (case r of Inl e \<Rightarrow> bindE (emit_op_state_failure cx op ''op_insert'' e) (\<lambda>_. returnE False)
       | Inr _ \<Rightarrow> attempt_loop cx op 0)
     (\<lambda>b w. \<exists>k. 1 \<le> k \<and> k \<le> RETRY_MAX_ATTEMPTS
        \<and> ops w = E(op_id op := Some (settled op (if b then Success else Failed) k))) (\<lambda>_ _. True)"
    by (cases r) (auto simp: hoare_def)
qed

end

text \<open>What the row of a finished operation looks like, and how many of them succeeded.\<close>

definition finished_row :: "file_op \<Rightarrow> file_op option \<Rightarrow> bool" where
  "finished_row op row \<longleftrightarrow>
     (\<exists>st k. row = Some (settled op st k) \<and> (st = Success \<or> st = Failed) \<and> 1 \<le> k \<and> k \<le> RETRY_MAX_ATTEMPTS)"

definition row_succeeded :: "file_op option \<Rightarrow> bool" where
  "row_succeeded row \<longleftrightarrow> (\<exists>op. row = Some op \<and> op_status op = Success)"

context reliable_op_view
begin

lemma op_loop_rows:
  assumes "op_loop cx os a f w = (Inr (a', f'), w')" and "distinct (map op_id os)"
  shows "(\<forall>i. i \<notin> op_id ` set os \<longrightarrow> ops w' i = ops w i)
    \<and> (\<forall>op \<in> set os. finished_row op (ops w' (op_id op)))
    \<and> a' = a + length (filter (\<lambda>op. row_succeeded (ops w' (op_id op))) os)"
  using assms
proof (induction os arbitrary: a f w)
  case Nil
  then show ?case by (simp add: returnE_def)
next
  case (Cons op os)
  obtain b w1 where r: "run_op cx op w = (Inr b, w1)"
    and l: "op_loop cx os (if b then a + 1 else a) (if b then f else f + 1) w1 = (Inr (a', f'), w')"
    using Cons.prems(1) by (auto simp: bindE_def split: prod.splits sum.splits if_splits)
  obtain k where k: "1 \<le> k" "k \<le> RETRY_MAX_ATTEMPTS"
    and w1: "ops w1 = (ops w)(op_id op := Some (settled op (if b then Success else Failed) k))"
    using hoare_InrD [OF hoare_run_op [of "ops w" op] refl r] by blast
  have d: "op_id op \<notin> op_id ` set os" "distinct (map op_id os)" using Cons.prems(2) by auto
  note IH = Cons.IH [OF l d(2)]
  have row: "ops w' (op_id op) = Some (settled op (if b then Success else Failed) k)"
    using IH d(1) w1 by simp
  have "finished_row op (ops w' (op_id op))"
    using row k by (auto simp: finished_row_def)
  moreover have "row_succeeded (ops w' (op_id op)) = b"
    using row by (simp add: row_succeeded_def settled_def)
  ultimately show ?case using IH w1 by (cases b) auto
qed

end

text \<open>
  C1: After the phase every planned operation has a row that is finished, as a success or as
  a failure, after between one and five attempts, and is otherwise the operation as planned;
  no other row is touched; and the number of applied operations is the number of rows that
  succeeded.  (For operations with distinct ids, on the in-memory store, whatever the drive
  and the file system do.)
\<close>
theorem executed_ops_are_finished:
  assumes "phase_execute (mem_ctx c) os w = (Inr (applied, failed), w')" and "distinct (map op_id os)"
  shows "(\<forall>i. i \<notin> op_id ` set os \<longrightarrow> mem_ops w' i = mem_ops w i)
    \<and> (\<forall>op \<in> set os. finished_row op (mem_ops w' (op_id op)))
    \<and> applied = length (filter (\<lambda>op. row_succeeded (mem_ops w' (op_id op))) os)"
  using mem.op_loop_rows [of c os 0 0 w applied failed w'] assms by (simp add: phase_execute_def)

section \<open>What the phase does to the file entries\<close>

lemma post_op_entry_key [simp]:
  "fe_pair_id (post_op_entry k e t) = fe_pair_id e"
  "fe_relative_path (post_op_entry k e t) = fe_relative_path e"
  "fe_sync_state (post_op_entry k e t) = Clean"
  "fe_pending_op_id (post_op_entry k e t) = None"
  "fe_local (post_op_entry k e t) = fe_local e"
  "fe_remote (post_op_entry k e t) = fe_remote e"
  "fe_synced (post_op_entry k e t) = new_synced_side k e t"
  by (simp_all add: post_op_entry_def)

text \<open>
  What a set of operations may do to the rows: a row is as before, or it was there before
  and is now settled by one of the operations on its path that is not part of a conflict.
\<close>

definition settled_by ::
  "file_op set \<Rightarrow> (pair_id \<Rightarrow> rel_path \<Rightarrow> file_entry option) \<Rightarrow> (pair_id \<Rightarrow> rel_path \<Rightarrow> file_entry option) \<Rightarrow> bool" where
  "settled_by os E E' \<longleftrightarrow>
     (\<forall>p r. E' p r = E p r
        \<or> (\<exists>op \<in> os. op_pair_id op = p \<and> op_relative_path op = r \<and> \<not> from_conflict op
            \<and> (\<exists>e e'. E p r = Some e \<and> E' p r = Some e' \<and> fe_sync_state e' = Clean
                 \<and> fe_pending_op_id e' = None \<and> fe_local e' = fe_local e \<and> fe_remote e' = fe_remote e)))"

lemma settled_by_refl [simp]: "settled_by os E E"
  by (simp add: settled_by_def)

text \<open>An operation of the set, up to its attempt count.\<close>

definition planned_in :: "file_op set \<Rightarrow> file_op \<Rightarrow> bool" where
  "planned_in os op \<longleftrightarrow>
     (\<exists>op0 \<in> os. op_pair_id op0 = op_pair_id op \<and> op_relative_path op0 = op_relative_path op
        \<and> op_metadata op0 = op_metadata op)"

lemma planned_in_attempts [simp]: "planned_in os (op\<lparr>op_attempts := n\<rparr>) = planned_in os op"
  by (simp add: planned_in_def)

lemma settled_by_step:
  assumes s: "settled_by os E E'" and k: "keyed E'" and e: "E' (op_pair_id op) (op_relative_path op) = Some e"
    and pl: "planned_in os op" and nc: "\<not> from_conflict op"
  shows "settled_by os E (upd_entry E' (post_op_entry kd e t))"
proof -
  have key: "fe_pair_id e = op_pair_id op" "fe_relative_path e = op_relative_path op"
    using k e by (auto simp: keyed_def)
  from s e obtain e0 where "E (op_pair_id op) (op_relative_path op) = Some e0"
      and "fe_local e = fe_local e0" and "fe_remote e = fe_remote e0"
    unfolding settled_by_def by (metis option.inject)
  moreover obtain op0 where "op0 \<in> os" "op_pair_id op0 = op_pair_id op"
      "op_relative_path op0 = op_relative_path op" "\<not> from_conflict op0"
    using pl nc by (auto simp: planned_in_def from_conflict_def)
  ultimately show ?thesis
    using s key unfolding settled_by_def upd_entry_apply by fastforce
qed

text \<open>The effect of the post-operation update on the rows.\<close>

definition post_op_effect ::
  "file_op \<Rightarrow> (pair_id \<Rightarrow> rel_path \<Rightarrow> file_entry option) \<Rightarrow> (pair_id \<Rightarrow> rel_path \<Rightarrow> file_entry option) \<Rightarrow> bool" where
  "post_op_effect op E E' \<longleftrightarrow>
     (if from_conflict op then E' = E
      else case E (op_pair_id op) (op_relative_path op) of
             None \<Rightarrow> E' = E
           | Some e \<Rightarrow> (\<exists>now. E' = upd_entry E (post_op_entry (op_kind op) e now)))"

lemma frames_imp_keeps: "frames v m \<Longrightarrow> keeps (\<lambda>w. P (v w)) m"
  by (simp add: frames_def keeps_def)

context entry_view
begin

abbreviation phase_inv :: "file_op set \<Rightarrow> (pair_id \<Rightarrow> rel_path \<Rightarrow> file_entry option) \<Rightarrow> 'w \<Rightarrow> bool" where
  "phase_inv os E w \<equiv> settled_by os E (entries w) \<and> keyed (entries w)"

lemma hoare_store_post_op:
  "hoare (\<lambda>w. entries w = E)
      (bindE (clock_now cx) (\<lambda>now. state_call (st_file_entry_upsert (cx_state cx) (post_op_entry k e now))))
      (\<lambda>_ w. \<exists>now. entries w = upd_entry E (post_op_entry k e now)) (\<lambda>_ w. entries w = E)"
  by (rule hoare_bind [OF hoare_framed [OF frames_runtime(1) [OF ports]]])
     (auto intro: hoare_weaken [OF hoare_upsert])

lemma post_op_row:
  "hoare (\<lambda>w. entries w = E) (update_file_entry_post_op cx op)
     (\<lambda>_ w. post_op_effect op E (entries w)) (\<lambda>_ w. entries w = E)"
proof (cases "from_conflict op")
  case True
  then show ?thesis by (simp add: update_file_entry_post_op_def hoare_def returnE_def post_op_effect_def)
next
  case False
  show ?thesis
    unfolding update_file_entry_post_op_def if_not_P [OF False]
  proof (rule hoare_bind [OF hoare_get])
    fix found
    show "hoare (\<lambda>w. found = E (op_pair_id op) (op_relative_path op) \<and> entries w = E)
      (case found of None \<Rightarrow> returnE () | Some entry \<Rightarrow> bindE (clock_now cx) (\<lambda>now.
          state_call (st_file_entry_upsert (cx_state cx) (post_op_entry (op_kind op) entry now))))
      (\<lambda>_ w. post_op_effect op E (entries w)) (\<lambda>_ w. entries w = E)"
    proof (cases found)
      case None
      then show ?thesis using False by (auto simp: hoare_def returnE_def post_op_effect_def)
    next
      case (Some e)
      then show ?thesis
        using False hoare_store_post_op [of E "op_kind op" e]
        by (cases "E (op_pair_id op) (op_relative_path op) = Some e")
           (auto simp: post_op_effect_def hoare_def)
    qed
  qed
qed

lemma keeps_post_op:
  assumes "planned_in os op"
  shows "keeps (phase_inv os E) (update_file_entry_post_op cx op)"
  unfolding keeps_iff_hoare
proof (rule hoareI)
  fix w e w'
  assume "phase_inv os E w" "update_file_entry_post_op cx op w = (Inl e, w')"
  with hoare_InlD [OF post_op_row [of "entries w" op] refl] show "phase_inv os E w'" by metis
next
  fix w x w'
  assume i: "phase_inv os E w" and u: "update_file_entry_post_op cx op w = (Inr x, w')"
  from hoare_InrD [OF post_op_row [of "entries w" op] refl u]
  have "post_op_effect op (entries w) (entries w')" .
  with i assms show "phase_inv os E w'"
    by (auto simp: post_op_effect_def split: if_splits option.splits intro: settled_by_step)
qed

lemma keeps_framed: "frames entries m \<Longrightarrow> keeps (phase_inv os E) m"
  by (rule frames_imp_keeps [where v = entries and P = "\<lambda>x. settled_by os E x \<and> keyed x"])

lemma framed_op_insert: "frames entries (st_op_insert (cx_state cx) op)"
  using op_tables by (simp add: op_tables_frame_def)

lemmas framed_helpers =
  frames_sleep [OF ports] frames_pauses [OF ports] frames_emit_op_failed [OF ports]
  frames_emit_op_state_failure [OF ports] frames_lift [OF frames_random_jitter [OF ports]]
  frames_try [OF frames_execute [OF ports]]

lemma framed_write_status: "frames entries (write_status cx op st msg)"
  unfolding write_status_def
  by (intro frames_bind frames_try framed_calls) (auto split: sum.split intro: framed_helpers frame_rules)

lemma keeps_finish:
  assumes "planned_in os op"
  shows "keeps (phase_inv os E) (finish_executed cx op st)"
    and "keeps (phase_inv os E) (finish_failed cx op e)"
  unfolding finish_executed_def finish_failed_def
  using assms
  by (auto intro!: keeps_bind keeps_framed [OF framed_write_status] keeps_framed [OF framed_helpers(4)]
      keeps_try keeps_post_op split: sum.split)

lemma keeps_attempt_loop: "planned_in os op \<Longrightarrow> keeps (phase_inv os E) (attempt_loop cx op n)"
proof (induction op n rule: attempt_induct)
  case (1 op n)
  then show ?case
    unfolding attempt_loop.simps [of cx op n] Let_def
    by (auto intro!: keeps_bind keeps_framed [OF framed_write_status] keeps_framed [OF framed_helpers(2)]
        keeps_framed [OF framed_helpers(3)] keeps_framed [OF framed_helpers(6)]
        keeps_framed [OF framed_helpers(7)] keeps_finish split: sum.split)
qed

lemma keeps_run_op: "planned_in os op \<Longrightarrow> keeps (phase_inv os E) (run_op cx op)"
  unfolding run_op_def
  by (auto intro!: keeps_bind keeps_framed [OF frames_try [OF framed_op_insert]]
      keeps_framed [OF framed_helpers(5)] keeps_attempt_loop split: sum.split)

lemma keeps_op_loop:
  "set l \<subseteq> os \<Longrightarrow> keeps (phase_inv os E) (op_loop cx l a f)"
  by (induction l arbitrary: a f)
     (auto intro!: keeps_bind keeps_run_op simp: planned_in_def)

lemma phase_execute_settles:
  assumes "phase_execute cx l w = (r, w')" and "keyed (entries w)"
  shows "settled_by (set l) (entries w) (entries w') \<and> keyed (entries w')"
  using keepsD [OF keeps_op_loop [OF subset_refl, of l "entries w" 0 0] _ assms(1) [unfolded phase_execute_def]]
    assms(2) by simp

end

text \<open>
  The execute phase changes file entries only as far as its operations reach: a row
  changes only if a planned operation that is not part of a conflict is on its path; it then
  existed before, is clean and without a pending operation afterwards, and both observed
  sides are as they were.  Rows of paths whose operations carry the conflict mark are not
  touched.
\<close>
theorem execute_settles_only_its_paths:
  assumes "phase_execute (mem_ctx c) os w = (r, w')" and "wf_store (mw_store w)"
  shows "settled_by (set os) (mem_entries w) (mem_entries w')"
  using mem.phase_execute_settles [OF assms(1)] keyed_mem_entries [OF assms(2)] by blast

text \<open>
  The update after a successful operation: a row on the path of the operation, if there is
  one, is stored back as clean with its synced side taken from the side the operation
  propagated; an operation of a conflict group and an operation without a row change nothing.
\<close>
theorem post_op_update:
  assumes "update_file_entry_post_op (mem_ctx c) op w = (Inr u, w')"
  shows "mem_entries w' =
      (if from_conflict op then mem_entries w
       else case mem_entries w (op_pair_id op) (op_relative_path op) of
              None \<Rightarrow> mem_entries w
            | Some e \<Rightarrow> upd_entry (mem_entries w)
                (post_op_entry (op_kind op) e (fst (rt_now (cx_runtime c) (mw_ext w)))))"
  using assms
  by (auto simp: update_file_entry_post_op_def io_simps port_call_defs mem_calls split: if_splits option.splits)

section \<open>Concrete runs\<close>

definition refusing_ctx :: "call_log mem_world cycle_ctx" where
  "refusing_ctx = (mem_ctx log_ctx)\<lparr>cx_state := (cx_state (mem_ctx log_ctx))
     \<lparr>st_op_insert := (\<lambda>op w. (Inl (SeConstraint ''FOREIGN KEY constraint failed''), w))\<rparr>\<rparr>"

theorem refused_inserts_execute_nothing_witness:
  "\<exists>w'. phase_execute refusing_ctx [sample_op Download, sample_op Upload] (log_world empty_store)
     = (Inr (0, 2), w')"
proof -
  have "\<And>op w. \<exists>e w'. st_op_insert (cx_state refusing_ctx) op w = (Inl e, w')"
    by (simp add: refusing_ctx_def)
  from refused_inserts_execute_nothing [OF this, THEN conjunct1,
      of "[sample_op Download, sample_op Upload]" "log_world empty_store"]
  show ?thesis by (simp add: numeral_2_eq_2)
qed

lemma phase_execute_returns: "\<exists>a f w'. phase_execute cx os w = (Inr (a, f), w')"
  using sure_op_loop [of cx os 0 0] by (fastforce simp: phase_execute_def sure_def)

theorem executed_ops_are_finished_witness:
  "\<exists>a f w'. phase_execute (mem_ctx log_ctx) [sample_op RemoteMkdir] (log_world empty_store) = (Inr (a, f), w')
     \<and> finished_row (sample_op RemoteMkdir) (mem_ops w' (Id 5))"
proof -
  obtain a f w' where p: "phase_execute (mem_ctx log_ctx) [sample_op RemoteMkdir] (log_world empty_store)
      = (Inr (a, f), w')" using phase_execute_returns by metis
  have "op_id (sample_op RemoteMkdir) = Id 5" by (simp add: sample_op_def make_op_def)
  with executed_ops_are_finished [OF p] p show ?thesis by auto
qed

theorem execute_settles_only_its_paths_witness:
  "\<exists>r w'. phase_execute (mem_ctx log_ctx) [sample_op Download] (log_world one_pair_store) = (r, w')
     \<and> settled_by {sample_op Download} (mem_entries (log_world one_pair_store)) (mem_entries w')"
proof -
  obtain r w' where p: "phase_execute (mem_ctx log_ctx) [sample_op Download] (log_world one_pair_store) = (r, w')"
    by fastforce
  have "wf_store (mw_store (log_world one_pair_store))"
    by (simp add: log_world_def wf_store_def one_pair_store_def mem_pair_upsert_def empty_store_def wf_table_def)
  from execute_settles_only_its_paths [OF p this] p show ?thesis by auto
qed

theorem post_op_update_witness:
  "\<exists>w'. update_file_entry_post_op (mem_ctx log_ctx) (sample_op Upload)
       (log_world (one_row_store (sample_row PendingUpload (Some synthetic_remote_side) None None))) = (Inr (), w')
     \<and> mem_entries w' (Id 1) (RelPath ''d/a.bin'')
        = Some (post_op_entry Upload (sample_row PendingUpload (Some synthetic_remote_side) None None) 1000)"
proof -
  let ?e = "sample_row PendingUpload (Some synthetic_remote_side) None None"
  let ?w = "log_world (one_row_store ?e)"
  have op: "\<not> from_conflict (sample_op Upload)" "op_pair_id (sample_op Upload) = Id 1"
    "op_relative_path (sample_op Upload) = RelPath ''d/a.bin''" "op_kind (sample_op Upload) = Upload"
    by (simp_all add: from_conflict_def sample_op_def make_op_def json_get_bool_def)
  have row: "mem_entries ?w (Id 1) (RelPath ''d/a.bin'') = Some ?e"
    by (simp add: one_row_entries sample_row_def)
  obtain w' where u: "update_file_entry_post_op (mem_ctx log_ctx) (sample_op Upload) ?w = (Inr (), w')"
    by (simp add: update_file_entry_post_op_def op row io_simps port_call_defs mem_calls)
  have "fst (rt_now (cx_runtime log_ctx) (mw_ext ?w)) = 1000" by (simp add: log_ctx_def log_runtime_def)
  with post_op_update [OF u] op row u show ?thesis
    by (auto simp: sample_row_def)
qed

section \<open>The row a download leaves\<close>

text \<open>
  A successful download does not record the local side.  So for a row created by the
  delta phase, the next observation of the same remote item is taken for a local change to
  upload, and the next ordinary edit of the remote file (another ETag) for a conflict.
\<close>
theorem download_leaves_local_unset:
  assumes "fe_local e = None" and "fe_remote e = Some (remote_side_from_item item t)"
    and "fe_kind e = File" and "\<not> is_folder item" and "\<not> is_folder item'"
    and "ri_e_tag item = Some tag" and "ri_e_tag item' = Some tag'" and "tag \<noteq> tag'"
  shows "reconcile_both (post_op_entry Download e now) item = DUpload
    \<and> reconcile_both (post_op_entry Download e now) item' = DConflictDetected"
proof -
  let ?e = "post_op_entry Download e now"
  have syn: "fe_synced ?e = Some (remote_side_from_item item t)" "fe_local ?e = None"
    "fe_sync_state ?e = Clean" "fe_kind ?e = File"
    using assms(1-3) by (simp_all add: post_op_entry_def)
  have "\<not> remote_differs_from_synced item (fe_synced ?e)" "remote_differs_from_synced item' (fe_synced ?e)"
    using assms syn(1) by (auto simp: remote_differs_from_synced_def remote_side_from_item_def Let_def)
  moreover have "local_differs_from_synced (fe_local ?e) (fe_synced ?e)"
    using syn by (simp add: local_differs_from_synced_def)
  ultimately show ?thesis
    using syn by (simp add: reconcile_both_def is_action_blocking_def Let_def)
qed

theorem download_leaves_local_unset_witness:
  "reconcile_both (post_op_entry Download
       (sample_row PendingDownload None (Some (remote_side_from_item (sample_item ''i'' ''a.bin'' 5 (Some ''v1'')) 0)) None) 0)
     (sample_item ''i'' ''a.bin'' 6 (Some ''v2'')) = DConflictDetected"
  by (rule download_leaves_local_unset [where item = "sample_item ''i'' ''a.bin'' 5 (Some ''v1'')" and t = 0
        and tag = "''v1''" and tag' = "''v2''", THEN conjunct2])
     (simp_all add: sample_row_def sample_item_def is_folder_def)

end
