(* ===== verification/Conflict_Phase.thy ===== *)
theory Conflict_Phase
  imports Local_Phase Execute_Phase
begin

text \<open>
  Phase 3c of a cycle (\<open>engine/cycle.rs\<close>: \<open>phase_resolve_conflicts\<close>,
  \<open>record_content_conflict\<close>, \<open>push_remote_winner_conflict_ops\<close>) and the rename operations of
  case collisions (\<open>build_remote_rename_ops\<close>).
\<close>

section \<open>The operations of a conflict\<close>

definition op_with ::
  "file_op_id \<Rightarrow> sync_run_id \<Rightarrow> pair_id \<Rightarrow> rel_path \<Rightarrow> file_op_kind \<Rightarrow> json_map \<Rightarrow> timestamp \<Rightarrow> file_op" where
  "op_with i run pid rp kind meta now =
     \<lparr>op_id = i, op_run_id = run, op_pair_id = pid, op_relative_path = rp, op_kind = kind,
      op_status = Enqueued, op_attempts = 0, op_last_error = None, op_metadata = meta,
      op_enqueued_at = now, op_started_at = None, op_finished_at = None\<rparr>"

definition rename_meta :: "rel_path \<Rightarrow> json_map" where
  "rename_meta loser =
     json_insert ''from_conflict'' (JBool True)
       (json_insert ''new_path'' (JString (rel_str loser)) [])"

definition download_meta :: "drive_item_id \<Rightarrow> json_map" where
  "download_meta i = json_insert ''remote_item_id'' (JString (drive_item_id_str i)) []"

definition push_remote_winner_conflict_ops ::
  "'w cycle_ctx \<Rightarrow> conflict \<Rightarrow> sync_run_id \<Rightarrow> file_op list \<Rightarrow> ('w, engine_error, file_op list) io" where
  "push_remote_winner_conflict_ops cx conflict run conflict_ops =
     bindE (clock_now cx) (\<lambda>now.
     bindE (fresh_id cx) (\<lambda>i.
     let conflict_ops = conflict_ops @
           [op_with i run (cx_pair_id cx) (cf_relative_path conflict) LocalRename
              (rename_meta (cf_loser_relative_path conflict)) now] in
     case fs_remote_item_id (cf_remote_side conflict) of
       None \<Rightarrow> returnE conflict_ops
     | Some remote_item_id \<Rightarrow>
         bindE (fresh_id cx) (\<lambda>j.
         returnE (conflict_ops @
           [op_with j run (cx_pair_id cx) (cf_relative_path conflict) Download
              (download_meta remote_item_id) now]))))"

section \<open>Recording a conflict\<close>

definition content_conflict ::
  "conflict_id \<Rightarrow> pair_id \<Rightarrow> rel_path \<Rightarrow> conflict_outcome \<Rightarrow> file_side \<Rightarrow> file_side \<Rightarrow> timestamp \<Rightarrow> conflict" where
  "content_conflict i pid rp outcome l r now =
     \<lparr>cf_id = i, cf_pair_id = pid, cf_relative_path = rp, cf_winner = co_winner outcome,
      cf_loser_relative_path = co_loser_path outcome, cf_local_side = l, cf_remote_side = r,
      cf_detected_at = now, cf_resolved_at = None, cf_resolution = None, cf_note = None\<rparr>"

text \<open>The part after the winner is known.\<close>

definition store_conflict ::
  "'w cycle_ctx \<Rightarrow> decision \<Rightarrow> sync_run_id \<Rightarrow> file_op list \<Rightarrow> timestamp \<Rightarrow> file_entry \<Rightarrow> file_side \<Rightarrow> file_side
   \<Rightarrow> conflict_outcome \<Rightarrow> ('w, engine_error, file_op list) io" where
  "store_conflict cx d run conflict_ops now entry local_side remote_side outcome =
     bindE (fresh_id cx) (\<lambda>cid.
     let conflict = content_conflict cid (cx_pair_id cx) (d_relative_path d) outcome
           local_side remote_side now in
     bindE (state_call (st_conflict_insert (cx_state cx) conflict)) (\<lambda>_.
     bindE (state_call (st_file_entry_upsert (cx_state cx)
              (entry\<lparr>fe_sync_state := PendingConflict, fe_updated_at := now\<rparr>))) (\<lambda>_.
     bindE (fresh_id cx) (\<lambda>evid.
     bindE (emit cx (warn_event evid now ''conflict.detected'' (cx_pair_id cx)
              (json_insert ''loser_path'' (JString (rel_str (cf_loser_relative_path conflict)))
                (json_insert ''winner'' (JString (conflict_side_json (cf_winner conflict)))
                  (json_insert ''path'' (JString (rel_str (d_relative_path d))) []))))) (\<lambda>_.
     if cf_winner conflict = SideRemote
     then push_remote_winner_conflict_ops cx conflict run conflict_ops
     else returnE conflict_ops)))))"

definition record_content_conflict ::
  "'w cycle_ctx \<Rightarrow> decision \<Rightarrow> sync_run_id \<Rightarrow> file_op list \<Rightarrow> ('w, engine_error, file_op list) io" where
  "record_content_conflict cx d run conflict_ops =
     bindE (clock_now cx) (\<lambda>now.
     bindE (state_call (st_file_entry_get (cx_state cx) (cx_pair_id cx) (d_relative_path d))) (\<lambda>found.
     case found of
       None \<Rightarrow> returnE conflict_ops
     | Some entry \<Rightarrow>
         (case (fe_local entry, fe_remote entry) of
            (Some local_side, Some remote_side) \<Rightarrow>
              (case pick_winner_and_loser (cx_lib cx) (fs_mtime local_side) (fs_mtime remote_side)
                      (d_relative_path d) (cx_host_name cx) now 0 of
                 Inl e \<Rightarrow> throwE (EngPort (''conflict loser path invalid: '' @ path_parse_error_display e))
               | Inr outcome \<Rightarrow>
                   store_conflict cx d run conflict_ops now entry local_side remote_side outcome)
          | _ \<Rightarrow> returnE conflict_ops)))"

text \<open>
  The loop over \<open>decisions\<close> with \<open>remove(i)\<close>: \<open>kept\<close> is the part before \<open>i\<close>, the list argument
  the part from \<open>i\<close> on.
\<close>

fun resolve_loop ::
  "'w cycle_ctx \<Rightarrow> sync_run_id \<Rightarrow> decision list \<Rightarrow> decision list \<Rightarrow> file_op list
   \<Rightarrow> ('w, engine_error, decision list \<times> file_op list) io" where
  "resolve_loop cx run kept [] conflict_ops = returnE (kept, conflict_ops)"
| "resolve_loop cx run kept (d # ds) conflict_ops =
     (if \<not> is_conflict (d_kind d) then resolve_loop cx run (kept @ [d]) ds conflict_ops
      else bindE (record_content_conflict cx d run conflict_ops) (resolve_loop cx run kept ds))"

definition phase_resolve_conflicts ::
  "'w cycle_ctx \<Rightarrow> decision list \<Rightarrow> sync_run_id \<Rightarrow> file_op list
   \<Rightarrow> ('w, engine_error, decision list \<times> file_op list) io" where
  "phase_resolve_conflicts cx decisions run conflict_ops = resolve_loop cx run [] decisions conflict_ops"

section \<open>Renames of case-collision losers\<close>

definition remote_rename_meta :: "string \<Rightarrow> string \<Rightarrow> json_map" where
  "remote_rename_meta item_id new_name =
     json_insert ''from_conflict'' (JBool True)
       (json_insert ''new_name'' (JString new_name)
         (json_insert ''remote_item_id'' (JString item_id) []))"

fun build_remote_rename_ops ::
  "'w cycle_ctx \<Rightarrow> sync_run_id \<Rightarrow> timestamp \<Rightarrow> rename_target list \<Rightarrow> ('w, engine_error, file_op list) io" where
  "build_remote_rename_ops cx run now [] = returnE []"
| "build_remote_rename_ops cx run now ((path, item_id, new_name) # rs) =
     bindE (fresh_id cx) (\<lambda>i.
     bindE (build_remote_rename_ops cx run now rs) (\<lambda>ops.
     returnE (op_with i run (cx_pair_id cx) path RemoteRename (remote_rename_meta item_id new_name) now # ops)))"

section \<open>What the phase does\<close>

definition in_conflict :: "timestamp \<Rightarrow> file_entry \<Rightarrow> file_entry" where
  "in_conflict t e = e\<lparr>fe_sync_state := PendingConflict, fe_updated_at := t\<rparr>"

lemma in_conflict_simps [simp]:
  "fe_pair_id (in_conflict t e) = fe_pair_id e" "fe_relative_path (in_conflict t e) = fe_relative_path e"
  "fe_local (in_conflict t e) = fe_local e" "fe_remote (in_conflict t e) = fe_remote e"
  "fe_sync_state (in_conflict t e) = PendingConflict" "in_conflict t (in_conflict t' e) = in_conflict t e"
  by (simp_all add: in_conflict_def)

definition both_sides :: "file_entry \<Rightarrow> bool" where
  "both_sides e \<longleftrightarrow> fe_local e \<noteq> None \<and> fe_remote e \<noteq> None"

text \<open>The rows after recording the conflict of one path.\<close>

definition record_rows ::
  "pair_id \<Rightarrow> rel_path \<Rightarrow> (pair_id \<Rightarrow> rel_path \<Rightarrow> file_entry option)
   \<Rightarrow> (pair_id \<Rightarrow> rel_path \<Rightarrow> file_entry option) \<Rightarrow> bool" where
  "record_rows pid rp E E' \<longleftrightarrow>
     (case E pid rp of
        Some e \<Rightarrow> if both_sides e then (\<exists>t. E' = upd_entry E (in_conflict t e)) else E' = E
      | None \<Rightarrow> E' = E)"

lemma frames_push [frame_rules]:
  "ports_frame v cx \<Longrightarrow> frames v (push_remote_winner_conflict_ops cx cf run ops)"
  unfolding push_remote_winner_conflict_ops_def Let_def
  by (intro frame_rules)

context entry_view
begin

lemma hoare_store_conflict:
  "hoare (\<lambda>w. entries w = E) (store_conflict cx d run ops now entry l r outcome)
     (\<lambda>_ w. entries w = upd_entry E (in_conflict now entry)) (\<lambda>_ _. True)"
  unfolding store_conflict_def Let_def in_conflict_def
  by (intro hoare_framed_bind [OF frames_runtime(2) [OF ports]]
      hoare_framed_bind [OF frames_state_call [OF conflict_insert_frame]] hoare_upsert_bind
      hoare_framed_bind [OF frames_runtime(3) [OF ports]] hoare_framed_end
      frames_if frames_push [OF ports] frames_return)

lemma hoare_record:
  "hoare (\<lambda>w. entries w = E) (record_content_conflict cx d run ops)
     (\<lambda>_ w. record_rows (cx_pair_id cx) (d_relative_path d) E (entries w)) (\<lambda>_ _. True)"
  unfolding record_content_conflict_def
proof (rule hoare_framed_bind [OF frames_runtime(1) [OF ports]], rule hoare_get_bind)
  fix now
  let ?row = "E (cx_pair_id cx) (d_relative_path d)"
  show "hoare (\<lambda>w. entries w = E) (case ?row of
       None \<Rightarrow> returnE ops
     | Some entry \<Rightarrow>
         (case (fe_local entry, fe_remote entry) of
            (Some local_side, Some remote_side) \<Rightarrow>
              (case pick_winner_and_loser (cx_lib cx) (fs_mtime local_side) (fs_mtime remote_side)
                      (d_relative_path d) (cx_host_name cx) now 0 of
                 Inl e \<Rightarrow> throwE (EngPort (''conflict loser path invalid: '' @ path_parse_error_display e))
               | Inr outcome \<Rightarrow> store_conflict cx d run ops now entry local_side remote_side outcome)
          | _ \<Rightarrow> returnE ops))
     (\<lambda>_ w. record_rows (cx_pair_id cx) (d_relative_path d) E (entries w)) (\<lambda>_ _. True)"
    by (auto intro!: hoare_return_end hoare_stop hoare_weaken [OF hoare_store_conflict]
        simp: record_rows_def both_sides_def split: option.split sum.split)
qed

end

text \<open>The rows after the phase, for the paths of the conflicts.\<close>

definition parked_rows ::
  "pair_id \<Rightarrow> rel_path set \<Rightarrow> (pair_id \<Rightarrow> rel_path \<Rightarrow> file_entry option)
   \<Rightarrow> (pair_id \<Rightarrow> rel_path \<Rightarrow> file_entry option) \<Rightarrow> bool" where
  "parked_rows pid P E E' \<longleftrightarrow>
     (\<forall>p r. if p = pid \<and> r \<in> P \<and> (\<exists>e. E p r = Some e \<and> both_sides e)
            then (\<exists>e t. E p r = Some e \<and> E' p r = Some (in_conflict t e))
            else E' p r = E p r)"

lemma record_then_parked:
  assumes k: "keyed E" and r: "record_rows pid rp E E1" and pr: "parked_rows pid P E1 E'"
  shows "parked_rows pid (insert rp P) E E' \<and> keyed E1"
proof (cases "\<exists>e. E pid rp = Some e \<and> both_sides e")
  case False
  then have "E1 = E" using r by (auto simp: record_rows_def split: option.splits if_splits)
  with pr k False show ?thesis unfolding parked_rows_def by (metis insert_iff)
next
  case True
  then obtain e t where e: "E pid rp = Some e" "both_sides e" "E1 = upd_entry E (in_conflict t e)"
    using r by (auto simp: record_rows_def)
  have key: "fe_pair_id e = pid" "fe_relative_path e = rp" using k e(1) by (auto simp: keyed_def)
  have E1: "E1 p r = (if p = pid \<and> r = rp then Some (in_conflict t e) else E p r)" for p r
    using e(3) key by (simp add: upd_entry_apply)
  have bs: "both_sides (in_conflict t e) = both_sides e" by (simp add: both_sides_def)
  have "parked_rows pid (insert rp P) E E'"
    unfolding parked_rows_def
  proof (intro allI)
    fix p r
    have pr': "if p = pid \<and> r \<in> P \<and> (\<exists>e. E1 p r = Some e \<and> both_sides e)
            then (\<exists>e t. E1 p r = Some e \<and> E' p r = Some (in_conflict t e)) else E' p r = E1 p r"
      using pr unfolding parked_rows_def by blast
    show "if p = pid \<and> r \<in> insert rp P \<and> (\<exists>e. E p r = Some e \<and> both_sides e)
            then (\<exists>e t. E p r = Some e \<and> E' p r = Some (in_conflict t e)) else E' p r = E p r"
    proof (cases "p = pid \<and> r = rp")
      case True
      with pr' E1 e bs show ?thesis by (auto split: if_splits)
    next
      case False
      with pr' E1 show ?thesis by auto
    qed
  qed
  with k e(3) show ?thesis by simp
qed

context entry_view
begin

lemma resolve_loop_spec:
  "resolve_loop cx run kept ds ops w = (Inr (ds', ops'), w') \<Longrightarrow> keyed (entries w) \<Longrightarrow>
     ds' = kept @ filter (\<lambda>d. \<not> is_conflict (d_kind d)) ds
     \<and> parked_rows (cx_pair_id cx) (d_relative_path ` {d \<in> set ds. is_conflict (d_kind d)})
         (entries w) (entries w')"
proof (induction ds arbitrary: kept ops w)
  case Nil
  then show ?case by (auto simp: returnE_def parked_rows_def)
next
  case (Cons d ds)
  show ?case
  proof (cases "is_conflict (d_kind d)")
    case False
    with Cons.IH [of "kept @ [d]" ops w] Cons.prems
    have "ds' = kept @ filter (\<lambda>d. \<not> is_conflict (d_kind d)) (d # ds)"
      and "parked_rows (cx_pair_id cx) (d_relative_path ` {d \<in> set ds. is_conflict (d_kind d)})
         (entries w) (entries w')" by auto
    moreover have "{x \<in> set (d # ds). is_conflict (d_kind x)} = {x \<in> set ds. is_conflict (d_kind x)}"
      using False by auto
    ultimately show ?thesis by simp
  next
    case True
    with Cons.prems(1) have "bindE (record_content_conflict cx d run ops) (resolve_loop cx run kept ds) w
        = (Inr (ds', ops'), w')" by simp
    then obtain ops1 w1 where one: "record_content_conflict cx d run ops w = (Inr ops1, w1)"
      and rest: "resolve_loop cx run kept ds ops1 w1 = (Inr (ds', ops'), w')" by (rule bindE_InrE)
    have rr: "record_rows (cx_pair_id cx) (d_relative_path d) (entries w) (entries w1)"
      using hoare_InrD [OF hoare_record refl one] .
    have k1: "keyed (entries w1)"
      using Cons.prems(2) rr by (auto simp: record_rows_def split: option.splits if_splits)
    have ih: "ds' = kept @ filter (\<lambda>d. \<not> is_conflict (d_kind d)) ds"
      "parked_rows (cx_pair_id cx) (d_relative_path ` {d \<in> set ds. is_conflict (d_kind d)}) (entries w1) (entries w')"
      using Cons.IH [OF rest k1] by auto
    have "{x \<in> set (d # ds). is_conflict (d_kind x)} = insert d {x \<in> set ds. is_conflict (d_kind x)}"
      using True by auto
    then have "parked_rows (cx_pair_id cx) (d_relative_path ` {x \<in> set (d # ds). is_conflict (d_kind x)})
        (entries w) (entries w')"
      using record_then_parked [OF Cons.prems(2) rr ih(2)] by (simp only: image_insert)
    with ih(1) True show ?thesis by simp
  qed
qed

end

text \<open>
  C12: Resolving conflicts drains and parks them: the decisions that remain are the others, in
  order; every conflicting path whose row knows both sides is parked as a pending conflict
  with both sides kept; and no other row changes.  So the next reconciliation of a parked path
  with a live remote item does nothing; a tombstone is not covered by the parking: the
  reconciliation of a parked path with it still decides to delete the local copy.
  Over the in-memory store.
\<close>
theorem conflicts_are_parked:
  assumes "phase_resolve_conflicts (mem_ctx c) ds run ops w = (Inr (ds', ops'), w')"
    and "wf_store (mw_store w)"
  shows "ds' = filter (\<lambda>d. \<not> is_conflict (d_kind d)) ds
    \<and> parked_rows (cx_pair_id c) (d_relative_path ` {d \<in> set ds. is_conflict (d_kind d)})
        (mem_entries w) (mem_entries w')
    \<and> (\<forall>t e item. reconcile_kind (Some (in_conflict t e)) (Some item) = DNoOp
         \<and> reconcile_kind (Some (in_conflict t e)) None = DLocalDelete)"
proof -
  have "resolve_loop (mem_ctx c) run [] ds ops w = (Inr (ds', ops'), w')"
    using assms(1) by (simp add: phase_resolve_conflicts_def)
  from mem.resolve_loop_spec [OF this keyed_mem_entries [OF assms(2)]] show ?thesis
    by (simp add: reconcile_kind_def reconcile_both_def is_action_blocking_def)
qed

section \<open>The record of a conflict and its operations\<close>

definition conflict_op_group ::
  "sync_run_id \<Rightarrow> conflict \<Rightarrow> file_op_id \<Rightarrow> file_op_id \<Rightarrow> timestamp \<Rightarrow> file_op list" where
  "conflict_op_group run cf i j t =
     op_with i run (cf_pair_id cf) (cf_relative_path cf) LocalRename (rename_meta (cf_loser_relative_path cf)) t
     # (case fs_remote_item_id (cf_remote_side cf) of
          None \<Rightarrow> []
        | Some x \<Rightarrow> [op_with j run (cf_pair_id cf) (cf_relative_path cf) Download (download_meta x) t])"

lemma mem_conflict_calls [mem_calls]:
  "st_conflict_insert (cx_state (mem_ctx c)) cf w =
     (Inr (), w\<lparr>mw_store := (mw_store w)\<lparr>ms_conflicts := AList.update (cf_id cf) cf (ms_conflicts (mw_store w))\<rparr>\<rparr>)"
  "mem_conflicts (mem_put e w) = mem_conflicts w" "mem_conflicts (w\<lparr>mw_ext := x\<rparr>) = mem_conflicts w"
  "mem_conflicts (w\<lparr>mw_store := s\<lparr>ms_conflicts := AList.update i cf t\<rparr>\<rparr>) i = Some cf"
  by (simp_all add: mem_ctx_state mem_state_store_def on_store_def mem_conflict_insert_def
      mem_conflicts_def mem_put_def mem_file_entry_upsert_def Let_def fun_eq_iff update_conv)

text \<open>
  A content conflict is recorded before it is acted on, and acted on in the safe order:
  an open conflict row with both sides, the winner of the policy and the loser's new path is
  in the store; a local winner plans nothing; a remote winner plans the rename of the local
  copy to the loser's path and, after it, the download of the remote item onto the path.
\<close>
theorem content_conflict_recorded:
  assumes "record_content_conflict (mem_ctx c) d run ops w = (Inr ops', w')"
    and "mem_entries w (cx_pair_id c) (d_relative_path d) = Some e"
    and "fe_local e = Some l" and "fe_remote e = Some r"
  shows "\<exists>cf. mem_conflicts w' (cf_id cf) = Some cf
    \<and> cf_pair_id cf = cx_pair_id c \<and> cf_relative_path cf = d_relative_path d
    \<and> cf_local_side cf = l \<and> cf_remote_side cf = r \<and> cf_resolved_at cf = None
    \<and> pick_winner_and_loser (cx_lib c) (fs_mtime l) (fs_mtime r) (d_relative_path d) (cx_host_name c)
         (cf_detected_at cf) 0
       = Inr \<lparr>co_winner = cf_winner cf, co_loser_path = cf_loser_relative_path cf\<rparr>
    \<and> (cf_winner cf = SideLocal \<and> ops' = ops
       \<or> cf_winner cf = SideRemote \<and> (\<exists>i j t. ops' = ops @ conflict_op_group run cf i j t))"
proof -
  define now where "now = fst (rt_now (cx_runtime c) (mw_ext w))"
  obtain oc where oc: "pick_winner_and_loser (cx_lib c) (fs_mtime l) (fs_mtime r) (d_relative_path d)
      (cx_host_name c) now 0 = Inr oc"
    and st: "store_conflict (mem_ctx c) d run ops now e l r oc
      (w\<lparr>mw_ext := snd (rt_now (cx_runtime c) (mw_ext w))\<rparr>) = (Inr ops', w')"
    using assms
    by (auto simp: record_content_conflict_def io_simps port_call_defs mem_calls now_def
        split: sum.splits)
  define w0 where "w0 = w\<lparr>mw_ext := snd (rt_now (cx_runtime c) (mw_ext w))\<rparr>"
  define cid :: conflict_id where "cid = Id (fst (rt_new_ulid (cx_runtime c) (mw_ext w0)))"
  let ?cf = "content_conflict cid (cx_pair_id c) (d_relative_path d) oc l r now"
  have "mem_conflicts w' cid = Some ?cf \<and> (co_winner oc = SideLocal \<and> ops' = ops
       \<or> co_winner oc = SideRemote \<and> (\<exists>i j t. ops' = ops @ conflict_op_group run ?cf i j t))"
    using st [folded w0_def]
    by (cases "co_winner oc")
       (auto simp: store_conflict_def io_simps port_call_defs new_id_def mem_calls cid_def
        content_conflict_def push_remote_winner_conflict_ops_def conflict_op_group_def Let_def
        split: option.splits)
  with oc show ?thesis
    by (intro exI [of _ ?cf]) (auto simp: content_conflict_def)
qed

lemma op_with_simps [simp]:
  "op_kind (op_with i run pid rp k m t) = k" "op_metadata (op_with i run pid rp k m t) = m"
  "op_relative_path (op_with i run pid rp k m t) = rp" "op_pair_id (op_with i run pid rp k m t) = pid"
  by (simp_all add: op_with_def)

lemma conflict_meta_simps [simp]:
  "json_get_str (rename_meta loser) ''new_path'' = Some (rel_str loser)"
  "json_get_bool (rename_meta loser) ''from_conflict'' = Some True"
  "json_get_str (download_meta x) ''remote_item_id'' = Some (drive_item_id_str x)"
  "json_get_bool (download_meta x) ''from_conflict'' = None"
  "json_get_str (remote_rename_meta item nm) ''remote_item_id'' = Some item"
  "json_get_str (remote_rename_meta item nm) ''new_name'' = Some nm"
  "json_get_bool (remote_rename_meta item nm) ''from_conflict'' = Some True"
  by (simp_all add: rename_meta_def download_meta_def remote_rename_meta_def json_get_str_def json_get_bool_def)

text \<open>
  The operations of a conflict and of a case collision carry what their execution needs:
  the rename moves the file of the path to the loser's path, the download fetches the
  recorded remote item onto the path, the remote rename gives the recorded item its new name;
  and the renames carry the mark that keeps their file entry untouched.
\<close>
theorem conflict_ops_carry_their_targets:
  "execute L (op_with i run pid rp LocalRename (rename_meta loser) t) lroot fs rd
     = bindE (resultE (join_path lroot (rel_str rp))) (\<lambda>src.
       bindE (resultE (join_path lroot (rel_str loser))) (\<lambda>dst.
       bindE (map_errE ExLocal (lf_rename fs src dst)) (\<lambda>_. returnE Success)))
   \<and> execute L (op_with i run pid rp Download (download_meta x) t) lroot fs rd
     = bindE (map_errE ExRemote (rd_download rd (RemoteItemId (drive_item_id_str x)))) (\<lambda>bytes.
       bindE (resultE (join_path lroot (rel_str rp))) (\<lambda>p.
       bindE (map_errE ExLocal (lf_write_atomic fs p bytes)) (\<lambda>_. returnE Success)))
   \<and> execute L (op_with i run pid rp RemoteRename (remote_rename_meta item nm) t) lroot fs rd
     = bindE (map_errE ExRemote (rd_rename rd (RemoteItemId item) nm)) (\<lambda>_. returnE Success)
   \<and> from_conflict (op_with i run pid rp LocalRename (rename_meta loser) t)
   \<and> \<not> from_conflict (op_with i run pid rp Download (download_meta x) t)
   \<and> from_conflict (op_with i run pid rp RemoteRename (remote_rename_meta item nm) t)"
  by (simp add: execute_def execute_kind_defs require_meta_str_def unwrap_or_default_def
      from_conflict_def Let_def io_simps fun_eq_iff)

text \<open>
  The remote side of a conflict carries the time it was observed, not the time the item
  was modified: against a local file that was last modified no later than one second after
  the observation the remote side always wins, whenever it was itself modified.
\<close>
theorem observed_remote_wins:
  assumes "pick_winner_and_loser L (fs_mtime l) (fs_mtime (remote_side_from_item item t)) rp host now n = Inr oc"
    and "fs_mtime l \<le> t + 1000000000"
  shows "co_winner oc = SideRemote"
proof -
  have "diff_ms (fs_mtime l) t \<le> 1000" if "fs_mtime l > t"
    using that assms(2) by (simp add: diff_ms_def nat_le_iff)
  with assms(1) show ?thesis
    by (auto simp: pick_winner_and_loser_def remote_side_from_item_def CONFLICT_MTIME_TOLERANCE_MS_def
        split: sum.splits if_splits)
qed

section \<open>Concrete runs\<close>

theorem observed_remote_wins_witness:
  "\<exists>oc. pick_winner_and_loser ascii_lib 500 0 (RelPath ''a'') ''mac'' 0 0 = Inr oc \<and> co_winner oc = SideRemote"
proof -
  have "\<exists>q. build_loser_path ascii_lib (RelPath ''a'') ''mac'' 0 0 = Inr q"
    by (simp add: build_loser_path_eq rel_path_from_str_Inr wf_path_def starts_with_char_def MAX_PATH_BYTES_def
        loser_path_str_def loser_name_def split_dir_file_def split_stem_ext_def ascii_lib_def)
  then obtain oc where oc: "pick_winner_and_loser ascii_lib 500 0 (RelPath ''a'') ''mac'' 0 0 = Inr oc"
    by (auto simp: pick_winner_and_loser_def)
  let ?l = "synthetic_remote_side\<lparr>fs_mtime := 500\<rparr>"
  from oc have "pick_winner_and_loser ascii_lib (fs_mtime ?l)
      (fs_mtime (remote_side_from_item (sample_item ''i'' ''a'' 1 None) 0)) (RelPath ''a'') ''mac'' 0 0 = Inr oc"
    by (simp add: remote_side_from_item_def)
  from observed_remote_wins [OF this] oc show ?thesis by simp
qed

definition conflict_store :: mem_store where
  "conflict_store = one_row_store (sample_row Dirty (Some synthetic_remote_side)
     (Some (remote_side_from_item (sample_item ''i'' ''a.bin'' 5 None) 0)) None)"

definition conflict_decision :: decision where
  "conflict_decision = \<lparr>d_pair_id = Id 1, d_relative_path = RelPath ''d/a.bin'', d_kind = DConflictDetected\<rparr>"

lemma conflict_store_row:
  "mem_entries (log_world conflict_store) (Id 1) (RelPath ''d/a.bin'')
     = Some (sample_row Dirty (Some synthetic_remote_side)
         (Some (remote_side_from_item (sample_item ''i'' ''a.bin'' 5 None) 0)) None)"
  by (simp add: conflict_store_def one_row_entries sample_row_def)

lemma sample_winner:
  "\<exists>q. pick_winner_and_loser ascii_lib 0 0 (RelPath ''d/a.bin'') ''mac'' 1000 0
     = Inr \<lparr>co_winner = SideRemote, co_loser_path = q\<rparr>"
proof -
  have "\<exists>q. build_loser_path ascii_lib (RelPath ''d/a.bin'') ''mac'' 1000 0 = Inr q"
    by (simp add: build_loser_path_eq rel_path_from_str_Inr wf_path_def starts_with_char_def MAX_PATH_BYTES_def
        loser_path_str_def loser_name_def split_dir_file_def split_stem_ext_def ascii_lib_def)
  then show ?thesis by (auto simp: pick_winner_and_loser_def diff_ms_def)
qed

lemma record_sample:
  "\<exists>ops' w'. record_content_conflict (mem_ctx log_ctx) conflict_decision (Id 9) [] (log_world conflict_store)
     = (Inr ops', w')"
proof -
  obtain q where q: "pick_winner_and_loser ascii_lib 0 0 (RelPath ''d/a.bin'') ''mac'' 1000 0
     = Inr \<lparr>co_winner = SideRemote, co_loser_path = q\<rparr>" using sample_winner by blast
  have m: "fs_mtime synthetic_remote_side = 0" "fs_mtime (remote_side_from_item i 0) = 0" for i
    by (simp_all add: synthetic_remote_side_def remote_side_from_item_def)
  have c: "cx_lib log_ctx = ascii_lib" "cx_host_name log_ctx = ''mac''" "cx_pair_id log_ctx = Id 1"
    "fst (rt_now (cx_runtime log_ctx) x) = 1000" for x
    by (simp_all add: log_ctx_def log_runtime_def)
  have "sure (store_conflict (mem_ctx log_ctx) d run ops now e l r oc) (\<lambda>_. True)" for d run ops now e l r oc
    unfolding store_conflict_def push_remote_winner_conflict_ops_def Let_def
    by (auto intro!: sure_rules mem_sure split: option.split)
  then show ?thesis
    by (simp add: record_content_conflict_def io_simps port_call_defs mem_calls conflict_decision_def
        conflict_store_row c m q sample_row_def sure_def)
qed

theorem content_conflict_recorded_witness:
  "\<exists>ops' w' cf. record_content_conflict (mem_ctx log_ctx) conflict_decision (Id 9) [] (log_world conflict_store)
     = (Inr ops', w') \<and> mem_conflicts w' (cf_id cf) = Some cf \<and> cf_relative_path cf = RelPath ''d/a.bin''"
proof -
  obtain ops' w' where r: "record_content_conflict (mem_ctx log_ctx) conflict_decision (Id 9) []
      (log_world conflict_store) = (Inr ops', w')" using record_sample by blast
  have "mem_entries (log_world conflict_store) (cx_pair_id log_ctx) (d_relative_path conflict_decision)
    = Some (sample_row Dirty (Some synthetic_remote_side)
         (Some (remote_side_from_item (sample_item ''i'' ''a.bin'' 5 None) 0)) None)"
    using conflict_store_row by (simp add: log_ctx_def conflict_decision_def)
  from content_conflict_recorded [OF r this] r show ?thesis
    by (fastforce simp: sample_row_def conflict_decision_def)
qed

theorem conflicts_are_parked_witness:
  "\<exists>ops' w' t e. phase_resolve_conflicts (mem_ctx log_ctx) [conflict_decision] (Id 9) [] (log_world conflict_store)
     = (Inr ([], ops'), w') \<and> mem_entries w' (Id 1) (RelPath ''d/a.bin'') = Some (in_conflict t e)"
proof -
  obtain ops1 w1 where "record_content_conflict (mem_ctx log_ctx) conflict_decision (Id 9) []
      (log_world conflict_store) = (Inr ops1, w1)" using record_sample by blast
  then have r: "phase_resolve_conflicts (mem_ctx log_ctx) [conflict_decision] (Id 9) [] (log_world conflict_store)
     = (Inr ([], ops1), w1)"
    by (simp add: phase_resolve_conflicts_def conflict_decision_def bindE_def returnE_def)
  have "wf_store (mw_store (log_world conflict_store))"
    by (simp add: log_world_def conflict_store_def one_row_store_def wf_store_def mem_file_entry_upsert_def
        empty_store_def wf_table_def entry_key_def Let_def)
  moreover have "{d \<in> set [conflict_decision]. is_conflict (d_kind d)} = {conflict_decision}"
    by (auto simp: conflict_decision_def)
  ultimately have "parked_rows (cx_pair_id log_ctx) (d_relative_path ` {conflict_decision})
      (mem_entries (log_world conflict_store)) (mem_entries w1)"
    using conflicts_are_parked [OF r] by (simp only:)
  then have "parked_rows (Id 1) {RelPath ''d/a.bin''} (mem_entries (log_world conflict_store)) (mem_entries w1)"
    by (simp add: conflict_decision_def log_ctx_def)
  from this [unfolded parked_rows_def, rule_format, of "Id 1" "RelPath ''d/a.bin''"]
  obtain t e where "mem_entries w1 (Id 1) (RelPath ''d/a.bin'') = Some (in_conflict t e)"
    by (auto simp: conflict_store_row both_sides_def sample_row_def)
  with r show ?thesis by blast
qed

text \<open>The first attempt of an operation waits for nothing.\<close>

lemma attempt_zero:
  "attempt_loop cx op 0 =
     bindE (liftE (random_jitter (cx_runtime cx) 0)) (\<lambda>_.
     bindE (tryE (execute (cx_lib cx) (op\<lparr>op_attempts := 1\<rparr>) (cx_local_root cx) (cx_local cx) (cx_remote cx))) (\<lambda>r.
     case r of
       Inr status \<Rightarrow> finish_executed cx (op\<lparr>op_attempts := 1\<rparr>) status
     | Inl e \<Rightarrow>
         if is_retriable e then
           bindE (throttle_pause cx e) (\<lambda>_. attempt_loop cx (op\<lparr>op_attempts := 1\<rparr>) 1)
         else finish_failed cx (op\<lparr>op_attempts := 1\<rparr>) e))"
proof -
  have zero: "retry_decision 0 j = RetryImmediate" for j by simp
  have bind: "bindE (returnE ()) f = f ()" for f :: "unit \<Rightarrow> ('w, engine_error, bool) io"
    by (simp add: bindE_def returnE_def)
  show ?thesis
    unfolding attempt_loop.simps [of cx op 0] zero backoff_pause_def Let_def add_0
    by (simp add: bind del: One_nat_def)
qed

lemma mem_op_calls:
  "st_op_insert (cx_state (mem_ctx c)) op w = (Inr (), w\<lparr>mw_store := snd (mem_op_insert op (mw_store w))\<rparr>)"
  "st_op_update_status (cx_state (mem_ctx c)) i st n w =
     (Inr (), w\<lparr>mw_store := snd (mem_op_update_status i st n (mw_store w))\<rparr>)"
  by (simp_all add: mem_ctx_state mem_state_store_def on_store_def mem_op_insert_def mem_op_update_status_def)

text \<open>A file system that refuses every rename.\<close>

definition no_rename_ctx :: "call_log cycle_ctx" where
  "no_rename_ctx = log_ctx\<lparr>cx_local := (log_fs [7])\<lparr>lf_rename := (\<lambda>p q w. (Inl LfDiskFull, w))\<rparr>\<rparr>"

definition sample_conflict :: conflict where
  "sample_conflict = content_conflict (Id 3) (Id 1) (RelPath ''a'')
     \<lparr>co_winner = SideRemote, co_loser_path = RelPath ''b''\<rparr> synthetic_remote_side
     (remote_side_from_item (sample_item ''i'' ''a'' 5 None) 0) 0"

text \<open>
  The operations of a conflict group are executed independently: when the rename that is
  to save the local copy fails for good, the download still runs and replaces the local file.
\<close>
theorem download_runs_after_failed_rename:
  "\<exists>w'. phase_execute (mem_ctx no_rename_ctx) (conflict_op_group (Id 9) sample_conflict (Id 5) (Id 6) 0)
       (log_world empty_store) = (Inr (1, 1), w')
     \<and> ''write /r/a'' \<in> set (mw_ext w')"
proof -
  have j: "join_path (AbsPath ''/r'') ''a'' = Inr (AbsPath ''/r/a'')"
      "join_path (AbsPath ''/r'') ''b'' = Inr (AbsPath ''/r/b'')"
    by (simp_all add: join_path_def join_str_def abs_path_from_str_def validate_common_def
        starts_with_char_def MAX_PATH_BYTES_def)
  show ?thesis
    by (simp add: phase_execute_def conflict_op_group_def sample_conflict_def content_conflict_def
        remote_side_from_item_def sample_item_def run_op_def attempt_zero io_simps mem_calls mem_op_calls
        execute_def execute_kind_defs require_meta_str_def unwrap_or_default_def j log_world_def
        no_rename_ctx_def log_ctx_def ext_local_def ext_remote_def on_ext_def log_fs_def log_rd_def Let_def
        finish_failed_def finish_executed_def write_status_def emit_op_failed_def port_call_defs new_id_def
        log_runtime_def random_jitter_def update_file_entry_post_op_def from_conflict_def
        split: option.split)
qed

end
