(* ===== verification/Cycle.thy ===== *)
theory Cycle
  imports Conflict_Phase
begin

text \<open>
  One sync cycle of a pair (\<open>engine/cycle.rs\<close>: \<open>run_cycle\<close>): the phases in their order, the
  advance of the delta cursor, the record of the run and the audit events around them.
  \<open>cycle_decide\<close> is the function up to the planned operations, \<open>cycle_execute\<close> the rest.
\<close>

section \<open>The cycle\<close>

definition advance_cursor :: "'w cycle_ctx \<Rightarrow> delta_cursor option \<Rightarrow> ('w, engine_error, unit) io" where
  "advance_cursor cx delta_token =
     bindE (state_call (st_pair_get (cx_state cx) (cx_pair_id cx))) (\<lambda>found.
     case found of
       None \<Rightarrow> returnE ()
     | Some pr \<Rightarrow>
         if pr_delta_token pr \<noteq> delta_token then
           bindE (clock_now cx) (\<lambda>t.
           state_call (st_pair_upsert (cx_state cx)
             (pr\<lparr>pr_delta_token := delta_token, pr_updated_at := t\<rparr>)))
         else returnE ())"

record cycle_plan =
  cp_items_seen :: nat
  cp_local_events :: nat
  cp_conflicts :: nat
  cp_delta_token :: "delta_cursor option"
  cp_ops :: "file_op list"

definition cycle_decide :: "'w cycle_ctx \<Rightarrow> sync_run_id \<Rightarrow> timestamp \<Rightarrow> ('w, engine_error, cycle_plan) io" where
  "cycle_decide cx run_id now =
     bindE (phase_delta_reconcile cx) (\<lambda>delta.
     bindE (advance_cursor cx (do_delta_token delta)) (\<lambda>_.
     let decisions = da_decisions delta;
         remote_paths = set (map d_relative_path decisions) in
     bindE (phase_local_uploads cx remote_paths (da_by_path delta)) (\<lambda>loc.
     let decisions = decisions @ lo_decisions loc;
         conflicts_detected = da_conflicts delta + lo_collisions_recorded loc in
     bindE (apply_initial_sync_collisions cx decisions (lo_initial_collisions loc)) (\<lambda>(decisions, n).
     let conflicts_detected = conflicts_detected + n in
     bindE (phase_resolve_conflicts cx decisions run_id []) (\<lambda>(decisions, conflict_ops).
     bindE (liftE (plan (cx_runtime cx) decisions run_id now)) (\<lambda>ops.
     bindE (build_remote_rename_ops cx run_id now (da_renames delta)) (\<lambda>rename_ops.
     returnE \<lparr>cp_items_seen = do_items_seen delta, cp_local_events = lo_events_seen loc,
              cp_conflicts = conflicts_detected, cp_delta_token = do_delta_token delta,
              cp_ops = ops @ conflict_ops @ rename_ops\<rparr>)))))))"

definition outcome_detail :: "nat \<Rightarrow> nat \<Rightarrow> string option" where
  "outcome_detail applied failed =
     (if failed > 0
      then Some (show_nat failed @ '' op(s) failed of '' @ show_nat (applied + failed) @ '' attempted'')
      else None)"

definition run_row ::
  "'w cycle_ctx \<Rightarrow> sync_run_id \<Rightarrow> timestamp \<Rightarrow> timestamp \<Rightarrow> nat \<Rightarrow> nat \<Rightarrow> sync_run" where
  "run_row cx run_id started_at finished_at applied failed =
     \<lparr>sr_id = run_id, sr_pair_id = cx_pair_id cx, sr_trigger = cx_trigger cx,
      sr_started_at = started_at, sr_finished_at = Some finished_at,
      sr_local_ops = word_of_nat applied, sr_remote_ops = 0, sr_bytes_uploaded = 0,
      sr_bytes_downloaded = 0, sr_outcome = Some (classify_outcome applied failed),
      sr_outcome_detail = outcome_detail applied failed\<rparr>"

definition cycle_execute ::
  "'w cycle_ctx \<Rightarrow> sync_run_id \<Rightarrow> timestamp \<Rightarrow> cycle_plan \<Rightarrow> ('w, engine_error, cycle_summary) io" where
  "cycle_execute cx run_id started_at pl =
     bindE (phase_execute cx (cp_ops pl)) (\<lambda>(applied, failed).
     bindE (clock_now cx) (\<lambda>finished_at.
     bindE (state_call (st_run_record (cx_state cx)
              (run_row cx run_id started_at finished_at applied failed))) (\<lambda>_.
     let summary = \<lparr>cs_remote_items_seen = cp_items_seen pl, cs_local_events_seen = cp_local_events pl,
                    cs_ops_applied = applied, cs_conflicts_detected = cp_conflicts pl,
                    cs_delta_token = cp_delta_token pl\<rparr> in
     bindE (fresh_id cx) (\<lambda>evid.
     bindE (emit cx (cycle_finished evid finished_at (cx_pair_id cx)
              (cs_ops_applied summary) (cs_conflicts_detected summary))) (\<lambda>_.
     returnE summary)))))"

text \<open>The beginning of the function: the id and the start time of the run.\<close>

definition cycle_start :: "'w cycle_ctx \<Rightarrow> ('w, engine_error, sync_run_id \<times> timestamp) io" where
  "cycle_start cx =
     bindE (clock_now cx) (\<lambda>now.
     bindE (fresh_id cx) (\<lambda>run_id.
     bindE (fresh_id cx) (\<lambda>evid.
     bindE (emit cx (cycle_started evid now (cx_pair_id cx))) (\<lambda>_.
     returnE (run_id, now)))))"

definition run_cycle :: "'w cycle_ctx \<Rightarrow> ('w, engine_error, cycle_summary) io" where
  "run_cycle cx =
     bindE (cycle_start cx) (\<lambda>(run_id, now).
     bindE (cycle_decide cx run_id now) (cycle_execute cx run_id now))"

section \<open>Which operations a cycle can plan\<close>

text \<open>\<open>yields m P\<close>: every value that \<open>m\<close> returns has \<open>P\<close>.\<close>

named_theorems yields_rules \<open>composition rules for properties of returned values\<close>

definition yields :: "('w, 'e, 'a) io \<Rightarrow> ('a \<Rightarrow> bool) \<Rightarrow> bool" where
  "yields m P \<longleftrightarrow> (\<forall>w x w'. m w = (Inr x, w') \<longrightarrow> P x)"

lemma yieldsD: "yields m P \<Longrightarrow> m w = (Inr x, w') \<Longrightarrow> P x"
  unfolding yields_def by blast

lemma yields_return [yields_rules]: "P x \<Longrightarrow> yields (returnE x) P"
  by (simp add: yields_def returnE_def)

lemma yields_throw [yields_rules]: "yields (throwE e) P"
  by (simp add: yields_def throwE_def)

lemma yields_bind:
  assumes "yields m Q" and "\<And>x. Q x \<Longrightarrow> yields (f x) P"
  shows "yields (bindE m f) P"
  unfolding yields_def
proof (intro allI impI)
  fix w x w'
  assume "bindE m f w = (Inr x, w')"
  then obtain y w1 where "m w = (Inr y, w1)" "f y w1 = (Inr x, w')" by (rule bindE_InrE)
  with assms show "P x" unfolding yields_def by blast
qed

lemma yields_bind_any [yields_rules]: "(\<And>x. yields (f x) P) \<Longrightarrow> yields (bindE m f) P"
  by (rule yields_bind [where Q = "\<lambda>_. True"]) (auto simp: yields_def)

lemma yields_lift: "(\<And>w. P (fst (f w))) \<Longrightarrow> yields (liftE f) P"
  by (auto simp: yields_def liftE_def split: prod.splits) (metis fst_conv)

lemma yields_weaken: "yields m Q \<Longrightarrow> (\<And>x. Q x \<Longrightarrow> P x) \<Longrightarrow> yields m P"
  by (auto simp: yields_def)

text \<open>The decisions of the delta phase and the operations of a cycle.\<close>

definition delta_kind :: "decision_kind \<Rightarrow> bool" where
  "delta_kind k \<longleftrightarrow> k \<in> {DNoOp, DDownload, DLocalMkdir, DLocalDelete, DUpload, DRemoteMkdir, DConflictDetected}"

abbreviation delta_kinds :: "decision list \<Rightarrow> bool" where
  "delta_kinds ds \<equiv> \<forall>d \<in> set ds. delta_kind (d_kind d)"

lemma delta_kind_simps [simp]: "delta_kind (upload_kind side)" "delta_kind DConflictDetected"
  by (simp_all add: delta_kind_def upload_kind_def)

lemma reconcile_delta_kind [simp]: "delta_kind (d_kind (reconcile_one pid rp e i))"
  by (auto simp: reconcile_one_def reconcile_kind_def reconcile_both_def delta_kind_def Let_def
      split: option.split bool.split)

lemma yields_observe_item:
  "delta_kinds (da_decisions acc) \<Longrightarrow>
     yields (observe_item cx rp item e rn acc) (\<lambda>acc. delta_kinds (da_decisions acc))"
  unfolding observe_item_def Let_def by (auto intro!: yields_rules)

lemma yields_delta_item:
  "delta_kinds (da_decisions acc) \<Longrightarrow>
     yields (delta_item cx col item acc) (\<lambda>acc. delta_kinds (da_decisions acc))"
  unfolding delta_item_def
  by (auto intro!: yields_rules yields_observe_item split: option.split prod.split)

lemma yields_delta_loop:
  "delta_kinds (da_decisions acc) \<Longrightarrow>
     yields (delta_loop cx col items acc) (\<lambda>acc. delta_kinds (da_decisions acc))"
  by (induction items arbitrary: acc)
     (auto intro!: yields_return yields_bind [OF yields_delta_item])

lemma yields_phase_delta: "yields (phase_delta_reconcile cx) (\<lambda>out. delta_kinds (da_decisions out))"
  unfolding phase_delta_reconcile_def Let_def
  by (rule yields_bind_any, rule yields_bind_any, rule yields_bind [OF yields_delta_loop])
     (auto intro!: yields_rules)

lemma yields_local_entry:
  "delta_kinds (lo_decisions acc) \<Longrightarrow>
     yields (local_entry cx decided by_path x acc) (\<lambda>acc. delta_kinds (lo_decisions acc))"
  unfolding local_entry_def queue_upload_def Let_def
  by (auto intro!: yields_rules split: option.split prod.split)

lemma yields_local_loop:
  "delta_kinds (lo_decisions acc) \<Longrightarrow>
     yields (local_loop cx decided by_path xs acc) (\<lambda>acc. delta_kinds (lo_decisions acc))"
  by (induction xs arbitrary: acc)
     (auto intro!: yields_return yields_bind [OF yields_local_entry])

lemma yields_phase_local: "yields (phase_local_uploads cx decided by_path) (\<lambda>out. delta_kinds (lo_decisions out))"
  unfolding phase_local_uploads_def
  by (rule yields_bind_any, rule yields_local_loop) simp

lemma upgrade_first_kinds: "delta_kinds ds \<Longrightarrow> delta_kinds (fst (upgrade_first rel ds))"
  by (induction rel ds rule: upgrade_first.induct) (auto split: prod.splits)

lemma yields_collisions_loop:
  "delta_kinds ds \<Longrightarrow> yields (collisions_loop cx cs ds n) (\<lambda>(ds, _). delta_kinds ds)"
proof (induction cx cs ds n rule: collisions_loop.induct)
  case (1 cx ds n)
  then show ?case by (auto intro: yields_return)
next
  case (2 cx rel side cs ds n)
  obtain ds1 b where u: "upgrade_first rel ds = (ds1, b)" by fastforce
  with upgrade_first_kinds [OF 2(2), of rel] have "delta_kinds ds1" by simp
  with 2(1) [OF u [symmetric] refl] show ?case
    by (auto simp: u Let_def intro!: yields_bind_any)
qed

definition conflict_kind :: "file_op_kind \<Rightarrow> bool" where
  "conflict_kind k \<longleftrightarrow> k = LocalRename \<or> k = Download"

lemma conflict_kind_simps [simp]: "conflict_kind LocalRename" "conflict_kind Download"
  by (simp_all add: conflict_kind_def)

abbreviation conflict_kinds :: "file_op list \<Rightarrow> bool" where
  "conflict_kinds ops \<equiv> \<forall>op \<in> set ops. conflict_kind (op_kind op)"

lemma yields_record:
  "conflict_kinds ops \<Longrightarrow> yields (record_content_conflict cx d run ops) conflict_kinds"
  unfolding record_content_conflict_def store_conflict_def push_remote_winner_conflict_ops_def Let_def
  by (auto intro!: yields_rules split: option.split sum.split)

lemma yields_resolve_loop:
  "delta_kinds kept \<Longrightarrow> delta_kinds ds \<Longrightarrow> conflict_kinds ops \<Longrightarrow>
     yields (resolve_loop cx run kept ds ops) (\<lambda>(ds, ops). delta_kinds ds \<and> conflict_kinds ops)"
  by (induction cx run kept ds ops rule: resolve_loop.induct)
     (auto intro!: yields_return yields_bind [OF yields_record])

lemma yields_rename_ops:
  "yields (build_remote_rename_ops cx run now rs) (\<lambda>ops. \<forall>op \<in> set ops. op_kind op = RemoteRename)"
proof (induction cx run now rs rule: build_remote_rename_ops.induct)
  case (2 cx run now path item nm rs)
  show ?case
    unfolding build_remote_rename_ops.simps
    by (rule yields_bind_any, rule yields_bind [OF 2], rule yields_return) auto
qed (auto intro: yields_return)

text \<open>The kinds of operations a cycle plans, by their origin.\<close>

definition planned_kind :: "file_op_kind \<Rightarrow> bool" where
  "planned_kind k \<longleftrightarrow> k \<in> {Download, LocalMkdir, LocalDelete, Upload, RemoteMkdir}"

lemma delta_to_planned: "delta_kind k \<Longrightarrow> to_file_op_kind k = Some j \<Longrightarrow> planned_kind j"
  by (auto simp: delta_kind_def planned_kind_def)

lemma decision_keys_planned: "delta_kinds ds \<Longrightarrow> (p, r, k) \<in> set (decision_keys ds) \<Longrightarrow> planned_kind k"
  by (induction ds) (auto split: option.splits dest: delta_to_planned)

lemma plan_kinds:
  assumes "delta_kinds ds" and "op \<in> set (fst (plan rt ds run now w))"
  shows "planned_kind (op_kind op)"
proof -
  obtain ops w' where p: "plan_loop rt run now ds [] [] [] w = (ops, w')"
    by (cases "plan_loop rt run now ds [] [] [] w")
  with assms(2) have "op_key op \<in> set (map op_key ops)" by (simp add: plan_def)
  then have "op_key op \<in> set (decision_keys ds)" using plan_loop_keys [OF p] by auto
  with decision_keys_planned [OF assms(1)] show ?thesis by (simp add: op_key_def)
qed

text \<open>
  A cycle never deletes anything remotely: every operation it plans is a download, a local
  or remote directory, a local deletion, an upload, a rename of a local conflict copy or a
  rename of a remote case-collision loser.  So the deletion of a local file is never
  propagated to the drive.
\<close>
theorem cycle_plans_no_remote_delete:
  assumes "cycle_decide cx run_id now w = (Inr pl, w')"
  shows "\<forall>op \<in> set (cp_ops pl). op_kind op \<noteq> RemoteDelete
    \<and> (planned_kind (op_kind op) \<or> op_kind op = LocalRename \<or> op_kind op = RemoteRename)"
proof -
  have "yields (cycle_decide cx run_id now) (\<lambda>pl. \<forall>op \<in> set (cp_ops pl).
      planned_kind (op_kind op) \<or> op_kind op = LocalRename \<or> op_kind op = RemoteRename)"
    unfolding cycle_decide_def Let_def
  proof (rule yields_bind [OF yields_phase_delta], rule yields_bind_any,
      rule yields_bind [OF yields_phase_local], goal_cases)
    case (1 delta u loc)
    have ds: "delta_kinds (da_decisions delta @ lo_decisions loc)" using 1 by auto
    show ?case
      unfolding apply_initial_sync_collisions_def phase_resolve_conflicts_def
    proof (rule yields_bind [OF yields_collisions_loop [OF ds]], goal_cases)
      case (1 dn)
      obtain ds1 n where dn: "dn = (ds1, n)" by fastforce
      with 1 have d1: "delta_kinds ds1" by simp
      have nil: "delta_kinds []" "conflict_kinds []" by simp_all
      show ?case
        unfolding dn prod.case
      proof (rule yields_bind [OF yields_resolve_loop [OF nil(1) d1 nil(2)]], goal_cases)
        case (1 dc)
        obtain ds2 cops where dc: "dc = (ds2, cops)" by fastforce
        with 1 have d2: "delta_kinds ds2" "conflict_kinds cops" by auto
        have pl: "yields (liftE (plan (cx_runtime cx) ds2 run_id now)) (\<lambda>ops. \<forall>op \<in> set ops. planned_kind (op_kind op))"
          by (rule yields_lift, intro ballI, rule plan_kinds [OF d2(1)])
        show ?case
          unfolding dc prod.case
        proof (rule yields_bind [OF pl], rule yields_bind [OF yields_rename_ops], rule yields_return)
          fix ops rops :: "file_op list"
          assume "\<forall>op \<in> set ops. planned_kind (op_kind op)" "\<forall>op \<in> set rops. op_kind op = RemoteRename"
          with d2(2) show "\<forall>op \<in> set (cp_ops \<lparr>cp_items_seen = do_items_seen delta,
                cp_local_events = lo_events_seen loc, cp_conflicts = da_conflicts delta + lo_collisions_recorded loc + n,
                cp_delta_token = do_delta_token delta, cp_ops = ops @ cops @ rops\<rparr>).
              planned_kind (op_kind op) \<or> op_kind op = LocalRename \<or> op_kind op = RemoteRename"
            by (auto simp: conflict_kind_def planned_kind_def)
        qed
      qed
    qed
  qed
  from yieldsD [OF this assms] have "\<forall>op \<in> set (cp_ops pl).
      planned_kind (op_kind op) \<or> op_kind op = LocalRename \<or> op_kind op = RemoteRename" .
  moreover have "\<not> planned_kind RemoteDelete" by (simp add: planned_kind_def)
  ultimately show ?thesis by fastforce
qed

section \<open>The cursor\<close>

text \<open>
  The calls of the deciding phases, of the execute phase and of a whole cycle leave an
  observation alone; the pair table is not among them.
\<close>

definition decide_frame :: "('w \<Rightarrow> 'b) \<Rightarrow> 'w cycle_ctx \<Rightarrow> bool" where
  "decide_frame v cx \<longleftrightarrow>
     ports_frame v cx
     \<and> (\<forall>p r. frames v (st_file_entry_get (cx_state cx) p r))
     \<and> (\<forall>p r. frames v (st_file_entry_get_ci (cx_state cx) p r))
     \<and> (\<forall>e. frames v (st_file_entry_upsert (cx_state cx) e))
     \<and> (\<forall>cf. frames v (st_conflict_insert (cx_state cx) cf))"

definition exec_frame :: "('w \<Rightarrow> 'b) \<Rightarrow> 'w cycle_ctx \<Rightarrow> bool" where
  "exec_frame v cx \<longleftrightarrow>
     decide_frame v cx
     \<and> (\<forall>op. frames v (st_op_insert (cx_state cx) op))
     \<and> (\<forall>i st n. frames v (st_op_update_status (cx_state cx) i st n))"

definition cycle_frame :: "('w \<Rightarrow> 'b) \<Rightarrow> 'w cycle_ctx \<Rightarrow> bool" where
  "cycle_frame v cx \<longleftrightarrow> exec_frame v cx \<and> (\<forall>row. frames v (st_run_record (cx_state cx) row))"

lemma decide_frameD:
  assumes "decide_frame v cx"
  shows "ports_frame v cx"
    "frames v (st_file_entry_get (cx_state cx) p r)" "frames v (st_file_entry_get_ci (cx_state cx) p r)"
    "frames v (st_file_entry_upsert (cx_state cx) e)" "frames v (st_conflict_insert (cx_state cx) cf)"
  using assms by (simp_all add: decide_frame_def)

lemma decide_frame_calls:
  assumes "decide_frame v cx"
  shows "frames v (clock_now cx)" "frames v (fresh_id cx)" "frames v (emit cx ev)"
    "frames v (rd_delta (cx_remote cx) d cur)" "frames v (lf_scan (cx_local cx) q)"
    "frames v (lf_rename (cx_local cx) q q')" "frames v (emit_warning cx k pl)"
    "frames v (process_remote_case_collisions cx items col)"
    "frames v (skip_for_case_collision cx rp item rn)"
    "frames v (push_remote_winner_conflict_ops cx c run ops)"
  using decide_frameD [OF assms] frames_runtime [of v cx] frames_ports [of v cx]
  by (auto intro: frames_emit_warning frames_process frames_skip frames_push)

lemma exec_frameD:
  assumes "exec_frame v cx"
  shows "decide_frame v cx" "frames v (st_op_insert (cx_state cx) op)"
    "frames v (st_op_update_status (cx_state cx) i st n)"
  using assms by (simp_all add: exec_frame_def)

lemma frames_delta_loop: "decide_frame v cx \<Longrightarrow> frames v (delta_loop cx col items acc)"
proof (induction items arbitrary: acc)
  case (Cons item items)
  have "frames v (delta_item cx col item acc)"
    unfolding delta_item_def observe_item_def Let_def
    by (auto intro!: frame_rules decide_frame_calls [OF Cons.prems] decide_frameD [OF Cons.prems]
        split: option.split prod.split)
  with Cons show ?case by (auto intro!: frames_bind)
qed (auto intro: frames_return)

lemma frames_phase_delta: "decide_frame v cx \<Longrightarrow> frames v (phase_delta_reconcile cx)"
  unfolding phase_delta_reconcile_def Let_def
  by (intro frames_bind frames_remote_call frames_delta_loop frames_return decide_frame_calls)

lemma frames_local_loop: "decide_frame v cx \<Longrightarrow> frames v (local_loop cx dec by_path xs acc)"
proof (induction xs arbitrary: acc)
  case (Cons x xs)
  have "frames v (local_entry cx dec by_path x acc)"
    unfolding local_entry_def queue_upload_def handle_case_collision_def rename_local_loser_def Let_def
    by (auto intro!: frame_rules decide_frame_calls [OF Cons.prems] decide_frameD [OF Cons.prems]
        split: option.split prod.split sum.split)
  with Cons show ?case by (auto intro!: frames_bind)
qed (auto intro: frames_return)

lemma frames_phase_local: "decide_frame v cx \<Longrightarrow> frames v (phase_local_uploads cx dec by_path)"
  unfolding phase_local_uploads_def
  by (intro frames_bind frames_local_call frames_local_loop decide_frame_calls)

lemma frames_collisions_loop: "decide_frame v cx \<Longrightarrow> frames v (collisions_loop cx cs ds n)"
proof (induction cx cs ds n rule: collisions_loop.induct)
  case (2 cx rel side cs ds n)
  obtain ds1 b where u: "upgrade_first rel ds = (ds1, b)" by fastforce
  from 2(1) [OF u [symmetric] refl 2(2)] show ?case
    by (auto simp: u Let_def intro!: frame_rules decide_frame_calls [OF 2(2)] decide_frameD [OF 2(2)]
        split: option.split)
qed (auto intro: frames_return)

lemma frames_resolve_loop: "decide_frame v cx \<Longrightarrow> frames v (resolve_loop cx run kept ds ops)"
proof (induction cx run kept ds ops rule: resolve_loop.induct)
  case (2 cx run kept d ds ops)
  have "frames v (record_content_conflict cx d run ops)"
    unfolding record_content_conflict_def store_conflict_def Let_def
    by (auto intro!: frame_rules decide_frame_calls [OF 2(3)] decide_frameD [OF 2(3)]
        split: option.split sum.split)
  with 2 show ?case by (auto intro!: frames_bind)
qed (auto intro: frames_return)

lemma frames_plan: "ports_frame v cx \<Longrightarrow> frames v (liftE (plan (cx_runtime cx) ds run now))"
proof (rule frames_lift)
  assume "ports_frame v cx"
  then have f: "frames_step v (new_id (cx_runtime cx))" by (simp add: ports_frame_def frames_new_id)
  have "v (snd (plan_loop (cx_runtime cx) run now ds mk del oth w)) = v w" for mk del oth w
    by (induction ds arbitrary: mk del oth w)
       (auto split: option.split prod.split simp: Let_def dest: frames_stepD [OF f])
  then show "frames_step v (plan (cx_runtime cx) ds run now)"
    by (simp add: frames_step_def plan_def)
qed

lemma frames_rename_ops: "ports_frame v cx \<Longrightarrow> frames v (build_remote_rename_ops cx run now rs)"
  by (induction cx run now rs rule: build_remote_rename_ops.induct) (auto intro!: frame_rules)

lemma frames_attempt_loop: "exec_frame v cx \<Longrightarrow> frames v (attempt_loop cx op n)"
proof (induction op n rule: attempt_induct)
  case (1 op n)
  note c = exec_frameD [OF 1(2)] decide_frameD [OF exec_frameD(1) [OF 1(2)]]
    decide_frame_calls [OF exec_frameD(1) [OF 1(2)]]
  have w: "frames v (write_status cx op st msg)" for op st msg
    unfolding write_status_def
    by (auto intro!: frames_bind frames_try frames_return c frames_emit_op_state_failure split: sum.split)
  have f: "frames v (finish_executed cx op st)" "frames v (finish_failed cx op e)" for op st e
    unfolding finish_executed_def finish_failed_def
    by (auto intro!: frames_bind w frames_try frames_post_op c frames_emit_op_failed frames_return
        split: sum.split)
  have j: "frames v (liftE (random_jitter (cx_runtime cx) n))"
    by (intro frames_lift frames_random_jitter c)
  from 1(1) [OF _ 1(2)] show ?case
    unfolding attempt_loop.simps [of cx op n] Let_def
    by (auto intro!: frames_bind j w f frames_pauses c frames_try frames_execute frames_return
        split: sum.split)
qed

lemma frames_phase_execute: "exec_frame v cx \<Longrightarrow> frames v (phase_execute cx ops)"
proof -
  assume c: "exec_frame v cx"
  have "frames v (run_op cx op)" for op
    unfolding run_op_def
    by (auto intro!: frames_bind frames_try frames_return exec_frameD [OF c] decide_frame_calls [OF exec_frameD(1) [OF c]] frames_attempt_loop [OF c]
        frames_emit_op_state_failure decide_frameD [OF exec_frameD(1) [OF c]] split: sum.split)
  then have "frames v (op_loop cx ops a f)" for a f
    by (induction ops arbitrary: a f) (auto intro!: frames_bind frames_return)
  then show ?thesis by (simp add: phase_execute_def)
qed

lemma frames_cycle_execute: "cycle_frame v cx \<Longrightarrow> frames v (cycle_execute cx run now pl)"
  unfolding cycle_execute_def Let_def
  by (auto simp: cycle_frame_def exec_frame_def
      intro!: frames_bind frames_phase_execute frames_state_call frames_return
      intro: decide_frame_calls split: prod.split)

lemma frames_bind_final:
  assumes "m w = (Inr x, w1)" and "\<And>x. frames v (f x)"
  shows "v (snd (bindE m f w)) = v w1"
  using assms by (simp add: bindE_def frames_def)

lemma frames_cycle_start: "decide_frame v cx \<Longrightarrow> frames v (cycle_start cx)"
  unfolding cycle_start_def by (intro frames_bind frames_return decide_frame_calls)

lemma sure_cycle_start: "\<exists>run_id now w0. cycle_start cx w = (Inr (run_id, now), w0)"
proof -
  have "sure (cycle_start cx) (\<lambda>_. True)" unfolding cycle_start_def by (intro sure_rules) simp_all
  then show ?thesis unfolding sure_def by fastforce
qed

text \<open>The rest of \<open>cycle_decide\<close> after the advance of the cursor.\<close>

lemma frames_decide_rest:
  assumes "decide_frame v cx"
  shows "frames v (bindE (phase_local_uploads cx paths by_path) (\<lambda>loc.
     bindE (apply_initial_sync_collisions cx (ds @ lo_decisions loc) (lo_initial_collisions loc)) (\<lambda>(decisions, n).
     bindE (phase_resolve_conflicts cx decisions run_id []) (\<lambda>(decisions, conflict_ops).
     bindE (liftE (plan (cx_runtime cx) decisions run_id now)) (\<lambda>ops.
     bindE (build_remote_rename_ops cx run_id now rns) (\<lambda>rename_ops.
     returnE (g loc n ops conflict_ops rename_ops)))))))"
  unfolding apply_initial_sync_collisions_def phase_resolve_conflicts_def
  using decide_frameD(1) [OF assms]
  by (auto intro!: frames_bind frames_return frames_phase_local frames_collisions_loop frames_resolve_loop
      frames_plan frames_rename_ops assms split: prod.split)

lemma mem_pair_calls [mem_calls]:
  "st_pair_get (cx_state (mem_ctx c)) p w = (Inr (mem_pairs w p), w)"
  "st_pair_upsert (cx_state (mem_ctx c)) pr w =
     (Inr (), w\<lparr>mw_store := snd (mem_pair_upsert pr (mw_store w))\<rparr>)"
  by (simp_all add: mem_ctx_state mem_state_store_def on_store_def mem_pair_get_def
      mem_pair_upsert_def mem_pairs_def)

definition moved_cursor :: "delta_cursor option \<Rightarrow> timestamp \<Rightarrow> pair \<Rightarrow> pair" where
  "moved_cursor tok t pr = pr\<lparr>pr_delta_token := tok, pr_updated_at := t\<rparr>"

definition with_cursor ::
  "pair_id \<Rightarrow> delta_cursor option \<Rightarrow> timestamp \<Rightarrow> (pair_id \<Rightarrow> pair option) \<Rightarrow> pair_id \<Rightarrow> pair option" where
  "with_cursor pid tok t P =
     (case P pid of
        Some pr \<Rightarrow> if pr_delta_token pr \<noteq> tok then P(pr_id pr := Some (moved_cursor tok t pr)) else P
      | None \<Rightarrow> P)"

lemma mem_advance_cursor:
  "\<exists>t w'. advance_cursor (mem_ctx c) tok w = (Inr (), w')
     \<and> mem_pairs w' = with_cursor (cx_pair_id c) tok t (mem_pairs w)"
  by (auto simp: advance_cursor_def with_cursor_def io_simps port_call_defs mem_calls moved_cursor_def mem_pairs_def
      mem_pair_upsert_def fun_eq_iff update_conv split: option.split)

context pair_view
begin

lemma pv_cycle_frame: "cycle_frame pairs cx"
  using pv_op_tables
  by (auto simp: cycle_frame_def exec_frame_def decide_frame_def op_tables_frame_def
      intro: pv_ports pv_entry_get_frame pv_entry_get_ci_frame pv_entry_upsert_frame
        pv_conflict_insert_frame)

lemma pv_decide_frame: "decide_frame pairs cx"
  using pv_cycle_frame by (simp add: cycle_frame_def exec_frame_def)

lemma advance_cursor_effect:
  assumes run: "advance_cursor cx tok w = (r, w')"
  shows "case r of Inl e \<Rightarrow> pairs w' = pairs w \<and> (\<exists>msg. e = EngPort msg)
    | Inr u \<Rightarrow> (\<exists>t. pairs w' = with_cursor (cx_pair_id cx) tok t (pairs w))"
proof -
  obtain x w1 where g: "st_pair_get (cx_state cx) (cx_pair_id cx) w = (x, w1)" by fastforce
  have p1: "pairs w1 = pairs w" by (rule framesD [OF pv_get_frame g])
  show ?thesis
  proof (cases x)
    case (Inl e)
    with run g p1 show ?thesis by (auto simp: advance_cursor_def state_call_def bindE_def map_errE_def)
  next
    case (Inr found)
    with g have f: "found = pairs w (cx_pair_id cx)" using pv_get_value by blast
    show ?thesis
    proof (cases "\<exists>pr. found = Some pr \<and> pr_delta_token pr \<noteq> tok")
      case False
      then have same: "with_cursor (cx_pair_id cx) tok t (pairs w) = pairs w" for t
        using f by (auto simp: with_cursor_def split: option.splits)
      from False run g p1 Inr show ?thesis unfolding same
        by (auto simp: advance_cursor_def state_call_def bindE_def map_errE_def returnE_def split: option.splits if_splits)
    next
      case True
      then obtain pr where pr: "found = Some pr" "pr_delta_token pr \<noteq> tok" by blast
      obtain t w2 where c: "(clock_now cx :: ('w, engine_error, timestamp) io) w1 = (Inr t, w2)"
        by (cases "rt_now (cx_runtime cx) w1") (auto simp: clock_now_def liftE_def)
      have p2: "pairs w2 = pairs w" using framesD [OF frames_runtime(1) [OF pv_ports] c] p1 by simp
      obtain y w3 where u: "st_pair_upsert (cx_state cx) (moved_cursor tok t pr) w2 = (y, w3)" by fastforce
      have "r = (case y of Inl e \<Rightarrow> Inl (EngPort (state_error_display e)) | Inr u \<Rightarrow> Inr ())" "w' = w3"
        using run g Inr pr c u
        by (auto simp: advance_cursor_def state_call_def bindE_def map_errE_def moved_cursor_def [symmetric] split: sum.splits)
      moreover have "pairs w3 = with_cursor (cx_pair_id cx) tok t (pairs w)" if "y = Inr u'" for u'
        using pv_upsert_ok [OF u [unfolded that]] p2 pr f by (simp add: with_cursor_def moved_cursor_def)
      moreover have "pairs w3 = pairs w" if "y = Inl e" for e
        using pv_upsert_failed [OF u [unfolded that]] p2 by simp
      ultimately show ?thesis by (cases y) auto
    qed
  qed
qed

lemma cycle_after_cursor:
  assumes s: "cycle_start cx w = (Inr (run_id, now), w0)"
    and d: "phase_delta_reconcile cx w0 = (Inr out, w1)"
    and a: "advance_cursor cx (do_delta_token out) w1 = (Inr (), w2)"
  shows "pairs (snd (run_cycle cx w)) = pairs w2"
proof -
  have "pairs (snd (cycle_decide cx run_id now w0)) = pairs w2"
    unfolding cycle_decide_def Let_def
    by (subst bindE_def, simp only: d prod.case sum.case,
        rule frames_bind_final [where m = "advance_cursor cx (do_delta_token out)", OF a],
        rule frames_decide_rest [OF pv_decide_frame])
  moreover have "pairs (snd (run_cycle cx w)) = pairs (snd (cycle_decide cx run_id now w0))"
    using frames_cycle_execute [OF pv_cycle_frame, unfolded frames_def]
    by (cases "cycle_decide cx run_id now w0"; cases "fst (cycle_decide cx run_id now w0)")
       (auto simp: run_cycle_def bindE_def s split: prod.split)
  ultimately show ?thesis by simp
qed

end

text \<open>
  C3: The cursor of a pair follows the delta page and nothing else, over any store whose calls
  return and write pair rows as \<open>pair_view\<close> says, and which may refuse any call: when the delta
  phase fails, the cycle fails with its error and no pair changes; when it returns but the
  store refuses to read the pair or to write the new cursor, the cycle fails at that point with
  a port error and no pair changes; otherwise the pair's cursor becomes the page's token and
  stays so, whether the scan, the recording of conflicts, any operation or the record of the
  run fails afterwards.  No other pair and no other field but the update time changes.
\<close>
theorem cursor_follows_delta:
  assumes "pair_view cx pairs"
  shows "\<exists>run_id now w0. cycle_start cx w = (Inr (run_id, now), w0) \<and> pairs w0 = pairs w
     \<and> (case phase_delta_reconcile cx w0 of
          (Inl e, w1) \<Rightarrow> run_cycle cx w = (Inl e, w1) \<and> pairs w1 = pairs w
        | (Inr out, w1) \<Rightarrow>
            (case advance_cursor cx (do_delta_token out) w1 of
               (Inl e, w2) \<Rightarrow> run_cycle cx w = (Inl e, w2) \<and> pairs w2 = pairs w \<and> (\<exists>msg. e = EngPort msg)
             | (Inr _, w2) \<Rightarrow> (\<exists>t. pairs (snd (run_cycle cx w))
                 = with_cursor (cx_pair_id cx) (do_delta_token out) t (pairs w))))"
proof -
  note fr = pair_view.pv_decide_frame [OF assms]
  obtain run_id now w0 where s: "cycle_start cx w = (Inr (run_id, now), w0)"
    using sure_cycle_start [of cx w] by blast
  have p0: "pairs w0 = pairs w" by (rule framesD [OF frames_cycle_start [OF fr] s])
  obtain r w1 where d: "phase_delta_reconcile cx w0 = (r, w1)" by fastforce
  have p1: "pairs w1 = pairs w" using framesD [OF frames_phase_delta [OF fr] d] p0 by simp
  show ?thesis
  proof (cases r)
    case (Inl e)
    with d have "run_cycle cx w = (Inl e, w1)"
      by (simp add: run_cycle_def cycle_decide_def bindE_def s)
    with Inl d s p0 p1 show ?thesis by simp
  next
    case (Inr out)
    obtain y w2 where a: "advance_cursor cx (do_delta_token out) w1 = (y, w2)" by fastforce
    note eff = pair_view.advance_cursor_effect [OF assms a]
    show ?thesis
    proof (cases y)
      case e: (Inl e)
      with d a Inr have "run_cycle cx w = (Inl e, w2)"
        by (simp add: run_cycle_def cycle_decide_def bindE_def s)
      with e eff Inr d s a p0 p1 show ?thesis by simp
    next
      case u: (Inr u)
      have "pairs (snd (run_cycle cx w)) = pairs w2"
        using pair_view.cycle_after_cursor [OF assms s] d a Inr u by simp
      with u eff Inr d s a p0 p1 show ?thesis by simp
    qed
  qed
qed

section \<open>The record of the run\<close>

lemma mem_run_record_call:
  "st_run_record (cx_state (mem_ctx c)) row w =
     (Inr (), w\<lparr>mw_store := snd (mem_run_record row (mw_store w))\<rparr>)"
  by (simp add: mem_ctx_state mem_state_store_def on_store_def mem_run_record_def)

lemma mem_log_tables:
  "decide_frame (\<lambda>w. (ms_sync_runs (mw_store w), ms_file_ops (mw_store w))) (mem_ctx c)"
  "exec_frame (\<lambda>w. ms_sync_runs (mw_store w)) (mem_ctx c)"
  by (auto simp: exec_frame_def decide_frame_def mem_ports_frame [of "\<lambda>s. (ms_sync_runs s, ms_file_ops s)"]
      mem_ports_frame [of ms_sync_runs] mem_ctx_state mem_state_store_def mem_op_defs Let_def
      intro!: on_store_frames)

lemma frames_decide:
  assumes "decide_frame v cx" and "\<And>p. frames v (st_pair_get (cx_state cx) p)"
    and "\<And>pr. frames v (st_pair_upsert (cx_state cx) pr)"
  shows "frames v (cycle_decide cx run_id now)"
proof -
  have "frames v (advance_cursor cx tok)" for tok
    unfolding advance_cursor_def
    by (auto intro!: frame_rules assms decide_frame_calls split: option.split)
  then show ?thesis
    unfolding cycle_decide_def Let_def
    by (intro frames_bind [OF frames_phase_delta [OF assms(1)]] frames_bind [of v "advance_cursor _ _"]
        frames_decide_rest assms(1))
qed

text \<open>Over any store: after the operations, a cycle fails only where the run is recorded.\<close>

lemma run_cycle_ends:
  fixes cx :: "'w cycle_ctx"
  assumes "cycle_start cx w = (Inr (run_id, now), w0)" and "cycle_decide cx run_id now w0 = (Inr pl, w1)"
  shows "\<exists>applied failed finished w2 w3. phase_execute cx (cp_ops pl) w1 = (Inr (applied, failed), w2)
     \<and> applied + failed = length (cp_ops pl) \<and> rt_now (cx_runtime cx) w2 = (finished, w3)
     \<and> (case st_run_record (cx_state cx) (run_row cx run_id now finished applied failed) w3 of
          (Inl er, w4) \<Rightarrow> run_cycle cx w = (Inl (EngPort (state_error_display er)), w4)
        | (Inr _, w4) \<Rightarrow> (\<exists>w'. run_cycle cx w
              = (Inr \<lparr>cs_remote_items_seen = cp_items_seen pl, cs_local_events_seen = cp_local_events pl,
                      cs_ops_applied = applied, cs_conflicts_detected = cp_conflicts pl,
                      cs_delta_token = cp_delta_token pl\<rparr>, w')))"
proof -
  obtain a f w2 where p: "phase_execute cx (cp_ops pl) w1 = (Inr (a, f), w2)"
    and n: "a + f = length (cp_ops pl)"
    using sure_op_loop [of cx "cp_ops pl" 0 0] by (fastforce simp: phase_execute_def sure_def)
  obtain t w3 where t: "rt_now (cx_runtime cx) w2 = (t, w3)" by fastforce
  obtain y w4 where y: "st_run_record (cx_state cx) (run_row cx run_id now t a f) w3 = (y, w4)" by fastforce
  obtain i w5 where i: "(fresh_id cx :: ('w, engine_error, audit_event_id) io) w4 = (Inr i, w5)"
    by (cases "new_id (cx_runtime cx) w4 :: audit_event_id \<times> 'w") (auto simp: fresh_id_def liftE_def)
  from p n t y i show ?thesis
    by (cases y) (auto simp: run_cycle_def assms cycle_execute_def bindE_def clock_now_def liftE_def
        state_call_def map_errE_def Let_def emit_def modifyE_def returnE_def)
qed

lemma mem_cycle_execute:
  "\<exists>applied failed finished w1 w'. phase_execute (mem_ctx c) (cp_ops pl) w = (Inr (applied, failed), w1)
     \<and> applied + failed = length (cp_ops pl)
     \<and> cycle_execute (mem_ctx c) run now pl w
        = (Inr \<lparr>cs_remote_items_seen = cp_items_seen pl, cs_local_events_seen = cp_local_events pl,
                cs_ops_applied = applied, cs_conflicts_detected = cp_conflicts pl,
                cs_delta_token = cp_delta_token pl\<rparr>, w')
     \<and> mw_store w' = (mw_store w1)\<lparr>ms_sync_runs := AList.update run
          (run_row (mem_ctx c) run now finished applied failed) (ms_sync_runs (mw_store w1))\<rparr>"
proof -
  obtain a f w1 where p: "phase_execute (mem_ctx c) (cp_ops pl) w = (Inr (a, f), w1)"
    and n: "a + f = length (cp_ops pl)"
    using sure_op_loop [of "mem_ctx c" "cp_ops pl" 0 0] by (fastforce simp: phase_execute_def sure_def)
  from p n show ?thesis
    by (auto simp: cycle_execute_def io_simps port_call_defs new_id_def mem_calls mem_run_record_call
        mem_run_record_def run_row_def Let_def split: prod.split)
qed

text \<open>
  C4: Once the operations are planned, no operation makes a cycle fail.  Over any store the
  cycle that has planned executes every operation, applied or failed, and then ends with a
  summary unless the store refuses to record the run, in which case it fails with that error
  (the SQLite store can).  Over the in-memory store, which never refuses, it ends with the
  summary and with one row in the table of runs under the run's id that names the pair, the
  times, the number of applied operations and the outcome; a cycle that fails while it
  decides records no run and executes nothing: its effect is that of the deciding phases.
\<close>
theorem cycle_records_its_run:
  "(\<exists>run_id now v0. cycle_start cx v = (Inr (run_id, now), v0)
     \<and> (case cycle_decide cx run_id now v0 of
          (Inl e, v1) \<Rightarrow> run_cycle cx v = (Inl e, v1)
        | (Inr pl, v1) \<Rightarrow> (\<exists>applied failed finished v2 v3.
            phase_execute cx (cp_ops pl) v1 = (Inr (applied, failed), v2)
            \<and> applied + failed = length (cp_ops pl) \<and> rt_now (cx_runtime cx) v2 = (finished, v3)
            \<and> (case st_run_record (cx_state cx) (run_row cx run_id now finished applied failed) v3 of
                 (Inl er, v4) \<Rightarrow> run_cycle cx v = (Inl (EngPort (state_error_display er)), v4)
               | (Inr _, v4) \<Rightarrow> (\<exists>v'. run_cycle cx v
                     = (Inr \<lparr>cs_remote_items_seen = cp_items_seen pl, cs_local_events_seen = cp_local_events pl,
                             cs_ops_applied = applied, cs_conflicts_detected = cp_conflicts pl,
                             cs_delta_token = cp_delta_token pl\<rparr>, v'))))))
   \<and> (\<exists>run_id now w0. cycle_start (mem_ctx c) w = (Inr (run_id, now), w0)
     \<and> (case cycle_decide (mem_ctx c) run_id now w0 of
          (Inl e, w1) \<Rightarrow> run_cycle (mem_ctx c) w = (Inl e, w1)
            \<and> ms_sync_runs (mw_store w1) = ms_sync_runs (mw_store w)
            \<and> ms_file_ops (mw_store w1) = ms_file_ops (mw_store w)
        | (Inr pl, w1) \<Rightarrow> (\<exists>applied failed finished w'.
            run_cycle (mem_ctx c) w
              = (Inr \<lparr>cs_remote_items_seen = cp_items_seen pl, cs_local_events_seen = cp_local_events pl,
                      cs_ops_applied = applied, cs_conflicts_detected = cp_conflicts pl,
                      cs_delta_token = cp_delta_token pl\<rparr>, w')
            \<and> applied + failed = length (cp_ops pl)
            \<and> map_of (ms_sync_runs (mw_store w')) = (map_of (ms_sync_runs (mw_store w)))
                (run_id := Some (run_row (mem_ctx c) run_id now finished applied failed)))))"
  (is "?any_store \<and> ?memory")
proof (rule conjI)
  obtain run_id now v0 where s: "cycle_start cx v = (Inr (run_id, now), v0)"
    using sure_cycle_start [of cx v] by blast
  obtain r v1 where d: "cycle_decide cx run_id now v0 = (r, v1)" by fastforce
  show ?any_store
  proof (cases r)
    case (Inl e)
    with s d show ?thesis by (simp add: run_cycle_def bindE_def)
  next
    case (Inr pl)
    with run_cycle_ends [OF s, of pl v1] s d show ?thesis by simp
  qed
next
  show ?memory
proof -
  let ?v = "\<lambda>w. (ms_sync_runs (mw_store w), ms_file_ops (mw_store w))"
  obtain run_id now w0 where s: "cycle_start (mem_ctx c) w = (Inr (run_id, now), w0)"
    using sure_cycle_start [of "mem_ctx c" w] by blast
  have v0: "?v w0 = ?v w" by (rule framesD [OF frames_cycle_start [OF mem_log_tables(1)] s])
  obtain r w1 where d: "cycle_decide (mem_ctx c) run_id now w0 = (r, w1)" by fastforce
  have "frames ?v (cycle_decide (mem_ctx c) run_id now)"
    by (intro frames_decide mem_log_tables)
       (auto simp: mem_ctx_state mem_state_store_def mem_op_defs intro!: on_store_frames)
  from framesD [OF this d] v0 have v1: "?v w1 = ?v w" by simp
  show ?thesis
  proof (cases r)
    case (Inl e)
    with s d v1 show ?thesis by (simp add: run_cycle_def bindE_def)
  next
    case (Inr pl)
    obtain a f t w2 w' where p: "phase_execute (mem_ctx c) (cp_ops pl) w1 = (Inr (a, f), w2)"
      and x: "a + f = length (cp_ops pl)"
        "cycle_execute (mem_ctx c) run_id now pl w1
          = (Inr \<lparr>cs_remote_items_seen = cp_items_seen pl, cs_local_events_seen = cp_local_events pl,
                  cs_ops_applied = a, cs_conflicts_detected = cp_conflicts pl,
                  cs_delta_token = cp_delta_token pl\<rparr>, w')"
        "mw_store w' = (mw_store w2)\<lparr>ms_sync_runs := AList.update run_id
            (run_row (mem_ctx c) run_id now t a f) (ms_sync_runs (mw_store w2))\<rparr>"
      using mem_cycle_execute [of c pl w1 run_id now] by blast
    have "ms_sync_runs (mw_store w2) = ms_sync_runs (mw_store w)"
      using framesD [OF frames_phase_execute [OF mem_log_tables(2)] p] v1 by simp
    with x(3) have "map_of (ms_sync_runs (mw_store w')) = (map_of (ms_sync_runs (mw_store w)))
        (run_id := Some (run_row (mem_ctx c) run_id now t a f))" by (simp add: update_conv')
    with s d Inr x(1,2) show ?thesis by (auto simp: run_cycle_def bindE_def)
  qed
qed
qed

section \<open>A concrete cycle\<close>

theorem cursor_follows_delta_witness:
  "\<exists>t. mem_pairs (snd (run_cycle (mem_ctx (page_ctx []))
          (log_world one_pair_store)))
        (Id 1) = Some (moved_cursor (Some (DeltaCursor ''next'')) t (sample_pair (Id 1) (Id 2)))"
proof -
  let ?w = "log_world one_pair_store"
  let ?cx = "mem_ctx (page_ctx [])"
  obtain run_id now w0 where s: "cycle_start ?cx ?w = (Inr (run_id, now), w0)"
    using sure_cycle_start [of ?cx ?w] by blast
  obtain out w1 where d: "phase_delta_reconcile ?cx w0 = (Inr out, w1)" using page_ctx_returns by metis
  have tok: "do_delta_token out = Some (DeltaCursor ''next'')"
    using d page_ctx_delta [of "[]"]
    by (auto simp: phase_delta_reconcile_def bindE_def Let_def returnE_def remote_call_def map_errE_def
        ext_remote_def on_ext_def split: prod.splits sum.splits)
  obtain w2 where a: "advance_cursor ?cx (do_delta_token out) w1 = (Inr (), w2)"
    using mem_advance_cursor by blast
  from cursor_follows_delta [OF mem.pair_view_axioms, of "page_ctx []" ?w] s d a
  obtain t where "mem_pairs (snd (run_cycle ?cx ?w)) = with_cursor (Id 1) (Some (DeltaCursor ''next'')) t (mem_pairs ?w)"
    by (auto simp: tok)
  then show ?thesis
    by (auto simp: with_cursor_def mem_pairs_def log_world_def moved_cursor_def one_pair_store_def
        mem_pair_upsert_def empty_store_def)
qed


text \<open>An empty delta page and a scan that finds the one file \<open>a\<close>.\<close>

abbreviation one_file :: "(path_buf \<times> file_side) list" where
  "one_file \<equiv> [(PathBuf ''/r/a'', synthetic_remote_side)]"

lemma scan_ctx_simps [simp]:
  "cx_lib (scan_ctx es) = ascii_lib" "cx_local_root (scan_ctx es) = AbsPath ''/r''"
  "cx_pair_id (scan_ctx es) = Id 1" "cx_remote (scan_ctx es) = log_rd" "cx_runtime (scan_ctx es) = log_runtime"
  by (simp_all add: scan_ctx_def log_ctx_def)

lemma one_file_scanned:
  "\<exists>out w'. phase_local_uploads (mem_ctx (scan_ctx one_file)) {} [] (log_world empty_store) = (Inr out, w')
     \<and> lo_decisions out = [\<lparr>d_pair_id = Id 1, d_relative_path = RelPath ''a'', d_kind = DUpload\<rparr>]
     \<and> lo_initial_collisions out = []"
proof -
  have p: "parse_rel ascii_lib ''a'' = Inr (RelPath ''a'')"
    by (simp add: rel_path_from_str_Inr wf_path_def starts_with_char_def MAX_PATH_BYTES_def)
  have "is_ascii ''/r/a''" by simp
  then have rp: "rel_from_abs ascii_lib (AbsPath ''/r'') (PathBuf ''/r/a'') = Some (RelPath ''a'')"
    using p by (simp add: rel_from_abs_def path_to_str_ascii trim_start_def ok_def del: path_to_str.simps)
  have f: "find_case_collision ascii_lib (RelPath ''a'') ([] :: remote_item path_map) = None"
    by (simp add: find_case_collision_def ascii_lib_def)
  have s: "lf_scan (cx_local (scan_ctx one_file)) q x = (Inr \<lparr>ls_entries = one_file, ls_symlinks_skipped = []\<rparr>, x)" for q x
    by (simp add: scan_ctx_def)
  have k: "upload_kind synthetic_remote_side = DUpload"
    by (simp add: upload_kind_def synthetic_remote_side_def)
  show ?thesis
    using s rp f k
    by (simp add: phase_local_uploads_def io_simps local_call_def ext_local_def on_ext_def local_entry_def
        Let_def queue_upload_def state_call_def mem_calls needs_upload_def clock_now_def
        mem_entries_empty)
qed

lemma one_file_decided:
  "\<exists>pl w'. cycle_decide (mem_ctx (scan_ctx one_file)) (Id 9) 0 (log_world empty_store) = (Inr pl, w')
     \<and> map op_kind (cp_ops pl) = [Upload]"
proof -
  let ?w = "log_world empty_store"
  have c0: "detect_remote_case_collisions ascii_lib [] = []"
    by (simp add: detect_remote_case_collisions_def)
  have h: "lib_hash_order ascii_lib [] = []"
    by (simp add: ascii_lib_def)
  have d: "phase_delta_reconcile (mem_ctx (scan_ctx one_file)) ?w
      = (Inr \<lparr>da_decisions = [], da_conflicts = 0, da_renames = [], da_by_path = [],
             do_items_seen = 0, do_delta_token = None\<rparr>, ?w)"
    by (simp add: phase_delta_reconcile_def io_simps remote_call_def ext_remote_def on_ext_def log_rd_def c0
        process_remote_case_collisions_def in_hash_order_def h Let_def)
  have a: "advance_cursor (mem_ctx (scan_ctx one_file)) None ?w = (Inr (), ?w)"
    by (simp add: advance_cursor_def io_simps state_call_def mem_calls mem_pairs_def log_world_def empty_store_def)
  from one_file_scanned obtain out w1 where
    l: "phase_local_uploads (mem_ctx (scan_ctx one_file)) {} [] ?w = (Inr out, w1)"
      "lo_decisions out = [\<lparr>d_pair_id = Id 1, d_relative_path = RelPath ''a'', d_kind = DUpload\<rparr>]"
      "lo_initial_collisions out = []" by blast
  show ?thesis
    by (simp add: cycle_decide_def bindE_def d a l Let_def apply_initial_sync_collisions_def returnE_def
        phase_resolve_conflicts_def plan_def make_op_def liftE_def split: prod.split)
qed

theorem cycle_plans_no_remote_delete_witness:
  "\<exists>pl w'. cycle_decide (mem_ctx (scan_ctx one_file)) (Id 9) 0 (log_world empty_store) = (Inr pl, w')
     \<and> length (cp_ops pl) = 1 \<and> (\<forall>op \<in> set (cp_ops pl). op_kind op \<noteq> RemoteDelete)"
proof -
  obtain pl w' where d: "cycle_decide (mem_ctx (scan_ctx one_file)) (Id 9) 0 (log_world empty_store) = (Inr pl, w')"
    and k: "map op_kind (cp_ops pl) = [Upload]" using one_file_decided by (elim exE conjE) (rule that)
  from k have "length (cp_ops pl) = 1" by (metis length_map length_Cons list.size(3) One_nat_def)
  with cycle_plans_no_remote_delete [OF d] d show ?thesis by blast
qed

end
