(* ===== verification/Graph_Http.thy ===== *)
theory Graph_Http
  imports Ports
begin

text \<open>
  The HTTP layer of the Graph adapter (\<open>crates/onesync-graph/src\<close>: \<open>error.rs\<close> and the shared
  parts of \<open>client.rs\<close>).  \<open>reqwest\<close>, \<open>serde\<close>, \<open>url\<close>, \<open>getrandom\<close> and \<open>base64\<close> are
  third-party code: the record \<open>http_lib\<close> holds what the adapter uses of them.  A response body
  is the chunks the server sends, with the transport error that ends them, if any.  A failure
  of \<open>getrandom\<close> panics in the code and does not occur here.
\<close>

section \<open>Numbers in text\<close>

definition is_digit :: "char \<Rightarrow> bool" where
  "is_digit c \<longleftrightarrow> CHR ''0'' \<le> c \<and> c \<le> CHR ''9''"

definition digit_value :: "char \<Rightarrow> nat" where
  "digit_value c = of_char c - 48"

fun digits_value :: "nat \<Rightarrow> string \<Rightarrow> nat option" where
  "digits_value n [] = Some n"
| "digits_value n (c # cs) = (if is_digit c then digits_value (10 * n + digit_value c) cs else None)"

text \<open>\<open>str::parse::<u64>\<close>: an optional plus sign, at least one digit, no overflow.\<close>

definition parse_u64 :: "string \<Rightarrow> nat option" where
  "parse_u64 s =
     (let ds = (case s of c # cs \<Rightarrow> if c = CHR ''+'' then cs else s | [] \<Rightarrow> [])
      in if ds = [] then None
         else case digits_value 0 ds of
                Some n \<Rightarrow> if n < 2 ^ 64 then Some n else None
              | None \<Rightarrow> None)"

section \<open>Requests and responses\<close>

datatype http_method = MGet | MPost | MPut | MPatch | MDelete

datatype http_body = NoBody | JsonBody json | BytesBody bytes | FormBody "(string \<times> string) list"

record http_request =
  rq_method :: http_method
  rq_url :: string
  rq_bearer :: "string option"
  rq_headers :: "(string \<times> string) list"
  rq_body :: http_body

record http_response =
  rs_status :: nat
  rs_header :: "string \<Rightarrow> string option"
  rs_chunks :: "bytes list"
  rs_read_error :: "string option"

record delta_response =
  dr_items :: "remote_item list"
  dr_next_link :: "string option"
  dr_delta_link :: "string option"

record drive_dto =
  dd_id :: string
  dd_drive_type :: string

record account_profile_dto =
  ap_id :: string
  ap_user_principal_name :: string
  ap_display_name :: string

record drive_list_item =
  dl_id :: string
  dl_drive_type :: string
  dl_name :: "string option"

record site_dto =
  sd_id :: string
  sd_display_name :: "string option"

record token_response =
  tr_access_token :: string
  tr_refresh_token :: string
  tr_expires_in :: nat

record 'w http_lib =
  ht_send :: "http_request \<Rightarrow> ('w, string, http_response) io"
  ht_random :: "nat \<Rightarrow> 'w \<Rightarrow> u8 list \<times> 'w"
  ht_wall_now :: "'w \<Rightarrow> timestamp \<times> 'w"
  ht_rfc3339 :: "timestamp \<Rightarrow> string"
  ht_text :: "bytes \<Rightarrow> string"
  ht_status_text :: "nat \<Rightarrow> string"
  ht_parse_json :: "string \<Rightarrow> json option"
  ht_item :: "bytes \<Rightarrow> string + remote_item"
  ht_item_text :: "string \<Rightarrow> string + remote_item"
  ht_delta :: "bytes \<Rightarrow> string + delta_response"
  ht_session_url :: "bytes \<Rightarrow> string + string"
  ht_ranges :: "bytes \<Rightarrow> string + string list"
  ht_drive :: "bytes \<Rightarrow> string + drive_dto"
  ht_profile :: "bytes \<Rightarrow> string + account_profile_dto"
  ht_drives :: "bytes \<Rightarrow> string + drive_list_item list"
  ht_site :: "bytes \<Rightarrow> string + site_dto"
  ht_token :: "string \<Rightarrow> string + token_response"
  ht_value :: "bytes \<Rightarrow> string + json"
  ht_query_pairs :: "string \<Rightarrow> (string \<times> string) list option"
  ht_base64 :: "bytes \<Rightarrow> string"
  ht_sha1 :: "bytes \<Rightarrow> bytes"

text \<open>\<open>Response::bytes\<close>, \<open>Response::text\<close> and \<open>Response::json\<close>.\<close>

definition response_bytes :: "http_response \<Rightarrow> string + bytes" where
  "response_bytes r = (case rs_read_error r of Some e \<Rightarrow> Inl e | None \<Rightarrow> Inr (concat (rs_chunks r)))"

definition response_text :: "'w http_lib \<Rightarrow> http_response \<Rightarrow> string + string" where
  "response_text ht r = (case response_bytes r of Inl e \<Rightarrow> Inl e | Inr bs \<Rightarrow> Inr (ht_text ht bs))"

definition response_json :: "(bytes \<Rightarrow> string + 'a) \<Rightarrow> http_response \<Rightarrow> string + 'a" where
  "response_json dec r = (case response_bytes r of Inl e \<Rightarrow> Inl e | Inr bs \<Rightarrow> dec bs)"

section \<open>Errors\<close>

datatype graph_internal_error =
    GiUnauthorized string
  | GiReAuthRequired string
  | GiForbidden string
  | GiNotFound string
  | GiNameConflict string
  | GiResyncRequired string
  | GiStale string string
  | GiInvalidRange string
  | GiThrottled nat string
  | GiTransient string string
  | GiNetwork string
  | GiDecode string
  | GiHashMismatch
  | GiTooLarge
  | GiTimeout
  | GiInvalidArgument string

fun map_to_port :: "graph_internal_error \<Rightarrow> graph_error" where
  "map_to_port (GiUnauthorized _) = GeUnauthorized"
| "map_to_port (GiReAuthRequired _) = GeReAuthRequired"
| "map_to_port (GiForbidden _) = GeForbidden"
| "map_to_port (GiNotFound _) = GeNotFound"
| "map_to_port (GiNameConflict _) = GeNameConflict"
| "map_to_port (GiResyncRequired _) = GeResyncRequired"
| "map_to_port (GiStale etag _) = GeStale etag"
| "map_to_port (GiInvalidRange _) = GeInvalidRange"
| "map_to_port (GiThrottled n _) = GeThrottled n"
| "map_to_port (GiTransient d _) = GeTransient d"
| "map_to_port (GiNetwork d) = GeNetwork d"
| "map_to_port (GiDecode d) = GeDecode d"
| "map_to_port GiHashMismatch = GeHashMismatch"
| "map_to_port GiTooLarge = GeTooLarge"
| "map_to_port GiTimeout = GeTransient ''auth listener timeout''"
| "map_to_port (GiInvalidArgument d) = GeTransient (''invalid argument: '' @ d)"

type_synonym ('w, 'a) gio = "('w, graph_internal_error, 'a) io"

definition is_success :: "nat \<Rightarrow> bool" where
  "is_success st \<longleftrightarrow> 200 \<le> st \<and> st < 300"

text \<open>The error code in a Microsoft error body, \<open>{"error": {"code": ".."}}\<close>.\<close>

fun json_field :: "string \<Rightarrow> json \<Rightarrow> json option" where
  "json_field k (JObject m) = map_of m k"
| "json_field k _ = None"

definition ms_error_code :: "'w http_lib \<Rightarrow> string \<Rightarrow> string option" where
  "ms_error_code ht body =
     Option.bind (ht_parse_json ht body) (\<lambda>v.
     Option.bind (json_field ''error'' v) (\<lambda>e.
     Option.bind (json_field ''code'' e) json_as_str))"

definition status_error ::
  "'w http_lib \<Rightarrow> nat \<Rightarrow> string \<Rightarrow> nat option \<Rightarrow> string \<Rightarrow> string \<Rightarrow> graph_internal_error" where
  "status_error ht st rid retry_after etag body =
     (if st = 401 then (if ms_error_code ht body = Some ''invalid_grant'' then GiReAuthRequired rid
                        else GiUnauthorized rid)
      else if st = 403 then GiForbidden rid
      else if st = 404 then GiNotFound rid
      else if st = 409 then GiNameConflict rid
      else if st = 410 then GiResyncRequired rid
      else if st = 412 then GiStale etag rid
      else if st = 416 then GiInvalidRange rid
      else if st = 429 \<or> st = 503 then
        GiThrottled (case retry_after of None \<Rightarrow> 60 | Some n \<Rightarrow> n) rid
      else if 500 \<le> st \<and> st \<le> 599 then
        GiTransient (''HTTP '' @ ht_status_text ht st @ '': '' @ body) rid
      else GiTransient (''unexpected HTTP '' @ show_nat st @ '': '' @ body) rid)"

definition unwrap_or :: "'a \<Rightarrow> 'a option \<Rightarrow> 'a" where
  "unwrap_or d x = (case x of None \<Rightarrow> d | Some y \<Rightarrow> y)"

definition check_status :: "'w http_lib \<Rightarrow> http_response \<Rightarrow> string \<Rightarrow> graph_internal_error + http_response" where
  "check_status ht resp request_id =
     (if is_success (rs_status resp) then Inr resp
      else
        let rid = unwrap_or request_id (rs_header resp ''request-id'');
            retry_after = Option.bind (rs_header resp ''retry-after'') parse_u64;
            etag = unwrap_or [] (rs_header resp ''etag'');
            body = (case response_text ht resp of Inl _ \<Rightarrow> [] | Inr t \<Rightarrow> t)
        in Inl (status_error ht (rs_status resp) rid retry_after etag body))"

section \<open>Request helpers\<close>

definition hex_lower :: "u8 \<Rightarrow> string" where
  "hex_lower b = show_byte_02x b"

definition request_id_of :: "u8 list \<Rightarrow> string" where
  "request_id_of bs = concat (map hex_lower bs)"

text \<open>\<open>new_request_id\<close>: 8 random bytes in the helper modules, 16 in \<open>client.rs\<close>.\<close>

definition new_request_id :: "'w http_lib \<Rightarrow> ('w, string) gio" where
  "new_request_id ht = liftE (\<lambda>w. case ht_random ht 8 w of (bs, w') \<Rightarrow> (request_id_of bs, w'))"

definition send :: "'w http_lib \<Rightarrow> http_request \<Rightarrow> ('w, http_response) gio" where
  "send ht rq = map_errE GiNetwork (ht_send ht rq)"

definition decode :: "(bytes \<Rightarrow> string + 'a) \<Rightarrow> http_response \<Rightarrow> ('w, 'a) gio" where
  "decode dec r = map_errE GiDecode (resultE (response_json dec r))"

text \<open>Send with a bearer token and a request id, and check the status.\<close>

definition graph_request ::
  "http_method \<Rightarrow> string \<Rightarrow> string \<Rightarrow> string \<Rightarrow> http_body \<Rightarrow> http_request" where
  "graph_request m url token rid body =
     \<lparr>rq_method = m, rq_url = url, rq_bearer = Some token,
      rq_headers = [(''client-request-id'', rid)], rq_body = body\<rparr>"

definition send_checked ::
  "'w http_lib \<Rightarrow> http_method \<Rightarrow> string \<Rightarrow> string \<Rightarrow> http_body \<Rightarrow> ('w, http_response) gio" where
  "send_checked ht m url token body =
     bindE (new_request_id ht) (\<lambda>rid.
     bindE (send ht (graph_request m url token rid body)) (\<lambda>resp.
     resultE (check_status ht resp rid)))"

definition GRAPH_BASE :: string where
  "GRAPH_BASE = ''https://graph.microsoft.com/v1.0''"

section \<open>Which answers are worth a retry\<close>

lemma send_checked_InrD:
  assumes "send_checked ht m url token body w = (Inr r, w')"
  shows "is_success (rs_status r)"
  using assms
  by (auto simp: send_checked_def io_simps check_status_def Let_def split: prod.splits sum.splits if_splits)

lemma check_status_Inr_iff: "check_status ht r rid = Inr r' \<longleftrightarrow> is_success (rs_status r) \<and> r' = r"
  by (auto simp: check_status_def Let_def)

section \<open>A scripted server\<close>

text \<open>
  An instance of the library for concrete runs: the world is the list of responses still to
  come, item and session decoders read a body as text, and the digest is the identity.
\<close>

definition ok_response :: "bytes list \<Rightarrow> http_response" where
  "ok_response cs = \<lparr>rs_status = 200, rs_header = (\<lambda>_. None), rs_chunks = cs, rs_read_error = None\<rparr>"

fun script_send :: "http_request \<Rightarrow> (http_response list, string, http_response) io" where
  "script_send rq [] = (Inl ''connection refused'', [])"
| "script_send rq (r # rs) = (Inr r, rs)"

definition bytes_text :: "bytes \<Rightarrow> string" where
  "bytes_text bs = map (\<lambda>b. char_of (unat b)) bs"

definition text_item :: "string \<Rightarrow> remote_item" where
  "text_item s = \<lparr>ri_id = s, ri_name = s, ri_size = 0, ri_e_tag = None, ri_c_tag = None,
     ri_last_modified = None, ri_folder = None, ri_file = None, ri_deleted = None,
     ri_parent_reference = None\<rparr>"

definition script_http :: "(http_response list) http_lib" where
  "script_http = \<lparr>ht_send = script_send, ht_random = (\<lambda>n w. (replicate n 0, w)),
     ht_wall_now = (\<lambda>w. (0, w)), ht_rfc3339 = (\<lambda>_. ''1970-01-01T00:00:00+00:00''),
     ht_text = bytes_text, ht_status_text = show_nat, ht_parse_json = (\<lambda>_. None),
     ht_item = (\<lambda>bs. Inr (text_item (bytes_text bs))), ht_item_text = (\<lambda>s. Inr (text_item s)),
     ht_delta = (\<lambda>bs. Inr \<lparr>dr_items = [], dr_next_link = Some (bytes_text bs), dr_delta_link = None\<rparr>),
     ht_session_url = (\<lambda>bs. Inr (bytes_text bs)), ht_ranges = (\<lambda>bs. Inr [bytes_text bs]),
     ht_drive = (\<lambda>bs. Inr \<lparr>dd_id = bytes_text bs, dd_drive_type = ''personal''\<rparr>),
     ht_profile = (\<lambda>bs. Inl ''no profile''), ht_drives = (\<lambda>bs. Inr []), ht_site = (\<lambda>bs. Inl ''no site''),
     ht_token = (\<lambda>s. Inr \<lparr>tr_access_token = s, tr_refresh_token = s, tr_expires_in = 3600\<rparr>),
     ht_value = (\<lambda>bs. Inl ''no value''), ht_query_pairs = (\<lambda>_. None),
     ht_base64 = bytes_text, ht_sha1 = (\<lambda>bs. bs)\<rparr>"

end
