(* ===== verification/Quick_Xor.thy ===== *)
theory Quick_Xor
  imports Graph_Http
begin

text \<open>
  \<open>QuickXorHash\<close> and the verified download (\<open>crates/onesync-graph/src/download.rs\<close>).  The
  hasher updates an array of 20 bytes, one or two bytes of it per input byte; the reference is
  a 160-bit word into which each byte is XORed after a rotation.
\<close>

section \<open>The hasher\<close>

record quick_xor =
  qx_data :: "u8 list"
  qx_length :: u64
  qx_shift :: nat

definition WIDTHBITS :: nat where "WIDTHBITS = 160"
definition BIT_SHIFT :: nat where "BIT_SHIFT = 11"

definition qx_new :: quick_xor where
  "qx_new = \<lparr>qx_data = replicate 20 0, qx_length = 0, qx_shift = 0\<rparr>"

text \<open>One byte: XOR it into the array at the bit position \<open>shift\<close>.\<close>

definition xor_at :: "nat \<Rightarrow> u8 \<Rightarrow> u8 list \<Rightarrow> u8 list" where
  "xor_at i b d = d[i := d ! i XOR b]"

definition spread_byte :: "nat \<Rightarrow> u8 \<Rightarrow> u8 list \<Rightarrow> u8 list" where
  "spread_byte shift b d =
     (let bit_index = shift mod WIDTHBITS;
          byte_index = bit_index div 8;
          bit_in_byte = bit_index mod 8;
          d = xor_at byte_index (push_bit bit_in_byte b) d
      in if bit_in_byte > 0
         then xor_at ((byte_index + 1) mod 20) (drop_bit (8 - bit_in_byte) b) d
         else d)"

definition qx_byte :: "u8 \<Rightarrow> quick_xor \<Rightarrow> quick_xor" where
  "qx_byte b q =
     q\<lparr>qx_data := spread_byte (qx_shift q) b (qx_data q),
       qx_shift := (qx_shift q + BIT_SHIFT) mod WIDTHBITS\<rparr>"

definition qx_update :: "bytes \<Rightarrow> quick_xor \<Rightarrow> quick_xor" where
  "qx_update input q =
     (let q = fold qx_byte input q in q\<lparr>qx_length := qx_length q + word_of_nat (length input)\<rparr>)"

text \<open>\<open>u64::to_le_bytes\<close>.\<close>

definition u64_le_bytes :: "u64 \<Rightarrow> u8 list" where
  "u64_le_bytes n = map (\<lambda>i. ucast (drop_bit (8 * i) n)) [0..<8]"

definition qx_finalize :: "quick_xor \<Rightarrow> u8 list" where
  "qx_finalize q =
     fold (\<lambda>(i, lb) d. xor_at (12 + i) lb d) (enumerate 0 (u64_le_bytes (qx_length q))) (qx_data q)"

section \<open>The reference\<close>

type_synonym u160 = "160 word"

text \<open>The array read as a little-endian word.\<close>

definition le_word :: "u8 list \<Rightarrow> u160" where
  "le_word d = horner_sum of_bool 2 (map (\<lambda>j. bit (d ! (j div 8)) (j mod 8)) [0..<160])"

fun rotated_xor :: "nat \<Rightarrow> bytes \<Rightarrow> u160" where
  "rotated_xor s [] = 0"
| "rotated_xor s (b # bs) = word_rotl s (ucast b) XOR rotated_xor (s + 11) bs"

definition quick_xor_spec :: "bytes \<Rightarrow> u160" where
  "quick_xor_spec bs = rotated_xor 0 bs XOR push_bit 96 (ucast (word_of_nat (length bs) :: u64))"

lemma bit_le_word: "bit (le_word d) j \<longleftrightarrow> j < 160 \<and> bit (d ! (j div 8)) (j mod 8)"
  by (auto simp: le_word_def bit_horner_sum_bit_iff)

lemma length_xor_at [simp]: "length (xor_at i b d) = length d"
  by (simp add: xor_at_def)

lemma length_spread [simp]: "length (spread_byte s b d) = length d"
  by (simp add: spread_byte_def Let_def)

lemma u8_bit: "bit (b :: u8) n \<Longrightarrow> n < 8"
  using bit_imp_le_length [of b n] by simp

lemma bit_le_word_mod: "k < 20 \<Longrightarrow> m < 8 \<Longrightarrow> bit (le_word d) (8 * k + m) \<longleftrightarrow> bit (d ! k) m"
  by (simp add: bit_le_word)

text \<open>Bit \<open>8 k + m\<close> of a byte moved to the byte position \<open>i\<close>.\<close>

lemma bit_byte_at:
  assumes "k < 20" and "m < 8" and "i < 20"
  shows "bit (push_bit (8 * i) (ucast (b :: u8)) :: u160) (8 * k + m) \<longleftrightarrow> k = i \<and> bit b m"
proof -
  have "bit b n \<Longrightarrow> n < 8" for n by (rule u8_bit)
  then have far: "8 \<le> n \<Longrightarrow> \<not> bit b n" for n by (meson linorder_not_less)
  consider "k < i" | "k = i" | "i < k" by linarith
  then show ?thesis
  proof cases
    case 1
    with assms have "\<not> 8 * i \<le> 8 * k + m" by linarith
    with 1 show ?thesis by (simp add: bit_push_bit_iff)
  next
    case 2
    with assms show ?thesis by (simp add: bit_push_bit_iff bit_ucast_iff)
  next
    case 3
    with assms have "8 \<le> 8 * k + m - 8 * i" by linarith
    with 3 far show ?thesis by (simp add: bit_push_bit_iff bit_ucast_iff)
  qed
qed

lemma u160_eqI:
  assumes "\<And>k m. k < 20 \<Longrightarrow> m < 8 \<Longrightarrow> bit (a :: u160) (8 * k + m) = bit b (8 * k + m)"
  shows "a = b"
proof (rule bit_word_eqI)
  fix j
  assume "j < LENGTH(160)"
  then have "j div 8 < 20" by simp
  from assms [OF this, of "j mod 8"] show "bit a j = bit b j" by simp
qed

lemma le_word_xor_at:
  assumes "length d = 20" and "i < 20"
  shows "le_word (xor_at i b d) = le_word d XOR push_bit (8 * i) (ucast b)"
proof (rule u160_eqI)
  fix k m :: nat
  assume km: "k < 20" "m < 8"
  have "bit (xor_at i b d ! k) m \<longleftrightarrow> bit (d ! k) m \<noteq> (k = i \<and> bit b m)"
    using assms km by (simp add: xor_at_def nth_list_update bit_xor_iff)
  with km assms show "bit (le_word (xor_at i b d)) (8 * k + m)
      \<longleftrightarrow> bit (le_word d XOR push_bit (8 * i) (ucast b)) (8 * k + m)"
    by (simp only: bit_xor_iff bit_le_word_mod bit_byte_at)
qed

lemma bit_rotl_byte:
  assumes "s < 160" and "n < 160"
  shows "bit (word_rotl s (ucast (b :: u8)) :: u160) n
           \<longleftrightarrow> bit b (if s \<le> n then n - s else n + 160 - s)"
proof -
  have "(n + (160 - s mod 160)) mod 160 = (if s \<le> n then n - s else n + 160 - s)"
    using assms by (auto simp: mod_if)
  moreover have "bit b i \<Longrightarrow> i < 160" for i using u8_bit [of b i] by simp
  ultimately show ?thesis
    using assms by (auto simp: bit_word_rotl_iff bit_ucast_iff)
qed

lemma rotl_byte:
  fixes b :: u8
  assumes q: "q < 20" and r: "r < 8"
  shows "word_rotl (8 * q + r) (ucast b :: u160) =
     push_bit (8 * q) (ucast (push_bit r b))
     XOR (if r > 0 then push_bit (8 * ((q + 1) mod 20)) (ucast (drop_bit (8 - r) b)) else 0)"
proof (rule u160_eqI)
  fix k m :: nat
  assume km: "k < 20" "m < 8"
  have far: "8 \<le> i \<Longrightarrow> \<not> bit b i" for i using u8_bit [of b i] by (meson linorder_not_less)
  have next_q: "(q + 1) mod 20 = (if q = 19 then 0 else q + 1)" using q by simp
  let ?i = "if 8 * q + r \<le> 8 * k + m then 8 * k + m - (8 * q + r) else 8 * k + m + 160 - (8 * q + r)"
  have first: "bit (push_bit r b) m \<longleftrightarrow> r \<le> m \<and> bit b (m - r)"
    using km by (simp add: bit_push_bit_iff)
  have second: "bit (drop_bit (8 - r) b) m \<longleftrightarrow> bit b (8 - r + m)" by (simp add: bit_drop_bit_eq)
  have cases: "bit b ?i \<longleftrightarrow>
      (k = q \<and> r \<le> m \<and> bit b (m - r)) \<noteq> (r > 0 \<and> k = (q + 1) mod 20 \<and> bit b (8 - r + m))"
  proof (cases "k = q")
    case True
    then have "(q + 1) mod 20 \<noteq> k" using q unfolding next_q by auto
    moreover have "\<not> r \<le> m \<Longrightarrow> 8 \<le> ?i" using True r by auto
    moreover have "r \<le> m \<Longrightarrow> ?i = m - r" using True by auto
    ultimately show ?thesis using True far [of ?i] by (cases "r \<le> m") simp_all
  next
    case False
    show ?thesis
    proof (cases "k = (q + 1) mod 20")
      case True
      then have k: "k = (if q = 19 then 0 else q + 1)" using next_q by argo
      have none: "r = 0 \<Longrightarrow> \<not> bit b (8 - r + m)" using far [of "8 - r + m"] by simp
      have i: "?i = 8 - r + m" using k q r km by (auto split: if_splits)
      show ?thesis unfolding i using none True False by (cases "r = 0") auto
    next
      case other: False
      then have k: "k \<noteq> (if q = 19 then 0 else q + 1)" using next_q by argo
      have "8 \<le> ?i" using False k q r km by (auto split: if_splits)
      then show ?thesis using False other far by auto
    qed
  qed
  have "8 * q + r < 160" "8 * k + m < 160" using q r km by linarith+
  then have "bit (word_rotl (8 * q + r) (ucast b) :: u160) (8 * k + m) \<longleftrightarrow> bit b ?i"
    by (rule bit_rotl_byte)
  moreover have "(q + 1) mod 20 < 20" by simp
  ultimately show "bit (word_rotl (8 * q + r) (ucast b :: u160)) (8 * k + m) \<longleftrightarrow>
      bit (push_bit (8 * q) (ucast (push_bit r b))
        XOR (if r > 0 then push_bit (8 * ((q + 1) mod 20)) (ucast (drop_bit (8 - r) b)) else 0) :: u160)
        (8 * k + m)"
    using km q unfolding cases
    by (cases "r > 0") (simp_all only: bit_xor_iff bit_byte_at first second if_True if_False simp_thms bit_0_eq bot_apply bot_bool_def)
qed

lemma le_word_spread:
  assumes "length d = 20"
  shows "le_word (spread_byte s b d) = le_word d XOR word_rotl (s mod 160) (ucast b)"
proof -
  let ?q = "s mod 160 div 8" and ?r = "s mod 160 mod 8"
  have "?q < 20" "?r < 8" by simp_all
  from rotl_byte [OF this, of b] have "word_rotl (s mod 160) (ucast b :: u160) =
     push_bit (8 * ?q) (ucast (push_bit ?r b))
     XOR (if ?r > 0 then push_bit (8 * ((?q + 1) mod 20)) (ucast (drop_bit (8 - ?r) b)) else 0)"
    by simp
  moreover have "?q < 20" "(?q + 1) mod 20 < 20" by simp_all
  ultimately show ?thesis
    using assms by (simp only: spread_byte_def Let_def WIDTHBITS_def le_word_xor_at length_xor_at xor.assoc split: if_split) simp
qed

section \<open>The hasher computes the reference\<close>

lemma length_fold_qx [simp]: "length (qx_data (fold qx_byte bs q)) = length (qx_data q)"
  by (induction bs arbitrary: q) (simp_all add: qx_byte_def)

lemma rotl_mod_160: "word_rotl (s mod 160) (w :: u160) = word_rotl s w"
  by (rule bit_word_eqI) (simp add: bit_word_rotl_iff)

lemma rotated_xor_mod: "rotated_xor (s mod 160) bs = rotated_xor s bs"
proof (induction bs arbitrary: s)
  case (Cons b bs)
  have "rotated_xor (s mod 160 + 11) bs = rotated_xor (s + 11) bs"
    using Cons [of "s mod 160 + 11"] Cons [of "s + 11"] by (simp add: mod_simps)
  then show ?case by (simp add: rotl_mod_160)
qed simp

lemma le_word_fold:
  "length (qx_data q) = 20 \<Longrightarrow>
   le_word (qx_data (fold qx_byte bs q)) = le_word (qx_data q) XOR rotated_xor (qx_shift q) bs"
proof (induction bs arbitrary: q)
  case (Cons b bs)
  let ?q = "qx_byte b q"
  have "length (qx_data ?q) = 20" using Cons.prems by (simp add: qx_byte_def)
  then have "le_word (qx_data (fold qx_byte bs ?q)) = le_word (qx_data ?q) XOR rotated_xor (qx_shift ?q) bs"
    by (rule Cons.IH)
  moreover have "le_word (qx_data ?q) = le_word (qx_data q) XOR word_rotl (qx_shift q) (ucast b)"
    using le_word_spread [OF Cons.prems, of "qx_shift q" b] by (simp add: qx_byte_def rotl_mod_160)
  moreover have "rotated_xor (qx_shift ?q) bs = rotated_xor (qx_shift q + 11) bs"
    by (simp add: qx_byte_def WIDTHBITS_def BIT_SHIFT_def rotated_xor_mod)
  ultimately show ?case by (simp add: xor.assoc)
qed simp

lemma le_word_zero: "le_word (replicate 20 0) = 0"
  by (rule u160_eqI) (simp add: bit_le_word_mod)

lemma length_le_bytes [simp]: "length (u64_le_bytes n) = 8"
  by (simp add: u64_le_bytes_def)

lemma bit_le_bytes: "i < 8 \<Longrightarrow> m < 8 \<Longrightarrow> bit (u64_le_bytes n ! i) m \<longleftrightarrow> bit n (8 * i + m)"
  by (simp add: u64_le_bytes_def bit_ucast_iff bit_drop_bit_eq)

lemma fold_xor_at_nth:
  assumes "n + length bs + j \<le> length d" and "k < length d"
  shows "fold (\<lambda>(i, b) d. xor_at (j + i) b d) (enumerate n bs) d ! k =
     (if j + n \<le> k \<and> k < j + n + length bs then d ! k XOR bs ! (k - (j + n)) else d ! k)"
  using assms
proof (induction bs arbitrary: n d)
  case (Cons b bs)
  have "fold (\<lambda>(i, b) d. xor_at (j + i) b d) (enumerate (Suc n) bs) (xor_at (j + n) b d) ! k =
     (if j + Suc n \<le> k \<and> k < j + Suc n + length bs
      then xor_at (j + n) b d ! k XOR bs ! (k - (j + Suc n)) else xor_at (j + n) b d ! k)"
    using Cons.prems by (intro Cons.IH) simp_all
  moreover have "xor_at (j + n) b d ! k = (if k = j + n then d ! k XOR b else d ! k)"
    using Cons.prems by (simp add: xor_at_def nth_list_update)
  ultimately show ?case using Cons.prems by (auto simp: nth_Cons' Suc_diff_Suc)
qed auto

lemma le_word_finalize:
  assumes "length (qx_data q) = 20"
  shows "le_word (qx_finalize q) = le_word (qx_data q) XOR push_bit 96 (ucast (qx_length q))"
proof (rule u160_eqI)
  fix k m :: nat
  assume km: "k < 20" "m < 8"
  let ?l = "u64_le_bytes (qx_length q)"
  have "qx_finalize q ! k = (if 12 \<le> k then qx_data q ! k XOR ?l ! (k - 12) else qx_data q ! k)"
    using fold_xor_at_nth [of 0 ?l 12 "qx_data q" k] km assms by (simp add: qx_finalize_def)
  moreover have "12 \<le> k \<Longrightarrow> bit (?l ! (k - 12)) m \<longleftrightarrow> bit (qx_length q) (8 * k + m - 96)"
    using bit_le_bytes [of "k - 12" m "qx_length q"] km by (simp add: algebra_simps)
  ultimately show "bit (le_word (qx_finalize q)) (8 * k + m)
      \<longleftrightarrow> bit (le_word (qx_data q) XOR push_bit 96 (ucast (qx_length q))) (8 * k + m)"
    using km by (auto simp: bit_le_word_mod bit_xor_iff bit_push_bit_iff bit_ucast_iff)
qed

lemma qx_correct: "le_word (qx_finalize (qx_update bs qx_new)) = quick_xor_spec bs"
proof -
  have "length (qx_data (qx_update bs qx_new)) = 20"
    by (simp add: qx_update_def Let_def qx_new_def)
  moreover have "le_word (qx_data (qx_update bs qx_new)) = rotated_xor 0 bs"
    using le_word_fold [of qx_new bs] by (simp add: qx_update_def Let_def qx_new_def le_word_zero)
  moreover have "qx_length (fold qx_byte bs q) = qx_length q" for q
    by (induction bs arbitrary: q) (simp_all add: qx_byte_def)
  then have "qx_length (qx_update bs qx_new) = word_of_nat (length bs)"
    by (simp add: qx_update_def Let_def qx_new_def)
  ultimately show ?thesis by (simp add: le_word_finalize quick_xor_spec_def)
qed

lemma qx_byte_length: "qx_byte b (q\<lparr>qx_length := n\<rparr>) = (qx_byte b q)\<lparr>qx_length := n\<rparr>"
  by (simp add: qx_byte_def)

lemma fold_qx_length: "fold qx_byte bs (q\<lparr>qx_length := n\<rparr>) = (fold qx_byte bs q)\<lparr>qx_length := n\<rparr>"
  by (induction bs arbitrary: q) (simp_all add: qx_byte_length)

lemma qx_length_fold [simp]: "qx_length (fold qx_byte bs q) = qx_length q"
  by (induction bs arbitrary: q) (simp_all add: qx_byte_def)

lemma qx_update_append: "qx_update (xs @ ys) q = qx_update ys (qx_update xs q)"
  by (simp add: qx_update_def Let_def fold_qx_length)

text \<open>
  C30: The hasher (an array of 20 bytes, a cursor that advances by 11 bits and wraps, a byte
  spread over two neighbours) computes the published QuickXorHash: the 160-bit word that XORs
  every input byte rotated by 11 times its index, and the length into the last 64 bits.
\<close>
theorem quick_xor_correct: "le_word (qx_finalize (qx_update bs qx_new)) = quick_xor_spec bs"
  by (rule qx_correct)

end
