(* ===== verification/Download.thy ===== *)
theory Download
  imports Quick_Xor
begin

text \<open>
  The verified download (\<open>download\<close> and \<open>download_from_url\<close> of
  \<open>crates/onesync-graph/src/download.rs\<close>): the body arrives in chunks of any size, is cut
  into blocks of \<open>HASH_BLOCK_BYTES\<close>, and every block goes to both hashers and to the result.
  SHA-1 is third-party: its hasher is the bytes it was fed, \<open>ht_sha1\<close> its digest.
\<close>

record dl_state =
  ds_sha1 :: bytes
  ds_qxh :: quick_xor
  ds_all :: bytes
  ds_buf :: bytes

definition dl_init :: dl_state where
  "dl_init = \<lparr>ds_sha1 = [], ds_qxh = qx_new, ds_all = [], ds_buf = []\<rparr>"

definition hash_block :: "bytes \<Rightarrow> dl_state \<Rightarrow> dl_state" where
  "hash_block block s =
     s\<lparr>ds_sha1 := ds_sha1 s @ block, ds_qxh := qx_update block (ds_qxh s), ds_all := ds_all s @ block\<rparr>"

text \<open>\<open>while chunk_buf.len() >= HASH_BLOCK_BYTES\<close>, for a block size \<open>n\<close>.\<close>

function drain_blocks :: "nat \<Rightarrow> dl_state \<Rightarrow> dl_state" where
  "drain_blocks n s =
     (if 0 < n \<and> n \<le> length (ds_buf s)
      then drain_blocks n (hash_block (take n (ds_buf s)) (s\<lparr>ds_buf := drop n (ds_buf s)\<rparr>))
      else s)"
  by auto
termination
  by (relation "measure (\<lambda>(n, s). length (ds_buf s))") (auto simp: hash_block_def)

declare drain_blocks.simps [simp del]

definition dl_chunk :: "bytes \<Rightarrow> dl_state \<Rightarrow> dl_state" where
  "dl_chunk chunk s = drain_blocks HASH_BLOCK_BYTES (s\<lparr>ds_buf := ds_buf s @ chunk\<rparr>)"

definition dl_remainder :: "dl_state \<Rightarrow> dl_state" where
  "dl_remainder s = (if ds_buf s \<noteq> [] then hash_block (ds_buf s) s else s)"

definition hex_encode :: "bytes \<Rightarrow> string" where
  "hex_encode bs = concat (map hex_lower bs)"

definition eq_ignore_ascii_case :: "string \<Rightarrow> string \<Rightarrow> bool" where
  "eq_ignore_ascii_case a b \<longleftrightarrow> to_ascii_lowercase a = to_ascii_lowercase b"

definition verify_hashes :: "'w http_lib \<Rightarrow> dl_state \<Rightarrow> file_hashes option \<Rightarrow> graph_internal_error + bytes" where
  "verify_hashes ht s expected =
     (case expected of
        None \<Rightarrow> Inr (ds_all s)
      | Some hashes \<Rightarrow>
          (if \<exists>x \<in> set_option (fh_sha1_hash hashes).
                \<not> eq_ignore_ascii_case (hex_encode (ht_sha1 ht (ds_sha1 s))) x
           then Inl GiHashMismatch
           else if \<exists>x \<in> set_option (fh_quick_xor_hash hashes).
                ht_base64 ht (qx_finalize (ds_qxh s)) \<noteq> x
           then Inl GiHashMismatch
           else Inr (ds_all s)))"

definition read_body :: "http_response \<Rightarrow> graph_internal_error + dl_state" where
  "read_body r =
     (let s = fold dl_chunk (rs_chunks r) dl_init
      in case rs_read_error r of Some e \<Rightarrow> Inl (GiNetwork e) | None \<Rightarrow> Inr (dl_remainder s))"

definition download_from_url ::
  "'w http_lib \<Rightarrow> string \<Rightarrow> string \<Rightarrow> file_hashes option \<Rightarrow> ('w, bytes) gio" where
  "download_from_url ht token url expected =
     bindE (send_checked ht MGet url token NoBody) (\<lambda>checked.
     bindE (resultE (read_body checked)) (\<lambda>s.
     resultE (verify_hashes ht s expected)))"

definition download ::
  "'w http_lib \<Rightarrow> string \<Rightarrow> drive_id \<Rightarrow> string \<Rightarrow> file_hashes option \<Rightarrow> ('w, bytes) gio" where
  "download ht token drive item_id expected =
     download_from_url ht token
       (GRAPH_BASE @ ''/drives/'' @ drive_id_str drive @ ''/items/'' @ item_id @ ''/content'') expected"

section \<open>The block loop reads the whole body\<close>

text \<open>The bytes taken so far: hashed, and still in the buffer.\<close>

definition dl_inv :: "bytes \<Rightarrow> dl_state \<Rightarrow> bool" where
  "dl_inv bs s \<longleftrightarrow>
     ds_all s @ ds_buf s = bs \<and> ds_sha1 s = ds_all s \<and> ds_qxh s = qx_update (ds_all s) qx_new"

lemma qx_update_Nil [simp]: "qx_update [] q = q"
  by (simp add: qx_update_def)

lemma dl_inv_init: "dl_inv [] dl_init"
  by (simp add: dl_inv_def dl_init_def)

lemma hash_block_inv:
  "dl_inv bs (s\<lparr>ds_buf := block @ rest\<rparr>) \<Longrightarrow> dl_inv bs (hash_block block (s\<lparr>ds_buf := rest\<rparr>))"
  by (simp add: dl_inv_def hash_block_def qx_update_append)

lemma drain_blocks_inv: "dl_inv bs s \<Longrightarrow> dl_inv bs (drain_blocks n s)"
proof (induction n s rule: drain_blocks.induct)
  case (1 n s)
  show ?case
  proof (cases "0 < n \<and> n \<le> length (ds_buf s)")
    case True
    have "dl_inv bs (s\<lparr>ds_buf := take n (ds_buf s) @ drop n (ds_buf s)\<rparr>)" using "1.prems" by simp
    then have "dl_inv bs (hash_block (take n (ds_buf s)) (s\<lparr>ds_buf := drop n (ds_buf s)\<rparr>))"
      by (rule hash_block_inv)
    with "1.IH" [OF True] True show ?thesis by (subst drain_blocks.simps) simp
  next
    case False
    with "1.prems" show ?thesis by (subst drain_blocks.simps) auto
  qed
qed

lemma drain_blocks_short: "0 < n \<Longrightarrow> length (ds_buf (drain_blocks n s)) < n"
proof (induction n s rule: drain_blocks.induct)
  case (1 n s)
  then show ?case by (subst drain_blocks.simps) (auto simp: not_le)
qed

lemma dl_chunk_inv: "dl_inv bs s \<Longrightarrow> dl_inv (bs @ c) (dl_chunk c s)"
  unfolding dl_chunk_def by (rule drain_blocks_inv) (auto simp: dl_inv_def)

lemma dl_chunks_inv: "dl_inv bs s \<Longrightarrow> dl_inv (bs @ concat cs) (fold dl_chunk cs s)"
proof (induction cs arbitrary: bs s)
  case (Cons c cs)
  from Cons.IH [OF dl_chunk_inv [OF Cons.prems]] show ?case by simp
qed simp

lemma dl_remainder_done:
  assumes "dl_inv bs s"
  shows "ds_all (dl_remainder s) = bs" "ds_sha1 (dl_remainder s) = bs"
    "ds_qxh (dl_remainder s) = qx_update bs qx_new"
  using assms by (auto simp: dl_remainder_def dl_inv_def hash_block_def qx_update_append)

lemma read_body_InrD:
  assumes "read_body r = Inr s"
  shows "rs_read_error r = None" "ds_all s = concat (rs_chunks r)" "ds_sha1 s = concat (rs_chunks r)"
    "ds_qxh s = qx_update (concat (rs_chunks r)) qx_new"
  using assms dl_remainder_done [OF dl_chunks_inv [OF dl_inv_init, of "rs_chunks r"]]
  by (auto simp: read_body_def Let_def split: option.splits)

text \<open>
  The buffer of the download never reaches a block: after each chunk fewer than
  \<open>HASH_BLOCK_BYTES\<close> bytes wait in it, so the loop that drains it ends and memory beyond the
  result is bounded by one block and one chunk.
\<close>
theorem download_buffer_bounded: "length (ds_buf (dl_chunk c s)) < HASH_BLOCK_BYTES"
  unfolding dl_chunk_def by (rule drain_blocks_short) (simp add: HASH_BLOCK_BYTES_def)

text \<open>
  C34: A download that succeeds returns exactly the bytes of the body of the one response that
  its request got, a success, read to its end, however the body was chunked; and both expected
  hashes, where given, hold of these bytes: SHA-1 up to case, and the QuickXorHash of the
  reference definition.
\<close>
theorem download_verified:
  assumes "download_from_url ht token url expected w = (Inr bs, w')"
  shows "\<exists>r d. send_checked ht MGet url token NoBody w = (Inr r, w')
    \<and> is_success (rs_status r) \<and> rs_read_error r = None \<and> bs = concat (rs_chunks r)
    \<and> le_word d = quick_xor_spec bs
    \<and> (\<forall>h. expected = Some h \<longrightarrow>
         (\<forall>x \<in> set_option (fh_sha1_hash h). eq_ignore_ascii_case (hex_encode (ht_sha1 ht bs)) x)
       \<and> (\<forall>x \<in> set_option (fh_quick_xor_hash h). x = ht_base64 ht d))"
proof -
  from assms obtain r s where r: "send_checked ht MGet url token NoBody w = (Inr r, w')"
    and s: "read_body r = Inr s" and v: "verify_hashes ht s expected = Inr bs"
    by (auto simp: download_from_url_def resultE_def elim!: bindE_InrE)
  from v have "ds_all s = bs"
    by (auto simp: verify_hashes_def split: option.splits if_splits)
  with read_body_InrD [OF s] have bs: "bs = concat (rs_chunks r)"
    "ds_sha1 s = bs" "ds_qxh s = qx_update bs qx_new" by simp_all
  have "\<forall>h. expected = Some h \<longrightarrow>
         (\<forall>x \<in> set_option (fh_sha1_hash h). eq_ignore_ascii_case (hex_encode (ht_sha1 ht bs)) x)
       \<and> (\<forall>x \<in> set_option (fh_quick_xor_hash h). x = ht_base64 ht (qx_finalize (qx_update bs qx_new)))"
    using v bs(2,3) by (auto simp: verify_hashes_def split: option.splits if_splits)
  with r send_checked_InrD [OF r] read_body_InrD(1) [OF s] bs(1) qx_correct [of bs] show ?thesis
    by (intro exI [of _ r] exI [of _ "qx_finalize (qx_update bs qx_new)"]) simp
qed

lemma download_verified_witness:
  "\<exists>r d. send_checked script_http MGet ''u'' ''t'' NoBody [ok_response [[1], [2]]] = (Inr r, [])
    \<and> is_success (rs_status r) \<and> rs_read_error r = None \<and> [1, 2] = concat (rs_chunks r)
    \<and> le_word d = quick_xor_spec [1, 2]
    \<and> (\<forall>h. Some \<lparr>fh_sha1_hash = Some ''0102'', fh_quick_xor_hash = None\<rparr> = Some h \<longrightarrow>
         (\<forall>x \<in> set_option (fh_sha1_hash h).
            eq_ignore_ascii_case (hex_encode (ht_sha1 script_http [1, 2])) x)
       \<and> (\<forall>x \<in> set_option (fh_quick_xor_hash h). x = ht_base64 script_http d))"
  by (rule download_verified [of script_http "''t''" "''u''" _ "[ok_response [[1], [2]]]" "[1, 2]" "[]"])
     (simp add: download_from_url_def send_checked_def send_def new_request_id_def io_simps script_http_def
        check_status_def ok_response_def is_success_def read_body_def dl_chunk_def drain_blocks.simps
        HASH_BLOCK_BYTES_def dl_init_def dl_remainder_def hash_block_def verify_hashes_def
        eq_ignore_ascii_case_def hex_encode_def hex_lower_def show_byte_02x_def hex_digit_def script_send.simps char_of_def bit_Suc_0_iff)

end
