(* ===== verification/Urls.thy ===== *)
theory Urls
  imports Prelude
begin

text \<open>
  Percent encoding of URL segments and paths (\<open>crates/onesync-graph/src/urls.rs\<close>), with the
  RFC 3986 decoder as the reference of the round trip.
\<close>

section \<open>The encoder\<close>

definition is_unreserved :: "char \<Rightarrow> bool" where
  "is_unreserved c \<longleftrightarrow>
     CHR ''A'' \<le> c \<and> c \<le> CHR ''Z'' \<or> CHR ''a'' \<le> c \<and> c \<le> CHR ''z'' \<or>
     CHR ''0'' \<le> c \<and> c \<le> CHR ''9'' \<or>
     c = CHR ''-'' \<or> c = CHR ''_'' \<or> c = CHR ''.'' \<or> c = CHR ''~''"

text \<open>\<open>%{byte:02X}\<close>: two upper-case hexadecimal digits.\<close>

definition hex_upper_digit :: "nat \<Rightarrow> char" where
  "hex_upper_digit n = (if n < 10 then char_of (48 + n) else char_of (55 + n))"

definition percent_byte :: "char \<Rightarrow> string" where
  "percent_byte c =
     [CHR ''%'', hex_upper_digit (of_char c div 16), hex_upper_digit (of_char c mod 16)]"

fun encode_segment :: "string \<Rightarrow> string" where
  "encode_segment [] = []"
| "encode_segment (c # cs) = (if is_unreserved c then [c] else percent_byte c) @ encode_segment cs"

text \<open>The loop over the segments, with its \<open>first\<close> flag.\<close>

fun encode_segments :: "bool \<Rightarrow> string list \<Rightarrow> string" where
  "encode_segments first [] = []"
| "encode_segments first (x # xs) =
     (if first then [] else ''/'') @ encode_segment x @ encode_segments False xs"

definition encode_path :: "string \<Rightarrow> string" where
  "encode_path s = encode_segments True (split_on CHR ''/'' s)"

section \<open>The reference decoder\<close>

definition hex_value :: "char \<Rightarrow> nat option" where
  "hex_value c =
     (if CHR ''0'' \<le> c \<and> c \<le> CHR ''9'' then Some (of_char c - 48)
      else if CHR ''A'' \<le> c \<and> c \<le> CHR ''F'' then Some (of_char c - 55)
      else if CHR ''a'' \<le> c \<and> c \<le> CHR ''f'' then Some (of_char c - 87)
      else None)"

fun percent_decode :: "string \<Rightarrow> string option" where
  "percent_decode [] = Some []"
| "percent_decode (c # cs) =
     (if c = CHR ''%'' then
        (case cs of
           h # l # r \<Rightarrow>
             (case (hex_value h, hex_value l, percent_decode r) of
                (Some a, Some b, Some t) \<Rightarrow> Some (char_of (16 * a + b) # t)
              | _ \<Rightarrow> None)
         | _ \<Rightarrow> None)
      else map_option (Cons c) (percent_decode cs))"

section \<open>Encoding is safe and can be undone\<close>

lemma hex_value_upper: "n < 16 \<Longrightarrow> hex_value (hex_upper_digit n) = Some n"
proof -
  assume "n < 16"
  then have "n \<in> set [0..<16]" by simp
  moreover have "list_all (\<lambda>n. hex_value (hex_upper_digit n) = Some n) [0..<16]" by code_simp
  ultimately show ?thesis by (simp only: list_all_iff)
qed

lemma hex_upper_unreserved: "n < 16 \<Longrightarrow> is_unreserved (hex_upper_digit n)"
proof -
  assume "n < 16"
  then have "n \<in> set [0..<16]" by simp
  moreover have "list_all (\<lambda>n. is_unreserved (hex_upper_digit n)) [0..<16]" by code_simp
  ultimately show ?thesis by (simp only: list_all_iff)
qed

lemma of_char_bounds [simp]: "(of_char c :: nat) div 16 < 16" "(of_char c :: nat) mod 16 < 16"
proof -
  have "(of_char c :: nat) < 256" by simp
  then show "(of_char c :: nat) div 16 < 16" by linarith
qed simp

lemma percent_not_unreserved [simp]: "\<not> is_unreserved CHR ''%''" "\<not> is_unreserved CHR ''/''"
  by code_simp+

lemma encode_segment_append [simp]: "encode_segment (a @ b) = encode_segment a @ encode_segment b"
  by (induction a) simp_all

lemma encode_segment_chars:
  "c \<in> set (encode_segment s) \<Longrightarrow> is_unreserved c \<or> c = CHR ''%''"
  by (induction s) (auto simp: percent_byte_def hex_upper_unreserved split: if_splits)

lemma percent_decode_byte:
  "percent_decode (percent_byte c @ r) = map_option (Cons c) (percent_decode r)"
  by (simp add: percent_byte_def hex_value_upper split: option.splits)

lemma percent_decode_encode: "percent_decode (encode_segment s) = Some s"
proof (induction s)
  case (Cons c s)
  have "c \<noteq> CHR ''%''" if "is_unreserved c" using that by auto
  with Cons show ?case by (simp add: percent_decode_byte del: percent_decode.simps(2)) auto
qed simp

lemma encode_segment_no_slash: "CHR ''/'' \<notin> set (encode_segment s)"
  using encode_segment_chars [of "CHR ''/''" s] by auto

lemma split_encode_segments:
  "xs \<noteq> [] \<Longrightarrow> split_on CHR ''/'' (encode_segments True xs) = map encode_segment xs"
proof (induction xs)
  case (Cons x xs)
  show ?case
  proof (cases xs)
    case Nil
    then show ?thesis by (simp add: split_on_no_sep encode_segment_no_slash)
  next
    case (Cons y ys)
    then have "encode_segments True (x # xs) = encode_segment x @ CHR ''/'' # encode_segments True xs" by simp
    then show ?thesis
      using Cons.IH Cons by (simp only: split_on_append) (simp add: split_on_no_sep encode_segment_no_slash)
  qed
qed simp

text \<open>
  A segment survives the round trip through any RFC 3986 decoder, and its encoding holds
  nothing but unreserved characters and the percent sign: no separator, query or fragment
  mark of a file name can change the shape of the URL it is placed in.
\<close>
theorem encode_segment_roundtrip:
  "percent_decode (encode_segment s) = Some s
   \<and> list_all (\<lambda>c. is_unreserved c \<or> c = CHR ''%'') (encode_segment s)"
  using encode_segment_chars by (auto simp: percent_decode_encode list_all_iff)

text \<open>
  The encoding of a path has the segments of the path, each encoded: splitting it at the
  slashes and decoding each part gives the segments back.
\<close>
theorem encode_path_segments:
  "split_on CHR ''/'' (encode_path s) = map encode_segment (split_on CHR ''/'' s)
   \<and> map percent_decode (split_on CHR ''/'' (encode_path s)) = map Some (split_on CHR ''/'' s)"
  by (simp add: encode_path_def split_encode_segments percent_decode_encode)

end
