(* ===== verification/Upload_Session.thy ===== *)
theory Upload_Session
  imports Urls Graph_Http
begin

text \<open>
  Uploads (\<open>crates/onesync-graph/src/upload/small.rs\<close> and \<open>upload/session.rs\<close>): the single
  \<open>PUT\<close> with its size guard, and the resumable session, a loop over the chunks of the file
  that a 416 answer can send back to an offset of the server's choice.  Offsets are natural
  numbers: they stay below the length of the file, which is in memory.  A subtraction below
  zero and a slice out of range end in \<open>CrPanic\<close>.
\<close>

section \<open>Single requests\<close>

definition item_content_url :: "drive_id \<Rightarrow> string \<Rightarrow> string \<Rightarrow> string \<Rightarrow> string" where
  "item_content_url drive parent name tail =
     GRAPH_BASE @ ''/drives/'' @ drive_id_str drive @ ''/items/'' @ encode_segment parent @ '':/''
       @ encode_segment name @ tail"

definition upload_small_to ::
  "'w http_lib \<Rightarrow> string \<Rightarrow> string \<Rightarrow> bytes \<Rightarrow> ('w, remote_item) gio" where
  "upload_small_to ht token url bs =
     bindE (new_request_id ht) (\<lambda>rid.
     bindE (send ht \<lparr>rq_method = MPut, rq_url = url, rq_bearer = Some token,
              rq_headers = [(''client-request-id'', rid), (''Content-Type'', ''application/octet-stream'')],
              rq_body = BytesBody bs\<rparr>) (\<lambda>resp.
     bindE (resultE (check_status ht resp rid)) (decode (ht_item ht))))"

definition upload_small ::
  "'w http_lib \<Rightarrow> string \<Rightarrow> drive_id \<Rightarrow> string \<Rightarrow> string \<Rightarrow> bytes \<Rightarrow> ('w, remote_item) gio" where
  "upload_small ht token drive parent name bs =
     (if length bs > GRAPH_SMALL_UPLOAD_MAX_BYTES
      then throwE (GiInvalidArgument (''payload '' @ show_nat (length bs)
             @ '' bytes exceeds small-upload limit of '' @ show_nat GRAPH_SMALL_UPLOAD_MAX_BYTES))
      else upload_small_to ht token
             (item_content_url drive parent name ('':/content?'' @ ''@microsoft.graph.conflictBehavior=replace'')) bs)"

definition session_body :: json where
  "session_body =
     JObject [(''item'', JObject [(''@microsoft.graph.conflictBehavior'', JString ''replace'')])]"

section \<open>The chunk loop\<close>

definition parse_range_start :: "string \<Rightarrow> nat option" where
  "parse_range_start range_str = parse_u64 (hd (split_on CHR ''-'' range_str))"

text \<open>The loop of \<open>find_chunk_index\<close>, from index \<open>i\<close> and cumulated offset \<open>cum\<close>.\<close>

fun find_chunk_from :: "nat \<Rightarrow> nat \<Rightarrow> bytes list \<Rightarrow> nat \<Rightarrow> nat \<times> nat" where
  "find_chunk_from i cum [] target = (i, cum)"
| "find_chunk_from i cum (c # cs) target =
     (if target < cum + length c then (i, cum) else find_chunk_from (Suc i) (cum + length c) cs target)"

definition find_chunk_index :: "bytes list \<Rightarrow> nat \<Rightarrow> nat \<times> nat" where
  "find_chunk_index chunks target = find_chunk_from 0 0 chunks target"

record up_state =
  up_offset :: nat
  up_index :: nat
  up_start :: nat
  up_attempts :: nat

definition up_init :: up_state where
  "up_init = \<lparr>up_offset = 0, up_index = 0, up_start = 0, up_attempts = 0\<rparr>"

datatype chunk_result = CrContinue up_state | CrItem remote_item | CrPanic

definition content_range :: "nat \<Rightarrow> nat \<Rightarrow> nat \<Rightarrow> string" where
  "content_range offset end_pos total_size =
     ''bytes '' @ show_nat offset @ ''-'' @ show_nat end_pos @ ''/'' @ show_nat total_size"

definition put_request :: "string \<Rightarrow> nat \<Rightarrow> nat \<Rightarrow> bytes \<Rightarrow> string \<Rightarrow> http_request" where
  "put_request url offset total_size part rid =
     \<lparr>rq_method = MPut, rq_url = url, rq_bearer = None,
      rq_headers = [(''Content-Range'', content_range offset (offset + length part - 1) total_size),
                    (''Content-Length'', show_nat (length part)), (''client-request-id'', rid)],
      rq_body = BytesBody part\<rparr>"

definition session_get :: "string \<Rightarrow> http_request" where
  "session_get url = \<lparr>rq_method = MGet, rq_url = url, rq_bearer = None, rq_headers = [], rq_body = NoBody\<rparr>"

text \<open>The answer 416: count the attempt, ask the session what it expects, move there.\<close>

definition resume_416 ::
  "'w http_lib \<Rightarrow> string \<Rightarrow> bytes list \<Rightarrow> string \<Rightarrow> up_state \<Rightarrow> ('w, chunk_result) gio" where
  "resume_416 ht url chunks rid st =
     (let attempts = up_attempts st + 1
      in if attempts > RETRY_MAX_ATTEMPTS then throwE (GiInvalidRange rid)
         else
           bindE (send ht (session_get url)) (\<lambda>resp.
           bindE (map_errE (\<lambda>e. GiDecode (''416 session re-query parse failed: '' @ e))
                    (resultE (response_json (ht_ranges ht) resp))) (\<lambda>ranges.
           case ranges of
             [] \<Rightarrow> throwE (GiInvalidRange rid)
           | range_str # _ \<Rightarrow>
               (case parse_range_start range_str of
                  None \<Rightarrow> throwE (GiInvalidRange rid)
                | Some new_offset \<Rightarrow>
                    (case find_chunk_index chunks new_offset of
                       (i, start) \<Rightarrow>
                         returnE (CrContinue \<lparr>up_offset = new_offset, up_index = i, up_start = start,
                                              up_attempts = attempts\<rparr>))))))"

text \<open>One turn of the loop, for an index below the number of chunks.\<close>

definition upload_turn ::
  "'w http_lib \<Rightarrow> string \<Rightarrow> nat \<Rightarrow> bytes list \<Rightarrow> up_state \<Rightarrow> ('w, chunk_result) gio" where
  "upload_turn ht url total_size chunks st =
     (let chunk = chunks ! up_index st;
          slice_start = up_offset st - up_start st;
          part = drop slice_start chunk
      in if up_offset st < up_start st \<or> slice_start > length chunk \<or> up_offset st + length part = 0
         then returnE CrPanic
         else
           bindE (new_request_id ht) (\<lambda>rid.
           bindE (send ht (put_request url (up_offset st) total_size part rid)) (\<lambda>resp.
           let status = rs_status resp
           in if status = 416 then resume_416 ht url chunks rid st
              else if status = 202 then
                (let offset = up_offset st + length part
                 in returnE (CrContinue
                      (if offset \<ge> up_start st + length chunk
                       then st\<lparr>up_offset := offset, up_index := up_index st + 1, up_start := offset\<rparr>
                       else st\<lparr>up_offset := offset\<rparr>)))
              else if status = 200 \<or> status = 201 then
                (case response_text ht resp of
                   Inl e \<Rightarrow> throwE (GiDecode e)
                 | Inr body \<Rightarrow>
                     (case ht_item_text ht body of
                        Inl e \<Rightarrow> throwE (GiDecode (''final upload response parse failed: '' @ e @ '': '' @ body))
                      | Inr item \<Rightarrow> returnE (CrItem item)))
              else
                (let body = (case response_text ht resp of Inl _ \<Rightarrow> [] | Inr t \<Rightarrow> t)
                 in throwE (GiTransient (''unexpected upload chunk status '' @ ht_status_text ht status
                              @ '': '' @ body) rid)))))"

text \<open>How a turn can go on: a counted resume, or the next chunk.\<close>

lemma upload_turn_continue:
  assumes "upload_turn ht url total_size chunks st w = (Inr (CrContinue st'), w')"
  shows "up_attempts st < RETRY_MAX_ATTEMPTS \<and> up_attempts st' = Suc (up_attempts st)
    \<or> up_attempts st' = up_attempts st \<and> up_index st' = Suc (up_index st)"
  using assms
  by (auto simp: upload_turn_def resume_416_def Let_def io_simps
      split: prod.splits sum.splits if_splits list.splits option.splits)

function upload_loop ::
  "'w http_lib \<Rightarrow> string \<Rightarrow> nat \<Rightarrow> bytes list \<Rightarrow> up_state \<Rightarrow> ('w, chunk_result) gio" where
  "upload_loop ht url total_size chunks st w =
     (if up_index st < length chunks
      then (case upload_turn ht url total_size chunks st w of
              (Inr (CrContinue st'), w') \<Rightarrow> upload_loop ht url total_size chunks st' w'
            | (r, w') \<Rightarrow> (r, w'))
      else (Inl (GiDecode ''upload session completed chunks without receiving final item''), w))"
  by auto
termination
  by (relation "measures [\<lambda>(ht, url, total_size, chunks, st, w). RETRY_MAX_ATTEMPTS - up_attempts st,
                          \<lambda>(ht, url, total_size, chunks, st, w). length chunks - up_index st]")
     (auto dest!: upload_turn_continue [OF sym])

declare upload_loop.simps [simp del]

lemma upload_loop_stop:
  assumes "up_index st < length chunks" and "upload_turn ht url total_size chunks st w = (r, w')"
    and "\<nexists>st'. r = Inr (CrContinue st')"
  shows "upload_loop ht url total_size chunks st w = (r, w')"
  using assms by (subst upload_loop.simps) (auto split: sum.splits chunk_result.splits)

lemma upload_loop_continue:
  assumes "up_index st < length chunks"
    and "upload_turn ht url total_size chunks st w = (Inr (CrContinue st'), w')"
  shows "upload_loop ht url total_size chunks st w = upload_loop ht url total_size chunks st' w'"
  using assms by (subst upload_loop.simps) simp

lemma upload_loop_end:
  assumes "\<not> up_index st < length chunks"
  shows "upload_loop ht url total_size chunks st w =
    (Inl (GiDecode ''upload session completed chunks without receiving final item''), w)"
  using assms by (subst upload_loop.simps) simp

definition upload_session_with_base ::
  "'w http_lib \<Rightarrow> string \<Rightarrow> string \<Rightarrow> nat \<Rightarrow> bytes list \<Rightarrow> ('w, chunk_result) gio" where
  "upload_session_with_base ht token create_url total_size chunks =
     bindE (send_checked ht MPost create_url token (JsonBody session_body)) (\<lambda>resp.
     bindE (decode (ht_session_url ht) resp) (\<lambda>upload_url.
     upload_loop ht upload_url total_size chunks up_init))"

definition upload_session ::
  "'w http_lib \<Rightarrow> string \<Rightarrow> drive_id \<Rightarrow> string \<Rightarrow> string \<Rightarrow> nat \<Rightarrow> bytes list \<Rightarrow> ('w, chunk_result) gio" where
  "upload_session ht token drive parent name total_size chunks =
     upload_session_with_base ht token (item_content_url drive parent name '':/createUploadSession'')
       total_size chunks"

section \<open>What is sent\<close>

text \<open>The chunk at the index starts at \<open>up_start\<close> and holds the byte at \<open>up_offset\<close>.\<close>

definition up_inv :: "bytes list \<Rightarrow> up_state \<Rightarrow> bool" where
  "up_inv chunks st \<longleftrightarrow>
     up_index st < length chunks \<longrightarrow>
       up_start st = length (concat (take (up_index st) chunks))
     \<and> up_start st \<le> up_offset st
     \<and> up_offset st < up_start st + length (chunks ! up_index st)"

lemma find_chunk_from_correct:
  assumes "find_chunk_from i cum cs target = (k, start)" and "cum \<le> target"
  shows "i \<le> k \<and> k \<le> i + length cs \<and> start = cum + length (concat (take (k - i) cs)) \<and> start \<le> target
    \<and> (k < i + length cs \<longrightarrow> target < start + length (cs ! (k - i)))
    \<and> (k = i + length cs \<longrightarrow> cum + length (concat cs) \<le> target)"
  using assms
proof (induction i cum cs target rule: find_chunk_from.induct)
  case (2 i cum c cs target)
  show ?case
  proof (cases "target < cum + length c")
    case True
    with 2 show ?thesis by auto
  next
    case False
    with "2.prems" have "find_chunk_from (Suc i) (cum + length c) cs target = (k, start)" by simp
    from "2.IH" [OF False this] False have IH: "Suc i \<le> k" "k \<le> Suc i + length cs"
      "start = cum + length c + length (concat (take (k - Suc i) cs))" "start \<le> target"
      "k < Suc i + length cs \<Longrightarrow> target < start + length (cs ! (k - Suc i))"
      "k = Suc i + length cs \<Longrightarrow> cum + length c + length (concat cs) \<le> target" by auto
    then have "k - i = Suc (k - Suc i)" by simp
    with IH show ?thesis by (auto simp: add.assoc)
  qed
qed simp

lemma find_chunk_inv:
  assumes "find_chunk_index chunks target = (k, start)"
  shows "up_inv chunks \<lparr>up_offset = target, up_index = k, up_start = start, up_attempts = n\<rparr>"
  using find_chunk_from_correct [OF assms [unfolded find_chunk_index_def]] by (auto simp: up_inv_def)

text \<open>The slice of a turn is what the file holds from the offset to the end of the chunk.\<close>

lemma chunk_slice:
  assumes "up_inv chunks st" and "up_index st < length chunks"
  shows "drop (up_offset st - up_start st) (chunks ! up_index st)
     = take (length (drop (up_offset st - up_start st) (chunks ! up_index st)))
         (drop (up_offset st) (concat chunks))"
proof -
  let ?c = "chunks ! up_index st" and ?p = "concat (take (up_index st) chunks)"
  have "concat chunks = ?p @ ?c @ concat (drop (Suc (up_index st)) chunks)"
    using assms(2) by (metis append_take_drop_id concat.simps(2) concat_append Cons_nth_drop_Suc)
  moreover have "up_start st = length ?p" "up_start st \<le> up_offset st"
    "up_offset st - up_start st < length ?c"
    using assms by (auto simp: up_inv_def)
  ultimately show ?thesis by simp
qed

lemma take_index_Suc:
  "i < length chunks \<Longrightarrow> length (concat (take (Suc i) chunks)) = length (concat (take i chunks)) + length (chunks ! i)"
  by (simp add: take_Suc_conv_app_nth)

lemma upload_turn_inv:
  assumes "upload_turn ht url total_size chunks st w = (Inr (CrContinue st'), w')"
    and "up_inv chunks st" and "up_index st < length chunks" and "[] \<notin> set chunks"
  shows "up_inv chunks st'"
proof -
  from assms(1) consider
      (resume) t k start n where "find_chunk_index chunks t = (k, start)"
        "st' = \<lparr>up_offset = t, up_index = k, up_start = start, up_attempts = n\<rparr>"
    | (advance) e where "e = up_offset st + length (drop (up_offset st - up_start st) (chunks ! up_index st))"
        "st' = st\<lparr>up_offset := e, up_index := up_index st + 1, up_start := e\<rparr>"
    | (stay) "up_offset st + length (drop (up_offset st - up_start st) (chunks ! up_index st))
        < up_start st + length (chunks ! up_index st)"
    by (auto simp: upload_turn_def resume_416_def Let_def io_simps
        split: prod.splits sum.splits if_splits list.splits option.splits)
  then show ?thesis
  proof cases
    case resume
    then show ?thesis by (simp add: find_chunk_inv)
  next
    case advance
    have e: "e = length (concat (take (Suc (up_index st)) chunks))"
      unfolding take_index_Suc [OF assms(3)] using assms(2,3) advance(1) by (simp add: up_inv_def)
    have "0 < length (chunks ! Suc (up_index st))" if "Suc (up_index st) < length chunks"
      using that assms(4) nth_mem by fastforce
    with advance(2) e show ?thesis by (simp add: up_inv_def)
  next
    case stay
    with assms(2,3) show ?thesis by (simp add: up_inv_def)
  qed
qed

text \<open>A request of the loop: a slice of the file under its own range, or the question after 416.\<close>

definition session_request :: "string \<Rightarrow> nat \<Rightarrow> bytes \<Rightarrow> http_request \<Rightarrow> bool" where
  "session_request url total_size file rq \<longleftrightarrow>
     rq = session_get url
   \<or> (\<exists>offset n rid. 0 < n \<and> offset + n \<le> length file
        \<and> rq = put_request url offset total_size (take n (drop offset file)) rid)"

lemma upload_turn_request:
  assumes "up_inv chunks st" and "up_index st < length chunks"
  shows "session_request url total_size (concat chunks)
     (put_request url (up_offset st) total_size (drop (up_offset st - up_start st) (chunks ! up_index st)) rid)"
proof -
  let ?s = "drop (up_offset st - up_start st) (chunks ! up_index st)"
  have s: "?s = take (length ?s) (drop (up_offset st) (concat chunks))" by (rule chunk_slice [OF assms])
  then have "length ?s \<le> length (concat chunks) - up_offset st"
    by (metis length_drop length_take min.cobounded1)
  moreover have "0 < length ?s" using assms by (simp add: up_inv_def)
  ultimately have "up_offset st + length ?s \<le> length (concat chunks)" by linarith
  with s \<open>0 < length ?s\<close> show ?thesis unfolding session_request_def by metis
qed

lemma keeps_random: "(\<And>n w. I w \<Longrightarrow> I (snd (ht_random ht n w))) \<Longrightarrow> keeps I (new_request_id ht)"
  by (auto simp: new_request_id_def keeps_def liftE_def split: prod.splits) (metis snd_conv)

lemma keeps_send: "keeps I (ht_send ht rq) \<Longrightarrow> keeps I (send ht rq)"
  unfolding send_def by (rule keeps_map_err)

lemma upload_turn_keeps:
  assumes rand: "\<And>n w. I w \<Longrightarrow> I (snd (ht_random ht n w))"
    and srv: "\<And>rq. session_request url total_size (concat chunks) rq \<Longrightarrow> keeps I (ht_send ht rq)"
    and inv: "up_inv chunks st" "up_index st < length chunks"
  shows "keeps I (upload_turn ht url total_size chunks st)"
proof -
  have get: "keeps I (send ht (session_get url))"
    by (rule keeps_send, rule srv) (simp add: session_request_def)
  have put: "keeps I (send ht (put_request url (up_offset st) total_size
        (drop (up_offset st - up_start st) (chunks ! up_index st)) rid))" for rid
    by (rule keeps_send, rule srv) (rule upload_turn_request [OF inv])
  have res: "keeps I (resume_416 ht url chunks rid st)" for rid
    unfolding resume_416_def Let_def
    by (intro keeps_if keeps_bind keeps_map_err keeps_result keeps_throw get)
       (auto split: list.splits option.splits prod.splits)
  show ?thesis
    unfolding upload_turn_def Let_def
    by (intro keeps_if keeps_bind keeps_random keeps_return keeps_throw put res rand)
       (auto split: sum.splits)
qed

lemma upload_loop_keeps:
  assumes rand: "\<And>n w. I w \<Longrightarrow> I (snd (ht_random ht n w))"
    and srv: "\<And>rq. session_request url total_size (concat chunks) rq \<Longrightarrow> keeps I (ht_send ht rq)"
    and ne: "[] \<notin> set chunks"
  shows "up_inv chunks st \<Longrightarrow> I w \<Longrightarrow> I (snd (upload_loop ht url total_size chunks st w))"
  using rand srv ne
proof (induction ht url total_size chunks st w rule: upload_loop.induct)
  case (1 ht url total_size chunks st w)
  show ?case
  proof (cases "up_index st < length chunks")
    case True
    obtain r w' where t: "upload_turn ht url total_size chunks st w = (r, w')" by fastforce
    have "keeps I (upload_turn ht url total_size chunks st)"
      using "1.prems" True by (intro upload_turn_keeps) auto
    with t \<open>I w\<close> have I: "I w'" by (metis keepsD)
    show ?thesis
    proof (cases "\<exists>st'. r = Inr (CrContinue st')")
      case True
      then obtain st' where r: "r = Inr (CrContinue st')" by blast
      have "up_inv chunks st'"
        by (rule upload_turn_inv [OF t [unfolded r]]) (fact "1.prems" \<open>up_index st < length chunks\<close>)+
      have "I (snd (upload_loop ht url total_size chunks st' w'))"
        by (rule "1.IH" [OF \<open>up_index st < length chunks\<close> t [symmetric] r refl])
           (fact \<open>up_inv chunks st'\<close> I "1.prems")+
      with upload_loop_continue [OF \<open>up_index st < length chunks\<close> t [unfolded r]] show ?thesis by simp
    next
      case False
      with upload_loop_stop [OF \<open>up_index st < length chunks\<close> t] I show ?thesis by simp
    qed
  next
    case False
    with \<open>I w\<close> show ?thesis by (simp add: upload_loop_end)
  qed
qed

text \<open>Number of requests: a resume costs two and may start the chunks over.\<close>

definition up_budget :: "nat \<Rightarrow> up_state \<Rightarrow> nat" where
  "up_budget n st = (RETRY_MAX_ATTEMPTS - up_attempts st) * (n + 1) + (n - up_index st)"

lemma upload_turn_cost:
  fixes cnt :: "'w \<Rightarrow> nat"
  assumes rand: "\<And>n w. cnt (snd (ht_random ht n w)) = cnt w"
    and srv: "\<And>rq w. cnt (snd (ht_send ht rq w)) \<le> Suc (cnt w)"
    and t: "upload_turn ht url total_size chunks st w = (r, w')"
  shows "(case r of Inr (CrContinue st') \<Rightarrow>
             up_attempts st' = up_attempts st \<and> up_index st' = Suc (up_index st) \<and> cnt w' \<le> cnt w + 1
           \<or> up_attempts st < RETRY_MAX_ATTEMPTS \<and> up_attempts st' = Suc (up_attempts st) \<and> cnt w' \<le> cnt w + 2
         | _ \<Rightarrow> cnt w' \<le> cnt w + (if up_attempts st < RETRY_MAX_ATTEMPTS then 2 else 1))"
proof -
  have rand': "\<And>n w x w1. ht_random ht n w = (x, w1) \<Longrightarrow> cnt w1 = cnt w" using rand by (metis snd_conv)
  have srv': "\<And>rq w x w1. ht_send ht rq w = (x, w1) \<Longrightarrow> cnt w1 \<le> Suc (cnt w)" using srv by (metis snd_conv)
  show ?thesis
    using t
    by (auto simp: upload_turn_def resume_416_def Let_def io_simps send_def new_request_id_def
        split: prod.splits sum.splits if_splits list.splits option.splits chunk_result.splits
        dest!: rand' srv')
qed

lemma upload_loop_cost:
  fixes cnt :: "'w \<Rightarrow> nat"
  assumes "\<And>n w. cnt (snd (ht_random ht n w)) = cnt w"
    and "\<And>rq w. cnt (snd (ht_send ht rq w)) \<le> Suc (cnt w)"
  shows "up_attempts st \<le> RETRY_MAX_ATTEMPTS \<Longrightarrow>
    cnt (snd (upload_loop ht url total_size chunks st w)) \<le> cnt w + up_budget (length chunks) st"
  using assms
proof (induction ht url total_size chunks st w rule: upload_loop.induct)
  case (1 ht url total_size chunks st w)
  show ?case
  proof (cases "up_index st < length chunks")
    case less: True
    obtain r w' where t: "upload_turn ht url total_size chunks st w = (r, w')" by fastforce
    note cost = upload_turn_cost [OF "1.prems"(2,3) t]
    show ?thesis
    proof (cases "\<exists>st'. r = Inr (CrContinue st')")
      case True
      then obtain st' where r: "r = Inr (CrContinue st')" by blast
      from cost r "1.prems"(1) have le: "up_attempts st' \<le> RETRY_MAX_ATTEMPTS" by auto
      have "cnt (snd (upload_loop ht url total_size chunks st' w')) \<le> cnt w' + up_budget (length chunks) st'"
        by (rule "1.IH" [OF less t [symmetric] r refl]) (fact le "1.prems")+
      moreover have "cnt w' + up_budget (length chunks) st' \<le> cnt w + up_budget (length chunks) st"
      proof (cases "up_attempts st' = up_attempts st")
        case True
        with cost r less show ?thesis by (auto simp: up_budget_def)
      next
        case False
        with cost r have c: "up_attempts st < RETRY_MAX_ATTEMPTS" "up_attempts st' = Suc (up_attempts st)"
          "cnt w' \<le> cnt w + 2" by auto
        then obtain a where "RETRY_MAX_ATTEMPTS - up_attempts st = Suc a"
          "RETRY_MAX_ATTEMPTS - up_attempts st' = a"
          by (metis Suc_diff_Suc)
        with c(3) less show ?thesis by (simp add: up_budget_def)
      qed
      ultimately show ?thesis using upload_loop_continue [OF less t [unfolded r]] by simp
    next
      case False
      with cost have "cnt w' \<le> cnt w + (if up_attempts st < RETRY_MAX_ATTEMPTS then 2 else 1)"
        by (auto split: sum.splits chunk_result.splits if_splits)
      also have "\<dots> \<le> cnt w + up_budget (length chunks) st"
        using less mult_le_mono1 [of 1 "RETRY_MAX_ATTEMPTS - up_attempts st" "length chunks + 1"]
        by (auto simp: up_budget_def)
      finally show ?thesis using upload_loop_stop [OF less t False] by simp
    qed
  next
    case False
    then show ?thesis by (simp add: upload_loop_end)
  qed
qed

lemma resume_no_panic: "resume_416 ht url chunks rid st w \<noteq> (Inr CrPanic, w')"
  by (simp add: resume_416_def Let_def io_simps split: prod.splits sum.splits list.splits option.splits)

lemma upload_turn_no_panic:
  assumes "up_inv chunks st" and "up_index st < length chunks"
  shows "upload_turn ht url total_size chunks st w \<noteq> (Inr CrPanic, w')"
proof -
  have "\<not> (up_offset st < up_start st \<or> up_offset st - up_start st > length (chunks ! up_index st)
      \<or> up_offset st + length (drop (up_offset st - up_start st) (chunks ! up_index st)) = 0)"
    using assms by (auto simp: up_inv_def)
  note turn = if_not_P [OF this]
  show ?thesis
    unfolding upload_turn_def Let_def turn
    by (simp add: bindE_def throwE_def returnE_def resume_no_panic split: prod.splits sum.splits)
qed

lemma upload_loop_no_panic:
  assumes "[] \<notin> set chunks"
  shows "up_inv chunks st \<Longrightarrow> fst (upload_loop ht url total_size chunks st w) \<noteq> Inr CrPanic"
  using assms
proof (induction ht url total_size chunks st w rule: upload_loop.induct)
  case (1 ht url total_size chunks st w)
  show ?case
  proof (cases "up_index st < length chunks")
    case less: True
    obtain r w' where t: "upload_turn ht url total_size chunks st w = (r, w')" by fastforce
    show ?thesis
    proof (cases "\<exists>st'. r = Inr (CrContinue st')")
      case True
      then obtain st' where r: "r = Inr (CrContinue st')" by blast
      have "up_inv chunks st'"
        by (rule upload_turn_inv [OF t [unfolded r]]) (fact "1.prems" less)+
      then have "fst (upload_loop ht url total_size chunks st' w') \<noteq> Inr CrPanic"
        by (rule "1.IH" [OF less t [symmetric] r refl]) (fact "1.prems")
      with upload_loop_continue [OF less t [unfolded r]] show ?thesis by simp
    next
      case False
      with upload_loop_stop [OF less t] t upload_turn_no_panic [OF "1.prems"(1) less, of ht url total_size w w']
      show ?thesis by auto
    qed
  next
    case False
    then show ?thesis by (simp add: upload_loop_end)
  qed
qed

lemma up_inv_init: "[] \<notin> set chunks \<Longrightarrow> up_inv chunks up_init"
  by (cases chunks) (auto simp: up_inv_def up_init_def)

section \<open>The properties of an upload\<close>

text \<open>
  C29: Whatever the server answers, an upload of non-empty chunks sends nothing but the creation
  of the session, questions for the expected ranges, and \<open>PUT\<close>s whose body is exactly the
  part of the file that their \<open>Content-Range\<close> names, never a panic: a property \<open>I\<close> of the
  world that these requests keep holds after the upload.
\<close>
theorem upload_sends_file_ranges:
  assumes rand: "\<And>n w. I w \<Longrightarrow> I (snd (ht_random ht n w))"
    and create: "\<And>rid. keeps I (ht_send ht (graph_request MPost url token rid (JsonBody session_body)))"
    and srv: "\<And>session rq. session_request session total_size (concat chunks) rq \<Longrightarrow> keeps I (ht_send ht rq)"
    and ne: "[] \<notin> set chunks" and w: "I w"
  shows "I (snd (upload_session_with_base ht token url total_size chunks w))
    \<and> fst (upload_session_with_base ht token url total_size chunks w) \<noteq> Inr CrPanic"
proof
  have loop: "keeps I (upload_loop ht u total_size chunks up_init)" for u
    unfolding keeps_def
  proof (intro allI impI)
    fix v
    assume "I v"
    show "I (snd (upload_loop ht u total_size chunks up_init v))"
      by (rule upload_loop_keeps) (fact rand srv ne up_inv_init [OF ne] \<open>I v\<close>)+
  qed
  have "keeps I (upload_session_with_base ht token url total_size chunks)"
    unfolding upload_session_with_base_def send_checked_def decode_def
    by (intro keeps_bind keeps_random keeps_send keeps_result keeps_map_err loop rand create)
  then show "I (snd (upload_session_with_base ht token url total_size chunks w))"
    using w by (simp add: keeps_def)
  show "fst (upload_session_with_base ht token url total_size chunks w) \<noteq> Inr CrPanic"
    using upload_loop_no_panic [OF ne up_inv_init [OF ne], of ht _ total_size]
    by (auto simp: upload_session_with_base_def decode_def send_checked_def send_def new_request_id_def io_simps
        split: prod.splits sum.splits)
qed

lemma script_send_length: "length (snd (script_send rq w)) = length w - 1"
  by (cases w) simp_all

lemma upload_sends_file_ranges_witness:
  "length (snd (upload_session_with_base script_http ''t'' ''u'' 2 [[1], [2]]
      [ok_response [[117]], (ok_response [])\<lparr>rs_status := 202\<rparr>, ok_response [[105]]])) \<le> 3
   \<and> fst (upload_session_with_base script_http ''t'' ''u'' 2 [[1], [2]]
      [ok_response [[117]], (ok_response [])\<lparr>rs_status := 202\<rparr>, ok_response [[105]]]) \<noteq> Inr CrPanic"
  by (rule upload_sends_file_ranges [where I = "\<lambda>w. length w \<le> 3"])
     (auto simp: script_http_def keeps_def script_send_length)

text \<open>
  C35: The session loop ends after a bounded number of requests, whatever the server answers:
  at most \<open>6 n + 6\<close> for \<open>n\<close> chunks, since five resumes may each start the chunks over.
\<close>
theorem upload_requests_bounded:
  fixes cnt :: "'w \<Rightarrow> nat"
  assumes rand: "\<And>n w. cnt (snd (ht_random ht n w)) = cnt w"
    and srv: "\<And>rq w. cnt (snd (ht_send ht rq w)) \<le> Suc (cnt w)"
  shows "cnt (snd (upload_session_with_base ht token url total_size chunks w)) \<le> cnt w + 6 * length chunks + 6"
proof -
  have loop: "cnt (snd (upload_loop ht u total_size chunks up_init v)) \<le> cnt v + 6 * length chunks + 5" for u v
    using upload_loop_cost [OF rand srv, of up_init u total_size chunks v]
    by (simp add: up_budget_def up_init_def RETRY_MAX_ATTEMPTS_def)
  have rand': "\<And>n w x w1. ht_random ht n w = (x, w1) \<Longrightarrow> cnt w1 = cnt w" using rand by (metis snd_conv)
  have srv': "\<And>rq w x w1. ht_send ht rq w = (x, w1) \<Longrightarrow> cnt w1 \<le> Suc (cnt w)" using srv by (metis snd_conv)
  obtain x w1 where x: "send_checked ht MPost url token (JsonBody session_body) w = (x, w1)" by fastforce
  then have w1: "cnt w1 \<le> Suc (cnt w)"
    by (auto simp: send_checked_def io_simps send_def new_request_id_def
        split: prod.splits sum.splits dest!: rand' srv')
  show ?thesis
  proof (cases "\<exists>u. upload_session_with_base ht token url total_size chunks w
                   = upload_loop ht u total_size chunks up_init w1")
    case True
    then obtain u where u: "upload_session_with_base ht token url total_size chunks w
       = upload_loop ht u total_size chunks up_init w1" by blast
    show ?thesis using loop [of u w1] w1 unfolding u by linarith
  next
    case False
    with x have "snd (upload_session_with_base ht token url total_size chunks w) = w1"
      by (auto simp: upload_session_with_base_def bindE_def decode_def map_errE_def resultE_def
          split: prod.splits sum.splits)
    with w1 show ?thesis by simp
  qed
qed

lemma upload_requests_bounded_witness:
  "9 - length (snd (upload_session_with_base script_http ''t'' ''u'' 2 [[1], [2]]
      [ok_response [[117]], (ok_response [])\<lparr>rs_status := 202\<rparr>, ok_response [[105]]])) \<le> 9 - 3 + 18"
  using upload_requests_bounded [of "\<lambda>w. 9 - length w" script_http "''t''" "''u''" 2 "[[1], [2]]"
      "[ok_response [[117]], (ok_response [])\<lparr>rs_status := 202\<rparr>, ok_response [[105]]]"]
  by (simp add: script_http_def script_send_length)

end
