(* ===== verification/Graph_Adapter.thy ===== *)
theory Graph_Adapter
  imports Upload_Session Download
begin

text \<open>
  The Graph adapter (\<open>crates/onesync-graph/src\<close>: \<open>items.rs\<close>, \<open>ops.rs\<close>, \<open>delta.rs\<close> and
  \<open>adapter.rs\<close>): every request it makes over the HTTP library and a token source, and the
  \<open>RemoteDrive\<close> port built of them.
\<close>

section \<open>Items\<close>

definition drive_url :: "drive_id \<Rightarrow> string" where
  "drive_url drive = GRAPH_BASE @ ''/drives/'' @ drive_id_str drive"

definition item_url :: "drive_id \<Rightarrow> string \<Rightarrow> string" where
  "item_url drive item_id = drive_url drive @ ''/items/'' @ item_id"

definition json_get ::
  "'w http_lib \<Rightarrow> (bytes \<Rightarrow> string + 'a) \<Rightarrow> string \<Rightarrow> string \<Rightarrow> ('w, 'a) gio" where
  "json_get ht dec token url = bindE (send_checked ht MGet url token NoBody) (decode dec)"

definition account_profile :: "'w http_lib \<Rightarrow> string \<Rightarrow> ('w, account_profile_dto) gio" where
  "account_profile ht token = json_get ht (ht_profile ht) token (GRAPH_BASE @ ''/me'')"

definition default_drive :: "'w http_lib \<Rightarrow> string \<Rightarrow> ('w, drive_dto) gio" where
  "default_drive ht token = json_get ht (ht_drive ht) token (GRAPH_BASE @ ''/me/drive'')"

definition site_by_path :: "'w http_lib \<Rightarrow> string \<Rightarrow> string \<Rightarrow> string \<Rightarrow> ('w, site_dto) gio" where
  "site_by_path ht token host site_path =
     json_get ht (ht_site ht) token (GRAPH_BASE @ ''/sites/'' @ host @ '':/sites/'' @ site_path)"

definition site_library_by_name ::
  "'w http_lib \<Rightarrow> string \<Rightarrow> string \<Rightarrow> string \<Rightarrow> ('w, drive_dto) gio" where
  "site_library_by_name ht token site_id library_name =
     bindE (json_get ht (ht_drives ht) token (GRAPH_BASE @ ''/sites/'' @ site_id @ ''/drives'')) (\<lambda>listing.
     case find (\<lambda>d. dl_name d = Some library_name) listing of
       None \<Rightarrow> throwE (GiNotFound [])
     | Some d \<Rightarrow> returnE \<lparr>dd_id = dl_id d, dd_drive_type = dl_drive_type d\<rparr>)"

text \<open>A missing item is \<open>None\<close>, every other failure an error.\<close>

fun none_on_not_found :: "graph_internal_error + 'a \<Rightarrow> graph_internal_error + 'a option" where
  "none_on_not_found (Inr x) = Inr (Some x)"
| "none_on_not_found (Inl (GiNotFound _)) = Inr None"
| "none_on_not_found (Inl e) = Inl e"

definition item_by_path ::
  "'w http_lib \<Rightarrow> string \<Rightarrow> drive_id \<Rightarrow> string \<Rightarrow> ('w, remote_item option) gio" where
  "item_by_path ht token drive path =
     bindE (tryE (json_get ht (ht_item ht) token (drive_url drive @ ''/root:'' @ encode_path path)))
       (\<lambda>r. resultE (none_on_not_found r))"

definition item_by_id ::
  "'w http_lib \<Rightarrow> string \<Rightarrow> drive_id \<Rightarrow> string \<Rightarrow> ('w, remote_item option) gio" where
  "item_by_id ht token drive item_id =
     bindE (tryE (json_get ht (ht_item ht) token (item_url drive item_id)))
       (\<lambda>r. resultE (none_on_not_found r))"

section \<open>Rename, delete, mkdir, subscriptions\<close>

definition rename_item ::
  "'w http_lib \<Rightarrow> string \<Rightarrow> drive_id \<Rightarrow> string \<Rightarrow> string \<Rightarrow> ('w, remote_item) gio" where
  "rename_item ht token drive item_id new_name =
     bindE (send_checked ht MPatch (item_url drive item_id) token
              (JsonBody (JObject [(''name'', JString new_name)]))) (decode (ht_item ht))"

definition delete_item :: "'w http_lib \<Rightarrow> string \<Rightarrow> drive_id \<Rightarrow> string \<Rightarrow> ('w, unit) gio" where
  "delete_item ht token drive item_id =
     bindE (new_request_id ht) (\<lambda>rid.
     bindE (send ht (graph_request MDelete (item_url drive item_id) token rid NoBody)) (\<lambda>resp.
     if rs_status resp = 204 then returnE ()
     else bindE (resultE (check_status ht resp rid)) (\<lambda>_. returnE ())))"

definition mkdir_body :: "string \<Rightarrow> json" where
  "mkdir_body name =
     JObject [(''name'', JString name), (''folder'', JObject []),
              (''@microsoft.graph.conflictBehavior'', JString ''fail'')]"

definition mkdir_item ::
  "'w http_lib \<Rightarrow> string \<Rightarrow> drive_id \<Rightarrow> string \<Rightarrow> string \<Rightarrow> ('w, remote_item) gio" where
  "mkdir_item ht token drive parent name =
     bindE (new_request_id ht) (\<lambda>rid.
     bindE (send ht (graph_request MPost (item_url drive parent @ ''/children'') token rid
                       (JsonBody (mkdir_body name)))) (\<lambda>resp.
     if rs_status resp = 409 then
       bindE (new_request_id ht) (\<lambda>get_rid.
       bindE (send ht (graph_request MGet (item_content_url drive parent name []) token get_rid NoBody)) (\<lambda>get_resp.
       bindE (resultE (check_status ht get_resp get_rid)) (\<lambda>checked.
       bindE (decode (ht_item ht) checked) (\<lambda>existing.
       if \<not> is_folder existing then throwE (GiNameConflict get_rid) else returnE existing))))
     else bindE (resultE (check_status ht resp rid)) (decode (ht_item ht))))"

definition days_ns :: "int \<Rightarrow> int" where
  "days_ns n = n * 24 * 60 * 60 * 10 ^ 9"

definition subscription_body :: "drive_id \<Rightarrow> string \<Rightarrow> string \<Rightarrow> string \<Rightarrow> json" where
  "subscription_body drive notification_url expiration client_state =
     JObject [(''changeType'', JString ''updated''), (''notificationUrl'', JString notification_url),
              (''resource'', JString (''/drives/'' @ drive_id_str drive @ ''/root'')),
              (''expirationDateTime'', JString expiration), (''clientState'', JString client_state)]"

definition subscribe ::
  "'w http_lib \<Rightarrow> string \<Rightarrow> drive_id \<Rightarrow> string \<Rightarrow> string \<Rightarrow> ('w, string) gio" where
  "subscribe ht token drive notification_url client_state =
     bindE (liftE (ht_wall_now ht)) (\<lambda>now.
     bindE (send_checked ht MPost (GRAPH_BASE @ ''/subscriptions'') token
              (JsonBody (subscription_body drive notification_url
                 (ht_rfc3339 ht (now + days_ns 3)) client_state))) (\<lambda>resp.
     bindE (decode (ht_value ht) resp) (\<lambda>value.
     case Option.bind (json_field ''id'' value) json_as_str of
       None \<Rightarrow> throwE (GiDecode ''subscriptions response missing id'')
     | Some s \<Rightarrow> returnE s)))"

definition renew_subscription :: "'w http_lib \<Rightarrow> string \<Rightarrow> string \<Rightarrow> string \<Rightarrow> ('w, unit) gio" where
  "renew_subscription ht token sub expiration_iso =
     bindE (send_checked ht MPatch (GRAPH_BASE @ ''/subscriptions/'' @ sub) token
              (JsonBody (JObject [(''expirationDateTime'', JString expiration_iso)]))) (\<lambda>_. returnE ())"

definition unsubscribe :: "'w http_lib \<Rightarrow> string \<Rightarrow> string \<Rightarrow> ('w, unit) gio" where
  "unsubscribe ht token sub =
     bindE (send_checked ht MDelete (GRAPH_BASE @ ''/subscriptions/'' @ sub) token NoBody) (\<lambda>_. returnE ())"

section \<open>Delta pages\<close>

definition extract_token_param :: "'w http_lib \<Rightarrow> string \<Rightarrow> string option" where
  "extract_token_param ht raw =
     Option.bind (ht_query_pairs ht raw) (\<lambda>pairs.
     map_option snd (find (\<lambda>(key, _). key = ''token'' \<or> key = ''$deltaToken'') pairs))"

definition delta_page_of :: "'w http_lib \<Rightarrow> delta_response \<Rightarrow> delta_page" where
  "delta_page_of ht raw =
     \<lparr>dp_items = dr_items raw, dp_next_link = dr_next_link raw,
      dp_delta_token = map_option DeltaCursor (Option.bind (dr_delta_link raw) (extract_token_param ht))\<rparr>"

definition fetch_delta_page :: "'w http_lib \<Rightarrow> string \<Rightarrow> string \<Rightarrow> ('w, delta_page) gio" where
  "fetch_delta_page ht token url =
     bindE (new_request_id ht) (\<lambda>rid.
     bindE (send ht (graph_request MGet url token rid NoBody)) (\<lambda>resp.
     if rs_status resp = 410 then throwE (GiResyncRequired rid)
     else
       bindE (resultE (check_status ht resp rid)) (\<lambda>checked.
       bindE (decode (ht_delta ht) checked) (\<lambda>raw. returnE (delta_page_of ht raw)))))"

definition delta_url :: "drive_id \<Rightarrow> delta_cursor option \<Rightarrow> string" where
  "delta_url drive cursor =
     (case cursor of
        None \<Rightarrow> drive_url drive @ ''/root/delta''
      | Some c \<Rightarrow> drive_url drive @ ''/root/delta?token='' @ delta_cursor_str c)"

definition delta_page ::
  "'w http_lib \<Rightarrow> string \<Rightarrow> drive_id \<Rightarrow> delta_cursor option \<Rightarrow> ('w, delta_page) gio" where
  "delta_page ht token drive cursor = fetch_delta_page ht token (delta_url drive cursor)"

section \<open>The adapter\<close>

text \<open>
  The token source is a parameter: an effect that yields a token.  Every operation first asks
  it, then makes its requests, and converts errors with \<open>map_to_port\<close>.
\<close>

record 'w graph_adapter =
  ga_http :: "'w http_lib"
  ga_token_source :: "('w, string) gio"
  ga_drive_id :: drive_id

definition with_token ::
  "'w graph_adapter \<Rightarrow> ('w http_lib \<Rightarrow> string \<Rightarrow> ('w, 'a) gio) \<Rightarrow> ('w, graph_error, 'a) io" where
  "with_token ga f =
     bindE (map_errE map_to_port (ga_token_source ga)) (\<lambda>token. map_errE map_to_port (f (ga_http ga) token))"

record account_profile_port =
  app_oid :: string
  app_upn :: string
  app_display_name :: string
  app_tenant_id :: string
  app_drive_id :: string

definition adapter_account_profile ::
  "'w graph_adapter \<Rightarrow> ('w, graph_error, account_profile_port) io" where
  "adapter_account_profile ga =
     bindE (with_token ga account_profile) (\<lambda>p.
     returnE \<lparr>app_oid = ap_id p, app_upn = ap_user_principal_name p, app_display_name = ap_display_name p,
              app_tenant_id = [], app_drive_id = []\<rparr>)"

definition create_upload_session ::
  "'w http_lib \<Rightarrow> string \<Rightarrow> drive_id \<Rightarrow> string \<Rightarrow> string \<Rightarrow> ('w, upload_session) gio" where
  "create_upload_session ht token drive parent name =
     bindE (send_checked ht MPost (item_content_url drive parent name '':/createUploadSession'') token
              (JsonBody session_body)) (\<lambda>resp.
     bindE (decode (ht_session_url ht) resp) (\<lambda>url.
     returnE \<lparr>us_upload_url = url, us_bytes_uploaded = 0\<rparr>))"

definition graph_drive :: "'w graph_adapter \<Rightarrow> 'w remote_drive" where
  "graph_drive ga =
     (let own = ga_drive_id ga in
      \<lparr>rd_delta = (\<lambda>drive cursor. with_token ga (\<lambda>ht token. delta_page ht token drive cursor)),
       rd_item_by_path = (\<lambda>drive path. with_token ga (\<lambda>ht token. item_by_path ht token drive path)),
       rd_download = (\<lambda>item. with_token ga (\<lambda>ht token. download ht token own (remote_item_id_str item) None)),
       rd_upload_small = (\<lambda>parent name bs.
          with_token ga (\<lambda>ht token. upload_small ht token own (remote_item_id_str parent) name bs)),
       rd_upload_session = (\<lambda>parent name _.
          with_token ga (\<lambda>ht token. create_upload_session ht token own (remote_item_id_str parent) name)),
       rd_rename = (\<lambda>item new_name.
          with_token ga (\<lambda>ht token. rename_item ht token own (remote_item_id_str item) new_name)),
       rd_delete = (\<lambda>item. with_token ga (\<lambda>ht token. delete_item ht token own (remote_item_id_str item))),
       rd_mkdir = (\<lambda>parent name.
          with_token ga (\<lambda>ht token. mkdir_item ht token own (remote_item_id_str parent) name)),
       rd_subscribe = (\<lambda>drive url client_state.
          with_token ga (\<lambda>ht token. subscribe ht token drive url client_state)),
       rd_unsubscribe = (\<lambda>sub. with_token ga (\<lambda>ht token. unsubscribe ht token sub)),
       rd_renew_subscription = (\<lambda>sub expiry.
          with_token ga (\<lambda>ht token. renew_subscription ht token sub expiry))\<rparr>)"

section \<open>What the operations promise\<close>

lemma with_token_InrE:
  assumes "with_token ga f w = (Inr x, w')"
  obtains token w1 where "ga_token_source ga w = (Inr token, w1)" and "f (ga_http ga) token w1 = (Inr x, w')"
  using assms by (auto simp: with_token_def elim!: bindE_InrE map_errE_InrE)

lemma send_InrD: "send ht rq w = (Inr r, w') \<Longrightarrow> ht_send ht rq w = (Inr r, w')"
  by (auto simp: send_def elim!: map_errE_InrE)

lemma decode_InrD: "decode dec r w = (Inr x, w') \<Longrightarrow> w' = w \<and> response_json dec r = Inr x"
  by (auto simp: decode_def resultE_def elim!: map_errE_InrE)

lemma response_json_InrD:
  "response_json dec r = Inr x \<Longrightarrow> rs_read_error r = None \<and> dec (concat (rs_chunks r)) = Inr x"
  by (auto simp: response_json_def response_bytes_def split: option.splits)

lemmas graph_InrEs = bindE_InrE with_token_InrE

lemma check_resultE [simp]:
  "resultE (check_status ht r rid) w = (Inr r', w') \<longleftrightarrow> is_success (rs_status r) \<and> r' = r \<and> w' = w"
  by (auto simp: resultE_def check_status_Inr_iff)

text \<open>A page of the adapter is one decoded response.\<close>

lemma delta_page_InrD:
  assumes "rd_delta (graph_drive ga) drive cursor w = (Inr page, w')"
  obtains bs raw where "ht_delta (ga_http ga) bs = Inr raw" and "page = delta_page_of (ga_http ga) raw"
proof -
  from assms obtain token w1
    where "fetch_delta_page (ga_http ga) token (delta_url drive cursor) w1 = (Inr page, w')"
    by (auto simp: graph_drive_def Let_def delta_page_def elim!: with_token_InrE)
  then show thesis
    by (auto simp: fetch_delta_page_def throwE_def returnE_def elim!: bindE_InrE split: if_splits
        dest!: decode_InrD response_json_InrD intro: that)
qed

text \<open>
  A folder creation that succeeds either got a success answer to its own request, or found
  by name an item that is a folder: a file of that name is never passed off as the folder.
\<close>
theorem mkdir_promotes_folders_only:
  assumes "rd_mkdir (graph_drive ga) parent name w = (Inr item, w')"
  shows "is_folder item
    \<or> (\<exists>token rid v r v'. ht_send (ga_http ga)
           (graph_request MPost (item_url (ga_drive_id ga) (remote_item_id_str parent) @ ''/children'') token rid
              (JsonBody (mkdir_body name))) v = (Inr r, v')
         \<and> is_success (rs_status r) \<and> response_json (ht_item (ga_http ga)) r = Inr item)"
proof -
  from assms obtain token w1
    where "mkdir_item (ga_http ga) token (ga_drive_id ga) (remote_item_id_str parent) name w1 = (Inr item, w')"
    by (auto simp: graph_drive_def Let_def elim!: with_token_InrE)
  then show ?thesis
    by (auto simp: mkdir_item_def throwE_def returnE_def elim!: bindE_InrE split: if_splits
        dest!: decode_InrD send_InrD) blast
qed

definition script_adapter :: "(http_response list) graph_adapter" where
  "script_adapter = \<lparr>ga_http = script_http, ga_token_source = returnE ''token'', ga_drive_id = DriveId ''d''\<rparr>"

lemma mkdir_promotes_folders_only_witness:
  "\<exists>token rid v r v'. ht_send script_http
      (graph_request MPost (item_url (DriveId ''d'') ''p'' @ ''/children'') token rid
         (JsonBody (mkdir_body ''n''))) v = (Inr r, v')
    \<and> is_success (rs_status r) \<and> response_json (ht_item script_http) r = Inr (text_item ''x'')"
proof -
  have "rd_mkdir (graph_drive script_adapter) (RemoteItemId ''p'') ''n'' [ok_response [[120]]]
      = (Inr (text_item ''x''), [])"
    by (simp add: graph_drive_def Let_def script_adapter_def with_token_def mkdir_item_def send_def
        new_request_id_def io_simps script_http_def check_status_def ok_response_def is_success_def
        decode_def response_json_def response_bytes_def bytes_text_def char_of_def bit_Suc_0_iff script_send.simps)
  from mkdir_promotes_folders_only [OF this] show ?thesis
    by (simp add: script_adapter_def text_item_def is_folder_def)
qed

end
