(* ===== verification/Graph_Engine.thy ===== *)
theory Graph_Engine
  imports Graph_Adapter Cycle
begin

text \<open>
  The engine over the Graph adapter: which HTTP answers the executor tries again, and what a
  delta page that is not the last one does to the cursor of a pair.
\<close>

text \<open>
  Which failures of the Graph service the executor retries: every failure status but 401,
  403, 404, 409, 410, 412 and 416 (a malformed request, 400, counts as transient and is sent
  again) and transport errors; a body that does not decode and a hash mismatch end the
  operation.
\<close>
theorem http_status_retry:
  "is_retriable (ExRemote (map_to_port (status_error ht st rid ra etag body)))
     = (st \<notin> {401, 403, 404, 409, 410, 412, 416})
   \<and> is_retriable (ExRemote (map_to_port (GiNetwork d)))
   \<and> \<not> is_retriable (ExRemote (map_to_port (GiDecode d)))
   \<and> \<not> is_retriable (ExRemote (map_to_port GiHashMismatch))"
  by (auto simp: status_error_def)

text \<open>The page the adapter hands over is decoded from the one response to its one request.\<close>

lemma delta_is_one_response:
  assumes "rd_delta (graph_drive ga) drive cursor w = (Inr page, w')"
    and "ga_token_source ga w = (Inr tok, w1)"
    and "new_request_id (ga_http ga) w1 = (Inr rid, w2)"
    and "send (ga_http ga) (graph_request MGet (delta_url drive cursor) tok rid NoBody) w2 = (Inr resp, w3)"
    and "response_json (ht_delta (ga_http ga)) resp = Inr raw"
  shows "page = delta_page_of (ga_http ga) raw \<and> w' = w3"
proof -
  from assms(1,2) have "fetch_delta_page (ga_http ga) tok (delta_url drive cursor) w1 = (Inr page, w')"
    by (auto simp: graph_drive_def Let_def delta_page_def elim!: with_token_InrE)
  with assms(3-5) show ?thesis
    by (auto simp: fetch_delta_page_def throwE_def returnE_def elim!: bindE_InrE split: if_splits
        dest!: decode_InrD)
qed

lemma phase_delta_token:
  assumes "phase_delta_reconcile cx w = (Inr out, w')"
  obtains page w1 where "rd_delta (cx_remote cx) (cx_drive_id cx) (cx_cursor cx) w = (Inr page, w1)"
    and "do_delta_token out = dp_delta_token page"
  using assms
  by (auto simp: phase_delta_reconcile_def Let_def returnE_def remote_call_def elim!: bindE_InrE map_errE_InrE intro: that)

text \<open>A cycle that returns hands on the token of the page of its delta request.\<close>

lemma run_cycle_token:
  assumes run: "run_cycle cx w = (Inr summary, w')" and s: "cycle_start cx w = (Inr x, w0)"
  obtains page w1 where "rd_delta (cx_remote cx) (cx_drive_id cx) (cx_cursor cx) w0 = (Inr page, w1)"
    and "cs_delta_token summary = dp_delta_token page"
proof -
  obtain i n where x: "x = (i, n)" by fastforce
  from run s x have "bindE (cycle_decide cx i n) (cycle_execute cx i n) w0 = (Inr summary, w')"
    by (simp add: run_cycle_def bindE_def)
  then obtain pl w2 where d: "cycle_decide cx i n w0 = (Inr pl, w2)"
    and e: "cycle_execute cx i n pl w2 = (Inr summary, w')" by (rule bindE_InrE)
  have "yields (cycle_execute cx i n pl) (\<lambda>s. cs_delta_token s = cp_delta_token pl)"
    unfolding cycle_execute_def Let_def
    by (auto intro!: yields_bind_any yields_return split: prod.split)
  from yieldsD [OF this e] have t1: "cs_delta_token summary = cp_delta_token pl" .
  from d obtain out w3 where o: "phase_delta_reconcile cx w0 = (Inr out, w3)"
    and t2: "cp_delta_token pl = do_delta_token out"
    unfolding cycle_decide_def Let_def
  proof (rule bindE_InrE)
    fix out w3
    assume o: "phase_delta_reconcile cx w0 = (Inr out, w3)"
      and r: "bindE (advance_cursor cx (do_delta_token out)) (\<lambda>_.
        bindE (phase_local_uploads cx (set (map d_relative_path (da_decisions out))) (da_by_path out)) (\<lambda>loc.
        bindE (apply_initial_sync_collisions cx (da_decisions out @ lo_decisions loc) (lo_initial_collisions loc)) (\<lambda>(decisions, m).
        bindE (phase_resolve_conflicts cx decisions i []) (\<lambda>(decisions, conflict_ops).
        bindE (liftE (plan (cx_runtime cx) decisions i n)) (\<lambda>ops.
        bindE (build_remote_rename_ops cx i n (da_renames out)) (\<lambda>rename_ops.
        returnE \<lparr>cp_items_seen = do_items_seen out, cp_local_events = lo_events_seen loc,
              cp_conflicts = da_conflicts out + lo_collisions_recorded loc + m, cp_delta_token = do_delta_token out,
              cp_ops = ops @ conflict_ops @ rename_ops\<rparr>)))))) w3 = (Inr pl, w2)"
    have "yields (bindE (advance_cursor cx (do_delta_token out)) (\<lambda>_.
        bindE (phase_local_uploads cx (set (map d_relative_path (da_decisions out))) (da_by_path out)) (\<lambda>loc.
        bindE (apply_initial_sync_collisions cx (da_decisions out @ lo_decisions loc) (lo_initial_collisions loc)) (\<lambda>(decisions, m).
        bindE (phase_resolve_conflicts cx decisions i []) (\<lambda>(decisions, conflict_ops).
        bindE (liftE (plan (cx_runtime cx) decisions i n)) (\<lambda>ops.
        bindE (build_remote_rename_ops cx i n (da_renames out)) (\<lambda>rename_ops.
        returnE \<lparr>cp_items_seen = do_items_seen out, cp_local_events = lo_events_seen loc,
              cp_conflicts = da_conflicts out + lo_collisions_recorded loc + m, cp_delta_token = do_delta_token out,
              cp_ops = ops @ conflict_ops @ rename_ops\<rparr>)))))))
        (\<lambda>pl. cp_delta_token pl = do_delta_token out)"
      by (auto intro!: yields_bind_any yields_return split: prod.split)
    from yieldsD [OF this r] o show thesis by (intro that)
  qed
  from o obtain page w4 where "rd_delta (cx_remote cx) (cx_drive_id cx) (cx_cursor cx) w0 = (Inr page, w4)"
    and "do_delta_token out = dp_delta_token page" by (rule phase_delta_token)
  with t1 t2 that show thesis by simp
qed

end
