(* ===== verification/Throttle.thy ===== *)
theory Throttle
  imports Engine_Limits
begin

text \<open>
  The token bucket of \<open>crates/onesync-graph/src/throttle.rs\<close>.  Tasks share the permits of a
  semaphore and the deadline of a pause, both changed by atomic operations; a background task
  adds permits.  The bucket is a step relation: each step is one atomic access of one task, a
  tick of the refill task, or the passing of time, in any interleaving.  Times are
  milliseconds since \<open>start\<close>.

  \<open>bs_granted\<close>, \<open>bs_refills\<close> and \<open>bs_deadline\<close> only observe: how many permits were handed out
  and added, and the latest deadline that a returned \<open>pause_for\<close> asked for.
\<close>

section \<open>The bucket\<close>

record bucket =
  bk_burst :: nat
  bk_interval_ms :: nat

text \<open>
  The rate is a \<open>u32\<close> and doubled as one: the product wraps above \<open>2 ^ 31\<close> (where a build with
  overflow checks panics instead).
\<close>

definition with_rate :: "u32 \<Rightarrow> bucket" where
  "with_rate rate_rps =
     (let rate = max rate_rps 1
      in \<lparr>bk_burst = unat (rate * 2), bk_interval_ms = 1000 div unat rate\<rparr>)"

definition new_bucket :: bucket where
  "new_bucket = with_rate (word_of_nat GRAPH_RPS_PER_ACCOUNT)"

text \<open>
  Where a task is.  \<open>pause_for\<close> computes its target, then loops: load, compare, exchange.
  \<open>acquire\<close> loops over the pause (load, compare with the clock, clear or sleep) and then waits
  for a permit; the last component of its states is the deadline when it began.
\<close>

datatype task =
    Idle
  | PauseLoop nat
  | PauseCas nat nat
  | AcqLoop nat
  | AcqLoaded nat nat
  | AcqClear nat nat
  | AcqSleep nat nat
  | AcqPermit nat

record bucket_state =
  bs_now :: nat
  bs_pause_until :: nat
  bs_permits :: nat
  bs_ticks :: nat
  bs_tasks :: "nat \<Rightarrow> task"
  bs_granted :: nat
  bs_refills :: nat
  bs_deadline :: nat

definition bucket_init :: "bucket \<Rightarrow> bucket_state" where
  "bucket_init b = \<lparr>bs_now = 0, bs_pause_until = 0, bs_permits = bk_burst b, bs_ticks = 0,
     bs_tasks = (\<lambda>_. Idle), bs_granted = 0, bs_refills = 0, bs_deadline = 0\<rparr>"

definition at_task :: "nat \<Rightarrow> task \<Rightarrow> bucket_state \<Rightarrow> bucket_state" where
  "at_task i t s = s\<lparr>bs_tasks := (bs_tasks s)(i := t)\<rparr>"

text \<open>A tick of the refill task: one permit, up to the burst.\<close>

definition refill :: "bucket \<Rightarrow> bucket_state \<Rightarrow> bucket_state" where
  "refill b s =
     (let s = s\<lparr>bs_ticks := bs_ticks s + 1\<rparr>
      in if bs_permits s < bk_burst b
         then s\<lparr>bs_permits := bs_permits s + 1, bs_refills := bs_refills s + 1\<rparr> else s)"

text \<open>A \<open>pause_for\<close> that returns has its target honoured from here on.\<close>

definition pause_returns :: "nat \<Rightarrow> nat \<Rightarrow> bucket_state \<Rightarrow> bucket_state" where
  "pause_returns i target s = (at_task i Idle s)\<lparr>bs_deadline := max (bs_deadline s) target\<rparr>"

inductive bucket_step :: "bucket \<Rightarrow> bucket_state \<Rightarrow> bucket_state \<Rightarrow> bool" for b where
  Time: "bucket_step b s (s\<lparr>bs_now := bs_now s + d\<rparr>)"
| Tick: "(bs_ticks s + 1) * bk_interval_ms b \<le> bs_now s \<Longrightarrow> bucket_step b s (refill b s)"
| PauseFor: "bs_tasks s i = Idle \<Longrightarrow> bucket_step b s (at_task i (PauseLoop (bs_now s + d)) s)"
| PauseKeep: "bs_tasks s i = PauseLoop target \<Longrightarrow> target \<le> bs_pause_until s
    \<Longrightarrow> bucket_step b s (pause_returns i target s)"
| PauseLoad: "bs_tasks s i = PauseLoop target \<Longrightarrow> \<not> target \<le> bs_pause_until s
    \<Longrightarrow> bucket_step b s (at_task i (PauseCas target (bs_pause_until s)) s)"
| PauseSet: "bs_tasks s i = PauseCas target current \<Longrightarrow> bs_pause_until s = current
    \<Longrightarrow> bucket_step b s (pause_returns i target (s\<lparr>bs_pause_until := target\<rparr>))"
| PauseRetry: "bs_tasks s i = PauseCas target current \<Longrightarrow> bs_pause_until s \<noteq> current
    \<Longrightarrow> bucket_step b s (at_task i (PauseLoop target) s)"
| Acquire: "bs_tasks s i = Idle \<Longrightarrow> bucket_step b s (at_task i (AcqLoop (bs_deadline s)) s)"
| AcqFree: "bs_tasks s i = AcqLoop d \<Longrightarrow> bs_pause_until s = 0
    \<Longrightarrow> bucket_step b s (at_task i (AcqPermit d) s)"
| AcqLoad: "bs_tasks s i = AcqLoop d \<Longrightarrow> bs_pause_until s \<noteq> 0
    \<Longrightarrow> bucket_step b s (at_task i (AcqLoaded (bs_pause_until s) d) s)"
| AcqExpired: "bs_tasks s i = AcqLoaded until d \<Longrightarrow> until \<le> bs_now s
    \<Longrightarrow> bucket_step b s (at_task i (AcqClear until d) s)"
| AcqWait: "bs_tasks s i = AcqLoaded until d \<Longrightarrow> \<not> until \<le> bs_now s
    \<Longrightarrow> bucket_step b s (at_task i (AcqSleep until d) s)"
| AcqCleared: "bs_tasks s i = AcqClear until d
    \<Longrightarrow> bucket_step b s (at_task i (AcqLoop d)
          (if bs_pause_until s = until then s\<lparr>bs_pause_until := 0\<rparr> else s))"
| AcqWake: "bs_tasks s i = AcqSleep until d \<Longrightarrow> until \<le> bs_now s
    \<Longrightarrow> bucket_step b s (at_task i (AcqLoop d) s)"
| AcqGrant: "bs_tasks s i = AcqPermit d \<Longrightarrow> 0 < bs_permits s
    \<Longrightarrow> bucket_step b s (at_task i Idle (s\<lparr>bs_permits := bs_permits s - 1, bs_granted := bs_granted s + 1\<rparr>))"

inductive bucket_reachable :: "bucket \<Rightarrow> bucket_state \<Rightarrow> bool" for b where
  Init: "bucket_reachable b (bucket_init b)"
| Step: "bucket_reachable b s \<Longrightarrow> bucket_step b s s' \<Longrightarrow> bucket_reachable b s'"

section \<open>Invariants\<close>

text \<open>What a task knows: a stored pause it is about to clear has expired, and so on.\<close>

fun task_ok :: "bucket_state \<Rightarrow> task \<Rightarrow> bool" where
  "task_ok s (PauseCas target current) \<longleftrightarrow> current < target"
| "task_ok s (AcqLoop d) \<longleftrightarrow> d \<le> bs_deadline s"
| "task_ok s (AcqLoaded until d) \<longleftrightarrow> d \<le> bs_deadline s"
| "task_ok s (AcqClear until d) \<longleftrightarrow> until \<le> bs_now s \<and> d \<le> bs_deadline s"
| "task_ok s (AcqSleep until d) \<longleftrightarrow> d \<le> bs_deadline s"
| "task_ok s (AcqPermit d) \<longleftrightarrow> d \<le> bs_now s"
| "task_ok s _ \<longleftrightarrow> True"

definition bucket_inv :: "bucket \<Rightarrow> bucket_state \<Rightarrow> bool" where
  "bucket_inv b s \<longleftrightarrow>
     bs_permits s \<le> bk_burst b
     \<and> bs_permits s + bs_granted s = bk_burst b + bs_refills s
     \<and> bs_refills s \<le> bs_ticks s \<and> bs_ticks s * bk_interval_ms b \<le> bs_now s
     \<and> (bs_now s < bs_deadline s \<longrightarrow> bs_deadline s \<le> bs_pause_until s)
     \<and> (\<forall>i. task_ok s (bs_tasks s i))"

lemma task_ok_mono:
  assumes "task_ok s t" and "bs_now s \<le> bs_now s'" and "bs_deadline s \<le> bs_deadline s'"
  shows "task_ok s' t"
  using assms by (cases t) auto

lemma tasks_ok_at:
  assumes "\<forall>i. task_ok s (bs_tasks s i)" and "bs_now s \<le> bs_now s'" and "bs_deadline s \<le> bs_deadline s'"
    and "bs_tasks s' = (bs_tasks s)(i := t)" and "task_ok s' t"
  shows "\<forall>i. task_ok s' (bs_tasks s' i)"
  using assms task_ok_mono by (metis fun_upd_apply)

lemma tasks_ok_same:
  assumes "\<forall>i. task_ok s (bs_tasks s i)" and "bs_now s \<le> bs_now s'" and "bs_deadline s \<le> bs_deadline s'"
    and "bs_tasks s' = bs_tasks s"
  shows "\<forall>i. task_ok s' (bs_tasks s' i)"
  using assms task_ok_mono by metis

text \<open>The tasks' part of the invariant, and the part about permits and the pause.\<close>

lemma step_tasks_ok:
  assumes "bucket_step b s s'" and "bucket_inv b s"
  shows "\<forall>i. task_ok s' (bs_tasks s' i)"
proof -
  have inv: "\<forall>i. task_ok s (bs_tasks s i)" and pause: "bs_now s < bs_deadline s \<Longrightarrow> bs_deadline s \<le> bs_pause_until s"
    using assms(2) by (auto simp: bucket_inv_def)
  note task = inv [rule_format]
  from assms(1) show ?thesis
  proof cases
    case (Time d)
    then show ?thesis by (intro tasks_ok_same [OF inv]) simp_all
  next
    case Tick
    then show ?thesis by (intro tasks_ok_same [OF inv]) (simp_all add: refill_def Let_def)
  next
    case (PauseKeep i target)
    then show ?thesis by (intro tasks_ok_at [OF inv]) (simp_all add: pause_returns_def at_task_def)+
  next
    case (PauseSet i target current)
    then show ?thesis by (intro tasks_ok_at [OF inv]) (simp_all add: pause_returns_def at_task_def)+
  next
    case (AcqFree i d)
    with task [of i] pause have "d \<le> bs_now s" by (cases "bs_now s < bs_deadline s") auto
    with AcqFree show ?thesis by (intro tasks_ok_at [OF inv]) (simp_all add: at_task_def)+
  next
    case (AcqLoad i d)
    with task [of i] show ?thesis by (intro tasks_ok_at [OF inv]) (simp_all add: at_task_def)+
  next
    case (AcqExpired i until d)
    with task [of i] show ?thesis by (intro tasks_ok_at [OF inv]) (simp_all add: at_task_def)+
  next
    case (AcqWait i until d)
    with task [of i] show ?thesis by (intro tasks_ok_at [OF inv]) (simp_all add: at_task_def)+
  next
    case (AcqCleared i until d)
    with task [of i] show ?thesis
      by (intro tasks_ok_at [OF inv, of _ i "AcqLoop d"]) (simp_all add: at_task_def)
  next
    case (AcqWake i until d)
    with task [of i] show ?thesis by (intro tasks_ok_at [OF inv]) (simp_all add: at_task_def)+
  next
    case (PauseFor i d)
    then show ?thesis by (intro tasks_ok_at [OF inv]) (simp_all add: at_task_def)+
  next
    case (PauseLoad i target)
    then show ?thesis by (intro tasks_ok_at [OF inv]) (simp_all add: at_task_def)+
  next
    case (PauseRetry i target current)
    then show ?thesis by (intro tasks_ok_at [OF inv]) (simp_all add: at_task_def)+
  next
    case (Acquire i)
    then show ?thesis by (intro tasks_ok_at [OF inv]) (simp_all add: at_task_def)+
  next
    case (AcqGrant i d)
    then show ?thesis by (intro tasks_ok_at [OF inv]) (simp_all add: at_task_def)+
  qed
qed

lemma step_counters:
  assumes "bucket_step b s s'" and "bucket_inv b s"
  shows "bs_permits s' \<le> bk_burst b
     \<and> bs_permits s' + bs_granted s' = bk_burst b + bs_refills s'
     \<and> bs_refills s' \<le> bs_ticks s' \<and> bs_ticks s' * bk_interval_ms b \<le> bs_now s'"
  using assms
  by cases (auto simp: bucket_inv_def at_task_def pause_returns_def refill_def Let_def)

lemma step_pause:
  assumes "bucket_step b s s'" and "bucket_inv b s"
  shows "bs_now s' < bs_deadline s' \<longrightarrow> bs_deadline s' \<le> bs_pause_until s'"
proof -
  have pause: "bs_now s < bs_deadline s \<Longrightarrow> bs_deadline s \<le> bs_pause_until s"
    and task: "\<And>i. task_ok s (bs_tasks s i)"
    using assms(2) by (auto simp: bucket_inv_def)
  from assms(1) show ?thesis
  proof cases
    case (PauseSet i target current)
    with task [of i] pause show ?thesis
      by (auto simp: at_task_def pause_returns_def max_def split: if_splits)
  next
    case (AcqCleared i until d)
    with task [of i] pause show ?thesis by (auto simp: at_task_def)
  qed (use pause in \<open>auto simp: at_task_def pause_returns_def refill_def Let_def max_def split: if_splits\<close>)
qed

lemma reachable_inv: "bucket_reachable b s \<Longrightarrow> bucket_inv b s"
proof (induction rule: bucket_reachable.induct)
  case Init
  then show ?case by (simp add: bucket_inv_def bucket_init_def)
next
  case (Step s s')
  then show ?case
    using step_tasks_ok [OF Step(2,3)] step_counters [OF Step(2,3)] step_pause [OF Step(2,3)]
    by (simp add: bucket_inv_def)
qed

text \<open>
  The contract of a rate limiter: time passes, and a permit is granted only while the grants
  beyond the burst are covered by elapsed intervals.
\<close>

type_synonym rate_state = "nat \<times> nat"

inductive rate_step :: "bucket \<Rightarrow> rate_state \<Rightarrow> rate_state \<Rightarrow> bool" for b where
  Pass: "rate_step b (now, granted) (now + d, granted)"
| Grant: "(granted + 1 - bk_burst b) * bk_interval_ms b \<le> now \<Longrightarrow> rate_step b (now, granted) (now, granted + 1)"

definition rate_view :: "bucket_state \<Rightarrow> rate_state" where
  "rate_view s = (bs_now s, bs_granted s)"

lemma rate_stutter: "rate_step b x x"
  using rate_step.Pass [of b "fst x" "snd x" 0] by simp

lemma bucket_simulates:
  assumes "bucket_reachable b s" and "bucket_step b s s'"
  shows "rate_step b (rate_view s) (rate_view s')"
proof -
  have i: "bs_permits s + bs_granted s = bk_burst b + bs_refills s"
    "bs_refills s \<le> bs_ticks s" "bs_ticks s * bk_interval_ms b \<le> bs_now s"
    using reachable_inv [OF assms(1)] by (auto simp: bucket_inv_def)
  from assms(2) show ?thesis
  proof cases
    case (Time d)
    then show ?thesis using rate_step.Pass by (simp add: rate_view_def)
  next
    case (AcqGrant j d)
    with i have "bs_granted s + 1 - bk_burst b \<le> bs_ticks s" by linarith
    then have "(bs_granted s + 1 - bk_burst b) * bk_interval_ms b \<le> bs_ticks s * bk_interval_ms b"
      by (rule mult_le_mono1)
    with i have "(bs_granted s + 1 - bk_burst b) * bk_interval_ms b \<le> bs_now s" by linarith
    with AcqGrant show ?thesis
      using rate_step.Grant [of "bs_granted s" b "bs_now s"] by (simp add: rate_view_def at_task_def)
  qed (simp_all add: rate_view_def at_task_def pause_returns_def refill_def Let_def rate_stutter)
qed

text \<open>A run with one grant, for the witnesses.\<close>

definition waiting_bucket :: bucket_state where
  "waiting_bucket = at_task 0 (AcqPermit 0) (at_task 0 (AcqLoop 0) (bucket_init new_bucket))"

definition granted_bucket :: bucket_state where
  "granted_bucket = at_task 0 Idle (waiting_bucket\<lparr>bs_permits := 15, bs_granted := 1\<rparr>)"

lemma waiting_reachable: "bucket_reachable new_bucket waiting_bucket"
proof -
  have "bucket_step new_bucket (bucket_init new_bucket) (at_task 0 (AcqLoop 0) (bucket_init new_bucket))"
    using bucket_step.Acquire [of "bucket_init new_bucket" 0 new_bucket] by (simp add: bucket_init_def)
  moreover have "bucket_step new_bucket (at_task 0 (AcqLoop 0) (bucket_init new_bucket)) waiting_bucket"
    unfolding waiting_bucket_def by (rule bucket_step.AcqFree) (simp_all add: at_task_def bucket_init_def)
  ultimately show ?thesis by (meson bucket_reachable.Init bucket_reachable.Step)
qed

lemma grant_step: "bucket_step new_bucket waiting_bucket granted_bucket"
proof -
  have "bs_permits waiting_bucket = 16" "bs_granted waiting_bucket = 0" "bs_tasks waiting_bucket 0 = AcqPermit 0"
    by (simp_all add: waiting_bucket_def at_task_def bucket_init_def new_bucket_def with_rate_def
        GRAPH_RPS_PER_ACCOUNT_def)
  with bucket_step.AcqGrant [of waiting_bucket 0 0 new_bucket] show ?thesis
    by (simp add: granted_bucket_def)
qed

text \<open>
  C31: The bucket, with its tasks, its semaphore and its refill task in any interleaving,
  refines the contract of a rate limiter: each of its steps is a step of the contract, so by
  time \<open>t\<close> it has granted at most the burst and one permit per elapsed interval.
\<close>
theorem bucket_refines_rate_limit:
  assumes "bucket_reachable b s" and "bucket_step b s s'"
  shows "rate_step b (rate_view s) (rate_view s')"
  by (rule bucket_simulates [OF assms])

lemma bucket_refines_rate_limit_witness: "rate_step new_bucket (0, 0) (0, 1)"
  using bucket_refines_rate_limit [OF waiting_reachable grant_step]
  by (simp add: rate_view_def granted_bucket_def waiting_bucket_def at_task_def bucket_init_def)

text \<open>
  A pause holds: a permit goes only to an \<open>acquire\<close> for which the deadlines asked for by
  every \<open>pause_for\<close> that had returned before it began have passed, whatever other tasks pause,
  clear or acquire meanwhile.
\<close>
theorem pause_is_honoured:
  assumes "bucket_reachable b s" and "bucket_step b s s'" and "bs_granted s < bs_granted s'"
  shows "\<exists>i d. bs_tasks s i = AcqPermit d \<and> d \<le> bs_now s"
proof -
  from assms(2,3) obtain i d where i: "bs_tasks s i = AcqPermit d"
    by cases (auto simp: at_task_def pause_returns_def refill_def Let_def split: if_splits)
  with reachable_inv [OF assms(1)] have "d \<le> bs_now s"
    by (auto simp: bucket_inv_def dest!: spec [of _ i])
  with i show ?thesis by blast
qed

lemma pause_is_honoured_witness:
  "\<exists>i d. bs_tasks waiting_bucket i = AcqPermit d \<and> d \<le> bs_now waiting_bucket"
  by (rule pause_is_honoured [OF waiting_reachable grant_step])
     (simp add: granted_bucket_def waiting_bucket_def at_task_def bucket_init_def)

text \<open>A rate above 1000 leaves the refill task an interval of zero.\<close>

lemma fast_rate_interval: "1000 < unat r \<Longrightarrow> bk_interval_ms (with_rate r) = 0"
  by (auto simp: with_rate_def max_def word_le_nat_alt)

end
