(* ===== verification/Token_Source.thy ===== *)
theory Token_Source
  imports Graph_Engine Throttle
begin

text \<open>
  Access tokens: the refresh grant (\<open>auth/refresh.rs\<close>), the token cache of \<open>GraphClient\<close>
  (\<open>client.rs\<close>) and \<open>VaultBackedTokenSource\<close> of the daemon's scheduler
  (\<open>onesync-daemon/src/scheduler.rs\<close>), which the cycles use.  A mutex-protected value is a
  cell of the world; \<open>Instant\<close> is a monotonic clock in nanoseconds.
\<close>

section \<open>The refresh grant\<close>

definition refresh_request :: "string \<Rightarrow> string \<Rightarrow> string \<Rightarrow> http_request" where
  "refresh_request url client_id refresh_token =
     \<lparr>rq_method = MPost, rq_url = url, rq_bearer = None, rq_headers = [],
      rq_body = FormBody [(''client_id'', client_id), (''refresh_token'', refresh_token),
                          (''grant_type'', ''refresh_token'')]\<rparr>"

definition is_invalid_grant :: "'w http_lib \<Rightarrow> string \<Rightarrow> bool" where
  "is_invalid_grant ht body \<longleftrightarrow>
     Option.bind (Option.bind (ht_parse_json ht body) (json_field ''error'')) json_as_str = Some ''invalid_grant''"

definition exchange_inner ::
  "'w http_lib \<Rightarrow> string \<Rightarrow> string \<Rightarrow> string \<Rightarrow> ('w, token_response) gio" where
  "exchange_inner ht url client_id refresh_token =
     bindE (send ht (refresh_request url client_id refresh_token)) (\<lambda>resp.
     bindE (map_errE GiDecode (resultE (response_text ht resp))) (\<lambda>body.
     let status = rs_status resp
     in if status = 400 then
          (if is_invalid_grant ht body then throwE (GiReAuthRequired [])
           else throwE (GiDecode (''refresh endpoint returned 400: '' @ body)))
        else if \<not> is_success status then
          throwE (GiTransient (''refresh endpoint returned '' @ ht_status_text ht status @ '': '' @ body) [])
        else (case ht_token ht body of
                Inr t \<Rightarrow> returnE t
              | Inl e \<Rightarrow> throwE (GiDecode (''refresh token response parse failed: '' @ e @ '': '' @ body)))))"

definition refresh :: "'w http_lib \<Rightarrow> string \<Rightarrow> string \<Rightarrow> string \<Rightarrow> ('w, token_response) gio" where
  "refresh ht authority client_id refresh_token =
     exchange_inner ht (''https://login.microsoftonline.com/'' @ authority @ ''/oauth2/v2.0/token'')
       client_id refresh_token"

section \<open>The client's cache\<close>

record ('w, 'a) cell =
  cell_get :: "'w \<Rightarrow> 'a"
  cell_set :: "'a \<Rightarrow> 'w \<Rightarrow> 'w"

record client_token =
  ct_access_token :: string
  ct_expires_at :: timestamp

record 'w graph_client =
  gc_http :: "'w http_lib"
  gc_cache :: "('w, string \<rightharpoonup> client_token) cell"
  gc_acquire :: "'w \<Rightarrow> 'w"

definition i64_seconds :: "nat \<Rightarrow> int \<Rightarrow> int" where
  "i64_seconds n fallback = (if int n < 2 ^ 63 then int n else fallback)"

text \<open>\<open>ensure_fresh_token\<close>: the lock is held from the look-up to the insertion.\<close>

definition client_refresh ::
  "'w graph_client \<Rightarrow> string \<Rightarrow> ('w, string \<times> nat) gio \<Rightarrow> ('w, string) gio" where
  "client_refresh gc account refresh_fn =
     bindE refresh_fn (\<lambda>(new_token, expires_in_s).
     bindE (liftE (ht_wall_now (gc_http gc))) (\<lambda>fresh_now.
     let expires_at = fresh_now + i64_seconds expires_in_s 3600 * 10 ^ 9;
         tok = \<lparr>ct_access_token = new_token, ct_expires_at = expires_at\<rparr>
     in bindE (modifyE (\<lambda>w. cell_set (gc_cache gc) ((cell_get (gc_cache gc) w)(account \<mapsto> tok)) w)) (\<lambda>_.
        returnE new_token)))"

definition ensure_fresh_token ::
  "'w graph_client \<Rightarrow> string \<Rightarrow> ('w, string \<times> nat) gio \<Rightarrow> ('w, string) gio" where
  "ensure_fresh_token gc account refresh_fn =
     bindE (liftE (ht_wall_now (gc_http gc))) (\<lambda>now.
     let leeway = i64_seconds TOKEN_REFRESH_LEEWAY_S 120 * 10 ^ 9 in
     bindE (liftE (\<lambda>w. (cell_get (gc_cache gc) w account, w))) (\<lambda>cached.
     case cached of
       Some c \<Rightarrow> if ct_expires_at c - now > leeway then returnE (ct_access_token c)
                 else client_refresh gc account refresh_fn
     | None \<Rightarrow> client_refresh gc account refresh_fn))"

text \<open>The requests of the client wait for a permit of the bucket first.\<close>

definition client_call ::
  "'w graph_client \<Rightarrow> http_method \<Rightarrow> string \<Rightarrow> string \<Rightarrow> http_body \<Rightarrow> ('w, http_response) gio" where
  "client_call gc m url token body =
     bindE (modifyE (gc_acquire gc)) (\<lambda>_.
     bindE (liftE (\<lambda>w. case ht_random (gc_http gc) 16 w of (bs, w') \<Rightarrow> (request_id_of bs, w'))) (\<lambda>rid.
     bindE (send (gc_http gc) (graph_request m url token rid body)) (\<lambda>resp.
     resultE (check_status (gc_http gc) resp rid))))"

definition graph_get :: "'w graph_client \<Rightarrow> (bytes \<Rightarrow> string + 'a) \<Rightarrow> string \<Rightarrow> string \<Rightarrow> ('w, 'a) gio" where
  "graph_get gc dec url token = bindE (client_call gc MGet url token NoBody) (decode dec)"

definition graph_post_json ::
  "'w graph_client \<Rightarrow> (bytes \<Rightarrow> string + 'a) \<Rightarrow> string \<Rightarrow> string \<Rightarrow> json \<Rightarrow> ('w, 'a) gio" where
  "graph_post_json gc dec url token body = bindE (client_call gc MPost url token (JsonBody body)) (decode dec)"

definition graph_patch_json ::
  "'w graph_client \<Rightarrow> (bytes \<Rightarrow> string + 'a) \<Rightarrow> string \<Rightarrow> string \<Rightarrow> json \<Rightarrow> ('w, 'a) gio" where
  "graph_patch_json gc dec url token body = bindE (client_call gc MPatch url token (JsonBody body)) (decode dec)"

definition graph_delete :: "'w graph_client \<Rightarrow> string \<Rightarrow> string \<Rightarrow> ('w, unit) gio" where
  "graph_delete gc url token = bindE (client_call gc MDelete url token NoBody) (\<lambda>_. returnE ())"

section \<open>The vault\<close>

datatype vault_error = VeNotFound | VeBackend string

fun vault_error_display :: "vault_error \<Rightarrow> string" where
  "vault_error_display VeNotFound = ''not found''"
| "vault_error_display (VeBackend s) = ''backend: '' @ s"

record 'w token_vault =
  tv_store_refresh :: "account_id \<Rightarrow> string \<Rightarrow> ('w, vault_error, keychain_ref) io"
  tv_load_refresh :: "account_id \<Rightarrow> ('w, vault_error, string) io"
  tv_delete :: "account_id \<Rightarrow> ('w, vault_error, unit) io"

section \<open>The token source of a cycle\<close>

record cached_token =
  cc_access_token :: string
  cc_fetched_at :: nat
  cc_expires_in :: nat

record 'w vault_source =
  vs_http :: "'w http_lib"
  vs_vault :: "'w token_vault"
  vs_account_id :: account_id
  vs_client_id :: string
  vs_cache :: "('w, cached_token option) cell"
  vs_state :: "'w state_store"
  vs_runtime :: "'w runtime"
  vs_instant :: "'w \<Rightarrow> nat \<times> 'w"
  vs_lib :: lib

definition TOKEN_REFRESH_MAX_ATTEMPTS :: nat where "TOKEN_REFRESH_MAX_ATTEMPTS = 3"
definition TOKEN_REFRESH_BACKOFF_BASE_MS :: nat where "TOKEN_REFRESH_BACKOFF_BASE_MS = 250"

definition errored_pair :: "string \<Rightarrow> timestamp \<Rightarrow> pair \<Rightarrow> pair" where
  "errored_pair reason now pr =
     pr\<lparr>pr_status := Errored, pr_errored_reason := Some reason, pr_updated_at := now\<rparr>"

text \<open>The refresh token is revoked: every pair of the account is marked, failures are skipped.\<close>

fun mark_pairs :: "'w state_store \<Rightarrow> timestamp \<Rightarrow> pair list \<Rightarrow> ('w, unit) gio" where
  "mark_pairs st now [] = returnE ()"
| "mark_pairs st now (pr # prs) =
     bindE (tryE (st_pair_upsert st (errored_pair ''re-auth required'' now pr))) (\<lambda>_. mark_pairs st now prs)"

definition re_auth_event :: "'w vault_source \<Rightarrow> audit_event_id \<Rightarrow> timestamp \<Rightarrow> audit_event" where
  "re_auth_event vs i now =
     \<lparr>ev_id = i, ev_ts = now, ev_level = LevelError, ev_kind = ''account.re_auth_required'',
      ev_pair_id = None,
      ev_payload = json_insert ''account_id''
        (JString (id_display (lib_ulid_show (vs_lib vs)) account_prefix (vs_account_id vs))) []\<rparr>"

definition handle_re_auth_required :: "'w vault_source \<Rightarrow> ('w, unit) gio" where
  "handle_re_auth_required vs =
     bindE (liftE (rt_now (vs_runtime vs))) (\<lambda>now.
     bindE (tryE (st_pairs_list (vs_state vs) (Some (vs_account_id vs)) False)) (\<lambda>listed.
     bindE (mark_pairs (vs_state vs) now (case listed of Inr ps \<Rightarrow> ps | Inl _ \<Rightarrow> [])) (\<lambda>_.
     bindE (liftE (new_id (vs_runtime vs))) (\<lambda>i.
     let evt = re_auth_event vs i now in
     bindE (tryE (st_audit_append (vs_state vs) evt)) (\<lambda>_.
     modifyE (rt_emit (vs_runtime vs) evt))))))"

fun is_re_auth :: "graph_internal_error \<Rightarrow> bool" where
  "is_re_auth (GiReAuthRequired _) = True"
| "is_re_auth _ = False"

fun is_transient_refresh :: "graph_internal_error \<Rightarrow> bool" where
  "is_transient_refresh (GiNetwork _) = True"
| "is_transient_refresh (GiTransient _ _) = True"
| "is_transient_refresh _ = False"

text \<open>The loop over refresh attempts; \<open>attempt\<close> counts from 1.\<close>

function refresh_loop :: "'w vault_source \<Rightarrow> string \<Rightarrow> nat \<Rightarrow> ('w, token_response) gio" where
  "refresh_loop vs rt attempt =
     bindE (tryE (refresh (vs_http vs) ''common'' (vs_client_id vs) rt)) (\<lambda>r.
     case r of
       Inr t \<Rightarrow> returnE t
     | Inl e \<Rightarrow>
         if is_re_auth e then bindE (handle_re_auth_required vs) (\<lambda>_. throwE e)
         else if is_transient_refresh e \<and> attempt < TOKEN_REFRESH_MAX_ATTEMPTS
         then bindE (modifyE (rt_sleep_ms (vs_runtime vs)
                       (TOKEN_REFRESH_BACKOFF_BASE_MS * 2 ^ (attempt - 1)))) (\<lambda>_.
              refresh_loop vs rt (attempt + 1))
         else throwE e)"
  by auto
termination
  by (relation "measure (\<lambda>(vs, rt, attempt). TOKEN_REFRESH_MAX_ATTEMPTS - attempt)") auto

declare refresh_loop.simps [simp del]

definition cache_hit :: "cached_token option \<Rightarrow> nat \<Rightarrow> string option" where
  "cache_hit cached now =
     (case cached of
        Some c \<Rightarrow> if (now - cc_fetched_at c) div 10 ^ 9 + TOKEN_REFRESH_LEEWAY_S < cc_expires_in c
                   then Some (cc_access_token c) else None
      | None \<Rightarrow> None)"

definition refreshed_token :: "'w vault_source \<Rightarrow> ('w, string) gio" where
  "refreshed_token vs =
     bindE (map_errE (\<lambda>e. GiDecode (''vault load failed: '' @ vault_error_display e))
              (tv_load_refresh (vs_vault vs) (vs_account_id vs))) (\<lambda>rt.
     bindE (refresh_loop vs rt 1) (\<lambda>tokens.
     bindE (tryE (tv_store_refresh (vs_vault vs) (vs_account_id vs) (tr_refresh_token tokens))) (\<lambda>_.
     bindE (liftE (vs_instant vs)) (\<lambda>fetched_at.
     bindE (modifyE (cell_set (vs_cache vs)
              (Some \<lparr>cc_access_token = tr_access_token tokens, cc_fetched_at = fetched_at,
                     cc_expires_in = tr_expires_in tokens\<rparr>))) (\<lambda>_.
     returnE (tr_access_token tokens))))))"

definition access_token :: "'w vault_source \<Rightarrow> ('w, string) gio" where
  "access_token vs =
     bindE (liftE (\<lambda>w. (cell_get (vs_cache vs) w, w))) (\<lambda>cached.
     bindE (if cached = None then returnE 0 else liftE (vs_instant vs)) (\<lambda>now.
     case cache_hit cached now of
       Some token \<Rightarrow> returnE token
     | None \<Rightarrow> refreshed_token vs))"

section \<open>Requests and the cache\<close>

text \<open>What the parts around the HTTP library leave alone.\<close>

definition source_frame :: "('w \<Rightarrow> 'b) \<Rightarrow> 'w vault_source \<Rightarrow> bool" where
  "source_frame v vs \<longleftrightarrow>
     (\<forall>a. frames v (tv_load_refresh (vs_vault vs) a)) \<and> (\<forall>a t. frames v (tv_store_refresh (vs_vault vs) a t))
     \<and> (\<forall>a b. frames v (st_pairs_list (vs_state vs) a b)) \<and> (\<forall>p. frames v (st_pair_upsert (vs_state vs) p))
     \<and> (\<forall>e. frames v (st_audit_append (vs_state vs) e))
     \<and> frames_step v (rt_now (vs_runtime vs)) \<and> frames_step v (rt_new_ulid (vs_runtime vs))
     \<and> (\<forall>e w. v (rt_emit (vs_runtime vs) e w) = v w) \<and> (\<forall>n w. v (rt_sleep_ms (vs_runtime vs) n w) = v w)
     \<and> frames_step v (vs_instant vs)"

lemma frames_mark_pairs:
  "(\<And>p. frames v (st_pair_upsert st p)) \<Longrightarrow> frames v (mark_pairs st now ps)"
  by (induction ps) (auto intro: frame_rules)

lemma frames_handle_re_auth:
  assumes "source_frame v vs"
  shows "frames v (handle_re_auth_required vs)"
  unfolding handle_re_auth_required_def Let_def
  using assms
  by (intro frame_rules frames_mark_pairs frames_new_id) (auto simp: source_frame_def)

lemma refresh_cost:
  fixes cnt :: "'w \<Rightarrow> nat"
  assumes "\<And>rq w. cnt (snd (ht_send ht rq w)) \<le> Suc (cnt w)"
  shows "cnt (snd (refresh ht a c rt w)) \<le> Suc (cnt w)"
proof -
  have srv: "\<And>rq w x w1. ht_send ht rq w = (x, w1) \<Longrightarrow> cnt w1 \<le> Suc (cnt w)" using assms by (metis snd_conv)
  show ?thesis
    by (auto simp: refresh_def exchange_inner_def io_simps send_def Let_def split: prod.splits sum.splits dest!: srv)
qed

lemma refresh_loop_cost:
  fixes cnt :: "'w \<Rightarrow> nat"
  assumes srv: "\<And>rq w. cnt (snd (ht_send (vs_http vs) rq w)) \<le> Suc (cnt w)" and fr: "source_frame cnt vs"
  shows "cnt (snd (refresh_loop vs rt attempt w)) \<le> cnt w + Suc (TOKEN_REFRESH_MAX_ATTEMPTS - attempt)"
  using assms
proof (induction vs rt attempt arbitrary: w rule: refresh_loop.induct)
  case (1 vs rt attempt)
  obtain r w1 where r: "refresh (vs_http vs) ''common'' (vs_client_id vs) rt w = (r, w1)" by fastforce
  have w1: "cnt w1 \<le> Suc (cnt w)"
    using refresh_cost [of cnt "vs_http vs" "''common''" "vs_client_id vs" rt w] "1.prems"(1) r by simp
  let ?again = "\<lambda>e. is_transient_refresh e \<and> attempt < TOKEN_REFRESH_MAX_ATTEMPTS"
  consider (ok) t where "r = Inr t" | (auth) e where "r = Inl e" "is_re_auth e"
    | (again) e where "r = Inl e" "\<not> is_re_auth e" "?again e"
    | (fail) e where "r = Inl e" "\<not> is_re_auth e" "\<not> ?again e"
    by (cases r) auto
  then show ?case
  proof cases
    case ok
    with r w1 show ?thesis by (subst refresh_loop.simps) (simp add: io_simps)
  next
    case auth
    obtain x :: "graph_internal_error + unit" and w2
      where h: "handle_re_auth_required vs w1 = (x, w2)" by fastforce
    have "cnt w2 = cnt w1" by (rule framesD [OF frames_handle_re_auth [OF "1.prems"(2)] h])
    with auth r w1 h show ?thesis
      by (subst refresh_loop.simps) (simp add: io_simps split: sum.split)
  next
    case again
    let ?w2 = "rt_sleep_ms (vs_runtime vs) (TOKEN_REFRESH_BACKOFF_BASE_MS * 2 ^ (attempt - 1)) w1"
    have step: "refresh_loop vs rt attempt w = refresh_loop vs rt (attempt + 1) ?w2"
      using again r by (subst refresh_loop.simps) (simp add: io_simps)
    have "cnt ?w2 = cnt w1" using "1.prems"(2) by (simp add: source_frame_def)
    moreover have "cnt (snd (refresh_loop vs rt (attempt + 1) ?w2))
        \<le> cnt ?w2 + Suc (TOKEN_REFRESH_MAX_ATTEMPTS - (attempt + 1))"
      by (rule "1.IH" [OF again(2,3)]) (fact "1.prems")+
    ultimately show ?thesis using step w1 again(3) by simp
  next
    case fail
    then have "refresh_loop vs rt attempt w = (Inl e, w1)"
      using r by (subst refresh_loop.simps) (auto simp: io_simps)
    with w1 show ?thesis by simp
  qed
qed

text \<open>
  C37: One call for a token sends at most three requests to the token endpoint, whatever it
  answers, and none at all when the cached token stays valid for more than the leeway.
\<close>
theorem token_requests_bounded:
  fixes cnt :: "'w \<Rightarrow> nat"
  assumes srv: "\<And>rq w. cnt (snd (ht_send (vs_http vs) rq w)) \<le> Suc (cnt w)" and fr: "source_frame cnt vs"
    and cell: "\<And>c w. cnt (cell_set (vs_cache vs) c w) = cnt w"
  shows "cnt (snd (access_token vs w)) \<le> cnt w + 3
    \<and> (cache_hit (cell_get (vs_cache vs) w) (fst (vs_instant vs w)) \<noteq> None
         \<longrightarrow> cnt (snd (access_token vs w)) = cnt w)"
proof -
  have instant: "cnt w2 = cnt w1" if "vs_instant vs w1 = (t, w2)" for w1 t w2
    using that fr frames_stepD by (metis source_frame_def)
  have refreshed: "cnt (snd (refreshed_token vs v)) \<le> cnt v + 3" for v
  proof -
    have load: "cnt w2 = cnt w1" if "tv_load_refresh (vs_vault vs) a w1 = (x, w2)" for a w1 x w2
      using that fr framesD by (metis source_frame_def)
    have store: "cnt w2 = cnt w1" if "tv_store_refresh (vs_vault vs) a t w1 = (x, w2)" for a t w1 x w2
      using that fr framesD by (metis source_frame_def)
    have loop: "cnt w2 \<le> cnt w1 + 3" if "refresh_loop vs rt (Suc 0) w1 = (x, w2)" for rt w1 x w2
      using refresh_loop_cost [OF srv fr, of rt "Suc 0" w1] that by (simp add: TOKEN_REFRESH_MAX_ATTEMPTS_def)
    show ?thesis
      by (auto simp: refreshed_token_def io_simps cell split: prod.splits sum.splits
          dest!: load store loop instant)
  qed
  obtain t w1 where t: "vs_instant vs w = (t, w1)" by fastforce
  have hit_None: "cache_hit None n = None" for n by (simp add: cache_hit_def)
  show ?thesis
    using refreshed [of w] refreshed [of w1] instant [OF t] t
    by (auto simp: access_token_def io_simps hit_None split: option.splits)
qed

text \<open>An HTTP library over a part of the world.\<close>

definition zoom :: "('w \<Rightarrow> 'x) \<Rightarrow> ('x \<Rightarrow> 'w \<Rightarrow> 'w) \<Rightarrow> ('x \<Rightarrow> 'a \<times> 'x) \<Rightarrow> 'w \<Rightarrow> 'a \<times> 'w" where
  "zoom get put f = (\<lambda>w. case f (get w) of (a, x) \<Rightarrow> (a, put x w))"

definition zoom_http :: "('w \<Rightarrow> 'x) \<Rightarrow> ('x \<Rightarrow> 'w \<Rightarrow> 'w) \<Rightarrow> 'x http_lib \<Rightarrow> 'w http_lib" where
  "zoom_http get put ht =
     \<lparr>ht_send = (\<lambda>rq. zoom get put (ht_send ht rq)), ht_random = (\<lambda>n. zoom get put (ht_random ht n)),
      ht_wall_now = zoom get put (ht_wall_now ht), ht_rfc3339 = ht_rfc3339 ht, ht_text = ht_text ht,
      ht_status_text = ht_status_text ht, ht_parse_json = ht_parse_json ht, ht_item = ht_item ht,
      ht_item_text = ht_item_text ht, ht_delta = ht_delta ht, ht_session_url = ht_session_url ht,
      ht_ranges = ht_ranges ht, ht_drive = ht_drive ht, ht_profile = ht_profile ht,
      ht_drives = ht_drives ht, ht_site = ht_site ht, ht_token = ht_token ht, ht_value = ht_value ht,
      ht_query_pairs = ht_query_pairs ht, ht_base64 = ht_base64 ht, ht_sha1 = ht_sha1 ht\<rparr>"

text \<open>A scripted server and a cache beside the in-memory store, for concrete runs.\<close>

type_synonym script_state = "(http_response list \<times> cached_token option) mem_world"

definition world_http :: "script_state http_lib" where
  "world_http = zoom_http (\<lambda>w. fst (mw_ext w)) (\<lambda>x w. w\<lparr>mw_ext := (x, snd (mw_ext w))\<rparr>) script_http"

definition world_cache :: "(script_state, cached_token option) cell" where
  "world_cache = \<lparr>cell_get = (\<lambda>w. snd (mw_ext w)), cell_set = (\<lambda>c w. w\<lparr>mw_ext := (fst (mw_ext w), c)\<rparr>)\<rparr>"

definition script_world :: "mem_store \<Rightarrow> http_response list \<Rightarrow> script_state" where
  "script_world s rs = \<lparr>mw_store = s, mw_ext = (rs, None)\<rparr>"

definition plain_vault :: "'w token_vault" where
  "plain_vault = \<lparr>tv_store_refresh = (\<lambda>_ _. returnE (KeychainRef ''k'')), tv_load_refresh = (\<lambda>_. returnE ''r''),
     tv_delete = (\<lambda>_. returnE ())\<rparr>"

definition still_runtime :: "'w runtime" where
  "still_runtime = \<lparr>rt_now = (\<lambda>w. (0, w)), rt_new_ulid = (\<lambda>w. (0, w)), rt_emit = (\<lambda>_ w. w),
     rt_getrandom_u64 = (\<lambda>w. (None, w)), rt_sleep_ms = (\<lambda>_ w. w)\<rparr>"

definition script_source :: "script_state vault_source" where
  "script_source = \<lparr>vs_http = world_http, vs_vault = plain_vault, vs_account_id = Id 0,
     vs_client_id = ''c'', vs_cache = world_cache, vs_state = mem_state_store ascii_lib,
     vs_runtime = still_runtime, vs_instant = (\<lambda>w. (0, w)), vs_lib = ascii_lib\<rparr>"

lemma token_requests_bounded_witness:
  "9 - length (fst (mw_ext (snd (access_token script_source (script_world empty_store [ok_response [[65]]])))))
     \<le> 9 - 1 + 3"
proof -
  have len: "length (snd (script_send rq w)) = length w - 1" for rq w by (cases w) simp_all
  have "source_frame (\<lambda>w. 9 - length (fst (mw_ext w))) script_source"
    by (auto simp: source_frame_def script_source_def frames_def frames_step_def plain_vault_def returnE_def
        still_runtime_def mem_state_store_def on_store_def split: prod.split)
  moreover have "9 - length (fst (mw_ext (snd (ht_send (vs_http script_source) rq w))))
      \<le> Suc (9 - length (fst (mw_ext w)))" for rq w
    using len [of rq "fst (mw_ext w)"]
    by (auto simp: script_source_def world_http_def zoom_http_def zoom_def script_http_def split: prod.split)
  ultimately show ?thesis
    using token_requests_bounded [of "\<lambda>w. 9 - length (fst (mw_ext w))" script_source
        "script_world empty_store [ok_response [[65]]]"]
    by (simp add: script_source_def world_cache_def script_world_def)
qed

text \<open>
  A token that a call returns is the one in the cache afterwards, with its life time, so
  that the next call can use it.
\<close>
theorem returned_token_is_cached:
  assumes "access_token vs w = (Inr t, w')"
    and "\<And>c w. cell_get (vs_cache vs) (cell_set (vs_cache vs) c w) = c"
    and "frames_step (cell_get (vs_cache vs)) (vs_instant vs)"
  shows "\<exists>c. cell_get (vs_cache vs) w' = Some c \<and> cc_access_token c = t"
proof -
  have hit: "\<exists>c. cached = Some c \<and> cc_access_token c = t" if "cache_hit cached n = Some t" for cached n t
    using that by (auto simp: cache_hit_def split: option.splits if_splits)
  have kept: "cell_get (vs_cache vs) w2 = cell_get (vs_cache vs) w1" if "vs_instant vs w1 = (n, w2)" for w1 n w2
    by (rule frames_stepD [OF assms(3) that])
  have refreshed: "\<exists>c. cell_get (vs_cache vs) w2 = Some c \<and> cc_access_token c = t"
    if "refreshed_token vs w1 = (Inr t, w2)" for w1 t w2
    using that assms(2) by (auto simp: refreshed_token_def modifyE_def returnE_def elim!: bindE_InrE)
  from assms(1) obtain n w1 where
      "(if cell_get (vs_cache vs) w = None then returnE 0 else liftE (vs_instant vs)) w
        = (Inr n :: graph_internal_error + nat, w1)"
    and c: "(case cache_hit (cell_get (vs_cache vs) w) n of Some token \<Rightarrow> returnE token | None \<Rightarrow> refreshed_token vs) w1
      = (Inr t, w')"
    by (auto simp: access_token_def liftE_def elim!: bindE_InrE)
  then have "cell_get (vs_cache vs) w1 = cell_get (vs_cache vs) w"
    using kept by (auto simp: returnE_def liftE_def split: if_splits prod.splits)
  with c hit refreshed show ?thesis
    by (auto simp: returnE_def split: option.splits)
qed

lemma returned_token_is_cached_witness:
  "\<exists>c. snd (mw_ext (snd (access_token script_source (script_world empty_store [ok_response [[65]]])))) = Some c
     \<and> cc_access_token c = ''A''"
proof -
  have "access_token script_source (script_world empty_store [ok_response [[65]]])
    = (Inr ''A'', script_world empty_store []\<lparr>mw_ext := ([], Some \<lparr>cc_access_token = ''A'', cc_fetched_at = 0,
        cc_expires_in = 3600\<rparr>)\<rparr>)"
    by (simp add: access_token_def refreshed_token_def refresh_loop.simps refresh_def exchange_inner_def
        io_simps script_source_def world_cache_def world_http_def zoom_http_def zoom_def script_http_def
        script_world_def cache_hit_def plain_vault_def send_def script_send.simps ok_response_def
        response_text_def response_bytes_def bytes_text_def is_success_def char_of_def bit_Suc_0_iff)
  from returned_token_is_cached [OF this] show ?thesis
    using \<open>access_token script_source (script_world empty_store [ok_response [[65]]]) = _\<close>
    by (simp add: script_source_def world_cache_def frames_step_def)
qed

end
