(* ===== verification/Scheduler.thy ===== *)
theory Scheduler
  imports Token_Source
begin

text \<open>
  The daemon's scheduler (\<open>crates/onesync-daemon/src/scheduler.rs\<close>): one task that runs the
  cycles of all pairs one after the other, writes the pair row after each, and keeps the
  webhook subscriptions.  Its inputs are the ports; \<open>fs2::available_space\<close>, \<open>osascript\<close>,
  \<open>Path::display\<close> and the monotonic clock are parameters.  Log lines are left out.
\<close>

section \<open>Inputs\<close>

record 'w sched_inputs =
  si_state :: "'w state_store"
  si_local_fs :: "'w local_fs"
  si_runtime :: "'w runtime"
  si_vault :: "'w token_vault"
  si_http :: "'w http_lib"
  si_host_name :: string
  si_lib :: lib
  si_instant :: "'w \<Rightarrow> nat \<times> 'w"
  si_cache :: "('w, cached_token option) cell"
  si_available_space :: "abs_path \<Rightarrow> ('w, string, nat) io"
  si_osascript :: "string \<Rightarrow> 'w \<Rightarrow> 'w"
  si_path_display :: "path_buf \<Rightarrow> string"

definition SUBSCRIPTION_TTL_DAYS :: int where "SUBSCRIPTION_TTL_DAYS = 3"
definition SUBSCRIPTION_RENEW_LEAD_S :: int where "SUBSCRIPTION_RENEW_LEAD_S = 60 * 60 * 12"

record subscription_info =
  su_sub_id :: string
  su_expires_at :: timestamp

type_synonym subscriptions = "(pair_id, subscription_info) table"

definition map_entries :: "lib \<Rightarrow> ('k, 'v) table \<Rightarrow> ('k \<times> 'v) list" where
  "map_entries L t = map (\<lambda>i. t ! i) (lib_map_order L (length t))"

text \<open>\<open>VaultBackedTokenSource::from_inputs\<close> with its empty cache, and the adapter over it.\<close>

definition source_for :: "'w sched_inputs \<Rightarrow> account_id \<Rightarrow> string \<Rightarrow> 'w vault_source" where
  "source_for si account client_id =
     \<lparr>vs_http = si_http si, vs_vault = si_vault si, vs_account_id = account, vs_client_id = client_id,
      vs_cache = si_cache si, vs_state = si_state si, vs_runtime = si_runtime si,
      vs_instant = si_instant si, vs_lib = si_lib si\<rparr>"

definition adapter_for :: "'w sched_inputs \<Rightarrow> account \<Rightarrow> string \<Rightarrow> 'w graph_adapter" where
  "adapter_for si ac client_id =
     \<lparr>ga_http = si_http si, ga_token_source = access_token (source_for si (ac_id ac) client_id),
      ga_drive_id = ac_drive_id ac\<rparr>"

definition new_adapter :: "'w sched_inputs \<Rightarrow> account \<Rightarrow> string \<Rightarrow> ('w, string, 'w remote_drive) io" where
  "new_adapter si ac client_id =
     bindE (modifyE (cell_set (si_cache si) None)) (\<lambda>_. returnE (graph_drive (adapter_for si ac client_id)))"

definition client_id_of :: "instance_config option \<Rightarrow> string" where
  "client_id_of cfg = (case cfg of Some c \<Rightarrow> ic_azure_ad_client_id c | None \<Rightarrow> [])"

section \<open>Subscriptions\<close>

text \<open>The account and client id that the three subscription functions look up, or a skip.\<close>

definition usable_account :: "'w sched_inputs \<Rightarrow> account_id \<Rightarrow> ('w, string, (account \<times> string) option) io" where
  "usable_account si i =
     bindE (tryE (st_account_get (si_state si) i)) (\<lambda>found.
     case found of
       Inr (Some ac) \<Rightarrow>
         bindE (tryE (st_config_get (si_state si))) (\<lambda>cfg.
         let client_id = client_id_of (case cfg of Inr c \<Rightarrow> c | Inl _ \<Rightarrow> None)
         in returnE (if client_id = [] then None else Some (ac, client_id)))
     | _ \<Rightarrow> returnE None)"

definition subscription_expiry_from_now :: "'w sched_inputs \<Rightarrow> ('w, string, timestamp) io" where
  "subscription_expiry_from_now si =
     bindE (liftE (ht_wall_now (si_http si))) (\<lambda>now. returnE (now + days_ns SUBSCRIPTION_TTL_DAYS))"

definition pair_id_string :: "'w sched_inputs \<Rightarrow> pair_id \<Rightarrow> string" where
  "pair_id_string si i = id_display (lib_ulid_show (si_lib si)) pair_prefix i"

definition register_one ::
  "'w sched_inputs \<Rightarrow> string \<Rightarrow> pair \<Rightarrow> subscriptions \<Rightarrow> ('w, string, subscriptions) io" where
  "register_one si url pr out =
     (if \<not> pr_webhook_enabled pr then returnE out
      else
        bindE (usable_account si (pr_account_id pr)) (\<lambda>found.
        case found of
          None \<Rightarrow> returnE out
        | Some (ac, client_id) \<Rightarrow>
            bindE (new_adapter si ac client_id) (\<lambda>remote.
            bindE (tryE (rd_subscribe remote (ac_drive_id ac) url (pair_id_string si (pr_id pr)))) (\<lambda>r.
            case r of
              Inl _ \<Rightarrow> returnE out
            | Inr sub_id \<Rightarrow>
                bindE (subscription_expiry_from_now si) (\<lambda>expires_at.
                returnE (AList.update (pr_id pr)
                  \<lparr>su_sub_id = sub_id, su_expires_at = expires_at\<rparr> out))))))"

fun foldE :: "('a \<Rightarrow> 's \<Rightarrow> ('w, 'e, 's) io) \<Rightarrow> 'a list \<Rightarrow> 's \<Rightarrow> ('w, 'e, 's) io" where
  "foldE f [] s = returnE s"
| "foldE f (x # xs) s = bindE (f x s) (foldE f xs)"

definition register_initial_subscriptions ::
  "'w sched_inputs \<Rightarrow> string \<Rightarrow> subscriptions \<Rightarrow> ('w, string, subscriptions) io" where
  "register_initial_subscriptions si url out =
     bindE (tryE (st_pairs_active (si_state si))) (\<lambda>r.
     case r of
       Inl _ \<Rightarrow> returnE out
     | Inr pairs \<Rightarrow> foldE (register_one si url) pairs out)"

definition renew_one :: "'w sched_inputs \<Rightarrow> pair_id \<Rightarrow> subscriptions \<Rightarrow> ('w, string, subscriptions) io" where
  "renew_one si pid subs =
     (case map_of subs pid of
        None \<Rightarrow> returnE subs
      | Some info \<Rightarrow>
          bindE (tryE (st_pair_get (si_state si) pid)) (\<lambda>found.
          case found of
            Inr (Some pr) \<Rightarrow>
              bindE (usable_account si (pr_account_id pr)) (\<lambda>usable.
              case usable of
                None \<Rightarrow> returnE subs
              | Some (ac, client_id) \<Rightarrow>
                  bindE (subscription_expiry_from_now si) (\<lambda>new_expiry.
                  bindE (new_adapter si ac client_id) (\<lambda>remote.
                  bindE (tryE (rd_renew_subscription remote (su_sub_id info)
                                 (ht_rfc3339 (si_http si) new_expiry))) (\<lambda>r.
                  returnE (case r of
                             Inr _ \<Rightarrow> table_modify pid (\<lambda>e. e\<lparr>su_expires_at := new_expiry\<rparr>) subs
                           | Inl _ \<Rightarrow> subs)))))
          | _ \<Rightarrow> returnE subs))"

definition renew_due_subscriptions ::
  "'w sched_inputs \<Rightarrow> subscriptions \<Rightarrow> ('w, string, subscriptions) io" where
  "renew_due_subscriptions si subs =
     (if subs = [] then returnE subs
      else
        bindE (liftE (ht_wall_now (si_http si))) (\<lambda>now.
        let lead = SUBSCRIPTION_RENEW_LEAD_S * 10 ^ 9;
            due = map fst (filter (\<lambda>(_, info). su_expires_at info - now \<le> lead) (map_entries (si_lib si) subs))
        in foldE (renew_one si) due subs))"

definition unregister_one :: "'w sched_inputs \<Rightarrow> pair_id \<times> subscription_info \<Rightarrow> unit \<Rightarrow> ('w, string, unit) io" where
  "unregister_one si = (\<lambda>(pid, info) _.
     bindE (tryE (st_pair_get (si_state si) pid)) (\<lambda>found.
     case found of
       Inr (Some pr) \<Rightarrow>
         bindE (usable_account si (pr_account_id pr)) (\<lambda>usable.
         case usable of
           None \<Rightarrow> returnE ()
         | Some (ac, client_id) \<Rightarrow>
             bindE (new_adapter si ac client_id) (\<lambda>remote.
             bindE (tryE (rd_unsubscribe remote (su_sub_id info))) (\<lambda>_. returnE ())))
     | _ \<Rightarrow> returnE ()))"

definition unregister_subscriptions :: "'w sched_inputs \<Rightarrow> subscriptions \<Rightarrow> ('w, string, unit) io" where
  "unregister_subscriptions si subs = foldE (unregister_one si) (map_entries (si_lib si) subs) ()"

section \<open>One cycle\<close>

definition mark_pair_errored ::
  "'w state_store \<Rightarrow> 'w runtime \<Rightarrow> pair \<Rightarrow> string \<Rightarrow> ('w, string, unit) io" where
  "mark_pair_errored st rt pr reason =
     bindE (liftE (rt_now rt)) (\<lambda>now.
     bindE (tryE (st_pair_upsert st (errored_pair reason now pr))) (\<lambda>_. returnE ()))"

definition is_metered_network :: bool where
  "is_metered_network = False"

definition free_space_gib :: "'w sched_inputs \<Rightarrow> abs_path \<Rightarrow> ('w, string, nat) io" where
  "free_space_gib si path = bindE (si_available_space si path) (\<lambda>bytes. returnE (bytes div 2 ^ 30))"

definition or_else :: "'a option \<Rightarrow> 'a option \<Rightarrow> 'a option" where
  "or_else a b = (case a of Some x \<Rightarrow> Some x | None \<Rightarrow> b)"

definition promotes :: "pair \<Rightarrow> cycle_summary \<Rightarrow> bool" where
  "promotes pr summary \<longleftrightarrow> pr_status pr = Initializing \<and> cs_delta_token summary \<noteq> None"

definition post_cycle_row :: "pair \<Rightarrow> cycle_summary \<Rightarrow> timestamp \<Rightarrow> pair" where
  "post_cycle_row pr summary now =
     pr\<lparr>pr_status := (if promotes pr summary then Active else pr_status pr),
        pr_delta_token := or_else (cs_delta_token summary) (pr_delta_token pr),
        pr_last_sync_at := Some now, pr_updated_at := now\<rparr>"

definition persist_post_cycle ::
  "'w state_store \<Rightarrow> 'w runtime \<Rightarrow> pair \<Rightarrow> cycle_summary \<Rightarrow> ('w, string, unit) io" where
  "persist_post_cycle st rt pr summary =
     bindE (liftE (rt_now rt)) (\<lambda>now.
     if \<not> promotes pr summary \<and> or_else (cs_delta_token summary) (pr_delta_token pr) = pr_delta_token pr
     then returnE ()
     else bindE (tryE (st_pair_upsert st (post_cycle_row pr summary now))) (\<lambda>_. returnE ()))"

definition symlink_event :: "'w sched_inputs \<Rightarrow> audit_event_id \<Rightarrow> timestamp \<Rightarrow> pair \<Rightarrow> path_buf \<Rightarrow> audit_event" where
  "symlink_event si i now pr link =
     \<lparr>ev_id = i, ev_ts = now, ev_level = LevelWarn, ev_kind = ''local.symlink.skipped'',
      ev_pair_id = Some (pr_id pr),
      ev_payload = json_insert ''path'' (JString (si_path_display si link)) []\<rparr>"

definition emit_symlink_skips :: "'w sched_inputs \<Rightarrow> pair \<Rightarrow> ('w, string, unit) io" where
  "emit_symlink_skips si pr =
     bindE (tryE (lf_scan (si_local_fs si) (pr_local_path pr))) (\<lambda>r.
     case r of
       Inl _ \<Rightarrow> returnE ()
     | Inr scan \<Rightarrow>
         foldE (\<lambda>link _.
           bindE (liftE (new_id (si_runtime si))) (\<lambda>i.
           bindE (liftE (rt_now (si_runtime si))) (\<lambda>now.
           modifyE (rt_emit (si_runtime si) (symlink_event si i now pr link)))))
         (ls_symlinks_skipped scan) ())"

text \<open>AppleScript literals escape the backslash and the double quote.\<close>

definition replace_char :: "char \<Rightarrow> string \<Rightarrow> string \<Rightarrow> string" where
  "replace_char c r s = concat (map (\<lambda>x. if x = c then r else [x]) s)"

definition shell_escape :: "string \<Rightarrow> string" where
  "shell_escape s = replace_char CHR 0x22 [CHR 0x5C, CHR 0x22] (replace_char CHR 0x5C [CHR 0x5C, CHR 0x5C] s)"

definition notify_user :: "'w sched_inputs \<Rightarrow> string \<Rightarrow> string \<Rightarrow> ('w, string, unit) io" where
  "notify_user si title message =
     modifyE (si_osascript si
       (''display notification '' @ [CHR 0x22] @ shell_escape message @ [CHR 0x22] @ '' with title ''
         @ [CHR 0x22] @ shell_escape title @ [CHR 0x22]))"

definition cycle_ctx_for ::
  "'w sched_inputs \<Rightarrow> pair \<Rightarrow> account \<Rightarrow> 'w remote_drive \<Rightarrow> run_trigger \<Rightarrow> 'w cycle_ctx" where
  "cycle_ctx_for si pr ac remote trigger =
     \<lparr>cx_lib = si_lib si, cx_pair_id = pr_id pr, cx_local_root = pr_local_path pr,
      cx_drive_id = ac_drive_id ac, cx_cursor = pr_delta_token pr, cx_trigger = trigger,
      cx_state = si_state si, cx_remote = remote, cx_local = si_local_fs si,
      cx_runtime = si_runtime si, cx_host_name = si_host_name si\<rparr>"

text \<open>\<open>?\<close> into \<open>anyhow::Error\<close>, whose text is all that is used of it.\<close>

definition anyhow_state :: "('w, state_error, 'a) io \<Rightarrow> ('w, string, 'a) io" where
  "anyhow_state m = map_errE state_error_display m"

definition found_or :: "string \<Rightarrow> 'a option \<Rightarrow> ('w, string, 'a) io" where
  "found_or msg x = (case x of None \<Rightarrow> throwE msg | Some y \<Rightarrow> returnE y)"

text \<open>The second half: the cycle and what follows it.\<close>

definition sync_pair ::
  "'w sched_inputs \<Rightarrow> pair \<Rightarrow> account \<Rightarrow> string \<Rightarrow> bool \<Rightarrow> run_trigger \<Rightarrow> ('w, string, unit) io" where
  "sync_pair si pr ac client_id notify_enabled trigger =
     bindE (new_adapter si ac client_id) (\<lambda>remote.
     bindE (map_errE engine_error_display (run_cycle (cycle_ctx_for si pr ac remote trigger))) (\<lambda>summary.
     bindE (persist_post_cycle (si_state si) (si_runtime si) pr summary) (\<lambda>_.
     bindE (if promotes pr summary \<and> notify_enabled
            then notify_user si ''onesync'' (''Initial sync complete for '' @ pr_display_name pr)
            else returnE ()) (\<lambda>_.
     emit_symlink_skips si pr))))"

text \<open>The gates in front of it: \<open>Some\<close> when the cycle goes on.\<close>

definition space_gate :: "'w sched_inputs \<Rightarrow> instance_config option \<Rightarrow> pair \<Rightarrow> ('w, string, bool) io" where
  "space_gate si cfg pr =
     (case cfg of
        None \<Rightarrow> returnE True
      | Some c \<Rightarrow>
          if 0 < unat (ic_min_free_gib c) then
            bindE (tryE (free_space_gib si (pr_local_path pr))) (\<lambda>r.
            case r of
              Inl _ \<Rightarrow> returnE True
            | Inr have_gib \<Rightarrow>
                if have_gib < unat (ic_min_free_gib c)
                then bindE (mark_pair_errored (si_state si) (si_runtime si) pr ''free disk below threshold'')
                       (\<lambda>_. returnE False)
                else returnE True)
          else returnE True)"

definition metered_gate :: "instance_config option \<Rightarrow> bool" where
  "metered_gate cfg \<longleftrightarrow>
     (case cfg of Some c \<Rightarrow> \<not> (\<not> ic_allow_metered c \<and> is_metered_network) | None \<Rightarrow> True)"

definition run_one_pair_inner :: "'w sched_inputs \<Rightarrow> pair_id \<Rightarrow> run_trigger \<Rightarrow> ('w, string, unit) io" where
  "run_one_pair_inner si pid trigger =
     bindE (bindE (anyhow_state (st_pair_get (si_state si) pid))
              (found_or (''pair not found: '' @ pair_id_string si pid))) (\<lambda>pr.
     bindE (bindE (anyhow_state (st_account_get (si_state si) (pr_account_id pr)))
              (found_or (''account not found: ''
                 @ id_display (lib_ulid_show (si_lib si)) account_prefix (pr_account_id pr)))) (\<lambda>ac.
     bindE (anyhow_state (st_config_get (si_state si))) (\<lambda>cfg.
     let client_id = client_id_of cfg
     in if client_id = [] then
          throwE (''azure_ad_client_id is unset; refusing to schedule pair '' @ pair_id_string si pid)
        else if \<not> metered_gate cfg then returnE ()
        else
          bindE (space_gate si cfg pr) (\<lambda>go_on.
          if \<not> go_on then returnE ()
          else sync_pair si pr ac client_id (case cfg of Some c \<Rightarrow> ic_notify c | None \<Rightarrow> False) trigger))))"

definition run_one_pair :: "'w sched_inputs \<Rightarrow> pair_id \<Rightarrow> run_trigger \<Rightarrow> ('w, string, unit) io" where
  "run_one_pair si pid trigger = bindE (tryE (run_one_pair_inner si pid trigger)) (\<lambda>_. returnE ())"

definition due :: "pair \<Rightarrow> bool" where
  "due pr \<longleftrightarrow> \<not> (pr_paused pr \<or> pr_status pr = Removed)"

definition run_due_pairs :: "'w sched_inputs \<Rightarrow> ('w, string, unit) io" where
  "run_due_pairs si =
     bindE (tryE (st_pairs_active (si_state si))) (\<lambda>r.
     case r of
       Inl _ \<Rightarrow> returnE ()
     | Inr pairs \<Rightarrow>
         foldE (\<lambda>pr _. if due pr then run_one_pair si (pr_id pr) Scheduled else returnE ()) pairs ())"

section \<open>The task\<close>

text \<open>The branches of its \<open>select!\<close>, in the order in which they fire.\<close>

datatype sched_event = TickDue | RenewDue | ForceSync pair_id | Shutdown

fun scheduler_loop ::
  "'w sched_inputs \<Rightarrow> sched_event list \<Rightarrow> subscriptions \<Rightarrow> ('w, string, subscriptions) io" where
  "scheduler_loop si [] subs = returnE subs"
| "scheduler_loop si (TickDue # evs) subs =
     bindE (run_due_pairs si) (\<lambda>_. scheduler_loop si evs subs)"
| "scheduler_loop si (RenewDue # evs) subs =
     bindE (renew_due_subscriptions si subs) (scheduler_loop si evs)"
| "scheduler_loop si (ForceSync pid # evs) subs =
     bindE (run_one_pair si pid CliForce) (\<lambda>_. scheduler_loop si evs subs)"
| "scheduler_loop si (Shutdown # evs) subs = returnE subs"

definition scheduler_task ::
  "'w sched_inputs \<Rightarrow> string option \<Rightarrow> sched_event list \<Rightarrow> ('w, string, unit) io" where
  "scheduler_task si notification_url evs =
     bindE (case notification_url of
              Some url \<Rightarrow> register_initial_subscriptions si url []
            | None \<Rightarrow> returnE []) (\<lambda>subs.
     bindE (scheduler_loop si evs subs) (\<lambda>subs.
     if subs = [] then returnE () else unregister_subscriptions si subs))"

section \<open>The pair row after a cycle\<close>

lemma mem_upsert_call:
  "st_pair_upsert (mem_state_store L) pr w = (Inr (), w\<lparr>mw_store := (mw_store w)
     \<lparr>ms_pairs := AList.update (pr_id pr) pr (ms_pairs (mw_store w))\<rparr>\<rparr>)"
  by (simp add: mem_state_store_def on_store_def mem_pair_upsert_def)

lemma mem_pairs_upsert [simp]:
  "mem_pairs (w\<lparr>mw_store := s\<lparr>ms_pairs := AList.update i pr t\<rparr>\<rparr>) = (map_of t)(i \<mapsto> pr)"
  by (simp add: mem_pairs_def fun_eq_iff update_conv')

lemma mem_pairs_map_of: "map_of (ms_pairs (mw_store w)) = mem_pairs w"
  by (simp add: mem_pairs_def fun_eq_iff)

lemma ext_now: "rt_now (ext_runtime rt) w = (t, w') \<Longrightarrow> mw_store w' = mw_store w"
  by (auto simp: ext_runtime_def on_ext_step_def split: prod.splits)

lemma mem_pairs_store: "mw_store w = mw_store w' \<Longrightarrow> mem_pairs w = mem_pairs w'"
  by (simp add: mem_pairs_def fun_eq_iff)

lemma mem_post_cycle:
  "\<exists>now. mem_pairs (snd (persist_post_cycle (mem_state_store L) (ext_runtime rt) pr summary w)) =
     (case cs_delta_token summary of
        Some tok \<Rightarrow>
          (if pr_status pr = Initializing \<or> pr_delta_token pr \<noteq> Some tok
           then (mem_pairs w)(pr_id pr \<mapsto>
                  pr\<lparr>pr_status := (if pr_status pr = Initializing then Active else pr_status pr),
                     pr_delta_token := Some tok, pr_last_sync_at := Some now, pr_updated_at := now\<rparr>)
           else mem_pairs w)
      | None \<Rightarrow> mem_pairs w)"
proof -
  obtain t w1 where n: "rt_now (ext_runtime rt) w = (t, w1)" by fastforce
  have st: "mem_pairs w1 = mem_pairs w" by (rule mem_pairs_store [OF ext_now [OF n]])
  show ?thesis
    by (rule exI [of _ t])
       (auto simp: persist_post_cycle_def promotes_def or_else_def post_cycle_row_def io_simps n
         mem_upsert_call mem_pairs_map_of st split: option.split)
qed

text \<open>
  After a cycle the scheduler replaces the whole row of the pair by the row read before the
  cycle, with the new cursor, the time, and \<open>Active\<close> when it was \<open>Initializing\<close> and the cycle
  has a cursor.  It writes only when one of these changed, and then whatever the row holds by
  now is overwritten; without a cursor it writes nothing, and no other row changes.
\<close>
theorem post_cycle_replaces_row:
  "\<exists>now. mem_pairs (snd (persist_post_cycle (mem_state_store L) (ext_runtime rt) pr summary w)) =
     (case cs_delta_token summary of
        Some tok \<Rightarrow>
          (if pr_status pr \<noteq> Initializing \<and> pr_delta_token pr = Some tok then mem_pairs w
           else (mem_pairs w)(pr_id pr \<mapsto>
                  pr\<lparr>pr_status := (if pr_status pr = Initializing then Active else pr_status pr),
                     pr_delta_token := Some tok, pr_last_sync_at := Some now, pr_updated_at := now\<rparr>))
      | None \<Rightarrow> mem_pairs w)"
  using mem_post_cycle [where L = L and rt = rt and pr = pr and summary = summary and w = w]
  by (auto split: option.splits if_splits)

section \<open>A revoked token\<close>

lemma mem_mark_pairs:
  assumes "distinct (map pr_id ps)"
  shows "\<exists>w'. mark_pairs (mem_state_store L) now ps w = (Inr () , w') \<and> mw_ext w' = mw_ext w
    \<and> mem_pairs w' = (\<lambda>p. case find (\<lambda>pr. pr_id pr = p) ps of
          Some pr \<Rightarrow> Some (errored_pair ''re-auth required'' now pr) | None \<Rightarrow> mem_pairs w p)"
  using assms
proof (induction ps arbitrary: w)
  case (Cons pr ps)
  let ?e = "errored_pair ''re-auth required'' now pr"
  define w1 where "w1 = snd (st_pair_upsert (mem_state_store L) ?e w)"
  have up: "st_pair_upsert (mem_state_store L) ?e w = (Inr (), w1)" by (simp add: w1_def mem_upsert_call)
  have id: "pr_id ?e = pr_id pr" by (simp add: errored_pair_def)
  have w1: "mem_pairs w1 = (mem_pairs w)(pr_id pr \<mapsto> ?e)" "mw_ext w1 = mw_ext w"
    by (simp_all add: w1_def mem_upsert_call mem_pairs_map_of id)
  from Cons.prems obtain w' where "mark_pairs (mem_state_store L) now ps w1 = (Inr () , w')" "mw_ext w' = mw_ext w1"
    "mem_pairs w' = (\<lambda>p. case find (\<lambda>pr. pr_id pr = p) ps of
          Some pr \<Rightarrow> Some (errored_pair ''re-auth required'' now pr) | None \<Rightarrow> mem_pairs w1 p)"
    using Cons.IH [of w1] by auto
  moreover have "find (\<lambda>q. pr_id q = pr_id pr) ps = None"
    using Cons.prems by (auto simp: find_None_iff) (metis image_eqI)
  ultimately show ?case
    using w1 by (intro exI [of _ w']) (auto simp: io_simps up fun_eq_iff split: option.split)
qed (simp add: io_simps)

text \<open>The pairs of an account, as the store lists them.\<close>

lemma mem_list_pairs:
  "st_pairs_list (mem_state_store L) a b w = (fst (mem_pairs_list L a b (mw_store w)), w)"
  by (simp add: mem_state_store_def on_store_def mem_pairs_list_def)

lemma wf_pairs_values:
  assumes "wf_store s" and "map_order_laws (lib_map_order L)"
  shows "distinct (map pr_id (table_values L (ms_pairs s)))"
    and "set (table_values L (ms_pairs s)) = {pr. map_of (ms_pairs s) (pr_id pr) = Some pr}"
proof -
  let ?t = "ms_pairs s"
  have wf: "distinct (map fst ?t)" "\<And>k v. (k, v) \<in> set ?t \<Longrightarrow> pr_id v = k"
    using assms(1) by (auto simp: wf_store_def wf_table_def)
  have key: "map pr_id (map snd ?t) = map fst ?t"
    using wf(2) by fastforce
  have "distinct (lib_map_order L (length ?t))" "set (lib_map_order L (length ?t)) = {..<length ?t}"
    using assms(2) by (auto simp: map_order_laws_def)
  moreover have "inj_on (\<lambda>i. pr_id (snd (?t ! i))) {..<length ?t}"
    using wf(1) key by (auto simp: inj_on_def distinct_conv_nth)
  ultimately show "distinct (map pr_id (table_values L ?t))"
    by (simp add: table_values_def distinct_map comp_def)
  show "set (table_values L ?t) = {pr. map_of ?t (pr_id pr) = Some pr}"
  proof (intro set_eqI iffI)
    fix pr
    assume "pr \<in> set (table_values L ?t)"
    then obtain k where "(k, pr) \<in> set ?t" by (auto simp: table_values_set [OF assms(2)])
    with wf show "pr \<in> {pr. map_of ?t (pr_id pr) = Some pr}" by auto
  next
    fix pr
    assume "pr \<in> {pr. map_of ?t (pr_id pr) = Some pr}"
    then have "(pr_id pr, pr) \<in> set ?t" by (auto dest: map_of_SomeD)
    then show "pr \<in> set (table_values L ?t)" by (force simp: table_values_set [OF assms(2)])
  qed
qed

lemma find_key:
  assumes "distinct (map key xs)"
  shows "find (\<lambda>x. key x = k) xs = Some x \<longleftrightarrow> x \<in> set xs \<and> key x = k"
  using assms by (induction xs) auto

lemma find_listed:
  assumes "wf_store s" and "map_order_laws (lib_map_order L)"
    and "fst (mem_pairs_list L (Some a) False s) = Inr ps"
  shows "distinct (map pr_id ps)"
    and "find (\<lambda>pr. pr_id pr = p) ps = (case map_of (ms_pairs s) p of
           Some pr \<Rightarrow> if pr_account_id pr = a \<and> pr_status pr \<noteq> Removed then Some pr else None
         | None \<Rightarrow> None)"
proof -
  let ?vs = "table_values L (ms_pairs s)"
  let ?f = "filter (\<lambda>p. False \<or> pr_status p \<noteq> Removed) (filter (\<lambda>p. is_none_or (\<lambda>b. pr_account_id p = b) (Some a)) ?vs)"
  have ps: "ps = sort_key (pair_id_text L) ?f" using assms(3) by (simp add: mem_pairs_list_def)
  have "distinct (map pr_id ?vs)" and vs: "set ?vs = {pr. map_of (ms_pairs s) (pr_id pr) = Some pr}"
    using wf_pairs_values [OF assms(1,2)] by auto
  then have "distinct (map pr_id ?f)" by (intro distinct_map_filter)
  then have d: "distinct ps" "inj_on pr_id (set ps)" by (simp_all add: ps distinct_map)
  then show dp: "distinct (map pr_id ps)" by (simp add: distinct_map)
  have id: "pr_id pr = p" if "map_of (ms_pairs s) p = Some pr" for pr
    using that assms(1) by (auto simp: wf_store_def wf_table_def dest!: map_of_SomeD)
  have mem: "pr \<in> set ps \<and> pr_id pr = p \<longleftrightarrow>
      map_of (ms_pairs s) p = Some pr \<and> pr_account_id pr = a \<and> pr_status pr \<noteq> Removed" for pr
    using vs id by (auto simp: ps is_none_or_def)
  show "find (\<lambda>pr. pr_id pr = p) ps = (case map_of (ms_pairs s) p of
           Some pr \<Rightarrow> if pr_account_id pr = a \<and> pr_status pr \<noteq> Removed then Some pr else None
         | None \<Rightarrow> None)"
  proof (cases "find (\<lambda>pr. pr_id pr = p) ps")
    case None
    then have "\<not> (map_of (ms_pairs s) p = Some pr \<and> pr_account_id pr = a \<and> pr_status pr \<noteq> Removed)" for pr
      using mem [of pr] find_key [OF dp, of p pr] by auto
    with None show ?thesis by (auto split: option.split)
  next
    case (Some pr)
    with mem [of pr] find_key [OF dp, of p pr] show ?thesis by auto
  qed
qed

definition re_auth_row :: "account_id \<Rightarrow> timestamp \<Rightarrow> pair \<Rightarrow> pair" where
  "re_auth_row a now pr =
     (if pr_account_id pr = a \<and> pr_status pr \<noteq> Removed
      then pr\<lparr>pr_status := Errored, pr_errored_reason := Some ''re-auth required'', pr_updated_at := now\<rparr>
      else pr)"

lemma mem_re_auth:
  assumes "wf_store (mw_store w)" and "map_order_laws (lib_map_order L)"
    and "vs_state vs = mem_state_store L" and "vs_runtime vs = ext_runtime rt"
  shows "\<exists>now. mem_pairs (snd (handle_re_auth_required vs w)) =
    (\<lambda>p. map_option (re_auth_row (vs_account_id vs) now) (mem_pairs w p))"
proof -
  obtain t w1 where n: "rt_now (ext_runtime rt) w = (t, w1)" by fastforce
  have s1: "mw_store w1 = mw_store w" by (rule ext_now [OF n])
  obtain ps where ps: "fst (mem_pairs_list L (Some (vs_account_id vs)) False (mw_store w)) = Inr ps"
    by (simp add: mem_pairs_list_def)
  obtain w2 where m: "mark_pairs (mem_state_store L) t ps w1 = (Inr (), w2)"
    and m2: "mem_pairs w2 = (\<lambda>p. case find (\<lambda>pr. pr_id pr = p) ps of
          Some pr \<Rightarrow> Some (errored_pair ''re-auth required'' t pr) | None \<Rightarrow> mem_pairs w1 p)"
    using mem_mark_pairs [OF find_listed(1) [OF assms(1,2) ps]] by blast
  have rest: "mem_pairs (snd (bindE (liftE (new_id (ext_runtime rt))) (\<lambda>i.
     let evt = re_auth_event vs i t in
     bindE (tryE (st_audit_append (mem_state_store L) evt)) (\<lambda>_.
     modifyE (rt_emit (ext_runtime rt) evt))) w2)) = mem_pairs w2"
    by (auto simp: io_simps Let_def new_id_def ext_runtime_def on_ext_step_def mem_state_store_def on_store_def
        mem_audit_append_def mem_pairs_def fun_eq_iff split: prod.splits)
  have "mem_pairs (snd (handle_re_auth_required vs w)) = mem_pairs w2"
    unfolding handle_re_auth_required_def assms(3,4)
    using rest by (simp add: bindE_def liftE_def tryE_def n mem_list_pairs s1 ps m)
  moreover have "mem_pairs w2 p = map_option (re_auth_row (vs_account_id vs) t) (mem_pairs w p)" for p
    using find_listed(2) [OF assms(1,2) ps, of p] s1
    by (auto simp: m2 mem_pairs_def re_auth_row_def errored_pair_def split: option.split)
  ultimately show ?thesis by auto
qed

text \<open>
  A revoked token marks its account: every pair of the account that is not removed becomes
  \<open>Errored\<close> with the reason, and no other pair changes.
\<close>
theorem re_auth_marks_account:
  assumes "wf_store (mw_store w)" and "map_order_laws (lib_map_order L)"
    and "vs_state vs = mem_state_store L" and "vs_runtime vs = ext_runtime rt"
  shows "\<exists>now. mem_pairs (snd (handle_re_auth_required vs w)) =
    (\<lambda>p. map_option (re_auth_row (vs_account_id vs) now) (mem_pairs w p))"
  by (rule mem_re_auth [OF assms])


section \<open>Which pairs run\<close>

lemma run_one_pair_unit: "run_one_pair si pid t w = (Inr (), snd (run_one_pair si pid t w))"
  by (simp add: run_one_pair_def io_simps split: prod.split)

lemma foldE_runs:
  "foldE (\<lambda>pr _. if P pr then run_one_pair si (pr_id pr) t else returnE ()) prs () w
     = (Inr (), fold (\<lambda>pr w. snd (run_one_pair si (pr_id pr) t w)) (filter P prs) w)"
proof (induction prs arbitrary: w)
  case (Cons pr prs)
  define w1 where "w1 = snd (run_one_pair si (pr_id pr) t w)"
  have "run_one_pair si (pr_id pr) t w = (Inr (), w1)" unfolding w1_def by (rule run_one_pair_unit)
  with Cons show ?case
    by (cases "P pr") (simp_all add: bindE_def returnE_def)
qed (simp add: returnE_def)

text \<open>
  A tick runs, one after the other in the order of their ids, exactly the pairs that are
  neither removed nor paused by their flag; a pair marked \<open>Errored\<close> or with the status
  \<open>Paused\<close> is run like any other, and the failure of one cycle does not keep the next from
  running.
\<close>
theorem tick_runs_due_pairs:
  assumes "si_state si = mem_state_store L"
  shows "run_due_pairs si w = (Inr (),
    fold (\<lambda>pr w. snd (run_one_pair si (pr_id pr) Scheduled w))
      (filter (\<lambda>pr. \<not> pr_paused pr)
        (sort_key (pair_id_text L)
          (filter (\<lambda>pr. pr_status pr \<noteq> Removed) (table_values L (ms_pairs (mw_store w)))))) w)"
proof -
  let ?act = "sort_key (pair_id_text L) (filter (\<lambda>p. pr_status p \<noteq> Removed) (table_values L (ms_pairs (mw_store w))))"
  have "st_pairs_active (mem_state_store L) w = (Inr ?act, w)"
    by (simp add: mem_state_store_def on_store_def mem_pairs_active_def)
  then have "run_due_pairs si w = foldE (\<lambda>pr _. if due pr then run_one_pair si (pr_id pr) Scheduled else returnE ()) ?act () w"
    by (simp add: run_due_pairs_def io_simps assms)
  moreover have "filter due ?act = filter (\<lambda>pr. \<not> pr_paused pr) ?act"
    by (rule filter_cong) (auto simp: due_def)
  ultimately show ?thesis by (simp only: foldE_runs)
qed

section \<open>The gates\<close>

lemma mem_get_calls:
  "st_pair_get (mem_state_store L) p w = (Inr (mem_pairs w p), w)"
  "st_account_get (mem_state_store L) a w = (Inr (map_of (ms_accounts (mw_store w)) a), w)"
  "st_config_get (mem_state_store L) w = (Inr (ms_config (mw_store w)), w)"
  by (simp_all add: mem_state_store_def on_store_def mem_pair_get_def mem_account_get_def mem_config_get_def mem_pairs_def)

text \<open>
  Without a client id, a pair or its account, a trigger changes nothing: no request goes
  out and no row is written.
\<close>
theorem unready_pair_is_left_alone:
  assumes "si_state si = mem_state_store L"
    and "mem_pairs w pid = None
      \<or> (\<exists>pr. mem_pairs w pid = Some pr \<and> map_of (ms_accounts (mw_store w)) (pr_account_id pr) = None)
      \<or> client_id_of (ms_config (mw_store w)) = []"
  shows "run_one_pair si pid trigger w = (Inr (), w)"
  using assms(2)
  by (auto simp: run_one_pair_def run_one_pair_inner_def assms(1) io_simps anyhow_state_def mem_get_calls
      found_or_def Let_def split: option.split)

text \<open>
  When the volume has less free space than configured, the pair is marked \<open>Errored\<close> with
  the reason and its cycle does not run: beyond that row nothing is written and, after the
  measurement, only the clock is read.
\<close>
theorem low_space_stops_pair:
  assumes "si_state si = mem_state_store L" and "si_runtime si = ext_runtime rt"
    and "mem_pairs w pid = Some pr" and "map_of (ms_accounts (mw_store w)) (pr_account_id pr) = Some ac"
    and "ms_config (mw_store w) = Some c" and "ic_azure_ad_client_id c \<noteq> []"
    and "si_available_space si (pr_local_path pr) w = (Inr bytes, w1)" and "mw_store w1 = mw_store w"
    and "bytes div 2 ^ 30 < unat (ic_min_free_gib c)"
  shows "\<exists>w'. run_one_pair si pid trigger w = (Inr (), w')
    \<and> mem_pairs w' = (mem_pairs w)(pr_id pr \<mapsto>
        pr\<lparr>pr_status := Errored, pr_errored_reason := Some ''free disk below threshold'',
           pr_updated_at := fst (rt_now rt (mw_ext w1))\<rparr>)
    \<and> mw_ext w' = snd (rt_now rt (mw_ext w1))"
proof -
  have now: "rt_now (ext_runtime rt) w1 = (fst (rt_now rt (mw_ext w1)), w1\<lparr>mw_ext := snd (rt_now rt (mw_ext w1))\<rparr>)"
    by (simp add: ext_runtime_def on_ext_step_def split: prod.split)
  let ?w2 = "w1\<lparr>mw_ext := snd (rt_now rt (mw_ext w1))\<rparr>"
  let ?row = "errored_pair ''free disk below threshold'' (fst (rt_now rt (mw_ext w1))) pr"
  define w' where "w' = snd (st_pair_upsert (mem_state_store L) ?row ?w2)"
  have up: "st_pair_upsert (mem_state_store L) ?row ?w2 = (Inr (), w')"
    by (simp add: w'_def mem_upsert_call)
  have "space_gate si (Some c) pr w = (Inr False, w')"
    using assms(9)
    by (simp add: space_gate_def free_space_gib_def mark_pair_errored_def io_simps assms(1,2,7) now up)
  then have "run_one_pair_inner si pid trigger w = (Inr (), w')"
    by (simp add: run_one_pair_inner_def bindE_def anyhow_state_def map_errE_def mem_get_calls found_or_def
        returnE_def assms(1,3-6) client_id_of_def metered_gate_def is_metered_network_def)
  then have "run_one_pair si pid trigger w = (Inr (), w')"
    by (simp add: run_one_pair_def io_simps)
  moreover have "mem_pairs w' = (mem_pairs w)(pr_id pr \<mapsto> ?row)" "mw_ext w' = snd (rt_now rt (mw_ext w1))"
    by (simp_all add: w'_def mem_upsert_call assms(8) mem_pairs_map_of errored_pair_def)
  ultimately show ?thesis by (auto simp: errored_pair_def)
qed

section \<open>Subscriptions\<close>

lemma map_of_table_modify:
  "map_of (table_modify k f t) = (map_of t)(k := map_option f (map_of t k))"
  by (auto simp: table_modify_def update_conv' fun_eq_iff split: option.split)

lemma renew_one_result:
  assumes "renew_one si pid subs w = (Inr subs', w')"
  shows "subs' = subs \<or> (\<exists>t. subs' = table_modify pid (\<lambda>e. e\<lparr>su_expires_at := t\<rparr>) subs)"
  using assms
  by (auto simp: renew_one_def io_simps Let_def split: option.splits prod.splits sum.splits)

lemma foldE_renew_keeps:
  "foldE (renew_one si) pids subs w = (Inr subs', w') \<Longrightarrow>
   dom (map_of subs') = dom (map_of subs) \<and>
   (\<forall>pid info'. map_of subs' pid = Some info' \<longrightarrow>
      (\<exists>info. map_of subs pid = Some info \<and> su_sub_id info' = su_sub_id info
        \<and> (pid \<in> set pids \<or> info' = info)))"
proof (induction pids arbitrary: subs w)
  case (Cons p pids)
  then obtain subs1 w1 where r: "renew_one si p subs w = (Inr subs1, w1)"
    and f: "foldE (renew_one si) pids subs1 w1 = (Inr subs', w')"
    by (auto elim!: bindE_InrE)
  from renew_one_result [OF r]
  have "dom (map_of subs1) = dom (map_of subs)
    \<and> (\<forall>pid info'. map_of subs1 pid = Some info' \<longrightarrow>
        (\<exists>info. map_of subs pid = Some info \<and> su_sub_id info' = su_sub_id info \<and> (pid = p \<or> info' = info)))"
    by (auto simp: map_of_table_modify split: if_splits)
  with Cons.IH [OF f] show ?case by (fastforce simp: dom_def)
qed (auto simp: returnE_def)

text \<open>
  A renewal round never loses or adds a subscription and never changes its id, and it moves
  the expiry of those alone that expire within twelve hours of the round.
\<close>
theorem renewal_keeps_registry:
  assumes "renew_due_subscriptions si subs w = (Inr subs', w')"
    and "distinct (map fst subs)" and "map_order_laws (lib_map_order (si_lib si))"
  shows "dom (map_of subs') = dom (map_of subs)
    \<and> (\<forall>pid info'. map_of subs' pid = Some info' \<longrightarrow>
        (\<exists>info. map_of subs pid = Some info \<and> su_sub_id info' = su_sub_id info
          \<and> (info' = info
             \<or> su_expires_at info - fst (ht_wall_now (si_http si) w) \<le> 12 * 60 * 60 * 10 ^ 9)))"
proof (cases "subs = []")
  case True
  with assms(1) show ?thesis by (auto simp: renew_due_subscriptions_def returnE_def)
next
  case False
  let ?now = "fst (ht_wall_now (si_http si) w)"
  let ?P = "\<lambda>(_ :: pair_id, info). su_expires_at info - ?now \<le> 12 * 60 * 60 * 10 ^ 9"
  let ?due = "map fst (filter ?P (map_entries (si_lib si) subs))"
  from assms(1) False obtain w1 where f: "foldE (renew_one si) ?due subs w1 = (Inr subs', w')"
    by (auto simp: renew_due_subscriptions_def SUBSCRIPTION_RENEW_LEAD_S_def liftE_def Let_def
        elim!: bindE_InrE split: prod.splits)
  have due: "su_expires_at info - ?now \<le> 12 * 60 * 60 * 10 ^ 9"
    if "pid \<in> set ?due" "map_of subs pid = Some info" for pid info
  proof -
    from that(1) obtain x where x: "x \<in> set (map_entries (si_lib si) subs)" "fst x = pid" "?P x" by auto
    then have "x \<in> set subs"
      using assms(3) by (auto simp: map_entries_def map_order_laws_def)
    then have "map_of subs (fst x) = Some (snd x)"
      using map_of_is_SomeI [OF assms(2), of "fst x" "snd x"] by simp
    with x(2,3) that(2) show ?thesis by (simp add: case_prod_beta)
  qed
  note kept = foldE_renew_keeps [OF f]
  show ?thesis
  proof (intro conjI allI impI)
    show "dom (map_of subs') = dom (map_of subs)" using kept by (rule conjunct1)
    fix pid info'
    assume "map_of subs' pid = Some info'"
    with kept obtain info where i: "map_of subs pid = Some info" "su_sub_id info' = su_sub_id info"
      and "pid \<in> set ?due \<or> info' = info" by blast
    with due [OF _ i(1)] show "\<exists>info. map_of subs pid = Some info \<and> su_sub_id info' = su_sub_id info
        \<and> (info' = info \<or> su_expires_at info - ?now \<le> 12 * 60 * 60 * 10 ^ 9)" by blast
  qed
qed

section \<open>Drives with more than one delta page\<close>

text \<open>
  C32: A drive whose first delta page is not its last one is never synchronised to the end.
  When the response to the first delta request of a cycle carries no \<open>deltaLink\<close> (every page
  but the last carries a \<open>nextLink\<close> instead), the adapter hands over that page and makes no
  further request: whatever the service would answer to the \<open>nextLink\<close>, a cycle that ends
  has no cursor, and the scheduler then writes nothing, so that an \<open>Initializing\<close> pair is
  not promoted.
\<close>
theorem partial_page_never_promotes:
  assumes run: "run_cycle (cycle_ctx_for si pr ac (graph_drive (adapter_for si ac client_id)) trigger) w
      = (Inr summary, w1)"
    and start: "cycle_start (cycle_ctx_for si pr ac (graph_drive (adapter_for si ac client_id)) trigger) w
      = (Inr x, w0)"
    and token: "access_token (source_for si (ac_id ac) client_id) w0 = (Inr tok, wa)"
    and rid: "new_request_id (si_http si) wa = (Inr rid, wb)"
    and response: "send (si_http si)
      (graph_request MGet (delta_url (ac_drive_id ac) (pr_delta_token pr)) tok rid NoBody) wb = (Inr resp, wc)"
    and raw: "response_json (ht_delta (si_http si)) resp = Inr raw" and no_link: "dr_delta_link raw = None"
  shows "rd_delta (graph_drive (adapter_for si ac client_id)) (ac_drive_id ac) (pr_delta_token pr) w0
      = (Inr (delta_page_of (si_http si) raw), wc)
    \<and> cs_delta_token summary = None
    \<and> persist_post_cycle (si_state si) (si_runtime si) pr summary w1 = (Inr (), snd (rt_now (si_runtime si) w1))"
proof -
  obtain page w2 where
    d: "rd_delta (graph_drive (adapter_for si ac client_id)) (ac_drive_id ac) (pr_delta_token pr) w0 = (Inr page, w2)"
    and t: "cs_delta_token summary = dp_delta_token page"
    using run_cycle_token [OF run start] by (auto simp: cycle_ctx_for_def)
  have p: "page = delta_page_of (si_http si) raw \<and> w2 = wc"
    using delta_is_one_response [OF d, of tok wa rid wb resp wc raw] token rid response raw
    by (simp add: adapter_for_def)
  with t no_link have "cs_delta_token summary = None" by (simp add: delta_page_of_def)
  with d p show ?thesis
    by (simp add: persist_post_cycle_def promotes_def or_else_def io_simps split: prod.split)
qed

section \<open>Notifications\<close>

text \<open>How AppleScript reads a literal after its opening quote: up to the first bare quote.\<close>

fun read_literal :: "string \<Rightarrow> (string \<times> string) option" where
  "read_literal [] = None"
| "read_literal (c # cs) =
     (if c = CHR 0x22 then Some ([], cs)
      else if c = CHR 0x5C then
        (case cs of [] \<Rightarrow> None | d # ds \<Rightarrow> map_option (\<lambda>(a, r). (d # a, r)) (read_literal ds))
      else map_option (\<lambda>(a, r). (c # a, r)) (read_literal cs))"

lemma shell_escape_Cons:
  "shell_escape (c # cs) = (if c = CHR 0x5C \<or> c = CHR 0x22 then [CHR 0x5C, c] else [c]) @ shell_escape cs"
  by (simp add: shell_escape_def replace_char_def)

text \<open>
  A display name cannot break out of the notification script: the escaped text, read as an
  AppleScript literal, is the text itself, and ends where the closing quote stands.
\<close>
theorem shell_escape_roundtrip: "read_literal (shell_escape s @ CHR 0x22 # rest) = Some (s, rest)"
proof (induction s)
  case Nil
  then show ?case by (simp add: shell_escape_def replace_char_def)
next
  case (Cons c s)
  then show ?case by (auto simp: shell_escape_Cons)
qed

section \<open>A concrete daemon\<close>

definition sample_account :: account where
  "sample_account = \<lparr>ac_id = Id 2, ac_kind = Personal, ac_upn = ''u'', ac_tenant_id = ''t'',
     ac_drive_id = DriveId ''d'', ac_display_name = ''n'', ac_keychain_ref = KeychainRef ''k'',
     ac_scopes = [], ac_created_at = 0, ac_updated_at = 0\<rparr>"

definition sample_config :: instance_config where
  "sample_config = \<lparr>ic_log_level = LogInfo, ic_notify = False, ic_allow_metered = True,
     ic_min_free_gib = 2, ic_updated_at = 0, ic_azure_ad_client_id = ''c'',
     ic_webhook_listener_port = None, ic_webhook_notification_url = None\<rparr>"

definition sample_store :: mem_store where
  "sample_store = empty_store\<lparr>ms_accounts := [(Id 2, sample_account)],
     ms_pairs := [(Id 1, sample_pair (Id 1) (Id 2))], ms_config := Some sample_config\<rparr>"

definition empty_fs :: "'w local_fs" where
  "empty_fs = \<lparr>lf_scan = (\<lambda>_. returnE \<lparr>ls_entries = [], ls_symlinks_skipped = []\<rparr>),
     lf_read = (\<lambda>_. returnE []), lf_write_atomic = (\<lambda>_ _. throwE LfDiskFull), lf_rename = (\<lambda>_ _. returnE ()),
     lf_delete = (\<lambda>_. returnE ()), lf_mkdir_p = (\<lambda>_. returnE ()), lf_hash = (\<lambda>_. throwE LfDiskFull)\<rparr>"

definition script_daemon :: "nat \<Rightarrow> script_state sched_inputs" where
  "script_daemon free =
     \<lparr>si_state = mem_state_store ascii_lib, si_local_fs = empty_fs, si_runtime = ext_runtime still_runtime,
      si_vault = plain_vault, si_http = world_http, si_host_name = ''mac'', si_lib = ascii_lib,
      si_instant = (\<lambda>w. (0, w)), si_cache = world_cache, si_available_space = (\<lambda>_. returnE free),
      si_osascript = (\<lambda>_ w. w), si_path_display = (\<lambda>_. [])\<rparr>"

lemma partial_page_run:
  "\<exists>summary w1. run_cycle (cycle_ctx_for (script_daemon 0) (sample_pair (Id 1) (Id 2)) sample_account
       (graph_drive (adapter_for (script_daemon 0) sample_account ''c'')) Scheduled)
     (script_world sample_store [ok_response [[65]], ok_response [[66]]]) = (Inr summary, w1)"
proof -
  let ?ga = "adapter_for (script_daemon 0) sample_account ''c''"
  let ?cx = "cycle_ctx_for (script_daemon 0) (sample_pair (Id 1) (Id 2)) sample_account (graph_drive ?ga) Scheduled"
  let ?w = "script_world sample_store [ok_response [[65]], ok_response [[66]]]"
  let ?page = "\<lparr>dp_items = [], dp_next_link = Some ''B'', dp_delta_token = None\<rparr>"
  have f: "lib_map_order ascii_lib 0 = []" "lib_hash_order ascii_lib [] = []"
    "detect_remote_case_collisions ascii_lib [] = []"
    by (simp_all add: ascii_lib_def detect_remote_case_collisions_def)
  have cx: "cx_lib ?cx = ascii_lib" "cx_state ?cx = mem_state_store ascii_lib"
    "cx_runtime ?cx = ext_runtime still_runtime" "cx_local ?cx = empty_fs" "cx_pair_id ?cx = Id 1"
    "cx_remote ?cx = graph_drive ?ga" "cx_cursor ?cx = None" "cx_drive_id ?cx = DriveId ''d''"
    by (simp_all add: cycle_ctx_for_def script_daemon_def sample_account_def)
  have now: "rt_now (ext_runtime still_runtime) (v :: script_state) = (0, v)"
    "new_id (ext_runtime still_runtime) v = (Id 0, v)" "rt_emit (ext_runtime still_runtime) e v = v" for v e
    by (simp_all add: ext_runtime_def on_ext_step_def still_runtime_def new_id_def)
  have "access_token (source_for (script_daemon 0) (Id 2) ''c'') ?w
    = (Inr ''A'', script_world sample_store []\<lparr>mw_ext := ([ok_response [[66]]], Some \<lparr>cc_access_token = ''A'',
         cc_fetched_at = 0, cc_expires_in = 3600\<rparr>)\<rparr>)"
    by (simp add: access_token_def refreshed_token_def refresh_loop.simps refresh_def exchange_inner_def
        io_simps source_for_def script_daemon_def world_cache_def world_http_def zoom_http_def zoom_def
        script_http_def script_world_def cache_hit_def plain_vault_def send_def script_send.simps ok_response_def
        response_text_def response_bytes_def bytes_text_def is_success_def char_of_def bit_Suc_0_iff)
  then obtain w1 where d: "rd_delta (graph_drive ?ga) (DriveId ''d'') None ?w = (Inr ?page, w1)"
    and p1: "mem_pairs w1 (Id 1) = Some (sample_pair (Id 1) (Id 2))"
    by (simp add: graph_drive_def Let_def with_token_def adapter_for_def io_simps sample_account_def delta_page_def
        fetch_delta_page_def new_request_id_def send_def script_daemon_def world_http_def zoom_http_def zoom_def
        script_http_def script_world_def script_send.simps ok_response_def check_status_def is_success_def
        decode_def response_json_def response_bytes_def delta_page_of_def bytes_text_def char_of_def
        bit_Suc_0_iff sample_store_def mem_pairs_def)
  have ph: "phase_delta_reconcile ?cx ?w
      = (Inr \<lparr>da_decisions = [], da_conflicts = 0, da_renames = [], da_by_path = [],
             do_items_seen = 0, do_delta_token = None\<rparr>, w1)"
    by (simp add: phase_delta_reconcile_def io_simps remote_call_def cx d f process_remote_case_collisions_def
        in_hash_order_def Let_def)
  have ad: "advance_cursor ?cx None w1 = (Inr (), w1)"
    by (simp add: advance_cursor_def io_simps state_call_def cx mem_get_calls p1)
  have loc: "\<exists>out. phase_local_uploads ?cx {} [] w1 = (Inr out, w1) \<and> lo_decisions out = []
      \<and> lo_initial_collisions out = []"
    by (simp add: phase_local_uploads_def io_simps local_call_def cx empty_fs_def Let_def)
  have st: "cycle_start ?cx ?w = (Inr (Id 0, 0), ?w)"
    by (simp add: cycle_start_def clock_now_def fresh_id_def emit_def io_simps cx now)
  show ?thesis
    using loc
    by (auto simp: run_cycle_def bindE_def st cycle_decide_def ph ad Let_def apply_initial_sync_collisions_def
        returnE_def phase_resolve_conflicts_def plan_def liftE_def cx now
        cycle_execute_def phase_execute_def clock_now_def fresh_id_def emit_def modifyE_def state_call_def
        map_errE_def mem_state_store_def on_store_def mem_run_record_def)
qed

lemma partial_page_never_promotes_witness:
  "\<exists>summary w1. run_cycle (cycle_ctx_for (script_daemon 0) (sample_pair (Id 1) (Id 2)) sample_account
       (graph_drive (adapter_for (script_daemon 0) sample_account ''c'')) Scheduled)
     (script_world sample_store [ok_response [[65]], ok_response [[66]]]) = (Inr summary, w1)
   \<and> cs_delta_token summary = None
   \<and> persist_post_cycle (mem_state_store ascii_lib) (ext_runtime still_runtime) (sample_pair (Id 1) (Id 2)) summary w1
       = (Inr (), snd (rt_now (ext_runtime still_runtime) w1))"
proof -
  let ?w = "script_world sample_store [ok_response [[65]], ok_response [[66]]]"
  let ?wa = "script_world sample_store []\<lparr>mw_ext := ([ok_response [[66]]], Some \<lparr>cc_access_token = ''A'',
         cc_fetched_at = 0, cc_expires_in = 3600\<rparr>)\<rparr>"
  let ?wc = "?wa\<lparr>mw_ext := ([], snd (mw_ext ?wa))\<rparr>"
  let ?raw = "\<lparr>dr_items = [], dr_next_link = Some ''B'', dr_delta_link = None\<rparr>"
  obtain summary w1 where r: "run_cycle (cycle_ctx_for (script_daemon 0) (sample_pair (Id 1) (Id 2)) sample_account
       (graph_drive (adapter_for (script_daemon 0) sample_account ''c'')) Scheduled) ?w = (Inr summary, w1)"
    using partial_page_run by blast
  have now: "rt_now (ext_runtime still_runtime) (v :: script_state) = (0, v)"
    "new_id (ext_runtime still_runtime) v = (Id 0, v)" "rt_emit (ext_runtime still_runtime) e v = v" for v e
    by (simp_all add: ext_runtime_def on_ext_step_def still_runtime_def new_id_def)
  have start: "cycle_start (cycle_ctx_for (script_daemon 0) (sample_pair (Id 1) (Id 2)) sample_account
       (graph_drive (adapter_for (script_daemon 0) sample_account ''c'')) Scheduled) ?w = (Inr (Id 0, 0), ?w)"
    by (simp add: cycle_start_def clock_now_def fresh_id_def emit_def io_simps cycle_ctx_for_def
        script_daemon_def now)
  have token: "access_token (source_for (script_daemon 0) (ac_id sample_account) ''c'') ?w = (Inr ''A'', ?wa)"
    by (simp add: sample_account_def access_token_def refreshed_token_def refresh_loop.simps refresh_def exchange_inner_def
        io_simps source_for_def script_daemon_def world_cache_def world_http_def zoom_http_def zoom_def
        script_http_def script_world_def cache_hit_def plain_vault_def send_def script_send.simps ok_response_def
        response_text_def response_bytes_def bytes_text_def is_success_def char_of_def bit_Suc_0_iff)
  obtain rid where rid: "(new_request_id (si_http (script_daemon 0)) :: (script_state, string) gio) ?wa = (Inr rid, ?wa)"
    by (auto simp: new_request_id_def io_simps script_daemon_def world_http_def zoom_http_def zoom_def script_http_def)
  have response: "send (si_http (script_daemon 0)) (graph_request MGet
      (delta_url (ac_drive_id sample_account) (pr_delta_token (sample_pair (Id 1) (Id 2)))) ''A'' rid NoBody) ?wa
      = (Inr (ok_response [[66]]), ?wc)"
    by (simp add: send_def io_simps script_daemon_def world_http_def zoom_http_def zoom_def script_http_def
        script_send.simps script_world_def)
  have raw: "response_json (ht_delta (si_http (script_daemon 0))) (ok_response [[66]]) = Inr ?raw"
    by (simp add: response_json_def response_bytes_def ok_response_def script_daemon_def world_http_def zoom_http_def
        script_http_def bytes_text_def char_of_def bit_Suc_0_iff)
  from partial_page_never_promotes [OF r start token rid response raw] r show ?thesis
    by (auto simp: script_daemon_def)
qed

lemma sample_store_wf: "wf_store sample_store"
  by (simp add: sample_store_def empty_store_def wf_store_def wf_table_def sample_account_def)

lemma sample_pairs: "mem_pairs (script_world sample_store rs) (Id 1) = Some (sample_pair (Id 1) (Id 2))"
  by (simp add: mem_pairs_def script_world_def sample_store_def)

abbreviation sample_source :: "script_state vault_source" where
  "sample_source \<equiv> source_for (script_daemon 0) (Id 2) ''c''"

lemma re_auth_marks_account_witness:
  "map_option pr_status (mem_pairs (snd (handle_re_auth_required sample_source (script_world sample_store []))) (Id 1))
     = Some Errored"
proof -
  have "vs_state sample_source = mem_state_store ascii_lib" "vs_runtime sample_source = ext_runtime still_runtime"
    "vs_account_id sample_source = Id 2"
    by (simp_all add: source_for_def script_daemon_def)
  with re_auth_marks_account [of "script_world sample_store []" ascii_lib sample_source still_runtime]
  obtain now where "mem_pairs (snd (handle_re_auth_required sample_source (script_world sample_store [])))
      = (\<lambda>p. map_option (re_auth_row (Id 2) now) (mem_pairs (script_world sample_store []) p))"
    using sample_store_wf ascii_map_order by (auto simp: script_world_def)
  then show ?thesis by (simp add: sample_pairs re_auth_row_def)
qed


lemma tick_runs_due_pairs_witness:
  "run_due_pairs (script_daemon 0) (script_world sample_store [])
     = (Inr (), snd (run_one_pair (script_daemon 0) (Id 1) Scheduled (script_world sample_store [])))"
proof -
  have s: "si_state (script_daemon 0) = mem_state_store ascii_lib" by (simp add: script_daemon_def)
  have "table_values ascii_lib (ms_pairs sample_store) = [sample_pair (Id 1) (Id 2)]"
    by (simp add: table_values_def ascii_lib_def sample_store_def)
  then show ?thesis
    using tick_runs_due_pairs [OF s, of "script_world sample_store []"]
    by (simp add: script_world_def sample_pair_def)
qed

lemma unready_pair_is_left_alone_witness:
  "run_one_pair (script_daemon 0) (Id 7) CliForce (script_world sample_store []) = (Inr (), script_world sample_store [])"
  by (rule unready_pair_is_left_alone)
     (simp_all add: script_daemon_def mem_pairs_def script_world_def sample_store_def)

lemma low_space_stops_pair_witness:
  "\<exists>w'. run_one_pair (script_daemon 5000) (Id 1) Scheduled (script_world sample_store []) = (Inr (), w')
    \<and> map_option pr_status (mem_pairs w' (Id 1)) = Some Errored"
proof -
  have "\<exists>w'. run_one_pair (script_daemon 5000) (Id 1) Scheduled (script_world sample_store []) = (Inr (), w')
    \<and> mem_pairs w' = (mem_pairs (script_world sample_store []))(pr_id (sample_pair (Id 1) (Id 2)) \<mapsto>
        (sample_pair (Id 1) (Id 2))\<lparr>pr_status := Errored, pr_errored_reason := Some ''free disk below threshold'',
           pr_updated_at := fst (rt_now still_runtime (mw_ext (script_world sample_store [])))\<rparr>)
    \<and> mw_ext w' = snd (rt_now still_runtime (mw_ext (script_world sample_store [])))"
    by (rule low_space_stops_pair [of _ ascii_lib _ _ _ _ sample_account sample_config 5000])
       (simp_all add: script_daemon_def sample_pairs returnE_def sample_config_def script_world_def sample_store_def mem_pairs_def)
  then show ?thesis by auto
qed

lemma renewal_keeps_registry_witness:
  "\<exists>subs' w'. renew_due_subscriptions (script_daemon 0) [(Id 7, \<lparr>su_sub_id = ''s'', su_expires_at = 0\<rparr>)]
      (script_world sample_store []) = (Inr subs', w') \<and> dom (map_of subs') = {Id 7}"
proof -
  let ?subs = "[(Id 7, \<lparr>su_sub_id = ''s'', su_expires_at = 0\<rparr>)]"
  obtain subs' w' where r: "renew_due_subscriptions (script_daemon 0) ?subs (script_world sample_store []) = (Inr subs', w')"
    by (simp add: renew_due_subscriptions_def io_simps script_daemon_def world_http_def zoom_http_def zoom_def
        script_http_def map_entries_def ascii_lib_def SUBSCRIPTION_RENEW_LEAD_S_def renew_one_def mem_get_calls
        mem_pairs_def script_world_def sample_store_def)
  have "map_order_laws (lib_map_order (si_lib (script_daemon 0)))"
    using ascii_map_order by (simp add: script_daemon_def)
  from renewal_keeps_registry [OF r _ this] r show ?thesis by auto
qed

end
