(* ===== verification/Sql_Rows.thy ===== *)
theory Sql_Rows
  imports Conflict_Policy "HOL-Library.Countable"
begin

text \<open>
  The rows of the SQLite database (\<open>crates/onesync-state/src/queries\<close>): one record per table
  with a column per field at its storage type (text, integer, nullable), the encoding of an
  entity as the parameters of its statement and the decoding of a row (the \<open>row_to_\<close> functions), with the
  theorem that decoding undoes encoding.

  chrono's RFC 3339 text, serde_json and the text of a \<open>rusqlite::Error\<close> are fields of
  \<open>sql_lib\<close>; \<open>sql_laws\<close> states what the code relies on.
\<close>

named_theorems row_defs \<open>definitions of the row encodings and decodings\<close>

section \<open>Errors and library functions\<close>

text \<open>The errors of rusqlite that the statements can meet, with what their message is made of.\<close>

datatype conversion_cause =
    BadId id_parse_error
  | BadPath path_parse_error
  | BadTime string
  | BadJson string

datatype sql_error =
    InvalidColumnType nat string
  | IntegralValueOutOfRange nat int
  | ToSqlConversionFailure conversion_cause
  | UniqueViolation string
  | CheckViolation string
  | ForeignKeyViolation
  | StatementFailure string

datatype state_store_error = Sqlite string | Migration string | Schema string

record sql_lib =
  sl_base :: lib
  sl_scan_order :: "nat \<Rightarrow> nat list"
  sl_to_rfc3339 :: "timestamp \<Rightarrow> string"
  sl_parse_rfc3339 :: "string \<Rightarrow> string + timestamp"
  sl_side_to_json :: "file_side \<Rightarrow> string + string"
  sl_side_of_json :: "string \<Rightarrow> string + file_side"
  sl_envelope_to_json :: "error_envelope \<Rightarrow> string + string"
  sl_envelope_of_json :: "string \<Rightarrow> string + error_envelope"
  sl_map_to_json :: "json_map \<Rightarrow> string + string"
  sl_map_of_json :: "string \<Rightarrow> string + json_map"
  sl_strings_to_json :: "string list \<Rightarrow> string + string"
  sl_strings_of_json :: "string \<Rightarrow> string + string list"
  sl_error_text :: "sql_error \<Rightarrow> string"

text \<open>\<open>Result::and_then\<close>, \<open>Result::map_err\<close>, \<open>Option::transpose\<close> and \<open>collect\<close> into a \<open>Result\<close>.\<close>

definition and_then :: "'e + 'a \<Rightarrow> ('a \<Rightarrow> 'e + 'b) \<Rightarrow> 'e + 'b" where
  "and_then r f = (case r of Inl e \<Rightarrow> Inl e | Inr x \<Rightarrow> f x)"

definition map_err :: "('e \<Rightarrow> 'f) \<Rightarrow> 'e + 'a \<Rightarrow> 'f + 'a" where
  "map_err g r = (case r of Inl e \<Rightarrow> Inl (g e) | Inr x \<Rightarrow> Inr x)"

definition opt_result :: "('a \<Rightarrow> 'e + 'b) \<Rightarrow> 'a option \<Rightarrow> 'e + 'b option" where
  "opt_result f x = (case x of None \<Rightarrow> Inr None | Some a \<Rightarrow> and_then (f a) (\<lambda>b. Inr (Some b)))"

fun collect_results :: "('e + 'a) list \<Rightarrow> 'e + 'a list" where
  "collect_results [] = Inr []"
| "collect_results (r # rs) = and_then r (\<lambda>x. and_then (collect_results rs) (\<lambda>xs. Inr (x # xs)))"

lemma and_then_simps [simp]: "and_then (Inr x) f = f x" "and_then (Inl e) f = Inl e"
  by (simp_all add: and_then_def)

lemma map_err_simps [simp]: "map_err g (Inr x) = Inr x" "map_err g (Inl e) = Inl (g e)"
  by (simp_all add: map_err_def)

lemma opt_result_None [simp]: "opt_result f None = Inr None"
  by (simp add: opt_result_def)

lemma opt_result_Some [simp]: "opt_result f (Some a) = and_then (f a) (\<lambda>b. Inr (Some b))"
  by (simp add: opt_result_def)

lemma collect_map_Inr: "(\<And>x. x \<in> set xs \<Longrightarrow> f x = Inr (g x)) \<Longrightarrow> collect_results (map f xs) = Inr (map g xs)"
  by (induction xs) auto

section \<open>Columns\<close>

definition parse_timestamp :: "sql_lib \<Rightarrow> string \<Rightarrow> sql_error + timestamp" where
  "parse_timestamp SL s = map_err (\<lambda>e. ToSqlConversionFailure (BadTime e)) (sl_parse_rfc3339 SL s)"

definition id_text :: "sql_lib \<Rightarrow> string \<Rightarrow> 't id_of \<Rightarrow> string" where
  "id_text SL prefix i = id_display (lib_ulid_show (sl_base SL)) prefix i"

definition id_col :: "sql_lib \<Rightarrow> string \<Rightarrow> string \<Rightarrow> sql_error + 't id_of" where
  "id_col SL prefix s =
     map_err (\<lambda>e. ToSqlConversionFailure (BadId e)) (id_from_str (lib_ulid_parse (sl_base SL)) prefix s)"

definition rel_col :: "sql_lib \<Rightarrow> string \<Rightarrow> sql_error + rel_path" where
  "rel_col SL s = map_err (\<lambda>e. ToSqlConversionFailure (BadPath e)) (parse_rel (sl_base SL) s)"

definition abs_col :: "string \<Rightarrow> sql_error + abs_path" where
  "abs_col s = map_err (\<lambda>e. ToSqlConversionFailure (BadPath e)) (abs_path_from_str s)"

definition json_col :: "(string \<Rightarrow> string + 'a) \<Rightarrow> string \<Rightarrow> sql_error + 'a" where
  "json_col of_json s = map_err (\<lambda>e. ToSqlConversionFailure (BadJson e)) (of_json s)"

text \<open>\<open>row.get::<i32>\<close>; \<open>i32::from(bool)\<close>; the \<open>try_from(..).unwrap_or(..)\<close> conversions.\<close>

definition get_i32 :: "nat \<Rightarrow> int \<Rightarrow> sql_error + int" where
  "get_i32 col n = (if - (2 ^ 31) \<le> n \<and> n < 2 ^ 31 then Inr n else Inl (IntegralValueOutOfRange col n))"

definition int_of_bool :: "bool \<Rightarrow> int" where
  "int_of_bool b = (if b then 1 else 0)"

definition I64_MAX :: int where "I64_MAX = 2 ^ 63 - 1"

definition i64_of_u64 :: "u64 \<Rightarrow> int" where
  "i64_of_u64 n = (if uint n \<le> I64_MAX then uint n else I64_MAX)"

definition u64_of_i64 :: "int \<Rightarrow> u64" where
  "u64_of_i64 n = (if 0 \<le> n then word_of_int n else 0)"

definition u32_of_i64 :: "int \<Rightarrow> u32" where
  "u32_of_i64 n = (if 0 \<le> n \<and> n < 2 ^ 32 then word_of_int n else 0)"

definition u16_of_i64 :: "int \<Rightarrow> 16 word option" where
  "u16_of_i64 n = (if 0 \<le> n \<and> n < 2 ^ 16 then Some (word_of_int n) else None)"

definition attempts_of_i64 :: "int \<Rightarrow> nat" where
  "attempts_of_i64 n = (if 0 \<le> n \<and> n < 2 ^ 32 then nat n else 0)"

text \<open>An enum column: its text form is a table, its decoder a search in the table.\<close>

definition enum_col :: "nat \<Rightarrow> string \<Rightarrow> (string \<times> 'a) list \<Rightarrow> string \<Rightarrow> sql_error + 'a" where
  "enum_col col label tbl s =
     (case map_of tbl s of Some x \<Rightarrow> Inr x | None \<Rightarrow> Inl (InvalidColumnType col (label @ '': '' @ s)))"

section \<open>Enums\<close>

fun account_kind_to_str :: "account_kind \<Rightarrow> string" where
  "account_kind_to_str Personal = ''personal''"
| "account_kind_to_str Business = ''business''"

definition account_kind_from_str :: "string \<Rightarrow> sql_error + account_kind" where
  "account_kind_from_str = enum_col 1 ''unknown account kind''
     [(''personal'', Personal), (''business'', Business)]"

fun pair_status_to_str :: "pair_status \<Rightarrow> string" where
  "pair_status_to_str Initializing = ''initializing''"
| "pair_status_to_str Active = ''active''"
| "pair_status_to_str Paused = ''paused''"
| "pair_status_to_str Errored = ''errored''"
| "pair_status_to_str Removed = ''removed''"

definition pair_status_from_str :: "string \<Rightarrow> sql_error + pair_status" where
  "pair_status_from_str = enum_col 6 ''unknown pair status''
     [(''initializing'', Initializing), (''active'', Active), (''paused'', Paused),
      (''errored'', Errored), (''removed'', Removed)]"

fun file_kind_to_str :: "file_kind \<Rightarrow> string" where
  "file_kind_to_str File = ''file''"
| "file_kind_to_str Directory = ''directory''"

definition file_kind_from_str :: "string \<Rightarrow> sql_error + file_kind" where
  "file_kind_from_str = enum_col 2 ''unknown file kind'' [(''file'', File), (''directory'', Directory)]"

fun sync_state_to_str :: "file_sync_state \<Rightarrow> string" where
  "sync_state_to_str Clean = ''clean''"
| "sync_state_to_str Dirty = ''dirty''"
| "sync_state_to_str PendingUpload = ''pending_upload''"
| "sync_state_to_str PendingDownload = ''pending_download''"
| "sync_state_to_str PendingConflict = ''pending_conflict''"
| "sync_state_to_str InFlight = ''in_flight''"

definition sync_state_from_str :: "string \<Rightarrow> sql_error + file_sync_state" where
  "sync_state_from_str = enum_col 3 ''unknown file sync state''
     [(''clean'', Clean), (''dirty'', Dirty), (''pending_upload'', PendingUpload),
      (''pending_download'', PendingDownload), (''pending_conflict'', PendingConflict),
      (''in_flight'', InFlight)]"

fun op_kind_to_str :: "file_op_kind \<Rightarrow> string" where
  "op_kind_to_str Upload = ''upload''"
| "op_kind_to_str Download = ''download''"
| "op_kind_to_str LocalDelete = ''local_delete''"
| "op_kind_to_str RemoteDelete = ''remote_delete''"
| "op_kind_to_str LocalMkdir = ''local_mkdir''"
| "op_kind_to_str RemoteMkdir = ''remote_mkdir''"
| "op_kind_to_str LocalRename = ''local_rename''"
| "op_kind_to_str RemoteRename = ''remote_rename''"

definition op_kind_from_str :: "string \<Rightarrow> sql_error + file_op_kind" where
  "op_kind_from_str = enum_col 4 ''unknown file op kind''
     [(''upload'', Upload), (''download'', Download), (''local_delete'', LocalDelete),
      (''remote_delete'', RemoteDelete), (''local_mkdir'', LocalMkdir), (''remote_mkdir'', RemoteMkdir),
      (''local_rename'', LocalRename), (''remote_rename'', RemoteRename)]"

fun op_status_to_str :: "file_op_status \<Rightarrow> string" where
  "op_status_to_str Enqueued = ''enqueued''"
| "op_status_to_str InProgress = ''in_progress''"
| "op_status_to_str Backoff = ''backoff''"
| "op_status_to_str Success = ''success''"
| "op_status_to_str Failed = ''failed''"

definition op_status_from_str :: "string \<Rightarrow> sql_error + file_op_status" where
  "op_status_from_str = enum_col 5 ''unknown file op status''
     [(''enqueued'', Enqueued), (''in_progress'', InProgress), (''backoff'', Backoff),
      (''success'', Success), (''failed'', Failed)]"

fun run_trigger_to_str :: "run_trigger \<Rightarrow> string" where
  "run_trigger_to_str Scheduled = ''scheduled''"
| "run_trigger_to_str LocalEvent = ''local_event''"
| "run_trigger_to_str RemoteWebhook = ''remote_webhook''"
| "run_trigger_to_str CliForce = ''cli_force''"
| "run_trigger_to_str BackoffRetry = ''backoff_retry''"

definition run_trigger_from_str :: "string \<Rightarrow> sql_error + run_trigger" where
  "run_trigger_from_str = enum_col 2 ''unknown run trigger''
     [(''scheduled'', Scheduled), (''local_event'', LocalEvent), (''remote_webhook'', RemoteWebhook),
      (''cli_force'', CliForce), (''backoff_retry'', BackoffRetry)]"

fun run_outcome_to_str :: "run_outcome \<Rightarrow> string" where
  "run_outcome_to_str OutcomeSuccess = ''success''"
| "run_outcome_to_str OutcomePartialFailure = ''partial_failure''"
| "run_outcome_to_str OutcomeAborted = ''aborted''"

definition run_outcome_from_str :: "string \<Rightarrow> sql_error + run_outcome" where
  "run_outcome_from_str = enum_col 9 ''unknown run outcome''
     [(''success'', OutcomeSuccess), (''partial_failure'', OutcomePartialFailure), (''aborted'', OutcomeAborted)]"

fun conflict_side_to_str :: "conflict_side \<Rightarrow> string" where
  "conflict_side_to_str SideLocal = ''local''"
| "conflict_side_to_str SideRemote = ''remote''"

definition conflict_side_from_str :: "string \<Rightarrow> sql_error + conflict_side" where
  "conflict_side_from_str = enum_col 3 ''unknown conflict side'' [(''local'', SideLocal), (''remote'', SideRemote)]"

fun conflict_resolution_to_str :: "conflict_resolution \<Rightarrow> string" where
  "conflict_resolution_to_str Auto = ''auto''"
| "conflict_resolution_to_str Manual = ''manual''"

definition conflict_resolution_from_str :: "string \<Rightarrow> sql_error + conflict_resolution" where
  "conflict_resolution_from_str = enum_col 9 ''unknown conflict resolution'' [(''auto'', Auto), (''manual'', Manual)]"

fun audit_level_to_str :: "audit_level \<Rightarrow> string" where
  "audit_level_to_str LevelInfo = ''info''"
| "audit_level_to_str LevelWarn = ''warn''"
| "audit_level_to_str LevelError = ''error''"

definition audit_level_from_str :: "string \<Rightarrow> sql_error + audit_level" where
  "audit_level_from_str = enum_col 2 ''unknown audit level''
     [(''info'', LevelInfo), (''warn'', LevelWarn), (''error'', LevelError)]"

fun log_level_to_str :: "log_level \<Rightarrow> string" where
  "log_level_to_str LogInfo = ''info''"
| "log_level_to_str LogDebug = ''debug''"
| "log_level_to_str LogTrace = ''trace''"

definition log_level_from_str :: "string \<Rightarrow> sql_error + log_level" where
  "log_level_from_str = enum_col 0 ''unknown log level'' [(''info'', LogInfo), (''debug'', LogDebug), (''trace'', LogTrace)]"

lemma enum_roundtrips [simp]:
  "account_kind_from_str (account_kind_to_str a) = Inr a" "pair_status_from_str (pair_status_to_str b) = Inr b"
  "file_kind_from_str (file_kind_to_str c) = Inr c" "sync_state_from_str (sync_state_to_str d) = Inr d"
  "op_kind_from_str (op_kind_to_str e) = Inr e" "op_status_from_str (op_status_to_str f) = Inr f"
  "run_trigger_from_str (run_trigger_to_str g) = Inr g" "run_outcome_from_str (run_outcome_to_str h) = Inr h"
  "conflict_side_from_str (conflict_side_to_str i) = Inr i"
  "conflict_resolution_from_str (conflict_resolution_to_str j) = Inr j"
  "audit_level_from_str (audit_level_to_str k) = Inr k" "log_level_from_str (log_level_to_str l) = Inr l"
  by ((cases a; simp add: account_kind_from_str_def enum_col_def),
      (cases b; simp add: pair_status_from_str_def enum_col_def),
      (cases c; simp add: file_kind_from_str_def enum_col_def),
      (cases d; simp add: sync_state_from_str_def enum_col_def),
      (cases e; simp add: op_kind_from_str_def enum_col_def),
      (cases f; simp add: op_status_from_str_def enum_col_def),
      (cases g; simp add: run_trigger_from_str_def enum_col_def),
      (cases h; simp add: run_outcome_from_str_def enum_col_def),
      (cases i; simp add: conflict_side_from_str_def enum_col_def),
      (cases j; simp add: conflict_resolution_from_str_def enum_col_def),
      (cases k; simp add: audit_level_from_str_def enum_col_def),
      (cases l; simp add: log_level_from_str_def enum_col_def))

section \<open>Accounts\<close>

record account_row =
  acr_id :: string
  acr_kind :: string
  acr_upn :: string
  acr_tenant_id :: string
  acr_drive_id :: string
  acr_display_name :: string
  acr_keychain_ref :: string
  acr_scopes_json :: string
  acr_created_at :: string
  acr_updated_at :: string

definition account_params :: "sql_lib \<Rightarrow> account \<Rightarrow> state_store_error + account_row" where
  [row_defs]: "account_params SL a =
     and_then (map_err (\<lambda>e. Sqlite (''encode scopes: '' @ e)) (sl_strings_to_json SL (ac_scopes a))) (\<lambda>scopes.
     Inr \<lparr>acr_id = id_text SL account_prefix (ac_id a), acr_kind = account_kind_to_str (ac_kind a),
          acr_upn = ac_upn a, acr_tenant_id = ac_tenant_id a, acr_drive_id = drive_id_str (ac_drive_id a),
          acr_display_name = ac_display_name a, acr_keychain_ref = keychain_ref_str (ac_keychain_ref a),
          acr_scopes_json = scopes, acr_created_at = sl_to_rfc3339 SL (ac_created_at a),
          acr_updated_at = sl_to_rfc3339 SL (ac_updated_at a)\<rparr>)"

definition row_to_account :: "sql_lib \<Rightarrow> account_row \<Rightarrow> sql_error + account" where
  [row_defs]: "row_to_account SL r =
     and_then (id_col SL account_prefix (acr_id r)) (\<lambda>i.
     and_then (account_kind_from_str (acr_kind r)) (\<lambda>kind.
     and_then (json_col (sl_strings_of_json SL) (acr_scopes_json r)) (\<lambda>scopes.
     and_then (parse_timestamp SL (acr_created_at r)) (\<lambda>created.
     and_then (parse_timestamp SL (acr_updated_at r)) (\<lambda>updated.
     Inr \<lparr>ac_id = i, ac_kind = kind, ac_upn = acr_upn r, ac_tenant_id = acr_tenant_id r,
          ac_drive_id = DriveId (acr_drive_id r), ac_display_name = acr_display_name r,
          ac_keychain_ref = KeychainRef (acr_keychain_ref r), ac_scopes = scopes,
          ac_created_at = created, ac_updated_at = updated\<rparr>)))))"

section \<open>Pairs\<close>

record pair_row =
  prr_id :: string
  prr_account_id :: string
  prr_local_path :: string
  prr_remote_item_id :: string
  prr_remote_path :: string
  prr_display_name :: string
  prr_status :: string
  prr_paused :: int
  prr_delta_token :: "string option"
  prr_errored_reason :: "string option"
  prr_created_at :: string
  prr_updated_at :: string
  prr_last_sync_at :: "string option"
  prr_conflict_count :: int
  prr_webhook_enabled :: int

definition pair_params :: "sql_lib \<Rightarrow> pair \<Rightarrow> pair_row" where
  [row_defs]: "pair_params SL p =
     \<lparr>prr_id = id_text SL pair_prefix (pr_id p), prr_account_id = id_text SL account_prefix (pr_account_id p),
      prr_local_path = abs_str (pr_local_path p), prr_remote_item_id = drive_item_id_str (pr_remote_item_id p),
      prr_remote_path = pr_remote_path p, prr_display_name = pr_display_name p,
      prr_status = pair_status_to_str (pr_status p), prr_paused = int_of_bool (pr_paused p),
      prr_delta_token = map_option delta_cursor_str (pr_delta_token p),
      prr_errored_reason = pr_errored_reason p, prr_created_at = sl_to_rfc3339 SL (pr_created_at p),
      prr_updated_at = sl_to_rfc3339 SL (pr_updated_at p),
      prr_last_sync_at = map_option (sl_to_rfc3339 SL) (pr_last_sync_at p),
      prr_conflict_count = uint (pr_conflict_count p),
      prr_webhook_enabled = int_of_bool (pr_webhook_enabled p)\<rparr>"

definition row_to_pair :: "sql_lib \<Rightarrow> pair_row \<Rightarrow> sql_error + pair" where
  [row_defs]: "row_to_pair SL r =
     and_then (get_i32 7 (prr_paused r)) (\<lambda>paused.
     and_then (get_i32 14 (prr_webhook_enabled r)) (\<lambda>webhook.
     and_then (id_col SL pair_prefix (prr_id r)) (\<lambda>i.
     and_then (id_col SL account_prefix (prr_account_id r)) (\<lambda>acct.
     and_then (abs_col (prr_local_path r)) (\<lambda>lpath.
     and_then (pair_status_from_str (prr_status r)) (\<lambda>status.
     and_then (parse_timestamp SL (prr_created_at r)) (\<lambda>created.
     and_then (parse_timestamp SL (prr_updated_at r)) (\<lambda>updated.
     and_then (opt_result (parse_timestamp SL) (prr_last_sync_at r)) (\<lambda>last_sync.
     Inr \<lparr>pr_id = i, pr_account_id = acct, pr_local_path = lpath,
          pr_remote_item_id = DriveItemId (prr_remote_item_id r), pr_remote_path = prr_remote_path r,
          pr_display_name = prr_display_name r, pr_status = status, pr_paused = (paused \<noteq> 0),
          pr_delta_token = map_option DeltaCursor (prr_delta_token r),
          pr_errored_reason = prr_errored_reason r, pr_created_at = created, pr_updated_at = updated,
          pr_last_sync_at = last_sync, pr_conflict_count = u32_of_i64 (prr_conflict_count r),
          pr_webhook_enabled = (webhook \<noteq> 0)\<rparr>)))))))))"

section \<open>File entries\<close>

record entry_row =
  fer_pair_id :: string
  fer_relative_path :: string
  fer_kind :: string
  fer_sync_state :: string
  fer_local_json :: "string option"
  fer_remote_json :: "string option"
  fer_synced_json :: "string option"
  fer_pending_op_id :: "string option"
  fer_updated_at :: string

definition encode_entry_side :: "sql_lib \<Rightarrow> file_side option \<Rightarrow> state_store_error + string option" where
  [row_defs]: "encode_entry_side SL side =
     opt_result (\<lambda>s. map_err (\<lambda>e. Sqlite (''encode side: '' @ e)) (sl_side_to_json SL s)) side"

definition decode_entry_side :: "sql_lib \<Rightarrow> string option \<Rightarrow> sql_error + file_side option" where
  [row_defs]: "decode_entry_side SL json = opt_result (json_col (sl_side_of_json SL)) json"

definition entry_params :: "sql_lib \<Rightarrow> file_entry \<Rightarrow> state_store_error + entry_row" where
  [row_defs]: "entry_params SL e =
     and_then (encode_entry_side SL (fe_local e)) (\<lambda>lj.
     and_then (encode_entry_side SL (fe_remote e)) (\<lambda>rj.
     and_then (encode_entry_side SL (fe_synced e)) (\<lambda>sj.
     Inr \<lparr>fer_pair_id = id_text SL pair_prefix (fe_pair_id e),
          fer_relative_path = rel_str (fe_relative_path e), fer_kind = file_kind_to_str (fe_kind e),
          fer_sync_state = sync_state_to_str (fe_sync_state e), fer_local_json = lj,
          fer_remote_json = rj, fer_synced_json = sj,
          fer_pending_op_id = map_option (id_text SL file_op_prefix) (fe_pending_op_id e),
          fer_updated_at = sl_to_rfc3339 SL (fe_updated_at e)\<rparr>)))"

definition row_to_entry :: "sql_lib \<Rightarrow> entry_row \<Rightarrow> sql_error + file_entry" where
  [row_defs]: "row_to_entry SL r =
     and_then (id_col SL pair_prefix (fer_pair_id r)) (\<lambda>p.
     and_then (rel_col SL (fer_relative_path r)) (\<lambda>path.
     and_then (file_kind_from_str (fer_kind r)) (\<lambda>kind.
     and_then (sync_state_from_str (fer_sync_state r)) (\<lambda>state.
     and_then (decode_entry_side SL (fer_local_json r)) (\<lambda>l.
     and_then (decode_entry_side SL (fer_remote_json r)) (\<lambda>rem.
     and_then (decode_entry_side SL (fer_synced_json r)) (\<lambda>syn.
     and_then (opt_result (id_col SL file_op_prefix) (fer_pending_op_id r)) (\<lambda>pending.
     and_then (parse_timestamp SL (fer_updated_at r)) (\<lambda>updated.
     Inr \<lparr>fe_pair_id = p, fe_relative_path = path, fe_kind = kind, fe_sync_state = state,
          fe_local = l, fe_remote = rem, fe_synced = syn, fe_pending_op_id = pending,
          fe_updated_at = updated\<rparr>)))))))))"

section \<open>Operations\<close>

record op_row =
  opr_id :: string
  opr_run_id :: string
  opr_pair_id :: string
  opr_relative_path :: string
  opr_kind :: string
  opr_status :: string
  opr_attempts :: int
  opr_last_error_json :: "string option"
  opr_metadata_json :: "string option"
  opr_enqueued_at :: string
  opr_started_at :: "string option"
  opr_finished_at :: "string option"

definition encode_last_error :: "sql_lib \<Rightarrow> error_envelope option \<Rightarrow> state_store_error + string option" where
  [row_defs]: "encode_last_error SL err =
     opt_result (\<lambda>x. map_err (\<lambda>e. Sqlite (''encode last_error: '' @ e)) (sl_envelope_to_json SL x)) err"

definition decode_last_error :: "sql_lib \<Rightarrow> string option \<Rightarrow> sql_error + error_envelope option" where
  [row_defs]: "decode_last_error SL json = opt_result (json_col (sl_envelope_of_json SL)) json"

definition encode_metadata :: "sql_lib \<Rightarrow> json_map \<Rightarrow> state_store_error + string option" where
  [row_defs]: "encode_metadata SL meta =
     (if meta = [] then Inr None
      else and_then (map_err (\<lambda>e. Sqlite (''encode metadata: '' @ e)) (sl_map_to_json SL meta)) (\<lambda>s. Inr (Some s)))"

definition decode_metadata :: "sql_lib \<Rightarrow> string option \<Rightarrow> sql_error + json_map" where
  [row_defs]: "decode_metadata SL json =
     and_then (opt_result (json_col (sl_map_of_json SL)) json)
       (\<lambda>m. Inr (case m of None \<Rightarrow> [] | Some m \<Rightarrow> m))"

definition op_params :: "sql_lib \<Rightarrow> file_op \<Rightarrow> state_store_error + op_row" where
  [row_defs]: "op_params SL op =
     and_then (encode_last_error SL (op_last_error op)) (\<lambda>err.
     and_then (encode_metadata SL (op_metadata op)) (\<lambda>meta.
     Inr \<lparr>opr_id = id_text SL file_op_prefix (op_id op), opr_run_id = id_text SL sync_run_prefix (op_run_id op),
          opr_pair_id = id_text SL pair_prefix (op_pair_id op),
          opr_relative_path = rel_str (op_relative_path op), opr_kind = op_kind_to_str (op_kind op),
          opr_status = op_status_to_str (op_status op), opr_attempts = int (op_attempts op),
          opr_last_error_json = err, opr_metadata_json = meta,
          opr_enqueued_at = sl_to_rfc3339 SL (op_enqueued_at op),
          opr_started_at = map_option (sl_to_rfc3339 SL) (op_started_at op),
          opr_finished_at = map_option (sl_to_rfc3339 SL) (op_finished_at op)\<rparr>))"

definition row_to_op :: "sql_lib \<Rightarrow> op_row \<Rightarrow> sql_error + file_op" where
  [row_defs]: "row_to_op SL r =
     and_then (id_col SL file_op_prefix (opr_id r)) (\<lambda>i.
     and_then (id_col SL sync_run_prefix (opr_run_id r)) (\<lambda>run.
     and_then (id_col SL pair_prefix (opr_pair_id r)) (\<lambda>p.
     and_then (rel_col SL (opr_relative_path r)) (\<lambda>path.
     and_then (op_kind_from_str (opr_kind r)) (\<lambda>kind.
     and_then (op_status_from_str (opr_status r)) (\<lambda>status.
     and_then (decode_last_error SL (opr_last_error_json r)) (\<lambda>err.
     and_then (decode_metadata SL (opr_metadata_json r)) (\<lambda>meta.
     and_then (parse_timestamp SL (opr_enqueued_at r)) (\<lambda>enqueued.
     and_then (opt_result (parse_timestamp SL) (opr_started_at r)) (\<lambda>started.
     and_then (opt_result (parse_timestamp SL) (opr_finished_at r)) (\<lambda>finished.
     Inr \<lparr>op_id = i, op_run_id = run, op_pair_id = p, op_relative_path = path, op_kind = kind,
          op_status = status, op_attempts = attempts_of_i64 (opr_attempts r), op_last_error = err,
          op_metadata = meta, op_enqueued_at = enqueued, op_started_at = started,
          op_finished_at = finished\<rparr>)))))))))))"

section \<open>Runs\<close>

record run_row =
  srr_id :: string
  srr_pair_id :: string
  srr_trigger :: string
  srr_started_at :: string
  srr_finished_at :: "string option"
  srr_local_ops :: int
  srr_remote_ops :: int
  srr_bytes_uploaded :: int
  srr_bytes_downloaded :: int
  srr_outcome :: "string option"
  srr_outcome_detail :: "string option"

definition run_params :: "sql_lib \<Rightarrow> sync_run \<Rightarrow> run_row" where
  [row_defs]: "run_params SL run =
     \<lparr>srr_id = id_text SL sync_run_prefix (sr_id run), srr_pair_id = id_text SL pair_prefix (sr_pair_id run),
      srr_trigger = run_trigger_to_str (sr_trigger run), srr_started_at = sl_to_rfc3339 SL (sr_started_at run),
      srr_finished_at = map_option (sl_to_rfc3339 SL) (sr_finished_at run),
      srr_local_ops = uint (sr_local_ops run), srr_remote_ops = uint (sr_remote_ops run),
      srr_bytes_uploaded = i64_of_u64 (sr_bytes_uploaded run),
      srr_bytes_downloaded = i64_of_u64 (sr_bytes_downloaded run),
      srr_outcome = map_option run_outcome_to_str (sr_outcome run),
      srr_outcome_detail = sr_outcome_detail run\<rparr>"

definition row_to_run :: "sql_lib \<Rightarrow> run_row \<Rightarrow> sql_error + sync_run" where
  [row_defs]: "row_to_run SL r =
     and_then (id_col SL sync_run_prefix (srr_id r)) (\<lambda>i.
     and_then (id_col SL pair_prefix (srr_pair_id r)) (\<lambda>p.
     and_then (run_trigger_from_str (srr_trigger r)) (\<lambda>trigger.
     and_then (parse_timestamp SL (srr_started_at r)) (\<lambda>started.
     and_then (opt_result (parse_timestamp SL) (srr_finished_at r)) (\<lambda>finished.
     and_then (opt_result run_outcome_from_str (srr_outcome r)) (\<lambda>outcome.
     Inr \<lparr>sr_id = i, sr_pair_id = p, sr_trigger = trigger, sr_started_at = started,
          sr_finished_at = finished, sr_local_ops = u32_of_i64 (srr_local_ops r),
          sr_remote_ops = u32_of_i64 (srr_remote_ops r),
          sr_bytes_uploaded = u64_of_i64 (srr_bytes_uploaded r),
          sr_bytes_downloaded = u64_of_i64 (srr_bytes_downloaded r),
          sr_outcome = outcome, sr_outcome_detail = srr_outcome_detail r\<rparr>))))))"

section \<open>Conflicts\<close>

record conflict_row =
  cfr_id :: string
  cfr_pair_id :: string
  cfr_relative_path :: string
  cfr_winner :: string
  cfr_loser_relative_path :: string
  cfr_local_side_json :: string
  cfr_remote_side_json :: string
  cfr_detected_at :: string
  cfr_resolved_at :: "string option"
  cfr_resolution :: "string option"
  cfr_note :: "string option"

definition encode_conflict_side :: "sql_lib \<Rightarrow> file_side \<Rightarrow> state_store_error + string" where
  [row_defs]: "encode_conflict_side SL side =
     map_err (\<lambda>e. Sqlite (''encode file side: '' @ e)) (sl_side_to_json SL side)"

definition conflict_params :: "sql_lib \<Rightarrow> conflict \<Rightarrow> state_store_error + conflict_row" where
  [row_defs]: "conflict_params SL c =
     and_then (encode_conflict_side SL (cf_local_side c)) (\<lambda>lj.
     and_then (encode_conflict_side SL (cf_remote_side c)) (\<lambda>rj.
     Inr \<lparr>cfr_id = id_text SL conflict_prefix (cf_id c), cfr_pair_id = id_text SL pair_prefix (cf_pair_id c),
          cfr_relative_path = rel_str (cf_relative_path c), cfr_winner = conflict_side_to_str (cf_winner c),
          cfr_loser_relative_path = rel_str (cf_loser_relative_path c),
          cfr_local_side_json = lj, cfr_remote_side_json = rj,
          cfr_detected_at = sl_to_rfc3339 SL (cf_detected_at c),
          cfr_resolved_at = map_option (sl_to_rfc3339 SL) (cf_resolved_at c),
          cfr_resolution = map_option conflict_resolution_to_str (cf_resolution c), cfr_note = cf_note c\<rparr>))"

definition row_to_conflict :: "sql_lib \<Rightarrow> conflict_row \<Rightarrow> sql_error + conflict" where
  [row_defs]: "row_to_conflict SL r =
     and_then (id_col SL conflict_prefix (cfr_id r)) (\<lambda>i.
     and_then (id_col SL pair_prefix (cfr_pair_id r)) (\<lambda>p.
     and_then (rel_col SL (cfr_relative_path r)) (\<lambda>path.
     and_then (conflict_side_from_str (cfr_winner r)) (\<lambda>winner.
     and_then (rel_col SL (cfr_loser_relative_path r)) (\<lambda>loser.
     and_then (json_col (sl_side_of_json SL) (cfr_local_side_json r)) (\<lambda>l.
     and_then (json_col (sl_side_of_json SL) (cfr_remote_side_json r)) (\<lambda>rem.
     and_then (parse_timestamp SL (cfr_detected_at r)) (\<lambda>detected.
     and_then (opt_result (parse_timestamp SL) (cfr_resolved_at r)) (\<lambda>resolved.
     and_then (opt_result conflict_resolution_from_str (cfr_resolution r)) (\<lambda>resolution.
     Inr \<lparr>cf_id = i, cf_pair_id = p, cf_relative_path = path, cf_winner = winner,
          cf_loser_relative_path = loser, cf_local_side = l, cf_remote_side = rem,
          cf_detected_at = detected, cf_resolved_at = resolved, cf_resolution = resolution,
          cf_note = cfr_note r\<rparr>))))))))))"

section \<open>Audit events\<close>

record audit_row =
  evr_id :: string
  evr_ts :: string
  evr_level :: string
  evr_kind :: string
  evr_pair_id :: "string option"
  evr_payload_json :: string

definition audit_params :: "sql_lib \<Rightarrow> audit_event \<Rightarrow> state_store_error + audit_row" where
  [row_defs]: "audit_params SL ev =
     and_then (if ev_payload ev = [] then Inr ''{}''
               else map_err (\<lambda>e. Sqlite (''encode audit payload: '' @ e)) (sl_map_to_json SL (ev_payload ev)))
       (\<lambda>payload.
     Inr \<lparr>evr_id = id_text SL audit_prefix (ev_id ev), evr_ts = sl_to_rfc3339 SL (ev_ts ev),
          evr_level = audit_level_to_str (ev_level ev), evr_kind = ev_kind ev,
          evr_pair_id = map_option (id_text SL pair_prefix) (ev_pair_id ev), evr_payload_json = payload\<rparr>)"

definition row_to_event :: "sql_lib \<Rightarrow> audit_row \<Rightarrow> sql_error + audit_event" where
  [row_defs]: "row_to_event SL r =
     and_then (json_col (sl_map_of_json SL) (evr_payload_json r)) (\<lambda>payload.
     and_then (id_col SL audit_prefix (evr_id r)) (\<lambda>i.
     and_then (parse_timestamp SL (evr_ts r)) (\<lambda>ts.
     and_then (audit_level_from_str (evr_level r)) (\<lambda>level.
     and_then (opt_result (id_col SL pair_prefix) (evr_pair_id r)) (\<lambda>p.
     Inr \<lparr>ev_id = i, ev_ts = ts, ev_level = level, ev_kind = evr_kind r, ev_pair_id = p,
          ev_payload = payload\<rparr>)))))"

section \<open>Configuration\<close>

record config_row =
  icr_log_level :: string
  icr_notify :: int
  icr_allow_metered :: int
  icr_min_free_gib :: int
  icr_updated_at :: string
  icr_azure_ad_client_id :: string
  icr_webhook_listener_port :: "int option"
  icr_webhook_notification_url :: "string option"

definition config_params :: "sql_lib \<Rightarrow> instance_config \<Rightarrow> config_row" where
  [row_defs]: "config_params SL cfg =
     \<lparr>icr_log_level = log_level_to_str (ic_log_level cfg), icr_notify = int_of_bool (ic_notify cfg),
      icr_allow_metered = int_of_bool (ic_allow_metered cfg), icr_min_free_gib = uint (ic_min_free_gib cfg),
      icr_updated_at = sl_to_rfc3339 SL (ic_updated_at cfg),
      icr_azure_ad_client_id = ic_azure_ad_client_id cfg,
      icr_webhook_listener_port = map_option uint (ic_webhook_listener_port cfg),
      icr_webhook_notification_url = ic_webhook_notification_url cfg\<rparr>"

definition row_to_config :: "sql_lib \<Rightarrow> config_row \<Rightarrow> sql_error + instance_config" where
  [row_defs]: "row_to_config SL r =
     and_then (get_i32 1 (icr_notify r)) (\<lambda>notify.
     and_then (get_i32 2 (icr_allow_metered r)) (\<lambda>metered.
     and_then (log_level_from_str (icr_log_level r)) (\<lambda>level.
     and_then (parse_timestamp SL (icr_updated_at r)) (\<lambda>updated.
     Inr \<lparr>ic_log_level = level, ic_notify = (notify \<noteq> 0), ic_allow_metered = (metered \<noteq> 0),
          ic_min_free_gib = u32_of_i64 (icr_min_free_gib r), ic_updated_at = updated,
          ic_azure_ad_client_id = icr_azure_ad_client_id r,
          ic_webhook_listener_port = Option.bind (icr_webhook_listener_port r) u16_of_i64,
          ic_webhook_notification_url = icr_webhook_notification_url r\<rparr>))))"

section \<open>What the encodings rely on\<close>

text \<open>
  chrono prints the years 0 to 9999 with four digits, so that within them the text order of
  RFC 3339 timestamps in UTC is the order of time.  \<open>serde_json\<close> maps are sorted by key.
\<close>

definition ts_ok :: "timestamp \<Rightarrow> bool" where
  "ts_ok t \<longleftrightarrow> - 62167219200 * 10 ^ 9 \<le> t \<and> t < 253402300800 * 10 ^ 9"

fun canonical_json :: "json \<Rightarrow> bool" where
  "canonical_json (JArray xs) = (\<forall>x \<in> set xs. canonical_json x)"
| "canonical_json (JObject m) = (sorted_wrt (<) (map fst m) \<and> (\<forall>kv \<in> set m. canonical_json (snd kv)))"
| "canonical_json _ = True"

definition side_ok :: "file_side \<Rightarrow> bool" where
  "side_ok s \<longleftrightarrow> (case fs_content_hash s of None \<Rightarrow> True | Some h \<Rightarrow> wf_content_hash h) \<and> ts_ok (fs_mtime s)"

definition time_laws :: "sql_lib \<Rightarrow> bool" where
  "time_laws SL \<longleftrightarrow>
     (\<forall>t. ts_ok t \<longrightarrow> sl_parse_rfc3339 SL (sl_to_rfc3339 SL t) = Inr t)
     \<and> (\<forall>t u. ts_ok t \<longrightarrow> ts_ok u \<longrightarrow> (sl_to_rfc3339 SL t < sl_to_rfc3339 SL u) = (t < u))"

definition ulid_laws :: "sql_lib \<Rightarrow> bool" where
  "ulid_laws SL \<longleftrightarrow> (\<forall>u. lib_ulid_parse (sl_base SL) (lib_ulid_show (sl_base SL) u) = Inr u)"

definition json_laws :: "sql_lib \<Rightarrow> bool" where
  "json_laws SL \<longleftrightarrow>
     (\<forall>s. side_ok s \<longrightarrow> (\<exists>j. sl_side_to_json SL s = Inr j \<and> sl_side_of_json SL j = Inr s))
     \<and> (\<forall>x. canonical_json (JObject (ee_context x)) \<longrightarrow>
          (\<exists>j. sl_envelope_to_json SL x = Inr j \<and> sl_envelope_of_json SL j = Inr x))
     \<and> (\<forall>m. canonical_json (JObject m) \<longrightarrow> (\<exists>j. sl_map_to_json SL m = Inr j \<and> sl_map_of_json SL j = Inr m))
     \<and> (\<forall>xs. \<exists>j. sl_strings_to_json SL xs = Inr j \<and> sl_strings_of_json SL j = Inr xs)
     \<and> sl_map_of_json SL ''{}'' = Inr []"

definition sql_laws :: "sql_lib \<Rightarrow> bool" where
  "sql_laws SL \<longleftrightarrow> time_laws SL \<and> ulid_laws SL \<and> json_laws SL"

definition rel_ok :: "sql_lib \<Rightarrow> rel_path \<Rightarrow> bool" where
  "rel_ok SL p \<longleftrightarrow> wf_rel p \<and> lib_nfc (sl_base SL) (rel_str p) = rel_str p"

abbreviation opt_ok :: "('a \<Rightarrow> bool) \<Rightarrow> 'a option \<Rightarrow> bool" where
  "opt_ok P x \<equiv> (case x of None \<Rightarrow> True | Some a \<Rightarrow> P a)"

text \<open>The values the program itself builds: parsed paths, timestamps of the supported years.\<close>

definition account_ok :: "account \<Rightarrow> bool" where
  "account_ok a \<longleftrightarrow> ts_ok (ac_created_at a) \<and> ts_ok (ac_updated_at a)"

definition pair_ok :: "pair \<Rightarrow> bool" where
  "pair_ok p \<longleftrightarrow> wf_abs (pr_local_path p) \<and> ts_ok (pr_created_at p) \<and> ts_ok (pr_updated_at p)
     \<and> opt_ok ts_ok (pr_last_sync_at p)"

definition entry_ok :: "sql_lib \<Rightarrow> file_entry \<Rightarrow> bool" where
  "entry_ok SL e \<longleftrightarrow> rel_ok SL (fe_relative_path e) \<and> opt_ok side_ok (fe_local e)
     \<and> opt_ok side_ok (fe_remote e) \<and> opt_ok side_ok (fe_synced e) \<and> ts_ok (fe_updated_at e)"

definition op_ok :: "sql_lib \<Rightarrow> file_op \<Rightarrow> bool" where
  "op_ok SL op \<longleftrightarrow> rel_ok SL (op_relative_path op) \<and> op_attempts op < 2 ^ 32
     \<and> opt_ok (\<lambda>x. canonical_json (JObject (ee_context x))) (op_last_error op)
     \<and> canonical_json (JObject (op_metadata op)) \<and> ts_ok (op_enqueued_at op)
     \<and> opt_ok ts_ok (op_started_at op) \<and> opt_ok ts_ok (op_finished_at op)"

definition run_ok :: "sync_run \<Rightarrow> bool" where
  "run_ok r \<longleftrightarrow> ts_ok (sr_started_at r) \<and> opt_ok ts_ok (sr_finished_at r)
     \<and> uint (sr_bytes_uploaded r) \<le> I64_MAX \<and> uint (sr_bytes_downloaded r) \<le> I64_MAX"

definition conflict_ok :: "sql_lib \<Rightarrow> conflict \<Rightarrow> bool" where
  "conflict_ok SL c \<longleftrightarrow> rel_ok SL (cf_relative_path c) \<and> rel_ok SL (cf_loser_relative_path c)
     \<and> side_ok (cf_local_side c) \<and> side_ok (cf_remote_side c) \<and> ts_ok (cf_detected_at c)
     \<and> opt_ok ts_ok (cf_resolved_at c)"

definition event_ok :: "audit_event \<Rightarrow> bool" where
  "event_ok ev \<longleftrightarrow> ts_ok (ev_ts ev) \<and> canonical_json (JObject (ev_payload ev))"

lemmas row_oks = account_ok_def pair_ok_def entry_ok_def op_ok_def run_ok_def conflict_ok_def event_ok_def

section \<open>Round trips\<close>

lemma parse_timestamp_print [simp]:
  "time_laws SL \<Longrightarrow> ts_ok t \<Longrightarrow> parse_timestamp SL (sl_to_rfc3339 SL t) = Inr t"
  by (simp add: parse_timestamp_def time_laws_def)

lemma opt_timestamp_print [simp]:
  "time_laws SL \<Longrightarrow> opt_ok ts_ok t \<Longrightarrow>
     opt_result (parse_timestamp SL) (map_option (sl_to_rfc3339 SL) t) = Inr t"
  by (cases t) simp_all

lemma prefixes_no_sep [simp]:
  "CHR ''_'' \<notin> set pair_prefix" "CHR ''_'' \<notin> set account_prefix" "CHR ''_'' \<notin> set conflict_prefix"
  "CHR ''_'' \<notin> set sync_run_prefix" "CHR ''_'' \<notin> set file_op_prefix" "CHR ''_'' \<notin> set audit_prefix"
  by (simp_all add: pair_prefix_def account_prefix_def conflict_prefix_def sync_run_prefix_def
      file_op_prefix_def audit_prefix_def)

lemma id_col_text [simp]:
  assumes "ulid_laws SL" and "CHR ''_'' \<notin> set prefix"
  shows "id_col SL prefix (id_text SL prefix i) = Inr i"
  using split_once_append [OF assms(2), of "lib_ulid_show (sl_base SL) (id_ulid i)"] assms(1)
  by (cases i) (simp add: id_col_def id_text_def id_from_str_def id_display_def ulid_laws_def)

lemma opt_id_col_text [simp]:
  "ulid_laws SL \<Longrightarrow> CHR ''_'' \<notin> set prefix \<Longrightarrow>
     opt_result (id_col SL prefix) (map_option (id_text SL prefix) i) = Inr i"
  by (cases i) simp_all

lemma id_text_eq [simp]:
  assumes "ulid_laws SL" and "CHR ''_'' \<notin> set prefix"
  shows "id_text SL prefix i = id_text SL prefix j \<longleftrightarrow> i = j"
  using assms by (metis Inr_inject id_col_text)

lemma rel_col_str [simp]: "rel_ok SL p \<Longrightarrow> rel_col SL (rel_str p) = Inr p"
  by (simp add: rel_col_def rel_ok_def rel_path_from_str_Inr wf_rel_def)
     (metis map_err_simps(1) rel_path.collapse rel_path_from_str_Inr)

lemma abs_col_str [simp]: "wf_abs p \<Longrightarrow> abs_col (abs_str p) = Inr p"
  by (simp add: abs_col_def wf_abs_def)
     (metis map_err_simps(1) abs_path.collapse abs_path_from_str_Inr)

lemma int_cols [simp]:
  "get_i32 col (int_of_bool b) = Inr (int_of_bool b)" "(int_of_bool b \<noteq> 0) = b"
  "u32_of_i64 (uint (n :: u32)) = n" "u16_of_i64 (uint (k :: 16 word)) = Some k"
  "m < 2 ^ 32 \<Longrightarrow> attempts_of_i64 (int m) = m"
  using uint_bounded [of n] uint_bounded [of k]
  by (auto simp: get_i32_def int_of_bool_def u32_of_i64_def u16_of_i64_def attempts_of_i64_def)

lemma u64_col [simp]: "uint n \<le> I64_MAX \<Longrightarrow> u64_of_i64 (i64_of_u64 n) = n"
  by (simp add: u64_of_i64_def i64_of_u64_def)

lemma json_sideE:
  assumes "json_laws SL" and "side_ok s"
  obtains j where "sl_side_to_json SL s = Inr j" and "sl_side_of_json SL j = Inr s"
  using assms by (auto simp: json_laws_def)

lemma entry_side_roundtrip:
  assumes "json_laws SL" and "opt_ok side_ok s"
  shows "\<exists>j. encode_entry_side SL s = Inr j \<and> decode_entry_side SL j = Inr s"
  using assms by (cases s) (auto simp: row_defs json_col_def elim!: json_sideE)

lemma conflict_side_roundtrip:
  assumes "json_laws SL" and "side_ok s"
  shows "\<exists>j. encode_conflict_side SL s = Inr j \<and> json_col (sl_side_of_json SL) j = Inr s"
  using assms by (auto simp: encode_conflict_side_def json_col_def elim!: json_sideE)

lemma last_error_roundtrip:
  assumes "json_laws SL" and "opt_ok (\<lambda>x. canonical_json (JObject (ee_context x))) s"
  shows "\<exists>j. encode_last_error SL s = Inr j \<and> decode_last_error SL j = Inr s"
proof (cases s)
  case (Some x)
  then obtain j where "sl_envelope_to_json SL x = Inr j" "sl_envelope_of_json SL j = Inr x"
    using assms by (auto simp: json_laws_def simp del: canonical_json.simps)
  then show ?thesis using Some by (simp add: encode_last_error_def decode_last_error_def json_col_def)
qed (simp add: encode_last_error_def decode_last_error_def)

lemma map_roundtrip:
  assumes "json_laws SL" and "canonical_json (JObject m)"
  obtains j where "sl_map_to_json SL m = Inr j" and "sl_map_of_json SL j = Inr m"
  using assms by (auto simp: json_laws_def simp del: canonical_json.simps)

lemma metadata_roundtrip:
  assumes "json_laws SL" and "canonical_json (JObject m)"
  shows "\<exists>j. encode_metadata SL m = Inr j \<and> decode_metadata SL j = Inr m"
  using assms by (auto simp: encode_metadata_def decode_metadata_def json_col_def
      simp del: canonical_json.simps elim!: map_roundtrip)

lemma account_roundtrip:
  assumes "sql_laws SL" and "account_ok a"
  shows "\<exists>r. account_params SL a = Inr r \<and> row_to_account SL r = Inr a"
proof -
  obtain j where "sl_strings_to_json SL (ac_scopes a) = Inr j" "sl_strings_of_json SL j = Inr (ac_scopes a)"
    using assms unfolding sql_laws_def json_laws_def by blast
  with assms show ?thesis
    by (simp add: account_params_def row_to_account_def json_col_def sql_laws_def account_ok_def)
qed

lemma pair_roundtrip: "sql_laws SL \<Longrightarrow> pair_ok p \<Longrightarrow> row_to_pair SL (pair_params SL p) = Inr p"
  by (simp add: pair_params_def row_to_pair_def sql_laws_def pair_ok_def option.map_comp comp_def
      option.map_ident)

lemma entry_roundtrip:
  assumes "sql_laws SL" and "entry_ok SL e"
  shows "\<exists>r. entry_params SL e = Inr r \<and> row_to_entry SL r = Inr e"
proof -
  have J: "json_laws SL" and o: "opt_ok side_ok (fe_local e)" "opt_ok side_ok (fe_remote e)"
    "opt_ok side_ok (fe_synced e)" using assms by (auto simp: sql_laws_def entry_ok_def)
  obtain l r s where "encode_entry_side SL (fe_local e) = Inr l" "decode_entry_side SL l = Inr (fe_local e)"
    "encode_entry_side SL (fe_remote e) = Inr r" "decode_entry_side SL r = Inr (fe_remote e)"
    "encode_entry_side SL (fe_synced e) = Inr s" "decode_entry_side SL s = Inr (fe_synced e)"
    using o [THEN entry_side_roundtrip [OF J]] by blast
  with assms show ?thesis by (simp add: entry_params_def row_to_entry_def sql_laws_def entry_ok_def)
qed

lemma op_roundtrip:
  assumes "sql_laws SL" and "op_ok SL op"
  shows "\<exists>r. op_params SL op = Inr r \<and> row_to_op SL r = Inr op"
proof -
  have J: "json_laws SL" using assms by (simp add: sql_laws_def)
  obtain l where l: "encode_last_error SL (op_last_error op) = Inr l" "decode_last_error SL l = Inr (op_last_error op)"
    using last_error_roundtrip [OF J] assms(2) unfolding op_ok_def by blast
  obtain m where m: "encode_metadata SL (op_metadata op) = Inr m" "decode_metadata SL m = Inr (op_metadata op)"
    using metadata_roundtrip [OF J] assms(2) unfolding op_ok_def by blast
  from l m assms show ?thesis by (simp add: op_params_def row_to_op_def sql_laws_def op_ok_def)
qed

lemma run_roundtrip: "sql_laws SL \<Longrightarrow> run_ok r \<Longrightarrow> row_to_run SL (run_params SL r) = Inr r"
  by (cases "sr_outcome r") (simp_all add: run_params_def row_to_run_def sql_laws_def run_ok_def)

lemma conflict_roundtrip:
  assumes "sql_laws SL" and "conflict_ok SL c"
  shows "\<exists>r. conflict_params SL c = Inr r \<and> row_to_conflict SL r = Inr c"
proof -
  have J: "json_laws SL" using assms by (simp add: sql_laws_def)
  obtain l r where "encode_conflict_side SL (cf_local_side c) = Inr l"
    "json_col (sl_side_of_json SL) l = Inr (cf_local_side c)"
    "encode_conflict_side SL (cf_remote_side c) = Inr r"
    "json_col (sl_side_of_json SL) r = Inr (cf_remote_side c)"
    using conflict_side_roundtrip [OF J] assms(2) unfolding conflict_ok_def by blast
  with assms show ?thesis
    by (cases "cf_resolution c") (simp_all add: conflict_params_def row_to_conflict_def sql_laws_def conflict_ok_def)
qed

lemma event_roundtrip:
  assumes "sql_laws SL" and "event_ok ev"
  shows "\<exists>r. audit_params SL ev = Inr r \<and> row_to_event SL r = Inr ev"
proof -
  have J: "json_laws SL" using assms by (simp add: sql_laws_def)
  obtain j where "sl_map_to_json SL (ev_payload ev) = Inr j" "sl_map_of_json SL j = Inr (ev_payload ev)"
    using map_roundtrip [OF J] assms(2) unfolding event_ok_def by blast
  with assms show ?thesis
    by (simp add: audit_params_def row_to_event_def json_col_def sql_laws_def json_laws_def event_ok_def)
qed

lemma config_roundtrip: "sql_laws SL \<Longrightarrow> ts_ok (ic_updated_at c) \<Longrightarrow> row_to_config SL (config_params SL c) = Inr c"
  by (cases "ic_webhook_listener_port c") (simp_all add: config_params_def row_to_config_def sql_laws_def)

section \<open>A concrete library\<close>

text \<open>
  An instance on which the laws hold: numbers in unary, and any countable value as the unary
  form of its number.
\<close>

definition unary_time :: "timestamp \<Rightarrow> string" where
  "unary_time t = (if 0 \<le> t then CHR ''p'' # replicate (nat t) CHR ''a''
                   else CHR ''n'' # replicate (nat (- t)) CHR ''a'' @ ''b'')"

definition unary_time_parse :: "string \<Rightarrow> string + timestamp" where
  "unary_time_parse s =
     (case s of
        [] \<Rightarrow> Inl ''empty''
      | c # rest \<Rightarrow> if c = CHR ''p'' then Inr (int (length rest)) else Inr (1 - int (length rest)))"

definition unary_show :: "'a :: countable \<Rightarrow> string + string" where
  "unary_show x = Inr (replicate (to_nat x) CHR ''x'')"

definition unary_read :: "string \<Rightarrow> string + 'a :: countable" where
  "unary_read s = Inr (from_nat (length s))"

lemma unary_read_show: "\<exists>j. unary_show x = Inr j \<and> unary_read j = Inr x"
  by (simp add: unary_show_def unary_read_def)

instance json :: countable
  by countable_datatype

instance file_kind :: countable
  by countable_datatype

type_synonym side_code = "file_kind \<times> nat \<times> nat list option \<times> int \<times> string option \<times> string option"

definition side_code :: "file_side \<Rightarrow> side_code" where
  "side_code s = (fs_kind s, unat (fs_size_bytes s), map_option (map unat \<circ> hash_bytes) (fs_content_hash s),
     fs_mtime s, map_option etag_str (fs_etag s), map_option drive_item_id_str (fs_remote_item_id s))"

definition side_of_code :: "side_code \<Rightarrow> file_side" where
  "side_of_code c = (case c of (k, n, h, t, e, i) \<Rightarrow>
     \<lparr>fs_kind = k, fs_size_bytes = word_of_nat n, fs_content_hash = map_option (ContentHash \<circ> map word_of_nat) h,
      fs_mtime = t, fs_etag = map_option ETag e, fs_remote_item_id = map_option DriveItemId i\<rparr>)"

lemma side_of_code [simp]: "side_of_code (side_code s) = s"
  by (cases s) (simp add: side_of_code_def side_code_def option.map_comp comp_def option.map_ident map_idI)

type_synonym envelope_code = "string \<times> string \<times> bool \<times> string option \<times> json_map"

definition envelope_code :: "error_envelope \<Rightarrow> envelope_code" where
  "envelope_code x = (ee_kind x, ee_message x, ee_retryable x, ee_request_id x, ee_context x)"

definition envelope_of_code :: "envelope_code \<Rightarrow> error_envelope" where
  "envelope_of_code c = (case c of (k, m, r, i, x) \<Rightarrow>
     \<lparr>ee_kind = k, ee_message = m, ee_retryable = r, ee_request_id = i, ee_context = x\<rparr>)"

lemma envelope_of_code [simp]: "envelope_of_code (envelope_code x) = x"
  by (cases x) (simp add: envelope_of_code_def envelope_code_def)

definition unary_lib :: sql_lib where
  "unary_lib =
     \<lparr>sl_base = ascii_lib\<lparr>lib_ulid_show := (\<lambda>u. replicate (unat u) CHR ''0''),
                         lib_ulid_parse := (\<lambda>s. Inr (word_of_nat (length s)))\<rparr>,
      sl_scan_order = (\<lambda>n. rev [0..<n]),
      sl_to_rfc3339 = unary_time, sl_parse_rfc3339 = unary_time_parse,
      sl_side_to_json = unary_show \<circ> side_code,
      sl_side_of_json = (\<lambda>s. map_sum id side_of_code (unary_read s)),
      sl_envelope_to_json = unary_show \<circ> envelope_code,
      sl_envelope_of_json = (\<lambda>s. map_sum id envelope_of_code (unary_read s)),
      sl_map_to_json = unary_show,
      sl_map_of_json = (\<lambda>s. if s = ''{}'' then Inr [] else unary_read s),
      sl_strings_to_json = unary_show, sl_strings_of_json = unary_read,
      sl_error_text = (\<lambda>_. ''sql'')\<rparr>"

lemma less_unary:
  "((replicate m a :: string) < replicate n a) = (m < n)"
  "a < b \<Longrightarrow> ((replicate m a @ [b] :: string) < replicate n a @ [b]) = (n < m)"
proof -
  show "((replicate m a :: string) < replicate n a) = (m < n)"
    by (induction m arbitrary: n) (case_tac n; simp)+
  show "a < b \<Longrightarrow> ((replicate m a @ [b] :: string) < replicate n a @ [b]) = (n < m)"
    by (induction m arbitrary: n) (case_tac n; auto simp: Cons_less_Cons)+
qed

lemma unary_time_less: "(unary_time t < unary_time u) = (t < u)"
  by (auto simp: unary_time_def less_unary nat_less_eq_zless)

lemma unary_time_parse_print: "unary_time_parse (unary_time t) = Inr t"
  by (simp add: unary_time_def unary_time_parse_def)

lemma unary_laws: "sql_laws unary_lib"
proof -
  have "\<exists>j. sl_map_to_json unary_lib m = Inr j \<and> sl_map_of_json unary_lib j = Inr m" for m
  proof -
    have "replicate (to_nat m) CHR ''x'' \<noteq> ''{}''" by (cases "to_nat m") simp_all
    then show ?thesis by (simp add: unary_lib_def unary_show_def unary_read_def)
  qed
  then have "json_laws unary_lib"
    by (simp add: json_laws_def) (simp add: unary_lib_def unary_show_def unary_read_def)
  then show ?thesis
    by (simp add: sql_laws_def time_laws_def ulid_laws_def)
       (simp add: unary_lib_def unary_time_less unary_time_parse_print)
qed

lemma unary_scan_order [simp]: "map_order_laws (sl_scan_order unary_lib)"
  by (auto simp: map_order_laws_def unary_lib_def)

text \<open>
  C10: What the store writes it reads back: for values of the kind the program builds, decoding
  the row written for an account, a pair, a file entry, an operation, a run, a conflict, an
  audit event or the configuration gives the value back, errors, optional fields and byte
  counters included.
\<close>
theorem rows_roundtrip:
  assumes "sql_laws SL"
  shows "(account_ok a \<longrightarrow> (\<exists>r. account_params SL a = Inr r \<and> row_to_account SL r = Inr a))
    \<and> (pair_ok p \<longrightarrow> row_to_pair SL (pair_params SL p) = Inr p)
    \<and> (entry_ok SL e \<longrightarrow> (\<exists>r. entry_params SL e = Inr r \<and> row_to_entry SL r = Inr e))
    \<and> (op_ok SL op \<longrightarrow> (\<exists>r. op_params SL op = Inr r \<and> row_to_op SL r = Inr op))
    \<and> (run_ok run \<longrightarrow> row_to_run SL (run_params SL run) = Inr run)
    \<and> (conflict_ok SL c \<longrightarrow> (\<exists>r. conflict_params SL c = Inr r \<and> row_to_conflict SL r = Inr c))
    \<and> (event_ok ev \<longrightarrow> (\<exists>r. audit_params SL ev = Inr r \<and> row_to_event SL r = Inr ev))
    \<and> (ts_ok (ic_updated_at cfg) \<longrightarrow> row_to_config SL (config_params SL cfg) = Inr cfg)"
  using account_roundtrip [OF assms] pair_roundtrip [OF assms] entry_roundtrip [OF assms]
    op_roundtrip [OF assms] run_roundtrip [OF assms] conflict_roundtrip [OF assms]
    event_roundtrip [OF assms] config_roundtrip [OF assms] by blast

definition row_sample_op :: file_op where
  "row_sample_op =
     \<lparr>op_id = Id 1, op_run_id = Id 2, op_pair_id = Id 3, op_relative_path = RelPath ''a/b'',
      op_kind = Upload, op_status = Failed, op_attempts = 5,
      op_last_error = Some \<lparr>ee_kind = ''k'', ee_message = ''m'', ee_retryable = True,
        ee_request_id = None, ee_context = []\<rparr>,
      op_metadata = [(''a'', JString ''x''), (''b'', JArray [JNull])], op_enqueued_at = 7,
      op_started_at = Some 8, op_finished_at = None\<rparr>"

theorem rows_roundtrip_witness:
  "\<exists>r. op_params unary_lib row_sample_op = Inr r \<and> row_to_op unary_lib r = Inr row_sample_op"
proof -
  have "op_ok unary_lib row_sample_op"
    by (simp add: op_ok_def row_sample_op_def rel_ok_def wf_rel_def wf_path_def starts_with_char_def
        unary_lib_def ascii_lib_def MAX_PATH_BYTES_def ts_ok_def)
  then show ?thesis using rows_roundtrip [OF unary_laws, of _ _ _ row_sample_op] by blast
qed

text \<open>
  A byte counter beyond the range of a signed integer is stored as the largest one: the run
  that is read back has at most that count, never more than what was recorded.
\<close>
theorem byte_counters_saturate:
  "uint (u64_of_i64 (i64_of_u64 n)) = min (uint n) I64_MAX"
  using uint_bounded [of n] by (auto simp: u64_of_i64_def i64_of_u64_def I64_MAX_def min_def)

end
