(* ===== verification/Sql_Store.thy ===== *)
theory Sql_Store
  imports Sql_Rows Mem_Store
begin

text \<open>
  The SQLite state store: the tables with the constraints of the schema
  (\<open>crates/onesync-state/src/migrations\<close>), the statements of \<open>queries/\<close> and \<open>retention.rs\<close>
  as functions on the database, and the adapter of \<open>store.rs\<close> and \<open>connection.rs\<close> around
  them, every operation of it.

  A table is the list of its rows.  Foreign keys are enforced (\<open>connection.rs\<close> sets the
  pragma on every connection), a deletion cascades as the schema says, and a statement that
  fails changes nothing.  The order in which a query without a total \<open>ORDER BY\<close> meets the rows
  is \<open>sl_scan_order\<close>, which nothing relates to the iteration order of a hash map.  \<open>sql_env\<close> carries what can fail for other reasons: taking a connection
  from the pool, joining the blocking task, and a statement itself (busy, disk).
\<close>

named_theorems stmt_defs \<open>definitions of the statements\<close>

section \<open>The database\<close>

record database =
  db_accounts :: "account_row list"
  db_pairs :: "pair_row list"
  db_runs :: "run_row list"
  db_ops :: "op_row list"
  db_entries :: "entry_row list"
  db_conflicts :: "conflict_row list"
  db_audit :: "audit_row list"
  db_config :: "config_row option"

definition empty_database :: database where
  "empty_database = \<lparr>db_accounts = [], db_pairs = [], db_runs = [], db_ops = [], db_entries = [],
     db_conflicts = [], db_audit = [], db_config = None\<rparr>"

type_synonym 'a statement = "database \<Rightarrow> sql_error + 'a \<times> database"

text \<open>The rows in the order in which a query meets them; the ones that satisfy its \<open>WHERE\<close>.\<close>

definition scan :: "sql_lib \<Rightarrow> 'r list \<Rightarrow> 'r list" where
  "scan SL t = map (\<lambda>i. t ! i) (sl_scan_order SL (length t))"

definition select :: "sql_lib \<Rightarrow> ('r \<Rightarrow> bool) \<Rightarrow> 'r list \<Rightarrow> 'r list" where
  "select SL P t = filter P (scan SL t)"

definition order_desc :: "('r \<Rightarrow> 'k :: linorder) \<Rightarrow> 'r list \<Rightarrow> 'r list" where
  "order_desc key rs = rev (sort_key key (rev rs))"

text \<open>The values of a column.\<close>

definition col :: "('r \<Rightarrow> 'v) \<Rightarrow> 'r list \<Rightarrow> 'v set" where
  "col f t = f ` set t"

definition opt_col :: "('r \<Rightarrow> 'v option) \<Rightarrow> 'r list \<Rightarrow> 'v set" where
  "opt_col f t = (\<Union>r \<in> set t. set_option (f r))"

text \<open>\<open>INSERT .. ON CONFLICT(key) DO UPDATE\<close>: the row with the key is merged with the new one.\<close>

definition upsert_row :: "('r \<Rightarrow> 'k) \<Rightarrow> ('r \<Rightarrow> 'r \<Rightarrow> 'r) \<Rightarrow> 'r \<Rightarrow> 'r list \<Rightarrow> 'r list" where
  "upsert_row key merge r t =
     (if key r \<in> col key t then map (\<lambda>old. if key old = key r then merge old r else old) t
      else t @ [r])"

text \<open>Another row has the value of \<open>f\<close> that \<open>r\<close> has: what a unique index refuses.\<close>

definition clashes :: "('r \<Rightarrow> 'k) \<Rightarrow> ('r \<Rightarrow> bool) \<Rightarrow> ('r \<Rightarrow> 'v) \<Rightarrow> 'r \<Rightarrow> 'r list \<Rightarrow> bool" where
  "clashes key P f r t \<longleftrightarrow> P r \<and> (\<exists>other \<in> set t. key other \<noteq> key r \<and> P other \<and> f other = f r)"

definition guard :: "(bool \<times> sql_error) list \<Rightarrow> 'a \<Rightarrow> sql_error + 'a" where
  "guard checks x = (case find fst checks of Some (_, e) \<Rightarrow> Inl e | None \<Rightarrow> Inr x)"

lemma guard_Nil [simp]: "guard [] x = Inr x"
  by (simp add: guard_def)

lemma guard_Cons [simp]: "guard ((b, e) # cs) x = (if b then Inl e else guard cs x)"
  by (simp add: guard_def)

section \<open>Deletions\<close>

text \<open>\<open>ON DELETE CASCADE\<close> and \<open>ON DELETE SET NULL\<close>, table by table.\<close>

definition delete_ops :: "(op_row \<Rightarrow> bool) \<Rightarrow> database \<Rightarrow> database" where
  "delete_ops P db =
     (let gone = col opr_id (filter P (db_ops db))
      in db\<lparr>db_ops := filter (\<lambda>r. \<not> P r) (db_ops db),
            db_entries := map (\<lambda>r. if \<exists>i \<in> gone. fer_pending_op_id r = Some i
                                    then r\<lparr>fer_pending_op_id := None\<rparr> else r) (db_entries db)\<rparr>)"

definition delete_runs :: "(run_row \<Rightarrow> bool) \<Rightarrow> database \<Rightarrow> database" where
  "delete_runs P db =
     (let gone = col srr_id (filter P (db_runs db))
      in delete_ops (\<lambda>r. opr_run_id r \<in> gone)
           (db\<lparr>db_runs := filter (\<lambda>r. \<not> P r) (db_runs db)\<rparr>))"

definition delete_pairs :: "(pair_row \<Rightarrow> bool) \<Rightarrow> database \<Rightarrow> database" where
  "delete_pairs P db =
     (let gone = col prr_id (filter P (db_pairs db))
      in delete_ops (\<lambda>r. opr_pair_id r \<in> gone)
           (delete_runs (\<lambda>r. srr_pair_id r \<in> gone)
             (db\<lparr>db_pairs := filter (\<lambda>r. \<not> P r) (db_pairs db),
                 db_entries := filter (\<lambda>r. fer_pair_id r \<notin> gone) (db_entries db),
                 db_conflicts := filter (\<lambda>r. cfr_pair_id r \<notin> gone) (db_conflicts db),
                 db_audit := map (\<lambda>r. if \<exists>i \<in> gone. evr_pair_id r = Some i
                                       then r\<lparr>evr_pair_id := None\<rparr> else r) (db_audit db)\<rparr>)))"

definition delete_accounts :: "(account_row \<Rightarrow> bool) \<Rightarrow> database \<Rightarrow> database" where
  "delete_accounts P db =
     (let gone = col acr_id (filter P (db_accounts db))
      in delete_pairs (\<lambda>r. prr_account_id r \<in> gone)
           (db\<lparr>db_accounts := filter (\<lambda>r. \<not> P r) (db_accounts db)\<rparr>))"

section \<open>Statements\<close>

definition pair_exists :: "string \<Rightarrow> database \<Rightarrow> bool" where
  "pair_exists i db \<longleftrightarrow> i \<in> col prr_id (db_pairs db)"

definition merge_account :: "account_row \<Rightarrow> account_row \<Rightarrow> account_row" where
  "merge_account old new = new\<lparr>acr_id := acr_id old, acr_created_at := acr_created_at old\<rparr>"

definition upsert_account :: "account_row \<Rightarrow> unit statement" where
  [stmt_defs]: "upsert_account r db =
     guard [(acr_kind r \<notin> {''personal'', ''business''}, CheckViolation ''kind''),
            (clashes acr_id (\<lambda>_. True) acr_upn r (db_accounts db), UniqueViolation ''accounts.upn'')]
       ((), db\<lparr>db_accounts := upsert_row acr_id merge_account r (db_accounts db)\<rparr>)"

definition merge_pair :: "pair_row \<Rightarrow> pair_row \<Rightarrow> pair_row" where
  "merge_pair old new = new\<lparr>prr_id := prr_id old, prr_created_at := prr_created_at old\<rparr>"

definition live_row :: "pair_row \<Rightarrow> bool" where
  "live_row r \<longleftrightarrow> prr_status r \<noteq> ''removed''"

definition upsert_pair :: "pair_row \<Rightarrow> unit statement" where
  [stmt_defs]: "upsert_pair r db =
     guard [(prr_status r \<notin> {''initializing'', ''active'', ''paused'', ''errored'', ''removed''}, CheckViolation ''status''),
            (clashes prr_id live_row prr_local_path r (db_pairs db), UniqueViolation ''pairs.local_path''),
            (clashes prr_id live_row (\<lambda>p. (prr_account_id p, prr_remote_item_id p)) r (db_pairs db),
             UniqueViolation ''pairs.account_id, pairs.remote_item_id''),
            (prr_account_id r \<notin> col acr_id (db_accounts db), ForeignKeyViolation)]
       ((), db\<lparr>db_pairs := upsert_row prr_id merge_pair r (db_pairs db)\<rparr>)"

definition entry_row_key :: "entry_row \<Rightarrow> string \<times> string" where
  "entry_row_key r = (fer_pair_id r, fer_relative_path r)"

definition upsert_entry :: "entry_row \<Rightarrow> unit statement" where
  [stmt_defs]: "upsert_entry r db =
     guard [(fer_kind r \<notin> {''file'', ''directory''}, CheckViolation ''kind''),
            (fer_sync_state r \<notin> {''clean'', ''dirty'', ''pending_upload'', ''pending_download'',
                                 ''pending_conflict'', ''in_flight''}, CheckViolation ''sync_state''),
            (\<not> pair_exists (fer_pair_id r) db, ForeignKeyViolation),
            (\<exists>i \<in> set_option (fer_pending_op_id r). i \<notin> col opr_id (db_ops db), ForeignKeyViolation)]
       ((), db\<lparr>db_entries := upsert_row entry_row_key (\<lambda>old new. new) r (db_entries db)\<rparr>)"

definition merge_run :: "run_row \<Rightarrow> run_row \<Rightarrow> run_row" where
  "merge_run old new = new\<lparr>srr_id := srr_id old, srr_pair_id := srr_pair_id old,
     srr_trigger := srr_trigger old, srr_started_at := srr_started_at old\<rparr>"

definition record_run :: "run_row \<Rightarrow> unit statement" where
  [stmt_defs]: "record_run r db =
     guard [(srr_id r \<notin> col srr_id (db_runs db) \<and> \<not> pair_exists (srr_pair_id r) db, ForeignKeyViolation)]
       ((), db\<lparr>db_runs := upsert_row srr_id merge_run r (db_runs db)\<rparr>)"

definition insert_op :: "op_row \<Rightarrow> unit statement" where
  [stmt_defs]: "insert_op r db =
     guard [(opr_id r \<in> col opr_id (db_ops db), UniqueViolation ''file_ops.id''),
            (opr_run_id r \<notin> col srr_id (db_runs db), ForeignKeyViolation),
            (\<not> pair_exists (opr_pair_id r) db, ForeignKeyViolation)]
       ((), db\<lparr>db_ops := db_ops db @ [r]\<rparr>)"

definition insert_conflict :: "conflict_row \<Rightarrow> unit statement" where
  [stmt_defs]: "insert_conflict r db =
     guard [(cfr_winner r \<notin> {''local'', ''remote''}, CheckViolation ''winner''),
            (cfr_id r \<in> col cfr_id (db_conflicts db), UniqueViolation ''conflicts.id''),
            (\<not> pair_exists (cfr_pair_id r) db, ForeignKeyViolation)]
       ((), db\<lparr>db_conflicts := db_conflicts db @ [r]\<rparr>)"

definition insert_audit :: "audit_row \<Rightarrow> unit statement" where
  [stmt_defs]: "insert_audit r db =
     guard [(evr_level r \<notin> {''info'', ''warn'', ''error''}, CheckViolation ''level''),
            (evr_id r \<in> col evr_id (db_audit db), UniqueViolation ''audit_events.id''),
            (\<exists>i \<in> set_option (evr_pair_id r). \<not> pair_exists i db, ForeignKeyViolation)]
       ((), db\<lparr>db_audit := db_audit db @ [r]\<rparr>)"

definition upsert_config :: "config_row \<Rightarrow> unit statement" where
  [stmt_defs]: "upsert_config r db = Inr ((), db\<lparr>db_config := Some r\<rparr>)"

text \<open>\<open>INSERT OR IGNORE\<close> of the default configuration; the other columns have defaults.\<close>

definition default_config_row :: "string \<Rightarrow> config_row" where
  "default_config_row now =
     \<lparr>icr_log_level = ''info'', icr_notify = 1, icr_allow_metered = 0, icr_min_free_gib = 2,
      icr_updated_at = now, icr_azure_ad_client_id = [], icr_webhook_listener_port = None,
      icr_webhook_notification_url = None\<rparr>"

definition insert_default_config :: "string \<Rightarrow> unit statement" where
  [stmt_defs]: "insert_default_config now db =
     Inr ((), case db_config db of None \<Rightarrow> db\<lparr>db_config := Some (default_config_row now)\<rparr> | Some _ \<Rightarrow> db)"

text \<open>\<open>UPDATE file_ops\<close> with \<open>COALESCE(started_at, ?)\<close>, and \<open>UPDATE conflicts\<close>.\<close>

definition coalesce :: "'a option \<Rightarrow> 'a option \<Rightarrow> 'a option" where
  "coalesce a b = (case a of None \<Rightarrow> b | Some x \<Rightarrow> Some x)"

definition set_op_status ::
  "string \<Rightarrow> string \<Rightarrow> int \<Rightarrow> string option \<Rightarrow> string option \<Rightarrow> unit statement" where
  [stmt_defs]: "set_op_status i status attempts started finished db =
     Inr ((), db\<lparr>db_ops := map (\<lambda>r. if opr_id r = i
        then r\<lparr>opr_status := status, opr_attempts := attempts,
               opr_started_at := coalesce (opr_started_at r) started, opr_finished_at := finished\<rparr>
        else r) (db_ops db)\<rparr>)"

definition set_conflict_resolved ::
  "string \<Rightarrow> string \<Rightarrow> string \<Rightarrow> string option \<Rightarrow> unit statement" where
  [stmt_defs]: "set_conflict_resolved i resolved_at resolution note db =
     Inr ((), db\<lparr>db_conflicts := map (\<lambda>r. if cfr_id r = i
        then r\<lparr>cfr_resolved_at := Some resolved_at, cfr_resolution := Some resolution,
               cfr_note := coalesce note (cfr_note r)\<rparr>
        else r) (db_conflicts db)\<rparr>)"

text \<open>A \<open>DELETE\<close> returns the number of rows it names, cascaded ones not counted.\<close>

definition delete_stmt ::
  "(database \<Rightarrow> 'r list) \<Rightarrow> (('r \<Rightarrow> bool) \<Rightarrow> database \<Rightarrow> database) \<Rightarrow> ('r \<Rightarrow> bool) \<Rightarrow> nat statement" where
  [stmt_defs]: "delete_stmt table del P db = Inr (length (filter P (table db)), del P db)"

definition query :: "(database \<Rightarrow> 'a) \<Rightarrow> 'a statement" where
  [stmt_defs]: "query f db = Inr (f db, db)"

section \<open>Referential integrity\<close>

text \<open>Two rows that a unique index compares and that agree on its columns are one row.\<close>

definition unique_on :: "('r \<Rightarrow> 'k) \<Rightarrow> ('r \<Rightarrow> bool) \<Rightarrow> ('r \<Rightarrow> 'v) \<Rightarrow> 'r list \<Rightarrow> bool" where
  "unique_on key P f t \<longleftrightarrow> (\<forall>x \<in> set t. \<forall>y \<in> set t. P x \<and> P y \<and> f x = f y \<longrightarrow> key x = key y)"

definition keys_ok :: "database \<Rightarrow> bool" where
  "keys_ok db \<longleftrightarrow>
     distinct (map acr_id (db_accounts db)) \<and> distinct (map prr_id (db_pairs db))
     \<and> distinct (map srr_id (db_runs db)) \<and> distinct (map opr_id (db_ops db))
     \<and> distinct (map entry_row_key (db_entries db)) \<and> distinct (map cfr_id (db_conflicts db))
     \<and> distinct (map evr_id (db_audit db))"

definition uniques_ok :: "database \<Rightarrow> bool" where
  "uniques_ok db \<longleftrightarrow>
     unique_on acr_id (\<lambda>_. True) acr_upn (db_accounts db)
     \<and> unique_on prr_id live_row prr_local_path (db_pairs db)
     \<and> unique_on prr_id live_row (\<lambda>p. (prr_account_id p, prr_remote_item_id p)) (db_pairs db)"

definition refs_ok :: "database \<Rightarrow> bool" where
  "refs_ok db \<longleftrightarrow>
     col prr_account_id (db_pairs db) \<subseteq> col acr_id (db_accounts db)
     \<and> col srr_pair_id (db_runs db) \<subseteq> col prr_id (db_pairs db)
     \<and> col opr_run_id (db_ops db) \<subseteq> col srr_id (db_runs db)
     \<and> col opr_pair_id (db_ops db) \<subseteq> col prr_id (db_pairs db)
     \<and> col fer_pair_id (db_entries db) \<subseteq> col prr_id (db_pairs db)
     \<and> opt_col fer_pending_op_id (db_entries db) \<subseteq> col opr_id (db_ops db)
     \<and> col cfr_pair_id (db_conflicts db) \<subseteq> col prr_id (db_pairs db)
     \<and> opt_col evr_pair_id (db_audit db) \<subseteq> col prr_id (db_pairs db)"

definition db_ok :: "database \<Rightarrow> bool" where
  "db_ok db \<longleftrightarrow> keys_ok db \<and> uniques_ok db \<and> refs_ok db"

lemma upsert_row_member:
  "x \<in> set (upsert_row key merge r t) \<Longrightarrow>
     x \<in> set t \<and> key x \<noteq> key r \<or> x = r \<or> (\<exists>old \<in> set t. key old = key r \<and> x = merge old r)"
proof (cases "key r \<in> col key t")
  case False
  then have "y \<in> set t \<Longrightarrow> key y \<noteq> key r" for y by (metis col_def imageI)
  then show "x \<in> set (upsert_row key merge r t) \<Longrightarrow> ?thesis" using False by (auto simp: upsert_row_def)
qed (auto simp: upsert_row_def)

lemma col_simps [simp]:
  "col f [] = {}" "col f (r # t) = insert (f r) (col f t)" "col f (t @ [r]) = insert (f r) (col f t)"
  "opt_col g (t @ [r]) = opt_col g t \<union> set_option (g r)" "opt_col g [] = {}"
  by (auto simp: col_def opt_col_def)

lemma col_map [simp]: "(\<And>r. f (g r) = f r) \<Longrightarrow> col f (map g t) = col f t"
  by (simp add: col_def image_image)

lemma col_filter: "col f (filter P t) \<subseteq> col f t"
  by (auto simp: col_def)

lemma opt_col_filter_mono: "opt_col f t \<subseteq> A \<Longrightarrow> opt_col f (filter P t) \<subseteq> A"
  by (auto simp: opt_col_def)

lemma upsert_row_keys:
  assumes "\<And>old. key (merge old r) = key old"
  shows "col key (upsert_row key merge r t) = insert (key r) (col key t)"
  using assms by (auto simp: upsert_row_def)

lemma upsert_row_col:
  assumes "\<And>old. f (merge old r) = f r \<or> f (merge old r) = f old"
  shows "col f (upsert_row key merge r t) \<subseteq> insert (f r) (col f t)"
proof
  fix v
  assume "v \<in> col f (upsert_row key merge r t)"
  then obtain x where "x \<in> set (upsert_row key merge r t)" "v = f x" by (auto simp: col_def)
  with upsert_row_member [OF this(1)] assms show "v \<in> insert (f r) (col f t)"
    by (auto simp: col_def)
qed

lemma upsert_row_distinct:
  assumes "\<And>old. key (merge old r) = key old" and "distinct (map key t)"
  shows "distinct (map key (upsert_row key merge r t))"
proof -
  have "map key (map (\<lambda>old. if key old = key r then merge old r else old) t) = map key t"
    using assms(1) by simp
  with assms(2) show ?thesis by (auto simp: upsert_row_def col_def simp del: map_map)
qed

lemma upsert_row_unique:
  assumes "\<And>old. key (merge old r) = key old" "\<And>old. P (merge old r) = P r" "\<And>old. f (merge old r) = f r"
    and "unique_on key P f t" and "\<not> clashes key P f r t"
  shows "unique_on key P f (upsert_row key merge r t)"
  unfolding unique_on_def
proof (intro ballI impI, elim conjE)
  fix x y
  assume xy: "x \<in> set (upsert_row key merge r t)" "y \<in> set (upsert_row key merge r t)" "P x" "P y" "f x = f y"
  have shape: "z \<in> set t \<and> key z \<noteq> key r \<or> key z = key r \<and> P z = P r \<and> f z = f r"
    if "z \<in> set (upsert_row key merge r t)" for z
    using upsert_row_member [OF that] assms(1-3) by auto
  show "key x = key y"
    using shape [OF xy(1)] shape [OF xy(2)] xy(3-5) assms(4,5) unfolding unique_on_def clashes_def by metis
qed

lemma merge_simps [simp]:
  "acr_id (merge_account o1 n1) = acr_id o1" "acr_upn (merge_account o1 n1) = acr_upn n1"
  "prr_id (merge_pair o2 n2) = prr_id o2" "live_row (merge_pair o2 n2) = live_row n2"
  "prr_local_path (merge_pair o2 n2) = prr_local_path n2"
  "prr_account_id (merge_pair o2 n2) = prr_account_id n2"
  "prr_remote_item_id (merge_pair o2 n2) = prr_remote_item_id n2"
  "srr_id (merge_run o3 n3) = srr_id o3" "srr_pair_id (merge_run o3 n3) = srr_pair_id o3"
  by (simp_all add: merge_account_def merge_pair_def merge_run_def live_row_def)

lemmas integrity_defs = db_ok_def keys_ok_def uniques_ok_def refs_ok_def pair_exists_def

lemma upsert_account_ok: "db_ok db \<Longrightarrow> upsert_account r db = Inr (u, db') \<Longrightarrow> db_ok db'"
  by (auto simp: upsert_account_def integrity_defs upsert_row_keys upsert_row_distinct
      intro!: upsert_row_unique split: if_splits)

lemma upsert_pair_ok:
  assumes "db_ok db" and "upsert_pair r db = Inr (u, db')"
  shows "db_ok db'"
proof -
  have "col prr_account_id (upsert_row prr_id merge_pair r (db_pairs db)) \<subseteq> col acr_id (db_accounts db)"
    using upsert_row_col [of prr_account_id merge_pair r prr_id "db_pairs db"] assms
    by (auto simp: upsert_pair_def integrity_defs split: if_splits)
  moreover have "unique_on prr_id live_row prr_local_path (upsert_row prr_id merge_pair r (db_pairs db))"
    "unique_on prr_id live_row (\<lambda>p. (prr_account_id p, prr_remote_item_id p))
       (upsert_row prr_id merge_pair r (db_pairs db))"
    using assms by (auto simp: upsert_pair_def db_ok_def uniques_ok_def intro!: upsert_row_unique split: if_splits)
  ultimately show ?thesis
    using assms by (auto simp: upsert_pair_def integrity_defs upsert_row_keys upsert_row_distinct split: if_splits)
qed

lemma replace_row_keys: "map key (map (\<lambda>old. if key old = key r then r else old) t) = map key t"
  by simp

lemma opt_col_replace:
  "opt_col f (upsert_row key (\<lambda>old new. new) r t) \<subseteq> set_option (f r) \<union> opt_col f t"
  by (auto simp: opt_col_def dest!: upsert_row_member)

lemma upsert_entry_ok:
  assumes "db_ok db" and "upsert_entry r db = Inr (u, db')"
  shows "db_ok db'"
proof -
  let ?t = "upsert_row entry_row_key (\<lambda>old new. new) r (db_entries db)"
  have "col fer_pair_id ?t \<subseteq> col prr_id (db_pairs db)"
    using upsert_row_col [of fer_pair_id "\<lambda>old new. new" r entry_row_key "db_entries db"] assms
    by (auto simp: upsert_entry_def integrity_defs split: if_splits)
  moreover have "opt_col fer_pending_op_id ?t \<subseteq> col opr_id (db_ops db)"
    using opt_col_replace [of fer_pending_op_id entry_row_key r "db_entries db"] assms
    by (auto simp: upsert_entry_def integrity_defs split: if_splits)
  moreover have "distinct (map entry_row_key ?t)"
    using assms(1) replace_row_keys [of entry_row_key r "db_entries db"]
    by (auto simp: upsert_row_def integrity_defs col_def simp del: map_map)
  ultimately show ?thesis
    using assms by (auto simp: upsert_entry_def integrity_defs split: if_splits)
qed

lemma record_run_ok:
  assumes "db_ok db" and "record_run r db = Inr (u, db')"
  shows "db_ok db'"
proof -
  have "col srr_pair_id (upsert_row srr_id merge_run r (db_runs db)) \<subseteq> col prr_id (db_pairs db)"
  proof (cases "srr_id r \<in> col srr_id (db_runs db)")
    case True
    then have "col srr_pair_id (upsert_row srr_id merge_run r (db_runs db)) = col srr_pair_id (db_runs db)"
      by (simp add: upsert_row_def)
    then show ?thesis using assms(1) by (simp add: integrity_defs)
  next
    case False
    then show ?thesis using assms by (auto simp: upsert_row_def record_run_def integrity_defs split: if_splits)
  qed
  then show ?thesis
    using assms by (auto simp: record_run_def integrity_defs upsert_row_keys upsert_row_distinct split: if_splits)
qed

lemma insert_ok:
  "db_ok db \<Longrightarrow> insert_op r1 db = Inr (u, db') \<Longrightarrow> db_ok db'"
  "db_ok db \<Longrightarrow> insert_conflict r2 db = Inr (u, db') \<Longrightarrow> db_ok db'"
  "db_ok db \<Longrightarrow> insert_audit r3 db = Inr (u, db') \<Longrightarrow> db_ok db'"
  by (auto simp: insert_op_def insert_conflict_def insert_audit_def integrity_defs col_def [of opr_id]
      col_def [of cfr_id] col_def [of evr_id] split: if_splits)

lemma config_stmts_ok:
  "db_ok db \<Longrightarrow> upsert_config r db = Inr (u, db') \<Longrightarrow> db_ok db'"
  "db_ok db \<Longrightarrow> insert_default_config now db = Inr (u, db') \<Longrightarrow> db_ok db'"
  by (auto simp: upsert_config_def insert_default_config_def integrity_defs split: option.splits)

text \<open>A row that an update changes keeps its key.\<close>

lemma key_if [simp]:
  "opr_id (if b then r\<lparr>opr_status := st, opr_attempts := n, opr_started_at := s, opr_finished_at := f\<rparr> else r) = opr_id r"
  "opr_run_id (if b then r\<lparr>opr_status := st, opr_attempts := n, opr_started_at := s, opr_finished_at := f\<rparr> else r) = opr_run_id r"
  "opr_pair_id (if b then r\<lparr>opr_status := st, opr_attempts := n, opr_started_at := s, opr_finished_at := f\<rparr> else r) = opr_pair_id r"
  "cfr_id (if b then c\<lparr>cfr_resolved_at := t, cfr_resolution := res, cfr_note := nt\<rparr> else c) = cfr_id c"
  "cfr_pair_id (if b then c\<lparr>cfr_resolved_at := t, cfr_resolution := res, cfr_note := nt\<rparr> else c) = cfr_pair_id c"
  "fer_pair_id (if b then e\<lparr>fer_pending_op_id := None\<rparr> else e) = fer_pair_id e"
  "entry_row_key (if b then e\<lparr>fer_pending_op_id := None\<rparr> else e) = entry_row_key e"
  "evr_id (if b then v\<lparr>evr_pair_id := None\<rparr> else v) = evr_id v"
  by (simp_all add: entry_row_key_def)

lemma update_stmts_ok:
  "db_ok db \<Longrightarrow> set_op_status i st n s f db = Inr (u, db') \<Longrightarrow> db_ok db'"
  "db_ok db \<Longrightarrow> set_conflict_resolved ci t res note db = Inr (u, db') \<Longrightarrow> db_ok db'"
  by (auto simp: set_op_status_def set_conflict_resolved_def integrity_defs comp_def)

section \<open>Deletions keep integrity\<close>

lemma unique_on_filter: "unique_on key P f t \<Longrightarrow> unique_on key P f (filter Q t)"
  by (simp add: unique_on_def)

lemma col_rest:
  assumes "distinct (map key t)"
  shows "col key (filter (\<lambda>r. \<not> P r) t) = col key t - col key (filter P t)"
  using assms by (auto simp: col_def distinct_map inj_on_def)

lemma col_keep_ref: "col f (filter (\<lambda>r. f r \<notin> gone) t) = col f t - gone"
  by (auto simp: col_def)

lemma opt_col_null:
  "opt_col f (map (\<lambda>r. if \<exists>i \<in> gone. f r = Some i then g r else r) t)
     = opt_col f t - gone" if "\<And>r. f (g r) = None"
  using that by (auto simp: opt_col_def split: if_splits)

lemma delete_ops_ok: "db_ok db \<Longrightarrow> db_ok (delete_ops P db)"
  using col_filter [of opr_run_id "\<lambda>r. \<not> P r" "db_ops db"] col_filter [of opr_pair_id "\<lambda>r. \<not> P r" "db_ops db"]
  by (auto simp: delete_ops_def Let_def integrity_defs distinct_map_filter col_rest comp_def opt_col_null)

lemma delete_ops_frame [simp]:
  "db_accounts (delete_ops P db) = db_accounts db" "db_pairs (delete_ops P db) = db_pairs db"
  "db_runs (delete_ops P db) = db_runs db" "db_conflicts (delete_ops P db) = db_conflicts db"
  "db_audit (delete_ops P db) = db_audit db" "db_config (delete_ops P db) = db_config db"
  "db_ops (delete_ops P db) = filter (\<lambda>r. \<not> P r) (db_ops db)"
  "map entry_row_key (db_entries (delete_ops P db)) = map entry_row_key (db_entries db)"
  "col fer_pair_id (db_entries (delete_ops P db)) = col fer_pair_id (db_entries db)"
  "opt_col fer_pending_op_id (db_entries (delete_ops P db))
     = opt_col fer_pending_op_id (db_entries db) - col opr_id (filter P (db_ops db))"
  by (simp_all add: delete_ops_def Let_def opt_col_null comp_def)

lemma delete_runs_frame [simp]:
  "db_accounts (delete_runs P db) = db_accounts db" "db_pairs (delete_runs P db) = db_pairs db"
  "db_conflicts (delete_runs P db) = db_conflicts db" "db_audit (delete_runs P db) = db_audit db"
  "db_config (delete_runs P db) = db_config db"
  "db_runs (delete_runs P db) = filter (\<lambda>r. \<not> P r) (db_runs db)"
  "db_ops (delete_runs P db) = filter (\<lambda>r. opr_run_id r \<notin> col srr_id (filter P (db_runs db))) (db_ops db)"
  "map entry_row_key (db_entries (delete_runs P db)) = map entry_row_key (db_entries db)"
  "col fer_pair_id (db_entries (delete_runs P db)) = col fer_pair_id (db_entries db)"
  "opt_col fer_pending_op_id (db_entries (delete_runs P db)) = opt_col fer_pending_op_id (db_entries db)
     - col opr_id (filter (\<lambda>r. opr_run_id r \<in> col srr_id (filter P (db_runs db))) (db_ops db))"
  by (simp_all add: delete_runs_def Let_def)

lemma col_filter_mono: "A \<supseteq> col f t \<Longrightarrow> A \<supseteq> col f (filter P t)"
  using col_filter [of f P t] by blast

lemma pending_rest:
  assumes "distinct (map key t)" and "A \<subseteq> col key t"
  shows "A - col key (filter P t) \<subseteq> col key (filter (\<lambda>r. \<not> P r) t)"
  using assms by (auto simp: col_rest)

lemma delete_runs_ok:
  assumes "db_ok db" shows "db_ok (delete_runs P db)"
proof -
  have "col opr_run_id (db_ops (delete_runs P db)) \<subseteq> col srr_id (db_runs (delete_runs P db))"
    using assms by (auto simp: integrity_defs col_keep_ref col_rest)
  moreover have "opt_col fer_pending_op_id (db_entries (delete_runs P db)) \<subseteq> col opr_id (db_ops (delete_runs P db))"
    using assms by (simp add: integrity_defs pending_rest)
  ultimately show ?thesis
    using assms unfolding integrity_defs
    by (simp add: distinct_map_filter col_filter_mono)
qed

lemma delete_pairs_ok:
  assumes "db_ok db" shows "db_ok (delete_pairs P db)"
proof -
  define gone where "gone = col prr_id (filter P (db_pairs db))"
  define db1 where "db1 = db\<lparr>db_pairs := filter (\<lambda>r. \<not> P r) (db_pairs db),
      db_entries := filter (\<lambda>r. fer_pair_id r \<notin> gone) (db_entries db),
      db_conflicts := filter (\<lambda>r. cfr_pair_id r \<notin> gone) (db_conflicts db),
      db_audit := map (\<lambda>r. if \<exists>i \<in> gone. evr_pair_id r = Some i then r\<lparr>evr_pair_id := None\<rparr> else r) (db_audit db)\<rparr>"
  define db2 where "db2 = delete_runs (\<lambda>r. srr_pair_id r \<in> gone) db1"
  have d: "delete_pairs P db = delete_ops (\<lambda>r. opr_pair_id r \<in> gone) db2"
    by (simp add: delete_pairs_def Let_def gone_def db1_def db2_def)
  have pairs: "col prr_id (filter (\<lambda>r. \<not> P r) (db_pairs db)) = col prr_id (db_pairs db) - gone"
    using assms by (simp add: gone_def col_rest integrity_defs)
  have runs: "db_runs db2 = filter (\<lambda>r. srr_pair_id r \<notin> gone) (db_runs db)" by (simp add: db1_def db2_def)
  have ops: "db_ops (delete_pairs P db) = filter (\<lambda>r. opr_pair_id r \<notin> gone) (db_ops db2)" by (simp add: d)
  have ops2: "col opr_run_id (db_ops db2) \<subseteq> col srr_id (db_runs db2)"
    using assms by (auto simp: db2_def db1_def integrity_defs col_keep_ref col_rest [where P = "\<lambda>r. srr_pair_id r \<in> gone"])
  have pend: "opt_col fer_pending_op_id (db_entries db2) \<subseteq> col opr_id (db_ops db2)"
  proof -
    have "opt_col fer_pending_op_id (db_entries db1) \<subseteq> col opr_id (db_ops db1)"
      using assms by (simp add: db1_def integrity_defs opt_col_filter_mono)
    then show ?thesis using assms by (simp add: db2_def db1_def integrity_defs pending_rest)
  qed
  have "col opr_pair_id (db_ops db2) \<subseteq> col prr_id (db_pairs db)"
    using assms by (simp add: db2_def db1_def integrity_defs col_filter_mono)
  then have "col opr_pair_id (db_ops (delete_pairs P db)) \<subseteq> col prr_id (db_pairs db) - gone"
    by (auto simp: ops col_keep_ref)
  moreover have "col srr_pair_id (db_runs db2) \<subseteq> col prr_id (db_pairs db) - gone"
    using assms by (auto simp: runs col_keep_ref integrity_defs)
  moreover have "opt_col fer_pending_op_id (db_entries (delete_pairs P db)) \<subseteq> col opr_id (db_ops (delete_pairs P db))"
  proof -
    have "distinct (map opr_id (db_ops db2))"
      using assms by (simp add: db2_def db1_def integrity_defs distinct_map_filter)
    from pending_rest [OF this pend] show ?thesis by (simp add: d)
  qed
  moreover have "col opr_run_id (db_ops (delete_pairs P db)) \<subseteq> col srr_id (db_runs db2)"
    unfolding ops using ops2 by (rule col_filter_mono)
  ultimately show ?thesis
    using assms pairs unfolding integrity_defs
    by (simp add: d db2_def db1_def distinct_map_filter col_filter_mono col_keep_ref opt_col_null unique_on_filter
        Diff_mono comp_def)
qed

lemma delete_pairs_frame [simp]:
  "db_accounts (delete_pairs P db) = db_accounts db"
  "db_pairs (delete_pairs P db) = filter (\<lambda>r. \<not> P r) (db_pairs db)"
  "db_config (delete_pairs P db) = db_config db"
  "delete_pairs P (db\<lparr>db_accounts := A\<rparr>) = (delete_pairs P db)\<lparr>db_accounts := A\<rparr>"
  by (simp_all add: delete_pairs_def delete_runs_def delete_ops_def Let_def)

lemma delete_accounts_ok:
  assumes "db_ok db"
  shows "db_ok (delete_accounts P db)"
proof -
  let ?gone = "col acr_id (filter P (db_accounts db))"
  let ?db = "delete_pairs (\<lambda>r. prr_account_id r \<in> ?gone) db"
  have d: "delete_accounts P db = ?db\<lparr>db_accounts := filter (\<lambda>r. \<not> P r) (db_accounts db)\<rparr>"
    by (simp add: delete_accounts_def Let_def)
  have ok: "db_ok ?db" using assms by (rule delete_pairs_ok)
  have "col prr_account_id (db_pairs ?db) \<subseteq> col acr_id (filter (\<lambda>r. \<not> P r) (db_accounts db))"
    using assms by (auto simp: col_keep_ref col_rest integrity_defs)
  with ok show ?thesis
    unfolding d integrity_defs by (simp add: distinct_map_filter unique_on_filter)
qed

text \<open>One statement that succeeds.\<close>

inductive sql_step :: "database \<Rightarrow> database \<Rightarrow> bool" where
  sql_upsert_account: "upsert_account a db = Inr (u, db') \<Longrightarrow> sql_step db db'"
| sql_upsert_pair: "upsert_pair p db = Inr (u, db') \<Longrightarrow> sql_step db db'"
| sql_upsert_entry: "upsert_entry e db = Inr (u, db') \<Longrightarrow> sql_step db db'"
| sql_record_run: "record_run r db = Inr (u, db') \<Longrightarrow> sql_step db db'"
| sql_insert_op: "insert_op op db = Inr (u, db') \<Longrightarrow> sql_step db db'"
| sql_set_op_status: "set_op_status i st n s f db = Inr (u, db') \<Longrightarrow> sql_step db db'"
| sql_insert_conflict: "insert_conflict c db = Inr (u, db') \<Longrightarrow> sql_step db db'"
| sql_set_resolved: "set_conflict_resolved ci t res note db = Inr (u, db') \<Longrightarrow> sql_step db db'"
| sql_insert_audit: "insert_audit ev db = Inr (u, db') \<Longrightarrow> sql_step db db'"
| sql_upsert_config: "upsert_config cfg db = Inr (u, db') \<Longrightarrow> sql_step db db'"
| sql_default_config: "insert_default_config now db = Inr (u, db') \<Longrightarrow> sql_step db db'"
| sql_delete_accounts: "delete_stmt db_accounts delete_accounts PA db = Inr (n, db') \<Longrightarrow> sql_step db db'"
| sql_delete_pairs: "delete_stmt db_pairs delete_pairs PP db = Inr (n, db') \<Longrightarrow> sql_step db db'"
| sql_delete_runs: "delete_stmt db_runs delete_runs PR db = Inr (n, db') \<Longrightarrow> sql_step db db'"
| sql_delete_conflicts:
    "delete_stmt db_conflicts (\<lambda>P db. db\<lparr>db_conflicts := filter (\<lambda>r. \<not> P r) (db_conflicts db)\<rparr>) PC db
       = Inr (n, db') \<Longrightarrow> sql_step db db'"
| sql_delete_audit:
    "delete_stmt db_audit (\<lambda>P db. db\<lparr>db_audit := filter (\<lambda>r. \<not> P r) (db_audit db)\<rparr>) PV db
       = Inr (n, db') \<Longrightarrow> sql_step db db'"

lemma delete_rows_ok:
  "db_ok db \<Longrightarrow> db_ok (db\<lparr>db_conflicts := filter P (db_conflicts db)\<rparr>)"
  "db_ok db \<Longrightarrow> db_ok (db\<lparr>db_audit := filter Q (db_audit db)\<rparr>)"
  by (simp_all add: integrity_defs distinct_map_filter col_filter_mono opt_col_filter_mono)

lemma sql_step_ok: "sql_step db db' \<Longrightarrow> db_ok db \<Longrightarrow> db_ok db'"
  by (induction rule: sql_step.induct)
     (auto simp: delete_stmt_def intro: upsert_account_ok upsert_pair_ok upsert_entry_ok record_run_ok insert_ok
       update_stmts_ok config_stmts_ok delete_accounts_ok delete_pairs_ok delete_runs_ok delete_rows_ok)

lemma empty_database_ok: "db_ok empty_database"
  by (simp add: integrity_defs empty_database_def unique_on_def)

end
