(* ===== verification/Sql_Adapter.thy ===== *)
theory Sql_Adapter
  imports Sql_Store Engine_Limits
begin

text \<open>
  The functions of \<open>queries/\<close>, \<open>retention.rs\<close>, \<open>connection.rs\<close> and \<open>store.rs\<close> over the
  statements: encode the parameters, run the statement, decode the rows; every operation of the
  store runs on a connection of the pool in a blocking task.
\<close>

named_theorems store_ops \<open>the operations of the store on a connection\<close>

section \<open>Running statements\<close>

record 'x sql_world =
  sw_db :: database
  sw_ext :: 'x

text \<open>
  \<open>se_fault\<close>: whether a statement fails for a reason outside the model (busy, I/O), with its
  message; \<open>se_pool\<close> and \<open>se_join\<close>: failures of the pool and of the blocking task;
  \<open>se_now\<close>: the wall clock that the store itself reads; \<open>se_vacuum_into\<close>: the copy made by
  \<open>VACUUM INTO\<close>.
\<close>

record 'x sql_env =
  se_fault :: "'x \<Rightarrow> string option \<times> 'x"
  se_pool :: "'x \<Rightarrow> string option \<times> 'x"
  se_join :: "'x \<Rightarrow> string option \<times> 'x"
  se_migrate :: "'x \<Rightarrow> string option \<times> 'x"
  se_now :: "'x \<Rightarrow> timestamp \<times> 'x"
  se_vacuum_into :: "path_buf \<Rightarrow> database \<Rightarrow> 'x \<Rightarrow> 'x"

type_synonym ('x, 'e, 'a) sql_io = "('x sql_world, 'e, 'a) io"

definition ask :: "('x \<Rightarrow> 'a \<times> 'x) \<Rightarrow> ('x, 'e, 'a) sql_io" where
  "ask f w = (case f (sw_ext w) of (a, x) \<Rightarrow> (Inr a, w\<lparr>sw_ext := x\<rparr>))"

definition may_fail :: "('x \<Rightarrow> string option \<times> 'x) \<Rightarrow> (string \<Rightarrow> 'e) \<Rightarrow> ('x, 'e, unit) sql_io" where
  "may_fail f g = bindE (ask f) (\<lambda>r. case r of None \<Rightarrow> returnE () | Some e \<Rightarrow> throwE (g e))"

definition on_db :: "'a statement \<Rightarrow> ('x, sql_error, 'a) sql_io" where
  "on_db f w = (case f (sw_db w) of Inl e \<Rightarrow> (Inl e, w) | Inr (a, db) \<Rightarrow> (Inr a, w\<lparr>sw_db := db\<rparr>))"

definition statement :: "'x sql_env \<Rightarrow> 'a statement \<Rightarrow> ('x, sql_error, 'a) sql_io" where
  "statement E f = bindE (may_fail (se_fault E) StatementFailure) (\<lambda>_. on_db f)"

text \<open>\<open>map_err(|e| StateStoreError::Sqlite(e.to_string()))\<close>.\<close>

definition to_store_error :: "sql_lib \<Rightarrow> ('x, sql_error, 'a) sql_io \<Rightarrow> ('x, state_store_error, 'a) sql_io" where
  "to_store_error SL = map_errE (\<lambda>e. Sqlite (sl_error_text SL e))"

definition run_stmt :: "sql_lib \<Rightarrow> 'x sql_env \<Rightarrow> 'a statement \<Rightarrow> ('x, state_store_error, 'a) sql_io" where
  "run_stmt SL E f = to_store_error SL (statement E f)"

text \<open>A query for rows that are decoded one by one, and one for at most one row.\<close>

definition fetch_rows ::
  "sql_lib \<Rightarrow> 'x sql_env \<Rightarrow> (database \<Rightarrow> 'r list) \<Rightarrow> ('r \<Rightarrow> sql_error + 'a) \<Rightarrow> ('x, state_store_error, 'a list) sql_io" where
  "fetch_rows SL E f decode =
     bindE (run_stmt SL E (query f)) (\<lambda>rows.
     to_store_error SL (resultE (collect_results (map decode rows))))"

definition fetch_row ::
  "sql_lib \<Rightarrow> 'x sql_env \<Rightarrow> (database \<Rightarrow> 'r list) \<Rightarrow> ('r \<Rightarrow> sql_error + 'a) \<Rightarrow> ('x, state_store_error, 'a option) sql_io" where
  "fetch_row SL E f decode =
     bindE (run_stmt SL E (query f)) (\<lambda>rows.
     case rows of
       [] \<Rightarrow> returnE None
     | r # _ \<Rightarrow> to_store_error SL (resultE (map_sum id Some (decode r))))"

section \<open>accounts.rs and pairs.rs\<close>

definition accounts_upsert :: "sql_lib \<Rightarrow> 'x sql_env \<Rightarrow> account \<Rightarrow> ('x, state_store_error, unit) sql_io" where
  "accounts_upsert SL E a = bindE (resultE (account_params SL a)) (\<lambda>r. run_stmt SL E (upsert_account r))"

definition accounts_list :: "sql_lib \<Rightarrow> 'x sql_env \<Rightarrow> ('x, state_store_error, account list) sql_io" where
  "accounts_list SL E =
     fetch_rows SL E (\<lambda>db. sort_key acr_id (scan SL (db_accounts db))) (row_to_account SL)"

definition accounts_remove :: "sql_lib \<Rightarrow> 'x sql_env \<Rightarrow> account_id \<Rightarrow> ('x, state_store_error, unit) sql_io" where
  "accounts_remove SL E i =
     bindE (run_stmt SL E (delete_stmt db_accounts delete_accounts (\<lambda>r. acr_id r = id_text SL account_prefix i)))
       (\<lambda>_. returnE ())"

definition accounts_get :: "sql_lib \<Rightarrow> 'x sql_env \<Rightarrow> account_id \<Rightarrow> ('x, state_store_error, account option) sql_io" where
  "accounts_get SL E i =
     fetch_row SL E (\<lambda>db. select SL (\<lambda>r. acr_id r = id_text SL account_prefix i) (db_accounts db))
       (row_to_account SL)"

definition pairs_upsert :: "sql_lib \<Rightarrow> 'x sql_env \<Rightarrow> pair \<Rightarrow> ('x, state_store_error, unit) sql_io" where
  "pairs_upsert SL E p = run_stmt SL E (upsert_pair (pair_params SL p))"

definition pairs_get :: "sql_lib \<Rightarrow> 'x sql_env \<Rightarrow> pair_id \<Rightarrow> ('x, state_store_error, pair option) sql_io" where
  "pairs_get SL E i =
     fetch_row SL E (\<lambda>db. select SL (\<lambda>r. prr_id r = id_text SL pair_prefix i) (db_pairs db))
       (row_to_pair SL)"

definition pairs_list ::
  "sql_lib \<Rightarrow> 'x sql_env \<Rightarrow> account_id option \<Rightarrow> bool \<Rightarrow> ('x, state_store_error, pair list) sql_io" where
  "pairs_list SL E acct include_removed =
     fetch_rows SL E (\<lambda>db. sort_key prr_id (select SL
         (\<lambda>r. is_none_or (\<lambda>a. prr_account_id r = id_text SL account_prefix a) acct
              \<and> (include_removed \<or> prr_status r \<noteq> ''removed'')) (db_pairs db)))
       (row_to_pair SL)"

definition pairs_active :: "sql_lib \<Rightarrow> 'x sql_env \<Rightarrow> ('x, state_store_error, pair list) sql_io" where
  "pairs_active SL E =
     fetch_rows SL E (\<lambda>db. sort_key prr_id (select SL (\<lambda>r. prr_status r \<noteq> ''removed'') (db_pairs db)))
       (row_to_pair SL)"

section \<open>file_entries.rs\<close>

definition entries_upsert :: "sql_lib \<Rightarrow> 'x sql_env \<Rightarrow> file_entry \<Rightarrow> ('x, state_store_error, unit) sql_io" where
  "entries_upsert SL E e = bindE (resultE (entry_params SL e)) (\<lambda>r. run_stmt SL E (upsert_entry r))"

definition entries_get ::
  "sql_lib \<Rightarrow> 'x sql_env \<Rightarrow> pair_id \<Rightarrow> rel_path \<Rightarrow> ('x, state_store_error, file_entry option) sql_io" where
  "entries_get SL E p path =
     fetch_row SL E (\<lambda>db. select SL
         (\<lambda>r. fer_pair_id r = id_text SL pair_prefix p \<and> fer_relative_path r = rel_str path) (db_entries db))
       (row_to_entry SL)"

text \<open>\<open>COLLATE NOCASE\<close> folds ASCII letters.\<close>

definition entries_get_ci ::
  "sql_lib \<Rightarrow> 'x sql_env \<Rightarrow> pair_id \<Rightarrow> rel_path \<Rightarrow> ('x, state_store_error, file_entry option) sql_io" where
  "entries_get_ci SL E p path =
     fetch_row SL E (\<lambda>db. take 1 (select SL
         (\<lambda>r. fer_pair_id r = id_text SL pair_prefix p
              \<and> to_ascii_lowercase (fer_relative_path r) = to_ascii_lowercase (rel_str path)) (db_entries db)))
       (row_to_entry SL)"

definition entries_dirty ::
  "sql_lib \<Rightarrow> 'x sql_env \<Rightarrow> pair_id \<Rightarrow> nat \<Rightarrow> ('x, state_store_error, file_entry list) sql_io" where
  "entries_dirty SL E p limit =
     fetch_rows SL E (\<lambda>db. take limit (sort_key fer_updated_at (select SL
         (\<lambda>r. fer_pair_id r = id_text SL pair_prefix p \<and> fer_sync_state r \<noteq> ''clean'') (db_entries db))))
       (row_to_entry SL)"

section \<open>file_ops.rs\<close>

definition ops_insert :: "sql_lib \<Rightarrow> 'x sql_env \<Rightarrow> file_op \<Rightarrow> ('x, state_store_error, unit) sql_io" where
  "ops_insert SL E op = bindE (resultE (op_params SL op)) (\<lambda>r. run_stmt SL E (insert_op r))"

definition status_times :: "file_op_status \<Rightarrow> string \<Rightarrow> string option \<times> string option" where
  "status_times status now =
     (case status of
        InProgress \<Rightarrow> (Some now, None)
      | Success \<Rightarrow> (None, Some now)
      | Failed \<Rightarrow> (None, Some now)
      | Enqueued \<Rightarrow> (None, None)
      | Backoff \<Rightarrow> (None, None))"

definition ops_update_status ::
  "sql_lib \<Rightarrow> 'x sql_env \<Rightarrow> file_op_id \<Rightarrow> file_op_status \<Rightarrow> nat \<Rightarrow> timestamp \<Rightarrow> ('x, state_store_error, unit) sql_io" where
  "ops_update_status SL E i status attempts now =
     (case status_times status (sl_to_rfc3339 SL now) of (started, finished) \<Rightarrow>
        run_stmt SL E (set_op_status (id_text SL file_op_prefix i) (op_status_to_str status)
          (int attempts) started finished))"

definition ops_in_flight :: "sql_lib \<Rightarrow> 'x sql_env \<Rightarrow> pair_id \<Rightarrow> ('x, state_store_error, file_op list) sql_io" where
  "ops_in_flight SL E p =
     fetch_rows SL E (\<lambda>db. sort_key opr_enqueued_at (select SL
         (\<lambda>r. opr_pair_id r = id_text SL pair_prefix p
              \<and> opr_status r \<in> {''enqueued'', ''in_progress'', ''backoff''}) (db_ops db)))
       (row_to_op SL)"

section \<open>sync_runs.rs\<close>

definition runs_record :: "sql_lib \<Rightarrow> 'x sql_env \<Rightarrow> sync_run \<Rightarrow> ('x, state_store_error, unit) sql_io" where
  "runs_record SL E run = run_stmt SL E (record_run (run_params SL run))"

definition runs_get :: "sql_lib \<Rightarrow> 'x sql_env \<Rightarrow> sync_run_id \<Rightarrow> ('x, state_store_error, sync_run option) sql_io" where
  "runs_get SL E i =
     fetch_row SL E (\<lambda>db. select SL (\<lambda>r. srr_id r = id_text SL sync_run_prefix i) (db_runs db))
       (row_to_run SL)"

definition runs_recent ::
  "sql_lib \<Rightarrow> 'x sql_env \<Rightarrow> pair_id \<Rightarrow> nat \<Rightarrow> ('x, state_store_error, sync_run list) sql_io" where
  "runs_recent SL E p limit =
     fetch_rows SL E (\<lambda>db. take limit (order_desc srr_started_at (select SL
         (\<lambda>r. srr_pair_id r = id_text SL pair_prefix p) (db_runs db))))
       (row_to_run SL)"

section \<open>conflicts.rs\<close>

definition conflicts_insert :: "sql_lib \<Rightarrow> 'x sql_env \<Rightarrow> conflict \<Rightarrow> ('x, state_store_error, unit) sql_io" where
  "conflicts_insert SL E c = bindE (resultE (conflict_params SL c)) (\<lambda>r. run_stmt SL E (insert_conflict r))"

definition conflicts_get ::
  "sql_lib \<Rightarrow> 'x sql_env \<Rightarrow> conflict_id \<Rightarrow> ('x, state_store_error, conflict option) sql_io" where
  "conflicts_get SL E i =
     fetch_row SL E (\<lambda>db. select SL (\<lambda>r. cfr_id r = id_text SL conflict_prefix i) (db_conflicts db))
       (row_to_conflict SL)"

definition conflicts_resolve ::
  "sql_lib \<Rightarrow> 'x sql_env \<Rightarrow> conflict_id \<Rightarrow> conflict_resolution \<Rightarrow> timestamp \<Rightarrow> string option
   \<Rightarrow> ('x, state_store_error, unit) sql_io" where
  "conflicts_resolve SL E i resolution resolved_at note =
     run_stmt SL E (set_conflict_resolved (id_text SL conflict_prefix i) (sl_to_rfc3339 SL resolved_at)
       (conflict_resolution_to_str resolution) note)"

definition conflicts_unresolved ::
  "sql_lib \<Rightarrow> 'x sql_env \<Rightarrow> pair_id \<Rightarrow> ('x, state_store_error, conflict list) sql_io" where
  "conflicts_unresolved SL E p =
     fetch_rows SL E (\<lambda>db. sort_key cfr_detected_at (select SL
         (\<lambda>r. cfr_pair_id r = id_text SL pair_prefix p \<and> cfr_resolved_at r = None) (db_conflicts db)))
       (row_to_conflict SL)"

section \<open>audit.rs and config.rs\<close>

definition audit_append :: "sql_lib \<Rightarrow> 'x sql_env \<Rightarrow> audit_event \<Rightarrow> ('x, state_store_error, unit) sql_io" where
  "audit_append SL E ev = bindE (resultE (audit_params SL ev)) (\<lambda>r. run_stmt SL E (insert_audit r))"

definition audit_recent :: "sql_lib \<Rightarrow> 'x sql_env \<Rightarrow> nat \<Rightarrow> ('x, state_store_error, audit_event list) sql_io" where
  "audit_recent SL E limit =
     fetch_rows SL E (\<lambda>db. take limit (order_desc evr_ts (scan SL (db_audit db)))) (row_to_event SL)"

definition audit_search ::
  "sql_lib \<Rightarrow> 'x sql_env \<Rightarrow> timestamp \<Rightarrow> timestamp \<Rightarrow> audit_level option \<Rightarrow> pair_id option \<Rightarrow> nat
   \<Rightarrow> ('x, state_store_error, audit_event list) sql_io" where
  "audit_search SL E from_ts to_ts level pid limit =
     fetch_rows SL E (\<lambda>db. take limit (order_desc evr_ts (select SL
         (\<lambda>r. sl_to_rfc3339 SL from_ts \<le> evr_ts r \<and> evr_ts r \<le> sl_to_rfc3339 SL to_ts
              \<and> is_none_or (\<lambda>l. evr_level r = audit_level_to_str l) level
              \<and> is_none_or (\<lambda>p. evr_pair_id r = Some (id_text SL pair_prefix p)) pid) (db_audit db))))
       (row_to_event SL)"

definition config_get :: "sql_lib \<Rightarrow> 'x sql_env \<Rightarrow> ('x, state_store_error, instance_config option) sql_io" where
  "config_get SL E = fetch_row SL E (\<lambda>db. case db_config db of None \<Rightarrow> [] | Some r \<Rightarrow> [r]) (row_to_config SL)"

definition config_upsert :: "sql_lib \<Rightarrow> 'x sql_env \<Rightarrow> instance_config \<Rightarrow> ('x, state_store_error, unit) sql_io" where
  "config_upsert SL E cfg = run_stmt SL E (upsert_config (config_params SL cfg))"

definition ensure_present :: "sql_lib \<Rightarrow> 'x sql_env \<Rightarrow> timestamp \<Rightarrow> ('x, state_store_error, unit) sql_io" where
  "ensure_present SL E now = run_stmt SL E (insert_default_config (sl_to_rfc3339 SL now))"

section \<open>retention.rs\<close>

definition PAIR_REMOVED_RETENTION_DAYS :: nat where "PAIR_REMOVED_RETENTION_DAYS = 7"

record retention_report =
  rr_audit_events :: nat
  rr_sync_runs :: nat
  rr_conflicts :: nat
  rr_pairs :: nat

definition cutoff :: "sql_lib \<Rightarrow> timestamp \<Rightarrow> nat \<Rightarrow> string" where
  "cutoff SL now days = sl_to_rfc3339 SL (now - int days * (86400 * 10 ^ 9))"

definition prune_audit :: "string \<Rightarrow> nat statement" where
  "prune_audit c = delete_stmt db_audit (\<lambda>P db. db\<lparr>db_audit := filter (\<lambda>r. \<not> P r) (db_audit db)\<rparr>)
     (\<lambda>r. evr_ts r < c)"

definition prune_runs :: "string \<Rightarrow> nat statement" where
  "prune_runs c = delete_stmt db_runs delete_runs (\<lambda>r. srr_started_at r < c)"

definition prune_conflicts :: "string \<Rightarrow> nat statement" where
  "prune_conflicts c = delete_stmt db_conflicts
     (\<lambda>P db. db\<lparr>db_conflicts := filter (\<lambda>r. \<not> P r) (db_conflicts db)\<rparr>)
     (\<lambda>r. \<exists>t \<in> set_option (cfr_resolved_at r). t < c)"

definition prune_pairs :: "string \<Rightarrow> nat statement" where
  "prune_pairs c = delete_stmt db_pairs delete_pairs (\<lambda>r. prr_status r = ''removed'' \<and> prr_updated_at r < c)"

definition run_retention :: "sql_lib \<Rightarrow> 'x sql_env \<Rightarrow> timestamp \<Rightarrow> ('x, state_store_error, retention_report) sql_io" where
  "run_retention SL E now =
     bindE (run_stmt SL E (prune_audit (cutoff SL now AUDIT_RETENTION_DAYS))) (\<lambda>a.
     bindE (run_stmt SL E (prune_runs (cutoff SL now RUN_HISTORY_RETENTION_DAYS))) (\<lambda>r.
     bindE (run_stmt SL E (prune_conflicts (cutoff SL now CONFLICT_RETENTION_DAYS))) (\<lambda>c.
     bindE (run_stmt SL E (prune_pairs (cutoff SL now PAIR_REMOVED_RETENTION_DAYS))) (\<lambda>p.
     bindE (run_stmt SL E (query (\<lambda>_. ()))) (\<lambda>_.
     returnE \<lparr>rr_audit_events = a, rr_sync_runs = r, rr_conflicts = c, rr_pairs = p\<rparr>)))))"

section \<open>connection.rs and store.rs\<close>

fun store_map_err :: "state_store_error \<Rightarrow> state_error" where
  "store_map_err (Sqlite s) = SeIo s"
| "store_map_err (Migration s) = SeSchema s"
| "store_map_err (Schema s) = SeSchema s"

definition get_conn :: "'x sql_env \<Rightarrow> ('x, state_store_error, unit) sql_io" where
  "get_conn E = may_fail (se_pool E) (\<lambda>e. Sqlite (''pool: '' @ e))"

text \<open>
  \<open>open\<close>: build the pool, take a connection, migrate, insert the default configuration.  The
  tables of a fresh file are empty after the migrations.
\<close>

definition open_store :: "sql_lib \<Rightarrow> 'x sql_env \<Rightarrow> timestamp \<Rightarrow> ('x, state_store_error, unit) sql_io" where
  "open_store SL E now =
     bindE (may_fail (se_pool E) (\<lambda>e. Sqlite (''build pool: '' @ e))) (\<lambda>_.
     bindE (may_fail (se_pool E) (\<lambda>e. Sqlite (''migration conn: '' @ e))) (\<lambda>_.
     bindE (may_fail (se_migrate E) Migration) (\<lambda>_.
     ensure_present SL E now)))"

text \<open>\<open>spawn_blocking(move || { let conn = pool.get().map_err(map_err)?; .. }).await\<close>.\<close>

definition blocking :: "'x sql_env \<Rightarrow> ('x, state_error, 'a) sql_io \<Rightarrow> ('x, state_error, 'a) sql_io" where
  "blocking E body =
     bindE (may_fail (se_join E) (\<lambda>e. SeIo (''join: '' @ e))) (\<lambda>_.
     bindE (map_errE store_map_err (get_conn E)) (\<lambda>_. body))"

definition with_conn :: "'x sql_env \<Rightarrow> ('x, state_store_error, 'a) sql_io \<Rightarrow> ('x, state_error, 'a) sql_io" where
  "with_conn E m = blocking E (map_errE store_map_err m)"

definition sql_op_update_status ::
  "sql_lib \<Rightarrow> 'x sql_env \<Rightarrow> file_op_id \<Rightarrow> file_op_status \<Rightarrow> nat \<Rightarrow> ('x, state_error, unit) sql_io" where
  "sql_op_update_status SL E i status attempts =
     bindE (ask (se_now E)) (\<lambda>now. with_conn E (ops_update_status SL E i status attempts now))"

definition vacuum_into :: "path_buf \<Rightarrow> 'x sql_env \<Rightarrow> ('x, sql_error, unit) sql_io" where
  "vacuum_into p E =
     bindE (may_fail (se_fault E) StatementFailure) (\<lambda>_.
     modifyE (\<lambda>w. w\<lparr>sw_ext := se_vacuum_into E p (sw_db w) (sw_ext w)\<rparr>))"

definition sql_backup_to :: "sql_lib \<Rightarrow> 'x sql_env \<Rightarrow> path_buf \<Rightarrow> ('x, state_error, unit) sql_io" where
  "sql_backup_to SL E p =
     blocking E (map_errE (\<lambda>e. SeIo (''VACUUM INTO failed: '' @ sl_error_text SL e)) (vacuum_into p E))"

definition sql_compact_now :: "sql_lib \<Rightarrow> 'x sql_env \<Rightarrow> timestamp \<Rightarrow> ('x, state_error, unit) sql_io" where
  "sql_compact_now SL E now =
     blocking E
       (bindE (map_errE store_map_err (run_retention SL E now)) (\<lambda>_.
        map_errE (\<lambda>e. SeIo (''VACUUM failed: '' @ sl_error_text SL e)) (statement E (query (\<lambda>_. ())))))"

text \<open>The operations of the port, each on a connection of the pool.\<close>

definition sql_account_upsert ::
  "sql_lib \<Rightarrow> 'x sql_env \<Rightarrow> account
   \<Rightarrow> ('x, state_error, unit) sql_io" where
  [store_ops]: "sql_account_upsert SL E a = with_conn E (accounts_upsert SL E a)"

definition sql_account_get ::
  "sql_lib \<Rightarrow> 'x sql_env \<Rightarrow> account_id
   \<Rightarrow> ('x, state_error, account option) sql_io" where
  [store_ops]: "sql_account_get SL E i = with_conn E (accounts_get SL E i)"

definition sql_pair_upsert ::
  "sql_lib \<Rightarrow> 'x sql_env \<Rightarrow> pair
   \<Rightarrow> ('x, state_error, unit) sql_io" where
  [store_ops]: "sql_pair_upsert SL E p = with_conn E (pairs_upsert SL E p)"

definition sql_pair_get ::
  "sql_lib \<Rightarrow> 'x sql_env \<Rightarrow> pair_id
   \<Rightarrow> ('x, state_error, pair option) sql_io" where
  [store_ops]: "sql_pair_get SL E i = with_conn E (pairs_get SL E i)"

definition sql_pairs_active :: "sql_lib \<Rightarrow> 'x sql_env \<Rightarrow> ('x, state_error, pair list) sql_io" where
  [store_ops]: "sql_pairs_active SL E = with_conn E (pairs_active SL E)"

definition sql_file_entry_upsert ::
  "sql_lib \<Rightarrow> 'x sql_env \<Rightarrow> file_entry
   \<Rightarrow> ('x, state_error, unit) sql_io" where
  [store_ops]: "sql_file_entry_upsert SL E e = with_conn E (entries_upsert SL E e)"

definition sql_file_entry_get ::
  "sql_lib \<Rightarrow> 'x sql_env \<Rightarrow> pair_id \<Rightarrow> rel_path
   \<Rightarrow> ('x, state_error, file_entry option) sql_io" where
  [store_ops]: "sql_file_entry_get SL E p r = with_conn E (entries_get SL E p r)"

definition sql_file_entry_get_ci ::
  "sql_lib \<Rightarrow> 'x sql_env \<Rightarrow> pair_id \<Rightarrow> rel_path
   \<Rightarrow> ('x, state_error, file_entry option) sql_io" where
  [store_ops]: "sql_file_entry_get_ci SL E p r = with_conn E (entries_get_ci SL E p r)"

definition sql_file_entries_dirty ::
  "sql_lib \<Rightarrow> 'x sql_env \<Rightarrow> pair_id \<Rightarrow> nat
   \<Rightarrow> ('x, state_error, file_entry list) sql_io" where
  [store_ops]: "sql_file_entries_dirty SL E p n = with_conn E (entries_dirty SL E p n)"

definition sql_run_record ::
  "sql_lib \<Rightarrow> 'x sql_env \<Rightarrow> sync_run
   \<Rightarrow> ('x, state_error, unit) sql_io" where
  [store_ops]: "sql_run_record SL E r = with_conn E (runs_record SL E r)"

definition sql_op_insert ::
  "sql_lib \<Rightarrow> 'x sql_env \<Rightarrow> file_op
   \<Rightarrow> ('x, state_error, unit) sql_io" where
  [store_ops]: "sql_op_insert SL E op = with_conn E (ops_insert SL E op)"

definition sql_conflict_insert ::
  "sql_lib \<Rightarrow> 'x sql_env \<Rightarrow> conflict
   \<Rightarrow> ('x, state_error, unit) sql_io" where
  [store_ops]: "sql_conflict_insert SL E c = with_conn E (conflicts_insert SL E c)"

definition sql_conflicts_unresolved ::
  "sql_lib \<Rightarrow> 'x sql_env \<Rightarrow> pair_id
   \<Rightarrow> ('x, state_error, conflict list) sql_io" where
  [store_ops]: "sql_conflicts_unresolved SL E p = with_conn E (conflicts_unresolved SL E p)"

definition sql_audit_append ::
  "sql_lib \<Rightarrow> 'x sql_env \<Rightarrow> audit_event
   \<Rightarrow> ('x, state_error, unit) sql_io" where
  [store_ops]: "sql_audit_append SL E e = with_conn E (audit_append SL E e)"

definition sql_config_get ::
  "sql_lib \<Rightarrow> 'x sql_env
   \<Rightarrow> ('x, state_error, instance_config option) sql_io" where
  [store_ops]: "sql_config_get SL E = with_conn E (config_get SL E)"

definition sql_config_upsert ::
  "sql_lib \<Rightarrow> 'x sql_env \<Rightarrow> instance_config
   \<Rightarrow> ('x, state_error, unit) sql_io" where
  [store_ops]: "sql_config_upsert SL E c = with_conn E (config_upsert SL E c)"

definition sql_accounts_list :: "sql_lib \<Rightarrow> 'x sql_env \<Rightarrow> ('x, state_error, account list) sql_io" where
  [store_ops]: "sql_accounts_list SL E = with_conn E (accounts_list SL E)"

definition sql_account_remove ::
  "sql_lib \<Rightarrow> 'x sql_env \<Rightarrow> account_id
   \<Rightarrow> ('x, state_error, unit) sql_io" where
  [store_ops]: "sql_account_remove SL E i = with_conn E (accounts_remove SL E i)"

definition sql_pairs_list ::
  "sql_lib \<Rightarrow> 'x sql_env \<Rightarrow> account_id option \<Rightarrow> bool
   \<Rightarrow> ('x, state_error, pair list) sql_io" where
  [store_ops]: "sql_pairs_list SL E a b = with_conn E (pairs_list SL E a b)"

definition sql_conflict_get ::
  "sql_lib \<Rightarrow> 'x sql_env \<Rightarrow> conflict_id
   \<Rightarrow> ('x, state_error, conflict option) sql_io" where
  [store_ops]: "sql_conflict_get SL E i = with_conn E (conflicts_get SL E i)"

definition sql_conflict_resolve ::
  "sql_lib \<Rightarrow> 'x sql_env \<Rightarrow> conflict_id \<Rightarrow> conflict_resolution \<Rightarrow> timestamp \<Rightarrow> string option
   \<Rightarrow> ('x, state_error, unit) sql_io" where
  [store_ops]: "sql_conflict_resolve SL E i r t n = with_conn E (conflicts_resolve SL E i r t n)"

definition sql_runs_recent ::
  "sql_lib \<Rightarrow> 'x sql_env \<Rightarrow> pair_id \<Rightarrow> nat
   \<Rightarrow> ('x, state_error, sync_run list) sql_io" where
  [store_ops]: "sql_runs_recent SL E p n = with_conn E (runs_recent SL E p n)"

definition sql_run_get ::
  "sql_lib \<Rightarrow> 'x sql_env \<Rightarrow> sync_run_id
   \<Rightarrow> ('x, state_error, sync_run option) sql_io" where
  [store_ops]: "sql_run_get SL E i = with_conn E (runs_get SL E i)"

definition sql_audit_recent ::
  "sql_lib \<Rightarrow> 'x sql_env \<Rightarrow> nat
   \<Rightarrow> ('x, state_error, audit_event list) sql_io" where
  [store_ops]: "sql_audit_recent SL E n = with_conn E (audit_recent SL E n)"

definition sql_audit_search ::
  "sql_lib \<Rightarrow> 'x sql_env \<Rightarrow> timestamp \<Rightarrow> timestamp \<Rightarrow> audit_level option \<Rightarrow> pair_id option \<Rightarrow> nat
   \<Rightarrow> ('x, state_error, audit_event list) sql_io" where
  [store_ops]: "sql_audit_search SL E a b l p n = with_conn E (audit_search SL E a b l p n)"

definition sql_state_store :: "sql_lib \<Rightarrow> 'x sql_env \<Rightarrow> 'x sql_world state_store" where
  "sql_state_store SL E =
     \<lparr>st_account_upsert = sql_account_upsert SL E,
      st_account_get = sql_account_get SL E,
      st_pair_upsert = sql_pair_upsert SL E,
      st_pair_get = sql_pair_get SL E,
      st_pairs_active = sql_pairs_active SL E,
      st_file_entry_upsert = sql_file_entry_upsert SL E,
      st_file_entry_get = sql_file_entry_get SL E,
      st_file_entry_get_ci = sql_file_entry_get_ci SL E,
      st_file_entries_dirty = sql_file_entries_dirty SL E,
      st_run_record = sql_run_record SL E,
      st_op_insert = sql_op_insert SL E,
      st_op_update_status = sql_op_update_status SL E,
      st_conflict_insert = sql_conflict_insert SL E,
      st_conflicts_unresolved = sql_conflicts_unresolved SL E,
      st_audit_append = sql_audit_append SL E,
      st_config_get = sql_config_get SL E,
      st_config_upsert = sql_config_upsert SL E,
      st_accounts_list = sql_accounts_list SL E,
      st_account_remove = sql_account_remove SL E,
      st_pairs_list = sql_pairs_list SL E,
      st_conflict_get = sql_conflict_get SL E,
      st_conflict_resolve = sql_conflict_resolve SL E,
      st_runs_recent = sql_runs_recent SL E,
      st_run_get = sql_run_get SL E,
      st_audit_recent = sql_audit_recent SL E,
      st_audit_search = sql_audit_search SL E,
      st_backup_to = sql_backup_to SL E,
      st_compact_now = sql_compact_now SL E\<rparr>"

section \<open>What a statement that returned has done\<close>

lemma may_fail_db: "may_fail g h w = (r, w') \<Longrightarrow> sw_db w' = sw_db w"
  by (auto simp: may_fail_def ask_def io_simps split: prod.splits option.splits)

lemma run_stmt_InrD:
  assumes "run_stmt SL E f w = (Inr a, w')"
  shows "f (sw_db w) = Inr (a, sw_db w')"
proof -
  from assms obtain u w1 where m: "may_fail (se_fault E) StatementFailure w = (Inr u, w1)"
    and d: "on_db f w1 = (Inr a, w')"
    unfolding run_stmt_def to_store_error_def statement_def by (elim map_errE_InrE bindE_InrE)
  from d may_fail_db [OF m] show ?thesis by (auto simp: on_db_def split: sum.splits prod.splits)
qed

end
