(* ===== verification/Sql_Cycle.thy ===== *)
theory Sql_Cycle
  imports Sql_Adapter Cycle
begin

text \<open>
  The sync engine over the SQLite store: what each call of the store leaves in the tables of runs
  and operations, and what follows for a cycle from the foreign key of \<open>file_ops.run_id\<close>.
\<close>

section \<open>What the calls leave alone\<close>

lemma frames_ask: "frames (\<lambda>w. f (sw_db w)) (ask g)"
  by (auto simp: frames_def ask_def split: prod.split)

lemma frames_may_fail: "frames (\<lambda>w. f (sw_db w)) (may_fail g h)"
  unfolding may_fail_def by (auto intro!: frame_rules frames_ask split: option.split)

lemma frames_on_db:
  "(\<And>db a db'. stmt db = Inr (a, db') \<Longrightarrow> f db' = f db) \<Longrightarrow> frames (\<lambda>w. f (sw_db w)) (on_db stmt)"
  by (auto simp: frames_def on_db_def split: sum.split prod.split)

lemma frames_run_stmt:
  "(\<And>db a db'. stmt db = Inr (a, db') \<Longrightarrow> f db' = f db) \<Longrightarrow> frames (\<lambda>w. f (sw_db w)) (run_stmt SL E stmt)"
  unfolding run_stmt_def to_store_error_def statement_def
  by (intro frames_map_err frames_bind frames_may_fail frames_on_db)

lemma frames_blocking: "frames (\<lambda>w. f (sw_db w)) m \<Longrightarrow> frames (\<lambda>w. f (sw_db w)) (blocking E m)"
  unfolding blocking_def get_conn_def by (intro frames_bind frames_map_err frames_may_fail)

lemma frames_with_conn: "frames (\<lambda>w. f (sw_db w)) m \<Longrightarrow> frames (\<lambda>w. f (sw_db w)) (with_conn E m)"
  unfolding with_conn_def by (intro frames_blocking frames_map_err)

lemma frames_fetch:
  "frames (\<lambda>w. f (sw_db w)) (fetch_rows SL E g d)" "frames (\<lambda>w. f (sw_db w)) (fetch_row SL E g d')"
  unfolding fetch_rows_def fetch_row_def to_store_error_def
  by (auto intro!: frame_rules frames_run_stmt simp: query_def split: list.split)

text \<open>The tables of runs and of operations.\<close>

definition run_tables :: "'x sql_world \<Rightarrow> run_row list \<times> op_row list" where
  "run_tables w = (db_runs (sw_db w), db_ops (sw_db w))"

lemma run_tables_eq: "run_tables = (\<lambda>w. (\<lambda>db. (db_runs db, db_ops db)) (sw_db w))"
  by (simp add: run_tables_def fun_eq_iff)

lemma sql_decide_frames:
  "frames run_tables (st_file_entry_get (sql_state_store SL E) p r)"
  "frames run_tables (st_file_entry_get_ci (sql_state_store SL E) p r)"
  "frames run_tables (st_file_entry_upsert (sql_state_store SL E) e)"
  "frames run_tables (st_conflict_insert (sql_state_store SL E) cf)"
  "frames run_tables (st_pair_get (sql_state_store SL E) q)"
  "frames run_tables (st_pair_upsert (sql_state_store SL E) pr)"
  unfolding run_tables_eq sql_state_store_def state_store.simps store_ops entries_get_def entries_get_ci_def
    entries_upsert_def conflicts_insert_def pairs_get_def pairs_upsert_def
  by (auto intro!: frames_with_conn frames_fetch frames_bind frames_result frames_run_stmt
      simp: upsert_entry_def insert_conflict_def upsert_pair_def split: if_splits)

section \<open>Operations of an unrecorded run are refused\<close>

definition run_recorded :: "sql_lib \<Rightarrow> sync_run_id \<Rightarrow> run_row list \<times> op_row list \<Rightarrow> bool" where
  "run_recorded SL run t \<longleftrightarrow> id_text SL sync_run_prefix run \<in> col srr_id (fst t)"

lemma sql_op_insert_refused:
  assumes "\<not> run_recorded SL (op_run_id op) (run_tables w)"
  shows "\<exists>e w'. st_op_insert (sql_state_store SL E) op w = (Inl e, w') \<and> run_tables w' = run_tables w"
proof -
  have row: "opr_run_id r = id_text SL sync_run_prefix (op_run_id op)" if "op_params SL op = Inr r" for r
    using that by (auto simp: op_params_def and_then_def split: sum.splits)
  have refused: "\<exists>e. insert_op r db = Inl e" if "op_params SL op = Inr r" "db_runs db = db_runs (sw_db w)" for r db
    using assms that row [OF that(1)] by (auto simp: insert_op_def run_recorded_def run_tables_def)
  show ?thesis
    by (cases "op_params SL op")
       (auto simp: sql_state_store_def store_ops with_conn_def blocking_def get_conn_def may_fail_def ask_def
         ops_insert_def run_stmt_def to_store_error_def statement_def on_db_def io_simps run_tables_def
         dest: refused split: prod.split option.split sum.split)
qed

text \<open>An operation of an unrecorded run is not executed, whatever the other ports would do.\<close>

lemma sql_run_op:
  assumes st: "cx_state cx = sql_state_store SL E" and pf: "ports_frame run_tables cx"
    and un: "\<not> run_recorded SL (op_run_id op) (run_tables w)"
  shows "\<exists>w'. run_op cx op w = (Inr False, w') \<and> run_op (cx\<lparr>cx_local := fs, cx_remote := rd\<rparr>) op w = (Inr False, w')
     \<and> run_tables w' = run_tables w"
proof -
  obtain e w1 where i: "st_op_insert (cx_state cx) op w = (Inl e, w1)" "run_tables w1 = run_tables w"
    using sql_op_insert_refused [OF un] st by metis
  obtain x w2 where m: "emit_op_state_failure cx op ''op_insert'' e w1 = (Inr x, w2)"
    using sure_emit_op_state_failure [of cx op "''op_insert''" e] by (auto simp: sure_def)
  have "run_tables w2 = run_tables w1" by (rule framesD [OF frames_emit_op_state_failure [OF pf] m])
  moreover have "emit_op_state_failure (cx\<lparr>cx_local := fs, cx_remote := rd\<rparr>) op ''op_insert'' e
      = emit_op_state_failure cx op ''op_insert'' e"
    by (simp add: emit_op_state_failure_def emit_op_failed_def port_call_defs)
  ultimately show ?thesis using i m by (simp add: run_op_def io_simps)
qed

lemma sql_op_loop:
  assumes "cx_state cx = sql_state_store SL E" and "ports_frame run_tables cx"
    and "\<forall>op \<in> set ops. op_run_id op = run" and "\<not> run_recorded SL run (run_tables w)"
  shows "\<exists>w'. op_loop cx ops a f w = (Inr (a, f + length ops), w')
     \<and> op_loop (cx\<lparr>cx_local := fs, cx_remote := rd\<rparr>) ops a f w = (Inr (a, f + length ops), w')
     \<and> run_tables w' = run_tables w"
  using assms(3,4)
proof (induction ops arbitrary: f w)
  case (Cons op ops)
  from Cons.prems obtain w1 where w1: "run_op cx op w = (Inr False, w1)"
    "run_op (cx\<lparr>cx_local := fs, cx_remote := rd\<rparr>) op w = (Inr False, w1)" "run_tables w1 = run_tables w"
    using sql_run_op [OF assms(1,2), of op w rd fs] by auto
  have "\<forall>op \<in> set ops. op_run_id op = run" "\<not> run_recorded SL run (run_tables w1)"
    using Cons.prems w1(3) by simp_all
  from Cons.IH [OF this, of "f + 1"] w1 show ?case by (simp add: bindE_def)
qed (simp add: returnE_def)

section \<open>Every operation of a cycle belongs to its run\<close>

abbreviation ops_of :: "sync_run_id \<Rightarrow> file_op list \<Rightarrow> bool" where
  "ops_of run ops \<equiv> \<forall>op \<in> set ops. op_run_id op = run"

lemma op_with_run [simp]: "op_run_id (op_with i run pid rp k m now) = run"
  by (simp add: op_with_def)

lemma plan_runs: "ops_of run (fst (plan rt ds run now w))"
proof -
  obtain ops w' where p: "plan_loop rt run now ds [] [] [] w = (ops, w')"
    by (cases "plan_loop rt run now ds [] [] [] w")
  have "\<forall>op \<in> set ops. fresh_op run now op" by (rule plan_loop_fresh [OF p]) simp
  moreover have "fresh_op run now op \<Longrightarrow> op_run_id op = run" for op
    unfolding fresh_op_def make_op_def by (metis file_op.select_convs(2))
  ultimately show ?thesis using p by (simp add: plan_def)
qed

lemma yields_record_runs: "ops_of run ops \<Longrightarrow> yields (record_content_conflict cx d run ops) (ops_of run)"
  unfolding record_content_conflict_def store_conflict_def push_remote_winner_conflict_ops_def Let_def
  by (auto intro!: yields_rules split: option.split sum.split)

lemma yields_resolve_runs:
  "ops_of run ops \<Longrightarrow> yields (resolve_loop cx run kept ds ops) (\<lambda>(ds, ops). ops_of run ops)"
  by (induction cx run kept ds ops rule: resolve_loop.induct)
     (auto intro!: yields_return yields_bind [OF yields_record_runs])

lemma yields_rename_runs: "yields (build_remote_rename_ops cx run now rs) (ops_of run)"
proof (induction cx run now rs rule: build_remote_rename_ops.induct)
  case (2 cx run now path item nm rs)
  show ?case
    unfolding build_remote_rename_ops.simps
    by (rule yields_bind_any, rule yields_bind [OF 2], rule yields_return) auto
qed (auto intro: yields_return)

lemma yields_decide_runs: "yields (cycle_decide cx run now) (\<lambda>pl. ops_of run (cp_ops pl))"
  unfolding cycle_decide_def phase_resolve_conflicts_def Let_def
proof (intro yields_bind_any, goal_cases)
  case (1 delta u loc dn)
  obtain ds n where dn: "dn = (ds, n)" by fastforce
  have nil: "ops_of run []" by simp
  show ?case
    unfolding dn prod.case
  proof (rule yields_bind [OF yields_resolve_runs [OF nil]], goal_cases)
    case (1 dc)
    obtain ds2 cops where dc: "dc = (ds2, cops)" by fastforce
    with 1 have c: "ops_of run cops" by simp
    have pl: "yields (liftE (plan (cx_runtime cx) ds2 run now)) (ops_of run)"
      by (rule yields_lift) (rule plan_runs)
    show ?case
      unfolding dc prod.case
    proof (rule yields_bind [OF pl], rule yields_bind [OF yields_rename_runs], rule yields_return)
      fix ops rops :: "file_op list"
      assume "ops_of run ops" "ops_of run rops"
      with c show "ops_of run (cp_ops \<lparr>cp_items_seen = do_items_seen delta,
          cp_local_events = lo_events_seen loc, cp_conflicts = da_conflicts delta + lo_collisions_recorded loc + n,
          cp_delta_token = do_delta_token delta, cp_ops = ops @ cops @ rops\<rparr>)" by auto
    qed
  qed
qed

section \<open>A cycle over the SQLite store\<close>

lemma sql_decide_frame:
  assumes "cx_state cx = sql_state_store SL E" and "ports_frame run_tables cx"
  shows "decide_frame run_tables cx" and "frames run_tables (cycle_decide cx run now)"
proof -
  show d: "decide_frame run_tables cx"
    using assms by (simp add: decide_frame_def sql_decide_frames)
  show "frames run_tables (cycle_decide cx run now)"
    using assms(1) by (intro frames_decide d) (simp_all add: sql_decide_frames)
qed

text \<open>
  C7: On the SQLite store a cycle executes none of the operations it plans.  The row of a run is
  written when the cycle ends, the foreign key of \<open>file_ops.run_id\<close> refuses every operation of
  a run that has no row, and an operation whose insert is refused is not attempted: when the id
  drawn for the cycle is new, the cycle reports no applied operation, the table of operations is
  as before, and neither the local file system nor the drive has any part in the execute phase.
\<close>
theorem sqlite_cycle_executes_nothing:
  assumes "cx_state cx = sql_state_store SL E" and "ports_frame run_tables cx"
    and "cycle_start cx w = (Inr (run, now), w0)" and "\<not> run_recorded SL run (run_tables w)"
    and "cycle_decide cx run now w0 = (Inr pl, w1)"
  shows "\<exists>w2. phase_execute cx (cp_ops pl) w1 = (Inr (0, length (cp_ops pl)), w2)
    \<and> phase_execute (cx\<lparr>cx_local := fs, cx_remote := rd\<rparr>) (cp_ops pl) w1 = (Inr (0, length (cp_ops pl)), w2)
    \<and> db_ops (sw_db w2) = db_ops (sw_db w)
    \<and> (\<forall>summary w'. run_cycle cx w = (Inr summary, w') \<longrightarrow> cs_ops_applied summary = 0)"
proof -
  note fr = sql_decide_frame [OF assms(1,2)]
  have t0: "run_tables w0 = run_tables w"
    by (rule framesD [OF frames_cycle_start [OF fr(1)] assms(3)])
  have t1: "run_tables w1 = run_tables w" using framesD [OF fr(2) assms(5)] t0 by simp
  have own: "ops_of run (cp_ops pl)" by (rule yieldsD [OF yields_decide_runs assms(5)])
  have un: "\<not> run_recorded SL run (run_tables w1)" using t1 assms(4) by simp
  obtain w2 where e: "phase_execute cx (cp_ops pl) w1 = (Inr (0, length (cp_ops pl)), w2)"
    "phase_execute (cx\<lparr>cx_local := fs, cx_remote := rd\<rparr>) (cp_ops pl) w1 = (Inr (0, length (cp_ops pl)), w2)"
    "run_tables w2 = run_tables w1"
    using sql_op_loop [OF assms(1,2) own un, of 0 0 rd fs] by (auto simp: phase_execute_def)
  have "cs_ops_applied summary = 0" if "run_cycle cx w = (Inr summary, w')" for summary w'
  proof -
    have "cycle_execute cx run now pl w1 = (Inr summary, w')"
      using that assms(3,5) by (simp add: run_cycle_def bindE_def)
    with e(1) show ?thesis by (auto simp: cycle_execute_def Let_def returnE_def elim!: bindE_InrE)
  qed
  moreover have "db_ops (sw_db w2) = db_ops (sw_db w)"
    using e(3) t1 by (simp add: run_tables_def)
  ultimately show ?thesis using e by blast
qed

section \<open>A concrete cycle\<close>

text \<open>A store on which nothing else fails, an empty delta page, and a scan that finds one file.\<close>

definition calm_env :: "unit sql_env" where
  "calm_env =
     \<lparr>se_fault = (\<lambda>x. (None, x)), se_pool = (\<lambda>x. (None, x)), se_join = (\<lambda>x. (None, x)),
      se_migrate = (\<lambda>x. (None, x)), se_now = (\<lambda>x. (0, x)), se_vacuum_into = (\<lambda>p db x. x)\<rparr>"

definition idle_rd :: "'w remote_drive" where
  "idle_rd =
     \<lparr>rd_delta = (\<lambda>d c. returnE \<lparr>dp_items = [], dp_next_link = None, dp_delta_token = None\<rparr>),
      rd_item_by_path = (\<lambda>d p. returnE None), rd_download = (\<lambda>i. throwE GeNotFound),
      rd_upload_small = (\<lambda>p n bs. throwE GeNotFound), rd_upload_session = (\<lambda>p n sz. throwE GeNotFound),
      rd_rename = (\<lambda>i n. throwE GeNotFound), rd_delete = (\<lambda>i. throwE GeNotFound),
      rd_mkdir = (\<lambda>p n. throwE GeNotFound), rd_subscribe = (\<lambda>d u c. throwE GeNotFound),
      rd_unsubscribe = (\<lambda>s. returnE ()), rd_renew_subscription = (\<lambda>s e. returnE ())\<rparr>"

definition one_file_fs :: "'w local_fs" where
  "one_file_fs =
     \<lparr>lf_scan = (\<lambda>p. returnE \<lparr>ls_entries = one_file, ls_symlinks_skipped = []\<rparr>),
      lf_read = (\<lambda>p. returnE [7]), lf_write_atomic = (\<lambda>p b. returnE synthetic_remote_side),
      lf_rename = (\<lambda>p q. returnE ()), lf_delete = (\<lambda>p. returnE ()), lf_mkdir_p = (\<lambda>p. returnE ()),
      lf_hash = (\<lambda>p. returnE (ContentHash []))\<rparr>"

definition fixed_runtime :: "'w runtime" where
  "fixed_runtime =
     \<lparr>rt_now = (\<lambda>w. (1000, w)), rt_new_ulid = (\<lambda>w. (5, w)), rt_emit = (\<lambda>e w. w),
      rt_getrandom_u64 = (\<lambda>w. (None, w)), rt_sleep_ms = (\<lambda>n w. w)\<rparr>"

definition sql_scan_ctx :: "unit sql_world cycle_ctx" where
  "sql_scan_ctx =
     \<lparr>cx_lib = ascii_lib, cx_pair_id = Id 1, cx_local_root = AbsPath ''/r'', cx_drive_id = DriveId ''d'',
      cx_cursor = None, cx_trigger = Scheduled, cx_state = sql_state_store unary_lib calm_env,
      cx_remote = idle_rd, cx_local = one_file_fs, cx_runtime = fixed_runtime, cx_host_name = ''mac''\<rparr>"

definition one_pair_db :: database where
  "one_pair_db = empty_database
     \<lparr>db_accounts := [\<lparr>acr_id = id_text unary_lib account_prefix (Id 2 :: account_id), acr_kind = ''personal'',
        acr_upn = ''u'', acr_tenant_id = ''t'', acr_drive_id = ''d'', acr_display_name = ''n'',
        acr_keychain_ref = ''k'', acr_scopes_json = ''[]'', acr_created_at = ''p'', acr_updated_at = ''p''\<rparr>],
      db_pairs := [pair_params unary_lib (sample_pair (Id 1) (Id 2))]\<rparr>"

lemma sql_scan_ctx_simps [simp]:
  "cx_lib sql_scan_ctx = ascii_lib" "cx_pair_id sql_scan_ctx = Id 1" "cx_local_root sql_scan_ctx = AbsPath ''/r''"
  "cx_state sql_scan_ctx = sql_state_store unary_lib calm_env" "cx_remote sql_scan_ctx = idle_rd"
  "cx_local sql_scan_ctx = one_file_fs" "cx_runtime sql_scan_ctx = fixed_runtime"
  by (simp_all add: sql_scan_ctx_def)

lemma unit_ext [simp]: "w\<lparr>sw_ext := ()\<rparr> = (w :: unit sql_world)"
  by (cases w) simp

lemma calm_conn: "with_conn calm_env m = map_errE store_map_err m"
  by (simp add: with_conn_def blocking_def get_conn_def may_fail_def ask_def calm_env_def io_simps fun_eq_iff)

lemma calm_stmt: "run_stmt SL calm_env f = to_store_error SL (on_db f)"
  by (simp add: run_stmt_def statement_def may_fail_def ask_def calm_env_def io_simps)

lemma ports_frame_scan: "ports_frame v sql_scan_ctx"
  by (simp add: ports_frame_def frames_step_def idle_rd_def one_file_fs_def fixed_runtime_def frame_rules)

lemma one_pair_row: "row_to_pair unary_lib (pair_params unary_lib (sample_pair (Id 1) (Id 2))) = Inr (sample_pair (Id 1) (Id 2))"
  by (rule pair_roundtrip [OF unary_laws])
     (simp add: pair_ok_def sample_pair_def wf_abs_def wf_path_def starts_with_char_def MAX_PATH_BYTES_def ts_ok_def)

lemma scan_one: "scan unary_lib [r] = [r]" "scan unary_lib [] = []"
  by (simp_all add: scan_def unary_lib_def ascii_lib_def)

lemma pair_params_id: "prr_id (pair_params SL p) = id_text SL pair_prefix (pr_id p)"
  by (simp add: pair_params_def)

lemma one_pair_db_tables [simp]:
  "db_pairs one_pair_db = [pair_params unary_lib (sample_pair (Id 1) (Id 2))]" "db_entries one_pair_db = []"
  "db_runs one_pair_db = []" "db_ops one_pair_db = []"
  by (simp_all add: one_pair_db_def empty_database_def)

abbreviation one_pair_world :: "unit sql_world" where
  "one_pair_world \<equiv> \<lparr>sw_db = one_pair_db, sw_ext = ()\<rparr>"

lemma sql_advance: "advance_cursor sql_scan_ctx None one_pair_world = (Inr (), one_pair_world)"
  by (simp add: advance_cursor_def io_simps state_call_def sql_state_store_def store_ops calm_conn pairs_get_def fetch_row_def
      calm_stmt to_store_error_def on_db_def query_def select_def scan_one pair_params_id one_pair_row)

lemma sql_file_queued:
  "\<exists>out w'. phase_local_uploads sql_scan_ctx {} [] one_pair_world = (Inr out, w')
     \<and> lo_decisions out = [\<lparr>d_pair_id = Id 1, d_relative_path = RelPath ''a'', d_kind = DUpload\<rparr>]
     \<and> lo_initial_collisions out = []"
proof -
  have p: "parse_rel ascii_lib ''a'' = Inr (RelPath ''a'')"
    by (simp add: rel_path_from_str_Inr wf_path_def starts_with_char_def MAX_PATH_BYTES_def)
  have "is_ascii ''/r/a''" by simp
  then have rp: "rel_from_abs ascii_lib (AbsPath ''/r'') (PathBuf ''/r/a'') = Some (RelPath ''a'')"
    using p by (simp add: rel_from_abs_def path_to_str_ascii trim_start_def ok_def del: path_to_str.simps)
  have f: "find_case_collision ascii_lib (RelPath ''a'') ([] :: remote_item path_map) = None"
    by (simp add: find_case_collision_def ascii_lib_def)
  have k: "upload_kind synthetic_remote_side = DUpload"
    by (simp add: upload_kind_def synthetic_remote_side_def)
  obtain r where r: "entry_params unary_lib (upload_entry (Id 1) (RelPath ''a'') synthetic_remote_side None 1000) = Inr r"
    and rp1: "fer_pair_id r = id_text unary_lib pair_prefix (Id 1 :: pair_id)" "fer_pending_op_id r = None"
      "fer_kind r = ''file''" "fer_sync_state r = ''pending_upload''"
    by (simp add: entry_params_def upload_entry_def encode_entry_side_def unary_lib_def unary_show_def
        synthetic_remote_side_def)
  show ?thesis
    using rp f k r
    by (simp add: phase_local_uploads_def io_simps local_call_def one_file_fs_def local_entry_def Let_def
        queue_upload_def state_call_def needs_upload_def clock_now_def fixed_runtime_def
        sql_state_store_def store_ops calm_conn entries_get_def entries_upsert_def fetch_row_def calm_stmt to_store_error_def
        on_db_def query_def select_def scan_one upsert_entry_def pair_exists_def col_def pair_params_id rp1)
qed

lemma sql_upload_planned:
  "\<exists>pl w1. cycle_decide sql_scan_ctx (Id 5) 1000 one_pair_world = (Inr pl, w1) \<and> map op_kind (cp_ops pl) = [Upload]"
proof -
  have c0: "detect_remote_case_collisions ascii_lib [] = []" "lib_hash_order ascii_lib [] = []"
    by (simp_all add: detect_remote_case_collisions_def ascii_lib_def)
  have d: "phase_delta_reconcile sql_scan_ctx one_pair_world
      = (Inr \<lparr>da_decisions = [], da_conflicts = 0, da_renames = [], da_by_path = [],
             do_items_seen = 0, do_delta_token = None\<rparr>, one_pair_world)"
    by (simp add: phase_delta_reconcile_def io_simps remote_call_def idle_rd_def c0
        process_remote_case_collisions_def in_hash_order_def Let_def)
  from sql_file_queued obtain out w1 where
    l: "phase_local_uploads sql_scan_ctx {} [] one_pair_world = (Inr out, w1)"
      "lo_decisions out = [\<lparr>d_pair_id = Id 1, d_relative_path = RelPath ''a'', d_kind = DUpload\<rparr>]"
      "lo_initial_collisions out = []" by blast
  show ?thesis
    by (simp add: cycle_decide_def bindE_def d sql_advance l Let_def apply_initial_sync_collisions_def returnE_def
        phase_resolve_conflicts_def plan_def make_op_def liftE_def split: prod.split)
qed

theorem sqlite_cycle_executes_nothing_witness:
  "\<exists>pl w1 w2. cycle_decide sql_scan_ctx (Id 5) 1000 one_pair_world = (Inr pl, w1)
     \<and> map op_kind (cp_ops pl) = [Upload]
     \<and> phase_execute sql_scan_ctx (cp_ops pl) w1 = (Inr (0, 1), w2)"
proof -
  obtain pl w1 where d: "cycle_decide sql_scan_ctx (Id 5) 1000 one_pair_world = (Inr pl, w1)"
    and k: "map op_kind (cp_ops pl) = [Upload]" using sql_upload_planned by (elim exE conjE) (rule that)
  have st: "cycle_start sql_scan_ctx one_pair_world = (Inr (Id 5, 1000), one_pair_world)"
    by (simp add: cycle_start_def clock_now_def fresh_id_def emit_def io_simps fixed_runtime_def new_id_def)
  have un: "\<not> run_recorded unary_lib (Id 5) (run_tables one_pair_world)"
    by (simp add: run_recorded_def run_tables_def)
  have n: "length (cp_ops pl) = 1" by (metis k length_map length_Cons list.size(3) One_nat_def)
  have "cx_state sql_scan_ctx = sql_state_store unary_lib calm_env" by simp
  from sqlite_cycle_executes_nothing [OF this ports_frame_scan st un d, of idle_rd one_file_fs] d k n
  show ?thesis by auto
qed

end
