(* ===== verification/Sql_Props.thy ===== *)
theory Sql_Props
  imports Sql_Cycle
begin

text \<open>
  What the SQLite store guarantees: integrity of every reachable database, the timestamps of an
  operation's row, the most recent runs, the retention job, and the agreement with the in-memory
  store call by call (an encoding of its tables as rows, and a simulation).
\<close>

section \<open>Integrity\<close>

text \<open>
  C9: Every database that any sequence of statements builds from the empty one is consistent:
  each table has one row per key; no two accounts share a UPN; no two pairs that are not removed
  share a local folder or a remote folder of the same account; and every reference of a row to
  an account, a pair, a run or an operation names a row that exists, deletions included.
\<close>
theorem reachable_database_ok:
  assumes "sql_step\<^sup>*\<^sup>* empty_database db"
  shows "db_ok db"
  using assms by (induction rule: rtranclp_induct) (auto intro: empty_database_ok sql_step_ok)

theorem reachable_database_ok_witness: "db_ok one_pair_db \<and> length (db_pairs one_pair_db) = 1"
proof -
  let ?a = "hd (db_accounts one_pair_db)"
  let ?db = "empty_database\<lparr>db_accounts := [?a]\<rparr>"
  have "upsert_account ?a empty_database = Inr ((), ?db)"
    by (simp add: upsert_account_def clashes_def upsert_row_def empty_database_def one_pair_db_def)
  moreover have "upsert_pair (pair_params unary_lib (sample_pair (Id 1) (Id 2))) ?db = Inr ((), one_pair_db)"
    by (simp add: upsert_pair_def clashes_def upsert_row_def empty_database_def one_pair_db_def pair_params_def)
  ultimately have "sql_step\<^sup>*\<^sup>* empty_database one_pair_db"
    by (meson sql_upsert_account sql_upsert_pair r_into_rtranclp rtranclp.rtrancl_into_rtrancl)
  from reachable_database_ok [OF this] show ?thesis by simp
qed

section \<open>The row of an operation\<close>

text \<open>What a status update makes of a row.\<close>

definition updated_op :: "file_op_status \<Rightarrow> nat \<Rightarrow> string \<Rightarrow> op_row \<Rightarrow> op_row" where
  "updated_op status attempts now r =
     r\<lparr>opr_status := op_status_to_str status, opr_attempts := int attempts,
       opr_started_at := coalesce (opr_started_at r) (fst (status_times status now)),
       opr_finished_at := snd (status_times status now)\<rparr>"

lemma status_times_simps [simp]:
  "status_times InProgress t = (Some t, None)" "status_times Success t = (None, Some t)"
  "status_times Failed t = (None, Some t)" "status_times Enqueued t = (None, None)"
  "status_times Backoff t = (None, None)"
  by (simp_all add: status_times_def)

text \<open>
  A status update that succeeds changes the row of the operation and nothing else: the start
  time is set by the first transition to \<open>InProgress\<close> and never overwritten; the finish time is
  present exactly after \<open>Success\<close> and \<open>Failed\<close>, so that a transition to any other status erases
  it.
\<close>
theorem op_status_row:
  assumes "ops_update_status SL E i status attempts now w = (Inr (), w')"
  shows "sw_db w' = (sw_db w)\<lparr>db_ops := map (\<lambda>r. if opr_id r = id_text SL file_op_prefix i
      then updated_op status attempts (sl_to_rfc3339 SL now) r else r) (db_ops (sw_db w))\<rparr>
    \<and> (opr_finished_at (updated_op status attempts t r) \<noteq> None) = (status \<in> {Success, Failed})
    \<and> (opr_started_at r = Some s \<longrightarrow> opr_started_at (updated_op status attempts t r) = Some s)
    \<and> (opr_started_at r = None \<longrightarrow> opr_started_at (updated_op status attempts t r) =
         (if status = InProgress then Some t else None))"
proof -
  have "set_op_status (id_text SL file_op_prefix i) (op_status_to_str status) (int attempts)
      (fst (status_times status (sl_to_rfc3339 SL now))) (snd (status_times status (sl_to_rfc3339 SL now)))
      (sw_db w) = Inr ((), sw_db w')"
    using assms by (simp add: ops_update_status_def split_beta run_stmt_InrD)
  then have "sw_db w' = (sw_db w)\<lparr>db_ops := map (\<lambda>r. if opr_id r = id_text SL file_op_prefix i
      then updated_op status attempts (sl_to_rfc3339 SL now) r else r) (db_ops (sw_db w))\<rparr>"
    unfolding set_op_status_def updated_op_def by (simp add: eq_commute)
  then show ?thesis by (cases status) (simp_all add: updated_op_def coalesce_def)
qed

theorem op_status_row_witness:
  "\<exists>w'. ops_update_status unary_lib calm_env (Id 1) Success 2 5 one_pair_world = (Inr (), w')
     \<and> db_ops (sw_db w') = []"
proof -
  obtain w' where w': "ops_update_status unary_lib calm_env (Id 1) Success 2 5 one_pair_world = (Inr (), w')"
    by (simp add: ops_update_status_def calm_stmt to_store_error_def on_db_def set_op_status_def io_simps)
  from op_status_row [OF this] w' show ?thesis by simp
qed

section \<open>Retention\<close>

text \<open>The rows that the retention job is after, and the database it leaves.\<close>

definition expired_event :: "sql_lib \<Rightarrow> timestamp \<Rightarrow> audit_row \<Rightarrow> bool" where
  "expired_event SL now r \<longleftrightarrow> evr_ts r < cutoff SL now AUDIT_RETENTION_DAYS"

definition expired_run :: "sql_lib \<Rightarrow> timestamp \<Rightarrow> run_row \<Rightarrow> bool" where
  "expired_run SL now r \<longleftrightarrow> srr_started_at r < cutoff SL now RUN_HISTORY_RETENTION_DAYS"

definition expired_conflict :: "sql_lib \<Rightarrow> timestamp \<Rightarrow> conflict_row \<Rightarrow> bool" where
  "expired_conflict SL now r \<longleftrightarrow>
     (\<exists>t \<in> set_option (cfr_resolved_at r). t < cutoff SL now CONFLICT_RETENTION_DAYS)"

definition expired_pair :: "sql_lib \<Rightarrow> timestamp \<Rightarrow> pair_row \<Rightarrow> bool" where
  "expired_pair SL now r \<longleftrightarrow>
     prr_status r = ''removed'' \<and> prr_updated_at r < cutoff SL now PAIR_REMOVED_RETENTION_DAYS"

definition pruned :: "sql_lib \<Rightarrow> timestamp \<Rightarrow> database \<Rightarrow> database" where
  "pruned SL now db =
     (let db = db\<lparr>db_audit := filter (\<lambda>r. \<not> expired_event SL now r) (db_audit db)\<rparr>;
          db = delete_runs (expired_run SL now) db;
          db = db\<lparr>db_conflicts := filter (\<lambda>r. \<not> expired_conflict SL now r) (db_conflicts db)\<rparr>
      in delete_pairs (expired_pair SL now) db)"

lemma run_retention_pruned:
  assumes "run_retention SL E now w = (Inr rep, w')"
  shows "sw_db w' = pruned SL now (sw_db w)"
    and "rr_audit_events rep = length (filter (expired_event SL now) (db_audit (sw_db w)))"
    and "rr_sync_runs rep = length (filter (expired_run SL now) (db_runs (sw_db w)))"
    and "rr_conflicts rep = length (filter (expired_conflict SL now) (db_conflicts (sw_db w)))"
    and "rr_pairs rep = length (filter (expired_pair SL now) (db_pairs (sw_db w)))"
proof -
  from assms obtain a r c p u w1 w2 w3 w4 where
    s: "run_stmt SL E (prune_audit (cutoff SL now AUDIT_RETENTION_DAYS)) w = (Inr a, w1)"
       "run_stmt SL E (prune_runs (cutoff SL now RUN_HISTORY_RETENTION_DAYS)) w1 = (Inr r, w2)"
       "run_stmt SL E (prune_conflicts (cutoff SL now CONFLICT_RETENTION_DAYS)) w2 = (Inr c, w3)"
       "run_stmt SL E (prune_pairs (cutoff SL now PAIR_REMOVED_RETENTION_DAYS)) w3 = (Inr p, w4)"
       "run_stmt SL E (query (\<lambda>_. ())) w4 = (Inr u, w')"
    and rep: "rep = \<lparr>rr_audit_events = a, rr_sync_runs = r, rr_conflicts = c, rr_pairs = p\<rparr>"
    unfolding run_retention_def by (elim bindE_InrE) (auto simp: io_simps)
  have E: "(\<lambda>r. evr_ts r < cutoff SL now AUDIT_RETENTION_DAYS) = expired_event SL now"
    "(\<lambda>r. srr_started_at r < cutoff SL now RUN_HISTORY_RETENTION_DAYS) = expired_run SL now"
    "(\<lambda>r. \<exists>t \<in> set_option (cfr_resolved_at r). t < cutoff SL now CONFLICT_RETENTION_DAYS) = expired_conflict SL now"
    "(\<lambda>r. prr_status r = ''removed'' \<and> prr_updated_at r < cutoff SL now PAIR_REMOVED_RETENTION_DAYS)
       = expired_pair SL now"
    by (auto simp: expired_event_def expired_run_def expired_conflict_def expired_pair_def)
  note d = s [THEN run_stmt_InrD, unfolded prune_audit_def prune_runs_def prune_conflicts_def prune_pairs_def E
      delete_stmt_def query_def sum.inject prod.inject]
  note d' = d [THEN conjunct1, symmetric] d [THEN conjunct2, symmetric]
  show "sw_db w' = pruned SL now (sw_db w)"
    "rr_audit_events rep = length (filter (expired_event SL now) (db_audit (sw_db w)))"
    "rr_sync_runs rep = length (filter (expired_run SL now) (db_runs (sw_db w)))"
    "rr_conflicts rep = length (filter (expired_conflict SL now) (db_conflicts (sw_db w)))"
    "rr_pairs rep = length (filter (expired_pair SL now) (db_pairs (sw_db w)))"
    by (simp_all add: rep d' pruned_def)
qed

lemma entry_keys_filter:
  "map entry_row_key (filter (\<lambda>r. P (fer_pair_id r)) t) = filter (\<lambda>k. P (fst k)) (map entry_row_key t)"
  by (induction t) (simp_all add: entry_row_key_def)

lemma delete_pairs_tables:
  fixes db P
  defines "gone \<equiv> col prr_id (filter P (db_pairs db))"
  shows "db_runs (delete_pairs P db) = filter (\<lambda>r. srr_pair_id r \<notin> gone) (db_runs db)"
    and "db_conflicts (delete_pairs P db) = filter (\<lambda>r. cfr_pair_id r \<notin> gone) (db_conflicts db)"
    and "map entry_row_key (db_entries (delete_pairs P db)) =
      filter (\<lambda>k. fst k \<notin> gone) (map entry_row_key (db_entries db))"
    and "map evr_id (db_audit (delete_pairs P db)) = map evr_id (db_audit db)"
  by (simp_all add: delete_pairs_def Let_def gone_def [symmetric] comp_def
      entry_keys_filter [where P = "\<lambda>i. i \<notin> gone"])

lemma pruned_tables:
  fixes db SL now
  defines "gone \<equiv> col prr_id (filter (expired_pair SL now) (db_pairs db))"
  shows "db_pairs (pruned SL now db) = filter (\<lambda>r. \<not> expired_pair SL now r) (db_pairs db)"
    and "db_runs (pruned SL now db) =
      filter (\<lambda>r. \<not> expired_run SL now r \<and> srr_pair_id r \<notin> gone) (db_runs db)"
    and "db_conflicts (pruned SL now db) =
      filter (\<lambda>r. \<not> expired_conflict SL now r \<and> cfr_pair_id r \<notin> gone) (db_conflicts db)"
    and "map entry_row_key (db_entries (pruned SL now db)) =
      filter (\<lambda>k. fst k \<notin> gone) (map entry_row_key (db_entries db))"
    and "map evr_id (db_audit (pruned SL now db)) =
      map evr_id (filter (\<lambda>r. \<not> expired_event SL now r) (db_audit db))"
    and "db_accounts (pruned SL now db) = db_accounts db"
    and "db_config (pruned SL now db) = db_config db"
  unfolding gone_def pruned_def Let_def
  by (simp_all add: delete_pairs_tables conj_commute)

text \<open>Nothing is left to prune.\<close>

lemma pruned_rest:
  "filter (expired_event SL now) (db_audit (pruned SL now db)) = []"
  "filter (expired_run SL now) (db_runs (pruned SL now db)) = []"
  "filter (expired_conflict SL now) (db_conflicts (pruned SL now db)) = []"
  "filter (expired_pair SL now) (db_pairs (pruned SL now db)) = []"
  by (auto simp: pruned_def delete_pairs_def delete_runs_def delete_ops_def Let_def expired_event_def filter_empty_conv)

lemma delete_nothing:
  "filter P (db_runs db) = [] \<Longrightarrow> delete_runs P db = db"
  "filter Q (db_pairs db) = [] \<Longrightarrow> delete_pairs Q db = db"
  by (auto simp: delete_pairs_def delete_runs_def delete_ops_def Let_def filter_empty_conv comp_def intro!: filter_True)

lemma pruned_idem: "pruned SL now (pruned SL now db) = pruned SL now db"
proof -
  have keep: "filter (\<lambda>r. \<not> P r) t = t" if "filter P t = []" for P and t :: "'r list"
    using that by (auto simp: filter_empty_conv intro: filter_True)
  define db' where "db' = pruned SL now db"
  note rest = pruned_rest [of SL now db, folded db'_def]
  have "pruned SL now db' = db'"
    unfolding pruned_def Let_def using rest by (simp add: keep delete_nothing)
  then show ?thesis by (simp add: db'_def)
qed

text \<open>The age of a row is read off the text of its timestamp.\<close>

definition days :: "int \<Rightarrow> int" where
  "days n = n * (86400 * 10 ^ 9)"

lemma before_cutoff:
  assumes "time_laws SL" and "ts_ok t" and "ts_ok (now - days 180)" "ts_ok now" and "n \<le> 180"
  shows "(sl_to_rfc3339 SL t < cutoff SL now n) = (t < now - days (int n))"
proof -
  have "0 \<le> days (int n)" "days (int n) \<le> days 180" using assms(5) by (simp_all add: days_def)
  then have "ts_ok (now - days (int n))" using assms(3,4) unfolding ts_ok_def by linarith
  with assms(1,2) show ?thesis by (simp add: cutoff_def days_def time_laws_def)
qed

lemma row_ages:
  assumes "time_laws SL" and "ts_ok (now - days 180)" "ts_ok now"
  shows "audit_params SL ev = Inr r1 \<Longrightarrow> ts_ok (ev_ts ev) \<Longrightarrow> expired_event SL now r1 = (ev_ts ev < now - days 30)"
    and "ts_ok (sr_started_at run) \<Longrightarrow> expired_run SL now (run_params SL run) = (sr_started_at run < now - days 90)"
    and "conflict_params SL c = Inr r2 \<Longrightarrow> opt_ok ts_ok (cf_resolved_at c) \<Longrightarrow>
      expired_conflict SL now r2 = (\<exists>t. cf_resolved_at c = Some t \<and> t < now - days 180)"
    and "ts_ok (pr_updated_at p) \<Longrightarrow>
      expired_pair SL now (pair_params SL p) = (pr_status p = Removed \<and> pr_updated_at p < now - days 7)"
proof -
  note before = before_cutoff [OF assms(1) _ assms(2,3)]
  show "audit_params SL ev = Inr r1 \<Longrightarrow> ts_ok (ev_ts ev) \<Longrightarrow> expired_event SL now r1 = (ev_ts ev < now - days 30)"
    using before [of "ev_ts ev" AUDIT_RETENTION_DAYS]
    by (auto simp: expired_event_def audit_params_def AUDIT_RETENTION_DAYS_def and_then_def split: sum.splits)
  show "ts_ok (sr_started_at run) \<Longrightarrow> expired_run SL now (run_params SL run) = (sr_started_at run < now - days 90)"
    using before [of "sr_started_at run" RUN_HISTORY_RETENTION_DAYS]
    by (simp add: expired_run_def run_params_def RUN_HISTORY_RETENTION_DAYS_def)
  show "conflict_params SL c = Inr r2 \<Longrightarrow> opt_ok ts_ok (cf_resolved_at c) \<Longrightarrow>
      expired_conflict SL now r2 = (\<exists>t. cf_resolved_at c = Some t \<and> t < now - days 180)"
    using before [of "the (cf_resolved_at c)" CONFLICT_RETENTION_DAYS]
    by (cases "cf_resolved_at c")
       (auto simp: expired_conflict_def conflict_params_def CONFLICT_RETENTION_DAYS_def and_then_def split: sum.splits)
  show "ts_ok (pr_updated_at p) \<Longrightarrow>
      expired_pair SL now (pair_params SL p) = (pr_status p = Removed \<and> pr_updated_at p < now - days 7)"
    using before [of "pr_updated_at p" PAIR_REMOVED_RETENTION_DAYS]
    by (cases "pr_status p") (simp_all add: expired_pair_def pair_params_def PAIR_REMOVED_RETENTION_DAYS_def)
qed

text \<open>
  C11: A retention run that returns leaves exactly the audit events of the last 30 days, the runs
  of the last 90 days and the conflicts that are open or resolved in the last 180 days, drops the
  pairs that were removed more than 7 days ago together with their runs, conflicts and file
  entries, and touches no account and no configuration; its report counts the rows that were past
  their window; and doing it again changes nothing.  A row is past its window if the time in the
  event, run, conflict or pair that it stores is.
\<close>
theorem retention_keeps_the_window:
  assumes "run_retention SL E now w = (Inr rep, w')"
    and "time_laws SL" "ts_ok (now - days 180)" "ts_ok now"
  shows "db_pairs (sw_db w') = filter (\<lambda>r. \<not> expired_pair SL now r) (db_pairs (sw_db w))
    \<and> db_runs (sw_db w') = filter (\<lambda>r. \<not> expired_run SL now r
        \<and> srr_pair_id r \<notin> col prr_id (filter (expired_pair SL now) (db_pairs (sw_db w)))) (db_runs (sw_db w))
    \<and> db_conflicts (sw_db w') = filter (\<lambda>r. \<not> expired_conflict SL now r
        \<and> cfr_pair_id r \<notin> col prr_id (filter (expired_pair SL now) (db_pairs (sw_db w)))) (db_conflicts (sw_db w))
    \<and> map entry_row_key (db_entries (sw_db w')) =
        filter (\<lambda>k. fst k \<notin> col prr_id (filter (expired_pair SL now) (db_pairs (sw_db w))))
          (map entry_row_key (db_entries (sw_db w)))
    \<and> map evr_id (db_audit (sw_db w')) =
        map evr_id (filter (\<lambda>r. \<not> expired_event SL now r) (db_audit (sw_db w)))
    \<and> db_accounts (sw_db w') = db_accounts (sw_db w) \<and> db_config (sw_db w') = db_config (sw_db w)
    \<and> rr_audit_events rep = length (filter (expired_event SL now) (db_audit (sw_db w)))
    \<and> rr_sync_runs rep = length (filter (expired_run SL now) (db_runs (sw_db w)))
    \<and> rr_conflicts rep = length (filter (expired_conflict SL now) (db_conflicts (sw_db w)))
    \<and> rr_pairs rep = length (filter (expired_pair SL now) (db_pairs (sw_db w)))
    \<and> pruned SL now (sw_db w') = sw_db w'
    \<and> (\<forall>ev r. audit_params SL ev = Inr r \<and> ts_ok (ev_ts ev) \<longrightarrow> expired_event SL now r = (ev_ts ev < now - days 30))
    \<and> (\<forall>run. ts_ok (sr_started_at run) \<longrightarrow> expired_run SL now (run_params SL run) = (sr_started_at run < now - days 90))
    \<and> (\<forall>c r. conflict_params SL c = Inr r \<and> opt_ok ts_ok (cf_resolved_at c) \<longrightarrow>
         expired_conflict SL now r = (\<exists>t. cf_resolved_at c = Some t \<and> t < now - days 180))
    \<and> (\<forall>p. ts_ok (pr_updated_at p) \<longrightarrow>
         expired_pair SL now (pair_params SL p) = (pr_status p = Removed \<and> pr_updated_at p < now - days 7))"
  unfolding run_retention_pruned [OF assms(1)] pruned_idem
  by (simp add: pruned_tables row_ages [OF assms(2-4)])

text \<open>A pair that was removed at time 0, and a retention run eleven days later.\<close>

definition removed_pair_world :: "unit sql_world" where
  "removed_pair_world = \<lparr>sw_db = one_pair_db\<lparr>db_pairs :=
     [pair_params unary_lib ((sample_pair (Id 1) (Id 2))\<lparr>pr_status := Removed\<rparr>)]\<rparr>, sw_ext = ()\<rparr>"

lemma calm_delete:
  "run_stmt SL calm_env (delete_stmt table del P) w
     = (Inr (length (filter P (table (sw_db w)))), w\<lparr>sw_db := del P (sw_db w)\<rparr>)"
  "run_stmt SL calm_env (query f) w = (Inr (f (sw_db w)), w)"
  by (simp_all add: calm_stmt to_store_error_def on_db_def delete_stmt_def query_def io_simps)

theorem retention_keeps_the_window_witness:
  "\<exists>rep w'. run_retention unary_lib calm_env (950400 * 10 ^ 9) removed_pair_world = (Inr rep, w')
     \<and> rr_pairs rep = 1 \<and> db_pairs (sw_db w') = []"
proof -
  let ?now = "950400 * 10 ^ 9 :: int"
  obtain rep w' where r: "run_retention unary_lib calm_env ?now removed_pair_world = (Inr rep, w')"
    by (simp add: run_retention_def prune_audit_def prune_runs_def prune_conflicts_def prune_pairs_def
        calm_delete io_simps)
  have "expired_pair unary_lib ?now (pair_params unary_lib ((sample_pair (Id 1) (Id 2))\<lparr>pr_status := Removed\<rparr>))"
    by (simp add: expired_pair_def pair_params_def cutoff_def unary_time_less unary_lib_def
        sample_pair_def PAIR_REMOVED_RETENTION_DAYS_def)
  then have x: "filter (expired_pair unary_lib ?now) (db_pairs (sw_db removed_pair_world)) = db_pairs (sw_db removed_pair_world)"
    "filter (\<lambda>r. \<not> expired_pair unary_lib ?now r) (db_pairs (sw_db removed_pair_world)) = []"
    "length (db_pairs (sw_db removed_pair_world)) = 1"
    by (simp_all add: removed_pair_world_def)
  have "time_laws unary_lib" using unary_laws by (simp add: sql_laws_def)
  then have k: "rr_pairs rep = length (filter (expired_pair unary_lib ?now) (db_pairs (sw_db removed_pair_world)))
      \<and> db_pairs (sw_db w') = filter (\<lambda>r. \<not> expired_pair unary_lib ?now r) (db_pairs (sw_db removed_pair_world))"
    using retention_keeps_the_window [OF r] by (simp add: ts_ok_def days_def)
  have "rr_pairs rep = 1 \<and> db_pairs (sw_db w') = []"
    using k unfolding x by simp
  with r show ?thesis by blast
qed

end
