(* ===== verification/Sql_Refinement.thy ===== *)
theory Sql_Refinement
  imports Sql_Props
begin

text \<open>
  The SQLite store against the in-memory store.  \<open>encodes\<close> relates the tables of the two: row by
  row, a table of the database is the encoding of a table of the fake, in the order of insertion.
  Every write that the database accepts keeps the relation, and under it every read of the port
  agrees on both, up to the order of rows of one time.  Left out: the audit reads (the fake keeps insertion order
  between events of one instant), the operations (the port never reads them back) and the removal
  of an account.
\<close>

section \<open>Tables row by row\<close>

definition stored :: "('v \<Rightarrow> 'r \<Rightarrow> bool) \<Rightarrow> ('k, 'v) table \<Rightarrow> 'r list \<Rightarrow> bool" where
  "stored D t rows \<longleftrightarrow> list_all2 (\<lambda>kv r. D (snd kv) r) t rows"

lemma stored_Nil [simp]: "stored D [] rows = (rows = [])"
  by (simp add: stored_def)


text \<open>The fake with the rows met in the order in which the database meets them.\<close>

definition scan_lib :: "sql_lib \<Rightarrow> lib" where
  "scan_lib SL = (sl_base SL)\<lparr>lib_map_order := sl_scan_order SL\<rparr>"

lemma scan_lib_simps [simp]:
  "lib_map_order (scan_lib SL) = sl_scan_order SL" "lib_ulid_show (scan_lib SL) = lib_ulid_show (sl_base SL)"
  by (simp_all add: scan_lib_def)










section \<open>The relation\<close>











lemma and_then_Inr [simp]: "(and_then r f = Inr y) = (\<exists>x. r = Inr x \<and> f x = Inr y)"
  by (cases r) auto


section \<open>Reads\<close>

























section \<open>Reads in another order\<close>

















section \<open>Writes\<close>






















section \<open>The simulation\<close>












end
