(* ===== verification/Auth.thy ===== *)
theory Auth
  imports Scheduler
begin

text \<open>
  Interactive sign-in (\<open>crates/onesync-graph/src/auth\<close>): the PKCE pair, the one-shot loopback
  listener with its parser of the redirect, the authorization-code grant and the claims of the
  identity token.  Sockets, timers, SHA-256, base64 and JSON parsing are the parameter
  \<open>auth_lib\<close>; the string functions of the standard library are defined here.
\<close>

section \<open>Standard library\<close>

text \<open>\<open>String::from_utf8_lossy\<close>: the next chunk is valid or not, and so many bytes long.\<close>

definition cont_at :: "nat list \<Rightarrow> nat \<Rightarrow> bool" where
  "cont_at bs i \<longleftrightarrow> i < length bs \<and> utf8_cont (bs ! i)"

definition second_ok :: "nat \<Rightarrow> nat \<Rightarrow> bool" where
  "second_ok a b \<longleftrightarrow> utf8_cont b
     \<and> (a = 224 \<longrightarrow> 160 \<le> b) \<and> (a = 237 \<longrightarrow> b \<le> 159) \<and> (a = 240 \<longrightarrow> 144 \<le> b) \<and> (a = 244 \<longrightarrow> b \<le> 143)"

definition utf8_chunk :: "nat list \<Rightarrow> bool \<times> nat" where
  "utf8_chunk bs =
     (let a = hd bs
      in if a < 128 then (True, 1)
         else if 194 \<le> a \<and> a \<le> 223 then (if cont_at bs 1 then (True, 2) else (False, 1))
         else if 224 \<le> a \<and> a \<le> 244 \<and> \<not> (1 < length bs \<and> second_ok a (bs ! 1)) then (False, 1)
         else if 224 \<le> a \<and> a \<le> 239 then (if cont_at bs 2 then (True, 3) else (False, 2))
         else if 240 \<le> a \<and> a \<le> 244 then
           (if \<not> cont_at bs 2 then (False, 2) else if \<not> cont_at bs 3 then (False, 3) else (True, 4))
         else (False, 1))"

definition REPLACEMENT :: string where "REPLACEMENT = map char_of [239 :: nat, 191, 189]"

text \<open>\<open>copy\<close> and \<open>skip\<close>: bytes of the current chunk still to be copied or dropped.\<close>

fun lossy :: "nat \<Rightarrow> nat \<Rightarrow> string \<Rightarrow> string" where
  "lossy n m [] = []"
| "lossy (Suc n) m (c # cs) = c # lossy n m cs"
| "lossy 0 (Suc m) (c # cs) = lossy 0 m cs"
| "lossy 0 0 (c # cs) =
     (case utf8_chunk (map of_char (c # cs)) of
        (True, k) \<Rightarrow> c # lossy (k - 1) 0 cs
      | (False, k) \<Rightarrow> REPLACEMENT @ lossy 0 (k - 1) cs)"

definition from_utf8_lossy :: "string \<Rightarrow> string" where
  "from_utf8_lossy s = lossy 0 0 s"

text \<open>\<open>str::lines().next()\<close>: a line ends at a newline, of which a carriage return before it is part.\<close>

definition strip_cr :: "string \<Rightarrow> string" where
  "strip_cr l = (if l \<noteq> [] \<and> last l = CHR 0x0D then butlast l else l)"

definition first_line :: "string \<Rightarrow> string option" where
  "first_line s =
     (if s = [] then None
      else case split_once CHR 0x0A s of None \<Rightarrow> Some s | Some (l, _) \<Rightarrow> Some (strip_cr l))"

text \<open>\<open>str::split_whitespace\<close>: the length of the white-space character at the front, or 0.\<close>

fun ws_len :: "nat list \<Rightarrow> nat" where
  "ws_len [] = 0"
| "ws_len (a # r) =
     (if 9 \<le> a \<and> a \<le> 13 \<or> a = 32 then 1
      else if a = 194 \<and> (take 1 r = [133] \<or> take 1 r = [160]) then 2
      else if a = 225 \<and> take 2 r = [154, 128] then 3
      else if a = 226 \<and> take 1 r = [128] \<and>
        (\<exists>b \<in> set (take 1 (drop 1 r)). 128 \<le> b \<and> b \<le> 138 \<or> b = 168 \<or> b = 169 \<or> b = 175) then 3
      else if a = 226 \<and> take 2 r = [129, 159] then 3
      else if a = 227 \<and> take 2 r = [128, 128] then 3
      else 0)"

definition push_word :: "string \<Rightarrow> string list \<Rightarrow> string list" where
  "push_word acc ws = (if acc = [] then ws else rev acc # ws)"

fun split_ws :: "nat \<Rightarrow> string \<Rightarrow> string \<Rightarrow> string list" where
  "split_ws k acc [] = push_word acc []"
| "split_ws (Suc k) acc (c # cs) = split_ws k acc cs"
| "split_ws 0 acc (c # cs) =
     (let n = ws_len (map of_char (c # cs))
      in if n = 0 then split_ws 0 (c # acc) cs else push_word acc (split_ws (n - 1) [] cs))"

definition split_whitespace :: "string \<Rightarrow> string list" where
  "split_whitespace s = split_ws 0 [] s"

definition nth_opt :: "nat \<Rightarrow> 'a list \<Rightarrow> 'a option" where
  "nth_opt n xs = (if n < length xs then Some (xs ! n) else None)"

text \<open>\<open>char::from(u8)\<close> pushed on a \<open>String\<close>: two bytes from 128 on.\<close>

definition char_from_u8 :: "nat \<Rightarrow> string" where
  "char_from_u8 b = (if b < 128 then [char_of b] else [char_of (192 + b div 64), char_of (128 + b mod 64)])"

section \<open>The \<open>Display\<close> form of the adapter's errors\<close>

definition with_rid :: "string \<Rightarrow> string \<Rightarrow> string" where
  "with_rid s rid = s @ '' (request-id: '' @ rid @ '')''"

fun gi_display :: "graph_internal_error \<Rightarrow> string" where
  "gi_display (GiUnauthorized rid) = with_rid ''unauthorized'' rid"
| "gi_display (GiReAuthRequired rid) = with_rid ''re-auth required'' rid"
| "gi_display (GiForbidden rid) = with_rid ''forbidden'' rid"
| "gi_display (GiNotFound rid) = with_rid ''not found'' rid"
| "gi_display (GiNameConflict rid) = with_rid ''name conflict'' rid"
| "gi_display (GiResyncRequired rid) = with_rid ''resync required'' rid"
| "gi_display (GiStale etag rid) = ''stale (server_etag: '' @ etag @ '', request-id: '' @ rid @ '')''"
| "gi_display (GiInvalidRange rid) = with_rid ''invalid range'' rid"
| "gi_display (GiThrottled n rid) = with_rid (''throttled '' @ show_nat n @ ''s'') rid"
| "gi_display (GiTransient d rid) = with_rid (''transient: '' @ d) rid"
| "gi_display (GiNetwork d) = ''network: '' @ d"
| "gi_display (GiDecode d) = ''decode: '' @ d"
| "gi_display GiHashMismatch = ''hash mismatch''"
| "gi_display GiTooLarge = ''file too large''"
| "gi_display GiTimeout = ''auth listener timeout''"
| "gi_display (GiInvalidArgument d) = ''invalid argument: '' @ d"

section \<open>PKCE\<close>

record 'w auth_lib =
  al_b64url :: "string \<Rightarrow> string"
  al_b64url_decode :: "string \<Rightarrow> string + string"
  al_sha256 :: "string \<Rightarrow> string"
  al_json :: "string \<Rightarrow> string + json"
  al_token :: "string \<Rightarrow> string + (token_response \<times> string \<times> string)"
  al_debug :: "string \<Rightarrow> string"
  al_random :: "nat \<Rightarrow> 'w \<Rightarrow> string \<times> 'w"
  al_bind :: "('w, string, nat) io"
  al_local_port :: "nat \<Rightarrow> ('w, string, nat) io"
  al_accept :: "nat \<Rightarrow> ('w, string, nat) io"
  al_read :: "nat \<Rightarrow> nat \<Rightarrow> ('w, string, string) io"
  al_write_all :: "nat \<Rightarrow> string \<Rightarrow> ('w, string, unit) io"
  al_timeout :: "nat \<Rightarrow> ('w, graph_internal_error, string \<times> string) io
    \<Rightarrow> ('w, unit, graph_internal_error + string \<times> string) io"

record pkce_pair =
  pk_verifier :: string
  pk_challenge :: string

definition pkce_from_raw_bytes :: "'w auth_lib \<Rightarrow> string \<Rightarrow> pkce_pair" where
  "pkce_from_raw_bytes al raw =
     (let verifier = al_b64url al raw
      in \<lparr>pk_verifier = verifier, pk_challenge = al_b64url al (al_sha256 al verifier)\<rparr>)"

definition pkce_generate :: "'w auth_lib \<Rightarrow> 'w \<Rightarrow> pkce_pair \<times> 'w" where
  "pkce_generate al w = (case al_random al 32 w of (raw, w') \<Rightarrow> (pkce_from_raw_bytes al raw, w'))"

section \<open>The loopback listener\<close>

definition listener_bind :: "'w auth_lib \<Rightarrow> ('w, nat \<times> nat) gio" where
  "listener_bind al =
     bindE (map_errE (\<lambda>e. GiNetwork (''failed to bind loopback listener: '' @ e)) (al_bind al)) (\<lambda>listener.
     bindE (map_errE (\<lambda>e. GiNetwork (''failed to get listener port: '' @ e)) (al_local_port al listener)) (\<lambda>port.
     returnE (listener, port)))"

definition hex_digit_of :: "char \<Rightarrow> nat option" where
  "hex_digit_of c =
     (let b = of_char c
      in if 48 \<le> b \<and> b \<le> 57 then Some (b - 48)
         else if 97 \<le> b \<and> b \<le> 102 then Some (b - 97 + 10)
         else if 65 \<le> b \<and> b \<le> 70 then Some (b - 65 + 10)
         else None)"

fun url_decode :: "string \<Rightarrow> string" where
  "url_decode [] = []"
| "url_decode (c # cs) =
     (case cs of
        h # l # r \<Rightarrow>
          (case (hex_digit_of h, hex_digit_of l) of
             (Some a, Some b) \<Rightarrow> if c = CHR ''%'' then char_from_u8 (16 * a + b) @ url_decode r
                                 else char_from_u8 (of_char c) @ url_decode cs
           | _ \<Rightarrow> char_from_u8 (of_char c) @ url_decode cs)
      | _ \<Rightarrow> char_from_u8 (of_char c) @ url_decode cs)"

definition query_param :: "string \<Rightarrow> string \<Rightarrow> string option \<times> string option \<Rightarrow> string option \<times> string option" where
  "query_param k v found =
     (if k = ''code'' then (Some (url_decode v), snd found)
      else if k = ''state'' then (fst found, Some (url_decode v))
      else found)"

fun scan_query :: "string list \<Rightarrow> string option \<times> string option \<Rightarrow> string option \<times> string option" where
  "scan_query [] found = found"
| "scan_query (kv # kvs) found =
     (case split_once CHR ''='' kv of
        Some (k, v) \<Rightarrow> scan_query kvs (query_param k v found)
      | None \<Rightarrow> scan_query kvs found)"

definition ok_or :: "'e \<Rightarrow> 'a option \<Rightarrow> 'e + 'a" where
  "ok_or e x = (case x of None \<Rightarrow> Inl e | Some a \<Rightarrow> Inr a)"

definition parse_code_and_state :: "string \<Rightarrow> graph_internal_error + string \<times> string" where
  "parse_code_and_state request =
     (case first_line request of
        None \<Rightarrow> Inl (GiDecode ''empty HTTP request'')
      | Some line \<Rightarrow>
          (case nth_opt 1 (split_whitespace line) of
             None \<Rightarrow> Inl (GiDecode ''malformed HTTP request line'')
           | Some path_part \<Rightarrow>
               let query = (case split_once CHR ''?'' path_part of None \<Rightarrow> [] | Some (_, q) \<Rightarrow> q)
               in case scan_query (split_on CHR ''&'' query) (None, None) of
                    (None, _) \<Rightarrow> Inl (GiDecode ''OAuth redirect missing 'code' parameter'')
                  | (Some code, None) \<Rightarrow> Inl (GiDecode ''OAuth redirect missing 'state' parameter'')
                  | (Some code, Some state) \<Rightarrow> Inr (code, state)))"

definition CRLF :: string where "CRLF = [CHR 0x0D, CHR 0x0A]"
definition RESPONSE_HEAD :: string where
  "RESPONSE_HEAD = ''HTTP/1.1 200 OK'' @ CRLF @ ''Content-Length: 36'' @ CRLF @ CRLF"
definition RESPONSE_BODY :: string where "RESPONSE_BODY = ''Authentication complete. Close this tab.''"

definition accept_redirect :: "'w auth_lib \<Rightarrow> nat \<Rightarrow> string \<Rightarrow> ('w, string \<times> string) gio" where
  "accept_redirect al listener expected_state =
     bindE (map_errE (\<lambda>e. GiNetwork (''listener accept failed: '' @ e)) (al_accept al listener)) (\<lambda>stream.
     bindE (map_errE (\<lambda>e. GiNetwork (''read from accepted stream failed: '' @ e)) (al_read al stream 4096)) (\<lambda>buf.
     bindE (resultE (parse_code_and_state (from_utf8_lossy buf))) (\<lambda>(code, state).
     if state \<noteq> expected_state then
       throwE (GiDecode (''OAuth state mismatch: expected '' @ al_debug al expected_state @ '', got '' @ al_debug al state))
     else
       bindE (map_errE (\<lambda>e. GiNetwork (''write response failed: '' @ e))
                (al_write_all al stream (RESPONSE_HEAD @ RESPONSE_BODY))) (\<lambda>_.
       returnE (code, state)))))"

definition await_code :: "'w auth_lib \<Rightarrow> nat \<Rightarrow> string \<Rightarrow> nat \<Rightarrow> ('w, string \<times> string) gio" where
  "await_code al listener expected_state timeout_s =
     bindE (map_errE (\<lambda>_. GiTimeout) (al_timeout al timeout_s (accept_redirect al listener expected_state)))
       resultE"

section \<open>The code grant\<close>

record auth_tokens =
  at_access_token :: string
  at_refresh_token :: string
  at_id_token :: string
  at_expires_in :: nat
  at_scope :: string

definition code_request :: "string \<Rightarrow> string \<Rightarrow> string \<Rightarrow> string \<Rightarrow> string \<Rightarrow> http_request" where
  "code_request url client_id code redirect_uri verifier =
     \<lparr>rq_method = MPost, rq_url = url, rq_bearer = None, rq_headers = [],
      rq_body = FormBody [(''client_id'', client_id), (''code'', code), (''code_verifier'', verifier),
                          (''grant_type'', ''authorization_code''), (''redirect_uri'', redirect_uri)]\<rparr>"

definition auth_tokens_of :: "token_response \<times> string \<times> string \<Rightarrow> auth_tokens" where
  "auth_tokens_of x = (case x of (t, id_token, scope) \<Rightarrow>
     \<lparr>at_access_token = tr_access_token t, at_refresh_token = tr_refresh_token t, at_id_token = id_token,
      at_expires_in = tr_expires_in t, at_scope = scope\<rparr>)"

definition code_exchange ::
  "'w auth_lib \<Rightarrow> 'w http_lib \<Rightarrow> string \<Rightarrow> string \<Rightarrow> string \<Rightarrow> string \<Rightarrow> string \<Rightarrow> ('w, auth_tokens) gio" where
  "code_exchange al ht authority client_id code redirect_uri verifier =
     (let url = ''https://login.microsoftonline.com/'' @ authority @ ''/oauth2/v2.0/token'' in
      bindE (send ht (code_request url client_id code redirect_uri verifier)) (\<lambda>resp.
      bindE (map_errE GiDecode (resultE (response_text ht resp))) (\<lambda>body.
      let status = rs_status resp
      in if status = 400 then
           (if is_invalid_grant ht body then throwE (GiReAuthRequired [])
            else throwE (GiDecode (''token endpoint returned 400: '' @ body)))
         else if \<not> is_success status then
           throwE (GiTransient (''token endpoint returned '' @ ht_status_text ht status @ '': '' @ body) [])
         else (case al_token al body of
                 Inr t \<Rightarrow> returnE (auth_tokens_of t)
               | Inl e \<Rightarrow> throwE (GiDecode (''token response parse failed: '' @ e @ '': '' @ body))))))"

section \<open>The identity token\<close>

definition CONSUMER_TENANT_ID :: string where
  "CONSUMER_TENANT_ID = ''9188040d-6c67-4c5b-b112-36a304b66dad''"

record id_token_claims =
  cl_tid :: string
  cl_oid :: string
  cl_upn :: string
  cl_display_name :: string
  cl_kind :: account_kind

text \<open>\<open>splitn(3, '.')\<close>, when it gives three parts.\<close>

definition three_segments :: "string \<Rightarrow> (string \<times> string \<times> string) option" where
  "three_segments s =
     Option.bind (split_once CHR ''.'' s) (\<lambda>(a, r).
     map_option (\<lambda>(b, c). (a, b, c)) (split_once CHR ''.'' r))"

definition string_claim :: "json \<Rightarrow> string \<Rightarrow> graph_internal_error + string" where
  "string_claim claims key =
     ok_or (GiDecode (''id_token missing required claim '' @ [CHR 0x27] @ key @ [CHR 0x27]))
       (Option.bind (json_field key claims) json_as_str)"

definition claims_of :: "json \<Rightarrow> graph_internal_error + id_token_claims" where
  "claims_of claims =
     (case string_claim claims ''tid'' of
        Inl e \<Rightarrow> Inl e
      | Inr tid \<Rightarrow>
          (case string_claim claims ''oid'' of
             Inl e \<Rightarrow> Inl e
           | Inr oid \<Rightarrow>
               Inr \<lparr>cl_tid = tid, cl_oid = oid,
                    cl_upn = unwrap_or [] (Option.bind
                      (or_else (json_field ''preferred_username'' claims) (json_field ''upn'' claims)) json_as_str),
                    cl_display_name = unwrap_or [] (Option.bind (json_field ''name'' claims) json_as_str),
                    cl_kind = (if tid = CONSUMER_TENANT_ID then Personal else Business)\<rparr>))"

definition id_token_parse :: "'w auth_lib \<Rightarrow> string \<Rightarrow> graph_internal_error + id_token_claims" where
  "id_token_parse al id_token =
     (case three_segments id_token of
        None \<Rightarrow> Inl (GiDecode ''id_token does not have 3 dot-separated segments'')
      | Some (_, payload, _) \<Rightarrow>
          (case al_b64url_decode al payload of
             Inl e \<Rightarrow> Inl (GiDecode (''id_token payload base64 decode failed: '' @ e))
           | Inr bytes \<Rightarrow>
               (case al_json al bytes of
                  Inl e \<Rightarrow> Inl (GiDecode (''id_token payload JSON parse failed: '' @ e))
                | Inr claims \<Rightarrow> claims_of claims)))"

end
