(* ===== verification/Rpc.thy ===== *)
theory Rpc
  imports Auth "HOL-Library.Sublist"
begin

text \<open>
  The IPC layer below the method handlers: the JSON-RPC types (\<open>onesync-protocol/src/rpc.rs\<close>),
  the line framing, the subscription registry with the tasks that forward its channels, the
  shutdown token, the registry of login sessions and the drain of the audit sink (\<open>ipc/\<close>,
  \<open>shutdown.rs\<close>, \<open>login_registry.rs\<close>, \<open>audit_sink.rs\<close> of \<open>onesync-daemon\<close>).
\<close>

section \<open>JSON-RPC types\<close>

definition PARSE_ERROR :: int where "PARSE_ERROR = - 32700"
definition INVALID_REQUEST :: int where "INVALID_REQUEST = - 32600"
definition METHOD_NOT_FOUND :: int where "METHOD_NOT_FOUND = - 32601"
definition INVALID_PARAMS :: int where "INVALID_PARAMS = - 32602"
definition INTERNAL_ERROR :: int where "INTERNAL_ERROR = - 32603"
definition APP_ERROR_BASE :: int where "APP_ERROR_BASE = - 32000"

record rpc_request =
  jq_jsonrpc :: string
  jq_id :: "json option"
  jq_method :: string
  jq_params :: json

record json_rpc_error =
  je_code :: int
  je_message :: string
  je_data :: "json option"

datatype rpc_response =
    RpcOk string string json
  | RpcErr string "string option" json_rpc_error

record rpc_notification =
  no_jsonrpc :: string
  no_method :: string
  no_params :: json

definition new_request :: "json \<Rightarrow> string \<Rightarrow> json \<Rightarrow> rpc_request" where
  "new_request i m p = \<lparr>jq_jsonrpc = ''2.0'', jq_id = Some i, jq_method = m, jq_params = p\<rparr>"

definition response_ok :: "string \<Rightarrow> json \<Rightarrow> rpc_response" where
  "response_ok i result = RpcOk ''2.0'' i result"

definition response_error :: "string option \<Rightarrow> int \<Rightarrow> string \<Rightarrow> rpc_response" where
  "response_error i code message =
     RpcErr ''2.0'' i \<lparr>je_code = code, je_message = message, je_data = None\<rparr>"

definition new_notification :: "string \<Rightarrow> json \<Rightarrow> rpc_notification" where
  "new_notification m p = \<lparr>no_jsonrpc = ''2.0'', no_method = m, no_params = p\<rparr>"

section \<open>Framing\<close>

datatype frame_error = FrTooLarge | FrClosed | FrIo string

text \<open>What the peer still sends, and the I/O error that ends it, if any.\<close>

record byte_stream =
  bs_bytes :: string
  bs_error :: "string option"

text \<open>\<open>AsyncBufReadExt::read_line\<close>: up to and with the newline, or to the end.\<close>

definition read_line :: "byte_stream \<Rightarrow> (string + string) \<times> byte_stream" where
  "read_line s =
     (let (line, rest) = (case split_once CHR 0x0A (bs_bytes s) of
                            Some (l, r) \<Rightarrow> (l @ [CHR 0x0A], r) | None \<Rightarrow> (bs_bytes s, []));
          s' = s\<lparr>bs_bytes := rest\<rparr>
      in if CHR 0x0A \<notin> set line \<and> bs_error s \<noteq> None then (Inl (the (bs_error s)), s')
         else if utf8_valid (map of_char line) then (Inr line, s')
         else (Inl ''stream did not contain valid UTF-8'', s'))"

definition strip_newline :: "string \<Rightarrow> string" where
  "strip_newline line =
     (if line \<noteq> [] \<and> last line = CHR 0x0A then strip_cr (butlast line) else line)"

definition read_frame :: "byte_stream \<Rightarrow> (frame_error + string) \<times> byte_stream" where
  "read_frame s =
     (case read_line s of
        (Inl e, s') \<Rightarrow> (Inl (FrIo e), s')
      | (Inr line, s') \<Rightarrow>
          if length line = 0 then (Inl FrClosed, s')
          else if length line > IPC_FRAME_MAX_BYTES then (Inl FrTooLarge, s')
          else (Inr (strip_newline line), s'))"

text \<open>The bytes that \<open>write_frame\<close> writes.\<close>

definition write_frame :: "string \<Rightarrow> string" where
  "write_frame js = js @ [CHR 0x0A]"

lemma utf8_valid_newline: "utf8_valid a \<Longrightarrow> utf8_valid (a @ [10])"
  by (induction a rule: utf8_valid.induct) (auto split: if_splits list.splits)

text \<open>
  A JSON text that contains no newline, does not end in a carriage return and fits in the frame
  limit with its newline is read back exactly as it was written, and what follows it on the
  stream is left for the next read; a longer line is refused, but only after all of it was
  consumed.
\<close>

definition frame_ok :: "string \<Rightarrow> bool" where
  "frame_ok js \<longleftrightarrow> CHR 0x0A \<notin> set js \<and> utf8_valid (map of_char js) \<and> (js = [] \<or> last js \<noteq> CHR 0x0D)"

lemma read_written_frame:
  assumes "frame_ok js"
  shows "read_frame (s\<lparr>bs_bytes := write_frame js @ rest\<rparr>) =
    (if Suc (length js) \<le> IPC_FRAME_MAX_BYTES then Inr js else Inl FrTooLarge, s\<lparr>bs_bytes := rest\<rparr>)"
proof -
  have ok: "CHR 0x0A \<notin> set js" "utf8_valid (map of_char js)" "js = [] \<or> last js \<noteq> CHR 0x0D"
    using assms by (auto simp: frame_ok_def)
  have "read_line (s\<lparr>bs_bytes := write_frame js @ rest\<rparr>) = (Inr (js @ [CHR 0x0A]), s\<lparr>bs_bytes := rest\<rparr>)"
    using split_once_append [OF ok(1), of rest] utf8_valid_newline [OF ok(2)]
    by (simp add: read_line_def write_frame_def)
  then show ?thesis using ok(3) by (auto simp: read_frame_def strip_newline_def strip_cr_def)
qed

lemma read_frame_end: "bs_bytes s = [] \<Longrightarrow> \<exists>e. fst (read_frame s) = Inl e"
  by (auto simp: read_frame_def read_line_def Let_def split: option.splits)

section \<open>Subscriptions\<close>

definition SUB_CHANNEL_DEPTH :: nat where "SUB_CHANNEL_DEPTH = 256"

text \<open>A channel: what was sent and not yet received, and whether the receiver is gone.\<close>

record sub_channel =
  ch_queue :: "rpc_notification list"
  ch_closed :: bool

type_synonym sub_registry = "(string, sub_channel) table"

definition registry_insert :: "string \<Rightarrow> sub_registry \<Rightarrow> sub_registry" where
  "registry_insert i reg = AList.update i \<lparr>ch_queue = [], ch_closed = False\<rparr> reg"

definition registry_remove :: "string \<Rightarrow> sub_registry \<Rightarrow> sub_registry" where
  "registry_remove i reg = AList.delete i reg"

definition try_send :: "rpc_notification \<Rightarrow> sub_channel \<Rightarrow> sub_channel option" where
  "try_send n ch =
     (if ch_closed ch then None
      else if length (ch_queue ch) < SUB_CHANNEL_DEPTH then Some (ch\<lparr>ch_queue := ch_queue ch @ [n]\<rparr>)
      else Some ch)"

definition broadcast :: "rpc_notification \<Rightarrow> sub_registry \<Rightarrow> sub_registry" where
  "broadcast n reg =
     concat (map (\<lambda>(i, ch). case try_send n ch of None \<Rightarrow> [] | Some ch' \<Rightarrow> [(i, ch')]) reg)"

definition registry_gc :: "sub_registry \<Rightarrow> sub_registry" where
  "registry_gc reg = filter (\<lambda>(i, ch). \<not> ch_closed ch) reg"

definition registry_len :: "sub_registry \<Rightarrow> nat" where
  "registry_len reg = length reg"

definition registry_is_empty :: "sub_registry \<Rightarrow> bool" where
  "registry_is_empty reg \<longleftrightarrow> registry_len reg = 0"

section \<open>The shutdown token\<close>

text \<open>
  \<open>tokio::sync::broadcast\<close> with capacity 1: a message is kept for the receivers that existed when
  it was sent; a receiver starts after everything sent before.
\<close>

record shutdown_token =
  sk_sent :: nat
  sk_receivers :: "nat list"

definition token_new :: shutdown_token where
  "token_new = \<lparr>sk_sent = 0, sk_receivers = []\<rparr>"

definition token_subscribe :: "shutdown_token \<Rightarrow> nat \<times> shutdown_token" where
  "token_subscribe t = (sk_sent t, t\<lparr>sk_receivers := sk_receivers t @ [sk_sent t]\<rparr>)"

definition token_trigger :: "shutdown_token \<Rightarrow> shutdown_token" where
  "token_trigger t = (if sk_receivers t = [] then t else t\<lparr>sk_sent := Suc (sk_sent t)\<rparr>)"

text \<open>A receiver at position \<open>p\<close> has something to receive.\<close>

definition token_ready :: "nat \<Rightarrow> shutdown_token \<Rightarrow> bool" where
  "token_ready p t \<longleftrightarrow> p < sk_sent t"

definition is_triggered :: "shutdown_token \<Rightarrow> bool" where
  "is_triggered t = (case token_subscribe t of (p, t') \<Rightarrow> token_ready p t')"

text \<open>
  A receiver that subscribed before a trigger sees it, however many receivers there are;
  \<open>is_triggered\<close>, which asks a fresh receiver, answers no in every state, also after a trigger.
\<close>
theorem trigger_reaches_subscribers:
  "(case token_subscribe t of (p, t') \<Rightarrow> token_ready p (token_trigger t') \<and> \<not> token_ready p t')
   \<and> \<not> is_triggered t \<and> \<not> is_triggered (token_trigger (snd (token_subscribe t)))"
  by (simp add: token_subscribe_def token_trigger_def token_ready_def is_triggered_def)

section \<open>Login sessions\<close>

text \<open>The listener task of a session is its listening socket and the state it expects.\<close>

record login_session =
  lg_listener :: nat
  lg_expected_state :: string
  lg_pkce_verifier :: string
  lg_redirect_uri :: string

type_synonym login_registry = "(string, login_session) table"

definition login_insert :: "string \<Rightarrow> login_session \<Rightarrow> login_registry \<Rightarrow> login_registry" where
  "login_insert h s reg = AList.update h s reg"

definition login_take :: "string \<Rightarrow> login_registry \<Rightarrow> login_session option \<times> login_registry" where
  "login_take h reg = (map_of reg h, AList.delete h reg)"

section \<open>The audit sink\<close>

text \<open>One event of the drain task: persist it, errors logged only, and broadcast it.\<close>

definition drain_event ::
  "(audit_event \<Rightarrow> json) \<Rightarrow> 'w state_store \<Rightarrow> ('w, sub_registry) cell \<Rightarrow> audit_event \<Rightarrow> ('w, state_error, unit) io" where
  "drain_event to_json st reg ev =
     bindE (tryE (st_audit_append st ev)) (\<lambda>_.
     modifyE (\<lambda>w. cell_set reg (broadcast (new_notification ''audit.event'' (to_json ev)) (cell_get reg w)) w))"

end
