(* ===== verification/Path_Bufs.thy ===== *)
theory Path_Bufs
  imports Auth
begin

text \<open>
  The functions of \<open>std::path::Path\<close> the sources use, on Unix.  A path is a byte string; its
  components are what lies between slashes, where empty components and \<open>.\<close> do not count.
\<close>

fun path_display :: "path_buf \<Rightarrow> string" where
  "path_display (PathBuf s) = from_utf8_lossy s"

fun path_is_absolute :: "path_buf \<Rightarrow> bool" where
  "path_is_absolute (PathBuf s) = starts_with_char CHR ''/'' s"

fun path_join :: "path_buf \<Rightarrow> string \<Rightarrow> path_buf" where
  "path_join (PathBuf s) n =
     PathBuf (if starts_with_char CHR ''/'' n \<or> s = [] then n
              else if last s = CHR ''/'' then s @ n else s @ ''/'' @ n)"

text \<open>The separators and \<open>.\<close> components at the end (on the reversed text) and at the start.\<close>

fun trim_back :: "string \<Rightarrow> string" where
  "trim_back s =
     (case s of
        [] \<Rightarrow> []
      | c # r \<Rightarrow>
          if c = CHR ''/'' then trim_back r
          else if c = CHR ''.'' \<and> r \<noteq> [] \<and> hd r = CHR ''/'' then trim_back r
          else s)"

fun trim_front :: "string \<Rightarrow> string" where
  "trim_front s =
     (case s of
        [] \<Rightarrow> []
      | c # r \<Rightarrow>
          if c = CHR ''/'' then trim_front r
          else if c = CHR ''.'' \<and> (r = [] \<or> hd r = CHR ''/'') then trim_front r
          else s)"

declare trim_back.simps [simp del] trim_front.simps [simp del]

text \<open>\<open>Path::parent\<close> of an absolute path.\<close>

fun path_parent :: "path_buf \<Rightarrow> path_buf option" where
  "path_parent (PathBuf s) =
     (let t = trim_back (rev s) in
      if t = [] then None
      else let p = trim_back (dropWhile (\<lambda>c. c \<noteq> CHR ''/'') t)
           in Some (PathBuf (if p = [] then ''/'' else rev p)))"

text \<open>
  \<open>Path::strip_prefix\<close> of two absolute paths: the components of the prefix come first, and what
  is left is the rest of the text.
\<close>

definition path_names :: "string \<Rightarrow> string list" where
  "path_names s = filter (\<lambda>n. n \<noteq> [] \<and> n \<noteq> ''.'') (split_on CHR ''/'' s)"

fun strip_names :: "string list \<Rightarrow> string \<Rightarrow> string option" where
  "strip_names [] s = Some (rev (trim_back (rev (trim_front s))))"
| "strip_names (n # ns) s =
     (let t = trim_front s in
      if takeWhile (\<lambda>c. c \<noteq> CHR ''/'') t = n then strip_names ns (dropWhile (\<lambda>c. c \<noteq> CHR ''/'') t)
      else None)"

definition path_strip_prefix :: "string \<Rightarrow> string \<Rightarrow> string option" where
  "path_strip_prefix base s = strip_names (path_names base) s"

section \<open>Their properties\<close>

lemma trim_front_simps [simp]:
  "trim_front [] = []"
  "trim_front (CHR ''/'' # s) = trim_front s"
  by (simp_all add: trim_front.simps)

lemma trim_front_name:
  assumes "n \<noteq> []" and "n \<noteq> ''.''" and "CHR ''/'' \<notin> set n" and "s = [] \<or> hd s = CHR ''/''"
  shows "trim_front (n @ s) = n @ s"
proof (cases n)
  case (Cons c r)
  with assms show ?thesis
    by (cases r) (auto simp: trim_front.simps)
qed (use assms in simp)

lemma takeWhile_name:
  assumes "CHR ''/'' \<notin> set n" and "s = [] \<or> hd s = CHR ''/''"
  shows "takeWhile (\<lambda>c. c \<noteq> CHR ''/'') (n @ s) = n" and "dropWhile (\<lambda>c. c \<noteq> CHR ''/'') (n @ s) = s"
  using assms by (auto simp: takeWhile_append dropWhile_append takeWhile_eq_Nil_iff dropWhile_eq_self_iff)

lemma trim_back_name:
  assumes "n \<noteq> []" and "n \<noteq> ''.''" and "CHR ''/'' \<notin> set n"
  shows "trim_back (rev n @ s) = rev n @ s"
proof (cases "rev n")
  case (Cons c r)
  have "c \<noteq> CHR ''/''" and "CHR ''/'' \<notin> set r"
    using assms(3) Cons by (metis list.set_intros(1) set_rev, metis list.set_intros(2) set_rev)
  moreover have "c \<noteq> CHR ''.'' \<or> r \<noteq> []"
    using assms(2) Cons by (cases r) (auto simp: rev_eq_Cons_iff)
  ultimately show ?thesis
    using Cons by (cases r) (auto simp: trim_back.simps)
qed (use assms in simp)

end
