(* ===== verification/Methods.thy ===== *)
theory Methods
  imports Rpc Path_Bufs
begin

text \<open>
  The method handlers of the daemon (\<open>crates/onesync-daemon/src/methods\<close>) except those of
  accounts: the dispatch context and the handlers of \<open>pair\<close>, \<open>conflict\<close>, \<open>state\<close>,
  \<open>config\<close>, \<open>audit\<close>, \<open>run\<close>, \<open>service\<close> and \<open>health\<close>.  The serde decoders of the parameter
  structs and the encoders of the entities are the record \<open>rpc_lib\<close>, the file operations of
  the standard library the record \<open>os_lib\<close>.  Values behind a mutex or a channel are cells.
\<close>

section \<open>Errors\<close>

record method_error =
  me_code :: int
  me_message :: string

definition method_error_new :: "int \<Rightarrow> string \<Rightarrow> method_error" where
  "method_error_new code message = \<lparr>me_code = code, me_message = message\<rparr>"

definition not_implemented :: "string \<Rightarrow> method_error" where
  "not_implemented m =
     method_error_new APP_ERROR_BASE (''method '' @ [CHR 0x27] @ m @ [CHR 0x27] @ '' is not yet implemented'')"

type_synonym ('w, 'a) mio = "('w, method_error, 'a) io"

text \<open>The three forms of \<open>map_err\<close> the handlers use, and \<open>ok_or_else\<close>.\<close>

definition internal :: "('w, state_error, 'a) io \<Rightarrow> ('w, 'a) mio" where
  "internal m = map_errE (\<lambda>e. method_error_new INTERNAL_ERROR (state_error_display e)) m"

definition params_of :: "(json \<Rightarrow> string + 'a) \<Rightarrow> json \<Rightarrow> ('w, 'a) mio" where
  "params_of dec v =
     map_errE (\<lambda>e. method_error_new INVALID_PARAMS (''invalid params: '' @ e)) (resultE (dec v))"

definition app_error :: "int \<Rightarrow> ('e \<Rightarrow> string) \<Rightarrow> ('w, 'e, 'a) io \<Rightarrow> ('w, 'a) mio" where
  "app_error n message m = map_errE (\<lambda>e. method_error_new (APP_ERROR_BASE - n) (message e)) m"

definition some_or :: "int \<Rightarrow> string \<Rightarrow> 'a option \<Rightarrow> ('w, 'a) mio" where
  "some_or n message x =
     (case x of None \<Rightarrow> throwE (method_error_new (APP_ERROR_BASE - n) message) | Some a \<Rightarrow> returnE a)"

definition read_cell :: "('w, 'a) cell \<Rightarrow> ('w, 'e, 'a) io" where
  "read_cell c = liftE (\<lambda>w. (cell_get c w, w))"

definition update_cell :: "('w, 'a) cell \<Rightarrow> ('a \<Rightarrow> 'a) \<Rightarrow> ('w, 'e, unit) io" where
  "update_cell c f = modifyE (\<lambda>w. cell_set c (f (cell_get c w)) w)"

lemmas handler_defs = internal_def params_of_def app_error_def some_or_def read_cell_def update_cell_def

section \<open>Parameters and results\<close>

record pair_add_params =
  pa_account_id :: account_id
  pa_local_path :: string
  pa_remote_path :: string
  pa_display_name :: "string option"

record conflict_resolve_params =
  cp_id :: conflict_id
  cp_resolution :: conflict_resolution
  cp_note :: "string option"

record config_set_params =
  cg_log_level :: "log_level option"
  cg_notify :: "bool option"
  cg_allow_metered :: "bool option"
  cg_min_free_gib :: "u32 option"

record audit_search_params =
  aq_from :: timestamp
  aq_to :: timestamp
  aq_level :: "audit_level option"
  aq_pair :: "pair_id option"
  aq_limit :: "nat option"

record run_list_params =
  rl_pair :: pair_id
  rl_limit :: "nat option"

record login_await_params =
  la_login_handle :: string
  la_authority :: "string option"

record add_sharepoint_params =
  as_base_account_id :: account_id
  as_host :: string
  as_site_path :: string
  as_library_name :: string

text \<open>\<open>serde_json\<close>: the derived decoders of the structs and encoders of the entities.\<close>

record rpc_lib =
  pm_login_begin :: "json \<Rightarrow> string + string option"
  pm_login_await :: "json \<Rightarrow> string + login_await_params"
  pm_account_id :: "json \<Rightarrow> string + account_id"
  pm_add_sharepoint :: "json \<Rightarrow> string + add_sharepoint_params"
  pm_pair_add :: "json \<Rightarrow> string + pair_add_params"
  pm_pair_id :: "json \<Rightarrow> string + pair_id"
  pm_pair_subscribe :: "json \<Rightarrow> string + pair_id"
  pm_conflict_list :: "json \<Rightarrow> string + pair_id"
  pm_conflict_id :: "json \<Rightarrow> string + conflict_id"
  pm_conflict_resolve :: "json \<Rightarrow> string + conflict_resolve_params"
  pm_conflict_subscribe :: "json \<Rightarrow> string + pair_id option"
  pm_config_set :: "json \<Rightarrow> string + config_set_params"
  pm_audit_search :: "json \<Rightarrow> string + audit_search_params"
  pm_run_list :: "json \<Rightarrow> string + run_list_params"
  pm_run_id :: "json \<Rightarrow> string + sync_run_id"
  pm_backup :: "json \<Rightarrow> string + string"
  pm_export :: "json \<Rightarrow> string + string"
  pm_upgrade_prepare :: "json \<Rightarrow> string + string"
  en_account :: "account \<Rightarrow> json"
  en_pair :: "pair \<Rightarrow> json"
  en_conflict :: "conflict \<Rightarrow> json"
  en_run :: "sync_run \<Rightarrow> json"
  en_audit :: "audit_event \<Rightarrow> json"
  en_config :: "instance_config \<Rightarrow> json"
  en_pretty :: "json \<Rightarrow> string + string"
  en_compact :: "json \<Rightarrow> string"
  en_response :: "rpc_response \<Rightarrow> string"
  en_notification :: "rpc_notification \<Rightarrow> string"
  pm_request :: "string \<Rightarrow> string + rpc_request"

section \<open>The dispatch context\<close>

text \<open>\<open>std::fs\<close> and \<open>spawn_blocking\<close>, whose task may be cancelled before it runs.\<close>

record file_meta =
  mt_is_file :: bool
  mt_mode :: u32

record 'w os_lib =
  os_create_dir_all :: "path_buf \<Rightarrow> ('w, string, unit) io"
  os_write :: "path_buf \<Rightarrow> string \<Rightarrow> ('w, string, unit) io"
  os_metadata :: "path_buf \<Rightarrow> ('w, string, file_meta) io"
  os_set_permissions :: "path_buf \<Rightarrow> u32 \<Rightarrow> ('w, string, unit) io"
  os_read_dir :: "path_buf \<Rightarrow> ('w, string, (string + path_buf) list) io"
  os_is_dir :: "path_buf \<Rightarrow> ('w, string, bool) io"
  os_cancelled :: "('w, string, unit) io"

text \<open>The channel to the scheduler, and a task that forwards a subscription.\<close>

record force_channel =
  fc_queue :: "pair_id list"
  fc_closed :: bool

record forwarder =
  fw_sub :: string
  fw_wants :: "rpc_notification \<Rightarrow> bool"

record 'w dispatch_ctx =
  dx_uptime_s :: "'w \<Rightarrow> nat \<times> 'w"
  dx_state :: "'w state_store"
  dx_local_fs :: "'w local_fs"
  dx_runtime :: "'w runtime"
  dx_vault :: "'w token_vault"
  dx_http :: "'w http_lib"
  dx_auth :: "'w auth_lib"
  dx_lib :: lib
  dx_rpc :: rpc_lib
  dx_os :: "'w os_lib"
  dx_logins :: "('w, login_registry) cell"
  dx_shutdown :: "('w, shutdown_token) cell"
  dx_state_dir :: path_buf
  dx_force :: "('w, force_channel) cell"
  dx_subs :: "('w, sub_registry) cell"
  dx_staging :: "('w, path_buf option) cell"
  dx_forwarders :: "('w, forwarder list) cell"
  dx_task_lost :: "'w \<Rightarrow> bool \<times> 'w"

definition now_of :: "'w dispatch_ctx \<Rightarrow> ('w, timestamp) mio" where
  "now_of dx = liftE (rt_now (dx_runtime dx))"

definition mint_id :: "'w dispatch_ctx \<Rightarrow> ('w, 't id_of) mio" where
  "mint_id dx = liftE (new_id (dx_runtime dx))"

definition show_id :: "'w dispatch_ctx \<Rightarrow> string \<Rightarrow> 't id_of \<Rightarrow> string" where
  "show_id dx kind i = id_display (lib_ulid_show (dx_lib dx)) kind i"

text \<open>Append the event, ignoring a failure, and emit it.\<close>

definition record_event :: "'w dispatch_ctx \<Rightarrow> audit_event \<Rightarrow> ('w, unit) mio" where
  "record_event dx evt =
     bindE (tryE (st_audit_append (dx_state dx) evt)) (\<lambda>_. modifyE (rt_emit (dx_runtime dx) evt))"

section \<open>\<open>pair\<close>\<close>

definition require_pair :: "'w dispatch_ctx \<Rightarrow> pair_id \<Rightarrow> ('w, pair) mio" where
  "require_pair dx i =
     bindE (internal (st_pair_get (dx_state dx) i))
       (some_or 1 (''pair not found: '' @ show_id dx pair_prefix i))"

text \<open>The client id of the instance; every sign-in or drive access needs one.\<close>

definition require_client_id :: "'w dispatch_ctx \<Rightarrow> string \<Rightarrow> ('w, string) mio" where
  "require_client_id dx message =
     bindE (internal (st_config_get (dx_state dx))) (\<lambda>cfg.
     let client_id = client_id_of cfg
     in if client_id = [] then throwE (method_error_new (APP_ERROR_BASE - 10) message)
        else returnE client_id)"

text \<open>Load the refresh token, trade it in, and keep the rotated one if the vault takes it.\<close>

definition refreshed_access ::
  "'w dispatch_ctx \<Rightarrow> string \<Rightarrow> account_id \<Rightarrow> string \<Rightarrow> ('w, string) mio" where
  "refreshed_access dx load_failed account client_id =
     bindE (app_error 22 (\<lambda>e. load_failed @ vault_error_display e) (tv_load_refresh (dx_vault dx) account)) (\<lambda>rt.
     bindE (app_error 23 (\<lambda>e. ''token refresh failed: '' @ gi_display e)
              (refresh (dx_http dx) ''common'' client_id rt)) (\<lambda>tokens.
     bindE (tryE (tv_store_refresh (dx_vault dx) account (tr_refresh_token tokens))) (\<lambda>_.
     returnE (tr_access_token tokens))))"

definition new_pair ::
  "pair_id \<Rightarrow> account_id \<Rightarrow> abs_path \<Rightarrow> remote_item \<Rightarrow> pair_add_params \<Rightarrow> timestamp \<Rightarrow> pair" where
  "new_pair i account local_path item p now =
     \<lparr>pr_id = i, pr_account_id = account, pr_local_path = local_path,
      pr_remote_item_id = DriveItemId (ri_id item), pr_remote_path = pa_remote_path p,
      pr_display_name = unwrap_or (ri_name item) (pa_display_name p), pr_status = Initializing,
      pr_paused = False, pr_delta_token = None, pr_errored_reason = None, pr_created_at = now,
      pr_updated_at = now, pr_last_sync_at = None, pr_conflict_count = 0, pr_webhook_enabled = False\<rparr>"

definition pair_added_event :: "'w dispatch_ctx \<Rightarrow> audit_event_id \<Rightarrow> timestamp \<Rightarrow> pair \<Rightarrow> audit_event" where
  "pair_added_event dx i now pr =
     \<lparr>ev_id = i, ev_ts = now, ev_level = LevelInfo, ev_kind = ''pair.added'', ev_pair_id = Some (pr_id pr),
      ev_payload =
        json_insert ''remote_path'' (JString (pr_remote_path pr))
          (json_insert ''local_path'' (JString (abs_str (pr_local_path pr)))
            (json_insert ''account_id'' (JString (show_id dx account_prefix (pr_account_id pr))) []))\<rparr>"

text \<open>Steps 1 to 4 of \<open>add\<close>: the account, the local folder and the remote folder.\<close>

definition pair_target ::
  "'w dispatch_ctx \<Rightarrow> pair_add_params \<Rightarrow> ('w, account \<times> abs_path \<times> remote_item) mio" where
  "pair_target dx p =
     bindE (internal (st_account_get (dx_state dx) (pa_account_id p))) (\<lambda>acct.
     bindE (some_or 20 (''account not found: '' @ show_id dx account_prefix (pa_account_id p)) acct) (\<lambda>account.
     bindE (map_errE (\<lambda>e. method_error_new INVALID_PARAMS
                (''local_path is not an absolute POSIX path: '' @ path_parse_error_display e))
              (resultE (abs_path_from_str (pa_local_path p)))) (\<lambda>local_path.
     bindE (app_error 21 (\<lambda>e. ''local_path is not usable: '' @ local_fs_error_display e)
              (lf_mkdir_p (dx_local_fs dx) local_path)) (\<lambda>_.
     bindE (require_client_id dx ''azure_ad_client_id is unset'') (\<lambda>client_id.
     bindE (refreshed_access dx
              (''keychain load failed for account '' @ show_id dx account_prefix (ac_id account) @ '': '')
              (ac_id account) client_id) (\<lambda>token.
     bindE (app_error 24 (\<lambda>e. ''remote_path lookup failed: '' @ gi_display e)
              (item_by_path (dx_http dx) token (ac_drive_id account) (pa_remote_path p))) (\<lambda>found.
     bindE (some_or 25 (''remote_path not found in account drive (create it in OneDrive first): ''
              @ pa_remote_path p) found) (\<lambda>item.
     returnE (account, local_path, item)))))))))"

text \<open>Steps 5 and 6: the row and the audit event.\<close>

definition store_new_pair ::
  "'w dispatch_ctx \<Rightarrow> pair_add_params \<Rightarrow> account \<times> abs_path \<times> remote_item \<Rightarrow> ('w, json) mio" where
  "store_new_pair dx p target =
     (case target of (account, local_path, item) \<Rightarrow>
     bindE (now_of dx) (\<lambda>now.
     bindE (mint_id dx) (\<lambda>i.
     let pr = new_pair i (ac_id account) local_path item p now in
     bindE (internal (st_pair_upsert (dx_state dx) pr)) (\<lambda>_.
     bindE (mint_id dx) (\<lambda>evt_id.
     bindE (record_event dx (pair_added_event dx evt_id now pr)) (\<lambda>_.
     returnE (en_pair (dx_rpc dx) pr)))))))"

definition pair_add :: "'w dispatch_ctx \<Rightarrow> json \<Rightarrow> ('w, json) mio" where
  "pair_add dx params =
     bindE (params_of (pm_pair_add (dx_rpc dx)) params) (\<lambda>p.
     bindE (pair_target dx p) (store_new_pair dx p))"

definition pair_list :: "'w dispatch_ctx \<Rightarrow> json \<Rightarrow> ('w, json) mio" where
  "pair_list dx params =
     bindE (internal (st_pairs_list (dx_state dx) None False)) (\<lambda>pairs.
     returnE (JArray (map (en_pair (dx_rpc dx)) pairs)))"

definition pair_get :: "'w dispatch_ctx \<Rightarrow> json \<Rightarrow> ('w, json) mio" where
  "pair_get dx params =
     bindE (params_of (pm_pair_id (dx_rpc dx)) params) (\<lambda>i.
     bindE (require_pair dx i) (\<lambda>pr. returnE (en_pair (dx_rpc dx) pr)))"

definition set_paused :: "'w dispatch_ctx \<Rightarrow> json \<Rightarrow> bool \<Rightarrow> ('w, json) mio" where
  "set_paused dx params paused =
     bindE (params_of (pm_pair_id (dx_rpc dx)) params) (\<lambda>i.
     bindE (require_pair dx i) (\<lambda>pr.
     bindE (now_of dx) (\<lambda>now.
     let pr = pr\<lparr>pr_paused := paused, pr_status := if paused then Paused else Active, pr_updated_at := now\<rparr> in
     bindE (internal (st_pair_upsert (dx_state dx) pr)) (\<lambda>_.
     returnE (JObject [(''ok'', JBool True), (''id'', JString (show_id dx pair_prefix (pr_id pr))),
                       (''paused'', JBool paused)])))))"

definition pair_pause :: "'w dispatch_ctx \<Rightarrow> json \<Rightarrow> ('w, json) mio" where
  "pair_pause dx params = set_paused dx params True"

definition pair_resume :: "'w dispatch_ctx \<Rightarrow> json \<Rightarrow> ('w, json) mio" where
  "pair_resume dx params = set_paused dx params False"

definition pair_remove :: "'w dispatch_ctx \<Rightarrow> json \<Rightarrow> ('w, json) mio" where
  "pair_remove dx params =
     bindE (params_of (pm_pair_id (dx_rpc dx)) params) (\<lambda>i.
     bindE (require_pair dx i) (\<lambda>pr.
     bindE (now_of dx) (\<lambda>now.
     let pr = pr\<lparr>pr_status := Removed, pr_paused := True, pr_updated_at := now\<rparr> in
     bindE (internal (st_pair_upsert (dx_state dx) pr)) (\<lambda>_.
     returnE (JObject [(''ok'', JBool True), (''id'', JString (show_id dx pair_prefix (pr_id pr)))])))))"

text \<open>\<open>SchedulerHandle::force_sync\<close>; a send on a full channel waits until the scheduler takes one.\<close>

definition force_sync :: "('w, force_channel) cell \<Rightarrow> pair_id \<Rightarrow> ('w, unit, unit) io" where
  "force_sync c i =
     bindE (read_cell c) (\<lambda>ch.
     if fc_closed ch then throwE () else update_cell c (\<lambda>ch. ch\<lparr>fc_queue := fc_queue ch @ [i]\<rparr>))"

definition pair_force_sync :: "'w dispatch_ctx \<Rightarrow> json \<Rightarrow> ('w, json) mio" where
  "pair_force_sync dx params =
     bindE (params_of (pm_pair_id (dx_rpc dx)) params) (\<lambda>i.
     bindE (require_pair dx i) (\<lambda>_.
     bindE (map_errE (\<lambda>_. method_error_new INTERNAL_ERROR
                ''scheduler is not accepting new triggers (shutting down?)'') (force_sync (dx_force dx) i)) (\<lambda>_.
     returnE (JObject [(''ok'', JBool True), (''pair'', JString (show_id dx pair_prefix i))]))))"

definition pair_status_of :: "'w dispatch_ctx \<Rightarrow> json \<Rightarrow> ('w, json) mio" where
  "pair_status_of dx params =
     bindE (params_of (pm_pair_id (dx_rpc dx)) params) (\<lambda>i.
     bindE (require_pair dx i) (\<lambda>pr.
     bindE (internal (st_runs_recent (dx_state dx) (pr_id pr) 5)) (\<lambda>recent_runs.
     bindE (internal (st_conflicts_unresolved (dx_state dx) (pr_id pr))) (\<lambda>unresolved.
     returnE (JObject [(''pair'', en_pair (dx_rpc dx) pr),
                       (''recent_runs'', JArray (map (en_run (dx_rpc dx)) recent_runs)),
                       (''unresolved_conflicts'', JNum (length unresolved))])))))"

section \<open>Subscriptions\<close>

definition notification_mentions_pair :: "rpc_notification \<Rightarrow> string \<Rightarrow> bool" where
  "notification_mentions_pair n pid \<longleftrightarrow>
     or_else (Option.bind (json_field ''pair_id'' (no_params n)) json_as_str)
       (Option.bind (Option.bind (json_field ''payload'' (no_params n)) (json_field ''pair_id'')) json_as_str)
     = Some pid"

definition notification_is_conflict_related :: "rpc_notification \<Rightarrow> bool" where
  "notification_is_conflict_related n \<longleftrightarrow>
     prefix ''conflict.'' (no_method n)
     \<or> no_method n = ''audit.event''
       \<and> (case Option.bind (json_field ''kind'' (no_params n)) json_as_str of
            Some kind \<Rightarrow> prefix ''conflict.'' kind \<or> prefix ''local.case_collision'' kind
          | None \<Rightarrow> False)"

text \<open>Register a channel and spawn the task that forwards it to the connection.\<close>

definition subscribe_forwarder ::
  "'w dispatch_ctx \<Rightarrow> string \<Rightarrow> (rpc_notification \<Rightarrow> bool) \<Rightarrow> ('w, json) mio" where
  "subscribe_forwarder dx kind wants =
     bindE (mint_id dx) (\<lambda>i :: audit_event_id.
     let sub_id = kind @ show_id dx audit_prefix i in
     bindE (update_cell (dx_subs dx) (registry_insert sub_id)) (\<lambda>_.
     bindE (update_cell (dx_forwarders dx) (\<lambda>fs. fs @ [\<lparr>fw_sub = sub_id, fw_wants = wants\<rparr>])) (\<lambda>_.
     returnE (JObject [(''subscription_id'', JString sub_id)]))))"

definition pair_subscribe :: "'w dispatch_ctx \<Rightarrow> json \<Rightarrow> ('w, json) mio" where
  "pair_subscribe dx params =
     bindE (params_of (pm_pair_subscribe (dx_rpc dx)) params) (\<lambda>i.
     subscribe_forwarder dx ''sub-pair-'' (\<lambda>n. notification_mentions_pair n (show_id dx pair_prefix i)))"

definition conflict_wants :: "string option \<Rightarrow> rpc_notification \<Rightarrow> bool" where
  "conflict_wants want n \<longleftrightarrow>
     notification_is_conflict_related n
     \<and> (case want of None \<Rightarrow> True
        | Some pid \<Rightarrow> Option.bind (json_field ''pair_id'' (no_params n)) json_as_str = Some pid)"

text \<open>A handler whose parameters may be absent.\<close>

definition params_or :: "'a \<Rightarrow> (json \<Rightarrow> string + 'a) \<Rightarrow> json \<Rightarrow> ('w, 'a) mio" where
  "params_or d dec params = (if params = JNull then returnE d else params_of dec params)"

definition conflict_subscribe :: "'w dispatch_ctx \<Rightarrow> json \<Rightarrow> ('w, json) mio" where
  "conflict_subscribe dx params =
     bindE (params_or None (pm_conflict_subscribe (dx_rpc dx)) params) (\<lambda>p.
     subscribe_forwarder dx ''sub-conflict-'' (conflict_wants (map_option (show_id dx pair_prefix) p)))"

definition audit_tail :: "'w dispatch_ctx \<Rightarrow> json \<Rightarrow> ('w, json) mio" where
  "audit_tail dx params = subscribe_forwarder dx ''sub-tail-'' (\<lambda>_. True)"

section \<open>\<open>conflict\<close>\<close>

definition conflict_list :: "'w dispatch_ctx \<Rightarrow> json \<Rightarrow> ('w, json) mio" where
  "conflict_list dx params =
     bindE (params_of (pm_conflict_list (dx_rpc dx)) params) (\<lambda>pid.
     bindE (internal (st_conflicts_unresolved (dx_state dx) pid)) (\<lambda>cs.
     returnE (JArray (map (en_conflict (dx_rpc dx)) cs))))"

definition conflict_get :: "'w dispatch_ctx \<Rightarrow> json \<Rightarrow> ('w, json) mio" where
  "conflict_get dx params =
     bindE (params_of (pm_conflict_id (dx_rpc dx)) params) (\<lambda>i.
     bindE (internal (st_conflict_get (dx_state dx) i)) (\<lambda>found.
     bindE (some_or 1 (''conflict not found: '' @ show_id dx conflict_prefix i) found) (\<lambda>c.
     returnE (en_conflict (dx_rpc dx) c))))"

definition conflict_resolve :: "'w dispatch_ctx \<Rightarrow> json \<Rightarrow> ('w, json) mio" where
  "conflict_resolve dx params =
     bindE (params_of (pm_conflict_resolve (dx_rpc dx)) params) (\<lambda>p.
     bindE (now_of dx) (\<lambda>now.
     bindE (internal (st_conflict_resolve (dx_state dx) (cp_id p) (cp_resolution p) now (cp_note p))) (\<lambda>_.
     returnE (JObject [(''ok'', JBool True), (''id'', JString (show_id dx conflict_prefix (cp_id p)))]))))"

section \<open>\<open>config\<close>\<close>

definition config_get_method :: "'w dispatch_ctx \<Rightarrow> json \<Rightarrow> ('w, json) mio" where
  "config_get_method dx params =
     bindE (internal (st_config_get (dx_state dx))) (\<lambda>cfg.
     returnE (case cfg of None \<Rightarrow> JNull | Some c \<Rightarrow> en_config (dx_rpc dx) c))"

definition apply_config :: "config_set_params \<Rightarrow> timestamp \<Rightarrow> instance_config option \<Rightarrow> instance_config" where
  "apply_config p now existing =
     (case existing of
        Some c \<Rightarrow>
          c\<lparr>ic_log_level := unwrap_or (ic_log_level c) (cg_log_level p),
            ic_notify := unwrap_or (ic_notify c) (cg_notify p),
            ic_allow_metered := unwrap_or (ic_allow_metered c) (cg_allow_metered p),
            ic_min_free_gib := unwrap_or (ic_min_free_gib c) (cg_min_free_gib p),
            ic_updated_at := now\<rparr>
      | None \<Rightarrow>
          \<lparr>ic_log_level = unwrap_or LogInfo (cg_log_level p), ic_notify = unwrap_or True (cg_notify p),
           ic_allow_metered = unwrap_or False (cg_allow_metered p),
           ic_min_free_gib = unwrap_or 2 (cg_min_free_gib p), ic_updated_at = now,
           ic_azure_ad_client_id = [], ic_webhook_listener_port = None, ic_webhook_notification_url = None\<rparr>)"

definition no_config_params :: config_set_params where
  "no_config_params =
     \<lparr>cg_log_level = None, cg_notify = None, cg_allow_metered = None, cg_min_free_gib = None\<rparr>"

definition config_set :: "'w dispatch_ctx \<Rightarrow> json \<Rightarrow> ('w, json) mio" where
  "config_set dx params =
     bindE (params_or no_config_params (pm_config_set (dx_rpc dx)) params) (\<lambda>p.
     bindE (now_of dx) (\<lambda>now.
     bindE (internal (st_config_get (dx_state dx))) (\<lambda>existing.
     let cfg = apply_config p now existing in
     bindE (internal (st_config_upsert (dx_state dx) cfg)) (\<lambda>_.
     returnE (JObject [(''ok'', JBool True), (''config'', en_config (dx_rpc dx) cfg)])))))"

definition config_reload :: "'w dispatch_ctx \<Rightarrow> json \<Rightarrow> ('w, json) mio" where
  "config_reload dx params = config_get_method dx JNull"

section \<open>\<open>audit\<close> and \<open>run\<close>\<close>

definition MAX_AUDIT_LIMIT :: nat where "MAX_AUDIT_LIMIT = 1000"

definition audit_search_method :: "'w dispatch_ctx \<Rightarrow> json \<Rightarrow> ('w, json) mio" where
  "audit_search_method dx params =
     bindE (params_of (pm_audit_search (dx_rpc dx)) params) (\<lambda>p.
     let limit = min (unwrap_or 100 (aq_limit p)) MAX_AUDIT_LIMIT in
     bindE (internal (st_audit_search (dx_state dx) (aq_from p) (aq_to p) (aq_level p) (aq_pair p) limit)) (\<lambda>evs.
     returnE (JArray (map (en_audit (dx_rpc dx)) evs))))"

definition MAX_RUN_LIMIT :: nat where "MAX_RUN_LIMIT = 200"

definition run_list :: "'w dispatch_ctx \<Rightarrow> json \<Rightarrow> ('w, json) mio" where
  "run_list dx params =
     bindE (params_of (pm_run_list (dx_rpc dx)) params) (\<lambda>p.
     let limit = min (unwrap_or 20 (rl_limit p)) MAX_RUN_LIMIT in
     bindE (internal (st_runs_recent (dx_state dx) (rl_pair p) limit)) (\<lambda>runs.
     returnE (JArray (map (en_run (dx_rpc dx)) runs))))"

definition run_get :: "'w dispatch_ctx \<Rightarrow> json \<Rightarrow> ('w, json) mio" where
  "run_get dx params =
     bindE (params_of (pm_run_id (dx_rpc dx)) params) (\<lambda>i.
     bindE (internal (st_run_get (dx_state dx) i)) (\<lambda>found.
     bindE (some_or 1 (''run not found: '' @ show_id dx sync_run_prefix i) found) (\<lambda>r.
     returnE (en_run (dx_rpc dx) r))))"

section \<open>\<open>state\<close>\<close>

definition state_backup :: "'w dispatch_ctx \<Rightarrow> json \<Rightarrow> ('w, json) mio" where
  "state_backup dx params =
     bindE (params_of (pm_backup (dx_rpc dx)) params) (\<lambda>to_path.
     bindE (internal (st_backup_to (dx_state dx) (PathBuf to_path))) (\<lambda>_.
     returnE (JObject [(''ok'', JBool True), (''to_path'', JString (path_display (PathBuf to_path)))])))"

definition write_json :: "'w dispatch_ctx \<Rightarrow> path_buf \<Rightarrow> json \<Rightarrow> ('w, unit) mio" where
  "write_json dx path data =
     bindE (map_errE (\<lambda>e. method_error_new INTERNAL_ERROR (''serialise failed: '' @ e))
              (resultE (en_pretty (dx_rpc dx) data))) (\<lambda>serialised.
     app_error 32 (\<lambda>e. ''write '' @ path_display path @ '' failed: '' @ e)
       (os_write (dx_os dx) path serialised))"

definition state_export :: "'w dispatch_ctx \<Rightarrow> json \<Rightarrow> ('w, json) mio" where
  "state_export dx params =
     bindE (params_of (pm_export (dx_rpc dx)) params) (\<lambda>d.
     let to_dir = PathBuf d; rp = dx_rpc dx in
     bindE (app_error 30 (\<lambda>e. ''create to_dir failed: '' @ e) (os_create_dir_all (dx_os dx) to_dir)) (\<lambda>_.
     bindE (internal (st_accounts_list (dx_state dx))) (\<lambda>accounts.
     bindE (write_json dx (path_join to_dir ''accounts.json'') (JArray (map (en_account rp) accounts))) (\<lambda>_.
     bindE (internal (st_pairs_list (dx_state dx) None True)) (\<lambda>pairs.
     bindE (write_json dx (path_join to_dir ''pairs.json'') (JArray (map (en_pair rp) pairs))) (\<lambda>_.
     bindE (now_of dx) (\<lambda>to_ts.
     bindE (internal (st_audit_search (dx_state dx) 0 to_ts None None 10000)) (\<lambda>audits.
     bindE (write_json dx (path_join to_dir ''audit.json'') (JArray (map (en_audit rp) audits))) (\<lambda>_.
     returnE (JObject [(''ok'', JBool True), (''to_dir'', JString (path_display to_dir)),
                       (''files'', JArray [JString ''accounts.json'', JString ''pairs.json'',
                                           JString ''audit.json''])]))))))))))"

text \<open>One turn per entry of the directory; a failure ends the walk.  448 is 0o700, 384 is 0o600, 73 is 0o111.\<close>

fun chmod_entries :: "'w os_lib \<Rightarrow> (string + path_buf) list \<Rightarrow> string list \<Rightarrow> ('w, string, string list) io" where
  "chmod_entries os [] touched = returnE touched"
| "chmod_entries os (Inl e # rest) touched = throwE e"
| "chmod_entries os (Inr path # rest) touched =
     bindE (os_is_dir os path) (\<lambda>d.
     bindE (os_set_permissions os path (if d then 448 else 384)) (\<lambda>_.
     chmod_entries os rest (touched @ [path_display path])))"

definition repair_walk :: "'w os_lib \<Rightarrow> path_buf \<Rightarrow> ('w, string, string list) io" where
  "repair_walk os state_dir =
     bindE (os_set_permissions os state_dir 448) (\<lambda>_.
     bindE (os_read_dir os state_dir) (\<lambda>entries.
     chmod_entries os entries [path_display state_dir]))"

definition state_repair_permissions :: "'w dispatch_ctx \<Rightarrow> json \<Rightarrow> ('w, json) mio" where
  "state_repair_permissions dx params =
     bindE (map_errE (\<lambda>e. method_error_new INTERNAL_ERROR (''join: '' @ e)) (os_cancelled (dx_os dx))) (\<lambda>_.
     bindE (app_error 31 (\<lambda>e. ''chmod failed: '' @ e) (repair_walk (dx_os dx) (dx_state_dir dx))) (\<lambda>touched.
     returnE (JObject [(''ok'', JBool True), (''touched'', JArray (map JString touched))])))"

definition state_compact_now :: "'w dispatch_ctx \<Rightarrow> json \<Rightarrow> ('w, json) mio" where
  "state_compact_now dx params =
     bindE (now_of dx) (\<lambda>now.
     bindE (internal (st_compact_now (dx_state dx) now)) (\<lambda>_.
     returnE (JObject [(''ok'', JBool True)])))"

section \<open>\<open>service\<close> and \<open>health\<close>\<close>

definition service_shutdown :: "'w dispatch_ctx \<Rightarrow> json \<Rightarrow> ('w, json) mio" where
  "service_shutdown dx params =
     bindE (update_cell (dx_shutdown dx) token_trigger) (\<lambda>_. returnE (JObject [(''ok'', JBool True)]))"

definition upgrade_prepare :: "'w dispatch_ctx \<Rightarrow> json \<Rightarrow> ('w, json) mio" where
  "upgrade_prepare dx params =
     bindE (params_of (pm_upgrade_prepare (dx_rpc dx)) params) (\<lambda>binary_path.
     let path = PathBuf binary_path in
     if \<not> path_is_absolute path then
       throwE (method_error_new INVALID_PARAMS (''binary_path must be absolute: '' @ binary_path))
     else
       bindE (app_error 50 (\<lambda>e. ''binary_path does not exist or is not readable: '' @ e)
                (os_metadata (dx_os dx) path)) (\<lambda>meta.
       if \<not> mt_is_file meta then
         throwE (method_error_new (APP_ERROR_BASE - 51) (''binary_path is not a regular file: '' @ binary_path))
       else if mt_mode meta AND 73 = 0 then
         throwE (method_error_new (APP_ERROR_BASE - 52) (''binary_path is not executable: '' @ binary_path))
       else
         bindE (update_cell (dx_staging dx) (\<lambda>_. Some path)) (\<lambda>_.
         returnE (JObject [(''ok'', JBool True), (''staged_path'', JString (path_display path))]))))"

definition em_dash :: string where "em_dash = map char_of [226 :: nat, 128, 148]"

definition upgrade_commit :: "'w dispatch_ctx \<Rightarrow> json \<Rightarrow> ('w, json) mio" where
  "upgrade_commit dx params =
     bindE (read_cell (dx_staging dx)) (\<lambda>staged.
     case staged of
       None \<Rightarrow> throwE (method_error_new (APP_ERROR_BASE - 53)
                 (''no upgrade staged '' @ em_dash @ '' call service.upgrade.prepare first''))
     | Some path \<Rightarrow>
         bindE (update_cell (dx_shutdown dx) token_trigger) (\<lambda>_.
         returnE (JObject [(''ok'', JBool True), (''staged_path'', JString (path_display path)),
                  (''message'', JString (''shutdown signalled '' @ em_dash
                     @ '' daemon will exec staged binary after drain''))])))"

definition subscription_cancel :: "'w dispatch_ctx \<Rightarrow> json \<Rightarrow> ('w, json) mio" where
  "subscription_cancel dx params = throwE (not_implemented ''subscription.cancel'')"

definition VERSION :: string where "VERSION = ''0.1.0''"
definition SCHEMA_VERSION :: nat where "SCHEMA_VERSION = 1"

definition health_ping :: "'w dispatch_ctx \<Rightarrow> json \<Rightarrow> ('w, json) mio" where
  "health_ping dx params =
     bindE (liftE (dx_uptime_s dx)) (\<lambda>uptime_s.
     returnE (JObject [(''uptime_s'', JNum uptime_s), (''version'', JString VERSION),
                       (''schema_version'', JNum SCHEMA_VERSION)]))"

definition health_diagnostics :: "'w dispatch_ctx \<Rightarrow> json \<Rightarrow> ('w, json) mio" where
  "health_diagnostics dx params =
     bindE (liftE (dx_uptime_s dx)) (\<lambda>uptime_s.
     returnE (JObject [(''version'', JString VERSION), (''schema_version'', JNum SCHEMA_VERSION),
                       (''uptime_s'', JNum uptime_s), (''pairs'', JArray []), (''accounts'', JArray []),
                       (''config'', JNull), (''subscriptions'', JNum 0)]))"

end
