(* ===== verification/Account_Methods.thy ===== *)
theory Account_Methods
  imports Methods
begin

text \<open>
  The handlers of \<open>account\<close> (\<open>crates/onesync-daemon/src/methods/account.rs\<close>): sign-in with
  PKCE in two calls, SharePoint libraries, listing and removal.  The task that waits for the
  redirect runs concurrently with the daemon; here it runs when its result is awaited.
\<close>

section \<open>Text\<close>

text \<open>\<open>str::trim_start_matches\<close> with a non-empty pattern.\<close>

function trim_start_matches :: "string \<Rightarrow> string \<Rightarrow> string" where
  "trim_start_matches p s =
     (if p = [] then s
      else case strip_prefix p s of None \<Rightarrow> s | Some r \<Rightarrow> trim_start_matches p r)"
  by auto
termination
  by (relation "measure (\<lambda>(p, s). length s)") (auto dest: strip_prefix_SomeD)

declare trim_start_matches.simps [simp del]

text \<open>The literal \<open>url_encode\<close> keeps the same bytes as the path encoder of the Graph adapter.\<close>

definition url_byte :: "char \<Rightarrow> string" where
  "url_byte c =
     (if is_unreserved c then [c] else percent_byte c)"

definition url_encode :: "string \<Rightarrow> string" where
  "url_encode s = concat (map url_byte s)"

section \<open>Sign-in\<close>

definition COMMON_AUTHORITY :: string where "COMMON_AUTHORITY = ''common''"
definition MS_AUTHORIZE_BASE :: string where "MS_AUTHORIZE_BASE = ''https://login.microsoftonline.com''"
definition OAUTH_SCOPES :: string where "OAUTH_SCOPES = ''Files.ReadWrite offline_access User.Read''"
definition AUTH_LISTENER_TIMEOUT_S :: nat where "AUTH_LISTENER_TIMEOUT_S = 300"

definition auth_url :: "string \<Rightarrow> string \<Rightarrow> string \<Rightarrow> string \<Rightarrow> string \<Rightarrow> string" where
  "auth_url authority client_id redirect_uri state challenge =
     MS_AUTHORIZE_BASE @ ''/'' @ authority @ ''/oauth2/v2.0/authorize''
     @ ''?client_id='' @ url_encode client_id
     @ ''&response_type=code''
     @ ''&redirect_uri='' @ url_encode redirect_uri
     @ ''&response_mode=query''
     @ ''&scope='' @ url_encode OAUTH_SCOPES
     @ ''&state='' @ state
     @ ''&code_challenge='' @ challenge
     @ ''&code_challenge_method=S256''"

definition unset_client_message :: string where
  "unset_client_message =
     ''azure_ad_client_id is unset '' @ em_dash
     @ '' register an Azure AD app and call config.set first (see docs/install/ for the registration steps)''"

text \<open>Mint the handle and the state, and stash the session with its listener.\<close>

definition begin_session ::
  "'w dispatch_ctx \<Rightarrow> string \<Rightarrow> string \<Rightarrow> nat \<Rightarrow> nat \<Rightarrow> ('w, json) mio" where
  "begin_session dx authority client_id listener port =
     (let redirect_uri = ''http://localhost:'' @ show_nat port @ ''/callback'' in
      bindE (liftE (pkce_generate (dx_auth dx))) (\<lambda>pkce.
      bindE (mint_id dx) (\<lambda>i :: account_id.
      let state_token = show_id dx account_prefix i;
          login_handle = ''lgn_'' @ trim_start_matches ''acct_'' state_token
      in bindE (update_cell (dx_logins dx) (login_insert login_handle
                  \<lparr>lg_listener = listener, lg_expected_state = state_token,
                   lg_pkce_verifier = pk_verifier pkce, lg_redirect_uri = redirect_uri\<rparr>)) (\<lambda>_.
         returnE (JObject [(''login_handle'', JString login_handle),
                  (''auth_url'', JString (auth_url authority client_id redirect_uri state_token
                                            (pk_challenge pkce)))])))))"

definition login_begin :: "'w dispatch_ctx \<Rightarrow> json \<Rightarrow> ('w, json) mio" where
  "login_begin dx params =
     bindE (params_or None (pm_login_begin (dx_rpc dx)) params) (\<lambda>hint.
     bindE (require_client_id dx unset_client_message) (\<lambda>client_id.
     bindE (map_errE (\<lambda>e. method_error_new INTERNAL_ERROR (''loopback bind failed: '' @ gi_display e))
              (listener_bind (dx_auth dx))) (\<lambda>(listener, port).
     begin_session dx (unwrap_or COMMON_AUTHORITY hint) client_id listener port)))"

definition take_session :: "'w dispatch_ctx \<Rightarrow> string \<Rightarrow> ('w, login_session) mio" where
  "take_session dx h =
     bindE (read_cell (dx_logins dx)) (\<lambda>reg.
     bindE (update_cell (dx_logins dx) (\<lambda>reg. snd (login_take h reg))) (\<lambda>_.
     some_or 11 (''unknown login_handle: '' @ h) (fst (login_take h reg))))"

text \<open>The receiver fails when the task ended without sending.\<close>

definition await_session_code :: "'w dispatch_ctx \<Rightarrow> login_session \<Rightarrow> ('w, string) mio" where
  "await_session_code dx s =
     bindE (liftE (dx_task_lost dx)) (\<lambda>lost.
     if lost then
       throwE (method_error_new INTERNAL_ERROR ''login listener task dropped before delivering code'')
     else
       app_error 12 (\<lambda>e. ''OAuth redirect failed: '' @ gi_display e)
         (bindE (await_code (dx_auth dx) (lg_listener s) (lg_expected_state s) AUTH_LISTENER_TIMEOUT_S)
           (\<lambda>(code, _). returnE code)))"

definition login_account ::
  "account_id \<Rightarrow> id_token_claims \<Rightarrow> drive_dto \<Rightarrow> keychain_ref \<Rightarrow> auth_tokens \<Rightarrow> timestamp \<Rightarrow> account" where
  "login_account i claims drive kref tokens now =
     \<lparr>ac_id = i, ac_kind = cl_kind claims, ac_upn = cl_upn claims, ac_tenant_id = cl_tid claims,
      ac_drive_id = DriveId (dd_id drive), ac_display_name = cl_display_name claims, ac_keychain_ref = kref,
      ac_scopes = split_whitespace (at_scope tokens), ac_created_at = now, ac_updated_at = now\<rparr>"

definition account_event ::
  "'w dispatch_ctx \<Rightarrow> string \<Rightarrow> audit_event_id \<Rightarrow> timestamp \<Rightarrow> account \<Rightarrow> (string \<times> string) list \<Rightarrow> audit_event" where
  "account_event dx kind i now a extra =
     \<lparr>ev_id = i, ev_ts = now, ev_level = LevelInfo, ev_kind = kind, ev_pair_id = None,
      ev_payload = fold (\<lambda>(k, v). json_insert k (JString v)) extra
        [(''account_id'', JString (show_id dx account_prefix (ac_id a)))]\<rparr>"

text \<open>The row and the audit event of a new account.\<close>

definition store_account ::
  "'w dispatch_ctx \<Rightarrow> string \<Rightarrow> (string \<times> string) list \<Rightarrow> account \<Rightarrow> ('w, json) mio" where
  "store_account dx kind extra account =
     bindE (internal (st_account_upsert (dx_state dx) account)) (\<lambda>_.
     bindE (mint_id dx) (\<lambda>evt_id.
     bindE (record_event dx (account_event dx kind evt_id (ac_created_at account) account extra)) (\<lambda>_.
     returnE (en_account (dx_rpc dx) account))))"

definition login_await :: "'w dispatch_ctx \<Rightarrow> json \<Rightarrow> ('w, json) mio" where
  "login_await dx params =
     bindE (params_of (pm_login_await (dx_rpc dx)) params) (\<lambda>p.
     bindE (take_session dx (la_login_handle p)) (\<lambda>session.
     bindE (await_session_code dx session) (\<lambda>code.
     bindE (require_client_id dx ''azure_ad_client_id is unset'') (\<lambda>client_id.
     bindE (app_error 13 (\<lambda>e. ''token exchange failed: '' @ gi_display e)
              (code_exchange (dx_auth dx) (dx_http dx) (unwrap_or COMMON_AUTHORITY (la_authority p)) client_id
                 code (lg_redirect_uri session) (lg_pkce_verifier session))) (\<lambda>tokens.
     bindE (app_error 14 (\<lambda>e. ''id_token parse failed: '' @ gi_display e)
              (resultE (id_token_parse (dx_auth dx) (at_id_token tokens)))) (\<lambda>claims.
     bindE (app_error 15 (\<lambda>e. ''/me/drive lookup failed: '' @ gi_display e)
              (default_drive (dx_http dx) (at_access_token tokens))) (\<lambda>drive.
     bindE (mint_id dx) (\<lambda>i.
     bindE (app_error 16 (\<lambda>e. ''keychain store failed: '' @ vault_error_display e)
              (tv_store_refresh (dx_vault dx) i (at_refresh_token tokens))) (\<lambda>kref.
     bindE (now_of dx) (\<lambda>now.
     let account = login_account i claims drive kref tokens now in
     store_account dx ''account.login'' [(''upn'', ac_upn account)] account))))))))))"

section \<open>Listing, SharePoint, removal\<close>

definition account_list :: "'w dispatch_ctx \<Rightarrow> json \<Rightarrow> ('w, json) mio" where
  "account_list dx params =
     bindE (internal (st_accounts_list (dx_state dx))) (\<lambda>accts.
     returnE (JArray (map (en_account (dx_rpc dx)) accts)))"

definition account_get :: "'w dispatch_ctx \<Rightarrow> json \<Rightarrow> ('w, json) mio" where
  "account_get dx params =
     bindE (params_of (pm_account_id (dx_rpc dx)) params) (\<lambda>i.
     bindE (internal (st_account_get (dx_state dx) i)) (\<lambda>found.
     bindE (some_or 1 (''account not found: '' @ show_id dx account_prefix i) found) (\<lambda>a.
     returnE (en_account (dx_rpc dx) a))))"

definition sharepoint_account ::
  "account_id \<Rightarrow> account \<Rightarrow> site_dto \<Rightarrow> drive_dto \<Rightarrow> add_sharepoint_params \<Rightarrow> timestamp \<Rightarrow> account" where
  "sharepoint_account i base site drive p now =
     \<lparr>ac_id = i, ac_kind = Business, ac_upn = ac_upn base, ac_tenant_id = ac_tenant_id base,
      ac_drive_id = DriveId (dd_id drive),
      ac_display_name = unwrap_or (as_site_path p) (sd_display_name site) @ '' / '' @ as_library_name p
        @ '' / '' @ ac_display_name base,
      ac_keychain_ref = ac_keychain_ref base, ac_scopes = ac_scopes base, ac_created_at = now,
      ac_updated_at = now\<rparr>"

text \<open>The base account and the library: the token comes from the entry of the base account.\<close>

definition sharepoint_target ::
  "'w dispatch_ctx \<Rightarrow> add_sharepoint_params \<Rightarrow> ('w, account \<times> site_dto \<times> drive_dto) mio" where
  "sharepoint_target dx p =
     bindE (internal (st_account_get (dx_state dx) (as_base_account_id p))) (\<lambda>found.
     bindE (some_or 40 (''base account not found: '' @ show_id dx account_prefix (as_base_account_id p)) found) (\<lambda>base.
     bindE (require_client_id dx ''azure_ad_client_id is unset'') (\<lambda>client_id.
     bindE (refreshed_access dx ''keychain load failed: '' (ac_id base) client_id) (\<lambda>token.
     bindE (app_error 41 (\<lambda>e. ''site resolve failed: '' @ gi_display e)
              (site_by_path (dx_http dx) token (as_host p) (as_site_path p))) (\<lambda>site.
     bindE (app_error 42 (\<lambda>e. ''library resolve failed for '' @ [CHR 0x27] @ as_library_name p @ [CHR 0x27]
                @ '' on site '' @ sd_id site @ '': '' @ gi_display e)
              (site_library_by_name (dx_http dx) token (sd_id site) (as_library_name p))) (\<lambda>drive.
     returnE (base, site, drive)))))))"

definition account_add_sharepoint :: "'w dispatch_ctx \<Rightarrow> json \<Rightarrow> ('w, json) mio" where
  "account_add_sharepoint dx params =
     bindE (params_of (pm_add_sharepoint (dx_rpc dx)) params) (\<lambda>p.
     bindE (sharepoint_target dx p) (\<lambda>(base, site, drive).
     bindE (now_of dx) (\<lambda>now.
     bindE (mint_id dx) (\<lambda>i.
     store_account dx ''account.added_sharepoint''
       [(''host'', as_host p), (''site_path'', as_site_path p), (''library_name'', as_library_name p)]
       (sharepoint_account i base site drive p now)))))"

definition account_remove :: "'w dispatch_ctx \<Rightarrow> json \<Rightarrow> ('w, json) mio" where
  "account_remove dx params =
     bindE (params_of (pm_account_id (dx_rpc dx)) params) (\<lambda>i.
     bindE (tryE (tv_delete (dx_vault dx) i)) (\<lambda>_.
     bindE (internal (st_account_remove (dx_state dx) i)) (\<lambda>_.
     returnE (JObject [(''ok'', JBool True), (''id'', JString (show_id dx account_prefix i))]))))"

end
