(* ===== verification/Dispatch.thy ===== *)
theory Dispatch
  imports Account_Methods
begin

text \<open>
  The dispatcher and the connections (\<open>ipc/dispatch.rs\<close>, \<open>ipc/server.rs\<close> of
  \<open>onesync-daemon\<close>): the table of methods, the response to a request, the loop that reads the
  frames of a connection, and the tasks that multiplex responses and notifications onto it.
\<close>

section \<open>Dispatch\<close>

definition id_str :: "rpc_lib \<Rightarrow> json option \<Rightarrow> string" where
  "id_str rp i =
     (case i of
        Some v \<Rightarrow> (case v of JString s \<Rightarrow> s | _ \<Rightarrow> en_compact rp v)
      | None \<Rightarrow> ''null'')"

definition method_table :: "(string \<times> ('w dispatch_ctx \<Rightarrow> json \<Rightarrow> ('w, json) mio)) list" where
  "method_table =
     [(''health.ping'', health_ping),
      (''health.diagnostics'', health_diagnostics),
      (''config.get'', config_get_method),
      (''config.set'', config_set),
      (''config.reload'', config_reload),
      (''account.login.begin'', login_begin),
      (''account.login.await'', login_await),
      (''account.list'', account_list),
      (''account.get'', account_get),
      (''account.remove'', account_remove),
      (''account.add_sharepoint'', account_add_sharepoint),
      (''pair.add'', pair_add),
      (''pair.list'', pair_list),
      (''pair.get'', pair_get),
      (''pair.pause'', pair_pause),
      (''pair.resume'', pair_resume),
      (''pair.remove'', pair_remove),
      (''pair.force_sync'', pair_force_sync),
      (''pair.status'', pair_status_of),
      (''pair.subscribe'', pair_subscribe),
      (''conflict.list'', conflict_list),
      (''conflict.get'', conflict_get),
      (''conflict.resolve'', conflict_resolve),
      (''conflict.subscribe'', conflict_subscribe),
      (''audit.tail'', audit_tail),
      (''audit.search'', audit_search_method),
      (''run.list'', run_list),
      (''run.get'', run_get),
      (''state.backup'', state_backup),
      (''state.export'', state_export),
      (''state.repair.permissions'', state_repair_permissions),
      (''state.compact.now'', state_compact_now),
      (''service.shutdown'', service_shutdown),
      (''service.upgrade.prepare'', upgrade_prepare),
      (''service.upgrade.commit'', upgrade_commit),
      (''subscription.cancel'', subscription_cancel)]"

definition run_method :: "'w dispatch_ctx \<Rightarrow> rpc_request \<Rightarrow> ('w, json) mio" where
  "run_method dx rq =
     (case map_of method_table (jq_method rq) of
        Some handler \<Rightarrow> handler dx (jq_params rq)
      | None \<Rightarrow> throwE (method_error_new METHOD_NOT_FOUND (''method not found: '' @ jq_method rq)))"

definition dispatch :: "rpc_request \<Rightarrow> 'w dispatch_ctx \<Rightarrow> ('w, 'e, rpc_response) io" where
  "dispatch rq dx =
     (let i = id_str (dx_rpc dx) (jq_id rq) in
      bindE (tryE (run_method dx rq)) (\<lambda>result.
      returnE (case result of
                 Inr v \<Rightarrow> response_ok i v
               | Inl e \<Rightarrow> response_error (Some i) (me_code e) (me_message e))))"

definition parse_and_dispatch :: "string \<Rightarrow> 'w dispatch_ctx \<Rightarrow> ('w, 'e, rpc_response) io" where
  "parse_and_dispatch line dx =
     (case pm_request (dx_rpc dx) line of
        Inr rq \<Rightarrow> dispatch rq dx
      | Inl e \<Rightarrow> returnE (response_error None PARSE_ERROR (''parse error: '' @ e)))"

section \<open>A connection\<close>

lemma read_frame_shorter:
  assumes "read_frame s = (Inr line, s')"
  shows "length (bs_bytes s') < length (bs_bytes s)"
proof -
  have "length (bs_bytes s') = length (bs_bytes s) - length l" if "read_line s = (Inr l, s')" for l
    using that by (auto simp: read_line_def Let_def split: option.splits if_splits prod.splits dest!: split_once_SomeD)
  moreover obtain l where l: "read_line s = (Inr l, s')" and "length l \<noteq> 0"
    using assms by (auto simp: read_frame_def split: prod.splits sum.splits if_splits)
  moreover have "length l \<le> length (bs_bytes s)"
    using l by (auto simp: read_line_def Let_def split: option.splits if_splits prod.splits dest!: split_once_SomeD)
  ultimately show ?thesis by (cases l) auto
qed

text \<open>
  The loop of a connection, with the responses handed to its writer so far; \<open>gone\<close> tells
  whether the writer has stopped.
\<close>

function serve ::
  "'w dispatch_ctx \<Rightarrow> ('w \<Rightarrow> bool \<times> 'w) \<Rightarrow> byte_stream \<Rightarrow> string list \<Rightarrow> ('w, 'e, string list) io" where
  "serve dx gone s out =
     (case read_frame s of
        (Inl e, s') \<Rightarrow> returnE out
      | (Inr line, s') \<Rightarrow>
          bindE (parse_and_dispatch line dx) (\<lambda>response.
          bindE (liftE gone) (\<lambda>g.
          if g then returnE out
          else serve dx gone s' (out @ [en_response (dx_rpc dx) response]))))"
  by auto
termination
  by (relation "measure (\<lambda>(dx, gone, s, out). length (bs_bytes s))") (auto dest!: read_frame_shorter [OF sym])

declare serve.simps [simp del]

definition handle_connection ::
  "'w dispatch_ctx \<Rightarrow> ('w \<Rightarrow> bool \<times> 'w) \<Rightarrow> byte_stream \<Rightarrow> ('w, 'e, string list) io" where
  "handle_connection dx gone s = serve dx gone s []"

section \<open>Responses and notifications on the wire\<close>

text \<open>
  The tasks of one connection with one subscription: events are broadcast, the forwarder moves
  what its filter wants to the connection, the dispatch loop hands over responses, the writer
  takes from either queue.  \<open>wr_*\<close> records what was accepted and written.
\<close>

definition CONN_NOTIF_DEPTH :: nat where "CONN_NOTIF_DEPTH = 512"

record wire =
  wi_registry :: sub_registry
  wi_notifs :: "rpc_notification list"
  wi_responses :: "string list"
  wi_written :: "string list"

datatype wire_event = Broadcasted rpc_notification | Forwarded | Responded string | WroteResponse | WroteNotif

text \<open>One turn of the forwarder of subscription \<open>i\<close>: a send on a full channel waits.\<close>

definition forward_one :: "forwarder \<Rightarrow> wire \<Rightarrow> wire option" where
  "forward_one fw s =
     (case map_of (wi_registry s) (fw_sub fw) of
        None \<Rightarrow> None
      | Some ch \<Rightarrow>
          (case ch_queue ch of
             [] \<Rightarrow> None
           | n # q \<Rightarrow>
               let reg = AList.update (fw_sub fw) (ch\<lparr>ch_queue := q\<rparr>) (wi_registry s)
               in if \<not> fw_wants fw n then Some (s\<lparr>wi_registry := reg\<rparr>)
                  else if length (wi_notifs s) < CONN_NOTIF_DEPTH
                  then Some (s\<lparr>wi_registry := reg, wi_notifs := wi_notifs s @ [n]\<rparr>)
                  else None))"

fun wire_apply :: "rpc_lib \<Rightarrow> forwarder \<Rightarrow> wire_event \<Rightarrow> wire \<Rightarrow> wire option" where
  "wire_apply rp fw (Broadcasted n) s = Some (s\<lparr>wi_registry := broadcast n (wi_registry s)\<rparr>)"
| "wire_apply rp fw Forwarded s = forward_one fw s"
| "wire_apply rp fw (Responded r) s =
     (if length (wi_responses s) < CONN_NOTIF_DEPTH then Some (s\<lparr>wi_responses := wi_responses s @ [r]\<rparr>) else None)"
| "wire_apply rp fw WroteResponse s =
     (case wi_responses s of
        [] \<Rightarrow> None
      | r # rs \<Rightarrow> Some (s\<lparr>wi_responses := rs, wi_written := wi_written s @ [r]\<rparr>))"
| "wire_apply rp fw WroteNotif s =
     (case wi_notifs s of
        [] \<Rightarrow> None
      | n # ns \<Rightarrow> Some (s\<lparr>wi_notifs := ns, wi_written := wi_written s @ [en_notification rp n]\<rparr>))"

inductive wire_run :: "rpc_lib \<Rightarrow> forwarder \<Rightarrow> wire \<Rightarrow> wire_event list \<Rightarrow> wire \<Rightarrow> bool" for rp fw where
  wire_done: "wire_run rp fw s [] s"
| wire_next: "wire_apply rp fw e s = Some s' \<Longrightarrow> wire_run rp fw s' es s'' \<Longrightarrow> wire_run rp fw s (e # es) s''"

inductive_cases wire_runE: "wire_run rp fw s es s'"

end
