(* ===== verification/Fresh_Daemon.thy ===== *)
theory Fresh_Daemon
  imports Dispatch
begin

text \<open>
  What a client can make of a daemon that was never configured.  The locale \<open>unconfigured\<close>
  states what a store answers as long as it holds no account, no pair and no client id; inside
  it every method handler is shown to keep the store that way.  The SQLite store and the
  in-memory store are its interpretations.
\<close>

section \<open>Keeping and failing\<close>

named_theorems keep_rules \<open>effects that keep an invariant\<close>

definition keeps_step :: "('w \<Rightarrow> bool) \<Rightarrow> ('w \<Rightarrow> 'a \<times> 'w) \<Rightarrow> bool" where
  "keeps_step I f \<longleftrightarrow> (\<forall>w. I w \<longrightarrow> I (snd (f w)))"

definition fails :: "('w \<Rightarrow> bool) \<Rightarrow> ('w, 'e, 'a) io \<Rightarrow> bool" where
  "fails I m \<longleftrightarrow> hoare I m (\<lambda>_ _. False) (\<lambda>_. I)"

lemma keeps_lift_step [keep_rules]: "keeps_step I f \<Longrightarrow> keeps I (liftE f)"
  by (auto simp: keeps_step_def)

lemma keeps_step_new_id [keep_rules]: "keeps_step I (rt_new_ulid rt) \<Longrightarrow> keeps_step I (new_id rt)"
  by (auto simp: keeps_step_def new_id_def split: prod.splits)

lemmas keeps_basic [keep_rules] = keeps_bind keeps_map_err keeps_try keeps_if keeps_return keeps_throw
  keeps_result

lemma keeps_prod [keep_rules]: "(\<And>a b. keeps I (f a b)) \<Longrightarrow> keeps I (case p of (a, b) \<Rightarrow> f a b)"
  by (cases p) simp

lemma keeps_option [keep_rules]:
  "keeps I m \<Longrightarrow> (\<And>x. keeps I (f x)) \<Longrightarrow> keeps I (case o' of None \<Rightarrow> m | Some x \<Rightarrow> f x)"
  by (cases o') simp_all

lemma keeps_sum [keep_rules]:
  "(\<And>e. keeps I (g e)) \<Longrightarrow> (\<And>x. keeps I (f x)) \<Longrightarrow> keeps I (case r of Inl e \<Rightarrow> g e | Inr x \<Rightarrow> f x)"
  by (cases r) simp_all

lemma keeps_Let [keep_rules]: "keeps I (f x) \<Longrightarrow> keeps I (Let x f)"
  by simp

lemma keeps_hoare: "hoare I m (\<lambda>_. I) (\<lambda>_. I) \<Longrightarrow> keeps I m"
  by (simp add: keeps_iff_hoare)

lemma fails_keeps: "fails I m \<Longrightarrow> keeps I m"
  by (rule keeps_hoare, unfold fails_def, erule hoare_weaken) auto

lemma fails_bind: "fails I m \<Longrightarrow> fails I (bindE m f)"
  unfolding fails_def by (rule hoare_bind) (auto simp: hoare_def)

lemma fails_after:
  assumes "keeps I m" and "\<And>x. fails I (f x)"
  shows "fails I (bindE m f)"
  unfolding fails_def
  by (rule hoare_bind [where B = "\<lambda>_. I"]) (use assms in \<open>auto simp: keeps_iff_hoare fails_def\<close>)

lemma fails_map_err: "fails I m \<Longrightarrow> fails I (map_errE g m)"
  unfolding fails_def by (rule hoare_map_err)

lemma fails_InlE:
  assumes "fails I m" and "I w"
  obtains e w' where "m w = (Inl e, w')" and "I w'"
proof -
  obtain r w' where r: "m w = (r, w')" by fastforce
  from assms r have "\<exists>e. r = Inl e" unfolding fails_def by (cases r) (auto dest: hoare_InrD)
  with assms r that show thesis unfolding fails_def by (auto dest: hoare_InlD)
qed

section \<open>The outside of the daemon\<close>

text \<open>Everything but the store keeps the invariant.\<close>

definition auth_keeps :: "('w \<Rightarrow> bool) \<Rightarrow> 'w auth_lib \<Rightarrow> bool" where
  "auth_keeps I al \<longleftrightarrow>
     (\<forall>n. keeps_step I (al_random al n)) \<and> keeps I (al_bind al) \<and> (\<forall>l. keeps I (al_local_port al l))
     \<and> (\<forall>l. keeps I (al_accept al l)) \<and> (\<forall>s n. keeps I (al_read al s n))
     \<and> (\<forall>s t. keeps I (al_write_all al s t)) \<and> (\<forall>n m. keeps I m \<longrightarrow> keeps I (al_timeout al n m))"

definition os_keeps :: "('w \<Rightarrow> bool) \<Rightarrow> 'w os_lib \<Rightarrow> bool" where
  "os_keeps I os \<longleftrightarrow>
     (\<forall>p. keeps I (os_create_dir_all os p)) \<and> (\<forall>p t. keeps I (os_write os p t))
     \<and> (\<forall>p. keeps I (os_metadata os p)) \<and> (\<forall>p m. keeps I (os_set_permissions os p m))
     \<and> (\<forall>p. keeps I (os_read_dir os p)) \<and> (\<forall>p. keeps I (os_is_dir os p)) \<and> keeps I (os_cancelled os)"

definition outside_keeps :: "('w \<Rightarrow> bool) \<Rightarrow> 'w dispatch_ctx \<Rightarrow> bool" where
  "outside_keeps I dx \<longleftrightarrow>
     auth_keeps I (dx_auth dx) \<and> os_keeps I (dx_os dx)
     \<and> (\<forall>p. keeps I (lf_mkdir_p (dx_local_fs dx) p))
     \<and> keeps_step I (rt_now (dx_runtime dx)) \<and> keeps_step I (rt_new_ulid (dx_runtime dx))
     \<and> (\<forall>e w. I w \<longrightarrow> I (rt_emit (dx_runtime dx) e w))
     \<and> (\<forall>a t. keeps I (tv_store_refresh (dx_vault dx) a t)) \<and> (\<forall>a. keeps I (tv_load_refresh (dx_vault dx) a))
     \<and> (\<forall>a. keeps I (tv_delete (dx_vault dx) a))
     \<and> (\<forall>rq. keeps I (ht_send (dx_http dx) rq)) \<and> (\<forall>n. keeps_step I (ht_random (dx_http dx) n))
     \<and> (\<forall>x w. I w \<longrightarrow> I (cell_set (dx_logins dx) x w)) \<and> (\<forall>x w. I w \<longrightarrow> I (cell_set (dx_shutdown dx) x w))
     \<and> (\<forall>x w. I w \<longrightarrow> I (cell_set (dx_force dx) x w)) \<and> (\<forall>x w. I w \<longrightarrow> I (cell_set (dx_subs dx) x w))
     \<and> (\<forall>x w. I w \<longrightarrow> I (cell_set (dx_staging dx) x w)) \<and> (\<forall>x w. I w \<longrightarrow> I (cell_set (dx_forwarders dx) x w))
     \<and> keeps_step I (dx_uptime_s dx) \<and> keeps_step I (dx_task_lost dx)"

lemma keeps_read_cell [keep_rules]: "keeps I (read_cell c)"
  by (simp add: read_cell_def keeps_def liftE_def)

lemma keeps_update_cell [keep_rules]: "(\<And>x w. I w \<Longrightarrow> I (cell_set c x w)) \<Longrightarrow> keeps I (update_cell c f)"
  by (simp add: update_cell_def keeps_def modifyE_def)

lemma keeps_internal [keep_rules]: "keeps I m \<Longrightarrow> keeps I (internal m)"
  by (auto simp: internal_def)

lemma keeps_app_error [keep_rules]: "keeps I m \<Longrightarrow> keeps I (app_error n f m)"
  by (auto simp: app_error_def)

lemma keeps_params [keep_rules]: "keeps I (params_of dec v)" "keeps I (params_or d dec v)" "keeps I (some_or n m x)"
  by (auto simp: params_of_def params_or_def some_or_def split: option.split)

lemma outsideD [keep_rules]:
  assumes "outside_keeps I dx"
  shows "keeps I (now_of dx)" "keeps I (mint_id dx)" "keeps I (lf_mkdir_p (dx_local_fs dx) p)"
    "keeps I (tv_store_refresh (dx_vault dx) a t)" "keeps I (tv_load_refresh (dx_vault dx) a)"
    "keeps I (tv_delete (dx_vault dx) a)" "keeps I (ht_send (dx_http dx) rq)"
    "keeps_step I (ht_random (dx_http dx) n)" "keeps_step I (dx_uptime_s dx)" "keeps_step I (dx_task_lost dx)"
    "keeps I (os_create_dir_all (dx_os dx) path)" "keeps I (os_write (dx_os dx) path text)"
    "keeps I (os_metadata (dx_os dx) path)" "keeps I (os_cancelled (dx_os dx))"
    "keeps I (update_cell (dx_logins dx) fl)" "keeps I (update_cell (dx_shutdown dx) fs)"
    "keeps I (update_cell (dx_force dx) ff)" "keeps I (update_cell (dx_subs dx) fb)"
    "keeps I (update_cell (dx_staging dx) fg)" "keeps I (update_cell (dx_forwarders dx) fw)"
    "keeps I (modifyE (rt_emit (dx_runtime dx) ev))"
  using assms
  by (auto simp: outside_keeps_def os_keeps_def now_of_def mint_id_def intro!: keep_rules)

lemma keeps_repair_walk [keep_rules]:
  assumes "outside_keeps I dx"
  shows "keeps I (repair_walk (dx_os dx) d)"
proof -
  have os: "os_keeps I (dx_os dx)" using assms by (simp add: outside_keeps_def)
  have "keeps I (chmod_entries (dx_os dx) es touched)" for es touched
    by (induction "dx_os dx" es touched rule: chmod_entries.induct)
       (use os in \<open>auto simp: os_keeps_def intro!: keep_rules\<close>)
  with os show ?thesis by (auto simp: repair_walk_def os_keeps_def intro!: keep_rules)
qed

lemma keeps_sign_in [keep_rules]:
  assumes "outside_keeps I dx"
  shows "keeps I (listener_bind (dx_auth dx))" and "keeps I (liftE (pkce_generate (dx_auth dx)))"
    and "keeps I (await_code (dx_auth dx) l s n)"
proof -
  have al: "auth_keeps I (dx_auth dx)" using assms by (simp add: outside_keeps_def)
  then show "keeps I (listener_bind (dx_auth dx))"
    by (auto simp: listener_bind_def auth_keeps_def intro!: keep_rules)
  have "keeps_step I (pkce_generate (dx_auth dx))"
    using al by (auto simp: keeps_step_def pkce_generate_def auth_keeps_def split: prod.splits) (metis snd_conv)
  then show "keeps I (liftE (pkce_generate (dx_auth dx)))" by (rule keep_rules)
  show "keeps I (await_code (dx_auth dx) l s n)"
  proof -
    have "keeps I (accept_redirect (dx_auth dx) l s)"
      using al by (auto simp: accept_redirect_def auth_keeps_def intro!: keep_rules)
    with al have "keeps I (al_timeout (dx_auth dx) n (accept_redirect (dx_auth dx) l s))"
      by (simp add: auth_keeps_def)
    then show ?thesis by (auto simp: await_code_def intro!: keep_rules)
  qed
qed

section \<open>A store without a client id\<close>

text \<open>
  \<open>bare\<close> holds of a configuration without client id and without webhook settings.
\<close>

definition bare :: "instance_config \<Rightarrow> bool" where
  "bare c \<longleftrightarrow> ic_azure_ad_client_id c = [] \<and> ic_webhook_listener_port c = None
     \<and> ic_webhook_notification_url c = None"

lemma bare_apply_config: "pred_option bare existing \<Longrightarrow> bare (apply_config p now existing)"
  by (cases existing) (simp_all add: bare_def apply_config_def)

locale unconfigured =
  fixes st :: "'w state_store" and I :: "'w \<Rightarrow> bool"
  assumes config_get: "hoare I (st_config_get st) (\<lambda>c w. I w \<and> pred_option bare c) (\<lambda>_. I)"
    and config_upsert: "bare c \<Longrightarrow> keeps I (st_config_upsert st c)"
    and account_get: "hoare I (st_account_get st a) (\<lambda>x w. I w \<and> x = None) (\<lambda>_. I)"
    and pair_get: "hoare I (st_pair_get st i) (\<lambda>x w. I w \<and> x = None) (\<lambda>_. I)"
    and accounts_list: "keeps I (st_accounts_list st)"
    and account_remove: "keeps I (st_account_remove st a)"
    and pairs_list: "keeps I (st_pairs_list st x b)"
    and conflicts_unresolved: "keeps I (st_conflicts_unresolved st i)"
    and conflict_get: "keeps I (st_conflict_get st c')"
    and conflict_resolve: "keeps I (st_conflict_resolve st c' res t note_opt)"
    and runs_recent: "keeps I (st_runs_recent st i n)"
    and run_get: "keeps I (st_run_get st r)"
    and audit_append: "keeps I (st_audit_append st ev)"
    and audit_search: "keeps I (st_audit_search st t1 t2 lv x' n)"
    and backup_to: "keeps I (st_backup_to st path)"
    and compact_now: "keeps I (st_compact_now st t)"
begin

lemmas store_keeps = accounts_list account_remove pairs_list conflicts_unresolved conflict_get
  conflict_resolve runs_recent run_get audit_append audit_search backup_to compact_now

lemma config_get_keeps: "keeps I (st_config_get st)"
  by (rule keeps_hoare, rule hoare_weaken [OF config_get]) auto

lemma config_read: "hoare I (internal (st_config_get st)) (\<lambda>c w. I w \<and> pred_option bare c) (\<lambda>_. I)"
  unfolding internal_def by (rule hoare_map_err) (rule config_get)

lemma account_read: "hoare I (internal (st_account_get st a)) (\<lambda>x w. I w \<and> x = None) (\<lambda>_. I)"
  unfolding internal_def by (rule hoare_map_err) (rule account_get)

lemma pair_read: "hoare I (internal (st_pair_get st i)) (\<lambda>x w. I w \<and> x = None) (\<lambda>_. I)"
  unfolding internal_def by (rule hoare_map_err) (rule pair_get)

lemma no_client_id:
  assumes "dx_state dx = st"
  shows "fails I (require_client_id dx m)"
  unfolding require_client_id_def assms fails_def
  by (rule hoare_bind, rule config_read)
     (simp add: hoare_def throwE_def Let_def client_id_of_def bare_def split: option.splits)

lemma no_account: "fails I (bindE (internal (st_account_get st a)) (\<lambda>x. bindE (some_or n m x) f))"
  unfolding fails_def
  by (rule hoare_bind, rule account_read) (simp add: hoare_def throwE_def bindE_def some_or_def)

lemma no_pair:
  assumes "dx_state dx = st"
  shows "fails I (require_pair dx i)"
  unfolding require_pair_def assms fails_def
  by (rule hoare_bind, rule pair_read) (simp add: hoare_def throwE_def some_or_def)

lemma params_keep: "keeps I (params_of dec v :: ('w, 'a) mio)"
  by (rule keeps_params)

lemma accounts_and_pairs_refused:
  assumes "dx_state dx = st" and out: "outside_keeps I dx"
  shows "fails I (login_begin dx params)" and "fails I (login_await dx params)"
    and "fails I (account_add_sharepoint dx params)" and "fails I (pair_add dx params)"
proof -
  show "fails I (login_begin dx params)"
    unfolding login_begin_def by (intro fails_after fails_bind no_client_id keeps_params assms)
  have take: "keeps I (take_session dx h)" for h
    using out by (auto simp: take_session_def intro!: keep_rules)
  have code: "keeps I (await_session_code dx s)" for s
    using out by (auto simp: await_session_code_def intro!: keep_rules)
  show "fails I (login_await dx params)"
    unfolding login_await_def
    by (rule fails_after [OF keeps_params(1)], rule fails_after [OF take], rule fails_after [OF code],
        rule fails_bind, rule no_client_id, rule assms)
  show "fails I (account_add_sharepoint dx params)"
    unfolding account_add_sharepoint_def sharepoint_target_def assms(1)
    by (rule fails_after [OF keeps_params(1)], rule fails_bind, rule no_account)
  show "fails I (pair_add dx params)"
    unfolding pair_add_def pair_target_def assms(1)
    by (rule fails_after [OF keeps_params(1)], rule fails_bind, rule no_account)
qed

lemma pairs_missing:
  assumes "dx_state dx = st"
  shows "fails I (pair_get dx params)" and "fails I (set_paused dx params b)" and "fails I (pair_remove dx params)"
    and "fails I (pair_force_sync dx params)" and "fails I (pair_status_of dx params)"
  unfolding pair_get_def set_paused_def pair_remove_def pair_force_sync_def pair_status_of_def
  by (intro fails_after fails_bind no_pair keeps_params assms)+

lemma config_set_keeps:
  assumes "dx_state dx = st" and out: "outside_keeps I dx"
  shows "keeps I (config_set dx params)"
proof -
  have "hoare I (bindE (internal (st_config_get st)) (\<lambda>existing.
      let cfg = apply_config p now existing in
      bindE (internal (st_config_upsert st cfg)) (\<lambda>_. returnE (g cfg)))) (\<lambda>_. I) (\<lambda>_. I)"
    for p now and g :: "instance_config \<Rightarrow> json"
    by (rule hoare_bind, rule config_read)
       (auto simp: hoare_def Let_def internal_def bindE_def map_errE_def returnE_def split: prod.splits sum.splits
         dest!: keepsD [OF config_upsert [OF bare_apply_config]])
  then have "keeps I (bindE (internal (st_config_get st)) (\<lambda>existing.
      let cfg = apply_config p now existing in
      bindE (internal (st_config_upsert st cfg)) (\<lambda>_. returnE (g cfg))))"
    for p now and g :: "instance_config \<Rightarrow> json"
    by (rule keeps_hoare)
  then show ?thesis
    unfolding config_set_def assms(1)
    by (rule keeps_bind [OF keeps_params(2) keeps_bind [OF outsideD(1) [OF out]]])
qed

lemma forwarder_keeps: "outside_keeps I dx \<Longrightarrow> keeps I (subscribe_forwarder dx k wants)"
  unfolding subscribe_forwarder_def Let_def by (intro keep_rules)

lemma method_keeps:
  assumes "dx_state dx = st" and out: "outside_keeps I dx" and h: "(name, handler) \<in> set method_table"
  shows "keeps I (handler dx params)"
proof -
  note defs = health_ping_def health_diagnostics_def config_get_method_def config_reload_def account_list_def
    account_get_def account_remove_def pair_list_def pair_pause_def pair_resume_def pair_subscribe_def
    conflict_list_def conflict_get_def conflict_resolve_def conflict_subscribe_def audit_tail_def
    audit_search_method_def run_list_def run_get_def state_backup_def state_export_def write_json_def
    state_repair_permissions_def state_compact_now_def service_shutdown_def upgrade_prepare_def
    upgrade_commit_def subscription_cancel_def
  have acct: "keeps I (account_get dx params)"
    unfolding account_get_def assms(1) by (intro fails_keeps fails_after keeps_params no_account)
  have simple: "keeps I (f dx params)" if "f \<in> {health_ping, health_diagnostics, config_get_method, config_reload,
      account_list, account_remove, pair_list, pair_subscribe, conflict_list, conflict_get, conflict_resolve,
      conflict_subscribe, audit_tail, audit_search_method, run_list, run_get, state_backup, state_export,
      state_repair_permissions, state_compact_now, service_shutdown, upgrade_prepare, upgrade_commit,
      subscription_cancel}" for f
    using that out
    by (auto simp: defs Let_def intro!: keep_rules store_keeps [folded assms(1)]
        config_get_keeps [folded assms(1)] forwarder_keeps)
  have paused: "keeps I (pair_pause dx params)" "keeps I (pair_resume dx params)"
    unfolding pair_pause_def pair_resume_def by (intro fails_keeps pairs_missing(2) assms(1))+
  show ?thesis
    using h unfolding method_table_def
    by (auto intro: simple acct paused config_set_keeps [OF assms(1) out] fails_keeps
        accounts_and_pairs_refused [OF assms(1) out] pairs_missing [OF assms(1)])
qed

lemma dispatch_keeps:
  assumes "dx_state dx = st" and "outside_keeps I dx"
  shows "keeps I (dispatch rq dx)"
proof -
  have "keeps I (run_method dx rq)"
    unfolding run_method_def by (auto intro: method_keeps [OF assms] dest: map_of_SomeD split: option.split)
  then show ?thesis by (auto simp: dispatch_def Let_def intro!: keep_rules)
qed

end

end
