(* ===== verification/Sample_Daemon.thy ===== *)
theory Sample_Daemon
  imports Dispatch
begin

text \<open>
  A concrete dispatch context for the runs of the witnesses: the cells of the daemon are a
  record \<open>host\<close> inside the world, its surroundings refuse every call, and the decoders answer
  with fixed parameters.
\<close>

record host =
  ho_logins :: login_registry
  ho_shutdown :: shutdown_token
  ho_force :: force_channel
  ho_subs :: sub_registry
  ho_staging :: "path_buf option"
  ho_forwarders :: "forwarder list"

definition idle_host :: host where
  "idle_host =
     \<lparr>ho_logins = [], ho_shutdown = token_new, ho_force = \<lparr>fc_queue = [], fc_closed = False\<rparr>, ho_subs = [],
      ho_staging = None, ho_forwarders = []\<rparr>"

text \<open>A daemon whose surroundings refuse every call, for concrete runs.\<close>

definition refusing_auth :: "'w auth_lib" where
  "refusing_auth =
     \<lparr>al_b64url = id, al_b64url_decode = Inr, al_sha256 = id, al_json = (\<lambda>_. Inl ''not json''),
      al_token = (\<lambda>_. Inl ''no token''), al_debug = id, al_random = (\<lambda>n w. (replicate n CHR ''x'', w)),
      al_bind = throwE ''refused'', al_local_port = (\<lambda>_. throwE ''refused''), al_accept = (\<lambda>_. throwE ''refused''),
      al_read = (\<lambda>_ _. throwE ''refused''), al_write_all = (\<lambda>_ _. throwE ''refused''),
      al_timeout = (\<lambda>_ _. throwE ())\<rparr>"

definition refusing_os :: "'w os_lib" where
  "refusing_os =
     \<lparr>os_create_dir_all = (\<lambda>_. throwE ''refused''), os_write = (\<lambda>_ _. throwE ''refused''),
      os_metadata = (\<lambda>_. throwE ''refused''), os_set_permissions = (\<lambda>_ _. throwE ''refused''),
      os_read_dir = (\<lambda>_. throwE ''refused''), os_is_dir = (\<lambda>_. throwE ''refused''), os_cancelled = returnE ()\<rparr>"

definition plain_rpc :: rpc_lib where
  "plain_rpc =
     \<lparr>pm_login_begin = (\<lambda>_. Inr None), pm_login_await = (\<lambda>_. Inl ''no handle''),
      pm_account_id = (\<lambda>_. Inr (Id 1)),
      pm_add_sharepoint = (\<lambda>_. Inr \<lparr>as_base_account_id = Id 1, as_host = ''h'', as_site_path = ''s'', as_library_name = ''l''\<rparr>),
      pm_pair_add = (\<lambda>_. Inr \<lparr>pa_account_id = Id 1, pa_local_path = ''/a'', pa_remote_path = ''/b'', pa_display_name = None\<rparr>),
      pm_pair_id = (\<lambda>_. Inr (Id 1)), pm_pair_subscribe = (\<lambda>_. Inr (Id 1)), pm_conflict_list = (\<lambda>_. Inr (Id 1)),
      pm_conflict_id = (\<lambda>_. Inr (Id 1)),
      pm_conflict_resolve = (\<lambda>_. Inr \<lparr>cp_id = Id 1, cp_resolution = Manual, cp_note = None\<rparr>),
      pm_conflict_subscribe = (\<lambda>_. Inr None), pm_config_set = (\<lambda>_. Inr no_config_params),
      pm_audit_search = (\<lambda>_. Inr \<lparr>aq_from = 0, aq_to = 1, aq_level = None, aq_pair = None, aq_limit = Some 5000\<rparr>),
      pm_run_list = (\<lambda>_. Inr \<lparr>rl_pair = Id 1, rl_limit = None\<rparr>), pm_run_id = (\<lambda>_. Inr (Id 1)),
      pm_backup = (\<lambda>_. Inr ''/b''), pm_export = (\<lambda>_. Inr ''/e''), pm_upgrade_prepare = (\<lambda>_. Inr ''/bin/new''),
      en_account = (\<lambda>_. JNull), en_pair = (\<lambda>_. JNull), en_conflict = (\<lambda>_. JNull), en_run = (\<lambda>_. JNull),
      en_audit = (\<lambda>_. JNull), en_config = (\<lambda>_. JNull), en_pretty = (\<lambda>_. Inr ''{}''), en_compact = (\<lambda>_. ''1''),
      en_response = (\<lambda>_. ''{}''), en_notification = (\<lambda>_. ''{}''), pm_request = (\<lambda>_. Inl ''not json'')\<rparr>"

definition refusing_http :: "'w http_lib" where
  "refusing_http =
     \<lparr>ht_send = (\<lambda>_. throwE ''connection refused''), ht_random = (\<lambda>n w. (replicate n 7, w)), ht_wall_now = (\<lambda>w. (0, w)),
      ht_rfc3339 = (\<lambda>_. ''t''), ht_text = (\<lambda>_. []), ht_status_text = show_nat, ht_parse_json = (\<lambda>_. None),
      ht_item = (\<lambda>_. Inl ''no item''), ht_item_text = (\<lambda>_. Inl ''no item''), ht_delta = (\<lambda>_. Inl ''no page''),
      ht_session_url = (\<lambda>_. Inl ''no url''), ht_ranges = (\<lambda>_. Inl ''no ranges''), ht_drive = (\<lambda>_. Inl ''no drive''),
      ht_profile = (\<lambda>_. Inl ''no profile''), ht_drives = (\<lambda>_. Inl ''no drives''), ht_site = (\<lambda>_. Inl ''no site''),
      ht_token = (\<lambda>_. Inl ''no token''), ht_value = (\<lambda>_. Inl ''no value''), ht_query_pairs = (\<lambda>_. None),
      ht_base64 = (\<lambda>_. []), ht_sha1 = id\<rparr>"

definition refusing_vault :: "'w token_vault" where
  "refusing_vault =
     \<lparr>tv_store_refresh = (\<lambda>_ _. throwE VeNotFound), tv_load_refresh = (\<lambda>_. throwE VeNotFound),
      tv_delete = (\<lambda>_. throwE VeNotFound)\<rparr>"

definition refusing_fs :: "'w local_fs" where
  "refusing_fs =
     \<lparr>lf_scan = (\<lambda>_. throwE LfRaced), lf_read = (\<lambda>_. throwE LfRaced), lf_write_atomic = (\<lambda>_ _. throwE LfRaced),
      lf_rename = (\<lambda>_ _. throwE LfRaced), lf_delete = (\<lambda>_. throwE LfRaced), lf_mkdir_p = (\<lambda>_. throwE LfRaced),
      lf_hash = (\<lambda>_. throwE LfRaced)\<rparr>"

definition still_runtime :: "'w runtime" where
  "still_runtime =
     \<lparr>rt_now = (\<lambda>w. (1000, w)), rt_new_ulid = (\<lambda>w. (5, w)), rt_emit = (\<lambda>e w. w),
      rt_getrandom_u64 = (\<lambda>w. (None, w)), rt_sleep_ms = (\<lambda>n w. w)\<rparr>"

text \<open>\<open>get\<close> and \<open>put\<close> access the host in the world.\<close>

definition sample_daemon ::
  "'w state_store \<Rightarrow> ('w \<Rightarrow> host) \<Rightarrow> (host \<Rightarrow> 'w \<Rightarrow> 'w) \<Rightarrow> 'w dispatch_ctx" where
  "sample_daemon st get put =
     \<lparr>dx_uptime_s = (\<lambda>w. (3, w)), dx_state = st, dx_local_fs = refusing_fs, dx_runtime = still_runtime,
      dx_vault = refusing_vault, dx_http = refusing_http, dx_auth = refusing_auth, dx_lib = ascii_lib,
      dx_rpc = plain_rpc, dx_os = refusing_os,
      dx_logins = \<lparr>cell_get = (\<lambda>w. ho_logins (get w)), cell_set = (\<lambda>x w. put ((get w)\<lparr>ho_logins := x\<rparr>) w)\<rparr>,
      dx_shutdown = \<lparr>cell_get = (\<lambda>w. ho_shutdown (get w)), cell_set = (\<lambda>x w. put ((get w)\<lparr>ho_shutdown := x\<rparr>) w)\<rparr>,
      dx_state_dir = PathBuf ''/state'',
      dx_force = \<lparr>cell_get = (\<lambda>w. ho_force (get w)), cell_set = (\<lambda>x w. put ((get w)\<lparr>ho_force := x\<rparr>) w)\<rparr>,
      dx_subs = \<lparr>cell_get = (\<lambda>w. ho_subs (get w)), cell_set = (\<lambda>x w. put ((get w)\<lparr>ho_subs := x\<rparr>) w)\<rparr>,
      dx_staging = \<lparr>cell_get = (\<lambda>w. ho_staging (get w)), cell_set = (\<lambda>x w. put ((get w)\<lparr>ho_staging := x\<rparr>) w)\<rparr>,
      dx_forwarders = \<lparr>cell_get = (\<lambda>w. ho_forwarders (get w)), cell_set = (\<lambda>x w. put ((get w)\<lparr>ho_forwarders := x\<rparr>) w)\<rparr>,
      dx_task_lost = (\<lambda>w. (False, w))\<rparr>"

lemmas sample_defs = sample_daemon_def refusing_auth_def refusing_os_def refusing_http_def refusing_vault_def
  refusing_fs_def still_runtime_def plain_rpc_def

lemma sample_state [simp]: "dx_state (sample_daemon st get put) = st"
  by (simp add: sample_daemon_def)

definition sample_mem_daemon :: "host mem_world dispatch_ctx" where
  "sample_mem_daemon = sample_daemon (mem_state_store ascii_lib) mw_ext (\<lambda>h w. w\<lparr>mw_ext := h\<rparr>)"

text \<open>A listener to which a browser sends \<open>req\<close> in time.\<close>

definition redirecting_auth :: "string \<Rightarrow> 'w auth_lib" where
  "redirecting_auth req =
     refusing_auth\<lparr>al_bind := returnE 1, al_local_port := (\<lambda>_. returnE 8400), al_accept := (\<lambda>_. returnE 1),
       al_read := (\<lambda>_ _. returnE req), al_write_all := (\<lambda>_ _. returnE ()),
       al_timeout := (\<lambda>_ m w. case m w of (r, w') \<Rightarrow> (Inr r, w'))\<rparr>"

end
