(* ===== verification/Fresh_Stores.thy ===== *)
theory Fresh_Stores
  imports Fresh_Daemon Sample_Daemon Sql_Cycle
begin

text \<open>
  The in-memory store and the SQLite store without a client id as instances of
  \<open>unconfigured\<close>, and what follows for a daemon on a database that was just created: its RPC
  interface cannot configure it.
\<close>

section \<open>The in-memory store\<close>

definition fresh_mem :: "mem_store \<Rightarrow> bool" where
  "fresh_mem s \<longleftrightarrow> ms_accounts s = [] \<and> ms_pairs s = [] \<and> pred_option bare (ms_config s)"

lemma fold_delete_Nil [simp]: "fold AList.delete ks [] = []"
  by (induction ks) auto

interpretation mem_unconfigured: unconfigured "mem_state_store L" "\<lambda>w. fresh_mem (mw_store w)" for L
  by unfold_locales
     (auto simp: mem_state_store_def on_store_def hoare_def keeps_def fresh_mem_def Let_def
        mem_config_get_def mem_config_upsert_def mem_account_get_def mem_pair_get_def mem_accounts_list_def
        mem_account_remove_def mem_pairs_list_def mem_conflicts_unresolved_def mem_conflict_get_def
        mem_conflict_resolve_def mem_runs_recent_def mem_run_get_def mem_audit_append_def mem_audit_search_def
        mem_backup_to_def mem_compact_now_def)

section \<open>The database\<close>

definition bare_row :: "config_row \<Rightarrow> bool" where
  "bare_row r \<longleftrightarrow> icr_azure_ad_client_id r = [] \<and> icr_webhook_listener_port r = None
     \<and> icr_webhook_notification_url r = None"

definition fresh_db :: "database \<Rightarrow> bool" where
  "fresh_db db \<longleftrightarrow> db_accounts db = [] \<and> db_pairs db = [] \<and> pred_option bare_row (db_config db)"

abbreviation fresh_world :: "'x sql_world \<Rightarrow> bool" where
  "fresh_world w \<equiv> fresh_db (sw_db w)"

lemma keeps_may_fail [keep_rules]: "keeps (\<lambda>w. P (sw_db w)) (may_fail f g)"
  by (simp add: keeps_def may_fail_db [OF surjective_pairing])

lemma keeps_run_stmt:
  assumes "\<And>db a db'. P db \<Longrightarrow> f db = Inr (a, db') \<Longrightarrow> P db'"
  shows "keeps (\<lambda>w. P (sw_db w)) (run_stmt SL E f)"
proof -
  have "keeps (\<lambda>w. P (sw_db w)) (on_db f)"
    using assms by (auto simp: keeps_def on_db_def split: sum.split prod.split)
  then show ?thesis by (auto simp: run_stmt_def to_store_error_def statement_def intro!: keep_rules)
qed

lemma keeps_query: "keeps (\<lambda>w. P (sw_db w)) (statement E (query f))"
  unfolding statement_def by (intro keep_rules) (simp add: keeps_def on_db_def query_def)

lemma keeps_fetch [keep_rules]:
  "keeps (\<lambda>w. P (sw_db w)) (fetch_rows SL E f d)" "keeps (\<lambda>w. P (sw_db w)) (fetch_row SL E f d)"
  by (auto simp: fetch_rows_def fetch_row_def to_store_error_def query_def
      intro!: keep_rules keeps_run_stmt split: list.split)

lemma keeps_with_conn [keep_rules]:
  "keeps (\<lambda>w. P (sw_db w)) m \<Longrightarrow> keeps (\<lambda>w. P (sw_db w)) (with_conn E m)"
  "keeps (\<lambda>w. P (sw_db w)) m' \<Longrightarrow> keeps (\<lambda>w. P (sw_db w)) (blocking E m')"
  by (auto simp: with_conn_def blocking_def get_conn_def intro!: keep_rules)

lemma hoare_with_conn:
  assumes "hoare (\<lambda>w. P (sw_db w)) m (\<lambda>x w. P (sw_db w) \<and> Q x) (\<lambda>_ w. P (sw_db w))"
  shows "hoare (\<lambda>w. P (sw_db w)) (with_conn E m) (\<lambda>x w. P (sw_db w) \<and> Q x) (\<lambda>_ w. P (sw_db w))"
proof -
  have pre: "hoare (\<lambda>w. P (sw_db w)) (may_fail f g) (\<lambda>_ w. P (sw_db w)) (\<lambda>_ w. P (sw_db w))" for f g
    using keeps_may_fail [of P] by (simp add: keeps_iff_hoare)
  show ?thesis
    unfolding with_conn_def blocking_def get_conn_def
    by (intro hoare_bind [OF pre] hoare_bind [OF hoare_map_err [OF pre]] hoare_map_err assms)
qed

lemma decoded_row: "map_sum id Some r = Inr x \<Longrightarrow> \<exists>y. r = Inr y \<and> x = Some y"
  by (cases r) auto

lemma hoare_fetch_row:
  assumes "\<And>db. P db \<Longrightarrow> (case f db of [] \<Rightarrow> Q None | r # _ \<Rightarrow> (\<forall>x. d r = Inr x \<longrightarrow> Q (Some x)))"
  shows "hoare (\<lambda>w. P (sw_db w)) (fetch_row SL E f d) (\<lambda>x w. P (sw_db w) \<and> Q x) (\<lambda>_ w. P (sw_db w))"
proof (rule hoareI)
  fix w e w'
  assume "P (sw_db w)" and "fetch_row SL E f d w = (Inl e, w')"
  then show "P (sw_db w')" using keepsD [OF keeps_fetch(2)] by blast
next
  fix w x w'
  assume P: "P (sw_db w)" and r: "fetch_row SL E f d w = (Inr x, w')"
  then have "P (sw_db w')" using keepsD [OF keeps_fetch(2)] by blast
  moreover have "Q x"
    using r assms [OF P] unfolding fetch_row_def to_store_error_def
    by (elim bindE_InrE, drule_tac run_stmt_InrD)
       (auto simp: query_def returnE_def resultE_def map_errE_def dest!: decoded_row
         split: list.splits sum.splits)
  ultimately show "P (sw_db w') \<and> Q x" ..
qed

lemma bare_decoded: "bare_row r \<Longrightarrow> row_to_config SL r = Inr c \<Longrightarrow> bare c"
  by (auto simp: row_to_config_def bare_row_def bare_def and_then_def split: sum.splits)

lemma bare_encoded: "bare c \<Longrightarrow> bare_row (config_params SL c)"
  by (simp add: bare_def bare_row_def config_params_def)

lemma select_Nil: "map_order_laws (sl_scan_order SL) \<Longrightarrow> select SL P [] = []"
proof -
  assume "map_order_laws (sl_scan_order SL)"
  then have "set (sl_scan_order SL 0) = {..<0}" unfolding map_order_laws_def by blast
  then show ?thesis by (simp add: select_def scan_def)
qed

lemma fresh_deletes:
  "fresh_db db \<Longrightarrow> fresh_db (delete_runs P db)" "fresh_db db \<Longrightarrow> fresh_db (delete_pairs Q db)"
  "fresh_db db \<Longrightarrow> fresh_db (delete_accounts R db)"
  by (simp_all add: fresh_db_def delete_runs_def delete_ops_def delete_pairs_def delete_accounts_def Let_def)

lemma sql_unconfigured:
  assumes "map_order_laws (sl_scan_order SL)"
  shows "unconfigured (sql_state_store SL E) fresh_world"
proof (unfold_locales, unfold sql_state_store_def state_store.simps store_ops)
  show "hoare fresh_world (with_conn E (config_get SL E)) (\<lambda>c w. fresh_world w \<and> pred_option bare c) (\<lambda>_. fresh_world)"
    unfolding config_get_def
    by (intro hoare_with_conn hoare_fetch_row) (auto simp: fresh_db_def bare_decoded split: option.split)
  show "keeps fresh_world (with_conn E (config_upsert SL E c))" if "bare c" for c
    using bare_encoded [OF that] unfolding config_upsert_def
    by (intro keep_rules keeps_run_stmt) (auto simp: fresh_db_def upsert_config_def)
  show "hoare fresh_world (with_conn E (accounts_get SL E a)) (\<lambda>x w. fresh_world w \<and> x = None) (\<lambda>_. fresh_world)" for a
    unfolding accounts_get_def
    by (intro hoare_with_conn hoare_fetch_row) (simp add: fresh_db_def select_Nil [OF assms])
  show "hoare fresh_world (with_conn E (pairs_get SL E i)) (\<lambda>x w. fresh_world w \<and> x = None) (\<lambda>_. fresh_world)" for i
    unfolding pairs_get_def
    by (intro hoare_with_conn hoare_fetch_row) (simp add: fresh_db_def select_Nil [OF assms])
  show "keeps fresh_world (sql_compact_now SL E t)" for t
    unfolding sql_compact_now_def run_retention_def prune_audit_def prune_runs_def prune_conflicts_def prune_pairs_def
    by (intro keep_rules keeps_run_stmt keeps_query) (auto simp: stmt_defs fresh_deletes, auto simp: fresh_db_def)
  show "keeps fresh_world (sql_backup_to SL E path)" for path
    unfolding sql_backup_to_def vacuum_into_def
    by (intro keep_rules) (auto simp: keeps_def modifyE_def)
  show "keeps fresh_world (with_conn E (accounts_remove SL E a))" for a
    unfolding accounts_remove_def
    by (intro keep_rules keeps_run_stmt) (auto simp: stmt_defs fresh_deletes)
  show "keeps fresh_world (with_conn E (conflicts_resolve SL E c' res t note_opt))" for c' res t note_opt
    unfolding conflicts_resolve_def
    by (intro keep_rules keeps_run_stmt) (auto simp: stmt_defs fresh_db_def)
  show "keeps fresh_world (with_conn E (audit_append SL E ev))" for ev
    unfolding audit_append_def
    by (intro keep_rules keeps_run_stmt) (auto simp: stmt_defs fresh_db_def split: if_splits)
qed (auto simp: accounts_list_def pairs_list_def conflicts_unresolved_def conflicts_get_def runs_recent_def
    runs_get_def audit_search_def intro!: keep_rules)

section \<open>A daemon on a new database\<close>

definition serve_requests :: "'w dispatch_ctx \<Rightarrow> rpc_request list \<Rightarrow> 'w \<Rightarrow> 'w" where
  "serve_requests dx rqs w = fold (\<lambda>rq w. snd ((dispatch rq dx :: ('w, unit, rpc_response) io) w)) rqs w"

lemma fresh_opened:
  assumes "open_store SL E now w0 = (Inr (), w)" and "sw_db w0 = empty_database"
  shows "fresh_db (sw_db w)"
proof -
  have "keeps fresh_world (open_store SL E now)"
    unfolding open_store_def ensure_present_def
    by (intro keep_rules keeps_run_stmt)
       (auto simp: insert_default_config_def fresh_db_def default_config_row_def bare_row_def split: option.splits)
  moreover have "fresh_db (sw_db w0)" using assms(2) by (simp add: fresh_db_def empty_database_def)
  ultimately show ?thesis using assms(1) by (auto dest: keepsD)
qed

text \<open>
  C13: A daemon on a new database cannot be configured through its RPC interface: whatever
  requests are sent, in any order and with any parameters, the store holds no client id, no
  webhook settings, no account and no pair afterwards, and signing in, adding a SharePoint
  library and adding a pair are refused, because \<open>config.set\<close> has no field for the client id
  that all three ask for.
\<close>
theorem new_daemon_cannot_be_configured:
  fixes dx :: "'x sql_world dispatch_ctx"
  assumes laws: "map_order_laws (sl_scan_order SL)" and st: "dx_state dx = sql_state_store SL E"
    and out: "outside_keeps (\<lambda>w. fresh_db (sw_db w)) dx"
    and new: "open_store SL E now w0 = (Inr (), w)" "sw_db w0 = empty_database"
  shows "fresh_db (sw_db (serve_requests dx rqs w))
    \<and> (\<exists>e. fst (login_begin dx params (serve_requests dx rqs w)) = Inl e)
    \<and> (\<exists>e. fst (login_await dx params (serve_requests dx rqs w)) = Inl e)
    \<and> (\<exists>e. fst (account_add_sharepoint dx params (serve_requests dx rqs w)) = Inl e)
    \<and> (\<exists>e. fst (pair_add dx params (serve_requests dx rqs w)) = Inl e)"
proof -
  have un: "unconfigured (sql_state_store SL E) fresh_world" by (rule sql_unconfigured [OF laws])
  have fresh: "fresh_db (sw_db (serve_requests dx rqs w))"
    using fresh_opened [OF new]
  proof (induction rqs arbitrary: w)
    case (Cons rq rqs)
    have "keeps fresh_world (dispatch rq dx :: ('x sql_world, unit, rpc_response) io)"
      by (rule unconfigured.dispatch_keeps [OF un st out])
    with Cons show ?case by (simp add: serve_requests_def keeps_def)
  qed (simp add: serve_requests_def)
  have refused: "\<exists>e. fst (m (serve_requests dx rqs w)) = Inl e" if "fails fresh_world m"
    for m :: "('x sql_world, json) mio"
    by (rule fails_InlE [OF that fresh]) simp
  show ?thesis
    by (intro conjI fresh refused unconfigured.accounts_and_pairs_refused [OF un st out])
qed

definition steady_env :: "'x sql_env" where
  "steady_env =
     \<lparr>se_fault = (\<lambda>x. (None, x)), se_pool = (\<lambda>x. (None, x)), se_join = (\<lambda>x. (None, x)),
      se_migrate = (\<lambda>x. (None, x)), se_now = (\<lambda>x. (0, x)), se_vacuum_into = (\<lambda>p db x. x)\<rparr>"

definition sample_sql_daemon :: "host sql_world dispatch_ctx" where
  "sample_sql_daemon =
     sample_daemon (sql_state_store unary_lib steady_env) sw_ext (\<lambda>h w. w\<lparr>sw_ext := h\<rparr>)"

lemma sample_outside: "outside_keeps (\<lambda>w. P (sw_db w)) sample_sql_daemon"
  by (auto simp: outside_keeps_def auth_keeps_def os_keeps_def sample_sql_daemon_def sample_defs keeps_step_def)

lemma sample_opened:
  "open_store unary_lib steady_env 0 \<lparr>sw_db = empty_database, sw_ext = idle_host\<rparr> =
     (Inr (), \<lparr>sw_db = empty_database\<lparr>db_config := Some (default_config_row (unary_time 0))\<rparr>, sw_ext = idle_host\<rparr>)"
  by (simp add: open_store_def may_fail_def ask_def ensure_present_def run_stmt_def to_store_error_def statement_def
      on_db_def insert_default_config_def empty_database_def steady_env_def unary_lib_def io_simps)

theorem new_daemon_cannot_be_configured_witness:
  "\<exists>e. fst (login_begin sample_sql_daemon JNull (serve_requests sample_sql_daemon
       [new_request (JNum 1) ''config.set'' JNull]
       \<lparr>sw_db = empty_database\<lparr>db_config := Some (default_config_row (unary_time 0))\<rparr>, sw_ext = idle_host\<rparr>)) = Inl e"
proof -
  note laws = unary_scan_order
  have st: "dx_state sample_sql_daemon = sql_state_store unary_lib steady_env"
    by (simp add: sample_sql_daemon_def)
  show ?thesis
    using new_daemon_cannot_be_configured [OF laws st sample_outside sample_opened] by (simp add: empty_database_def)
qed

end
