(* ===== verification/Login_Props.thy ===== *)
theory Login_Props
  imports Account_Methods Sample_Daemon
begin

text \<open>
  Sign-in: what the browser sends back is what the daemon reads (the percent encoding of the
  authorize URL and the decoder of the redirect), and a code is accepted only together with the
  state that was issued for its session.
\<close>

section \<open>Percent encoding and its decoder\<close>

text \<open>What decoding makes of a byte string: every byte becomes the character of that number.\<close>

definition latin1 :: "string \<Rightarrow> string" where
  "latin1 s = concat (map (\<lambda>c. char_from_u8 (of_char c)) s)"

lemma latin1_simps [simp]:
  "latin1 [] = []" "latin1 (c # s) = char_from_u8 (of_char c) @ latin1 s"
  by (simp_all add: latin1_def)

lemma latin1_ascii: "is_ascii s \<Longrightarrow> latin1 s = s"
  by (induction s) (auto simp: char_from_u8_def)

lemma latin1_longer: "length s \<le> length (latin1 s) \<and> (\<not> is_ascii s \<longrightarrow> length s < length (latin1 s))"
  by (induction s) (auto simp: char_from_u8_def)

lemma latin1_fixed_iff: "latin1 s = s \<longleftrightarrow> is_ascii s"
  using latin1_ascii latin1_longer by (metis less_irrefl)

lemma hex_digit_of_upper: "n < 16 \<Longrightarrow> hex_digit_of (hex_upper_digit n) = Some n"
  by (auto simp: hex_digit_of_def hex_upper_digit_def Let_def)

lemma url_decode_plain: "c \<noteq> CHR ''%'' \<Longrightarrow> url_decode (c # r) = char_from_u8 (of_char c) @ url_decode r"
  by (simp split: list.split option.split)

lemma url_decode_percent: "url_decode (percent_byte c @ r) = char_from_u8 (of_char c) @ url_decode r"
proof -
  have "(of_char c :: nat) < 256" by simp
  then have d: "hex_digit_of (hex_upper_digit (of_char c div 16)) = Some (of_char c div 16)"
    "hex_digit_of (hex_upper_digit (of_char c mod 16)) = Some (of_char c mod 16)"
    by (auto intro!: hex_digit_of_upper)
  show ?thesis by (simp add: percent_byte_def d mult_div_mod_eq)
qed

declare url_decode.simps(2) [simp del]

lemma url_encode_simps [simp]:
  "url_encode [] = []" "url_encode (c # s) = url_byte c @ url_encode s"
  by (simp_all add: url_encode_def)

lemma unreserved_not_percent: "is_unreserved c \<Longrightarrow> c \<noteq> CHR ''%''"
  by (auto simp: is_unreserved_def)

lemma url_decode_encode: "url_decode (url_encode s) = latin1 s"
  by (induction s) (auto simp: url_byte_def url_decode_percent url_decode_plain unreserved_not_percent)

section \<open>The request line\<close>

text \<open>Characters that neither end a word nor a parameter.\<close>

definition url_safe :: "char \<Rightarrow> bool" where
  "url_safe c \<longleftrightarrow> is_unreserved c \<or> c = CHR ''%''"

lemma url_encode_safe: "c \<in> set (url_encode s) \<Longrightarrow> url_safe c"
proof (induction s)
  case (Cons a s)
  have "is_unreserved (hex_upper_digit n)" if "n < 16" for n
    using that by (auto simp: hex_upper_digit_def is_unreserved_def less_eq_char_def)
  moreover have "(of_char a :: nat) < 256" by simp
  ultimately show ?case
    using Cons by (auto simp: url_byte_def percent_byte_def url_safe_def split: if_splits)
qed simp

definition visible :: "char \<Rightarrow> bool" where
  "visible c \<longleftrightarrow> 33 \<le> (of_char c :: nat) \<and> (of_char c :: nat) < 127"

lemma url_safe_visible: "url_safe c \<Longrightarrow> visible c \<and> c \<notin> {CHR ''&'', CHR ''='', CHR ''?''}"
  by (auto simp: url_safe_def is_unreserved_def visible_def less_eq_char_def)

lemma split_ws_word:
  assumes "list_all visible w"
  shows "split_ws 0 acc (w @ CHR '' '' # r) = push_word (rev w @ acc) (split_ws 0 [] r)"
  using assms
proof (induction w arbitrary: acc)
  case (Cons c w)
  then have "ws_len (map of_char (c # w @ CHR '' '' # r)) = 0" by (auto simp: visible_def)
  with Cons show ?case by (simp add: Let_def)
qed (simp add: Let_def)

definition redirect_path :: "string \<Rightarrow> string \<Rightarrow> string" where
  "redirect_path code state = ''/callback?code='' @ url_encode code @ ''&state='' @ url_encode state"

text \<open>The request a browser makes for the redirect.\<close>

definition redirect_request :: "string \<Rightarrow> string \<Rightarrow> string \<Rightarrow> string" where
  "redirect_request code state rest =
     ''GET '' @ redirect_path code state @ '' HTTP/1.1'' @ CRLF @ rest"

lemma redirect_path_visible: "list_all visible (redirect_path code state)"
  using url_encode_safe url_safe_visible
  by (auto simp: redirect_path_def list_all_iff visible_def)

lemma first_line_crlf: "CHR 0x0A \<notin> set l \<Longrightarrow> first_line (l @ CRLF @ rest) = Some l"
  using split_once_append [of "CHR 0x0A" "l @ [CHR 0x0D]" rest]
  by (simp add: first_line_def CRLF_def strip_cr_def)

lemma redirect_first_line:
  "first_line (redirect_request code state rest) = Some (''GET '' @ redirect_path code state @ '' HTTP/1.1'')"
proof -
  have "CHR 0x0A \<notin> set (redirect_path code state)"
    using redirect_path_visible [of code state] by (auto simp: list_all_iff visible_def)
  then have "CHR 0x0A \<notin> set (''GET '' @ redirect_path code state @ '' HTTP/1.1'')" by simp
  from first_line_crlf [OF this, of rest] show ?thesis by (simp add: redirect_request_def)
qed

lemma redirect_words:
  "nth_opt 1 (split_whitespace (''GET '' @ redirect_path code state @ '' HTTP/1.1'')) = Some (redirect_path code state)"
proof -
  have "split_whitespace (''GET'' @ CHR '' '' # redirect_path code state @ CHR '' '' # ''HTTP/1.1'')
      = ''GET'' # redirect_path code state # split_ws 0 [] ''HTTP/1.1''"
    unfolding split_whitespace_def
    by (subst split_ws_word, simp add: visible_def, subst split_ws_word [OF redirect_path_visible])
       (simp add: push_word_def redirect_path_def)
  then show ?thesis by (simp add: nth_opt_def)
qed

lemma no_sep_in_encoded: "c \<in> {CHR ''&'', CHR ''='', CHR ''?''} \<Longrightarrow> c \<notin> set (url_encode s)"
  using url_encode_safe url_safe_visible by blast

text \<open>
  C20: The redirect of a sign-in is read back: from the request line with the percent-encoded
  code and state the listener recovers the two values exactly when they are ASCII; every byte
  from 128 on comes back as two bytes, because the decoder turns each escape into a character of
  its own.
\<close>
theorem redirect_roundtrip:
  "parse_code_and_state (redirect_request code state rest) = Inr (latin1 code, latin1 state)
   \<and> (latin1 code = code) = is_ascii code \<and> (latin1 state = state) = is_ascii state"
proof -
  have q: "split_once CHR ''?'' (redirect_path code state)
      = Some (''/callback'', ''code='' @ url_encode code @ ''&state='' @ url_encode state)"
    using split_once_append [of "CHR ''?''" "''/callback''"] by (simp add: redirect_path_def)
  have "split_on CHR ''&'' ((''code='' @ url_encode code) @ CHR ''&'' # ''state='' @ url_encode state)
      = [''code='' @ url_encode code, ''state='' @ url_encode state]"
    by (subst split_on_append) (simp add: split_on_no_sep no_sep_in_encoded)
  then have p: "split_on CHR ''&'' (''code='' @ url_encode code @ ''&state='' @ url_encode state)
      = [''code='' @ url_encode code, ''state='' @ url_encode state]" by simp
  have c: "split_once CHR ''='' (''code='' @ url_encode code) = Some (''code'', url_encode code)"
    "split_once CHR ''='' (''state='' @ url_encode state) = Some (''state'', url_encode state)"
    by simp_all
  show ?thesis
    by (simp add: parse_code_and_state_def redirect_first_line redirect_words [unfolded One_nat_def] q p c query_param_def
        url_decode_encode latin1_fixed_iff del: append.simps)
qed

section \<open>Sessions\<close>

text \<open>A cell holds what was put into it; a timeout returns what the task returned, or nothing.\<close>

definition cell_laws :: "('w, 'a) cell \<Rightarrow> bool" where
  "cell_laws c \<longleftrightarrow> (\<forall>x w. cell_get c (cell_set c x w) = x)"

definition timeout_law :: "'w auth_lib \<Rightarrow> bool" where
  "timeout_law al \<longleftrightarrow>
     (\<forall>n m w r w'. al_timeout al n m w = (Inr r, w') \<longrightarrow> (\<exists>w2. m w = (r, w2)))"

text \<open>The request of the redirect: what the listener reads from the connection it accepts.\<close>

definition redirect_read :: "'w auth_lib \<Rightarrow> nat \<Rightarrow> 'w \<Rightarrow> string \<Rightarrow> bool" where
  "redirect_read al listener w request \<longleftrightarrow>
     (\<exists>stream w1 buf w2. al_accept al listener w = (Inr stream, w1)
        \<and> al_read al stream 4096 w1 = (Inr buf, w2) \<and> request = from_utf8_lossy buf)"

lemma accepted_redirect:
  assumes "accept_redirect al l expected w = (Inr (code, st), w')"
  shows "\<exists>request. redirect_read al l w request \<and> parse_code_and_state request = Inr (code, expected)"
  using assms unfolding accept_redirect_def redirect_read_def
  by (elim bindE_InrE map_errE_InrE)
     (auto simp: resultE_def throwE_def returnE_def split: if_splits elim!: bindE_InrE)

lemma awaited_code:
  assumes law: "timeout_law al" and a: "await_code al l expected n w = (Inr (code, st), w')"
  shows "\<exists>request. redirect_read al l w request \<and> parse_code_and_state request = Inr (code, expected)"
proof -
  from a have "\<exists>w1. al_timeout al n (accept_redirect al l expected) w = (Inr (Inr (code, st)), w1)"
    unfolding await_code_def by (elim bindE_InrE map_errE_InrE) (auto simp: resultE_def)
  with law obtain w2 where "accept_redirect al l expected w = (Inr (code, st), w2)"
    unfolding timeout_law_def by blast
  from accepted_redirect [OF this] show ?thesis .
qed

text \<open>
  C15: A sign-in completes only with the redirect that belongs to it: whatever code
  \<open>account.login.await\<close> goes on with is the code of the very request that was read from the
  connection accepted on the listener of the session, and that request carried the state issued
  for the session of the handle; and the handle is gone from the registry afterwards, so that a
  second call with it is refused.  A timeout that does not fire is assumed to give the result
  of the task it wraps.
\<close>
theorem login_code_has_issued_state:
  assumes law: "timeout_law (dx_auth dx)" and cell: "cell_laws (dx_logins dx)"
    and take: "take_session dx h w = (Inr s, w1)" and code: "await_session_code dx s w2 = (Inr code, w3)"
  shows "map_of (cell_get (dx_logins dx) w) h = Some s
    \<and> (\<exists>stream v1 buf v2. al_accept (dx_auth dx) (lg_listener s) (snd (dx_task_lost dx w2)) = (Inr stream, v1)
        \<and> al_read (dx_auth dx) stream 4096 v1 = (Inr buf, v2)
        \<and> parse_code_and_state (from_utf8_lossy buf) = Inr (code, lg_expected_state s))
    \<and> fst (take_session dx h w1)
        = Inl (method_error_new (APP_ERROR_BASE - 11) (''unknown login_handle: '' @ h))"
proof -
  have found: "map_of (cell_get (dx_logins dx) w) h = Some s"
    and w1: "w1 = cell_set (dx_logins dx) (AList.delete h (cell_get (dx_logins dx) w)) w"
    using take
    by (auto simp: take_session_def handler_defs io_simps login_take_def split: option.splits)
  have "map_of (cell_get (dx_logins dx) w1) h = None"
    using cell by (simp add: w1 cell_laws_def delete_conv')
  then have "fst (take_session dx h w1)
      = Inl (method_error_new (APP_ERROR_BASE - 11) (''unknown login_handle: '' @ h))"
    by (simp add: take_session_def handler_defs io_simps login_take_def)
  moreover obtain st where "await_code (dx_auth dx) (lg_listener s) (lg_expected_state s) AUTH_LISTENER_TIMEOUT_S
      (snd (dx_task_lost dx w2)) = (Inr (code, st), w3)"
    using code
    by (auto simp: await_session_code_def handler_defs io_simps split: prod.splits sum.splits if_splits)
  ultimately show ?thesis using found awaited_code [OF law] unfolding redirect_read_def by blast
qed

definition sample_session :: login_session where
  "sample_session =
     \<lparr>lg_listener = 1, lg_expected_state = ''s'', lg_pkce_verifier = ''v'', lg_redirect_uri = ''http://localhost:1/callback''\<rparr>"

lemma sample_redirect_read:
  "parse_code_and_state (from_utf8_lossy ''GET /?code=c&state=s'') = Inr (''c'', ''s'')"
  by code_simp

definition redirect_daemon :: "host mem_world dispatch_ctx" where
  "redirect_daemon = sample_mem_daemon\<lparr>dx_auth := redirecting_auth ''GET /?code=c&state=s''\<rparr>"

definition idle_world :: "(string \<times> login_session) list \<Rightarrow> host mem_world" where
  "idle_world logins = \<lparr>mw_store = empty_store, mw_ext = idle_host\<lparr>ho_logins := logins\<rparr>\<rparr>"

theorem login_code_has_issued_state_witness:
  "fst (await_session_code redirect_daemon sample_session (idle_world [])) = Inr ''c''
     \<and> parse_code_and_state (from_utf8_lossy ''GET /?code=c&state=s'') = Inr (''c'', lg_expected_state sample_session)"
proof -
  have t: "timeout_law (dx_auth redirect_daemon)"
    by (auto simp: timeout_law_def redirect_daemon_def redirecting_auth_def split: prod.splits)
  have c: "cell_laws (dx_logins redirect_daemon)"
    by (simp add: cell_laws_def redirect_daemon_def sample_mem_daemon_def sample_daemon_def)
  have k: "take_session redirect_daemon ''h'' (idle_world [(''h'', sample_session)]) = (Inr sample_session, idle_world [])"
    by (simp add: take_session_def handler_defs io_simps login_take_def redirect_daemon_def sample_mem_daemon_def
        sample_daemon_def idle_host_def idle_world_def)
  have a: "await_session_code redirect_daemon sample_session (idle_world []) = (Inr ''c'', idle_world [])"
    by (simp add: await_session_code_def handler_defs io_simps await_code_def accept_redirect_def redirecting_auth_def
        sample_redirect_read sample_session_def redirect_daemon_def sample_mem_daemon_def sample_daemon_def idle_world_def)
  have r: "al_read (dx_auth redirect_daemon) stream n v = (Inr ''GET /?code=c&state=s'', v)" for stream n v
    by (simp add: redirect_daemon_def redirecting_auth_def returnE_def)
  from login_code_has_issued_state [OF t c k a] a show ?thesis unfolding r by auto
qed

definition session_handle :: "string \<Rightarrow> string" where
  "session_handle state = ''lgn_'' @ trim_start_matches ''acct_'' state"

definition session_of :: "nat \<Rightarrow> nat \<Rightarrow> string \<Rightarrow> string \<Rightarrow> login_session" where
  "session_of listener port state verifier =
     \<lparr>lg_listener = listener, lg_expected_state = state, lg_pkce_verifier = verifier,
      lg_redirect_uri = ''http://localhost:'' @ show_nat port @ ''/callback''\<rparr>"

lemma begin_session_result:
  assumes "begin_session dx authority client_id listener port w = (Inr v, w')" and "cell_laws (dx_logins dx)"
  shows "\<exists>state verifier. map_of (cell_get (dx_logins dx) w') (session_handle state)
        = Some (session_of listener port state verifier)
      \<and> v = JObject [(''login_handle'', JString (session_handle state)),
                     (''auth_url'', JString (auth_url authority client_id
                        (''http://localhost:'' @ show_nat port @ ''/callback'') state
                        (al_b64url (dx_auth dx) (al_sha256 (dx_auth dx) verifier))))]"
proof -
  obtain raw w1 where raw: "al_random (dx_auth dx) 32 w = (raw, w1)" by fastforce
  obtain r w2 where m: "(mint_id dx :: ('a, account_id) mio) w1 = (r, w2)" by fastforce
  have "\<exists>i. r = Inr i" using m by (auto simp: mint_id_def liftE_def split: prod.splits)
  then obtain i where i: "r = Inr i" ..
  show ?thesis
    using assms m i
    by (intro exI [of _ "show_id dx account_prefix i"] exI [of _ "al_b64url (dx_auth dx) raw"])
       (auto simp: begin_session_def Let_def io_simps pkce_generate_def pkce_from_raw_bytes_def raw update_cell_def
         cell_laws_def login_insert_def update_conv' session_handle_def session_of_def)
qed

text \<open>
  \<open>account.login.begin\<close> hands out a URL that fits the session it stores: a configured client
  id, the state and the redirect address of the session, and the PKCE challenge of the
  session's verifier, over a listener that was bound to the port of the address.
\<close>
theorem login_begin_session:
  assumes b: "login_begin dx params w = (Inr v, w')" and cell: "cell_laws (dx_logins dx)"
  shows "\<exists>h s authority client_id port.
      v = JObject [(''login_handle'', JString h),
                   (''auth_url'', JString (auth_url authority client_id (lg_redirect_uri s) (lg_expected_state s)
                      (al_b64url (dx_auth dx) (al_sha256 (dx_auth dx) (lg_pkce_verifier s)))))]
      \<and> map_of (cell_get (dx_logins dx) w') h = Some s \<and> client_id \<noteq> []
      \<and> lg_redirect_uri s = ''http://localhost:'' @ show_nat port @ ''/callback''
      \<and> (\<exists>w1 w2. listener_bind (dx_auth dx) w1 = (Inr (lg_listener s, port), w2))"
proof -
  have client: "c \<noteq> []" if "require_client_id dx m x = (Inr c, x')" for c m x x'
    using that unfolding require_client_id_def Let_def
    by (elim bindE_InrE) (auto simp: throwE_def returnE_def split: if_splits)
  from b obtain hint client_id w0 w1 listener port w2
    where c: "require_client_id dx unset_client_message w0 = (Inr client_id, w1)"
      and l: "listener_bind (dx_auth dx) w1 = (Inr (listener, port), w2)"
      and r: "begin_session dx (unwrap_or COMMON_AUTHORITY hint) client_id listener port w2 = (Inr v, w')"
    unfolding login_begin_def by (elim bindE_InrE map_errE_InrE) auto
  from begin_session_result [OF r cell] obtain state verifier
    where found: "map_of (cell_get (dx_logins dx) w') (session_handle state)
        = Some (session_of listener port state verifier)"
      and v: "v = JObject [(''login_handle'', JString (session_handle state)),
                     (''auth_url'', JString (auth_url (unwrap_or COMMON_AUTHORITY hint) client_id
                        (''http://localhost:'' @ show_nat port @ ''/callback'') state
                        (al_b64url (dx_auth dx) (al_sha256 (dx_auth dx) verifier))))]" by blast
  show ?thesis
    by (rule exI [of _ "session_handle state"], rule exI [of _ "session_of listener port state verifier"],
        rule exI [of _ "unwrap_or COMMON_AUTHORITY hint"], rule exI [of _ client_id], rule exI [of _ port])
       (use found v client [OF c] l in \<open>auto simp: session_of_def\<close>)
qed

end
