(* ===== verification/Connection_Props.thy ===== *)
theory Connection_Props
  imports Sample_Daemon
begin

text \<open>
  What a client sees on a connection: one response per request, in the order of the requests,
  with the identifiers of the requests; and the notifications of a subscription, in the order
  of the events and interleaved with the responses frame by frame.
\<close>

section \<open>Responses\<close>

text \<open>The reference: what a line is answered, and lines answered one after the other.\<close>

definition answer :: "'w dispatch_ctx \<Rightarrow> string \<Rightarrow> 'w \<Rightarrow> rpc_response \<times> 'w" where
  "answer dx line w =
     (case pm_request (dx_rpc dx) line of
        Inl e \<Rightarrow> (response_error None PARSE_ERROR (''parse error: '' @ e), w)
      | Inr rq \<Rightarrow>
          let i = id_str (dx_rpc dx) (jq_id rq) in
          (case run_method dx rq w of
             (Inr v, w') \<Rightarrow> (response_ok i v, w')
           | (Inl me, w') \<Rightarrow> (response_error (Some i) (me_code me) (me_message me), w')))"

fun answers :: "'w dispatch_ctx \<Rightarrow> string list \<Rightarrow> 'w \<Rightarrow> rpc_response list \<times> 'w" where
  "answers dx [] w = ([], w)"
| "answers dx (line # lines) w =
     (case answer dx line w of (r, w1) \<Rightarrow> (case answers dx lines w1 of (rs, w2) \<Rightarrow> (r # rs, w2)))"

lemma dispatch_run:
  "dispatch rq dx w =
     (case run_method dx rq w of
        (Inr v, w') \<Rightarrow> (Inr (response_ok (id_str (dx_rpc dx) (jq_id rq)) v), w')
      | (Inl me, w') \<Rightarrow>
          (Inr (response_error (Some (id_str (dx_rpc dx) (jq_id rq))) (me_code me) (me_message me)), w'))"
  by (simp add: dispatch_def Let_def io_simps split: prod.split sum.split)

lemma parse_and_dispatch_answer:
  "parse_and_dispatch line dx w = (Inr (fst (answer dx line w)), snd (answer dx line w))"
  by (simp add: parse_and_dispatch_def answer_def dispatch_run returnE_def Let_def split: sum.split prod.split)

text \<open>The response carries the identifier of its request, whatever the method did.\<close>

fun response_id :: "rpc_response \<Rightarrow> string option" where
  "response_id (RpcOk _ i _) = Some i"
| "response_id (RpcErr _ i _) = i"

definition expected_id :: "'w dispatch_ctx \<Rightarrow> string \<Rightarrow> string option" where
  "expected_id dx line =
     (case pm_request (dx_rpc dx) line of Inr rq \<Rightarrow> Some (id_str (dx_rpc dx) (jq_id rq)) | Inl _ \<Rightarrow> None)"

lemma answers_ids: "map response_id (fst (answers dx lines w)) = map (expected_id dx) lines"
proof (induction lines arbitrary: w)
  case (Cons line lines)
  obtain r w' where a: "answer dx line w = (r, w')" by fastforce
  then have "response_id r = expected_id dx line"
    by (auto simp: answer_def Let_def expected_id_def response_ok_def response_error_def
        split: sum.splits prod.splits)
  with a Cons [of w'] show ?case by (cases "answers dx lines w'") simp
qed simp

lemma serve_lines:
  assumes "list_all frame_ok lines" and "list_all (\<lambda>l. Suc (length l) \<le> IPC_FRAME_MAX_BYTES) lines"
  shows "serve dx (\<lambda>w. (False, w)) (s\<lparr>bs_bytes := concat (map write_frame lines)\<rparr>) out w =
    (Inr (out @ map (en_response (dx_rpc dx)) (fst (answers dx lines w))), snd (answers dx lines w))"
  using assms
proof (induction lines arbitrary: out w)
  case Nil
  obtain e where "fst (read_frame (s\<lparr>bs_bytes := []\<rparr>)) = Inl e" using read_frame_end [of "s\<lparr>bs_bytes := []\<rparr>"] by auto
  then show ?case by (subst serve.simps) (auto simp: returnE_def split: prod.splits)
next
  case (Cons line lines)
  have "read_frame (s\<lparr>bs_bytes := write_frame line @ concat (map write_frame lines)\<rparr>)
      = (Inr line, s\<lparr>bs_bytes := concat (map write_frame lines)\<rparr>)"
    using Cons.prems by (subst read_written_frame) auto
  with Cons.IH [of "out @ [en_response (dx_rpc dx) (fst (answer dx line w))]" "snd (answer dx line w)"] Cons.prems
  show ?case
    by (subst serve.simps)
       (simp add: parse_and_dispatch_answer bindE_def liftE_def split: prod.split)
qed

text \<open>
  C16: A connection answers in order: as long as its writer is there, every line that is a legal
  frame gets exactly one response, the responses are handed to the writer in the order of the
  lines, each with the identifier of its own request (none where the line did not parse), the
  requests change the daemon one after the other in that order, and the loop ends at the end of
  the stream.
\<close>
theorem connection_answers_in_order:
  assumes "list_all frame_ok lines" and "list_all (\<lambda>l. Suc (length l) \<le> IPC_FRAME_MAX_BYTES) lines"
  shows "(handle_connection dx (\<lambda>w. (False, w)) (s\<lparr>bs_bytes := concat (map write_frame lines)\<rparr>)
      :: ('w, unit, string list) io) w =
      (Inr (map (en_response (dx_rpc dx)) (fst (answers dx lines w))), snd (answers dx lines w))
    \<and> map response_id (fst (answers dx lines w)) = map (expected_id dx) lines"
  using serve_lines [OF assms, of dx s "[]" w] by (simp add: handle_connection_def answers_ids)

theorem connection_answers_in_order_witness:
  "\<exists>w. (handle_connection sample_mem_daemon (\<lambda>w. (False, w)) \<lparr>bs_bytes = write_frame ''{}'' @ write_frame ''x'', bs_error = None\<rparr>
      :: (host mem_world, unit, string list) io) \<lparr>mw_store = empty_store, mw_ext = idle_host\<rparr> = (Inr [''{}'', ''{}''], w)"
  using connection_answers_in_order [of "[''{}'', ''x'']" sample_mem_daemon "\<lparr>bs_bytes = [], bs_error = None\<rparr>"
      "\<lparr>mw_store = empty_store, mw_ext = idle_host\<rparr>"]
  by (simp add: frame_ok_def IPC_FRAME_MAX_BYTES_def MIB_def KIB_def answer_def
      sample_mem_daemon_def sample_daemon_def plain_rpc_def)

text \<open>
  Requests that name no method change nothing and are answered with the error code for an
  unknown method and the identifier of the request; lines that are no request change nothing
  and are answered with a parse error without identifier; and the error of a method reaches the
  client with its code and message.
\<close>
theorem dispatch_errors:
  "(map_of (method_table :: (string \<times> ('w dispatch_ctx \<Rightarrow> json \<Rightarrow> ('w, json) mio)) list) (jq_method rq) = None \<longrightarrow>
      (dispatch rq dx :: ('w, unit, rpc_response) io) w =
        (Inr (response_error (Some (id_str (dx_rpc dx) (jq_id rq))) METHOD_NOT_FOUND
           (''method not found: '' @ jq_method rq)), w))
   \<and> (pm_request (dx_rpc dx) line = Inl e \<longrightarrow>
      (parse_and_dispatch line dx :: ('w, unit, rpc_response) io) w =
        (Inr (response_error None PARSE_ERROR (''parse error: '' @ e)), w))
   \<and> (run_method dx rq w = (Inl me, w') \<longrightarrow>
      (dispatch rq dx :: ('w, unit, rpc_response) io) w =
        (Inr (response_error (Some (id_str (dx_rpc dx) (jq_id rq))) (me_code me) (me_message me)), w'))"
  by (auto simp: dispatch_run parse_and_dispatch_def run_method_def throwE_def returnE_def method_error_new_def
      split: prod.split)

section \<open>Notifications\<close>

text \<open>The events and responses of a run, and what the wire owes to them.\<close>

fun broadcasts :: "wire_event list \<Rightarrow> rpc_notification list" where
  "broadcasts [] = []"
| "broadcasts (Broadcasted n # es) = n # broadcasts es"
| "broadcasts (_ # es) = broadcasts es"

fun responses :: "wire_event list \<Rightarrow> string list" where
  "responses [] = []"
| "responses (Responded r # es) = r # responses es"
| "responses (_ # es) = responses es"

definition open_channel :: "forwarder \<Rightarrow> wire \<Rightarrow> rpc_notification list option" where
  "open_channel fw s =
     (case map_of (wi_registry s) (fw_sub fw) of
        Some ch \<Rightarrow> if ch_closed ch then None else Some (ch_queue ch)
      | None \<Rightarrow> None)"

text \<open>
  \<open>ns\<close> and \<open>rs\<close> were written; \<open>acc\<close> are the events the channel accepted, of all that happened.
\<close>

definition wire_inv ::
  "rpc_lib \<Rightarrow> forwarder \<Rightarrow> rpc_notification list \<Rightarrow> string list \<Rightarrow> wire \<Rightarrow> bool" where
  "wire_inv rp fw happened sent s \<longleftrightarrow>
     (\<exists>q ns rs acc. open_channel fw s = Some q
        \<and> wi_written s \<in> shuffles rs (map (en_notification rp) ns)
        \<and> rs @ wi_responses s = sent
        \<and> ns @ wi_notifs s @ filter (fw_wants fw) q = filter (fw_wants fw) acc
        \<and> subseq acc happened \<and> length q \<le> length happened
        \<and> (length happened \<le> SUB_CHANNEL_DEPTH \<longrightarrow> acc = happened))"

lemma broadcast_channel:
  assumes "distinct (map fst reg)" and "map_of reg i = Some ch" and "\<not> ch_closed ch"
  shows "map_of (broadcast n reg) i = try_send n ch"
  using assms
  by (induction reg) (auto simp: broadcast_def try_send_def split: option.splits if_splits)

lemma broadcast_Cons:
  "broadcast n ((i, ch) # reg) =
     (case try_send n ch of None \<Rightarrow> [] | Some ch' \<Rightarrow> [(i, ch')]) @ broadcast n reg"
  by (simp add: broadcast_def)

lemma broadcast_keys: "fst ` set (broadcast n reg) \<subseteq> fst ` set reg"
proof (induction reg)
  case (Cons x reg)
  then show ?case by (cases x) (auto simp: broadcast_Cons split: option.splits)
qed (simp add: broadcast_def)

lemma broadcast_distinct: "distinct (map fst reg) \<Longrightarrow> distinct (map fst (broadcast n reg))"
proof (induction reg)
  case (Cons x reg)
  with broadcast_keys [of n reg] show ?case
    by (cases x) (auto simp: broadcast_Cons split: option.splits)
qed (simp add: broadcast_def)

lemma snoc_in_shuffles: "ys @ [r] \<in> shuffles [r] ys"
  by (induction ys) (auto simp: Cons_in_shuffles_iff)

lemma shuffles_snoc_left: "xs \<in> shuffles rs ns \<Longrightarrow> xs @ [r] \<in> shuffles (rs @ [r]) ns"
proof (induction rs ns arbitrary: xs rule: shuffles.induct)
  case (3 x rs y ns)
  then show ?case by (auto simp: Cons_in_shuffles_iff)
qed (auto simp: snoc_in_shuffles)

lemma shuffles_snoc_right: "xs \<in> shuffles rs ns \<Longrightarrow> xs @ [n] \<in> shuffles rs (ns @ [n])"
  using shuffles_snoc_left [of xs ns rs n] by (simp add: shuffles_commutes)

lemma open_channelD:
  assumes "open_channel fw s = Some q"
  obtains ch where "map_of (wi_registry s) (fw_sub fw) = Some ch" and "\<not> ch_closed ch" and "ch_queue ch = q"
  using assms by (auto simp: open_channel_def split: option.splits if_splits)

lemma wire_broadcast:
  assumes inv: "wire_inv rp fw happened sent s" and reg: "distinct (map fst (wi_registry s))"
  shows "wire_inv rp fw (happened @ [n]) sent (s\<lparr>wi_registry := broadcast n (wi_registry s)\<rparr>)"
proof -
  obtain q ns rs acc where q: "open_channel fw s = Some q"
    and i: "wi_written s \<in> shuffles rs (map (en_notification rp) ns)" "rs @ wi_responses s = sent"
      "ns @ wi_notifs s @ filter (fw_wants fw) q = filter (fw_wants fw) acc"
      "subseq acc happened" "length q \<le> length happened"
      "length happened \<le> SUB_CHANNEL_DEPTH \<longrightarrow> acc = happened"
    using inv unfolding wire_inv_def by blast
  from q obtain ch where ch: "map_of (wi_registry s) (fw_sub fw) = Some ch" "\<not> ch_closed ch" "ch_queue ch = q"
    by (rule open_channelD)
  note b = broadcast_channel [OF reg ch(1,2), of n]
  show ?thesis
  proof (cases "length q < SUB_CHANNEL_DEPTH")
    case True
    then have "open_channel fw (s\<lparr>wi_registry := broadcast n (wi_registry s)\<rparr>) = Some (q @ [n])"
      using b ch by (simp add: open_channel_def try_send_def)
    with i show ?thesis
      unfolding wire_inv_def
      by (intro exI [of _ "q @ [n]"] exI [of _ ns] exI [of _ rs] exI [of _ "acc @ [n]"])
         (auto intro!: list_emb_append_mono)
  next
    case False
    then have "open_channel fw (s\<lparr>wi_registry := broadcast n (wi_registry s)\<rparr>) = Some q"
      using b ch by (simp add: open_channel_def try_send_def)
    with i False show ?thesis
      unfolding wire_inv_def
      by (intro exI [of _ q] exI [of _ ns] exI [of _ rs] exI [of _ acc]) (auto intro: list_emb_prefix)
  qed
qed

lemma wire_forward:
  assumes inv: "wire_inv rp fw happened sent s" and step: "forward_one fw s = Some s'"
  shows "wire_inv rp fw happened sent s'"
proof -
  obtain q ns rs acc where q: "open_channel fw s = Some q"
    and i: "wi_written s \<in> shuffles rs (map (en_notification rp) ns)" "rs @ wi_responses s = sent"
      "ns @ wi_notifs s @ filter (fw_wants fw) q = filter (fw_wants fw) acc"
      "subseq acc happened" "length q \<le> length happened"
      "length happened \<le> SUB_CHANNEL_DEPTH \<longrightarrow> acc = happened"
    using inv unfolding wire_inv_def by blast
  from q obtain ch where ch: "map_of (wi_registry s) (fw_sub fw) = Some ch" "\<not> ch_closed ch" "ch_queue ch = q"
    by (rule open_channelD)
  from step ch obtain n q' where n: "q = n # q'"
    by (auto simp: forward_one_def split: list.splits)
  have "open_channel fw s' = Some q'" and "wi_written s' = wi_written s" and "wi_responses s' = wi_responses s"
    and "wi_notifs s' = wi_notifs s @ filter (fw_wants fw) [n]"
    using step ch n by (auto simp: forward_one_def open_channel_def Let_def update_conv' split: if_splits)
  with i n show ?thesis
    unfolding wire_inv_def
    by (intro exI [of _ q'] exI [of _ ns] exI [of _ rs] exI [of _ acc]) (auto split: if_splits)
qed

lemma wire_write:
  assumes inv: "wire_inv rp fw happened sent s"
  shows "wi_responses s = r # rest \<Longrightarrow>
      wire_inv rp fw happened sent (s\<lparr>wi_responses := rest, wi_written := wi_written s @ [r]\<rparr>)"
    and "wi_notifs s = n # left \<Longrightarrow>
      wire_inv rp fw happened sent (s\<lparr>wi_notifs := left, wi_written := wi_written s @ [en_notification rp n]\<rparr>)"
    and "wire_inv rp fw happened (sent @ [x]) (s\<lparr>wi_responses := wi_responses s @ [x]\<rparr>)"
proof -
  obtain q ns rs acc where q: "open_channel fw s = Some q"
    and i: "wi_written s \<in> shuffles rs (map (en_notification rp) ns)" "rs @ wi_responses s = sent"
      "ns @ wi_notifs s @ filter (fw_wants fw) q = filter (fw_wants fw) acc"
      "subseq acc happened" "length q \<le> length happened"
      "length happened \<le> SUB_CHANNEL_DEPTH \<longrightarrow> acc = happened"
    using inv unfolding wire_inv_def by blast
  have q': "open_channel fw (s\<lparr>wi_responses := a, wi_written := b\<rparr>) = Some q"
    "open_channel fw (s\<lparr>wi_notifs := c, wi_written := b\<rparr>) = Some q"
    "open_channel fw (s\<lparr>wi_responses := a\<rparr>) = Some q" for a b c
    using q by (simp_all add: open_channel_def)
  show "wire_inv rp fw happened sent (s\<lparr>wi_responses := rest, wi_written := wi_written s @ [r]\<rparr>)"
    if "wi_responses s = r # rest"
    using i q' that shuffles_snoc_left [OF i(1), of r] unfolding wire_inv_def
    by (intro exI [of _ q] exI [of _ ns] exI [of _ "rs @ [r]"] exI [of _ acc]) auto
  show "wire_inv rp fw happened sent (s\<lparr>wi_notifs := left, wi_written := wi_written s @ [en_notification rp n]\<rparr>)"
    if "wi_notifs s = n # left"
    using i q' that shuffles_snoc_right [OF i(1), of "en_notification rp n"] unfolding wire_inv_def
    by (intro exI [of _ q] exI [of _ "ns @ [n]"] exI [of _ rs] exI [of _ acc]) auto
  show "wire_inv rp fw happened (sent @ [x]) (s\<lparr>wi_responses := wi_responses s @ [x]\<rparr>)"
    using i q' unfolding wire_inv_def
    by (intro exI [of _ q] exI [of _ ns] exI [of _ rs] exI [of _ acc]) auto
qed

lemma wire_step:
  assumes inv: "wire_inv rp fw happened sent s" and reg: "distinct (map fst (wi_registry s))"
    and step: "wire_apply rp fw e s = Some s'"
  shows "wire_inv rp fw (happened @ broadcasts [e]) (sent @ responses [e]) s'
    \<and> distinct (map fst (wi_registry s'))"
  using step
proof (cases e)
  case (Broadcasted n)
  with step wire_broadcast [OF inv reg, of n] broadcast_distinct [OF reg] show ?thesis by auto
next
  case Forwarded
  with step wire_forward [OF inv] reg show ?thesis
    by (auto simp: forward_one_def Let_def distinct_update split: option.splits list.splits if_splits)
next
  case (Responded r)
  with step wire_write(3) [OF inv] reg show ?thesis by (auto split: if_splits)
next
  case WroteResponse
  with step wire_write(1) [OF inv] reg show ?thesis by (auto split: list.splits)
next
  case WroteNotif
  with step wire_write(2) [OF inv] reg show ?thesis by (auto split: list.splits)
qed

lemma events_append:
  "broadcasts (e # es) = broadcasts [e] @ broadcasts es" "responses (e # es) = responses [e] @ responses es"
  by (cases e; simp)+

lemma wire_run_inv:
  assumes "wire_run rp fw s es s'" and "wire_inv rp fw happened sent s" and "distinct (map fst (wi_registry s))"
  shows "wire_inv rp fw (happened @ broadcasts es) (sent @ responses es) s'"
  using assms
proof (induction arbitrary: happened sent rule: wire_run.induct)
  case (wire_next e s s' es s'')
  from wire_step [OF wire_next.prems wire_next.hyps(1)]
  show ?case using wire_next.IH [of "happened @ broadcasts [e]" "sent @ responses [e]"] by (simp add: events_append(1) [of e es] events_append(2) [of e es] del: broadcasts.simps responses.simps)
qed simp

text \<open>The moment at which a subscription was registered on an idle connection.\<close>

definition just_subscribed :: "forwarder \<Rightarrow> wire \<Rightarrow> bool" where
  "just_subscribed fw s \<longleftrightarrow> distinct (map fst (wi_registry s)) \<and> open_channel fw s = Some []
     \<and> wi_notifs s = [] \<and> wi_responses s = [] \<and> wi_written s = []"

text \<open>
  C19: Delivery on a connection: at every moment, the frames written are a merge of two
  sequences, a prefix of the responses in the order in which they were handed over and some
  notifications; these notifications, followed by those on their way, are the events the
  subscription asks for, in the order in which they happened, with none repeated and none made
  up; and as long as no more events have happened than the channel holds, none is missing.
\<close>
theorem subscription_delivery:
  assumes start: "just_subscribed fw s0" and run: "wire_run rp fw s0 es s"
  shows "\<exists>rs ns q acc. wi_written s \<in> shuffles rs (map (en_notification rp) ns)
    \<and> rs @ wi_responses s = responses es
    \<and> open_channel fw s = Some q
    \<and> ns @ wi_notifs s @ filter (fw_wants fw) q = filter (fw_wants fw) acc
    \<and> subseq acc (broadcasts es)
    \<and> (length (broadcasts es) \<le> SUB_CHANNEL_DEPTH \<longrightarrow> acc = broadcasts es)"
proof -
  have "wire_inv rp fw [] [] s0"
    using start unfolding just_subscribed_def wire_inv_def
    by (intro exI [of _ "[]"]) simp
  moreover have "distinct (map fst (wi_registry s0))" using start by (simp add: just_subscribed_def)
  ultimately have "wire_inv rp fw [] [] s0" "distinct (map fst (wi_registry s0))" .
  from wire_run_inv [OF run this] show ?thesis unfolding wire_inv_def by auto
qed

theorem subscription_delivery_witness:
  "\<exists>s. wire_run plain_rpc \<lparr>fw_sub = ''a'', fw_wants = (\<lambda>_. True)\<rparr>
       \<lparr>wi_registry = registry_insert ''a'' [], wi_notifs = [], wi_responses = [], wi_written = []\<rparr>
       [Broadcasted (new_notification ''audit.event'' JNull), Responded ''r'', Forwarded, WroteNotif, WroteResponse] s
     \<and> (\<exists>rs ns. wi_written s \<in> shuffles rs (map (en_notification plain_rpc) ns))"
proof -
  let ?fw = "\<lparr>fw_sub = ''a'', fw_wants = (\<lambda>_. True)\<rparr>"
  let ?s0 = "\<lparr>wi_registry = registry_insert ''a'' [], wi_notifs = [], wi_responses = [], wi_written = []\<rparr>"
  let ?es = "[Broadcasted (new_notification ''audit.event'' JNull), Responded ''r'', Forwarded, WroteNotif, WroteResponse]"
  have start: "just_subscribed ?fw ?s0"
    by (simp add: just_subscribed_def registry_insert_def open_channel_def)
  have "\<exists>s. wire_run plain_rpc ?fw ?s0 ?es s"
    by (intro exI, (rule wire_next, simp add: registry_insert_def broadcast_def try_send_def forward_one_def
        SUB_CHANNEL_DEPTH_def CONN_NOTIF_DEPTH_def Let_def)+, rule wire_done)
  then obtain s where run: "wire_run plain_rpc ?fw ?s0 ?es s" ..
  from subscription_delivery [OF start run] run show ?thesis by blast
qed

end
