(* ===== verification/Vault.thy ===== *)
theory Vault
  imports Scheduler
begin

text \<open>
  The vaults of refresh tokens (\<open>crates/onesync-keychain/src\<close>): the in-memory one of the
  tests, the one on the macOS keychain and the stub of the other platforms, and the interface
  that the token source and the sign-in handlers rely on.  The calls of the
  \<open>security_framework\<close> crate are the parameter \<open>passwords\<close>.
\<close>

section \<open>The in-memory vault\<close>

type_synonym mem_items = "(account_id, string) table"

text \<open>\<open>shown\<close> is the \<open>Display\<close> form of an account id.\<close>

definition mem_store_refresh ::
  "(account_id \<Rightarrow> string) \<Rightarrow> account_id \<Rightarrow> string \<Rightarrow> (mem_items, vault_error, keychain_ref) io" where
  "mem_store_refresh shown a token items = (Inr (KeychainRef (shown a)), AList.update a token items)"

definition mem_load_refresh :: "account_id \<Rightarrow> (mem_items, vault_error, string) io" where
  "mem_load_refresh a items =
     (case map_of items a of None \<Rightarrow> Inl VeNotFound | Some token \<Rightarrow> Inr token, items)"

definition mem_delete :: "account_id \<Rightarrow> (mem_items, vault_error, unit) io" where
  "mem_delete a items = (Inr (), AList.delete a items)"

definition mem_vault :: "(account_id \<Rightarrow> string) \<Rightarrow> mem_items token_vault" where
  "mem_vault shown =
     \<lparr>tv_store_refresh = mem_store_refresh shown, tv_load_refresh = mem_load_refresh, tv_delete = mem_delete\<rparr>"

section \<open>The keychain\<close>

definition SERVICE_NAME :: string where "SERVICE_NAME = ''dev.onesync.refresh-token''"
definition ERR_SEC_ITEM_NOT_FOUND :: int where "ERR_SEC_ITEM_NOT_FOUND = - 25300"

text \<open>An error of the framework has a code and a text; a blocking task may be cancelled.\<close>

record 'w passwords =
  pw_set :: "string \<Rightarrow> string \<Rightarrow> string \<Rightarrow> ('w, int \<times> string, unit) io"
  pw_get :: "string \<Rightarrow> string \<Rightarrow> ('w, int \<times> string, string) io"
  pw_delete :: "string \<Rightarrow> string \<Rightarrow> ('w, int \<times> string, unit) io"
  pw_cancelled :: "('w, string, unit) io"
  pw_from_utf8_error :: "string \<Rightarrow> string"

definition on_pool :: "'w passwords \<Rightarrow> ('w, vault_error, 'a) io \<Rightarrow> ('w, vault_error, 'a) io" where
  "on_pool pw m = bindE (map_errE (\<lambda>e. VeBackend (''join: '' @ e)) (pw_cancelled pw)) (\<lambda>_. m)"

definition keychain_store_refresh ::
  "'w passwords \<Rightarrow> (account_id \<Rightarrow> string) \<Rightarrow> account_id \<Rightarrow> string \<Rightarrow> ('w, vault_error, keychain_ref) io" where
  "keychain_store_refresh pw shown a token =
     bindE (on_pool pw (map_errE (\<lambda>(_, e). VeBackend (''set_generic_password: '' @ e))
              (pw_set pw SERVICE_NAME (shown a) token))) (\<lambda>_.
     returnE (KeychainRef (shown a)))"

definition load_error :: "int \<times> string \<Rightarrow> vault_error" where
  "load_error e =
     (if fst e = ERR_SEC_ITEM_NOT_FOUND then VeNotFound else VeBackend (''get_generic_password: '' @ snd e))"

definition keychain_load_refresh ::
  "'w passwords \<Rightarrow> (account_id \<Rightarrow> string) \<Rightarrow> account_id \<Rightarrow> ('w, vault_error, string) io" where
  "keychain_load_refresh pw shown a =
     bindE (on_pool pw (map_errE load_error (pw_get pw SERVICE_NAME (shown a)))) (\<lambda>bytes.
     if utf8_valid (map of_char bytes) then returnE bytes
     else throwE (VeBackend (''non-utf8 secret: '' @ pw_from_utf8_error pw bytes)))"

definition keychain_delete ::
  "'w passwords \<Rightarrow> (account_id \<Rightarrow> string) \<Rightarrow> account_id \<Rightarrow> ('w, vault_error, unit) io" where
  "keychain_delete pw shown a =
     on_pool pw
       (bindE (tryE (pw_delete pw SERVICE_NAME (shown a))) (\<lambda>r.
        case r of
          Inr _ \<Rightarrow> returnE ()
        | Inl (code, e) \<Rightarrow>
            if code = ERR_SEC_ITEM_NOT_FOUND then returnE ()
            else throwE (VeBackend (''delete_generic_password: '' @ e))))"

definition keychain_vault :: "'w passwords \<Rightarrow> (account_id \<Rightarrow> string) \<Rightarrow> 'w token_vault" where
  "keychain_vault pw shown =
     \<lparr>tv_store_refresh = keychain_store_refresh pw shown, tv_load_refresh = keychain_load_refresh pw shown,
      tv_delete = keychain_delete pw shown\<rparr>"

definition stub_error :: "('w, vault_error, 'a) io" where
  "stub_error = throwE (VeBackend ''KeychainTokenVault is macOS-only'')"

definition stub_vault :: "'w token_vault" where
  "stub_vault =
     \<lparr>tv_store_refresh = (\<lambda>_ _. stub_error), tv_load_refresh = (\<lambda>_. stub_error), tv_delete = (\<lambda>_. stub_error)\<rparr>"

definition fetch_refresh :: "'w token_vault \<Rightarrow> account_id \<Rightarrow> ('w, vault_error, string) io" where
  "fetch_refresh v a = tv_load_refresh v a"

section \<open>The interface\<close>

text \<open>\<open>look\<close> is what the vault holds.  A failed call leaves it alone.\<close>

locale refresh_vault =
  fixes v :: "'w token_vault" and look :: "'w \<Rightarrow> account_id \<Rightarrow> string option"
  assumes store_ok: "tv_store_refresh v a t w = (Inr k, w') \<Longrightarrow> look w' = (look w)(a \<mapsto> t)"
    and store_err: "tv_store_refresh v a t w = (Inl e, w') \<Longrightarrow> look w' = look w"
    and load_ok: "tv_load_refresh v a w = (Inr t, w') \<Longrightarrow> look w a = Some t"
    and load_frame: "tv_load_refresh v a w = (r, w') \<Longrightarrow> look w' = look w"
    and delete_ok: "tv_delete v a w = (Inr (), w') \<Longrightarrow> look w' = (look w)(a := None)"
    and delete_err: "tv_delete v a w = (Inl e, w') \<Longrightarrow> look w' = look w"
begin

lemma absent_never_loads:
  assumes "look w a = None"
  obtains e w' where "tv_load_refresh v a w = (Inl e, w')" and "look w' = look w"
proof -
  obtain r w' where l: "tv_load_refresh v a w = (r, w')" by fastforce
  with assms load_ok have "\<exists>e. r = Inl e" by (cases r) fastforce+
  with l load_frame that show thesis by blast
qed

lemma store_other:
  assumes "tv_store_refresh v a t w = (r, w')" and "b \<noteq> a"
  shows "look w' b = look w b"
  using assms store_ok store_err by (cases r) fastforce+

end

interpretation mem_vault: refresh_vault "mem_vault shown" map_of for shown
  by unfold_locales
     (auto simp: mem_vault_def mem_store_refresh_def mem_load_refresh_def mem_delete_def update_conv'
        delete_conv' split: option.splits)

text \<open>Where the platform has no keychain, no token is ever held.\<close>

interpretation stub_vault: refresh_vault "stub_vault :: 'w token_vault" "\<lambda>_. Map.empty"
  by unfold_locales (auto simp: stub_vault_def stub_error_def throwE_def)

section \<open>The keychain as a vault\<close>

text \<open>
  What is documented of the generic passwords of a service: they are a map, a missing item is
  reported by its code, and a failed call changes nothing.
\<close>

definition passwords_laws :: "'w passwords \<Rightarrow> ('w \<Rightarrow> string \<Rightarrow> string \<Rightarrow> string option) \<Rightarrow> bool" where
  "passwords_laws pw items \<longleftrightarrow>
     (\<forall>s k x w r w'. pw_set pw s k x w = (r, w') \<longrightarrow>
        items w' = (case r of Inr _ \<Rightarrow> (items w)(s := (items w s)(k \<mapsto> x)) | Inl _ \<Rightarrow> items w))
     \<and> (\<forall>s k w r w'. pw_get pw s k w = (r, w') \<longrightarrow>
        items w' = items w \<and> (\<forall>x. r = Inr x \<longrightarrow> items w s k = Some x)
        \<and> (items w s k = None \<longrightarrow> (\<exists>m. r = Inl (ERR_SEC_ITEM_NOT_FOUND, m))))
     \<and> (\<forall>s k w r w'. pw_delete pw s k w = (r, w') \<longrightarrow>
        items w' = (case r of Inr _ \<Rightarrow> (items w)(s := (items w s)(k := None)) | Inl _ \<Rightarrow> items w)
        \<and> (\<forall>m. r = Inl (ERR_SEC_ITEM_NOT_FOUND, m) \<longrightarrow> items w s k = None))
     \<and> (\<forall>w r w'. pw_cancelled pw w = (r, w') \<longrightarrow> items w' = items w)"

definition keychain_look :: "('w \<Rightarrow> string \<Rightarrow> string \<Rightarrow> string option) \<Rightarrow> (account_id \<Rightarrow> string) \<Rightarrow> 'w \<Rightarrow> account_id \<Rightarrow> string option" where
  "keychain_look items shown w a = items w SERVICE_NAME (shown a)"

lemma passwords_lawsD:
  assumes "passwords_laws pw items"
  shows "pw_set pw s k x w = (r, w') \<Longrightarrow>
      items w' = (case r of Inr _ \<Rightarrow> (items w)(s := (items w s)(k \<mapsto> x)) | Inl _ \<Rightarrow> items w)"
    and "pw_get pw s k w = (g, w') \<Longrightarrow> items w' = items w \<and> (\<forall>x. g = Inr x \<longrightarrow> items w s k = Some x)"
    and "pw_delete pw s k w = (Inr u, w') \<Longrightarrow> items w' = (items w)(s := (items w s)(k := None))"
    and "pw_delete pw s k w = (Inl (c, m), w') \<Longrightarrow>
      items w' = items w \<and> (c = ERR_SEC_ITEM_NOT_FOUND \<longrightarrow> items w s k = None)"
    and "pw_cancelled pw w = (r', w') \<Longrightarrow> items w' = items w"
proof -
  note law = assms [unfolded passwords_laws_def]
  show "items w' = (case r of Inr _ \<Rightarrow> (items w)(s := (items w s)(k \<mapsto> x)) | Inl _ \<Rightarrow> items w)"
    if "pw_set pw s k x w = (r, w')"
    using law [THEN conjunct1, rule_format, OF that] .
  show "items w' = items w \<and> (\<forall>x. g = Inr x \<longrightarrow> items w s k = Some x)" if "pw_get pw s k w = (g, w')"
    using law [THEN conjunct2, THEN conjunct1, rule_format, OF that] by blast
  show "items w' = (items w)(s := (items w s)(k := None))" if "pw_delete pw s k w = (Inr u, w')"
    using law [THEN conjunct2, THEN conjunct2, THEN conjunct1, rule_format, OF that] by simp
  show "items w' = items w \<and> (c = ERR_SEC_ITEM_NOT_FOUND \<longrightarrow> items w s k = None)"
    if "pw_delete pw s k w = (Inl (c, m), w')"
    using law [THEN conjunct2, THEN conjunct2, THEN conjunct1, rule_format, OF that] by simp
  show "items w' = items w" if "pw_cancelled pw w = (r', w')"
    using law [THEN conjunct2, THEN conjunct2, THEN conjunct2, rule_format, OF that] .
qed

text \<open>What each call of the adapter does to the entries.\<close>

lemma keychain_store_items:
  assumes "passwords_laws pw items" and s: "keychain_store_refresh pw shown a t w = (r, w')"
  shows "items w' = (case r of Inr _ \<Rightarrow> (items w)(SERVICE_NAME := (items w SERVICE_NAME)(shown a \<mapsto> t)) | Inl _ \<Rightarrow> items w)"
proof -
  note law = passwords_lawsD [OF assms(1)]
  obtain c w1 d w2 where c: "pw_cancelled pw w = (c, w1)"
    and d: "pw_set pw SERVICE_NAME (shown a) t w1 = (d, w2)" by (metis surj_pair)
  from s law(5) [OF c] law(1) [OF d] show ?thesis
    by (cases c; cases d) (auto simp: keychain_store_refresh_def on_pool_def io_simps c d)
qed

lemma keychain_load_items:
  assumes "passwords_laws pw items" and l: "keychain_load_refresh pw shown a w = (r, w')"
  shows "items w' = items w \<and> (\<forall>t. r = Inr t \<longrightarrow> items w SERVICE_NAME (shown a) = Some t)"
proof -
  note law = passwords_lawsD [OF assms(1)]
  obtain c w1 d w2 where c: "pw_cancelled pw w = (c, w1)"
    and d: "pw_get pw SERVICE_NAME (shown a) w1 = (d, w2)" by (metis surj_pair)
  from l law(5) [OF c] law(2) [OF d] show ?thesis
    by (cases c; cases d) (auto simp: keychain_load_refresh_def on_pool_def io_simps c d split: if_splits)
qed

lemma keychain_delete_items:
  assumes "passwords_laws pw items" and k: "keychain_delete pw shown a w = (r, w')"
  shows "items w' = (case r of Inr _ \<Rightarrow> (items w)(SERVICE_NAME := (items w SERVICE_NAME)(shown a := None)) | Inl _ \<Rightarrow> items w)"
proof -
  note law = passwords_lawsD [OF assms(1)]
  obtain c w1 d w2 where c: "pw_cancelled pw w = (c, w1)"
    and d: "pw_delete pw SERVICE_NAME (shown a) w1 = (d, w2)" by (metis surj_pair)
  show ?thesis
  proof (cases d)
    case (Inl e)
    with d have "pw_delete pw SERVICE_NAME (shown a) w1 = (Inl (fst e, snd e), w2)" by simp
    from k law(5) [OF c] law(4) [OF this] Inl d show ?thesis
      by (cases c; cases e) (auto simp: keychain_delete_def on_pool_def io_simps c fun_upd_idem split: if_splits)
  next
    case (Inr u)
    with k law(5) [OF c] law(3) [OF d [unfolded Inr]] d show ?thesis
      by (cases c) (auto simp: keychain_delete_def on_pool_def io_simps c)
  qed
qed

text \<open>
  C21: The keychain adapter keeps one entry per account, under its identifier: over a keychain
  that behaves as documented, it satisfies the whole interface of a vault of refresh tokens,
  with the entries of its own service as contents, as long as different accounts print
  differently.
\<close>
theorem keychain_is_a_vault:
  assumes laws: "passwords_laws pw items" and inj: "inj shown"
  shows "refresh_vault (keychain_vault pw shown) (keychain_look items shown)"
proof -
  note calls = keychain_store_items [OF laws] keychain_load_items [OF laws] keychain_delete_items [OF laws]
  have upd: "keychain_look items shown w' = (keychain_look items shown w)(a := x)"
    if "items w' = (items w)(SERVICE_NAME := (items w SERVICE_NAME)(shown a := x))" for w w' a x
    using that inj by (auto simp: keychain_look_def fun_eq_iff inj_eq)
  have same: "keychain_look items shown w' = keychain_look items shown w" if "items w' = items w" for w w'
    using that by (simp add: keychain_look_def fun_eq_iff)
  show ?thesis
    by (unfold_locales, unfold keychain_vault_def token_vault.simps)
       (auto dest!: calls intro: upd same simp: keychain_look_def)
qed

definition scripted_passwords :: "(string \<Rightarrow> string \<Rightarrow> string option) passwords" where
  "scripted_passwords =
     \<lparr>pw_set = (\<lambda>s k x w. (Inr (), w(s := (w s)(k \<mapsto> x)))),
      pw_get = (\<lambda>s k w. (case w s k of None \<Rightarrow> Inl (ERR_SEC_ITEM_NOT_FOUND, ''missing'') | Some x \<Rightarrow> Inr x, w)),
      pw_delete = (\<lambda>s k w. case w s k of None \<Rightarrow> (Inl (ERR_SEC_ITEM_NOT_FOUND, ''missing''), w)
                            | Some _ \<Rightarrow> (Inr (), w(s := (w s)(k := None)))),
      pw_cancelled = returnE (), pw_from_utf8_error = (\<lambda>_. ''invalid utf-8'')\<rparr>"

theorem keychain_is_a_vault_witness:
  "refresh_vault (keychain_vault scripted_passwords (\<lambda>a. map char_of (map (\<lambda>i. if bit (id_ulid a) i then 1 else 0 :: nat) [0..<128])))
     (keychain_look id (\<lambda>a. map char_of (map (\<lambda>i. if bit (id_ulid a) i then 1 else 0 :: nat) [0..<128])))"
proof (rule keychain_is_a_vault)
  show "passwords_laws scripted_passwords id"
    by (auto simp: passwords_laws_def scripted_passwords_def returnE_def fun_eq_iff split: option.splits sum.splits)
  show "inj (\<lambda>a :: account_id. map char_of (map (\<lambda>i. if bit (id_ulid a) i then 1 else 0 :: nat) [0..<128]))"
  proof (rule injI)
    fix a b :: account_id
    assume eq: "map char_of (map (\<lambda>i. if bit (id_ulid a) i then 1 else 0 :: nat) [0..<128])
      = map char_of (map (\<lambda>i. if bit (id_ulid b) i then 1 else 0 :: nat) [0..<128])"
    have "bit (id_ulid a) i = bit (id_ulid b) i" if "i < 128" for i
      using eq that by (auto simp: map_eq_conv split: if_splits)
    then have "id_ulid a = id_ulid b" by (intro bit_word_eqI) simp
    then show "a = b" by (cases a; cases b) simp
  qed
qed

end
