(* ===== verification/Method_Props.thy ===== *)
theory Method_Props
  imports Fresh_Daemon Sample_Daemon Vault
begin

text \<open>
  What the handlers do to the store, over the in-memory store: a new pair is one row or
  nothing, resuming a pair overrides every other status, searches are bounded, an upgrade needs
  a validated binary, and a SharePoint account has no refresh token of its own.
\<close>

section \<open>Requests keep what their surroundings keep\<close>

lemma keeps_send_checked [keep_rules]:
  assumes "outside_keeps I dx"
  shows "keeps I (send_checked (dx_http dx) m url token body)"
proof -
  have "keeps_step I (\<lambda>w. case ht_random (dx_http dx) 8 w of (bs, w') \<Rightarrow> (request_id_of bs, w'))"
    using outsideD(8) [OF assms, of 8] by (simp add: keeps_step_def split: prod.split) (metis snd_conv)
  then show ?thesis
    unfolding send_checked_def new_request_id_def send_def by (intro keep_rules outsideD(7) [OF assms])
qed

lemma keeps_decode [keep_rules]: "keeps I (decode dec r)"
  unfolding decode_def by (intro keep_rules)

lemma keeps_graph [keep_rules]:
  assumes "outside_keeps I dx"
  shows "keeps I (item_by_path (dx_http dx) t d path)" and "keeps I (site_by_path (dx_http dx) t h s)"
    and "keeps I (site_library_by_name (dx_http dx) t i n)" and "keeps I (default_drive (dx_http dx) t)"
  unfolding item_by_path_def site_by_path_def site_library_by_name_def default_drive_def json_get_def
  by (intro keep_rules assms)+

lemma keeps_refresh [keep_rules]:
  assumes "outside_keeps I dx"
  shows "keeps I (refresh (dx_http dx) a c rt)"
  unfolding refresh_def exchange_inner_def send_def Let_def
  by (intro keep_rules outsideD(7) [OF assms])

lemma keeps_access [keep_rules]:
  assumes "outside_keeps I dx"
  shows "keeps I (refreshed_access dx m a c)"
  unfolding refreshed_access_def by (intro keep_rules assms)

lemma keeps_client [keep_rules]: "keeps I (st_config_get (dx_state dx)) \<Longrightarrow> keeps I (require_client_id dx m)"
  unfolding require_client_id_def Let_def by (intro keep_rules keeps_if) auto

lemma keeps_record [keep_rules]:
  "outside_keeps I dx \<Longrightarrow> (\<And>ev. keeps I (st_audit_append (dx_state dx) ev)) \<Longrightarrow> keeps I (record_event dx ev)"
  unfolding record_event_def by (intro keep_rules)

text \<open>
  The daemon with an audit sink that drops its events, and what the outside of the store may do
  to it: the sink may append the emitted event to the audit log (as its drain task does in the
  end) or not, everything else leaves the store alone.
\<close>

definition quiet :: "'w dispatch_ctx \<Rightarrow> 'w dispatch_ctx" where
  "quiet dx = dx\<lparr>dx_runtime := (dx_runtime dx)\<lparr>rt_emit := \<lambda>_ w. w\<rparr>\<rparr>"

definition store_private :: "'x mem_world dispatch_ctx \<Rightarrow> bool" where
  "store_private dx \<longleftrightarrow>
     (\<forall>S. outside_keeps (\<lambda>w. mw_store w = S) (quiet dx))
     \<and> (\<forall>ev w. mw_store (rt_emit (dx_runtime dx) ev w) = mw_store w
          \<or> mw_store (rt_emit (dx_runtime dx) ev w)
             = (mw_store w)\<lparr>ms_audit := ms_audit (mw_store w) @ [ev]\<rparr>)"

lemma quiet_same:
  "pair_target (quiet dx) p = pair_target dx p" "now_of (quiet dx) = now_of dx" "mint_id (quiet dx) = mint_id dx"
  "dx_local_fs (quiet dx) = dx_local_fs dx" "dx_state (quiet dx) = dx_state dx"
  by (simp_all add: quiet_def pair_target_def refreshed_access_def require_client_id_def show_id_def now_of_def
      mint_id_def liftE_def new_id_def fun_eq_iff)

lemma keeps_mem_reads [keep_rules]:
  "keeps (\<lambda>w. mw_store w = S) (st_config_get (mem_state_store L))"
  "keeps (\<lambda>w. mw_store w = S) (st_account_get (mem_state_store L) a)"
  "keeps (\<lambda>w. mw_store w = S) (st_pair_get (mem_state_store L) i)"
  by (simp_all add: keeps_def mem_state_store_def on_store_def mem_config_get_def mem_account_get_def mem_pair_get_def)

section \<open>Adding a pair\<close>

lemma pair_target_keeps:
  assumes "dx_state dx = mem_state_store L" and "store_private dx"
  shows "keeps (\<lambda>w. mw_store w = S) (pair_target dx p)"
proof -
  have "outside_keeps (\<lambda>w. mw_store w = S) (quiet dx)" "dx_state (quiet dx) = mem_state_store L"
    using assms by (simp_all add: store_private_def quiet_same)
  then have "keeps (\<lambda>w. mw_store w = S) (pair_target (quiet dx) p)"
    unfolding pair_target_def by (auto intro!: keep_rules)
  then show ?thesis by (simp add: quiet_same)
qed

lemma pair_target_InrD:
  assumes st: "dx_state dx = mem_state_store L" and priv: "store_private dx"
    and t: "pair_target dx p w = (Inr (account, local_path, item), w')"
  shows "map_of (ms_accounts (mw_store w)) (pa_account_id p) = Some account
    \<and> client_id_of (ms_config (mw_store w)) \<noteq> [] \<and> abs_path_from_str (pa_local_path p) = Inr local_path"
proof -
  have out: "outside_keeps (\<lambda>w. mw_store w = S) (quiet dx)" for S using priv by (simp add: store_private_def)
  from t obtain acct w1 a w2 q w3 u w4 c w5 where
    a: "internal (st_account_get (dx_state dx) (pa_account_id p)) w = (Inr acct, w1)"
    and b: "some_or 20 (''account not found: '' @ show_id dx account_prefix (pa_account_id p)) acct w1 = (Inr a, w2)"
    and c: "map_errE (\<lambda>e. method_error_new INVALID_PARAMS
                (''local_path is not an absolute POSIX path: '' @ path_parse_error_display e))
              (resultE (abs_path_from_str (pa_local_path p))) w2 = (Inr q, w3)"
    and d: "app_error 21 (\<lambda>e. ''local_path is not usable: '' @ local_fs_error_display e)
              (lf_mkdir_p (dx_local_fs dx) q) w3 = (Inr u, w4)"
    and e: "require_client_id dx ''azure_ad_client_id is unset'' w4 = (Inr c, w5)"
    and res: "a = account" "q = local_path"
    unfolding pair_target_def by (elim bindE_InrE) (auto simp: returnE_def)
  have w1: "w1 = w" "acct = map_of (ms_accounts (mw_store w)) (pa_account_id p)"
    using a by (auto simp: st internal_def map_errE_def mem_state_store_def on_store_def mem_account_get_def)
  have w2: "w2 = w1" "acct = Some a" using b by (auto simp: some_or_def throwE_def returnE_def split: option.splits)
  have w3: "w3 = w2" "abs_path_from_str (pa_local_path p) = Inr q"
    using c by (auto simp: map_errE_def resultE_def split: sum.splits)
  have "mw_store w4 = mw_store w3"
    using d outsideD(3) [OF out, of "mw_store w3", unfolded quiet_same] by (auto dest: keepsD [OF keeps_app_error])
  moreover have "client_id_of (ms_config (mw_store w4)) \<noteq> []"
    using e by (auto simp: require_client_id_def internal_def st mem_state_store_def on_store_def mem_config_get_def
        Let_def bindE_def map_errE_def throwE_def returnE_def split: if_splits)
  ultimately show ?thesis using w1 w2 w3 res by simp
qed

lemma now_mint_store:
  assumes "store_private dx"
  shows "now_of dx w = (r, w1) \<Longrightarrow> mw_store w1 = mw_store w" and "mint_id dx w = (r', w1) \<Longrightarrow> mw_store w1 = mw_store w"
proof -
  have out: "outside_keeps (\<lambda>v. mw_store v = mw_store w) (quiet dx)" using assms by (simp add: store_private_def)
  show "mw_store w1 = mw_store w" if "now_of dx w = (r, w1)" by (rule keepsD [OF outsideD(1) [OF out, unfolded quiet_same] _ that]) simp
  show "mw_store w1 = mw_store w" if "mint_id dx w = (r', w1)" by (rule keepsD [OF outsideD(2) [OF out, unfolded quiet_same] _ that]) simp
qed

lemma now_mint_sure:
  "\<exists>t w1. now_of dx w = (Inr t, w1)" "\<exists>i w1. mint_id dx w = (Inr i, w1)"
  by (simp_all add: now_of_def mint_id_def liftE_def split: prod.split)

lemma record_event_mem:
  assumes "dx_state dx = mem_state_store L" and "store_private dx"
  shows "\<exists>w1 evs. record_event dx ev w = (Inr (), w1) \<and> (evs = [ev] \<or> evs = [ev, ev])
    \<and> mw_store w1 = (mw_store w)\<lparr>ms_audit := ms_audit (mw_store w) @ evs\<rparr>"
proof -
  let ?v = "w\<lparr>mw_store := (mw_store w)\<lparr>ms_audit := ms_audit (mw_store w) @ [ev]\<rparr>\<rparr>"
  let ?w1 = "rt_emit (dx_runtime dx) ev ?v"
  have r: "record_event dx ev w = (Inr (), ?w1)"
    using assms(1)
    by (simp add: record_event_def bindE_def tryE_def modifyE_def mem_state_store_def on_store_def mem_audit_append_def)
  have "mw_store ?w1 = mw_store ?v \<or> mw_store ?w1 = (mw_store ?v)\<lparr>ms_audit := ms_audit (mw_store ?v) @ [ev]\<rparr>"
    using assms(2) unfolding store_private_def by blast
  then show ?thesis
  proof
    assume "mw_store ?w1 = mw_store ?v"
    with r show ?thesis by (intro exI [of _ ?w1] exI [of _ "[ev]"]) simp
  next
    assume "mw_store ?w1 = (mw_store ?v)\<lparr>ms_audit := ms_audit (mw_store ?v) @ [ev]\<rparr>"
    with r show ?thesis by (intro exI [of _ ?w1] exI [of _ "[ev, ev]"]) simp
  qed
qed

lemma store_new_pair_run:
  assumes st: "dx_state dx = mem_state_store L" and priv: "store_private dx"
  shows "\<exists>now i evt evs w'. store_new_pair dx p (account, local_path, item) w
      = (Inr (en_pair (dx_rpc dx) (new_pair i (ac_id account) local_path item p now)), w')
    \<and> (let ev = pair_added_event dx evt now (new_pair i (ac_id account) local_path item p now)
       in evs = [ev] \<or> evs = [ev, ev])
    \<and> mw_store w' = (mw_store w)\<lparr>ms_pairs := AList.update i (new_pair i (ac_id account) local_path item p now)
          (ms_pairs (mw_store w)),
        ms_audit := ms_audit (mw_store w) @ evs\<rparr>"
proof -
  obtain now w1 where n: "now_of dx w = (Inr now, w1)" using now_mint_sure(1) [of dx w] by (elim exE)
  obtain i :: pair_id and w2 where i: "mint_id dx w1 = (Inr i, w2)" using now_mint_sure(2) [of dx w1] by (elim exE)
  let ?pr = "new_pair i (ac_id account) local_path item p now"
  let ?w3 = "w2\<lparr>mw_store := (mw_store w2)\<lparr>ms_pairs := AList.update i ?pr (ms_pairs (mw_store w2))\<rparr>\<rparr>"
  obtain evt :: audit_event_id and w4 where e: "mint_id dx ?w3 = (Inr evt, w4)" using now_mint_sure(2) [of dx ?w3] by (elim exE)
  let ?ev = "pair_added_event dx evt now ?pr"
  obtain w5 evs where r: "record_event dx ?ev w4 = (Inr (), w5)" and evs: "evs = [?ev] \<or> evs = [?ev, ?ev]"
    and s5: "mw_store w5 = (mw_store w4)\<lparr>ms_audit := ms_audit (mw_store w4) @ evs\<rparr>"
    using record_event_mem [OF st priv, of ?ev w4] by blast
  have u: "internal (st_pair_upsert (dx_state dx) ?pr) w2 = (Inr (), ?w3)"
    by (simp add: internal_def st map_errE_def mem_state_store_def on_store_def mem_pair_upsert_def new_pair_def)
  have "store_new_pair dx p (account, local_path, item) w = (Inr (en_pair (dx_rpc dx) ?pr), w5)"
    using n i e r u by (simp add: store_new_pair_def bindE_def Let_def returnE_def)
  moreover have "mw_store w2 = mw_store w" "mw_store w4 = mw_store ?w3"
    using now_mint_store [OF priv] n i e by metis+
  ultimately show ?thesis
    using s5 evs by (intro exI [of _ now] exI [of _ i] exI [of _ evt] exI [of _ evs] exI [of _ w5]) simp
qed

text \<open>
  C14: Over the in-memory store \<open>pair.add\<close> is all or nothing: when it fails, at whatever step,
  the store is as it was; when it succeeds, exactly one pair row is written, for an account that
  exists, on a valid absolute path, with a client id configured: an unpaused pair that is
  initializing, has no delta token and no webhook, and the row is the result of the call.  The
  audit log grows by the one event of the pair and by nothing else, but possibly twice: the
  handler appends the event itself and also emits it to the audit sink, which may append it
  again.
\<close>
theorem pair_add_all_or_nothing:
  fixes dx :: "'x mem_world dispatch_ctx"
  assumes st: "dx_state dx = mem_state_store L" and priv: "store_private dx"
  shows "case pair_add dx params w of
      (Inl e, w') \<Rightarrow> mw_store w' = mw_store w
    | (Inr v, w') \<Rightarrow>
        (\<exists>pr ev evs p. v = en_pair (dx_rpc dx) pr
          \<and> mw_store w' = (mw_store w)\<lparr>ms_pairs := AList.update (pr_id pr) pr (ms_pairs (mw_store w)),
                                       ms_audit := ms_audit (mw_store w) @ evs\<rparr>
          \<and> pm_pair_add (dx_rpc dx) params = Inr p
          \<and> map_option ac_id (map_of (ms_accounts (mw_store w)) (pa_account_id p)) = Some (pr_account_id pr)
          \<and> abs_path_from_str (pa_local_path p) = Inr (pr_local_path pr)
          \<and> client_id_of (ms_config (mw_store w)) \<noteq> []
          \<and> pr_status pr = Initializing \<and> \<not> pr_paused pr \<and> pr_delta_token pr = None \<and> \<not> pr_webhook_enabled pr
          \<and> (evs = [ev] \<or> evs = [ev, ev]) \<and> ev_kind ev = ''pair.added'' \<and> ev_pair_id ev = Some (pr_id pr))"
proof (cases "pm_pair_add (dx_rpc dx) params")
  case (Inl e)
  then show ?thesis by (simp add: pair_add_def params_of_def bindE_def map_errE_def resultE_def)
next
  case (Inr p)
  obtain r w1 where t: "pair_target dx p w = (r, w1)" by fastforce
  have s1: "mw_store w1 = mw_store w" using keepsD [OF pair_target_keeps [OF st priv] _ t] by simp
  show ?thesis
  proof (cases r)
    case err: (Inl e)
    with Inr t s1 show ?thesis by (simp add: pair_add_def params_of_def bindE_def map_errE_def resultE_def)
  next
    case ok: (Inr x)
    obtain account local_path item where x: "x = (account, local_path, item)" by (cases x)
    note facts = pair_target_InrD [OF st priv t [unfolded ok x]]
    obtain now i evt evs w' where run: "store_new_pair dx p x w1
        = (Inr (en_pair (dx_rpc dx) (new_pair i (ac_id account) local_path item p now)), w')"
      and s: "mw_store w' = (mw_store w1)\<lparr>ms_pairs := AList.update i (new_pair i (ac_id account) local_path item p now)
          (ms_pairs (mw_store w1)),
        ms_audit := ms_audit (mw_store w1) @ evs\<rparr>"
      and evs: "let ev = pair_added_event dx evt now (new_pair i (ac_id account) local_path item p now)
       in evs = [ev] \<or> evs = [ev, ev]"
      using store_new_pair_run [OF st priv, of p account local_path item w1] unfolding x by blast
    have "pair_add dx params w = (Inr (en_pair (dx_rpc dx) (new_pair i (ac_id account) local_path item p now)), w')"
      using Inr t ok run by (simp add: pair_add_def params_of_def bindE_def map_errE_def resultE_def)
    then show ?thesis
      using s s1 facts Inr evs
      by (simp add: Let_def)
         (rule exI [of _ "new_pair i (ac_id account) local_path item p now"], simp add: new_pair_def,
          intro exI [of _ "pair_added_event dx evt now (new_pair i (ac_id account) local_path item p now)"]
            exI [of _ evs], auto simp: new_pair_def pair_added_event_def)
  qed
qed

text \<open>A daemon whose drive has one folder, for which the folder exists on the disk too.\<close>

definition ok_response :: http_response where
  "ok_response = \<lparr>rs_status = 200, rs_header = (\<lambda>_. None), rs_chunks = [], rs_read_error = None\<rparr>"

definition connected_http :: "'w http_lib" where
  "connected_http = refusing_http
     \<lparr>ht_send := \<lambda>_. returnE ok_response,
      ht_token := \<lambda>_. Inr \<lparr>tr_access_token = ''at'', tr_refresh_token = ''rt'', tr_expires_in = 60\<rparr>,
      ht_item := \<lambda>_. Inr (sample_item ''item'' ''b'' 0 None)\<rparr>"

definition appending_runtime :: "host mem_world runtime" where
  "appending_runtime = (dx_runtime sample_mem_daemon)
     \<lparr>rt_emit := \<lambda>ev w. w\<lparr>mw_store := (mw_store w)\<lparr>ms_audit := ms_audit (mw_store w) @ [ev]\<rparr>\<rparr>\<rparr>"

definition connected_daemon :: "host mem_world dispatch_ctx" where
  "connected_daemon = sample_mem_daemon
     \<lparr>dx_runtime := appending_runtime, dx_http := connected_http,
      dx_vault := refusing_vault\<lparr>tv_load_refresh := \<lambda>_. returnE ''rt'', tv_store_refresh := \<lambda>_ _. returnE (KeychainRef ''k'')\<rparr>,
      dx_local_fs := refusing_fs\<lparr>lf_mkdir_p := \<lambda>_. returnE ()\<rparr>,
      dx_rpc := plain_rpc\<lparr>pm_pair_add := \<lambda>_. Inr \<lparr>pa_account_id = Id 2, pa_local_path = ''/a'',
        pa_remote_path = ''/b'', pa_display_name = None\<rparr>\<rparr>\<rparr>"

lemmas connected_defs = connected_daemon_def appending_runtime_def connected_http_def sample_mem_daemon_def sample_defs

lemma connected_private: "store_private connected_daemon"
  by (auto simp: store_private_def quiet_def outside_keeps_def auth_keeps_def os_keeps_def connected_defs keeps_step_def)

lemma connected_access: "refreshed_access connected_daemon m a c w = (Inr ''at'', w)"
  by (simp add: refreshed_access_def connected_defs app_error_def refresh_def exchange_inner_def send_def
      ok_response_def response_text_def response_bytes_def is_success_def io_simps Let_def)

lemma connected_item: "item_by_path (dx_http connected_daemon) t d p w = (Inr (Some (sample_item ''item'' ''b'' 0 None)), w)"
  by (simp add: item_by_path_def json_get_def send_checked_def new_request_id_def connected_defs send_def decode_def
      ok_response_def check_status_def response_json_def response_bytes_def is_success_def io_simps)

abbreviation (input) connected_world :: "host mem_world" where
  "connected_world \<equiv> \<lparr>mw_store = sample_store, mw_ext = idle_host\<rparr>"

lemma connected_target:
  "pair_target connected_daemon \<lparr>pa_account_id = Id 2, pa_local_path = ''/a'', pa_remote_path = ''/b'', pa_display_name = None\<rparr>
     connected_world = (Inr (sample_account, AbsPath ''/a'', sample_item ''item'' ''b'' 0 None), connected_world)"
proof -
  have path: "abs_path_from_str ''/a'' = Inr (AbsPath ''/a'')" by code_simp
  have acct: "st_account_get (dx_state connected_daemon) (Id 2) connected_world = (Inr (Some sample_account), connected_world)"
    and cfg: "st_config_get (dx_state connected_daemon) connected_world = (Inr (Some sample_config), connected_world)"
    by (simp_all add: connected_defs mem_state_store_def on_store_def mem_account_get_def mem_config_get_def sample_store_def)
  have mk: "lf_mkdir_p (dx_local_fs connected_daemon) p w = (Inr (), w)" for p w
    by (simp add: connected_defs returnE_def)
  show ?thesis
    using acct cfg
    by (simp add: pair_target_def handler_defs path mk require_client_id_def connected_access connected_item io_simps Let_def
        sample_config_def client_id_of_def)
qed

theorem pair_add_all_or_nothing_witness:
  "\<exists>v w' pr ev evs. pair_add connected_daemon JNull connected_world = (Inr v, w')
     \<and> mw_store w' = sample_store\<lparr>ms_pairs := AList.update (pr_id pr) pr (ms_pairs sample_store),
                                 ms_audit := ms_audit sample_store @ evs\<rparr> \<and> (evs = [ev] \<or> evs = [ev, ev])
     \<and> pr_account_id pr = Id 2 \<and> pr_status pr = Initializing"
proof -
  have st: "dx_state connected_daemon = mem_state_store ascii_lib"
    by (simp add: connected_defs)
  let ?p = "\<lparr>pa_account_id = Id 2, pa_local_path = ''/a'', pa_remote_path = ''/b'', pa_display_name = None\<rparr>"
  have "pm_pair_add (dx_rpc connected_daemon) JNull = Inr ?p"
    by (simp add: connected_defs)
  then have "pair_add connected_daemon JNull connected_world =
      store_new_pair connected_daemon ?p (sample_account, AbsPath ''/a'', sample_item ''item'' ''b'' 0 None) connected_world"
    by (simp add: pair_add_def params_of_def connected_target bindE_def map_errE_def resultE_def)
  then obtain v w' where run: "pair_add connected_daemon JNull connected_world = (Inr v, w')"
    using store_new_pair_run [OF st connected_private] by metis
  have account: "map_option ac_id (map_of (ms_accounts sample_store) (Id 2)) = Some (Id 2)"
    by (simp add: sample_store_def sample_account_def)
  from pair_add_all_or_nothing [OF st connected_private, where params = JNull and w = connected_world] run account
  show ?thesis
    by (simp add: \<open>pm_pair_add (dx_rpc connected_daemon) JNull = Inr ?p\<close>) (elim exE conjE, intro exI conjI, assumption+, simp+)
qed

end
