(* ===== verification/Local_Adapter.thy ===== *)
theory Local_Adapter
  imports Path_Bufs
begin

text \<open>
  The adapter of the local file system (\<open>crates/onesync-fs-local/src\<close>): the breadth-first scan,
  atomic writes, renames, deletion, hashing, and the watcher.  The calls of \<open>std::fs\<close>, the
  \<open>tempfile\<close> crate, BLAKE3 and the blocking pool are the record \<open>disk_lib\<close>.  Reading a file
  block by block is a list of results that ends with the file.
\<close>

section \<open>The disk\<close>

datatype file_type = FtFile | FtDir | FtSymlink | FtOther

record fs_meta =
  fm_type :: file_type
  fm_len :: u64
  fm_modified :: "string + timestamp"
  fm_dev :: u64

text \<open>\<open>dk_entry_metadata\<close> does not follow symbolic links, \<open>dk_metadata\<close> does.\<close>

record 'w disk_lib =
  dk_read_dir :: "path_buf \<Rightarrow> ('w, string, (string + string) list) io"
  dk_entry_metadata :: "path_buf \<Rightarrow> ('w, string, fs_meta) io"
  dk_metadata :: "path_buf \<Rightarrow> ('w, string, fs_meta) io"
  dk_exists :: "path_buf \<Rightarrow> 'w \<Rightarrow> bool \<times> 'w"
  dk_read :: "path_buf \<Rightarrow> ('w, string, bytes) io"
  dk_open :: "path_buf \<Rightarrow> ('w, string, nat) io"
  dk_blocks :: "nat \<Rightarrow> nat \<Rightarrow> 'w \<Rightarrow> (string + bytes) list \<times> 'w"
  dk_sync :: "nat \<Rightarrow> ('w, string, unit) io"
  dk_temp_new :: "path_buf \<Rightarrow> ('w, string, nat) io"
  dk_temp_write :: "nat \<Rightarrow> bytes \<Rightarrow> ('w, string, unit) io"
  dk_temp_sync :: "nat \<Rightarrow> ('w, string, unit) io"
  dk_temp_persist :: "nat \<Rightarrow> path_buf \<Rightarrow> ('w, string, unit) io"
  dk_temp_drop :: "nat \<Rightarrow> 'w \<Rightarrow> 'w"
  dk_rename :: "path_buf \<Rightarrow> path_buf \<Rightarrow> ('w, string, unit) io"
  dk_copy :: "path_buf \<Rightarrow> path_buf \<Rightarrow> ('w, string, unit) io"
  dk_remove_file :: "path_buf \<Rightarrow> ('w, string, unit) io"
  dk_remove_dir :: "path_buf \<Rightarrow> ('w, string, unit) io"
  dk_create_dir_all :: "path_buf \<Rightarrow> ('w, string, unit) io"
  dk_cancelled :: "('w, string, unit) io"
  dk_blake3 :: "bytes \<Rightarrow> content_hash"

section \<open>Errors\<close>

datatype adapter_error = AeInvalidPath string | AeRaced | AeCrossVolumeRename string | AeIo string

fun adapter_map_err :: "adapter_error \<Rightarrow> local_fs_error" where
  "adapter_map_err (AeInvalidPath reason) = LfInvalidPath reason"
| "adapter_map_err AeRaced = LfRaced"
| "adapter_map_err (AeCrossVolumeRename m) = LfCrossVolumeRename m"
| "adapter_map_err (AeIo s) = LfIo s"

type_synonym ('w, 'a) aio = "('w, adapter_error, 'a) io"

definition io_err :: "('w, string, 'a) io \<Rightarrow> ('w, 'a) aio" where
  "io_err m = map_errE AeIo m"

lemma io_err_Inr_iff [simp]: "io_err m w = (Inr x, w') \<longleftrightarrow> m w = (Inr x, w')"
  by (auto simp: io_err_def map_errE_def split: prod.splits sum.splits)

section \<open>The scan\<close>

definition FSEVENT_BUFFER_DEPTH :: nat where "FSEVENT_BUFFER_DEPTH = 4096"
definition SCAN_QUEUE_DEPTH_MAX :: nat where "SCAN_QUEUE_DEPTH_MAX = 65536"

record local_file_meta =
  lm_path :: path_buf
  lm_kind :: file_kind
  lm_size_bytes :: u64
  lm_mtime :: timestamp

definition SKIP_NAMES :: "string list" where
  "SKIP_NAMES = [''.DS_Store'', ''Icon'' @ [CHR 0x0D], ''.localized'']"

datatype skip_reason = SkipSymlink | SkipResourceFork | SkipDenyListed | SkipNonUtf8

definition classify_skip :: "string \<Rightarrow> fs_meta \<Rightarrow> skip_reason option" where
  "classify_skip name meta =
     (if fm_type meta = FtSymlink then Some SkipSymlink
      else case path_to_str (PathBuf name) of
             Some s \<Rightarrow>
               if strip_prefix ''._'' s \<noteq> None then Some SkipResourceFork
               else if s \<in> set SKIP_NAMES then Some SkipDenyListed
               else None
           | None \<Rightarrow> Some SkipNonUtf8)"

definition overflow_message :: "path_buf \<Rightarrow> string" where
  "overflow_message p =
     ''scan queue overflow at '' @ path_display p @ ''; raise SCAN_QUEUE_DEPTH_MAX or split the pair''"

text \<open>One entry of a directory: the queue, the entries found and the symbolic links skipped.\<close>

type_synonym scan_acc = "path_buf list \<times> local_file_meta list \<times> path_buf list"

definition scan_kept :: "path_buf \<Rightarrow> fs_meta \<Rightarrow> timestamp \<Rightarrow> scan_acc \<Rightarrow> ('w, scan_acc) aio" where
  "scan_kept path meta mtime acc =
     (case acc of (queue, out, symlinks) \<Rightarrow>
        if fm_type meta = FtDir then
          (if SCAN_QUEUE_DEPTH_MAX \<le> length queue then throwE (AeInvalidPath (overflow_message path))
           else returnE (queue @ [path],
             out @ [\<lparr>lm_path = path, lm_kind = Directory, lm_size_bytes = 0, lm_mtime = mtime\<rparr>], symlinks))
        else if fm_type meta = FtFile then
          returnE (queue,
            out @ [\<lparr>lm_path = path, lm_kind = File, lm_size_bytes = fm_len meta, lm_mtime = mtime\<rparr>], symlinks)
        else returnE acc)"

definition scan_entry :: "'w disk_lib \<Rightarrow> path_buf \<Rightarrow> string + string \<Rightarrow> scan_acc \<Rightarrow> ('w, scan_acc) aio" where
  "scan_entry D dir entry acc =
     bindE (io_err (resultE entry)) (\<lambda>name.
     bindE (io_err (dk_entry_metadata D (path_join dir name))) (\<lambda>meta.
     case classify_skip name meta of
       Some reason \<Rightarrow>
         returnE (if reason = SkipSymlink
                  then (fst acc, fst (snd acc), snd (snd acc) @ [path_join dir name]) else acc)
     | None \<Rightarrow>
         bindE (io_err (resultE (fm_modified meta))) (\<lambda>mtime.
         scan_kept (path_join dir name) meta mtime acc)))"

fun scan_entries :: "'w disk_lib \<Rightarrow> path_buf \<Rightarrow> (string + string) list \<Rightarrow> scan_acc \<Rightarrow> ('w, scan_acc) aio" where
  "scan_entries D dir [] acc = returnE acc"
| "scan_entries D dir (e # es) acc = bindE (scan_entry D dir e acc) (scan_entries D dir es)"

definition scan_directory :: "'w disk_lib \<Rightarrow> path_buf \<Rightarrow> scan_acc \<Rightarrow> ('w, scan_acc) aio" where
  "scan_directory D dir acc =
     bindE (io_err (dk_read_dir D dir)) (\<lambda>entries. scan_entries D dir entries acc)"

text \<open>The loop over the queue; \<open>None\<close> is a scan that never ends.\<close>

partial_function (option) scan_loop ::
  "'w disk_lib \<Rightarrow> scan_acc \<Rightarrow> 'w
   \<Rightarrow> ((adapter_error + local_file_meta list \<times> path_buf list) \<times> 'w) option" where
  "scan_loop D acc w =
     (case fst acc of
        [] \<Rightarrow> Some (Inr (snd acc), w)
      | dir # queue \<Rightarrow>
          (case scan_directory D dir (queue, snd acc) w of
             (Inl e, w') \<Rightarrow> Some (Inl e, w')
           | (Inr acc', w') \<Rightarrow> scan_loop D acc' w'))"

definition scan_with_skips ::
  "'w disk_lib \<Rightarrow> path_buf \<Rightarrow> 'w \<Rightarrow> ((adapter_error + local_file_meta list \<times> path_buf list) \<times> 'w) option" where
  "scan_with_skips D base w = scan_loop D ([base], [], []) w"

section \<open>Atomic writes\<close>

fun chunks_of :: "nat \<Rightarrow> 'a list \<Rightarrow> 'a list list" where
  "chunks_of n xs = (if n = 0 \<or> xs = [] then [] else take n xs # chunks_of n (drop n xs))"

declare chunks_of.simps [simp del]

text \<open>The bytes hashed so far stand for the state of the hasher.\<close>

fun write_chunks :: "'w disk_lib \<Rightarrow> nat \<Rightarrow> bytes list \<Rightarrow> bytes \<times> u64 \<Rightarrow> ('w, bytes \<times> u64) aio" where
  "write_chunks D tmp [] acc = returnE acc"
| "write_chunks D tmp (c # cs) (hashed, written) =
     bindE (io_err (dk_temp_write D tmp c)) (\<lambda>_.
     write_chunks D tmp cs (hashed @ c, written + word_of_nat (length c)))"

text \<open>A temporary file that goes out of scope is deleted.\<close>

definition or_drop :: "'w disk_lib \<Rightarrow> nat \<Rightarrow> ('w, 'a) aio \<Rightarrow> ('w, 'a) aio" where
  "or_drop D tmp m w =
     (case m w of (Inl e, w') \<Rightarrow> (Inl e, dk_temp_drop D tmp w') | (Inr x, w') \<Rightarrow> (Inr x, w'))"

text \<open>The part of a write in which the temporary file exists.\<close>

definition fill_and_persist :: "'w disk_lib \<Rightarrow> nat \<Rightarrow> path_buf \<Rightarrow> bytes \<Rightarrow> ('w, bytes \<times> u64) aio" where
  "fill_and_persist D tmp target bytes =
     or_drop D tmp
       (bindE (write_chunks D tmp (chunks_of HASH_BLOCK_BYTES bytes) ([], 0)) (\<lambda>acc.
        bindE (io_err (dk_temp_sync D tmp)) (\<lambda>_.
        bindE (io_err (dk_temp_persist D tmp target)) (\<lambda>_.
        returnE acc))))"

definition written_side :: "fs_meta \<Rightarrow> u64 \<Rightarrow> content_hash \<Rightarrow> string + file_side" where
  "written_side meta written digest =
     (case fm_modified meta of
        Inl e \<Rightarrow> Inl e
      | Inr mtime \<Rightarrow> Inr \<lparr>fs_kind = File, fs_size_bytes = written, fs_content_hash = Some digest,
          fs_mtime = mtime, fs_etag = None, fs_remote_item_id = None\<rparr>)"

definition write_atomic :: "'w disk_lib \<Rightarrow> path_buf \<Rightarrow> bytes \<Rightarrow> ('w, file_side) aio" where
  "write_atomic D target bytes =
     bindE (resultE (case path_parent target of
              None \<Rightarrow> Inl (AeInvalidPath ''target has no parent'') | Some p \<Rightarrow> Inr p)) (\<lambda>parent.
     bindE (io_err (dk_temp_new D parent)) (\<lambda>tmp.
     bindE (fill_and_persist D tmp target bytes) (\<lambda>(hashed, written).
     bindE (io_err (dk_open D parent)) (\<lambda>dir.
     bindE (io_err (dk_sync D dir)) (\<lambda>_.
     bindE (io_err (dk_metadata D target)) (\<lambda>meta.
     io_err (resultE (written_side meta written (dk_blake3 D hashed)))))))))"

section \<open>Rename, delete, folders, hashes\<close>

text \<open>A path whose metadata cannot be read counts as lying on another volume.\<close>

definition same_volume :: "'w disk_lib \<Rightarrow> path_buf \<Rightarrow> path_buf \<Rightarrow> 'w \<Rightarrow> bool \<times> 'w" where
  "same_volume D a b w =
     (case dk_metadata D a w of (ra, w1) \<Rightarrow>
      case dk_metadata D b w1 of (rb, w2) \<Rightarrow>
        (case (ra, rb) of (Inr ma, Inr mb) \<Rightarrow> fm_dev ma = fm_dev mb | _ \<Rightarrow> False, w2))"

definition cross_volume :: "'w disk_lib \<Rightarrow> path_buf \<Rightarrow> path_buf \<Rightarrow> 'w \<Rightarrow> bool \<times> 'w" where
  "cross_volume D src dst w =
     (case dk_exists D src w of (src_exists, w1) \<Rightarrow>
        if \<not> src_exists then (False, w1)
        else case path_parent dst of
               None \<Rightarrow> (False, w1)
             | Some parent \<Rightarrow>
                 (case dk_exists D parent w1 of (parent_exists, w2) \<Rightarrow>
                    if \<not> parent_exists then (False, w2)
                    else case same_volume D src parent w2 of (same, w3) \<Rightarrow> (\<not> same, w3)))"

definition rename_path :: "'w disk_lib \<Rightarrow> path_buf \<Rightarrow> path_buf \<Rightarrow> ('w, unit) aio" where
  "rename_path D src dst =
     bindE (liftE (cross_volume D src dst)) (\<lambda>cross.
     if cross then
       bindE (io_err (dk_copy D src dst)) (\<lambda>_.
       bindE (io_err (dk_remove_file D src)) (\<lambda>_.
       throwE (AeCrossVolumeRename ''copy+delete'')))
     else io_err (dk_rename D src dst))"

definition delete_path :: "'w disk_lib \<Rightarrow> path_buf \<Rightarrow> ('w, unit) aio" where
  "delete_path D path =
     bindE (io_err (dk_metadata D path)) (\<lambda>meta.
     if fm_type meta = FtDir then io_err (dk_remove_dir D path) else io_err (dk_remove_file D path))"

definition mkdir_p :: "'w disk_lib \<Rightarrow> path_buf \<Rightarrow> ('w, unit) aio" where
  "mkdir_p D path = io_err (dk_create_dir_all D path)"

definition file_mtime :: "'w disk_lib \<Rightarrow> path_buf \<Rightarrow> ('w, timestamp option) aio" where
  "file_mtime D path =
     bindE (io_err (dk_metadata D path)) (\<lambda>meta.
     returnE (case fm_modified meta of Inl _ \<Rightarrow> None | Inr t \<Rightarrow> Some t))"

fun hash_blocks :: "(string + bytes) list \<Rightarrow> bytes \<Rightarrow> string + bytes" where
  "hash_blocks [] hashed = Inr hashed"
| "hash_blocks (Inl e # bs) hashed = Inl e"
| "hash_blocks (Inr b # bs) hashed = (if b = [] then Inr hashed else hash_blocks bs (hashed @ b))"

definition hash_file :: "'w disk_lib \<Rightarrow> path_buf \<Rightarrow> ('w, content_hash) aio" where
  "hash_file D path =
     bindE (file_mtime D path) (\<lambda>before.
     bindE (io_err (dk_open D path)) (\<lambda>file.
     bindE (liftE (dk_blocks D file HASH_BLOCK_BYTES)) (\<lambda>blocks.
     bindE (io_err (resultE (hash_blocks blocks []))) (\<lambda>hashed.
     bindE (file_mtime D path) (\<lambda>after.
     if before \<noteq> after then throwE AeRaced else returnE (dk_blake3 D hashed))))))"

section \<open>The port\<close>

text \<open>Every call runs in a task of the blocking pool, which may be cancelled.\<close>

definition in_pool :: "'w disk_lib \<Rightarrow> ('w, 'a) aio \<Rightarrow> ('w, local_fs_error, 'a) io" where
  "in_pool D m =
     bindE (map_errE (\<lambda>e. LfIo (''join: '' @ e)) (dk_cancelled D)) (\<lambda>_. map_errE adapter_map_err m)"

definition path_of :: "abs_path \<Rightarrow> path_buf" where
  "path_of p = PathBuf (abs_str p)"

definition scanned_side :: "local_file_meta \<Rightarrow> path_buf \<times> file_side" where
  "scanned_side m =
     (lm_path m, \<lparr>fs_kind = lm_kind m, fs_size_bytes = lm_size_bytes m, fs_content_hash = None,
        fs_mtime = lm_mtime m, fs_etag = None, fs_remote_item_id = None\<rparr>)"

definition adapter_scan :: "'w disk_lib \<Rightarrow> abs_path \<Rightarrow> 'w \<Rightarrow> ((local_fs_error + local_scan) \<times> 'w) option" where
  "adapter_scan D base w =
     (case dk_cancelled D w of
        (Inl e, w1) \<Rightarrow> Some (Inl (LfIo (''join: '' @ e)), w1)
      | (Inr _, w1) \<Rightarrow>
          (case scan_with_skips D (path_of base) w1 of
             None \<Rightarrow> None
           | Some (Inl e, w2) \<Rightarrow> Some (Inl (adapter_map_err e), w2)
           | Some (Inr (metas, symlinks), w2) \<Rightarrow>
               Some (Inr \<lparr>ls_entries = map scanned_side metas, ls_symlinks_skipped = symlinks\<rparr>, w2)))"

definition adapter_read :: "'w disk_lib \<Rightarrow> abs_path \<Rightarrow> ('w, local_fs_error, bytes) io" where
  "adapter_read D p = in_pool D (io_err (dk_read D (path_of p)))"

definition adapter_write_atomic :: "'w disk_lib \<Rightarrow> abs_path \<Rightarrow> bytes \<Rightarrow> ('w, local_fs_error, file_side) io" where
  "adapter_write_atomic D p bytes = in_pool D (write_atomic D (path_of p) bytes)"

definition adapter_rename :: "'w disk_lib \<Rightarrow> abs_path \<Rightarrow> abs_path \<Rightarrow> ('w, local_fs_error, unit) io" where
  "adapter_rename D p q = in_pool D (rename_path D (path_of p) (path_of q))"

definition adapter_delete :: "'w disk_lib \<Rightarrow> abs_path \<Rightarrow> ('w, local_fs_error, unit) io" where
  "adapter_delete D p = in_pool D (delete_path D (path_of p))"

definition adapter_mkdir_p :: "'w disk_lib \<Rightarrow> abs_path \<Rightarrow> ('w, local_fs_error, unit) io" where
  "adapter_mkdir_p D p = in_pool D (mkdir_p D (path_of p))"

definition adapter_hash :: "'w disk_lib \<Rightarrow> abs_path \<Rightarrow> ('w, local_fs_error, content_hash) io" where
  "adapter_hash D p = in_pool D (hash_file D (path_of p))"

text \<open>
  The port needs a total scan: \<open>stuck\<close> is the result of a scan that never ends, which a
  finite tree rules out.
\<close>

definition local_fs_adapter :: "('w, local_fs_error, local_scan) io \<Rightarrow> 'w disk_lib \<Rightarrow> 'w local_fs" where
  "local_fs_adapter stuck D =
     \<lparr>lf_scan = (\<lambda>base w. case adapter_scan D base w of None \<Rightarrow> stuck w | Some r \<Rightarrow> r),
      lf_read = adapter_read D, lf_write_atomic = adapter_write_atomic D, lf_rename = adapter_rename D,
      lf_delete = adapter_delete D, lf_mkdir_p = adapter_mkdir_p D, lf_hash = adapter_hash D\<rparr>"

section \<open>Paths below a root\<close>

definition relativise :: "(string \<Rightarrow> string) \<Rightarrow> abs_path \<Rightarrow> abs_path \<Rightarrow> adapter_error + rel_path" where
  "relativise nfc base path =
     (case path_strip_prefix (abs_str base) (abs_str path) of
        None \<Rightarrow> Inl (AeInvalidPath (abs_str path @ '' is not under '' @ abs_str base))
      | Some rel \<Rightarrow>
          (case path_to_str (PathBuf rel) of
             None \<Rightarrow> Inl (AeInvalidPath ''non-UTF8 path component'')
           | Some text \<Rightarrow>
               if text = [] then Inl (AeInvalidPath ''path equals the pair root'')
               else (case rel_path_from_str nfc text of
                       Inl e \<Rightarrow> Inl (AeInvalidPath (''relpath validation: '' @ path_parse_error_display e))
                     | Inr p \<Rightarrow> Inr p)))"

text \<open>\<open>None\<close> is the panic of \<open>expect\<close>.\<close>

definition absolutise :: "abs_path \<Rightarrow> rel_path \<Rightarrow> abs_path option" where
  "absolutise base rel =
     (let s = abs_str base @ (if last (abs_str base) = CHR ''/'' then [] else ''/'') @ rel_str rel
      in case abs_path_from_str s of Inl _ \<Rightarrow> None | Inr p \<Rightarrow> Some p)"

section \<open>The watcher\<close>

datatype local_event =
    EvCreated path_buf
  | EvModified path_buf
  | EvDeleted path_buf
  | EvRenamed path_buf path_buf
  | EvOverflow
  | EvUnmounted

text \<open>The kinds of a \<open>notify\<close> event that the adapter tells apart.\<close>

datatype notify_kind = NkCreate | NkModifyName | NkModifyOther | NkRemove | NkOther | NkAccess

record notify_event =
  ne_kind :: notify_kind
  ne_paths :: "path_buf list"

definition translate :: "notify_event \<Rightarrow> local_event option" where
  "translate ev =
     (case ne_paths ev of
        [] \<Rightarrow> None
      | path # others \<Rightarrow>
          (case ne_kind ev of
             NkCreate \<Rightarrow> Some (EvCreated path)
           | NkModifyName \<Rightarrow>
               Some (case others of [] \<Rightarrow> EvModified path | second # _ \<Rightarrow> EvRenamed path second)
           | NkModifyOther \<Rightarrow> Some (EvModified path)
           | NkRemove \<Rightarrow> Some (EvDeleted path)
           | NkOther \<Rightarrow> None
           | NkAccess \<Rightarrow> None))"

text \<open>The channel of a watcher: its queue, and whether the receiver is gone.\<close>

record event_channel =
  ec_queue :: "local_event list"
  ec_closed :: bool

definition event_try_send :: "local_event \<Rightarrow> event_channel \<Rightarrow> bool \<times> event_channel" where
  "event_try_send ev ch =
     (if \<not> ec_closed ch \<and> length (ec_queue ch) < FSEVENT_BUFFER_DEPTH
      then (True, ch\<lparr>ec_queue := ec_queue ch @ [ev]\<rparr>) else (False, ch))"

text \<open>The callback; \<open>Inl\<close> is an error of \<open>notify\<close>.\<close>

definition on_notify :: "string + notify_event \<Rightarrow> event_channel \<Rightarrow> event_channel" where
  "on_notify res ch =
     (case (case res of Inl _ \<Rightarrow> Some EvOverflow | Inr ev \<Rightarrow> translate ev) of
        None \<Rightarrow> ch
      | Some evt \<Rightarrow>
          (case event_try_send evt ch of
             (True, ch') \<Rightarrow> ch'
           | (False, ch') \<Rightarrow> snd (event_try_send EvOverflow ch')))"

definition event_recv :: "event_channel \<Rightarrow> local_event option \<times> event_channel" where
  "event_recv ch =
     (case ec_queue ch of [] \<Rightarrow> (None, ch) | ev # evs \<Rightarrow> (Some ev, ch\<lparr>ec_queue := evs\<rparr>))"

text \<open>A watcher over time: callbacks of \<open>notify\<close> and receives of the consumer.\<close>

datatype watch_event = Notified "string + notify_event" | Received

fun watch_run :: "watch_event list \<Rightarrow> event_channel \<times> local_event list \<Rightarrow> event_channel \<times> local_event list" where
  "watch_run [] s = s"
| "watch_run (Notified res # es) (ch, got) = watch_run es (on_notify res ch, got)"
| "watch_run (Received # es) (ch, got) =
     (case event_recv ch of (None, ch') \<Rightarrow> watch_run es (ch', got) | (Some ev, ch') \<Rightarrow> watch_run es (ch', got @ [ev]))"

lemmas adapter_calls = adapter_read_def adapter_write_atomic_def adapter_rename_def adapter_delete_def
  adapter_mkdir_p_def adapter_hash_def


end
