(* ===== verification/Local_Files.thy ===== *)
theory Local_Files
  imports Local_Adapter
begin

text \<open>
  What the engine may expect of a local file system, as the interface \<open>local_files\<close>; the
  in-memory file system of the tests (\<open>crates/onesync-fs-local/src/fakes.rs\<close>) provides it, and
  so does the adapter over a disk that behaves as documented.  From the interface follows what
  the operations of the executor do to the files.
\<close>

section \<open>The interface\<close>

text \<open>
  \<open>files\<close> is the content of every regular file by its location, \<open>key\<close> the location a path names
  (the last component of a path is not followed), and \<open>plain\<close> excludes paths whose last
  component is a symbolic link.
\<close>

locale local_files =
  fixes fs :: "'w local_fs" and key :: "abs_path \<Rightarrow> 'k" and files :: "'w \<Rightarrow> 'k \<Rightarrow> bytes option"
    and plain :: "abs_path \<Rightarrow> bool"
  assumes read_ok: "plain p \<Longrightarrow> lf_read fs p w = (Inr bs, w') \<Longrightarrow> files w (key p) = Some bs"
    and read_frame: "lf_read fs p w = (r, w') \<Longrightarrow> files w' = files w"
    and write_any: "lf_write_atomic fs p bs w = (r', w') \<Longrightarrow> files w' = files w \<or> files w' = (files w)(key p \<mapsto> bs)"
    and write_ok: "lf_write_atomic fs p bs w = (Inr side, w') \<Longrightarrow>
      files w' = (files w)(key p \<mapsto> bs) \<and> fs_kind side = File \<and> fs_size_bytes side = word_of_nat (length bs)"
    and delete_err: "lf_delete fs p w = (Inl e, w') \<Longrightarrow> files w' = files w"
    and delete_ok: "plain p \<Longrightarrow> lf_delete fs p w = (Inr (), w') \<Longrightarrow> files w' = (files w)(key p := None)"
    and mkdir_frame: "lf_mkdir_p fs p w = (u, w') \<Longrightarrow> files w' = files w"
    and rename_ok: "files w (key p) = Some bs \<Longrightarrow> lf_rename fs p q w = (Inr (), w') \<Longrightarrow>
      files w' = (files w)(key p := None, key q \<mapsto> bs)"
    and hash_frame: "lf_hash fs p w = (h, w') \<Longrightarrow> files w' = files w"
begin

text \<open>The effect of one operation of the executor, whose drive does not touch the files.\<close>

lemma download_effect:
  assumes frame: "\<And>i w r w'. rd_download rd i w = (r, w') \<Longrightarrow> files w' = files w"
    and run: "execute_download op lroot fs rd w = (r, w')"
    and p: "join_path lroot (rel_str (op_relative_path op)) = Inr p"
  shows "files w' = files w \<or> (\<exists>bs w1. rd_download rd (RemoteItemId (unwrap_or_default
      (json_get_str (op_metadata op) ''remote_item_id''))) w = (Inr bs, w1) \<and> files w' = (files w)(key p \<mapsto> bs))"
    and "r = Inr st \<Longrightarrow> \<exists>bs w1. rd_download rd (RemoteItemId (unwrap_or_default
      (json_get_str (op_metadata op) ''remote_item_id''))) w = (Inr bs, w1) \<and> files w' = (files w)(key p \<mapsto> bs)"
proof -
  let ?i = "RemoteItemId (unwrap_or_default (json_get_str (op_metadata op) ''remote_item_id''))"
  obtain d w1 where d: "rd_download rd ?i w = (d, w1)" by fastforce
  note f = frame [OF d]
  have "(files w' = files w \<or> (\<exists>bs. d = Inr bs \<and> files w' = (files w)(key p \<mapsto> bs)))
      \<and> (r = Inr st \<longrightarrow> (\<exists>bs. d = Inr bs \<and> files w' = (files w)(key p \<mapsto> bs)))"
  proof (cases d)
    case (Inl e)
    with run d f show ?thesis by (auto simp: execute_download_def Let_def bindE_def map_errE_def)
  next
    case (Inr bs)
    obtain x w2 where x: "lf_write_atomic fs p bs w1 = (x, w2)" by fastforce
    with run d Inr p have "w' = w2" "r = (case x of Inl e \<Rightarrow> Inl (ExLocal e) | Inr _ \<Rightarrow> Inr Success)"
      by (auto simp: execute_download_def Let_def bindE_def map_errE_def resultE_def returnE_def split: sum.splits)
    with x f Inr write_any [OF x] show ?thesis
      by (cases x) (auto dest: write_ok)
  qed
  then show "files w' = files w \<or> (\<exists>bs w1. rd_download rd ?i w = (Inr bs, w1) \<and> files w' = (files w)(key p \<mapsto> bs))"
    and "r = Inr st \<Longrightarrow> \<exists>bs w1. rd_download rd ?i w = (Inr bs, w1) \<and> files w' = (files w)(key p \<mapsto> bs)"
    using d by auto
qed

lemma upload_effect:
  assumes frame: "\<And>i n bs w r w'. rd_upload_small rd i n bs w = (r, w') \<Longrightarrow> files w' = files w"
      "\<And>i n sz w r w'. rd_upload_session rd i n sz w = (r, w') \<Longrightarrow> files w' = files w"
    and run: "execute_upload op lroot fs rd w = (r, w')"
  shows "files w' = files w"
proof (cases "join_path lroot (rel_str (op_relative_path op))")
  case (Inl e)
  with run show ?thesis by (auto simp: execute_upload_def bindE_def resultE_def)
next
  case (Inr p)
  obtain x w1 where x: "lf_read fs p w = (x, w1)" by fastforce
  with run Inr read_frame [OF x] show ?thesis
    by (cases x)
       (auto simp: execute_upload_def bindE_def resultE_def map_errE_def returnE_def Let_def
          split: prod.splits sum.splits if_splits dest!: frame)
qed

lemma delete_effect:
  assumes run: "execute_local_delete op lroot fs w = (r, w')"
    and p: "join_path lroot (rel_str (op_relative_path op)) = Inr p" and "plain p"
  shows "files w' = files w \<or> files w' = (files w)(key p := None)"
proof -
  obtain x w1 where x: "lf_delete fs p w = (x, w1)" by fastforce
  with run p have "w' = w1"
    by (cases x) (auto simp: execute_local_delete_def bindE_def resultE_def tryE_def returnE_def throwE_def
        split: local_fs_error.splits)
  with x assms(3) show ?thesis by (cases x) (auto dest: delete_err delete_ok)
qed

end

text \<open>
  The rest of the contract: a scan changes no file, and whatever a rename of a file returns, it
  changes no third file and never loses the content: at most the target has changed, or the
  target has all of it.
\<close>

locale moving_files = local_files +
  assumes scan_frame: "lf_scan fs p w = (s, w') \<Longrightarrow> files w' = files w"
    and rename_any: "plain p \<Longrightarrow> plain q \<Longrightarrow> files w (key p) = Some bs \<Longrightarrow> lf_rename fs p q w = (u, w') \<Longrightarrow>
      (\<exists>x. files w' = (files w)(key q := x)) \<or> files w' = (files w)(key p := None, key q \<mapsto> bs)"
begin

lemma rename_others:
  assumes "plain p" "plain q" "files w (key p) = Some bs" "lf_rename fs p q w = (u, w')" "k \<noteq> key p" "k \<noteq> key q"
  shows "files w' k = files w k"
  using rename_any [OF assms(1-4)] assms(5,6) by auto

lemma rename_keeps_content:
  assumes "plain p" "plain q" "files w (key p) = Some bs" "lf_rename fs p q w = (u, w')" "key p \<noteq> key q"
  shows "files w' (key p) = Some bs \<or> files w' (key q) = Some bs"
  using rename_any [OF assms(1-4)] assms(3,5) by auto

end

section \<open>The in-memory file system\<close>

text \<open>
  A \<open>HashMap\<close> keyed by paths, which are equal when their components are; a scan lists them in
  their canonical text.
\<close>

record fake_file =
  ff_kind :: file_kind
  ff_bytes :: bytes
  ff_mtime :: timestamp

type_synonym fake_files = "(string list, fake_file) table"

record 'x fake_world =
  fw_files :: fake_files
  fw_ext :: 'x

text \<open>The wall clock and BLAKE3.\<close>

record 'x fake_env =
  fk_now :: "'x \<Rightarrow> timestamp \<times> 'x"
  fk_blake3 :: "bytes \<Rightarrow> content_hash"
  fk_order :: "nat \<Rightarrow> nat list"

definition fake_key :: "abs_path \<Rightarrow> string list" where
  "fake_key p = path_names (abs_str p)"

definition fake_now :: "'x fake_env \<Rightarrow> 'x fake_world \<Rightarrow> timestamp \<times> 'x fake_world" where
  "fake_now E w = (case fk_now E (fw_ext w) of (t, x) \<Rightarrow> (t, w\<lparr>fw_ext := x\<rparr>))"

definition seed_file :: "abs_path \<Rightarrow> bytes \<Rightarrow> timestamp \<Rightarrow> fake_files \<Rightarrow> fake_files" where
  "seed_file p bytes mtime fs = AList.update (fake_key p) \<lparr>ff_kind = File, ff_bytes = bytes, ff_mtime = mtime\<rparr> fs"

definition seed_dir :: "abs_path \<Rightarrow> timestamp \<Rightarrow> fake_files \<Rightarrow> fake_files" where
  "seed_dir p mtime fs = AList.update (fake_key p) \<lparr>ff_kind = Directory, ff_bytes = [], ff_mtime = mtime\<rparr> fs"

definition fake_side :: "fake_file \<Rightarrow> file_side" where
  "fake_side f =
     \<lparr>fs_kind = ff_kind f, fs_size_bytes = word_of_nat (length (ff_bytes f)), fs_content_hash = None,
      fs_mtime = ff_mtime f, fs_etag = None, fs_remote_item_id = None\<rparr>"

definition show_names :: "string list \<Rightarrow> path_buf" where
  "show_names ns = PathBuf (if ns = [] then ''/'' else concat (map (\<lambda>n. CHR ''/'' # n) ns))"

definition fake_scan :: "'x fake_env \<Rightarrow> abs_path \<Rightarrow> ('x fake_world, local_fs_error, local_scan) io" where
  "fake_scan E base w =
     (let all = map (\<lambda>i. fw_files w ! i) (fk_order E (length (fw_files w)));
          below = filter (\<lambda>(k, f). take (length (fake_key base)) k = fake_key base \<and> k \<noteq> fake_key base) all
      in (Inr \<lparr>ls_entries = map (\<lambda>(k, f). (show_names k, fake_side f)) below, ls_symlinks_skipped = []\<rparr>, w))"

definition fake_file_at :: "fake_files \<Rightarrow> abs_path \<Rightarrow> local_fs_error + fake_file" where
  "fake_file_at fs p =
     (case map_of fs (fake_key p) of
        None \<Rightarrow> Inl (LfNotFound (abs_str p))
      | Some f \<Rightarrow> if ff_kind f \<noteq> File then Inl (LfInvalidPath ''not a file'') else Inr f)"

definition fake_read :: "abs_path \<Rightarrow> ('x fake_world, local_fs_error, bytes) io" where
  "fake_read p w = (case fake_file_at (fw_files w) p of Inl e \<Rightarrow> Inl e | Inr f \<Rightarrow> Inr (ff_bytes f), w)"

definition fake_write_atomic :: "'x fake_env \<Rightarrow> abs_path \<Rightarrow> bytes \<Rightarrow> ('x fake_world, local_fs_error, file_side) io" where
  "fake_write_atomic E p bytes =
     bindE (liftE (fake_now E)) (\<lambda>mtime.
     bindE (modifyE (\<lambda>w. w\<lparr>fw_files := AList.update (fake_key p)
              \<lparr>ff_kind = File, ff_bytes = bytes, ff_mtime = mtime\<rparr> (fw_files w)\<rparr>)) (\<lambda>_.
     returnE \<lparr>fs_kind = File, fs_size_bytes = word_of_nat (length bytes), fs_content_hash = Some (fk_blake3 E bytes),
       fs_mtime = mtime, fs_etag = None, fs_remote_item_id = None\<rparr>))"

definition fake_rename :: "abs_path \<Rightarrow> abs_path \<Rightarrow> ('x fake_world, local_fs_error, unit) io" where
  "fake_rename p q w =
     (case map_of (fw_files w) (fake_key p) of
        None \<Rightarrow> (Inl (LfNotFound (abs_str p)), w)
      | Some f \<Rightarrow> (Inr (), w\<lparr>fw_files := AList.update (fake_key q) f (AList.delete (fake_key p) (fw_files w))\<rparr>))"

definition fake_delete :: "abs_path \<Rightarrow> ('x fake_world, local_fs_error, unit) io" where
  "fake_delete p w =
     (case map_of (fw_files w) (fake_key p) of
        None \<Rightarrow> (Inl (LfNotFound (abs_str p)), w)
      | Some f \<Rightarrow> (Inr (), w\<lparr>fw_files := AList.delete (fake_key p) (fw_files w)\<rparr>))"

definition fake_mkdir_p :: "'x fake_env \<Rightarrow> abs_path \<Rightarrow> ('x fake_world, local_fs_error, unit) io" where
  "fake_mkdir_p E p =
     bindE (liftE (fake_now E)) (\<lambda>mtime.
     modifyE (\<lambda>w. w\<lparr>fw_files :=
       if map_of (fw_files w) (fake_key p) = None
       then AList.update (fake_key p) \<lparr>ff_kind = Directory, ff_bytes = [], ff_mtime = mtime\<rparr> (fw_files w)
       else fw_files w\<rparr>))"

definition fake_hash :: "'x fake_env \<Rightarrow> abs_path \<Rightarrow> ('x fake_world, local_fs_error, content_hash) io" where
  "fake_hash E p w = (case fake_file_at (fw_files w) p of Inl e \<Rightarrow> Inl e | Inr f \<Rightarrow> Inr (fk_blake3 E (ff_bytes f)), w)"

definition fake_local_fs :: "'x fake_env \<Rightarrow> 'x fake_world local_fs" where
  "fake_local_fs E =
     \<lparr>lf_scan = fake_scan E, lf_read = fake_read, lf_write_atomic = fake_write_atomic E, lf_rename = fake_rename,
      lf_delete = fake_delete, lf_mkdir_p = fake_mkdir_p E, lf_hash = fake_hash E\<rparr>"

definition fake_content :: "'x fake_world \<Rightarrow> string list \<Rightarrow> bytes option" where
  "fake_content w k =
     (case map_of (fw_files w) k of None \<Rightarrow> None | Some f \<Rightarrow> if ff_kind f = File then Some (ff_bytes f) else None)"

lemma fake_now_files: "fake_now E w = (t, w') \<Longrightarrow> fw_files w' = fw_files w"
  by (auto simp: fake_now_def split: prod.splits)

lemma fake_content_cong: "fw_files w' = fw_files w \<Longrightarrow> fake_content w' = fake_content w"
  by (simp add: fake_content_def fun_eq_iff)

lemma fake_content_delete:
  "fake_content (w\<lparr>fw_files := AList.delete k fs\<rparr>) = (fake_content (w\<lparr>fw_files := fs\<rparr>))(k := None)"
  by (simp add: fake_content_def fun_eq_iff delete_conv')

lemma fake_content_update:
  "fake_content (w\<lparr>fw_files := AList.update k f fs\<rparr>) =
     (fake_content (w\<lparr>fw_files := fs\<rparr>))(k := if ff_kind f = File then Some (ff_bytes f) else None)"
  by (simp add: fake_content_def fun_eq_iff update_conv')

lemma fake_content_same: "fw_files w' = fs \<Longrightarrow> fake_content (w\<lparr>fw_files := fs\<rparr>) = fake_content w'"
  by (simp add: fake_content_def fun_eq_iff)

interpretation fake_files: local_files "fake_local_fs E" fake_key fake_content "\<lambda>_. True" for E
proof (unfold_locales, unfold fake_local_fs_def local_fs.simps)
  show "fake_content w (fake_key p) = Some bs" if "fake_read p w = (Inr bs, w')" for p bs and w w' :: "'a fake_world"
    using that by (auto simp: fake_read_def fake_file_at_def fake_content_def split: option.splits if_splits)
  show "fake_content w' = fake_content w" if "fake_read p w = (r, w')" for p r and w w' :: "'a fake_world"
    using that by (simp add: fake_read_def)
  have wrote: "\<exists>s. fake_write_atomic E p bs w = (Inr s, w') \<and> fs_kind s = File \<and> fs_size_bytes s = word_of_nat (length bs)
      \<and> r = Inr s \<and> fake_content w' = (fake_content w)(fake_key p \<mapsto> bs)"
    if "fake_write_atomic E p bs w = (r, w')" for p bs r w w'
  proof -
    obtain t w1 where t: "fake_now E w = (t, w1)" by fastforce
    with that show ?thesis
      using fake_now_files [OF t]
      by (auto simp: fake_write_atomic_def io_simps fake_content_update fake_content_same)
  qed
  show "fake_content w' = (fake_content w)(fake_key p \<mapsto> bs) \<and> fs_kind side = File
      \<and> fs_size_bytes side = word_of_nat (length bs)"
    if "fake_write_atomic E p bs w = (Inr side, w')" for p bs side w w'
    using wrote [OF that] by auto
  show "fake_content w' = fake_content w \<or> fake_content w' = (fake_content w)(fake_key p \<mapsto> bs)"
    if "fake_write_atomic E p bs w = (r, w')" for p bs r w w'
    using wrote [OF that] by auto
  show "fake_content w' = fake_content w" if "fake_delete p w = (Inl e, w')" for p e and w w' :: "'a fake_world"
    using that by (auto simp: fake_delete_def split: option.splits)
  show "fake_content w' = (fake_content w)(fake_key p := None)" if "fake_delete p w = (Inr (), w')"
    for p and w w' :: "'a fake_world"
    using that by (auto simp: fake_delete_def fake_content_delete split: option.splits)
  show "fake_content w' = fake_content w" if u: "fake_mkdir_p E p w = (u, w')" for p u w w'
  proof -
    obtain t w1 where t: "fake_now E w = (t, w1)" by fastforce
    note same = fake_content_cong [OF fake_now_files [OF t]]
    show ?thesis
    proof (cases "map_of (fw_files w1) (fake_key p)")
      case None
      then have "fake_content w1 (fake_key p) = None" by (simp add: fake_content_def)
      with u t None same show ?thesis
        by (auto simp: fake_mkdir_p_def io_simps fake_content_update fun_upd_idem)
    next
      case (Some f)
      with u t same show ?thesis by (auto simp: fake_mkdir_p_def io_simps)
    qed
  qed
  show "fake_content w' = (fake_content w)(fake_key p := None, fake_key q \<mapsto> bs)"
    if bs: "fake_content w (fake_key p) = Some bs" and run: "fake_rename p q w = (Inr (), w')"
    for p q bs and w w' :: "'a fake_world"
  proof -
    obtain f where f: "map_of (fw_files w) (fake_key p) = Some f" "ff_kind f = File" "ff_bytes f = bs"
      using bs by (cases "map_of (fw_files w) (fake_key p)") (auto simp: fake_content_def split: if_splits)
    with run show ?thesis by (auto simp: fake_rename_def fake_content_update fake_content_delete)
  qed
  show "fake_content w' = fake_content w" if "fake_hash E p w = (h, w')" for p h and w w' :: "'a fake_world"
    using that by (simp add: fake_hash_def)
qed

interpretation fake_files: moving_files "fake_local_fs E" fake_key fake_content "\<lambda>_. True" for E
proof (unfold_locales, unfold fake_local_fs_def local_fs.simps)
  show "fake_content w' = fake_content w" if "fake_scan E p w = (s, w')" for p s and w w' :: "'a fake_world"
    using that by (simp add: fake_scan_def Let_def)
  show "(\<exists>x. fake_content w' = (fake_content w)(fake_key q := x))
      \<or> fake_content w' = (fake_content w)(fake_key p := None, fake_key q \<mapsto> bs)"
    if bs: "fake_content w (fake_key p) = Some bs" and run: "fake_rename p q w = (u, w')"
    for p q bs u and w w' :: "'a fake_world"
  proof -
    obtain f where f: "map_of (fw_files w) (fake_key p) = Some f" "ff_kind f = File" "ff_bytes f = bs"
      using bs by (cases "map_of (fw_files w) (fake_key p)") (auto simp: fake_content_def split: if_splits)
    with run show ?thesis by (auto simp: fake_rename_def fake_content_update fake_content_delete)
  qed
qed

section \<open>The adapter over a documented disk\<close>

text \<open>
  What is documented of the calls of the disk, as far as the adapter needs it.  \<open>files\<close> is the
  content of every regular file by its location, \<open>temps\<close> the content of the open temporary
  files.  Only the calls below change them; a failed call leaves the files as they were, except
  that a failed copy may leave a part of the destination.
\<close>

definition file_frames :: "'w disk_lib \<Rightarrow> ('w \<Rightarrow> 'k \<Rightarrow> bytes option) \<Rightarrow> bool" where
  "file_frames D files \<longleftrightarrow> (\<forall>F. let I = (\<lambda>w. files w = F) in
     (\<forall>p. keeps I (dk_metadata D p)) \<and> (\<forall>p. keeps I (liftE (dk_exists D p) :: ('w, string, bool) io))
     \<and> (\<forall>p. keeps I (dk_read D p)) \<and> (\<forall>p. keeps I (dk_open D p))
     \<and> (\<forall>h n. keeps I (liftE (dk_blocks D h n) :: ('w, string, (string + bytes) list) io)) \<and> (\<forall>h. keeps I (dk_sync D h))
     \<and> (\<forall>p. keeps I (dk_temp_new D p)) \<and> (\<forall>t bs. keeps I (dk_temp_write D t bs))
     \<and> (\<forall>t. keeps I (dk_temp_sync D t)) \<and> (\<forall>t w. files (dk_temp_drop D t w) = files w)
     \<and> (\<forall>p. keeps I (dk_create_dir_all D p)) \<and> keeps I (dk_cancelled D))"

definition temp_laws :: "'w disk_lib \<Rightarrow> ('w \<Rightarrow> nat \<Rightarrow> bytes) \<Rightarrow> bool" where
  "temp_laws D temps \<longleftrightarrow>
     (\<forall>p w t w'. dk_temp_new D p w = (Inr t, w') \<longrightarrow> temps w' t = [])
     \<and> (\<forall>t bs w w'. dk_temp_write D t bs w = (Inr (), w') \<longrightarrow> temps w' t = temps w t @ bs)
     \<and> (\<forall>t w w'. dk_temp_sync D t w = (Inr (), w') \<longrightarrow> temps w' t = temps w t)"

definition file_laws ::
  "'w disk_lib \<Rightarrow> (path_buf \<Rightarrow> 'k) \<Rightarrow> (path_buf \<Rightarrow> bool) \<Rightarrow> ('w \<Rightarrow> 'k \<Rightarrow> bytes option) \<Rightarrow> ('w \<Rightarrow> nat \<Rightarrow> bytes) \<Rightarrow> bool" where
  "file_laws D key plain files temps \<longleftrightarrow>
     (\<forall>p w bs w'. plain p \<longrightarrow> dk_read D p w = (Inr bs, w') \<longrightarrow> files w (key p) = Some bs)
     \<and> (\<forall>t p w r w'. dk_temp_persist D t p w = (r, w') \<longrightarrow>
          files w' = (case r of Inl _ \<Rightarrow> files w | Inr _ \<Rightarrow> (files w)(key p \<mapsto> temps w t)))
     \<and> (\<forall>p w r w'. plain p \<longrightarrow> dk_remove_file D p w = (r, w') \<longrightarrow>
          files w' = (case r of Inl _ \<Rightarrow> files w | Inr _ \<Rightarrow> (files w)(key p := None)))
     \<and> (\<forall>p w e w'. dk_remove_file D p w = (Inl e, w') \<longrightarrow> files w' = files w)
     \<and> (\<forall>p w r w'. dk_remove_dir D p w = (r, w') \<longrightarrow>
          files w' = files w \<and> (r = Inr () \<longrightarrow> files w (key p) = None))
     \<and> (\<forall>p q w w' bs. files w (key p) = Some bs \<longrightarrow> dk_rename D p q w = (Inr (), w') \<longrightarrow>
          files w' = (files w)(key p := None, key q \<mapsto> bs))"

definition disk_laws ::
  "'w disk_lib \<Rightarrow> (path_buf \<Rightarrow> 'k) \<Rightarrow> (path_buf \<Rightarrow> bool) \<Rightarrow> ('w \<Rightarrow> 'k \<Rightarrow> bytes option) \<Rightarrow> ('w \<Rightarrow> nat \<Rightarrow> bytes) \<Rightarrow> bool" where
  "disk_laws D key plain files temps \<longleftrightarrow>
     file_frames D files \<and> temp_laws D temps \<and> file_laws D key plain files temps"

text \<open>
  What is documented of listing a directory, of a failed rename and of a copy: the first two
  leave the files alone, a copy writes its destination, all of the source when it succeeds.
\<close>

definition move_laws ::
  "'w disk_lib \<Rightarrow> (path_buf \<Rightarrow> 'k) \<Rightarrow> (path_buf \<Rightarrow> bool) \<Rightarrow> ('w \<Rightarrow> 'k \<Rightarrow> bytes option) \<Rightarrow> bool" where
  "move_laws D key plain files \<longleftrightarrow>
     (\<forall>F p. keeps (\<lambda>w. files w = F) (dk_read_dir D p))
     \<and> (\<forall>F p. keeps (\<lambda>w. files w = F) (dk_entry_metadata D p))
     \<and> (\<forall>p q w e w'. dk_rename D p q w = (Inl e, w') \<longrightarrow> files w' = files w)
     \<and> (\<forall>p q w bs r w'. files w (key p) = Some bs \<longrightarrow> plain q \<longrightarrow> dk_copy D p q w = (r, w') \<longrightarrow>
          (\<exists>x. files w' = (files w)(key q := x)) \<and> (r = Inr () \<longrightarrow> files w' = (files w)(key q \<mapsto> bs)))"

lemma move_lawsD:
  assumes "move_laws D key plain files"
  shows "keeps (\<lambda>w. files w = F) (dk_read_dir D p)" "keeps (\<lambda>w. files w = F) (dk_entry_metadata D p)"
    and "dk_rename D p q w = (Inl e, w') \<Longrightarrow> files w' = files w"
    and "files w (key p) = Some bs \<Longrightarrow> plain q \<Longrightarrow> dk_copy D p q w = (r, w') \<Longrightarrow>
      \<exists>x. files w' = (files w)(key q := x)"
    and "files w (key p) = Some bs \<Longrightarrow> plain q \<Longrightarrow> dk_copy D p q w = (Inr (), w') \<Longrightarrow>
      files w' = (files w)(key q \<mapsto> bs)"
  using assms unfolding move_laws_def by blast+

subsection \<open>Atomic writes\<close>

lemma concat_chunks_of: "0 < n \<Longrightarrow> concat (chunks_of n xs) = xs"
proof (induction "length xs" arbitrary: xs rule: less_induct)
  case less
  show ?case
  proof (cases xs)
    case (Cons x r)
    with less.prems have "length (drop n xs) < length xs" by simp
    from less.hyps [OF this less.prems] have "concat (chunks_of n (drop n xs)) = drop n xs" .
    with Cons less.prems show ?thesis by (subst chunks_of.simps) (simp add: Cons)
  qed (simp add: chunks_of.simps)
qed

lemma word_of_nat_add_length:
  "(t :: u64) + word_of_nat (length a) + word_of_nat (length b) = t + word_of_nat (length (a @ b))"
  by (simp add: add.assoc)

lemma write_chunks_InrD:
  assumes "temp_laws D temps" and "write_chunks D t cs (h, n) w = (Inr (h', n'), w')"
  shows "h' = h @ concat cs \<and> n' = n + word_of_nat (length (concat cs)) \<and> temps w' t = temps w t @ concat cs"
  using assms(2)
proof (induction cs arbitrary: h n w)
  case Nil
  then show ?case by (simp add: returnE_def)
next
  case (Cons c cs)
  then obtain w1 where c: "dk_temp_write D t c w = (Inr (), w1)"
    and rest: "write_chunks D t cs (h @ c, n + word_of_nat (length c)) w1 = (Inr (h', n'), w')"
    by (auto simp: io_err_def elim!: bindE_InrE map_errE_InrE)
  have "temps w1 t = temps w t @ c" using assms(1) c unfolding temp_laws_def by blast
  with Cons.IH [OF rest] show ?case by (simp add: algebra_simps)
qed

lemma keeps_io_err: "keeps I m \<Longrightarrow> keeps I (io_err m)"
  unfolding io_err_def by (rule keeps_map_err)

lemma file_framesD:
  assumes "file_frames D files"
  shows "keeps (\<lambda>w. files w = F) (dk_metadata D p)" "keeps (\<lambda>w. files w = F) (liftE (dk_exists D p) :: ('w, string, bool) io)"
    "keeps (\<lambda>w. files w = F) (dk_read D p)" "keeps (\<lambda>w. files w = F) (dk_open D p)"
    "keeps (\<lambda>w. files w = F) (liftE (dk_blocks D h n) :: ('w, string, (string + bytes) list) io)"
    "keeps (\<lambda>w. files w = F) (dk_sync D h)"
    "keeps (\<lambda>w. files w = F) (dk_temp_new D p)" "keeps (\<lambda>w. files w = F) (dk_temp_write D t bs)"
    "keeps (\<lambda>w. files w = F) (dk_temp_sync D t)" "files (dk_temp_drop D t w) = files w"
    "keeps (\<lambda>w. files w = F) (dk_create_dir_all D p)" "keeps (\<lambda>w. files w = F) (dk_cancelled D)"
  using assms [unfolded file_frames_def Let_def, rule_format, of F] by blast+

lemma keeps_write_chunks:
  assumes "file_frames D files"
  shows "keeps (\<lambda>w. files w = F) (write_chunks D t cs acc)"
proof (induction cs arbitrary: acc)
  case Nil
  then show ?case by (cases acc) simp
next
  case (Cons c cs)
  then show ?case
    by (cases acc) (simp add: keeps_bind keeps_io_err file_framesD [OF assms])
qed

lemma file_lawsD:
  assumes "file_laws D key plain files temps"
  shows "plain p \<Longrightarrow> dk_read D p w = (Inr bs, w') \<Longrightarrow> files w (key p) = Some bs"
    and "dk_temp_persist D t p w = (r, w') \<Longrightarrow>
      files w' = (case r of Inl _ \<Rightarrow> files w | Inr _ \<Rightarrow> (files w)(key p \<mapsto> temps w t))"
    and "plain p \<Longrightarrow> dk_remove_file D p w = (r, w') \<Longrightarrow>
      files w' = (case r of Inl _ \<Rightarrow> files w | Inr _ \<Rightarrow> (files w)(key p := None))"
    and "dk_remove_file D p w = (Inl e, w') \<Longrightarrow> files w' = files w"
    and "dk_remove_dir D p w = (r, w') \<Longrightarrow> files w' = files w"
    and "dk_remove_dir D p w = (Inr (), w') \<Longrightarrow> files w (key p) = None"
    and "files w (key p) = Some bs \<Longrightarrow> dk_rename D p q w = (Inr (), w') \<Longrightarrow>
      files w' = (files w)(key p := None, key q \<mapsto> bs)"
proof -
  note law = assms [unfolded file_laws_def]
  note law1 = law [THEN conjunct1] and rest1 = law [THEN conjunct2]
  note law2 = rest1 [THEN conjunct1] and rest2 = rest1 [THEN conjunct2]
  note law3 = rest2 [THEN conjunct1] and rest3 = rest2 [THEN conjunct2]
  note law4 = rest3 [THEN conjunct1] and rest4 = rest3 [THEN conjunct2]
  note law5 = rest4 [THEN conjunct1] and law6 = rest4 [THEN conjunct2]
  show "files w (key p) = Some bs" if "plain p" "dk_read D p w = (Inr bs, w')"
    by (rule law1 [rule_format, OF that])
  show "files w' = (case r of Inl _ \<Rightarrow> files w | Inr _ \<Rightarrow> (files w)(key p \<mapsto> temps w t))"
    if "dk_temp_persist D t p w = (r, w')"
    by (rule law2 [rule_format, OF that])
  show "files w' = (case r of Inl _ \<Rightarrow> files w | Inr _ \<Rightarrow> (files w)(key p := None))"
    if "plain p" "dk_remove_file D p w = (r, w')"
    by (rule law3 [rule_format, OF that])
  show "files w' = files w" if "dk_remove_file D p w = (Inl e, w')"
    by (rule law4 [rule_format, OF that])
  show "files w' = files w" if "dk_remove_dir D p w = (r, w')"
    using law5 [rule_format, OF that] by blast
  show "files w (key p) = None" if "dk_remove_dir D p w = (Inr (), w')"
    using law5 [rule_format, OF that] by blast
  show "files w' = (files w)(key p := None, key q \<mapsto> bs)"
    if "files w (key p) = Some bs" "dk_rename D p q w = (Inr (), w')"
    by (rule law6 [rule_format, OF that])
qed

lemma fill_and_persist_effect:
  assumes laws: "disk_laws D key plain files temps" and "temps w t = []"
    and run: "fill_and_persist D t p bs w = (r, w')"
  shows "case r of
      Inl _ \<Rightarrow> files w' = files w
    | Inr (h, n) \<Rightarrow> files w' = (files w)(key p \<mapsto> bs) \<and> h = bs \<and> n = word_of_nat (length bs)"
proof -
  have frames: "file_frames D files" and tl: "temp_laws D temps" and fl: "file_laws D key plain files temps"
    using laws by (simp_all add: disk_laws_def)
  note fr = file_framesD [OF frames]
  let ?cs = "chunks_of HASH_BLOCK_BYTES bs"
  obtain x w1 where x: "write_chunks D t ?cs ([], 0) w = (x, w1)" by fastforce
  have f1: "files w1 = files w" by (rule keepsD [OF keeps_write_chunks [OF frames] _ x]) simp
  show ?thesis
  proof (cases x)
    case (Inl e)
    with run x f1 fr(10) show ?thesis by (auto simp: fill_and_persist_def or_drop_def bindE_def)
  next
    case (Inr acc)
    obtain h n where acc: "acc = (h, n)" by (cases acc)
    have hn: "h = bs" "n = word_of_nat (length bs)" "temps w1 t = bs"
      using write_chunks_InrD [OF tl x [unfolded Inr acc]] assms(2)
      by (simp_all add: concat_chunks_of HASH_BLOCK_BYTES_def)
    obtain y w2 where y: "dk_temp_sync D t w1 = (y, w2)" by fastforce
    have f2: "files w2 = files w" using keepsD [OF fr(9) _ y] f1 by simp
    show ?thesis
    proof (cases y)
      case (Inl e)
      with run x Inr y f2 fr(10) show ?thesis
        by (auto simp: fill_and_persist_def or_drop_def bindE_def io_err_def map_errE_def)
    next
      case Inr': (Inr u)
      have t2: "temps w2 t = bs" using tl y Inr' hn(3) unfolding temp_laws_def by auto
      obtain z w3 where z: "dk_temp_persist D t p w2 = (z, w3)" by fastforce
      have f3: "files w3 = (case z of Inl _ \<Rightarrow> files w2 | Inr _ \<Rightarrow> (files w2)(key p \<mapsto> temps w2 t))"
        by (rule file_lawsD(2) [OF fl z])
      show ?thesis
        using run x Inr y Inr' z f2 f3 t2 fr(10) hn acc
        by (cases z) (auto simp: fill_and_persist_def or_drop_def bindE_def io_err_def map_errE_def returnE_def)
    qed
  qed
qed


lemma write_atomic_effect:
  assumes laws: "disk_laws D key plain files temps" and run: "write_atomic D p bs w = (r, w')"
  shows "(files w' = files w \<or> files w' = (files w)(key p \<mapsto> bs))
    \<and> (\<forall>side. r = Inr side \<longrightarrow> files w' = (files w)(key p \<mapsto> bs) \<and> fs_kind side = File
        \<and> fs_size_bytes side = word_of_nat (length bs) \<and> fs_content_hash side = Some (dk_blake3 D bs))"
proof (cases "path_parent p")
  case None
  with run show ?thesis by (auto simp: write_atomic_def bindE_def resultE_def)
next
  case (Some parent)
  have tl: "temp_laws D temps" and frames: "file_frames D files" using laws by (simp_all add: disk_laws_def)
  note fr = file_framesD [OF frames]
  obtain x w1 where x: "dk_temp_new D parent w = (x, w1)" by fastforce
  have f1: "files w1 = files w" by (rule keepsD [OF fr(7) _ x]) simp
  show ?thesis
  proof (cases x)
    case (Inl e)
    with run Some x f1 show ?thesis by (auto simp: write_atomic_def bindE_def resultE_def io_err_def map_errE_def)
  next
    case (Inr t)
    have t1: "temps w1 t = []" using tl x Inr unfolding temp_laws_def by blast
    obtain y w2 where y: "fill_and_persist D t p bs w1 = (y, w2)" by fastforce
    note eff = fill_and_persist_effect [OF laws t1 y]
    show ?thesis
    proof (cases y)
      case Inl': (Inl e)
      with run Some x Inr y eff f1 show ?thesis
        by (auto simp: write_atomic_def bindE_def resultE_def io_err_def map_errE_def)
    next
      case Inr': (Inr acc)
      obtain h n where acc: "acc = (h, n)" by (cases acc)
      have f2: "files w2 = (files w)(key p \<mapsto> bs)" and hn: "h = bs" "n = word_of_nat (length bs)"
        using eff f1 Inr' acc by simp_all
      define rest :: "('a, file_side) aio" where
        "rest = bindE (io_err (dk_open D parent)) (\<lambda>dir.
          bindE (io_err (dk_sync D dir)) (\<lambda>_.
          bindE (io_err (dk_metadata D p)) (\<lambda>meta.
          io_err (resultE (written_side meta n (dk_blake3 D h))))))"
      have run': "rest w2 = (r, w')"
        using run Some x Inr y Inr' acc
        by (simp add: rest_def write_atomic_def bindE_def resultE_def io_err_def map_errE_def)
      have "keeps (\<lambda>v. files v = files w2) rest"
        unfolding rest_def by (intro keeps_bind keeps_io_err keeps_result fr)
      from keepsD [OF this _ run'] f2 have f': "files w' = (files w)(key p \<mapsto> bs)" by simp
      moreover have "fs_kind side = File \<and> fs_size_bytes side = n \<and> fs_content_hash side = Some (dk_blake3 D h)"
        if "r = Inr side" for side
        using run' that
        by (auto simp: rest_def io_err_def written_side_def resultE_def elim!: bindE_InrE map_errE_InrE split: sum.splits)
      ultimately show ?thesis using hn by blast
    qed
  qed
qed

subsection \<open>The other calls\<close>

lemma in_pool_run:
  assumes "file_frames D files"
  shows "in_pool D m w = (Inr x, w') \<Longrightarrow> \<exists>w1. files w1 = files w \<and> m w1 = (Inr x, w')"
    and "in_pool D m w = (Inl e, w') \<Longrightarrow> files w' = files w \<or> (\<exists>w1 e1. files w1 = files w \<and> m w1 = (Inl e1, w'))"
    and "in_pool D m w = (r, w') \<Longrightarrow> files w' = files w \<or> (\<exists>w1 r1. files w1 = files w \<and> m w1 = (r1, w'))"
proof -
  obtain c w1 where c: "dk_cancelled D w = (c, w1)" by fastforce
  have f: "files w1 = files w" by (rule keepsD [OF file_framesD(12) [OF assms] _ c]) simp
  show "\<exists>w1. files w1 = files w \<and> m w1 = (Inr x, w')" if "in_pool D m w = (Inr x, w')"
    using that c f by (auto simp: in_pool_def bindE_def map_errE_def split: prod.splits sum.splits)
  show "files w' = files w \<or> (\<exists>w1 e1. files w1 = files w \<and> m w1 = (Inl e1, w'))" if "in_pool D m w = (Inl e, w')"
    using that c f by (auto simp: in_pool_def bindE_def map_errE_def split: prod.splits sum.splits)
  show "files w' = files w \<or> (\<exists>w1 r1. files w1 = files w \<and> m w1 = (r1, w'))" if "in_pool D m w = (r, w')"
    using that c f by (cases c) (auto simp: in_pool_def bindE_def map_errE_def split: prod.splits sum.splits)
qed

lemma delete_path_effect:
  assumes laws: "disk_laws D key plain files temps" and run: "delete_path D p w = (r, w')"
  shows "(\<forall>e. r = Inl e \<longrightarrow> files w' = files w) \<and> (plain p \<longrightarrow> r = Inr () \<longrightarrow> files w' = (files w)(key p := None))"
proof -
  have fl: "file_laws D key plain files temps" and frames: "file_frames D files" using laws by (simp_all add: disk_laws_def)
  obtain x w1 where x: "dk_metadata D p w = (x, w1)" by fastforce
  have f1: "files w1 = files w" by (rule keepsD [OF file_framesD(1) [OF frames] _ x]) simp
  show ?thesis
  proof (cases x)
    case (Inl e)
    with run x f1 show ?thesis by (auto simp: delete_path_def bindE_def io_err_def map_errE_def)
  next
    case (Inr m)
    show ?thesis
    proof (cases "fm_type m = FtDir")
      case True
      obtain y w2 where y: "dk_remove_dir D p w1 = (y, w2)" by fastforce
      have "files w (key p) = None" if "y = Inr ()" using file_lawsD(6) [OF fl] y that f1 by metis
      then have "files w = (files w)(key p := None)" if "y = Inr ()" using that by (simp add: fun_upd_idem)
      with run x Inr True f1 y file_lawsD(5) [OF fl y] show ?thesis
        by (cases y) (auto simp: delete_path_def bindE_def io_err_def map_errE_def)
    next
      case False
      obtain y w2 where y: "dk_remove_file D p w1 = (y, w2)" by fastforce
      with run x Inr False f1 file_lawsD(3,4) [OF fl] show ?thesis
        by (cases y) (fastforce simp: delete_path_def bindE_def io_err_def map_errE_def)+
    qed
  qed
qed

lemma keeps_cross_volume:
  assumes "file_frames D files" and "cross_volume D p q w = (c, w')"
  shows "files w' = files w"
proof -
  note fr = file_framesD [OF assms(1)]
  have ex: "files w1 = files w0" if "dk_exists D p' w0 = (b, w1)" for p' w0 b w1
    by (rule keepsD [OF fr(2) [where p = p' and F = "files w0"], of w0 "Inr b"]) (simp_all add: liftE_def that)
  have meta: "files w1 = files w0" if "dk_metadata D p' w0 = (b, w1)" for p' w0 b w1
    by (rule keepsD [OF fr(1) _ that]) simp
  from assms(2) show ?thesis
    by (auto simp: cross_volume_def same_volume_def split: prod.splits if_splits option.splits dest!: ex meta)
qed

lemma rename_path_effect:
  assumes laws: "disk_laws D key plain files temps" and "files w (key p) = Some bs"
    and run: "rename_path D p q w = (Inr (), w')"
  shows "files w' = (files w)(key p := None, key q \<mapsto> bs)"
proof -
  have fl: "file_laws D key plain files temps" and frames: "file_frames D files" using laws by (simp_all add: disk_laws_def)
  obtain c w1 where c: "cross_volume D p q w = (c, w1)" by fastforce
  note f1 = keeps_cross_volume [OF frames c]
  from run c have "\<not> c" and "dk_rename D p q w1 = (Inr (), w')"
    by (auto simp: rename_path_def liftE_def bindE_def throwE_def io_err_def map_errE_def split: if_splits prod.splits sum.splits)
  with file_lawsD(7) [OF fl] assms(2) f1 show ?thesis by metis
qed

lemma keeps_hash_file:
  assumes "file_frames D files"
  shows "keeps (\<lambda>w. files w = F) (hash_file D p)"
proof -
  note fr = file_framesD [OF assms]
  have "keeps (\<lambda>w. files w = F) (file_mtime D p)"
    unfolding file_mtime_def by (intro keeps_bind keeps_io_err keeps_return fr)
  moreover have "keeps (\<lambda>w. files w = F) (liftE (dk_blocks D h n))" for h n
    using fr(5) [of F h n] by (simp add: keeps_def liftE_def split: prod.splits)
  ultimately show ?thesis
    unfolding hash_file_def by (auto intro!: keeps_bind keeps_io_err fr)
qed

lemma adapter_local_files:
  assumes laws: "disk_laws D key plain files temps"
  shows "local_files (local_fs_adapter stuck D) (key \<circ> path_of) files (plain \<circ> path_of)"
proof -
  have fl: "file_laws D key plain files temps" and frames: "file_frames D files" using laws by (simp_all add: disk_laws_def)
  note pool = in_pool_run [OF frames]
  show ?thesis
  proof (unfold_locales, unfold local_fs_adapter_def local_fs.simps o_def)
    show "files w (key (path_of p)) = Some bs" if "plain (path_of p)" "adapter_read D p w = (Inr bs, w')" for p w bs w'
      using pool(1) [OF that(2) [unfolded adapter_read_def]] file_lawsD(1) [OF fl that(1)] by (metis io_err_Inr_iff)
    show "files w' = files w" if "adapter_read D p w = (r, w')" for p w r w'
      using pool(3) [OF that [unfolded adapter_read_def]] keepsD [OF keeps_io_err [OF file_framesD(3) [OF frames]]] by metis
    show "files w' = files w \<or> files w' = (files w)(key (path_of p) \<mapsto> bs)"
      if "adapter_write_atomic D p bs w = (r, w')" for p bs w r w'
      using pool(3) [OF that [unfolded adapter_write_atomic_def]] by (auto dest!: write_atomic_effect [OF laws])
    show "files w' = (files w)(key (path_of p) \<mapsto> bs) \<and> fs_kind side = File \<and> fs_size_bytes side = word_of_nat (length bs)"
      if "adapter_write_atomic D p bs w = (Inr side, w')" for p bs w side w'
      using pool(1) [OF that [unfolded adapter_write_atomic_def]] by (auto dest!: write_atomic_effect [OF laws])
    show "files w' = files w" if "adapter_delete D p w = (Inl e, w')" for p w e w'
      using pool(2) [OF that [unfolded adapter_delete_def]] by (auto dest!: delete_path_effect [OF laws])
    show "files w' = (files w)(key (path_of p) := None)" if "plain (path_of p)" "adapter_delete D p w = (Inr (), w')" for p w w'
      using pool(1) [OF that(2) [unfolded adapter_delete_def]] that(1) by (auto dest!: delete_path_effect [OF laws])
    show "files w' = files w" if "adapter_mkdir_p D p w = (u, w')" for p w u w'
      using pool(3) [OF that [unfolded adapter_mkdir_p_def mkdir_p_def]]
        keepsD [OF keeps_io_err [OF file_framesD(11) [OF frames]]] by metis
    show "files w' = (files w)(key (path_of p) := None, key (path_of q) \<mapsto> bs)"
      if "files w (key (path_of p)) = Some bs" "adapter_rename D p q w = (Inr (), w')" for w p bs q w'
      using pool(1) [OF that(2) [unfolded adapter_rename_def]] that(1) rename_path_effect [OF laws] by metis
    show "files w' = files w" if "adapter_hash D p w = (h, w')" for p w h w'
      using pool(3) [OF that [unfolded adapter_hash_def]] keepsD [OF keeps_hash_file [OF frames] refl] by metis
  qed
qed

lemma rename_path_any:
  assumes laws: "disk_laws D key plain files temps" and moves: "move_laws D key plain files"
    and p: "plain p" and q: "plain q" and bs: "files w (key p) = Some bs" and run: "rename_path D p q w = (r, w')"
  shows "(\<exists>x. files w' = (files w)(key q := x)) \<or> files w' = (files w)(key p := None, key q \<mapsto> bs)"
proof -
  have fl: "file_laws D key plain files temps" and frames: "file_frames D files" using laws by (simp_all add: disk_laws_def)
  obtain c w1 where c: "cross_volume D p q w = (c, w1)" by fastforce
  note f1 = keeps_cross_volume [OF frames c]
  have same: "\<exists>x. files w = (files w)(key q := x)" by (rule exI [of _ "files w (key q)"]) simp
  show ?thesis
  proof (cases c)
    case False
    obtain x w2 where x: "dk_rename D p q w1 = (x, w2)" by fastforce
    have "w' = w2" using run c False x
      by (cases x) (auto simp: rename_path_def liftE_def bindE_def io_err_def map_errE_def)
    with x f1 same bs move_lawsD(3) [OF moves] file_lawsD(7) [OF fl, of w1 p bs q w2] show ?thesis
      by (cases x) auto
  next
    case True
    obtain x w2 where x: "dk_copy D p q w1 = (x, w2)" by fastforce
    show ?thesis
    proof (cases x)
      case (Inl e)
      with run c True x have "w' = w2" by (simp add: rename_path_def liftE_def bindE_def io_err_def map_errE_def)
      with move_lawsD(4) [OF moves _ q x] bs f1 show ?thesis by auto
    next
      case (Inr u)
      with x have x': "dk_copy D p q w1 = (Inr (), w2)" by simp
      have f2: "files w2 = (files w)(key q \<mapsto> bs)" using move_lawsD(5) [OF moves _ q x'] bs f1 by simp
      obtain y w3 where y: "dk_remove_file D p w2 = (y, w3)" by fastforce
      have "w' = w3" using run c True x Inr y
        by (cases y) (auto simp: rename_path_def liftE_def bindE_def io_err_def map_errE_def throwE_def)
      with file_lawsD(3) [OF fl p y] f2 show ?thesis
        by (cases y; cases "key p = key q") (auto simp: fun_upd_twist)
    qed
  qed
qed

lemma keeps_scan_directory:
  assumes "move_laws D key plain files"
  shows "keeps (\<lambda>w. files w = F) (scan_directory D dir acc)"
proof -
  have entry: "keeps (\<lambda>w. files w = F) (scan_entry D dir e acc)" for e acc
    unfolding scan_entry_def scan_kept_def
    by (auto intro!: keeps_bind keeps_io_err move_lawsD(2) [OF assms] split: option.split prod.split)
  have "keeps (\<lambda>w. files w = F) (scan_entries D dir es acc)" for es acc
    by (induction es arbitrary: acc) (auto intro!: keeps_bind entry)
  then show ?thesis
    unfolding scan_directory_def by (intro keeps_bind keeps_io_err move_lawsD(1) [OF assms])
qed

lemma scan_loop_frame:
  assumes moves: "move_laws D key plain files"
  shows "scan_loop D acc w = Some y \<Longrightarrow> files (snd y) = files w"
proof -
  assume "scan_loop D acc w = Some y"
  then have "move_laws D key plain files \<longrightarrow> files (snd y) = files w"
  proof (rule scan_loop.raw_induct [rotated])
    fix f D' acc' w' y'
    assume ih: "\<And>D acc w y. f D acc w = Some y \<Longrightarrow> move_laws D key plain files \<longrightarrow> files (snd y) = files w"
      and run: "(case fst acc' of
        [] \<Rightarrow> Some (Inr (snd acc'), w')
      | dir # queue \<Rightarrow>
          (case scan_directory D' dir (queue, snd acc') w' of
             (Inl e, w') \<Rightarrow> Some (Inl e, w')
           | (Inr acc', w') \<Rightarrow> f D' acc' w')) = Some y'"
    show "move_laws D' key plain files \<longrightarrow> files (snd y') = files w'"
    proof (intro impI)
      assume m: "move_laws D' key plain files"
      show "files (snd y') = files w'"
      proof (cases "fst acc'")
        case Nil
        with run show ?thesis by auto
      next
        case (Cons dir queue)
        obtain x v where x: "scan_directory D' dir (queue, snd acc') w' = (x, v)" by fastforce
        have "files v = files w'" by (rule keepsD [OF keeps_scan_directory [OF m] _ x]) simp
        with run Cons x ih m show ?thesis by (cases x) auto
      qed
    qed
  qed
  with moves show ?thesis by simp
qed

lemma adapter_moving_files:
  assumes laws: "disk_laws D key plain files temps" and moves: "move_laws D key plain files"
    and stuck: "\<And>F. keeps (\<lambda>w. files w = F) stuck"
  shows "moving_files (local_fs_adapter stuck D) (key \<circ> path_of) files (plain \<circ> path_of)"
proof -
  have frames: "file_frames D files" using laws by (simp add: disk_laws_def)
  note pool = in_pool_run [OF frames]
  show ?thesis
  proof (intro moving_files.intro moving_files_axioms.intro)
    show "local_files (local_fs_adapter stuck D) (key \<circ> path_of) files (plain \<circ> path_of)"
      by (rule adapter_local_files [OF laws])
  next
    fix base s and w w' :: 'a
    assume run: "lf_scan (local_fs_adapter stuck D) base w = (s, w')"
    obtain c w1 where c: "dk_cancelled D w = (c, w1)" by fastforce
    have f1: "files w1 = files w" by (rule keepsD [OF file_framesD(12) [OF frames] _ c]) simp
    show "files w' = files w"
    proof (cases "scan_with_skips D (path_of base) w1")
      case None
      with run c f1 keepsD [OF stuck refl] show ?thesis
        by (cases c) (auto simp: local_fs_adapter_def adapter_scan_def)
    next
      case (Some y)
      have "files (snd y) = files w1"
        using scan_loop_frame [OF moves] Some by (simp add: scan_with_skips_def)
      with run c f1 Some show ?thesis
        by (cases c) (auto simp: local_fs_adapter_def adapter_scan_def split: prod.splits sum.splits)
    qed
  next
    fix p q bs u and w w' :: 'a
    assume pq: "(plain \<circ> path_of) p" "(plain \<circ> path_of) q" "files w ((key \<circ> path_of) p) = Some bs"
      and run: "lf_rename (local_fs_adapter stuck D) p q w = (u, w')"
    have same: "\<exists>x. files w = (files w)((key \<circ> path_of) q := x)"
      by (rule exI [of _ "files w ((key \<circ> path_of) q)"]) simp
    have run': "in_pool D (rename_path D (path_of p) (path_of q)) w = (u, w')"
      using run by (simp add: local_fs_adapter_def adapter_rename_def)
    from pool(3) [OF run'] show "(\<exists>x. files w' = (files w)((key \<circ> path_of) q := x))
        \<or> files w' = (files w)((key \<circ> path_of) p := None, (key \<circ> path_of) q \<mapsto> bs)"
    proof (elim disjE exE conjE)
      assume "files w' = files w"
      with same show ?thesis by simp
    next
      fix w1 r1
      assume "files w1 = files w" "rename_path D (path_of p) (path_of q) w1 = (r1, w')"
      with rename_path_any [OF laws moves, of "path_of p" "path_of q" w1 bs r1 w'] pq show ?thesis by simp
    qed
  qed
qed

text \<open>
  C23: The adapter of the local file system is what the engine expects of one, over a disk that
  behaves as documented, with failures at any call.  Reading a path that is no symbolic link
  returns the content of the file; a write leaves every other file alone and its target either
  as it was or with all of the new bytes (and certainly the new bytes when it succeeds, with
  their size); a deletion that succeeds, of a path that is no symbolic link, removes that file
  only and one that fails removes nothing; scans, hashes and new folders change no file.  A
  rename that succeeds moves the file; whatever a rename of one file to another returns
  (neither path a symbolic link), no third file changes, and either at most the target has
  changed or the target has all of the content and the source is gone: so on two volumes, where
  the adapter copies, deletes and then returns an error, the content is not lost.
\<close>
theorem adapter_is_local_files:
  assumes "disk_laws D key plain files temps" and "move_laws D key plain files"
    and "\<And>F. keeps (\<lambda>w. files w = F) stuck"
  shows "moving_files (local_fs_adapter stuck D) (key \<circ> path_of) files (plain \<circ> path_of)"
  by (rule adapter_moving_files [OF assms])

end
