(* ===== verification/Local_Scan.thy ===== *)
theory Local_Scan
  imports Local_Adapter
begin

text \<open>
  The breadth-first scan of a finite folder tree that nothing changes meanwhile: it ends, and
  it reports every file and folder that is not skipped, and every symbolic link it passed.
\<close>

section \<open>A quiet tree\<close>

text \<open>\<open>ls\<close> lists each folder: names with their metadata.\<close>

type_synonym listing = "path_buf \<Rightarrow> (string \<times> fs_meta) list option"

definition entries_of :: "listing \<Rightarrow> path_buf \<Rightarrow> (string \<times> fs_meta) list" where
  "entries_of ls d = (case ls d of None \<Rightarrow> [] | Some es \<Rightarrow> es)"

definition kept :: "string \<times> fs_meta \<Rightarrow> bool" where
  "kept e \<longleftrightarrow> classify_skip (fst e) (snd e) = None"

definition kept_dir :: "string \<times> fs_meta \<Rightarrow> bool" where
  "kept_dir e \<longleftrightarrow> kept e \<and> fm_type (snd e) = FtDir"

definition subdirs :: "listing \<Rightarrow> path_buf \<Rightarrow> path_buf list" where
  "subdirs ls d = map (path_join d \<circ> fst) (filter kept_dir (entries_of ls d))"

definition quiet_tree :: "'w disk_lib \<Rightarrow> 'w \<Rightarrow> listing \<Rightarrow> bool" where
  "quiet_tree D w ls \<longleftrightarrow>
     (\<forall>d es. ls d = Some es \<longrightarrow>
        dk_read_dir D d w = (Inr (map (Inr \<circ> fst) es), w)
        \<and> (\<forall>e\<in>set es. dk_entry_metadata D (path_join d (fst e)) w = (Inr (snd e), w)
             \<and> (\<exists>t. fm_modified (snd e) = Inr t)
             \<and> (kept_dir e \<longrightarrow> ls (path_join d (fst e)) \<noteq> None)))"

text \<open>A finite tree: \<open>sz\<close> counts the folders below each folder, itself included.\<close>

definition tree_size :: "listing \<Rightarrow> (path_buf \<Rightarrow> nat) \<Rightarrow> bool" where
  "tree_size ls sz \<longleftrightarrow> (\<forall>d. ls d \<noteq> None \<longrightarrow> sz d = Suc (sum_list (map sz (subdirs ls d))))"

section \<open>What a scan should report\<close>

definition meta_of :: "path_buf \<Rightarrow> fs_meta \<Rightarrow> local_file_meta" where
  "meta_of p m =
     (let mtime = (case fm_modified m of Inr t \<Rightarrow> t | Inl _ \<Rightarrow> 0) in
      if fm_type m = FtDir
      then \<lparr>lm_path = p, lm_kind = Directory, lm_size_bytes = 0, lm_mtime = mtime\<rparr>
      else \<lparr>lm_path = p, lm_kind = File, lm_size_bytes = fm_len m, lm_mtime = mtime\<rparr>)"

definition reported :: "listing \<Rightarrow> path_buf \<Rightarrow> local_file_meta list" where
  "reported ls d =
     map (\<lambda>e. meta_of (path_join d (fst e)) (snd e))
       (filter (\<lambda>e. kept e \<and> fm_type (snd e) \<in> {FtDir, FtFile}) (entries_of ls d))"

definition links :: "listing \<Rightarrow> path_buf \<Rightarrow> path_buf list" where
  "links ls d = map (path_join d \<circ> fst) (filter (\<lambda>e. fm_type (snd e) = FtSymlink) (entries_of ls d))"

inductive below_dir :: "listing \<Rightarrow> path_buf \<Rightarrow> path_buf \<Rightarrow> bool" for ls where
  here: "below_dir ls d d"
| down: "below_dir ls c d \<Longrightarrow> c \<in> set (subdirs ls p) \<Longrightarrow> below_dir ls p d"

inductive_cases below_dirE: "below_dir ls p d"

definition dirs_from :: "listing \<Rightarrow> path_buf list \<Rightarrow> path_buf set" where
  "dirs_from ls ps = {d. \<exists>p\<in>set ps. below_dir ls p d}"

lemma dirs_from_simps [simp]:
  "dirs_from ls [] = {}"
  "dirs_from ls (ps @ qs) = dirs_from ls ps \<union> dirs_from ls qs"
  by (auto simp: dirs_from_def)

lemma dirs_from_Cons: "dirs_from ls (p # ps) = {p} \<union> dirs_from ls (subdirs ls p) \<union> dirs_from ls ps"
  by (auto simp: dirs_from_def intro: below_dir.intros elim: below_dirE)

section \<open>The loop\<close>

text \<open>One folder: either the queue overflows or it grows by the subfolders.\<close>

definition overflows :: "('w, 'a) aio \<Rightarrow> 'w \<Rightarrow> bool" where
  "overflows m w \<longleftrightarrow> (\<exists>p. m w = (Inl (AeInvalidPath (overflow_message p)), w))"

lemma classify_symlink: "classify_skip n m = Some SkipSymlink \<longleftrightarrow> fm_type m = FtSymlink"
  by (auto simp: classify_skip_def split: option.splits)

lemma scan_entry_quiet:
  assumes "dk_entry_metadata D (path_join d (fst e)) w = (Inr (snd e), w)"
    and "fm_modified (snd e) = Inr t"
  shows "scan_entry D d (Inr (fst e)) (queue, out, syms) w =
    (if kept_dir e \<and> SCAN_QUEUE_DEPTH_MAX \<le> length queue
     then (Inl (AeInvalidPath (overflow_message (path_join d (fst e)))), w)
     else (Inr (queue @ (if kept_dir e then [path_join d (fst e)] else []),
            out @ (if kept e \<and> fm_type (snd e) \<in> {FtDir, FtFile} then [meta_of (path_join d (fst e)) (snd e)] else []),
            syms @ (if fm_type (snd e) = FtSymlink then [path_join d (fst e)] else [])), w))"
proof (cases "classify_skip (fst e) (snd e)")
  case None
  then have "fm_type (snd e) \<noteq> FtSymlink" by (metis classify_symlink option.distinct(1))
  with None assms show ?thesis
    by (simp add: scan_entry_def scan_kept_def io_err_def io_simps kept_def kept_dir_def meta_of_def)
next
  case (Some r)
  with assms show ?thesis
    using classify_symlink [of "fst e" "snd e"]
    by (auto simp: scan_entry_def io_err_def io_simps kept_def kept_dir_def)
qed

lemma scan_entries_quiet:
  assumes "\<forall>e\<in>set es. dk_entry_metadata D (path_join d (fst e)) w = (Inr (snd e), w) \<and> (\<exists>t. fm_modified (snd e) = Inr t)"
  shows "(overflows (scan_entries D d (map (Inr \<circ> fst) es) (queue, out, syms)) w
      \<and> SCAN_QUEUE_DEPTH_MAX < length queue + length (filter kept_dir es))
    \<or> scan_entries D d (map (Inr \<circ> fst) es) (queue, out, syms) w =
       (Inr (queue @ map (path_join d \<circ> fst) (filter kept_dir es),
             out @ map (\<lambda>e. meta_of (path_join d (fst e)) (snd e))
                     (filter (\<lambda>e. kept e \<and> fm_type (snd e) \<in> {FtDir, FtFile}) es),
             syms @ map (path_join d \<circ> fst) (filter (\<lambda>e. fm_type (snd e) = FtSymlink) es)), w)"
  using assms
proof (induction es arbitrary: queue out syms)
  case Nil
  then show ?case by (simp add: returnE_def)
next
  case (Cons e es)
  then obtain t where e: "dk_entry_metadata D (path_join d (fst e)) w = (Inr (snd e), w)" "fm_modified (snd e) = Inr t"
    by auto
  note one = scan_entry_quiet [OF e, of queue out syms]
  show ?case
  proof (cases "kept_dir e \<and> SCAN_QUEUE_DEPTH_MAX \<le> length queue")
    case True
    with one show ?thesis by (auto simp: overflows_def bindE_def)
  next
    case False
    have es: "\<forall>e\<in>set es. dk_entry_metadata D (path_join d (fst e)) w = (Inr (snd e), w) \<and> (\<exists>t. fm_modified (snd e) = Inr t)"
      using Cons.prems by simp
    from False one Cons.IH [OF es, of "queue @ (if kept_dir e then [path_join d (fst e)] else [])"
        "out @ (if kept e \<and> fm_type (snd e) \<in> {FtDir, FtFile} then [meta_of (path_join d (fst e)) (snd e)] else [])"
        "syms @ (if fm_type (snd e) = FtSymlink then [path_join d (fst e)] else [])"]
    show ?thesis by (auto simp: overflows_def bindE_def)
  qed
qed

lemma scan_directory_quiet:
  assumes "quiet_tree D w ls" and "ls d \<noteq> None"
  shows "(overflows (scan_directory D d (queue, out, syms)) w
      \<and> SCAN_QUEUE_DEPTH_MAX < length queue + length (subdirs ls d))
    \<or> scan_directory D d (queue, out, syms) w =
        (Inr (queue @ subdirs ls d, out @ reported ls d, syms @ links ls d), w)"
proof -
  obtain es where es: "ls d = Some es" using assms(2) by blast
  have read: "dk_read_dir D d w = (Inr (map (Inr \<circ> fst) es), w)"
    and metas: "\<forall>e\<in>set es. dk_entry_metadata D (path_join d (fst e)) w = (Inr (snd e), w) \<and> (\<exists>t. fm_modified (snd e) = Inr t)"
    using assms(1) es unfolding quiet_tree_def by blast+
  from scan_entries_quiet [OF metas, of queue out syms] read es show ?thesis
    by (simp add: scan_directory_def io_err_def bindE_def map_errE_def overflows_def subdirs_def reported_def
        links_def entries_of_def)
qed

lemma subdirs_listed:
  assumes "quiet_tree D w ls" and "ls d \<noteq> None" and "c \<in> set (subdirs ls d)"
  shows "ls c \<noteq> None"
proof -
  obtain es where es: "ls d = Some es" using assms(2) by blast
  with assms(3) obtain e where "e \<in> set es" "kept_dir e" "c = path_join d (fst e)"
    by (auto simp: subdirs_def entries_of_def)
  with assms(1) es show ?thesis unfolding quiet_tree_def by blast
qed

lemma length_le_size:
  assumes "tree_size ls sz" and "\<forall>p\<in>set ps. ls p \<noteq> None"
  shows "length ps \<le> sum_list (map sz ps)"
  using assms(2)
proof (induction ps)
  case (Cons p ps)
  then have "1 \<le> sz p" using assms(1) unfolding tree_size_def by simp
  with Cons show ?case by simp
qed simp

text \<open>The queue of folders still to be visited determines what the rest of the scan adds.\<close>

definition scan_ends ::
  "listing \<Rightarrow> (path_buf \<Rightarrow> nat) \<Rightarrow> path_buf list \<Rightarrow> local_file_meta list \<Rightarrow> path_buf list \<Rightarrow> 'w
   \<Rightarrow> ((adapter_error + local_file_meta list \<times> path_buf list) \<times> 'w) option \<Rightarrow> bool" where
  "scan_ends ls sz queue out syms w r \<longleftrightarrow>
     ((\<exists>p. r = Some (Inl (AeInvalidPath (overflow_message p)), w))
        \<and> SCAN_QUEUE_DEPTH_MAX < sum_list (map sz queue))
     \<or> (\<exists>out' syms'. r = Some (Inr (out @ out', syms @ syms'), w)
          \<and> set out' = (\<Union>d\<in>dirs_from ls queue. set (reported ls d))
          \<and> set syms' = (\<Union>d\<in>dirs_from ls queue. set (links ls d)))"

lemma scan_loop_quiet:
  assumes quiet: "quiet_tree D w ls" and sz: "tree_size ls sz" and "\<forall>p\<in>set queue. ls p \<noteq> None"
  shows "scan_ends ls sz queue out syms w (scan_loop D (queue, out, syms) w)"
  using assms(3)
proof (induction "sum_list (map sz queue)" arbitrary: queue out syms rule: less_induct)
  case less
  show ?case
  proof (cases queue)
    case Nil
    then show ?thesis by (simp add: scan_loop.simps scan_ends_def)
  next
    case (Cons d rest)
    have d: "ls d \<noteq> None" and rest: "\<forall>p\<in>set rest. ls p \<noteq> None" using less.prems Cons by auto
    have grow: "sum_list (map sz queue) = Suc (sum_list (map sz (rest @ subdirs ls d)))"
      using sz d Cons unfolding tree_size_def by simp
    have listed: "\<forall>p\<in>set (rest @ subdirs ls d). ls p \<noteq> None"
      using rest subdirs_listed [OF quiet d] by auto
    consider (overflow) p where "scan_directory D d (rest, out, syms) w = (Inl (AeInvalidPath (overflow_message p)), w)"
        and "SCAN_QUEUE_DEPTH_MAX < length (rest @ subdirs ls d)"
      | (step) "scan_directory D d (rest, out, syms) w = (Inr (rest @ subdirs ls d, out @ reported ls d, syms @ links ls d), w)"
      using scan_directory_quiet [OF quiet d, of rest out syms] by (auto simp: overflows_def)
    then show ?thesis
    proof cases
      case overflow
      moreover have "length (rest @ subdirs ls d) \<le> sum_list (map sz (rest @ subdirs ls d))"
        by (rule length_le_size [OF sz listed])
      ultimately show ?thesis
        using Cons grow by (auto simp: scan_loop.simps scan_ends_def)
    next
      case step
      have loop: "scan_loop D (queue, out, syms) w =
          scan_loop D (rest @ subdirs ls d, out @ reported ls d, syms @ links ls d) w"
        by (subst scan_loop.simps) (simp add: Cons step)
      have "scan_ends ls sz (rest @ subdirs ls d) (out @ reported ls d) (syms @ links ls d) w
          (scan_loop D (rest @ subdirs ls d, out @ reported ls d, syms @ links ls d) w)"
        by (rule less.hyps [OF _ listed]) (simp only: grow)
      moreover have "dirs_from ls queue = {d} \<union> dirs_from ls (rest @ subdirs ls d)"
        using Cons by (auto simp: dirs_from_Cons)
      ultimately show ?thesis
        unfolding loop scan_ends_def using grow
        by (elim disjE conjE exE) (fastforce intro: less_trans)+
    qed
  qed
qed

text \<open>
  C24: The scan of a local root is complete and ends: on a finite folder tree that nothing
  changes meanwhile it returns, reporting exactly the files and folders that no skip rule
  excludes in the folders reachable without following links or skipped folders, each with its
  size and modification time and without a hash, and exactly the symbolic links it passed;
  unless the tree has more than 65536 folders, where the queue may overflow and the scan fails.
  The skip rules are those of the code (symbolic links, resource forks, the deny list, names
  that are no UTF-8); the length of a path is not among them, so paths longer than
  \<open>MAX_PATH_BYTES\<close>, which the specification wants skipped, are reported too.
\<close>
theorem scan_reports_the_tree:
  assumes "quiet_tree D w ls" and "tree_size ls sz" and "ls (path_of base) \<noteq> None"
    and "dk_cancelled D w = (Inr (), w)"
  shows "case adapter_scan D base w of
      None \<Rightarrow> False
    | Some (Inl e, w') \<Rightarrow> w' = w \<and> SCAN_QUEUE_DEPTH_MAX < sz (path_of base) \<and> (\<exists>s. e = LfInvalidPath s)
    | Some (Inr scan, w') \<Rightarrow> w' = w
        \<and> set (ls_entries scan) = scanned_side ` (\<Union>d\<in>dirs_from ls [path_of base]. set (reported ls d))
        \<and> set (ls_symlinks_skipped scan) = (\<Union>d\<in>dirs_from ls [path_of base]. set (links ls d))"
proof -
  have "scan_ends ls sz [path_of base] [] [] w (scan_loop D ([path_of base], [], []) w)"
    by (rule scan_loop_quiet) (use assms in auto)
  then show ?thesis
    using assms(4) unfolding scan_ends_def
    by (auto simp: adapter_scan_def scan_with_skips_def)
qed

end
