(* ===== verification/Local_Props.thy ===== *)
theory Local_Props
  imports Local_Files Local_Scan
begin

text \<open>
  A concrete disk, the runs of the adapter on it, and what the adapter means for the engine:
  which errors reach the executor, what an executed operation does to the files, what a hash
  stands for, and what becomes of the events of a full watcher.
\<close>

section \<open>A disk\<close>

text \<open>
  Paths name nodes directly; a temporary file is a number.  Renaming a folder is not
  supported.
\<close>

datatype node = NFile bytes | NDir | NLink

record tiny_disk =
  td_nodes :: "(path_buf, node) table"
  td_temps :: "(nat, bytes) table"

definition td_files :: "tiny_disk \<Rightarrow> path_buf \<Rightarrow> bytes option" where
  "td_files w p = (case map_of (td_nodes w) p of Some (NFile bs) \<Rightarrow> Some bs | _ \<Rightarrow> None)"

definition td_temp :: "tiny_disk \<Rightarrow> nat \<Rightarrow> bytes" where
  "td_temp w t = (case map_of (td_temps w) t of None \<Rightarrow> [] | Some bs \<Rightarrow> bs)"

definition td_meta :: "node \<Rightarrow> fs_meta" where
  "td_meta n =
     (case n of
        NFile bs \<Rightarrow> \<lparr>fm_type = FtFile, fm_len = word_of_nat (length bs), fm_modified = Inr 5, fm_dev = 1\<rparr>
      | NDir \<Rightarrow> \<lparr>fm_type = FtDir, fm_len = 0, fm_modified = Inr 5, fm_dev = 1\<rparr>
      | NLink \<Rightarrow> \<lparr>fm_type = FtSymlink, fm_len = 0, fm_modified = Inr 5, fm_dev = 1\<rparr>)"

definition td_stat :: "path_buf \<Rightarrow> (tiny_disk, string, fs_meta) io" where
  "td_stat p w = (case map_of (td_nodes w) p of None \<Rightarrow> Inl ''No such file'' | Some n \<Rightarrow> Inr (td_meta n), w)"

fun td_text :: "path_buf \<Rightarrow> string" where
  "td_text (PathBuf s) = s"

definition td_children :: "tiny_disk \<Rightarrow> path_buf \<Rightarrow> string list" where
  "td_children w d =
     concat (map (\<lambda>(p, n). case strip_prefix (td_text d @ ''/'') (td_text p) of
                             Some name \<Rightarrow> if name \<noteq> [] \<and> CHR ''/'' \<notin> set name then [name] else []
                           | None \<Rightarrow> []) (td_nodes w))"

definition tiny_lib :: "tiny_disk disk_lib" where
  "tiny_lib =
     \<lparr>dk_read_dir = (\<lambda>d w. (Inr (map Inr (td_children w d)), w)),
      dk_entry_metadata = td_stat, dk_metadata = td_stat,
      dk_exists = (\<lambda>p w. (map_of (td_nodes w) p \<noteq> None, w)),
      dk_read = (\<lambda>p w. (case td_files w p of None \<Rightarrow> Inl ''No such file'' | Some bs \<Rightarrow> Inr bs, w)),
      dk_open = (\<lambda>p. returnE 0), dk_blocks = (\<lambda>h n w. ([], w)), dk_sync = (\<lambda>h. returnE ()),
      dk_temp_new = (\<lambda>p w. (Inr 0, w\<lparr>td_temps := AList.update 0 [] (td_temps w)\<rparr>)),
      dk_temp_write = (\<lambda>t bs w. (Inr (), w\<lparr>td_temps := AList.update t (td_temp w t @ bs) (td_temps w)\<rparr>)),
      dk_temp_sync = (\<lambda>t. returnE ()),
      dk_temp_persist = (\<lambda>t p w. (Inr (), w\<lparr>td_nodes := AList.update p (NFile (td_temp w t)) (td_nodes w)\<rparr>)),
      dk_temp_drop = (\<lambda>t w. w\<lparr>td_temps := AList.delete t (td_temps w)\<rparr>),
      dk_rename = (\<lambda>p q w. case map_of (td_nodes w) p of
                       Some (NFile bs) \<Rightarrow> (Inr (), w\<lparr>td_nodes := AList.update q (NFile bs) (AList.delete p (td_nodes w))\<rparr>)
                     | _ \<Rightarrow> (Inl ''No such file'', w)),
      dk_copy = (\<lambda>p q w. case td_files w p of
                       None \<Rightarrow> (Inl ''No such file'', w)
                     | Some bs \<Rightarrow> (Inr (), w\<lparr>td_nodes := AList.update q (NFile bs) (td_nodes w)\<rparr>)),
      dk_remove_file = (\<lambda>p w. if td_files w p = None then (Inl ''No such file'', w)
                              else (Inr (), w\<lparr>td_nodes := AList.delete p (td_nodes w)\<rparr>)),
      dk_remove_dir = (\<lambda>p w. if map_of (td_nodes w) p = Some NDir \<and> td_children w p = []
                             then (Inr (), w\<lparr>td_nodes := AList.delete p (td_nodes w)\<rparr>) else (Inl ''not empty'', w)),
      dk_create_dir_all = (\<lambda>p w. if map_of (td_nodes w) p = None
                                 then (Inr (), w\<lparr>td_nodes := AList.update p NDir (td_nodes w)\<rparr>) else (Inr (), w)),
      dk_cancelled = returnE (), dk_blake3 = (\<lambda>bs. ContentHash (take 32 bs))\<rparr>"

lemma td_files_cong: "td_nodes w' = td_nodes w \<Longrightarrow> td_files w' = td_files w"
  by (simp add: td_files_def fun_eq_iff)

lemma td_files_delete:
  "td_files (w\<lparr>td_nodes := AList.delete p ns\<rparr>) = (td_files (w\<lparr>td_nodes := ns\<rparr>))(p := None)"
  by (simp add: td_files_def fun_eq_iff delete_conv')

lemma td_files_update:
  "td_files (w\<lparr>td_nodes := AList.update p n ns\<rparr>) =
     (td_files (w\<lparr>td_nodes := ns\<rparr>))(p := (case n of NFile bs \<Rightarrow> Some bs | _ \<Rightarrow> None))"
  by (simp add: td_files_def fun_eq_iff update_conv')

lemma td_files_temps [simp]: "td_files (w\<lparr>td_temps := ts\<rparr>) = td_files w"
  by (simp add: td_files_def fun_eq_iff)

lemma td_files_absent: "td_files w p = None \<Longrightarrow> (td_files w)(p := None) = td_files w"
  by (rule fun_upd_idem)

lemma tiny_frames: "file_frames tiny_lib td_files"
  unfolding file_frames_def tiny_lib_def Let_def
  by (auto simp: keeps_def td_stat_def liftE_def returnE_def td_files_update td_files_absent td_files_def)

lemma tiny_temps: "temp_laws tiny_lib td_temp"
  by (auto simp: temp_laws_def tiny_lib_def td_temp_def update_conv' returnE_def)

lemma td_files_node: "map_of (td_nodes w) p = Some n \<Longrightarrow> td_files w p = (case n of NFile bs \<Rightarrow> Some bs | _ \<Rightarrow> None)"
  by (simp add: td_files_def)

lemma tiny_files: "file_laws tiny_lib id (\<lambda>p. True) td_files td_temp"
  unfolding file_laws_def tiny_lib_def
  by (auto simp: td_files_update td_files_delete td_files_node td_files_absent split: option.splits node.splits if_splits)

lemma tiny_disk_laws: "disk_laws tiny_lib id (\<lambda>p. True) td_files td_temp"
  by (simp add: disk_laws_def tiny_frames tiny_temps tiny_files)

lemma tiny_moves: "move_laws tiny_lib id (\<lambda>p. True) td_files"
  unfolding move_laws_def tiny_lib_def
  by (auto simp: keeps_def td_stat_def td_files_update intro: exI [of _ "td_files _ _"] split: option.splits node.splits)

text \<open>The witnesses of the theorems about the adapter and the scan.\<close>

theorem adapter_is_local_files_witness:
  "moving_files (local_fs_adapter (throwE LfRaced) tiny_lib) (id \<circ> path_of) td_files ((\<lambda>p. True) \<circ> path_of)"
  by (rule adapter_is_local_files [OF tiny_disk_laws tiny_moves]) (rule keeps_throw)

section \<open>The executor on the adapter\<close>

text \<open>A drive whose calls do not touch the local files.\<close>

definition drive_apart :: "('w \<Rightarrow> 'k \<Rightarrow> bytes option) \<Rightarrow> 'w remote_drive \<Rightarrow> bool" where
  "drive_apart files rd \<longleftrightarrow>
     (\<forall>F i. keeps (\<lambda>w. files w = F) (rd_download rd i))
     \<and> (\<forall>F i n bs. keeps (\<lambda>w. files w = F) (rd_upload_small rd i n bs))
     \<and> (\<forall>F i n sz. keeps (\<lambda>w. files w = F) (rd_upload_session rd i n sz))"

lemma drive_apartD:
  assumes "drive_apart files rd"
  shows "rd_download rd i w = (r, w') \<Longrightarrow> files w' = files w"
    and "rd_upload_small rd i n bs w = (s, w') \<Longrightarrow> files w' = files w"
    and "rd_upload_session rd i n sz w = (u, w') \<Longrightarrow> files w' = files w"
proof -
  note apart = assms [unfolded drive_apart_def]
  note small = apart [THEN conjunct2, THEN conjunct1, rule_format, of "files w"]
    and session = apart [THEN conjunct2, THEN conjunct2, rule_format, of "files w"]
  show "files w' = files w" if "rd_download rd i w = (r, w')"
    by (rule keepsD [OF apart [THEN conjunct1, rule_format, of "files w"] refl that])
  show "files w' = files w" if "rd_upload_small rd i n bs w = (s, w')" by (rule keepsD [OF small refl that])
  show "files w' = files w" if "rd_upload_session rd i n sz w = (u, w')" by (rule keepsD [OF session refl that])
qed

text \<open>
  C22: What a transfer does to the local files, over the real adapter with failures at any
  call: a download changes no file but the one of its path, which afterwards is as it was or,
  if the drive returned the item, has exactly the bytes the drive returned, never a part of
  them, and has them if the operation succeeds; an upload changes no file at all.
\<close>
theorem transfers_touch_one_file:
  assumes laws: "disk_laws D key plain files temps" and apart: "drive_apart files rd"
    and p: "join_path lroot (rel_str (op_relative_path op)) = Inr p"
    and kind: "op_kind op = Download \<or> op_kind op = Upload"
    and run: "execute L op lroot (local_fs_adapter stuck D) rd w = (r, w')"
  shows "(files w' = files w
      \<or> op_kind op = Download
        \<and> (\<exists>bs w1. rd_download rd (RemoteItemId (unwrap_or_default (json_get_str (op_metadata op) ''remote_item_id''))) w
              = (Inr bs, w1) \<and> files w' = (files w)(key (path_of p) \<mapsto> bs)))
    \<and> (op_kind op = Download \<longrightarrow> (\<forall>st. r = Inr st \<longrightarrow>
        (\<exists>bs w1. rd_download rd (RemoteItemId (unwrap_or_default (json_get_str (op_metadata op) ''remote_item_id''))) w
            = (Inr bs, w1) \<and> files w' = (files w)(key (path_of p) \<mapsto> bs))))"
proof (cases "op_kind op = Download")
  case True
  with run have "execute_download op lroot (local_fs_adapter stuck D) rd w = (r, w')" by (simp add: execute_def)
  from local_files.download_effect [OF adapter_local_files [OF laws] drive_apartD(1) [OF apart] this p]
  show ?thesis using True by auto
next
  case False
  with kind run have "execute_upload op lroot (local_fs_adapter stuck D) rd w = (r, w')" by (simp add: execute_def)
  from local_files.upload_effect [OF adapter_local_files [OF laws] drive_apartD(2,3) [OF apart] this]
  show ?thesis using False by auto
qed


text \<open>A drive that serves one file.\<close>

definition one_file_drive :: "bytes \<Rightarrow> 'w remote_drive" where
  "one_file_drive bs =
     \<lparr>rd_delta = (\<lambda>_ _. throwE GeNotFound), rd_item_by_path = (\<lambda>_ _. throwE GeNotFound),
      rd_download = (\<lambda>_. returnE bs), rd_upload_small = (\<lambda>_ _ _. throwE GeNotFound),
      rd_upload_session = (\<lambda>_ _ _. throwE GeNotFound), rd_rename = (\<lambda>_ _. throwE GeNotFound),
      rd_delete = (\<lambda>_. throwE GeNotFound), rd_mkdir = (\<lambda>_ _. throwE GeNotFound),
      rd_subscribe = (\<lambda>_ _ _. throwE GeNotFound), rd_unsubscribe = (\<lambda>_. throwE GeNotFound),
      rd_renew_subscription = (\<lambda>_ _. throwE GeNotFound)\<rparr>"

lemma one_file_apart: "drive_apart files (one_file_drive bs)"
  by (simp add: drive_apart_def one_file_drive_def)

abbreviation (input) small_disk :: tiny_disk where
  "small_disk \<equiv> \<lparr>td_nodes = [(PathBuf ''/r'', NDir), (PathBuf ''/r/d'', NDir), (PathBuf ''/r/d/a.bin'', NFile [9]),
     (PathBuf ''/r/l'', NLink), (PathBuf ''/r/.DS_Store'', NFile [1])], td_temps = []\<rparr>"

lemma download_run:
  "\<exists>w'. execute ascii_lib (sample_op Download) (AbsPath ''/r'') (local_fs_adapter (throwE LfRaced) tiny_lib)
     (one_file_drive [1, 2]) small_disk = (Inr Success, w')"
proof -
  have parent: "path_parent (PathBuf ''/r/d/a.bin'') = Some (PathBuf ''/r/d'')" by code_simp
  have chunks: "chunks_of HASH_BLOCK_BYTES [1, 2 :: u8] = [[1, 2]]"
    by (simp add: chunks_of.simps HASH_BLOCK_BYTES_def)
  show ?thesis
    by (simp add: execute_def sample_op_def make_op_def execute_download_def join_sample local_fs_adapter_def
        adapter_write_atomic_def in_pool_def write_atomic_def path_of_def parent chunks fill_and_persist_def or_drop_def
        tiny_lib_def one_file_drive_def td_stat_def td_meta_def written_side_def io_err_def io_simps update_conv'
        del: path_parent.simps)
qed

theorem transfers_touch_one_file_witness:
  "\<exists>w'. execute ascii_lib (sample_op Download) (AbsPath ''/r'') (local_fs_adapter (throwE LfRaced) tiny_lib)
       (one_file_drive [1, 2]) small_disk = (Inr Success, w')
     \<and> td_files w' = (td_files small_disk)(PathBuf ''/r/d/a.bin'' \<mapsto> [1, 2])"
proof -
  have p: "join_path (AbsPath ''/r'') (rel_str (op_relative_path (sample_op Download))) = Inr (AbsPath ''/r/d/a.bin'')"
    by (simp add: sample_op_def make_op_def join_sample)
  have kind: "op_kind (sample_op Download) = Download \<or> op_kind (sample_op Download) = Upload"
    by (simp add: sample_op_def make_op_def)
  obtain w' where run: "execute ascii_lib (sample_op Download) (AbsPath ''/r'')
      (local_fs_adapter (throwE LfRaced) tiny_lib) (one_file_drive [1, 2]) small_disk = (Inr Success, w')"
    using download_run by blast
  from transfers_touch_one_file [OF tiny_disk_laws one_file_apart p kind run] run show ?thesis
    by (auto simp: sample_op_def make_op_def one_file_drive_def returnE_def path_of_def)
qed

section \<open>Errors\<close>

lemma in_pool_InlD: "in_pool D m w = (Inl e, w') \<Longrightarrow> (\<exists>s. e = LfIo s) \<or> (\<exists>a. e = adapter_map_err a)"
  by (auto simp: in_pool_def bindE_def map_errE_def split: prod.splits sum.splits)

lemma adapter_scan_InlD: "adapter_scan D p w = Some (Inl e, w') \<Longrightarrow> (\<exists>s. e = LfIo s) \<or> (\<exists>a. e = adapter_map_err a)"
  by (auto simp: adapter_scan_def split: prod.splits sum.splits option.splits)

text \<open>
  Every failure of the adapter reaches the engine as an I/O error, an invalid path, a race
  or a cross-volume rename: a missing file, a missing permission or a full disk are never
  reported as such, so the executor's rule that deleting a missing file succeeds does not apply,
  and such failures are retried.
\<close>
theorem adapter_error_kinds:
  assumes "(\<exists>p. adapter_read D p w = (Inl e, w')) \<or> (\<exists>p bs. adapter_write_atomic D p bs w = (Inl e, w'))
    \<or> (\<exists>p q. adapter_rename D p q w = (Inl e, w')) \<or> (\<exists>p. adapter_delete D p w = (Inl e, w'))
    \<or> (\<exists>p. adapter_mkdir_p D p w = (Inl e, w')) \<or> (\<exists>p. adapter_hash D p w = (Inl e, w'))
    \<or> (\<exists>p. adapter_scan D p w = Some (Inl e, w'))"
  shows "e \<in> range LfIo \<union> range LfInvalidPath \<union> range LfCrossVolumeRename \<union> {LfRaced}"
proof -
  have "(\<exists>s. e = LfIo s) \<or> (\<exists>a. e = adapter_map_err a)"
    using assms by (elim disjE exE) (auto simp: adapter_calls dest: in_pool_InlD adapter_scan_InlD)
  then show ?thesis
  proof (elim disjE exE)
    fix a
    assume "e = adapter_map_err a"
    then show ?thesis by (cases a) auto
  qed simp
qed

theorem adapter_error_kinds_witness:
  "\<exists>e. adapter_read tiny_lib (AbsPath ''/r/gone'') small_disk = (Inl e, small_disk)
     \<and> e \<in> range LfIo \<union> range LfInvalidPath \<union> range LfCrossVolumeRename \<union> {LfRaced}"
proof -
  have "adapter_read tiny_lib (AbsPath ''/r/gone'') small_disk = (Inl (LfIo ''No such file''), small_disk)"
    by (simp add: adapter_read_def in_pool_def io_err_def io_simps tiny_lib_def td_files_def path_of_def)
  then show ?thesis using adapter_error_kinds [where D = tiny_lib and w = small_disk] by blast
qed

theorem deleting_a_missing_file_fails:
  assumes "op_kind op = LocalDelete" and "join_path lroot (rel_str (op_relative_path op)) = Inr p"
    and "dk_cancelled D w = (Inr (), w1)" and "dk_metadata D (path_of p) w1 = (Inl msg, w2)"
  shows "execute L op lroot (local_fs_adapter stuck D) rd w = (Inl (ExLocal (LfIo msg)), w2)
    \<and> is_retriable (ExLocal (LfIo msg))"
  using assms
  by (simp add: execute_def execute_local_delete_def local_fs_adapter_def adapter_delete_def in_pool_def delete_path_def
      io_err_def io_simps)


section \<open>A scan\<close>

definition small_listing :: listing where
  "small_listing d =
     (if d = PathBuf ''/r''
      then Some [(''d'', td_meta NDir), (''l'', td_meta NLink), (''.DS_Store'', td_meta (NFile [1]))]
      else if d = PathBuf ''/r/d'' then Some [(''a.bin'', td_meta (NFile [9]))] else None)"

lemma small_skips:
  "classify_skip ''d'' (td_meta NDir) = None" "classify_skip ''l'' (td_meta NLink) = Some SkipSymlink"
  "classify_skip ''.DS_Store'' (td_meta (NFile [1])) = Some SkipDenyListed"
  "classify_skip ''a.bin'' (td_meta (NFile [9])) = None"
  unfolding classify_skip_def by (simp_all add: td_meta_def SKIP_NAMES_def)

lemma small_subdirs:
  "subdirs small_listing (PathBuf ''/r'') = [PathBuf ''/r/d'']" "subdirs small_listing (PathBuf ''/r/d'') = []"
  by (simp_all add: subdirs_def entries_of_def small_listing_def kept_dir_def kept_def
      small_skips [unfolded td_meta_def, simplified] td_meta_def starts_with_char_def)

lemma small_listed: "small_listing d = Some es \<Longrightarrow> d = PathBuf ''/r'' \<or> d = PathBuf ''/r/d''"
  by (auto simp: small_listing_def split: if_splits)

lemma small_children:
  "td_children small_disk (PathBuf ''/r'') = [''d'', ''l'', ''.DS_Store'']"
  "td_children small_disk (PathBuf ''/r/d'') = [''a.bin'']"
  by (simp_all add: td_children_def)

lemma small_quiet: "quiet_tree tiny_lib small_disk small_listing"
  unfolding quiet_tree_def small_listing_def
  by (auto simp: tiny_lib_def td_stat_def td_meta_def small_children starts_with_char_def kept_dir_def)

theorem scan_reports_the_tree_witness:
  "\<exists>scan. adapter_scan tiny_lib (AbsPath ''/r'') small_disk = Some (Inr scan, small_disk)
     \<and> PathBuf ''/r/l'' \<in> set (ls_symlinks_skipped scan)"
proof -
  have sz: "tree_size small_listing (\<lambda>d. if d = PathBuf ''/r'' then 2 else 1)"
    by (auto simp: tree_size_def small_subdirs dest!: small_listed)
  have listed: "small_listing (path_of (AbsPath ''/r'')) \<noteq> None" by (simp add: path_of_def small_listing_def)
  have calm: "dk_cancelled tiny_lib small_disk = (Inr (), small_disk)" by (simp add: tiny_lib_def returnE_def)
  have here: "PathBuf ''/r'' \<in> dirs_from small_listing [path_of (AbsPath ''/r'')]"
    by (auto simp: dirs_from_def path_of_def intro: below_dir.here)
  have link: "PathBuf ''/r/l'' \<in> set (links small_listing (PathBuf ''/r''))"
    by (simp add: links_def entries_of_def small_listing_def td_meta_def starts_with_char_def)
  from scan_reports_the_tree [OF small_quiet sz listed calm] here link show ?thesis
    by (auto simp: SCAN_QUEUE_DEPTH_MAX_def path_of_def split: option.splits prod.splits sum.splits)
qed

end
