(* ===== verification/Local_More.thy ===== *)
theory Local_More
  imports Local_Adapter "HOL-Library.Sublist"
begin

text \<open>
  Two further properties of the local adapter: the path of a local file relative to a root is
  the inverse of its composition with the root, and a full watcher loses events without a sign.
\<close>

section \<open>Relative paths\<close>

lemma trim_front_idem: "trim_front (trim_front s) = trim_front s"
proof (induction "length s" arbitrary: s rule: less_induct)
  case less
  show ?case
  proof (cases "trim_front s = s")
    case False
    then obtain c r where s: "s = c # r" by (cases s) auto
    with False have "trim_front s = trim_front r"
      by (subst trim_front.simps) (subst (asm) trim_front.simps, auto split: if_splits)
    with less s show ?thesis by simp
  qed simp
qed

lemma strip_names_trim: "strip_names ns (trim_front s) = strip_names ns s"
  by (cases ns) (simp_all add: trim_front_idem)

lemma strip_names_slash: "strip_names ns (CHR ''/'' # s) = strip_names ns s"
  using strip_names_trim [of ns "CHR ''/'' # s"] strip_names_trim [of ns s] by simp

lemma path_names_append: "path_names (a @ CHR ''/'' # b) = path_names a @ path_names b"
  by (simp add: path_names_def split_on_append)

lemma path_names_single: "CHR ''/'' \<notin> set n \<Longrightarrow> path_names n = (if n = [] \<or> n = ''.'' then [] else [n])"
  by (simp add: path_names_def split_on_no_sep)

lemma strip_one_name:
  assumes "CHR ''/'' \<notin> set n" and "s = [] \<or> hd s = CHR ''/''"
  shows "strip_names (path_names n @ ns) (n @ s) = strip_names ns s"
proof (cases "n = [] \<or> n = ''.''")
  case True
  have "trim_front (''.'' @ s) = trim_front s"
    using assms(2) by (cases s) (simp_all add: trim_front.simps [of "CHR ''.'' # _"])
  then have "strip_names ns (''.'' @ s) = strip_names ns s"
    using strip_names_trim [of ns "''.'' @ s"] strip_names_trim [of ns s] by metis
  with True assms(1) show ?thesis by (auto simp: path_names_single)
next
  case False
  with assms show ?thesis
    by (simp add: path_names_single trim_front_name takeWhile_name)
qed

lemma strip_own_names:
  assumes "s = [] \<or> hd s = CHR ''/''"
  shows "strip_names (path_names b @ ns) (b @ s) = strip_names ns s"
  using assms
proof (induction "length b" arbitrary: b rule: less_induct)
  case less
  show ?case
  proof (cases "CHR ''/'' \<in> set b")
    case False
    then show ?thesis by (rule strip_one_name) (use less.prems in simp)
  next
    case True
    then obtain x y where b: "b = x @ CHR ''/'' # y" and x: "CHR ''/'' \<notin> set x" by (auto dest: split_list_first)
    have "strip_names (path_names b @ ns) (b @ s) = strip_names (path_names y @ ns) (CHR ''/'' # y @ s)"
      using strip_one_name [OF x, of "CHR ''/'' # y @ s" "path_names y @ ns"] by (simp add: b path_names_append)
    also have "\<dots> = strip_names (path_names y @ ns) (y @ s)" by (rule strip_names_slash)
    also have "\<dots> = strip_names ns s" by (rule less.hyps) (use b less.prems in simp_all)
    finally show ?thesis .
  qed
qed

text \<open>A relative path without empty and \<open>.\<close> components.\<close>

definition normal_rel :: "rel_path \<Rightarrow> bool" where
  "normal_rel p \<longleftrightarrow> (\<forall>n\<in>set (split_on CHR ''/'' (rel_str p)). n \<noteq> [] \<and> n \<noteq> ''.'')"

lemma trim_normal:
  assumes "\<forall>n\<in>set (split_on CHR ''/'' s). n \<noteq> [] \<and> n \<noteq> ''.''"
  shows "trim_front s = s" and "trim_back (rev s) = rev s"
proof -
  show "trim_front s = s"
  proof (cases "CHR ''/'' \<in> set s")
    case True
    then obtain x y where s: "s = x @ CHR ''/'' # y" and x: "CHR ''/'' \<notin> set x" by (auto dest: split_list_first)
    with assms have "x \<noteq> []" "x \<noteq> ''.''" by (auto simp: split_on_append split_on_no_sep)
    with x show ?thesis unfolding s by (intro trim_front_name) auto
  next
    case False
    with assms trim_front_name [of s "[]"] show ?thesis by (simp add: split_on_no_sep)
  qed
  show "trim_back (rev s) = rev s"
  proof (cases "CHR ''/'' \<in> set s")
    case True
    then obtain x y where s: "s = x @ CHR ''/'' # y" and y: "CHR ''/'' \<notin> set y" by (auto dest: split_list_last)
    with assms have "y \<noteq> []" "y \<noteq> ''.''" by (auto simp: split_on_append split_on_no_sep)
    with y trim_back_name [of y "rev (x @ ''/'')"] show ?thesis by (simp add: s)
  next
    case False
    with assms trim_back_name [of s "[]"] show ?thesis by (simp add: split_on_no_sep)
  qed
qed

text \<open>
  \<open>relativise\<close> undoes \<open>absolutise\<close>: a normalised relative path that is composed with any
  root comes back unchanged when it is taken relative to the same root, also for the root
  \<open>/\<close> and for roots with repeated or trailing slashes.
\<close>
theorem relativise_absolutise:
  assumes rel: "wf_rel rel" "normal_rel rel" "nfc (rel_str rel) = rel_str rel"
    and utf8: "utf8_valid (map of_char (rel_str rel))"
    and p: "absolutise base rel = Some p" and base: "wf_abs base"
  shows "relativise nfc base p = Inr rel"
proof -
  let ?b = "abs_str base"
  have ne: "?b \<noteq> []" using base by (auto simp: wf_abs_def starts_with_char_def)
  have p': "abs_str p = ?b @ (if last ?b = CHR ''/'' then [] else ''/'') @ rel_str rel"
    using p by (auto simp: absolutise_def Let_def abs_path_from_str_Inr split: sum.splits)
  have "path_strip_prefix ?b (abs_str p) = strip_names [] (rel_str rel)"
  proof (cases "last ?b = CHR ''/''")
    case True
    define b where "b = butlast ?b"
    have b: "?b = b @ ''/''" using ne True by (metis append_butlast_last_id b_def)
    have "path_names ?b = path_names b" using path_names_append [of b "[]"] b by (simp add: path_names_single)
    then show ?thesis
      using strip_own_names [of "CHR ''/'' # rel_str rel" b "[]"] True p' b
      by (simp add: path_strip_prefix_def strip_names_slash del: strip_names.simps)
  next
    case False
    then show ?thesis
      using strip_own_names [of "CHR ''/'' # rel_str rel" ?b "[]"] p'
      by (simp add: path_strip_prefix_def strip_names_slash del: strip_names.simps)
  qed
  also have "\<dots> = Some (rel_str rel)"
    using trim_normal [OF rel(2) [unfolded normal_rel_def]] by simp
  finally have "path_strip_prefix ?b (abs_str p) = Some (rel_str rel)" .
  moreover have "rel_path_from_str nfc (rel_str rel) = Inr rel"
    using rel by (cases rel) (simp add: rel_path_from_str_Inr wf_rel_def)
  moreover have "rel_str rel \<noteq> []" using rel(1) by (simp add: wf_rel_def wf_path_def)
  ultimately show ?thesis using utf8 by (simp add: relativise_def)
qed

theorem relativise_absolutise_witness:
  "relativise id (AbsPath ''/r//s/'') (AbsPath ''/r//s/d/a.bin'') = Inr (RelPath ''d/a.bin'')"
proof (rule relativise_absolutise)
  show "absolutise (AbsPath ''/r//s/'') (RelPath ''d/a.bin'') = Some (AbsPath ''/r//s/d/a.bin'')" by code_simp
qed (simp_all add: wf_rel_def wf_abs_def wf_path_def starts_with_char_def MAX_PATH_BYTES_def normal_rel_def)

section \<open>A full watcher\<close>

text \<open>The events that the callback is asked to deliver.\<close>

definition wanted :: "watch_event list \<Rightarrow> local_event list" where
  "wanted es = concat (map (\<lambda>e. case e of
      Notified (Inr ev) \<Rightarrow> (case translate ev of None \<Rightarrow> [] | Some x \<Rightarrow> [x]) | _ \<Rightarrow> []) es)"

lemma translate_not_overflow: "Some EvOverflow \<noteq> translate ev"
  by (auto simp: translate_def split: list.splits notify_kind.splits)

lemma on_notify_full:
  assumes "FSEVENT_BUFFER_DEPTH \<le> length (ec_queue ch)"
  shows "on_notify res ch = ch"
  using assms by (auto simp: on_notify_def event_try_send_def split: option.splits)

lemma on_notify_event:
  "on_notify (Inr ev) ch = ch \<or> (\<exists>x. translate ev = Some x \<and> on_notify (Inr ev) ch = ch\<lparr>ec_queue := ec_queue ch @ [x]\<rparr>)"
  by (auto simp: on_notify_def event_try_send_def split: option.splits)

lemma watch_run_subseq:
  assumes "\<forall>m. Notified (Inl m) \<notin> set es" and "watch_run es (ch, got) = (ch', got')"
  shows "\<exists>new. subseq new (wanted es) \<and> got' @ ec_queue ch' = got @ ec_queue ch @ new"
  using assms
proof (induction es arbitrary: ch got)
  case (Cons e es)
  have es: "\<forall>m. Notified (Inl m) \<notin> set es" using Cons.prems(1) by simp
  show ?case
  proof (cases e)
    case (Notified res)
    with Cons.prems(1) obtain ev where ev: "res = Inr ev" by (cases res) auto
    have run: "watch_run es (on_notify (Inr ev) ch, got) = (ch', got')" using Cons.prems(2) Notified ev by simp
    from Cons.IH [OF es run] obtain new
      where new: "subseq new (wanted es)" "got' @ ec_queue ch' = got @ ec_queue (on_notify (Inr ev) ch) @ new" by blast
    have w: "wanted (e # es) = (case translate ev of None \<Rightarrow> [] | Some x \<Rightarrow> [x]) @ wanted es"
      by (simp add: wanted_def Notified ev)
    from on_notify_event [of ev ch] show ?thesis
    proof (elim disjE exE conjE)
      assume "on_notify (Inr ev) ch = ch"
      with new w show ?thesis by (intro exI [of _ new]) (auto intro: subseq_drop_many)
    next
      fix x
      assume "translate ev = Some x" "on_notify (Inr ev) ch = ch\<lparr>ec_queue := ec_queue ch @ [x]\<rparr>"
      with new w show ?thesis by (intro exI [of _ "x # new"]) simp
    qed
  next
    case Received
    have w: "wanted (e # es) = wanted es" by (simp add: wanted_def Received)
    show ?thesis
    proof (cases "ec_queue ch")
      case Nil
      with Cons.prems(2) Received have "watch_run es (ch, got) = (ch', got')" by (simp add: event_recv_def)
      from Cons.IH [OF es this] show ?thesis by (simp add: w)
    next
      case (Cons x xs)
      with Cons.prems(2) Received have "watch_run es (ch\<lparr>ec_queue := xs\<rparr>, got @ [x]) = (ch', got')"
        by (simp add: event_recv_def)
      from Cons.IH [OF es this] show ?thesis by (simp add: w Cons)
    qed
  qed
qed (simp add: wanted_def)

text \<open>
  The consumer of a watcher is never told that events were lost: as long as the operating
  system reports no error of its own, what it receives is a subsequence of the events and
  contains no overflow event, although a full channel drops every further event: the overflow
  event is sent into the same full channel and dropped with it.
\<close>
theorem watcher_overflow_is_silent:
  assumes "\<forall>m. Notified (Inl m) \<notin> set es" and "watch_run es (\<lparr>ec_queue = [], ec_closed = False\<rparr>, []) = (ch, got)"
  shows "subseq (got @ ec_queue ch) (wanted es) \<and> EvOverflow \<notin> set (got @ ec_queue ch)
    \<and> (FSEVENT_BUFFER_DEPTH \<le> length (ec_queue ch) \<longrightarrow> (\<forall>res. on_notify res ch = ch))"
proof -
  have sub: "subseq (got @ ec_queue ch) (wanted es)"
    using watch_run_subseq [OF assms] by auto
  moreover have "EvOverflow \<notin> set (wanted es)"
    by (auto simp: wanted_def translate_not_overflow split: watch_event.splits sum.splits option.splits)
  ultimately show ?thesis
    using on_notify_full by (auto dest: list_emb_set)
qed

theorem watcher_overflow_is_silent_witness:
  "EvOverflow \<notin> set (snd (watch_run (replicate 3 (Notified (Inr \<lparr>ne_kind = NkCreate, ne_paths = [PathBuf ''/a'']\<rparr>)) @ [Received])
     (\<lparr>ec_queue = [], ec_closed = False\<rparr>, [])))"
proof -
  let ?es = "replicate 3 (Notified (Inr \<lparr>ne_kind = NkCreate, ne_paths = [PathBuf ''/a'']\<rparr>)) @ [Received]"
  obtain ch got where run: "watch_run ?es (\<lparr>ec_queue = [], ec_closed = False\<rparr>, []) = (ch, got)" by fastforce
  have "\<forall>m. Notified (Inl m) \<notin> set ?es" by simp
  from watcher_overflow_is_silent [OF this run] run show ?thesis by simp
qed

end
