(* ===== verification/Fake_Drive.thy ===== *)
theory Fake_Drive
  imports Mem_Store Graph_Http Local_Files
begin

text \<open>
  The in-memory drive of the engine's tests (\<open>crates/onesync-graph/src/fakes.rs\<close>): items by
  their identifier, each with the generation of its last change, and the generation of the
  drive as the delta cursor.  The interface \<open>delta_feed\<close> says what a client that follows the
  delta of a drive may rely on, and what its mirror is then worth; the drive provides it.
\<close>

section \<open>Items\<close>

record fake_item =
  fi_meta :: remote_item
  fi_bytes :: "bytes option"
  fi_generation :: u64

text \<open>The rest of the world is \<open>dw_ext\<close>.\<close>

record 'x drive_world =
  dw_items :: "(string, fake_item) table"
  dw_generation :: u64
  dw_ext :: 'x

definition bump_gen :: "'x drive_world \<Rightarrow> u64 \<times> 'x drive_world" where
  "bump_gen w = (dw_generation w + 1, w\<lparr>dw_generation := dw_generation w + 1\<rparr>)"

definition put_item :: "string \<Rightarrow> fake_item \<Rightarrow> 'x drive_world \<Rightarrow> 'x drive_world" where
  "put_item k f w = w\<lparr>dw_items := AList.update k f (dw_items w)\<rparr>"

definition gen_cursor :: "u64 \<Rightarrow> string" where
  "gen_cursor g = ''cursor-gen-'' @ show_nat (unat g)"

definition gen_etag :: "u64 \<Rightarrow> string" where
  "gen_etag g = ''etag-'' @ show_nat (unat g)"

definition child_id :: "string \<Rightarrow> string \<Rightarrow> string" where
  "child_id parent name = parent @ ''/'' @ name"

section \<open>Operations\<close>

definition delta_all :: "lib \<Rightarrow> 'x drive_world \<Rightarrow> remote_item list \<times> string" where
  "delta_all L w = (map fi_meta (table_values L (dw_items w)), gen_cursor (dw_generation w))"

text \<open>A cursor that cannot be read counts as the first.\<close>

definition cursor_gen :: "string \<Rightarrow> u64" where
  "cursor_gen c =
     (case Option.bind (strip_prefix ''cursor-gen-'' c) parse_u64 of None \<Rightarrow> 0 | Some n \<Rightarrow> word_of_nat n)"

definition delta_since :: "lib \<Rightarrow> string \<Rightarrow> 'x drive_world \<Rightarrow> remote_item list \<times> string" where
  "delta_since L c w =
     (map fi_meta (filter (\<lambda>fi. cursor_gen c < fi_generation fi) (table_values L (dw_items w))),
      gen_cursor (dw_generation w))"

definition uploaded_item :: "(bytes \<Rightarrow> bytes) \<Rightarrow> string \<Rightarrow> string \<Rightarrow> bytes \<Rightarrow> u64 \<Rightarrow> remote_item" where
  "uploaded_item sha1 parent name bytes g =
     \<lparr>ri_id = child_id parent name, ri_name = name, ri_size = word_of_nat (length bytes),
      ri_e_tag = Some (gen_etag g), ri_c_tag = None, ri_last_modified = None, ri_folder = None,
      ri_file = Some \<lparr>fh_sha1_hash = Some (concat (map show_byte_02x (sha1 bytes))), fh_quick_xor_hash = None\<rparr>,
      ri_deleted = None, ri_parent_reference = None\<rparr>"

definition drive_upload :: "(bytes \<Rightarrow> bytes) \<Rightarrow> string \<Rightarrow> string \<Rightarrow> bytes \<Rightarrow> 'x drive_world \<Rightarrow> remote_item \<times> 'x drive_world" where
  "drive_upload sha1 parent name bytes w =
     (case bump_gen w of (g, w1) \<Rightarrow>
        let meta = uploaded_item sha1 parent name bytes g
        in (meta, put_item (child_id parent name) \<lparr>fi_meta = meta, fi_bytes = Some bytes, fi_generation = g\<rparr> w1))"

definition drive_download :: "string \<Rightarrow> 'x drive_world \<Rightarrow> graph_internal_error + bytes" where
  "drive_download i w =
     (case Option.bind (map_of (dw_items w) i) fi_bytes of
        None \<Rightarrow> Inl (GiNotFound []) | Some bs \<Rightarrow> Inr bs)"

text \<open>A rename keeps the identifier; the generation moves also when the item is missing.\<close>

definition drive_rename :: "string \<Rightarrow> string \<Rightarrow> ('x drive_world, remote_item) gio" where
  "drive_rename i new_name w =
     (case bump_gen w of (g, w1) \<Rightarrow>
        (case map_of (dw_items w1) i of
           None \<Rightarrow> (Inl (GiNotFound []), w1)
         | Some fi \<Rightarrow>
             let fi' = fi\<lparr>fi_meta := (fi_meta fi)\<lparr>ri_name := new_name\<rparr>, fi_generation := g\<rparr>
             in (Inr (fi_meta fi'), put_item i fi' w1)))"

definition drive_delete :: "string \<Rightarrow> ('x drive_world, unit) gio" where
  "drive_delete i w =
     (case map_of (dw_items w) i of
        None \<Rightarrow> (Inl (GiNotFound []), w)
      | Some _ \<Rightarrow> (Inr (), w\<lparr>dw_items := AList.delete i (dw_items w)\<rparr>))"

definition made_folder :: "string \<Rightarrow> string \<Rightarrow> u64 \<Rightarrow> remote_item" where
  "made_folder parent name g =
     \<lparr>ri_id = child_id parent name, ri_name = name, ri_size = 0, ri_e_tag = Some (gen_etag g), ri_c_tag = None,
      ri_last_modified = None, ri_folder = Some 0, ri_file = None, ri_deleted = None, ri_parent_reference = None\<rparr>"

definition drive_mkdir :: "string \<Rightarrow> string \<Rightarrow> 'x drive_world \<Rightarrow> remote_item \<times> 'x drive_world" where
  "drive_mkdir parent name w =
     (case bump_gen w of (g, w1) \<Rightarrow>
        let meta = made_folder parent name g
        in (meta, put_item (child_id parent name) \<lparr>fi_meta = meta, fi_bytes = None, fi_generation = g\<rparr> w1))"

section \<open>The port\<close>

definition drive_delta :: "lib \<Rightarrow> delta_cursor option \<Rightarrow> 'x drive_world \<Rightarrow> delta_page" where
  "drive_delta L cursor w =
     (case (case cursor of None \<Rightarrow> delta_all L w | Some c \<Rightarrow> delta_since L (delta_cursor_str c) w) of
        (items, c') \<Rightarrow> \<lparr>dp_items = items, dp_next_link = None, dp_delta_token = Some (DeltaCursor c')\<rparr>)"

definition drive_item_by_path :: "lib \<Rightarrow> string \<Rightarrow> 'x drive_world \<Rightarrow> remote_item option" where
  "drive_item_by_path L path w =
     map_option fi_meta
       (find (\<lambda>fi. ri_name (fi_meta fi) = path \<or> ri_id (fi_meta fi) = path) (table_values L (dw_items w)))"

definition fake_drive :: "lib \<Rightarrow> (bytes \<Rightarrow> bytes) \<Rightarrow> 'x drive_world remote_drive" where
  "fake_drive L sha1 =
     \<lparr>rd_delta = (\<lambda>_ cursor w. (Inr (drive_delta L cursor w), w)),
      rd_item_by_path = (\<lambda>_ path w. (Inr (drive_item_by_path L path w), w)),
      rd_download = (\<lambda>i. map_errE map_to_port (\<lambda>w. (drive_download (remote_item_id_str i) w, w))),
      rd_upload_small = (\<lambda>parent name bytes. liftE (drive_upload sha1 (remote_item_id_str parent) name bytes)),
      rd_upload_session = (\<lambda>parent name size. returnE
         \<lparr>us_upload_url = ''fake://upload/'' @ remote_item_id_str parent @ ''/'' @ name, us_bytes_uploaded = 0\<rparr>),
      rd_rename = (\<lambda>i new_name. map_errE map_to_port (drive_rename (remote_item_id_str i) new_name)),
      rd_delete = (\<lambda>i. map_errE map_to_port (drive_delete (remote_item_id_str i))),
      rd_mkdir = (\<lambda>parent name. liftE (drive_mkdir (remote_item_id_str parent) name)),
      rd_subscribe = (\<lambda>_ _ client_state. returnE (''fake-sub-'' @ client_state)),
      rd_unsubscribe = (\<lambda>_. returnE ()),
      rd_renew_subscription = (\<lambda>_ _. returnE ())\<rparr>"

section \<open>Cursors\<close>

lemma digits_value_append:
  "digits_value n (xs @ ys) = Option.bind (digits_value n xs) (\<lambda>m. digits_value m ys)"
  by (induction xs arbitrary: n) auto

lemma digit_char_digit:
  assumes "d < 10"
  shows "is_digit (digit_char d)" and "digit_value (digit_char d) = d"
  using assms by (simp_all add: is_digit_def digit_value_def digit_char_def less_eq_char_def)

lemma digits_value_show: "digits_value n (show_nat m) = Some (n * 10 ^ length (show_nat m) + m)"
proof (induction m arbitrary: n rule: show_nat.induct)
  case (1 m)
  show ?case
  proof (cases "m < 10")
    case True
    then show ?thesis by (simp add: show_nat.simps [of m] digit_char_digit)
  next
    case False
    with 1 show ?thesis
      by (simp add: show_nat.simps [of m] digits_value_append digit_char_digit algebra_simps)
  qed
qed

lemma show_nat_digits: "c \<in> set (show_nat m) \<Longrightarrow> is_digit c"
proof (induction m arbitrary: c rule: show_nat.induct)
  case (1 m)
  then show ?case
    by (cases "m < 10") (auto simp: show_nat.simps [of m] digit_char_digit)
qed

lemma show_nat_not_Nil: "show_nat m \<noteq> []"
  by (simp add: show_nat.simps [of m])

lemma parse_u64_show: "m < 2 ^ 64 \<Longrightarrow> parse_u64 (show_nat m) = Some m"
proof -
  assume "m < 2 ^ 64"
  obtain c cs where s: "show_nat m = c # cs" using show_nat_not_Nil by (cases "show_nat m") auto
  then have "is_digit c" using show_nat_digits [of c m] by simp
  then have "c \<noteq> CHR ''+''" by (auto simp: is_digit_def less_eq_char_def)
  with s \<open>m < 2 ^ 64\<close> digits_value_show [of 0 m] show ?thesis by (simp add: parse_u64_def)
qed

lemma cursor_gen_cursor [simp]: "cursor_gen (gen_cursor g) = g"
proof -
  have "unat g < 2 ^ 64" using unsigned_less [of g] by simp
  then show ?thesis
    by (simp add: cursor_gen_def gen_cursor_def parse_u64_show)
qed


section \<open>Following a delta\<close>

text \<open>The items of a page replace what a client holds under their identifiers.\<close>

primrec mirror :: "remote_item list \<Rightarrow> (string \<Rightarrow> remote_item option) \<Rightarrow> string \<Rightarrow> remote_item option" where
  "mirror [] m = m"
| "mirror (it # items) m = mirror items (m(ri_id it \<mapsto> it))"

lemma mirror_eq:
  assumes "\<And>it. it \<in> set items \<Longrightarrow> c (ri_id it) = Some it"
  shows "mirror items m k = (if k \<in> ri_id ` set items then c k else m k)"
  using assms
proof (induction items arbitrary: m)
  case (Cons it items)
  have head: "c (ri_id it) = Some it" by (rule Cons.prems) simp
  have "mirror items (m(ri_id it \<mapsto> it)) k
      = (if k \<in> ri_id ` set items then c k else (m(ri_id it \<mapsto> it)) k)"
    by (rule Cons.IH) (simp add: Cons.prems)
  with head show ?case by auto
qed simp

text \<open>A client: calls of anyone in any order, and its own polls.\<close>

inductive followed ::
  "'w remote_drive \<Rightarrow> drive_id \<Rightarrow> ('w \<Rightarrow> 'w \<Rightarrow> bool) \<Rightarrow> 'w \<Rightarrow> 'w
   \<Rightarrow> delta_cursor option \<Rightarrow> (string \<Rightarrow> remote_item option) \<Rightarrow> bool"
  for rd drive call w0 where
  start: "followed rd drive call w0 w0 None Map.empty"
| call: "followed rd drive call w0 w cur m \<Longrightarrow> call w w' \<Longrightarrow> followed rd drive call w0 w' cur m"
| poll: "followed rd drive call w0 w cur m \<Longrightarrow> rd_delta rd drive cur w = (Inr p, w')
    \<Longrightarrow> followed rd drive call w0 w' (dp_delta_token p) (mirror (dp_items p) m)"

text \<open>
  The contract.  \<open>behind w c\<close> are the identifiers changed since the cursor \<open>c\<close> was issued.
  Nothing is said of deletions.
\<close>

locale delta_feed =
  fixes rd :: "'w remote_drive" and drive :: drive_id and call :: "'w \<Rightarrow> 'w \<Rightarrow> bool"
    and ok :: "'w \<Rightarrow> bool" and contents :: "'w \<Rightarrow> string \<Rightarrow> remote_item option"
    and issued :: "'w \<Rightarrow> delta_cursor \<Rightarrow> bool" and behind :: "'w \<Rightarrow> delta_cursor \<Rightarrow> string set"
  assumes call_ok: "ok w \<Longrightarrow> call w w' \<Longrightarrow> ok w'"
    and call_issued: "ok w \<Longrightarrow> call w w' \<Longrightarrow> issued w c \<Longrightarrow> issued w' c"
    and call_behind: "ok w \<Longrightarrow> call w w' \<Longrightarrow> issued w c \<Longrightarrow> contents w' k = Some it \<Longrightarrow> k \<notin> behind w' c
      \<Longrightarrow> contents w k = Some it \<and> k \<notin> behind w c"
    and poll_state: "ok w \<Longrightarrow> rd_delta rd drive cur w = (Inr p, w') \<Longrightarrow> w' = w"
    and poll_token: "ok w \<Longrightarrow> rd_delta rd drive cur w = (Inr p, w')
      \<Longrightarrow> \<exists>c. dp_delta_token p = Some c \<and> issued w c \<and> behind w c \<inter> dom (contents w) = {}"
    and poll_sound: "ok w \<Longrightarrow> rd_delta rd drive cur w = (Inr p, w') \<Longrightarrow> it \<in> set (dp_items p)
      \<Longrightarrow> contents w (ri_id it) = Some it"
    and poll_all: "ok w \<Longrightarrow> rd_delta rd drive None w = (Inr p, w') \<Longrightarrow> contents w k = Some it
      \<Longrightarrow> it \<in> set (dp_items p) \<and> ri_id it = k"
    and poll_since: "ok w \<Longrightarrow> issued w c \<Longrightarrow> rd_delta rd drive (Some c) w = (Inr p, w') \<Longrightarrow> contents w k = Some it
      \<Longrightarrow> k \<in> behind w c \<Longrightarrow> it \<in> set (dp_items p) \<and> ri_id it = k"
begin

lemma poll_mirror:
  assumes ok: "ok w" and p: "rd_delta rd drive cur w = (Inr p, w')"
    and known: "case cur of None \<Rightarrow> True
      | Some c \<Rightarrow> issued w c \<and> (\<forall>k it. contents w k = Some it \<and> k \<notin> behind w c \<longrightarrow> m k = Some it)"
  shows "contents w \<subseteq>\<^sub>m mirror (dp_items p) m"
proof (rule map_le_def [THEN iffD2], rule ballI)
  fix k
  assume "k \<in> dom (contents w)"
  then obtain it where it: "contents w k = Some it" by blast
  have eq: "mirror (dp_items p) m k = (if k \<in> ri_id ` set (dp_items p) then contents w k else m k)"
    by (rule mirror_eq) (rule poll_sound [OF ok p])
  show "contents w k = mirror (dp_items p) m k"
  proof (cases cur)
    case None
    with poll_all [OF ok, of p w' k it] p it eq show ?thesis by force
  next
    case (Some c)
    show ?thesis
    proof (cases "k \<in> behind w c")
      case True
      with poll_since [OF ok _ _ it, of c p w'] p known Some eq show ?thesis by force
    next
      case False
      with known Some it eq show ?thesis by auto
    qed
  qed
qed

lemma followed_known:
  assumes "followed rd drive call w0 w cur m" and "ok w0"
  shows "ok w \<and> (case cur of None \<Rightarrow> True
    | Some c \<Rightarrow> issued w c \<and> (\<forall>k it. contents w k = Some it \<and> k \<notin> behind w c \<longrightarrow> m k = Some it))"
  using assms
proof (induction rule: followed.induct)
  case (call w cur m w')
  then show ?case
    by (auto split: option.splits intro: call_ok call_issued dest: call_behind)
next
  case (poll w cur m p w')
  then have "contents w \<subseteq>\<^sub>m mirror (dp_items p) m" by (intro poll_mirror) auto
  then have "\<And>k it. contents w k = Some it \<Longrightarrow> mirror (dp_items p) m k = Some it"
    by (metis domI map_le_def)
  moreover from poll obtain c where "dp_delta_token p = Some c" "issued w c" and w': "w' = w"
    using poll_token poll_state by blast
  ultimately show ?case
    using poll by auto
qed simp

lemma followed_mirror:
  assumes "followed rd drive call w0 w cur m" and "ok w0" and "rd_delta rd drive cur w = (Inr p, w')"
  shows "contents w \<subseteq>\<^sub>m mirror (dp_items p) m"
  using followed_known [OF assms(1,2)] assms(3) by (auto intro: poll_mirror)

end

section \<open>The drive as a delta feed\<close>

text \<open>Any call of the port that is not a poll.\<close>

inductive drive_call :: "'w remote_drive \<Rightarrow> 'w \<Rightarrow> 'w \<Rightarrow> bool" for rd where
  upload: "rd_upload_small rd i name bytes w = (r1, w') \<Longrightarrow> drive_call rd w w'"
| session: "rd_upload_session rd i name sz w = (r2, w') \<Longrightarrow> drive_call rd w w'"
| rename: "rd_rename rd i name w = (r3, w') \<Longrightarrow> drive_call rd w w'"
| delete: "rd_delete rd i w = (r4, w') \<Longrightarrow> drive_call rd w w'"
| mkdir: "rd_mkdir rd i name w = (r5, w') \<Longrightarrow> drive_call rd w w'"
| download: "rd_download rd i w = (r6, w') \<Longrightarrow> drive_call rd w w'"
| lookup: "rd_item_by_path rd drive path w = (r7, w') \<Longrightarrow> drive_call rd w w'"

definition drive_contents :: "'x drive_world \<Rightarrow> string \<Rightarrow> remote_item option" where
  "drive_contents w k = map_option fi_meta (map_of (dw_items w) k)"

definition drive_ok :: "'x drive_world \<Rightarrow> bool" where
  "drive_ok w \<longleftrightarrow> distinct (map fst (dw_items w))
     \<and> (\<forall>k fi. map_of (dw_items w) k = Some fi \<longrightarrow> ri_id (fi_meta fi) = k \<and> fi_generation fi \<le> dw_generation w)"

definition cursor_issued :: "'x drive_world \<Rightarrow> delta_cursor \<Rightarrow> bool" where
  "cursor_issued w c \<longleftrightarrow> cursor_gen (delta_cursor_str c) \<le> dw_generation w"

definition changed_since :: "'x drive_world \<Rightarrow> delta_cursor \<Rightarrow> string set" where
  "changed_since w c =
     {k. \<exists>fi. map_of (dw_items w) k = Some fi \<and> cursor_gen (delta_cursor_str c) < fi_generation fi}"

text \<open>What a call does: nothing, a deletion, a new item, or a newer version of one.\<close>

definition drive_effect :: "'x drive_world \<Rightarrow> 'x drive_world \<Rightarrow> bool" where
  "drive_effect w w' \<longleftrightarrow>
     dw_items w' = dw_items w \<and> dw_generation w' \<in> {dw_generation w, dw_generation w + 1}
     \<or> (\<exists>k. dw_items w' = AList.delete k (dw_items w) \<and> dw_generation w' = dw_generation w)
     \<or> (\<exists>k fi. dw_items w' = AList.update k fi (dw_items w) \<and> dw_generation w' = dw_generation w + 1
          \<and> fi_generation fi = dw_generation w + 1
          \<and> (ri_id (fi_meta fi) = k \<or> (\<exists>old. map_of (dw_items w) k = Some old \<and> ri_id (fi_meta fi) = ri_id (fi_meta old))))"

lemma effect_cases [consumes 1, case_names same gone put]:
  assumes "drive_effect w w'"
    and "dw_items w' = dw_items w \<Longrightarrow> dw_generation w' \<in> {dw_generation w, dw_generation w + 1} \<Longrightarrow> P"
    and "\<And>k. dw_items w' = AList.delete k (dw_items w) \<Longrightarrow> dw_generation w' = dw_generation w \<Longrightarrow> P"
    and "\<And>k fi. dw_items w' = AList.update k fi (dw_items w) \<Longrightarrow> dw_generation w' = dw_generation w + 1
      \<Longrightarrow> fi_generation fi = dw_generation w + 1
      \<Longrightarrow> ri_id (fi_meta fi) = k \<or> (\<exists>old. map_of (dw_items w) k = Some old \<and> ri_id (fi_meta fi) = ri_id (fi_meta old)) \<Longrightarrow> P"
  shows P
  using assms unfolding drive_effect_def by blast

lemma effect_put:
  assumes "ri_id (fi_meta fi) = k \<or> (\<exists>old. map_of (dw_items w) k = Some old \<and> ri_id (fi_meta fi) = ri_id (fi_meta old))"
    and "fi_generation fi = dw_generation w + 1"
  shows "drive_effect w (put_item k fi (w\<lparr>dw_generation := dw_generation w + 1\<rparr>))"
  unfolding drive_effect_def put_item_def using assms by auto

lemma drive_upload_effect: "drive_upload sha1 i n bs w = (it, w') \<Longrightarrow> drive_effect w w'"
  by (auto simp: drive_upload_def bump_gen_def Let_def uploaded_item_def intro!: effect_put)

lemma drive_mkdir_effect: "drive_mkdir i n w = (it, w') \<Longrightarrow> drive_effect w w'"
  by (auto simp: drive_mkdir_def bump_gen_def Let_def made_folder_def intro!: effect_put)

lemma drive_rename_effect: "drive_rename i n w = (r, w') \<Longrightarrow> drive_effect w w'"
  by (auto simp: drive_rename_def bump_gen_def Let_def intro!: effect_put split: option.splits)
     (simp add: drive_effect_def)

lemma drive_delete_effect: "drive_delete i w = (r, w') \<Longrightarrow> drive_effect w w'"
  by (auto simp: drive_delete_def drive_effect_def split: option.splits)

lemma drive_effect_refl [simp]: "drive_effect w w"
  by (simp add: drive_effect_def)

lemma map_errE_state: "map_errE f m w = (r, w') \<Longrightarrow> \<exists>r'. m w = (r', w')"
  by (auto simp: map_errE_def split: prod.splits sum.splits)

lemma liftE_state: "liftE f w = (r, w') \<Longrightarrow> \<exists>x. f w = (x, w')"
  by (auto simp: liftE_def split: prod.splits)

lemma drive_call_effect:
  assumes "drive_call (fake_drive L sha1) w w'"
  shows "drive_effect w w'"
  using assms
  by (cases rule: drive_call.cases)
     (auto simp: fake_drive_def returnE_def dest!: map_errE_state liftE_state
        dest: drive_upload_effect drive_mkdir_effect drive_rename_effect drive_delete_effect)

definition bounded_call :: "'w remote_drive \<Rightarrow> ('w \<Rightarrow> u64) \<Rightarrow> 'w \<Rightarrow> 'w \<Rightarrow> bool" where
  "bounded_call rd generation w w' \<longleftrightarrow> drive_call rd w w' \<and> generation w \<noteq> - 1"

lemma u64_Suc: "(g :: u64) \<noteq> - 1 \<Longrightarrow> g < g + 1"
proof -
  assume "g \<noteq> - 1"
  then have "1 + g \<noteq> 0" by (metis add.commute eq_neg_iff_add_eq_0)
  then have "unat (g + 1) = Suc (unat g)" by (metis unatSuc add.commute)
  then show ?thesis by (simp add: word_less_nat_alt)
qed

lemma u64_le_Suc: "h \<le> g \<Longrightarrow> (g :: u64) \<noteq> - 1 \<Longrightarrow> h \<le> g + 1"
  using u64_Suc [of g] by (metis order.trans less_imp_le)

lemma effect_ok:
  assumes ok: "drive_ok w" and e: "drive_effect w w'" and g: "dw_generation w \<noteq> - 1"
  shows "drive_ok w'"
  using e
proof (cases rule: effect_cases)
  case same
  with ok show ?thesis using u64_le_Suc [OF _ g] by (auto simp: drive_ok_def)
next
  case (gone k)
  with ok show ?thesis by (auto simp: drive_ok_def delete_conv' distinct_delete split: if_splits)
next
  case (put k fi)
  then have "ri_id (fi_meta fi) = k" using ok by (auto simp: drive_ok_def)
  with ok put show ?thesis
    by (auto simp: drive_ok_def update_conv' distinct_update u64_le_Suc [OF _ g] split: if_splits)
qed

lemma effect_issued:
  assumes "drive_effect w w'" and "dw_generation w \<noteq> - 1" and "cursor_issued w c"
  shows "cursor_issued w' c"
  using assms unfolding drive_effect_def cursor_issued_def
  by (auto intro: u64_le_Suc)

lemma effect_behind:
  assumes e: "drive_effect w w'" and g: "dw_generation w \<noteq> - 1" and c: "cursor_issued w c"
    and k: "drive_contents w' k = Some it" "k \<notin> changed_since w' c"
  shows "drive_contents w k = Some it \<and> k \<notin> changed_since w c"
proof -
  have new: "cursor_gen (delta_cursor_str c) < dw_generation w + 1"
    using c u64_Suc [OF g] by (simp add: cursor_issued_def)
  show ?thesis
    using e
  proof (cases rule: effect_cases)
    case same
    with k show ?thesis by (simp add: drive_contents_def changed_since_def)
  next
    case (gone j)
    with k show ?thesis by (auto simp: drive_contents_def changed_since_def delete_conv' split: if_splits)
  next
    case (put j fi)
    with k new show ?thesis by (auto simp: drive_contents_def changed_since_def update_conv' split: if_splits)
  qed
qed

lemma delta_page:
  "dp_items (drive_delta L cur w) =
     map fi_meta (filter (\<lambda>fi. case cur of None \<Rightarrow> True | Some c \<Rightarrow> cursor_gen (delta_cursor_str c) < fi_generation fi)
       (table_values L (dw_items w)))"
  "dp_delta_token (drive_delta L cur w) = Some (DeltaCursor (gen_cursor (dw_generation w)))"
  by (auto simp: drive_delta_def delta_all_def delta_since_def split: option.splits)

lemma drive_okD:
  assumes "drive_ok w" and "map_of (dw_items w) k = Some fi"
  shows "ri_id (fi_meta fi) = k" and "fi_generation fi \<le> dw_generation w"
  using assms unfolding drive_ok_def by blast+

lemma drive_contentsE:
  assumes "drive_ok w" and "drive_contents w k = Some it"
  obtains fi where "it = fi_meta fi" "map_of (dw_items w) k = Some fi" "ri_id (fi_meta fi) = k"
  using assms drive_okD(1) [OF assms(1)] by (auto simp: drive_contents_def)

lemma delta_items:
  assumes L: "map_order_laws (lib_map_order L)" and ok: "drive_ok w"
  shows "it \<in> set (dp_items (drive_delta L cur w)) \<longleftrightarrow>
    (\<exists>fi. it = fi_meta fi \<and> map_of (dw_items w) (ri_id it) = Some fi
       \<and> (case cur of None \<Rightarrow> True | Some c \<Rightarrow> cursor_gen (delta_cursor_str c) < fi_generation fi))"
proof -
  have "fi \<in> set (table_values L (dw_items w)) \<longleftrightarrow> map_of (dw_items w) (ri_id (fi_meta fi)) = Some fi" for fi
  proof
    assume "fi \<in> set (table_values L (dw_items w))"
    then obtain k where "(k, fi) \<in> set (dw_items w)" using L by (auto simp: table_values_set)
    then have "map_of (dw_items w) k = Some fi" using ok by (simp add: drive_ok_def)
    with drive_okD(1) [OF ok this] show "map_of (dw_items w) (ri_id (fi_meta fi)) = Some fi" by simp
  next
    assume "map_of (dw_items w) (ri_id (fi_meta fi)) = Some fi"
    then show "fi \<in> set (table_values L (dw_items w))"
      using L by (force simp: table_values_set dest: map_of_SomeD)
  qed
  then show ?thesis by (auto simp: delta_page)
qed

lemma fake_drive_feed:
  assumes L: "map_order_laws (lib_map_order L)"
  shows "delta_feed (fake_drive L sha1) d (bounded_call (fake_drive L sha1) dw_generation) drive_ok drive_contents
    cursor_issued changed_since"
proof
  fix w w' :: "'x drive_world" and c k it
  assume ok: "drive_ok w" and call: "bounded_call (fake_drive L sha1) dw_generation w w'"
  then have e: "drive_effect w w'" and g: "dw_generation w \<noteq> - 1"
    by (auto simp: bounded_call_def drive_call_effect)
  show "drive_ok w'" by (rule effect_ok [OF ok e g])
  show "cursor_issued w' c" if "cursor_issued w c" by (rule effect_issued [OF e g that])
  show "drive_contents w k = Some it \<and> k \<notin> changed_since w c"
    if "cursor_issued w c" "drive_contents w' k = Some it" "k \<notin> changed_since w' c"
    by (rule effect_behind [OF e g that])
next
  fix w w' :: "'x drive_world" and cur p c k it
  assume ok: "drive_ok w" and p: "rd_delta (fake_drive L sha1) d cur w = (Inr p, w')"
  then have page: "p = drive_delta L cur w" and w': "w' = w" by (auto simp: fake_drive_def)
  show "w' = w" by (rule w')
  show "\<exists>c. dp_delta_token p = Some c \<and> cursor_issued w c \<and> changed_since w c \<inter> dom (drive_contents w) = {}"
    by (auto simp: page delta_page cursor_issued_def changed_since_def dest: drive_okD(2) [OF ok])
  show "drive_contents w (ri_id it) = Some it" if "it \<in> set (dp_items p)"
    using that ok by (auto simp: page delta_items [OF L] drive_contents_def)
next
  fix w w' :: "'x drive_world" and p k it
  assume ok: "drive_ok w" and p: "rd_delta (fake_drive L sha1) d None w = (Inr p, w')" and it: "drive_contents w k = Some it"
  obtain fi where "it = fi_meta fi" "map_of (dw_items w) k = Some fi" "ri_id (fi_meta fi) = k"
    by (rule drive_contentsE [OF ok it])
  moreover from p have "p = drive_delta L None w" by (auto simp: fake_drive_def)
  ultimately show "it \<in> set (dp_items p) \<and> ri_id it = k" by (simp add: delta_items [OF L ok])
next
  fix w w' :: "'x drive_world" and p c k it
  assume ok: "drive_ok w" and p: "rd_delta (fake_drive L sha1) d (Some c) w = (Inr p, w')"
    and it: "drive_contents w k = Some it" and k: "k \<in> changed_since w c"
  obtain fi where "it = fi_meta fi" "map_of (dw_items w) k = Some fi" "ri_id (fi_meta fi) = k"
    by (rule drive_contentsE [OF ok it])
  moreover from p have "p = drive_delta L (Some c) w" by (auto simp: fake_drive_def)
  ultimately show "it \<in> set (dp_items p) \<and> ri_id it = k"
    using k by (simp add: delta_items [OF L ok] changed_since_def)
qed

interpretation fake_feed: delta_feed "fake_drive ascii_lib sha1" d
    "bounded_call (fake_drive ascii_lib sha1) dw_generation" drive_ok drive_contents cursor_issued changed_since
    for sha1 d
  by (rule fake_drive_feed) simp

text \<open>
  C27: Following the in-memory drive.  Whatever calls of the port are made between the polls, and
  however often the client polls, after a poll its mirror holds every item that is on the drive,
  as it is there; an item that is no longer there is left as the mirror had it, so a deletion
  never reaches the client.
\<close>
theorem drive_mirrored:
  assumes "map_order_laws (lib_map_order L)" and "drive_ok w0"
    and "followed (fake_drive L sha1) d (bounded_call (fake_drive L sha1) dw_generation) w0 w cur m"
    and "rd_delta (fake_drive L sha1) d cur w = (Inr p, w')"
  shows "w' = w \<and> drive_contents w \<subseteq>\<^sub>m mirror (dp_items p) m
    \<and> (\<forall>k. k \<notin> dom (drive_contents w) \<longrightarrow> mirror (dp_items p) m k = m k)"
proof -
  note feed = fake_drive_feed [OF assms(1), of sha1 d]
  note known = delta_feed.followed_known [OF feed assms(3,2)]
  have w': "w' = w" using known by (blast intro: delta_feed.poll_state [OF feed _ assms(4)])
  have sound: "\<And>it. it \<in> set (dp_items p) \<Longrightarrow> drive_contents w (ri_id it) = Some it"
    using known by (blast intro: delta_feed.poll_sound [OF feed _ assms(4)])
  have "\<And>k. k \<notin> dom (drive_contents w) \<Longrightarrow> mirror (dp_items p) m k = m k"
    using mirror_eq [OF sound] sound by (auto simp: domIff)
  with w' delta_feed.followed_mirror [OF feed assms(3,2,4)] show ?thesis by blast
qed

end
