(* ===== verification/Fake_Props.thy ===== *)
theory Fake_Props
  imports Fake_Drive Local_Props
begin

text \<open>
  The in-memory drive beside a local file system, as the tests of the engine put them together:
  a file that is uploaded can be downloaded again, and a deleted item stays in the mirror of a
  client that follows the delta.
\<close>

section \<open>A client that misses a deletion\<close>

definition new_drive :: "unit drive_world" where
  "new_drive = \<lparr>dw_items = [], dw_generation = 0, dw_ext = ()\<rparr>"

abbreviation no_sha1 :: "bytes \<Rightarrow> bytes" where "no_sha1 bs \<equiv> []"

definition one_upload :: "unit drive_world" where
  "one_upload = snd (drive_upload no_sha1 ''p'' ''n'' [7] new_drive)"

definition then_deleted :: "unit drive_world" where
  "then_deleted = snd (drive_delete ''p/n'' one_upload)"

lemma upload_is_call: "drive_call (fake_drive L sha1) w (snd (drive_upload sha1 i n bs w))"
proof (rule drive_call.upload)
  show "rd_upload_small (fake_drive L sha1) (RemoteItemId i) n bs w
      = (Inr (fst (drive_upload sha1 i n bs w)), snd (drive_upload sha1 i n bs w))"
    by (simp add: fake_drive_def liftE_def split: prod.splits)
qed

lemma delete_is_call: "drive_call (fake_drive L sha1) w (snd (drive_delete i w))"
proof (rule drive_call.delete)
  show "rd_delete (fake_drive L sha1) (RemoteItemId i) w
      = (fst (map_errE map_to_port (drive_delete i) w), snd (drive_delete i w))"
    by (auto simp: fake_drive_def map_errE_def split: prod.splits sum.splits)
qed

theorem drive_mirrored_witness:
  "\<exists>p m. rd_delta (fake_drive ascii_lib no_sha1) (DriveId ''d'') None one_upload = (Inr p, one_upload)
     \<and> m = mirror (dp_items p) Map.empty \<and> m ''p/n'' \<noteq> None
     \<and> (\<exists>p'. rd_delta (fake_drive ascii_lib no_sha1) (DriveId ''d'') (dp_delta_token p) then_deleted = (Inr p', then_deleted)
         \<and> drive_contents then_deleted = Map.empty \<and> mirror (dp_items p') m ''p/n'' \<noteq> None)"
proof -
  let ?rd = "fake_drive ascii_lib no_sha1 :: unit drive_world remote_drive" and ?d = "DriveId ''d''"
  let ?call = "bounded_call ?rd dw_generation"
  define p where "p = drive_delta ascii_lib None one_upload"
  define p' where "p' = drive_delta ascii_lib (dp_delta_token p) then_deleted"
  have laws: "map_order_laws (lib_map_order ascii_lib)" by simp
  have ok: "drive_ok new_drive" by (simp add: drive_ok_def new_drive_def)
  have up: "?call new_drive one_upload"
    unfolding bounded_call_def one_upload_def by (rule conjI [OF upload_is_call]) (simp add: new_drive_def)
  have del: "?call one_upload then_deleted"
    unfolding bounded_call_def then_deleted_def
    by (rule conjI [OF delete_is_call])
       (simp add: one_upload_def new_drive_def drive_upload_def bump_gen_def put_item_def Let_def)
  have there: "drive_contents one_upload ''p/n'' \<noteq> None" and gone: "drive_contents then_deleted = Map.empty"
    by (auto simp: then_deleted_def one_upload_def new_drive_def drive_upload_def bump_gen_def put_item_def Let_def
        child_id_def drive_delete_def drive_contents_def)
  have poll: "rd_delta ?rd ?d None one_upload = (Inr p, one_upload)"
    and poll': "rd_delta ?rd ?d (dp_delta_token p) then_deleted = (Inr p', then_deleted)"
    by (simp_all add: fake_drive_def p_def p'_def)
  have f1: "followed ?rd ?d ?call new_drive one_upload None Map.empty"
    using followed.start up by (rule followed.call)
  have m: "mirror (dp_items p) Map.empty ''p/n'' \<noteq> None"
    using drive_mirrored [OF laws ok f1 poll] there by (force simp: map_le_def)
  have f2: "followed ?rd ?d ?call new_drive then_deleted (dp_delta_token p) (mirror (dp_items p) Map.empty)"
    using followed.poll [OF f1 poll] del by (rule followed.call)
  have "mirror (dp_items p') (mirror (dp_items p) Map.empty) ''p/n'' \<noteq> None"
    using drive_mirrored [OF laws ok f2 poll'] m gone by simp
  with poll poll' m gone show ?thesis by blast
qed

section \<open>Upload and download\<close>

text \<open>A local file system in the world beside a drive.\<close>

definition on_rest :: "('x, 'e, 'a) io \<Rightarrow> ('x drive_world, 'e, 'a) io" where
  "on_rest m w = (case m (dw_ext w) of (r, x) \<Rightarrow> (r, w\<lparr>dw_ext := x\<rparr>))"

definition beside_drive :: "'x local_fs \<Rightarrow> 'x drive_world local_fs" where
  "beside_drive fs =
     \<lparr>lf_scan = on_rest \<circ> lf_scan fs, lf_read = on_rest \<circ> lf_read fs,
      lf_write_atomic = (\<lambda>p bs. on_rest (lf_write_atomic fs p bs)), lf_rename = (\<lambda>p q. on_rest (lf_rename fs p q)),
      lf_delete = on_rest \<circ> lf_delete fs, lf_mkdir_p = on_rest \<circ> lf_mkdir_p fs, lf_hash = on_rest \<circ> lf_hash fs\<rparr>"

lemma on_restE:
  assumes "on_rest m w = (r, w')"
  obtains x where "m (dw_ext w) = (r, x)" "w' = w\<lparr>dw_ext := x\<rparr>"
  using assms by (auto simp: on_rest_def split: prod.splits)

lemma beside_drive_files:
  assumes "local_files fs key files plain"
  shows "local_files (beside_drive fs) key (\<lambda>w. files (dw_ext w)) plain"
  by unfold_locales
    (auto simp: beside_drive_def elim!: on_restE dest: local_files.read_ok [OF assms] local_files.read_frame [OF assms]
    local_files.write_any [OF assms] local_files.write_ok [OF assms] local_files.delete_err [OF assms]
    local_files.delete_ok [OF assms] local_files.mkdir_frame [OF assms] local_files.rename_ok [OF assms]
    local_files.hash_frame [OF assms])

lemma fake_upload_download:
  "rd_upload_small (fake_drive L sha1) (RemoteItemId parent) name bs w = (r, w1) \<Longrightarrow>
   dw_ext w1 = dw_ext w \<and> drive_download (child_id parent name) w1 = Inr bs"
  by (auto simp: fake_drive_def liftE_def drive_upload_def bump_gen_def put_item_def Let_def drive_download_def
      update_conv' split: prod.splits)

text \<open>
  C28: An upload and a download between them carry a file through the drive: the executor uploads
  the file of one path and, asked for the item it made, downloads it to another path, over any
  local disk.  If both operations succeed, the second file then has the content of the first and
  no other file has changed; that is so for files up to the bound of small uploads, above which
  the upload reports success and leaves the drive as it was.
\<close>
theorem upload_download_roundtrip:
  assumes laws: "disk_laws D key plain files temps"
    and up: "op_kind op = Upload" "join_path lroot (rel_str (op_relative_path op)) = Inr p" "plain (path_of p)"
      "execute L op lroot (beside_drive (local_fs_adapter stuck D)) (fake_drive L' sha1) w = (Inr st, w1)"
    and down: "op_kind op' = Download" "join_path lroot (rel_str (op_relative_path op')) = Inr q"
      "json_get_str (op_metadata op') ''remote_item_id''
        = Some (child_id (unwrap_or_default (json_get_str (op_metadata op) ''parent_remote_id''))
            (leaf_name (rel_str (op_relative_path op))))"
      "execute L op' lroot (beside_drive (local_fs_adapter stuck D)) (fake_drive L' sha1) w1 = (Inr st', w2)"
  shows "\<exists>bs. files (dw_ext w) (key (path_of p)) = Some bs
    \<and> (length bs \<le> GRAPH_SMALL_UPLOAD_MAX_BYTES
        \<longrightarrow> files (dw_ext w2) = (files (dw_ext w))(key (path_of q) \<mapsto> bs))
    \<and> (GRAPH_SMALL_UPLOAD_MAX_BYTES < length bs \<longrightarrow> dw_items w1 = dw_items w)"
proof -
  let ?fs = "beside_drive (local_fs_adapter stuck D)" and ?rd = "fake_drive L' sha1"
  let ?parent = "unwrap_or_default (json_get_str (op_metadata op) ''parent_remote_id'')"
  let ?name = "leaf_name (rel_str (op_relative_path op))"
  note fs = beside_drive_files [OF adapter_local_files [OF laws]]
  from up have u: "execute_upload op lroot ?fs ?rd w = (Inr st, w1)" by (simp add: execute_def)
  obtain bs w0 where read: "lf_read ?fs p w = (Inr bs, w0)"
    using u up(2) by (auto simp: execute_upload_def io_simps split: sum.splits prod.splits)
  have bs: "files (dw_ext w) (key (path_of p)) = Some bs"
    using local_files.read_ok [OF fs _ read] up(3) by simp
  have same: "files (dw_ext w0) = files (dw_ext w)" using local_files.read_frame [OF fs read] .
  have items: "dw_items w0 = dw_items w" using read by (auto simp: beside_drive_def elim!: on_restE)
  have frame: "rd_download ?rd i v = (r, v') \<Longrightarrow> files (dw_ext v') = files (dw_ext v)" for i v r v'
    by (auto simp: fake_drive_def map_errE_def split: sum.splits)
  have small: "files (dw_ext w2) = (files (dw_ext w))(key (path_of q) \<mapsto> bs)"
    if fits: "length bs \<le> GRAPH_SMALL_UPLOAD_MAX_BYTES"
  proof -
    obtain it where put: "rd_upload_small ?rd (RemoteItemId ?parent) ?name bs w0 = (Inr it, w1)"
      using u up(2) read fits by (auto simp: execute_upload_def Let_def io_simps split: sum.splits prod.splits)
    note stored = fake_upload_download [OF put]
    from down have d: "execute_download op' lroot ?fs ?rd w1 = (Inr st', w2)" by (simp add: execute_def)
    have "\<exists>bs' v. rd_download ?rd (RemoteItemId (unwrap_or_default
        (json_get_str (op_metadata op') ''remote_item_id''))) w1 = (Inr bs', v)
      \<and> files (dw_ext w2) = (files (dw_ext w1))((key \<circ> path_of) q \<mapsto> bs')"
      by (rule local_files.download_effect(2) [OF fs _ d down(2) refl]) (rule frame)
    then obtain bs' v where "rd_download ?rd (RemoteItemId (child_id ?parent ?name)) w1 = (Inr bs', v)"
        and w2: "files (dw_ext w2) = (files (dw_ext w1))(key (path_of q) \<mapsto> bs')"
      unfolding down(3) by (auto simp: unwrap_or_default_def)
    with stored have "bs' = bs" by (auto simp: fake_drive_def map_errE_def)
    with w2 stored same show ?thesis by simp
  qed
  have large: "dw_items w1 = dw_items w" if "GRAPH_SMALL_UPLOAD_MAX_BYTES < length bs"
    using u up(2) read that items by (auto simp: execute_upload_def Let_def io_simps fake_drive_def)
  from bs small large show ?thesis by blast
qed

text \<open>The small disk beside a new drive; its file \<open>d/a.bin\<close> is copied to \<open>d/b.bin\<close> over the drive.\<close>

definition disk_and_drive :: "tiny_disk drive_world" where
  "disk_and_drive = \<lparr>dw_items = [], dw_generation = 0, dw_ext = small_disk\<rparr>"

definition fetch_copy :: file_op where
  "fetch_copy = (sample_op Download)\<lparr>op_relative_path := RelPath ''d/b.bin'',
     op_metadata := [(''remote_item_id'', JString ''/a.bin'')]\<rparr>"

abbreviation disk_beside :: "tiny_disk drive_world local_fs" where
  "disk_beside \<equiv> beside_drive (local_fs_adapter (throwE LfRaced) tiny_lib)"

lemma join_copy: "join_path (AbsPath ''/r'') ''d/b.bin'' = Inr (AbsPath ''/r/d/b.bin'')"
  by code_simp

lemma leaf_sample: "leaf_name ''d/a.bin'' = ''a.bin''"
  by code_simp

lemma copy_up:
  "\<exists>w1. execute ascii_lib (sample_op Upload) (AbsPath ''/r'') disk_beside (fake_drive ascii_lib no_sha1) disk_and_drive
     = (Inr Success, w1) \<and> dw_ext w1 = small_disk \<and> drive_download ''/a.bin'' w1 = Inr [9]"
  by (simp add: execute_def sample_op_def make_op_def execute_upload_def join_sample beside_drive_def on_rest_def
      local_fs_adapter_def adapter_read_def in_pool_def path_of_def tiny_lib_def td_files_def io_err_def io_simps
      disk_and_drive_def fake_drive_def GRAPH_SMALL_UPLOAD_MAX_BYTES_def drive_upload_def bump_gen_def put_item_def
      Let_def drive_download_def child_id_def unwrap_or_default_def leaf_sample MIB_def KIB_def)

lemma copy_down:
  assumes "dw_ext w1 = small_disk" and "drive_download ''/a.bin'' w1 = Inr [9]"
  shows "\<exists>w2. execute ascii_lib fetch_copy (AbsPath ''/r'') disk_beside (fake_drive ascii_lib no_sha1) w1
     = (Inr Success, w2)"
proof -
  have parent: "path_parent (PathBuf ''/r/d/b.bin'') = Some (PathBuf ''/r/d'')" by code_simp
  have chunks: "chunks_of HASH_BLOCK_BYTES [9 :: u8] = [[9]]"
    by (simp add: chunks_of.simps HASH_BLOCK_BYTES_def)
  show ?thesis
    using assms
    by (simp add: execute_def fetch_copy_def sample_op_def make_op_def execute_download_def join_copy beside_drive_def
        on_rest_def local_fs_adapter_def adapter_write_atomic_def in_pool_def write_atomic_def path_of_def parent chunks
        fill_and_persist_def or_drop_def tiny_lib_def fake_drive_def td_stat_def td_meta_def written_side_def io_err_def
        io_simps update_conv' json_get_str_def unwrap_or_default_def Let_def del: path_parent.simps)
qed

theorem upload_download_roundtrip_witness:
  "\<exists>w1 w2. execute ascii_lib (sample_op Upload) (AbsPath ''/r'') disk_beside (fake_drive ascii_lib no_sha1) disk_and_drive
       = (Inr Success, w1)
     \<and> execute ascii_lib fetch_copy (AbsPath ''/r'') disk_beside (fake_drive ascii_lib no_sha1) w1 = (Inr Success, w2)
     \<and> td_files (dw_ext w2) (PathBuf ''/r/d/b.bin'') = Some [9]"
proof -
  obtain w1 where up: "execute ascii_lib (sample_op Upload) (AbsPath ''/r'') disk_beside (fake_drive ascii_lib no_sha1)
      disk_and_drive = (Inr Success, w1)" and w1: "dw_ext w1 = small_disk" "drive_download ''/a.bin'' w1 = Inr [9]"
    using copy_up by blast
  obtain w2 where down: "execute ascii_lib fetch_copy (AbsPath ''/r'') disk_beside (fake_drive ascii_lib no_sha1) w1
      = (Inr Success, w2)"
    using copy_down [OF w1] by blast
  have kinds: "op_kind (sample_op Upload) = Upload" "op_kind fetch_copy = Download"
    by (simp_all add: sample_op_def make_op_def fetch_copy_def)
  have paths: "join_path (AbsPath ''/r'') (rel_str (op_relative_path (sample_op Upload))) = Inr (AbsPath ''/r/d/a.bin'')"
      "join_path (AbsPath ''/r'') (rel_str (op_relative_path fetch_copy)) = Inr (AbsPath ''/r/d/b.bin'')"
    by (simp_all add: sample_op_def make_op_def fetch_copy_def join_sample join_copy)
  have item: "json_get_str (op_metadata fetch_copy) ''remote_item_id''
      = Some (child_id (unwrap_or_default (json_get_str (op_metadata (sample_op Upload)) ''parent_remote_id''))
          (leaf_name (rel_str (op_relative_path (sample_op Upload)))))"
    by (simp add: sample_op_def make_op_def fetch_copy_def json_get_str_def unwrap_or_default_def child_id_def leaf_sample)
  have "td_files small_disk (PathBuf ''/r/d/a.bin'') = Some [9]" by (simp add: td_files_def)
  then show ?thesis
    using upload_download_roundtrip [OF tiny_disk_laws kinds(1) paths(1) TrueI up kinds(2) paths(2) item down] up down
    by (auto simp: disk_and_drive_def GRAPH_SMALL_UPLOAD_MAX_BYTES_def MIB_def KIB_def path_of_def)
qed

end
