(* ===== verification/Webhook.thy ===== *)
theory Webhook
  imports Methods
begin

text \<open>
  The webhook receiver (\<open>crates/onesync-daemon/src/webhook_receiver.rs\<close>): the parser of a
  request, the reply to a validation, and the notifications that queue a forced sync of the
  pairs they name.  The socket with its timeout and the JSON decoder are the parameter
  \<open>webhook_lib\<close>; the string functions of the standard library are defined here.
\<close>

section \<open>Standard library\<close>

text \<open>\<open>str::find\<close> and \<open>str::split_once\<close> for a string.\<close>

fun find_sub :: "string \<Rightarrow> string \<Rightarrow> nat option" where
  "find_sub p [] = (if p = [] then Some 0 else None)"
| "find_sub p (c # cs) = (if strip_prefix p (c # cs) \<noteq> None then Some 0 else map_option Suc (find_sub p cs))"

definition split_once_str :: "string \<Rightarrow> string \<Rightarrow> (string \<times> string) option" where
  "split_once_str p s = map_option (\<lambda>i. (take i s, drop (i + length p) s)) (find_sub p s)"

text \<open>\<open>str::lines\<close>: what follows the last newline is a line unless it is empty.\<close>

definition all_lines :: "string \<Rightarrow> string list" where
  "all_lines s =
     (let ps = split_on CHR 0x0A s
      in map strip_cr (butlast ps) @ (if last ps = [] then [] else [last ps]))"

text \<open>\<open>str::trim\<close>; \<open>skip\<close> counts the bytes of the current character.\<close>

fun ws_only :: "nat \<Rightarrow> string \<Rightarrow> bool" where
  "ws_only skip [] \<longleftrightarrow> skip = 0"
| "ws_only (Suc k) (c # cs) \<longleftrightarrow> ws_only k cs"
| "ws_only 0 (c # cs) \<longleftrightarrow> (let n = ws_len (map of_char (c # cs)) in n \<noteq> 0 \<and> ws_only (n - 1) cs)"

fun trim_start_ws :: "nat \<Rightarrow> string \<Rightarrow> string" where
  "trim_start_ws skip [] = []"
| "trim_start_ws (Suc k) (c # cs) = trim_start_ws k cs"
| "trim_start_ws 0 (c # cs) =
     (let n = ws_len (map of_char (c # cs)) in if n = 0 then c # cs else trim_start_ws (n - 1) cs)"

fun trim_end_ws :: "string \<Rightarrow> string" where
  "trim_end_ws [] = []"
| "trim_end_ws (c # cs) = (if ws_only 0 (c # cs) then [] else c # trim_end_ws cs)"

definition trim_ws :: "string \<Rightarrow> string" where
  "trim_ws s = trim_end_ws (trim_start_ws 0 s)"

fun find_map :: "('a \<Rightarrow> 'b option) \<Rightarrow> 'a list \<Rightarrow> 'b option" where
  "find_map f [] = None"
| "find_map f (x # xs) = (case f x of None \<Rightarrow> find_map f xs | Some y \<Rightarrow> Some y)"

section \<open>The request\<close>

text \<open>An \<open>anyhow\<close> error, or a panic of the task of the connection.\<close>

datatype wh_error = WhErr string | WhPanic

definition MAX_BODY_BYTES :: nat where "MAX_BODY_BYTES = 256 * 1024"
definition WH_BUFFER_BYTES :: nat where "WH_BUFFER_BYTES = 16 * 1024"

definition parse_request_head :: "string \<Rightarrow> wh_error + string \<times> string \<times> nat" where
  "parse_request_head req =
     (case find_sub (CRLF @ CRLF) req of
        None \<Rightarrow> Inl (WhErr ''malformed request (no header/body split)'')
      | Some split \<Rightarrow>
          (case split_once_str CRLF (take split req) of
             None \<Rightarrow> Inl (WhErr ''malformed request (no request line)'')
           | Some (request_line, headers_block) \<Rightarrow> Inr (request_line, headers_block, split + 4)))"

definition split_request_line :: "string \<Rightarrow> wh_error + string \<times> string" where
  "split_request_line line =
     (case split_whitespace line of
        [] \<Rightarrow> Inl (WhErr ''missing method'')
      | [_] \<Rightarrow> Inl (WhErr ''missing target'')
      | method # target # _ \<Rightarrow> Inr (method, target))"

definition content_length_of :: "string \<Rightarrow> nat option" where
  "content_length_of h =
     Option.bind (split_once CHR '':'' h) (\<lambda>(k, v).
     if eq_ignore_ascii_case k ''Content-Length'' then parse_u64 (trim_ws v) else None)"

text \<open>A string is cut only between characters; elsewhere the slice panics.\<close>

definition char_boundary :: "string \<Rightarrow> nat \<Rightarrow> bool" where
  "char_boundary s n \<longleftrightarrow> n = length s \<or> n < length s \<and> \<not> utf8_cont (of_char (s ! n))"

definition body_from_buffer :: "string \<Rightarrow> nat \<Rightarrow> string \<Rightarrow> wh_error + string" where
  "body_from_buffer req body_offset headers_block =
     (let n = unwrap_or 0 (find_map content_length_of (all_lines headers_block));
          body = drop body_offset req
      in if MAX_BODY_BYTES < n then
           Inl (WhErr (''content-length '' @ show_nat n @ '' exceeds MAX_BODY_BYTES''))
         else if length body < n then
           Inl (WhErr (''body length '' @ show_nat (length body) @ '' < Content-Length '' @ show_nat n))
         else if char_boundary body n then Inr (take n body) else Inl WhPanic)"

definition validation_param :: "string \<Rightarrow> string option" where
  "validation_param kv =
     Option.bind (split_once CHR ''='' kv) (\<lambda>(k, v). if k = ''validationToken'' then Some v else None)"

definition extract_validation_token :: "string \<Rightarrow> string option" where
  "extract_validation_token target =
     Option.bind (split_once CHR ''?'' target) (\<lambda>(_, query). find_map validation_param (split_on CHR ''&'' query))"

definition pair_of_client_state :: "(string \<Rightarrow> string + u128) \<Rightarrow> string \<Rightarrow> pair_id option" where
  "pair_of_client_state ulid_parse client_state =
     (if strip_prefix ''pair_'' client_state = None then None
      else case id_from_str ulid_parse pair_prefix client_state of Inl _ \<Rightarrow> None | Inr i \<Rightarrow> Some i)"

section \<open>A connection\<close>

text \<open>
  \<open>wl_read\<close> is one read of the stream under the timeout, whose expiry is \<open>Inl\<close>;
  \<open>wl_notifications\<close> gives the client states of a notification body, \<open>wl_bind\<close> the port bound.
\<close>

record 'w webhook_lib =
  wl_read :: "nat \<Rightarrow> ('w, unit, string + string) io"
  wl_write_all :: "string \<Rightarrow> ('w, string, unit) io"
  wl_notifications :: "string \<Rightarrow> string + string list"
  wl_bind :: "string \<Rightarrow> ('w, string, nat) io"

record 'w receiver =
  rv_lib :: "'w webhook_lib"
  rv_state :: "'w state_store"
  rv_force :: "('w, force_channel) cell"
  rv_ulid_parse :: "string \<Rightarrow> string + u128"

definition simple_response :: "nat \<Rightarrow> string \<Rightarrow> string" where
  "simple_response status body =
     (let reason = (if status = 202 then ''Accepted'' else if status = 405 then ''Method Not Allowed'' else ''OK'')
      in ''HTTP/1.1 '' @ show_nat status @ '' '' @ reason @ CRLF @ ''Content-Length: '' @ show_nat (length body)
         @ CRLF @ CRLF @ body)"

definition write_simple_response :: "'w receiver \<Rightarrow> nat \<Rightarrow> string \<Rightarrow> ('w, wh_error, unit) io" where
  "write_simple_response rv status body = map_errE WhErr (wl_write_all (rv_lib rv) (simple_response status body))"

definition token_response_text :: "string \<Rightarrow> string" where
  "token_response_text token =
     ''HTTP/1.1 200 OK'' @ CRLF @ ''Content-Type: text/plain'' @ CRLF
       @ ''Content-Length: '' @ show_nat (length token) @ CRLF @ CRLF @ token"

definition notify_one :: "'w receiver \<Rightarrow> string \<Rightarrow> ('w, wh_error, unit) io" where
  "notify_one rv client_state =
     (case pair_of_client_state (rv_ulid_parse rv) client_state of
        None \<Rightarrow> returnE ()
      | Some i \<Rightarrow>
          bindE (tryE (st_pair_get (rv_state rv) i)) (\<lambda>found.
          case found of
            Inr (Some pr) \<Rightarrow>
              if pr_webhook_enabled pr then bindE (tryE (force_sync (rv_force rv) i)) (\<lambda>_. returnE ()) else returnE ()
          | _ \<Rightarrow> returnE ()))"

fun notify_all :: "'w receiver \<Rightarrow> string list \<Rightarrow> ('w, wh_error, unit) io" where
  "notify_all rv [] = returnE ()"
| "notify_all rv (s # ss) = bindE (notify_one rv s) (\<lambda>_. notify_all rv ss)"

definition webhook_request :: "'w receiver \<Rightarrow> string \<Rightarrow> ('w, wh_error, unit) io" where
  "webhook_request rv request =
     bindE (resultE (parse_request_head request)) (\<lambda>(request_line, headers_block, body_offset).
     bindE (resultE (split_request_line request_line)) (\<lambda>(http_method, target).
     if http_method \<noteq> ''POST'' then write_simple_response rv 405 ''method not allowed''
     else
       bindE (resultE (body_from_buffer request body_offset headers_block)) (\<lambda>body.
       case extract_validation_token target of
         Some token \<Rightarrow> map_errE WhErr (wl_write_all (rv_lib rv) (token_response_text token))
       | None \<Rightarrow>
           bindE (map_errE (\<lambda>e. WhErr (''notification body parse failed: '' @ e))
                    (resultE (wl_notifications (rv_lib rv) body))) (\<lambda>states.
           bindE (notify_all rv states) (\<lambda>_. write_simple_response rv 202 ''accepted'')))))"

definition webhook_connection :: "'w receiver \<Rightarrow> ('w, wh_error, unit) io" where
  "webhook_connection rv =
     bindE (map_errE (\<lambda>_. WhErr ''read timed out'') (wl_read (rv_lib rv) WH_BUFFER_BYTES)) (\<lambda>res.
     bindE (map_errE WhErr (resultE res)) (\<lambda>buf.
     if buf = [] then throwE (WhErr ''empty request'') else webhook_request rv (from_utf8_lossy buf)))"

section \<open>The receiver\<close>

text \<open>What the loop waits for; the tasks of its connections run one after the other.\<close>

datatype wh_event = WhAccepted | WhAcceptFailed | WhShutdown

fun receiver_loop :: "'w receiver \<Rightarrow> wh_event list \<Rightarrow> ('w, wh_error, unit) io" where
  "receiver_loop rv [] = returnE ()"
| "receiver_loop rv (WhAccepted # es) = bindE (tryE (webhook_connection rv)) (\<lambda>_. receiver_loop rv es)"
| "receiver_loop rv (WhAcceptFailed # es) = receiver_loop rv es"
| "receiver_loop rv (WhShutdown # es) = returnE ()"

definition spawn_receiver :: "'w receiver \<Rightarrow> nat option \<Rightarrow> ('w, string, nat option) io" where
  "spawn_receiver rv port =
     (case port of
        None \<Rightarrow> returnE None
      | Some p \<Rightarrow>
          let addr = ''127.0.0.1:'' @ show_nat p
          in bindE (map_errE (\<lambda>e. ''webhook receiver: bind '' @ addr @ '' failed: '' @ e) (wl_bind (rv_lib rv) addr))
               (\<lambda>bound. returnE (Some bound)))"

end
