(* ===== verification/Webhook_Props.thy ===== *)
theory Webhook_Props
  imports Webhook Login_Props Fake_Drive
begin

text \<open>
  What the webhook receiver does with a request: the request that Graph sends is read back, the
  pairs it names are queued exactly when they are there with webhooks enabled, and a request that
  does not fit the one read of the receiver is refused.
\<close>

section \<open>Reading a request\<close>

lemma find_sub_CRLF:
  assumes "CHR 0x0D \<notin> set l"
  shows "find_sub CRLF (l @ CRLF @ r) = Some (length l)"
  using assms by (induction l) (auto simp: CRLF_def)

lemma split_once_str_CRLF:
  "CHR 0x0D \<notin> set l \<Longrightarrow> split_once_str CRLF (l @ CRLF @ r) = Some (l, r)"
  using find_sub_CRLF [of l r] by (simp add: split_once_str_def CRLF_def)

text \<open>Lines as a client sends them, and their header block.\<close>

definition plain_line :: "string \<Rightarrow> bool" where
  "plain_line l \<longleftrightarrow> l \<noteq> [] \<and> CHR 0x0D \<notin> set l \<and> CHR 0x0A \<notin> set l"

fun join_lines :: "string list \<Rightarrow> string" where
  "join_lines [] = []"
| "join_lines [l] = l"
| "join_lines (l # ls) = l @ CRLF @ join_lines ls"

lemma find_sub_step:
  assumes "CHR 0x0D \<notin> set l"
  shows "find_sub (CHR 0x0D # p) (l @ s) = map_option ((+) (length l)) (find_sub (CHR 0x0D # p) s)"
  using assms by (induction l) (cases "find_sub (CHR 0x0D # p) s"; simp)+

lemma find_blank_line:
  assumes "\<forall>l \<in> set ls. plain_line l" and "ls \<noteq> []"
  shows "find_sub (CRLF @ CRLF) (join_lines ls @ CRLF @ CRLF @ body) = Some (length (join_lines ls))"
  using assms
proof (induction ls rule: join_lines.induct)
  case (2 l)
  then show ?case using find_sub_step [of l] by (simp add: plain_line_def CRLF_def)
next
  case (3 l l' ls)
  then obtain c r where j: "join_lines (l' # ls) = c # r" "c \<noteq> CHR 0x0D"
    by (cases l'; cases ls) (auto simp: plain_line_def)
  have "find_sub (CRLF @ CRLF) (CRLF @ join_lines (l' # ls) @ CRLF @ CRLF @ body)
      = Some (2 + length (join_lines (l' # ls)))"
    using 3 j by (simp add: CRLF_def)
  with 3 find_sub_step [of l] show ?case by (simp add: plain_line_def CRLF_def)
qed simp

lemma lines_of_block:
  assumes "\<forall>l \<in> set ls. plain_line l"
  shows "all_lines (join_lines ls) = ls"
  using assms
proof (induction ls rule: join_lines.induct)
  case (2 l)
  then show ?case by (simp add: all_lines_def plain_line_def split_on_no_sep)
next
  case (3 l l' ls)
  have ne: "split_on CHR 0x0A (join_lines (l' # ls)) \<noteq> []" by simp
  have "split_on CHR 0x0A (join_lines (l # l' # ls)) = (l @ [CHR 0x0D]) # split_on CHR 0x0A (join_lines (l' # ls))"
    using 3(2) split_on_append [of "CHR 0x0A" "l @ [CHR 0x0D]" "join_lines (l' # ls)"]
    by (simp add: CRLF_def plain_line_def split_on_no_sep)
  with ne 3 show ?case by (auto simp: all_lines_def Let_def strip_cr_def split: if_splits)
qed (simp add: all_lines_def)

lemma trim_digits:
  assumes "list_all is_digit s"
  shows "trim_ws (CHR '' '' # s) = s"
proof -
  have ws: "ws_len (map of_char (c # r)) = 0" if "is_digit c" for c r
    using that by (auto simp: is_digit_def less_eq_char_def)
  have e: "trim_end_ws s = s" using assms
  proof (induction s)
    case (Cons c s)
    then show ?case using ws [of c s] by (simp add: Let_def)
  qed simp
  have "trim_start_ws 0 s = s" using assms ws by (cases s) (auto simp: Let_def)
  with e show ?thesis by (simp add: trim_ws_def Let_def)
qed

lemma content_length_read: "n < 2 ^ 64 \<Longrightarrow> content_length_of (''Content-Length: '' @ show_nat n) = Some n"
  using trim_digits [of "show_nat n"] show_nat_digits
  by (simp add: content_length_of_def parse_u64_show list_all_iff eq_ignore_ascii_case_def)

text \<open>A request with its headers, the last of them the length of the body.\<close>

definition post_lines :: "string \<Rightarrow> string list \<Rightarrow> string \<Rightarrow> string list" where
  "post_lines target headers body =
     (''POST '' @ target @ '' HTTP/1.1'') # headers @ [''Content-Length: '' @ show_nat (length body)]"

definition post_request :: "string \<Rightarrow> string list \<Rightarrow> string \<Rightarrow> string" where
  "post_request target headers body = join_lines (post_lines target headers body) @ CRLF @ CRLF @ body"

definition other_header :: "string \<Rightarrow> bool" where
  "other_header h \<longleftrightarrow> plain_line h \<and> content_length_of h = None"

lemma post_lines_plain:
  assumes "list_all visible target" and "\<forall>h \<in> set headers. other_header h" and "l \<in> set (post_lines target headers body)"
  shows "plain_line l"
proof -
  have d: "CHR 0x0A \<notin> set (show_nat (length body))" "CHR 0x0D \<notin> set (show_nat (length body))"
    using show_nat_digits [of "CHR 0x0A"] show_nat_digits [of "CHR 0x0D"]
    by (auto simp: is_digit_def less_eq_char_def)
  have "CHR 0x0A \<notin> set target" "CHR 0x0D \<notin> set target"
    using assms(1) by (auto simp: list_all_iff visible_def)
  with d assms(2,3) show ?thesis by (auto simp: post_lines_def other_header_def plain_line_def)
qed

lemma request_line_words:
  "list_all visible target \<Longrightarrow> target \<noteq> [] \<Longrightarrow> split_request_line (''POST '' @ target @ '' HTTP/1.1'') = Inr (''POST'', target)"
proof -
  assume v: "list_all visible target" "target \<noteq> []"
  have "split_whitespace (''POST'' @ CHR '' '' # target @ CHR '' '' # ''HTTP/1.1'')
      = ''POST'' # target # split_ws 0 [] ''HTTP/1.1''"
    unfolding split_whitespace_def
    by (subst split_ws_word, simp add: visible_def, subst split_ws_word [OF v(1)])
       (simp add: push_word_def v(2))
  then show ?thesis by (simp add: split_request_line_def)
qed

lemma find_map_last: "\<forall>x \<in> set xs. f x = None \<Longrightarrow> find_map f (xs @ [y]) = f y"
  by (induction xs) (auto split: option.splits)

lemma post_head_split:
  assumes "list_all visible target" and "\<forall>h \<in> set headers. other_header h"
  shows "find_sub (CRLF @ CRLF) (post_request target headers body) = Some (length (join_lines (post_lines target headers body)))"
  unfolding post_request_def
  by (rule find_blank_line) (use post_lines_plain [OF assms] in \<open>auto simp: post_lines_def\<close>)

lemma post_head_lines:
  assumes "list_all visible target" and "\<forall>h \<in> set headers. other_header h"
  shows "split_once_str CRLF (join_lines (post_lines target headers body))
    = Some (hd (post_lines target headers body), join_lines (tl (post_lines target headers body)))"
proof -
  let ?ls = "post_lines target headers body"
  have "join_lines ?ls = hd ?ls @ CRLF @ join_lines (tl ?ls)"
    by (cases headers) (simp_all add: post_lines_def)
  moreover have "CHR 0x0D \<notin> set (hd ?ls)"
    using post_lines_plain [OF assms, of "hd ?ls" body] by (simp add: post_lines_def plain_line_def)
  ultimately show ?thesis by (simp add: split_once_str_CRLF)
qed

lemma post_content_length:
  assumes "list_all visible target" and "\<forall>h \<in> set headers. other_header h" and "length body \<le> MAX_BODY_BYTES"
  shows "find_map content_length_of (all_lines (join_lines (tl (post_lines target headers body)))) = Some (length body)"
proof -
  have "\<forall>l \<in> set (tl (post_lines target headers body)). plain_line l"
    using post_lines_plain [OF assms(1,2)] by (auto simp: post_lines_def)
  then show ?thesis
    using lines_of_block find_map_last [of headers content_length_of] assms(2,3) content_length_read
    by (simp add: post_lines_def other_header_def MAX_BODY_BYTES_def)
qed

lemma post_request_read:
  assumes v: "list_all visible target" "target \<noteq> []" and h: "\<forall>h \<in> set headers. other_header h"
    and len: "length body \<le> MAX_BODY_BYTES"
  defines "req \<equiv> post_request target headers body"
  obtains line block off where "parse_request_head req = Inr (line, block, off)"
    and "split_request_line line = Inr (''POST'', target)" and "body_from_buffer req off block = Inr body"
proof -
  let ?lines = "post_lines target headers body"
  have "parse_request_head req = Inr (hd ?lines, join_lines (tl ?lines), length (join_lines ?lines) + 4)"
    using post_head_split [OF v(1) h] post_head_lines [OF v(1) h]
    by (simp add: parse_request_head_def req_def) (simp add: post_request_def)
  moreover have "drop (length (join_lines ?lines) + 4) req = body"
    by (simp add: req_def post_request_def CRLF_def)
  then have "body_from_buffer req (length (join_lines ?lines) + 4) (join_lines (tl ?lines)) = Inr body"
    using len post_content_length [OF v(1) h len] by (simp add: body_from_buffer_def unwrap_or_def char_boundary_def)
  ultimately show ?thesis using request_line_words [OF v] that by (simp add: post_lines_def)
qed

section \<open>The pairs that are queued\<close>

definition cell_laws :: "('w, 'a) cell \<Rightarrow> bool" where
  "cell_laws c \<longleftrightarrow> (\<forall>x w. cell_get c (cell_set c x w) = x) \<and> (\<forall>x y w. cell_set c x (cell_set c y w) = cell_set c x w)
     \<and> (\<forall>w. cell_set c (cell_get c w) w = w)"

text \<open>
  A store whose lookups of pairs return \<open>look\<close>, an error included, and change nothing; the rows
  lie apart from the channel.
\<close>

definition pairs_seen :: "'w receiver \<Rightarrow> ('w \<Rightarrow> pair_id \<Rightarrow> state_error + pair option) \<Rightarrow> bool" where
  "pairs_seen rv look \<longleftrightarrow> (\<forall>i w. st_pair_get (rv_state rv) i w = (look w i, w))
     \<and> (\<forall>x w. look (cell_set (rv_force rv) x w) = look w)"

text \<open>The same, more loosely: a lookup may fail whenever it likes, but if it answers it tells the truth.\<close>

definition pairs_truthful :: "'w receiver \<Rightarrow> ('w \<Rightarrow> pair_id \<Rightarrow> pair option) \<Rightarrow> bool" where
  "pairs_truthful rv rows \<longleftrightarrow>
     (\<forall>i w r w'. st_pair_get (rv_state rv) i w = (r, w') \<longrightarrow>
        cell_get (rv_force rv) w' = cell_get (rv_force rv) w \<and> rows w' = rows w \<and> (\<forall>x. r = Inr x \<longrightarrow> x = rows w i))
     \<and> (\<forall>x w. rows (cell_set (rv_force rv) x w) = rows w)"

definition webhook_pair :: "(pair_id \<Rightarrow> state_error + pair option) \<Rightarrow> pair_id \<Rightarrow> bool" where
  "webhook_pair look i \<longleftrightarrow> (case look i of Inr (Some pr) \<Rightarrow> pr_webhook_enabled pr | _ \<Rightarrow> False)"

definition named_pairs :: "'w receiver \<Rightarrow> (pair_id \<Rightarrow> state_error + pair option) \<Rightarrow> string list \<Rightarrow> pair_id list" where
  "named_pairs rv look states =
     filter (webhook_pair look) (List.map_filter (pair_of_client_state (rv_ulid_parse rv)) states)"

definition queue_pairs :: "('w, force_channel) cell \<Rightarrow> pair_id list \<Rightarrow> 'w \<Rightarrow> 'w" where
  "queue_pairs c is w = cell_set c ((cell_get c w)\<lparr>fc_queue := fc_queue (cell_get c w) @ is\<rparr>) w"

lemma queue_pairs_Nil: "cell_laws c \<Longrightarrow> queue_pairs c [] w = w"
  by (simp add: queue_pairs_def cell_laws_def)

lemma queue_pairs_append: "cell_laws c \<Longrightarrow> queue_pairs c js (queue_pairs c is w) = queue_pairs c (is @ js) w"
  by (simp add: queue_pairs_def cell_laws_def)

lemma queue_pairs_frame:
  assumes "cell_laws (rv_force rv)" and "pairs_seen rv look"
  shows "fc_closed (cell_get (rv_force rv) (queue_pairs (rv_force rv) is w)) = fc_closed (cell_get (rv_force rv) w)"
    and "look (queue_pairs (rv_force rv) is w) = look w"
  using assms by (simp_all add: queue_pairs_def cell_laws_def pairs_seen_def)

lemma notify_one_run:
  assumes c: "cell_laws (rv_force rv)" and s: "pairs_seen rv look"
  shows "notify_one rv st w =
    (Inr (), if fc_closed (cell_get (rv_force rv) w) then w else queue_pairs (rv_force rv) (named_pairs rv (look w) [st]) w)"
  using queue_pairs_Nil [OF c] s
  by (auto simp: notify_one_def named_pairs_def map_filter_simps pairs_seen_def webhook_pair_def force_sync_def
      queue_pairs_def handler_defs io_simps split: option.splits sum.splits)

lemma notify_all_run:
  assumes c: "cell_laws (rv_force rv)" and s: "pairs_seen rv look"
  shows "notify_all rv states w =
    (Inr (), if fc_closed (cell_get (rv_force rv) w) then w else queue_pairs (rv_force rv) (named_pairs rv (look w) states) w)"
proof (induction states arbitrary: w)
  case Nil
  then show ?case by (simp add: queue_pairs_Nil [OF c] named_pairs_def map_filter_simps returnE_def)
next
  case (Cons st states)
  have "named_pairs rv l (st # states) = named_pairs rv l [st] @ named_pairs rv l states" for l
    by (simp add: named_pairs_def map_filter_simps split: option.splits)
  then show ?case
    using Cons queue_pairs_frame [OF c s] queue_pairs_append [OF c]
    by (auto simp: notify_one_run [OF c s] bindE_def)
qed

lemma lossy_ascii: "is_ascii s \<Longrightarrow> from_utf8_lossy s = s"
  unfolding from_utf8_lossy_def
  by (induction s) (auto simp: utf8_chunk_def Let_def)

text \<open>
  C25: A notification arrives whole: an ASCII request of at most 16 KiB that one read returns
  (a request that does not fit the one read is refused).  It is read back from the buffer
  whatever other headers it has; exactly the pairs named by its client states that a lookup
  finds in the store with webhooks enabled are queued for the scheduler, in order, a pair whose
  lookup fails is not queued, and when the channel is closed nothing is; the answer is 202 in
  every case.
\<close>
theorem webhook_notification_delivered:
  assumes c: "cell_laws (rv_force rv)" and s: "pairs_seen rv look"
    and target: "list_all visible target" "target \<noteq> []" "extract_validation_token target = None"
    and headers: "\<forall>h \<in> set headers. other_header h" and ascii: "is_ascii (post_request target headers body)"
    and small: "length (post_request target headers body) \<le> WH_BUFFER_BYTES"
    and read: "wl_read (rv_lib rv) WH_BUFFER_BYTES w = (Inr (Inr (post_request target headers body)), w1)"
    and json: "wl_notifications (rv_lib rv) body = Inr states"
  shows "webhook_connection rv w = write_simple_response rv 202 ''accepted''
    (if fc_closed (cell_get (rv_force rv) w1) then w1
     else queue_pairs (rv_force rv) (named_pairs rv (look w1) states) w1)"
proof -
  let ?req = "post_request target headers body"
  have "length body \<le> MAX_BODY_BYTES"
    using small by (simp add: post_request_def WH_BUFFER_BYTES_def MAX_BODY_BYTES_def)
  from post_request_read [OF target(1,2) headers this] obtain line block off where
    "parse_request_head ?req = Inr (line, block, off)" "split_request_line line = Inr (''POST'', target)"
    "body_from_buffer ?req off block = Inr body" by blast
  moreover have "?req \<noteq> []" by (simp add: post_request_def CRLF_def)
  ultimately show ?thesis
    using read json target(3)
    by (simp add: webhook_connection_def webhook_request_def lossy_ascii [OF ascii] notify_all_run [OF c s] io_simps)
qed

lemma notify_one_queues:
  assumes c: "cell_laws (rv_force rv)" and t: "pairs_truthful rv rows" and run: "notify_one rv st w = (r, w')"
  shows "\<exists>is. fc_queue (cell_get (rv_force rv) w') = fc_queue (cell_get (rv_force rv) w) @ is \<and> rows w' = rows w
    \<and> (\<forall>i \<in> set is. \<exists>pr. rows w i = Some pr \<and> pr_webhook_enabled pr)"
proof (cases "pair_of_client_state (rv_ulid_parse rv) st")
  case None
  with run show ?thesis by (simp add: notify_one_def returnE_def)
next
  case (Some i)
  obtain x w1 where g: "st_pair_get (rv_state rv) i w = (x, w1)" by fastforce
  have f: "cell_get (rv_force rv) w1 = cell_get (rv_force rv) w" "rows w1 = rows w" "\<And>y. x = Inr y \<Longrightarrow> y = rows w i"
    using t g unfolding pairs_truthful_def by blast+
  have set: "cell_get (rv_force rv) (cell_set (rv_force rv) y v) = y" "rows (cell_set (rv_force rv) y v) = rows v" for y v
    using c t by (simp_all add: cell_laws_def pairs_truthful_def)
  show ?thesis
  proof (cases "\<exists>pr. x = Inr (Some pr) \<and> pr_webhook_enabled pr \<and> \<not> fc_closed (cell_get (rv_force rv) w1)")
    case False
    with run Some g f have "w' = w1"
      by (auto simp: notify_one_def force_sync_def handler_defs io_simps split: sum.splits option.splits if_splits)
    with f show ?thesis by simp
  next
    case True
    then obtain pr where pr: "x = Inr (Some pr)" "pr_webhook_enabled pr" "\<not> fc_closed (cell_get (rv_force rv) w1)" by blast
    with run Some g have "w' = queue_pairs (rv_force rv) [i] w1"
      by (auto simp: notify_one_def force_sync_def handler_defs io_simps queue_pairs_def)
    with f(1,2) f(3) [OF pr(1), symmetric] pr(2) show ?thesis
      by (intro exI [of _ "[i]"]) (auto simp: queue_pairs_def set)
  qed
qed

lemma notify_all_queues:
  assumes c: "cell_laws (rv_force rv)" and t: "pairs_truthful rv rows"
  shows "notify_all rv states w = (r, w') \<Longrightarrow>
    \<exists>is. fc_queue (cell_get (rv_force rv) w') = fc_queue (cell_get (rv_force rv) w) @ is \<and> rows w' = rows w
    \<and> (\<forall>i \<in> set is. \<exists>pr. rows w i = Some pr \<and> pr_webhook_enabled pr)"
proof (induction states arbitrary: w)
  case Nil
  then show ?case by (simp add: returnE_def)
next
  case (Cons st states)
  obtain x w1 where x: "notify_one rv st w = (x, w1)" by fastforce
  from notify_one_queues [OF c t x] obtain "is" where one:
    "fc_queue (cell_get (rv_force rv) w1) = fc_queue (cell_get (rv_force rv) w) @ is" "rows w1 = rows w"
    "\<forall>i \<in> set is. \<exists>pr. rows w i = Some pr \<and> pr_webhook_enabled pr" by blast
  show ?case
  proof (cases x)
    case (Inl e)
    with Cons.prems x one show ?thesis by (auto simp: bindE_def)
  next
    case (Inr u)
    with Cons.prems x have "notify_all rv states w1 = (r, w')" by (simp add: bindE_def)
    from Cons.IH [OF this] one obtain js where
      "fc_queue (cell_get (rv_force rv) w') = fc_queue (cell_get (rv_force rv) w) @ is @ js" "rows w' = rows w"
      "\<forall>i \<in> set js. \<exists>pr. rows w i = Some pr \<and> pr_webhook_enabled pr" by auto
    with one(3) show ?thesis by (intro exI [of _ "is @ js"]) auto
  qed
qed

lemma request_queues:
  assumes "webhook_request rv request w = (r, w')"
    and wr: "\<And>t w r w'. wl_write_all (rv_lib rv) t w = (r, w') \<Longrightarrow> cell_get (rv_force rv) w' = cell_get (rv_force rv) w"
  shows "cell_get (rv_force rv) w' = cell_get (rv_force rv) w
    \<or> (\<exists>states x v. notify_all rv states w = (x, v) \<and> cell_get (rv_force rv) w' = cell_get (rv_force rv) v)"
  using assms(1)
  by (auto simp: webhook_request_def write_simple_response_def io_simps
      split: prod.splits sum.splits if_splits option.splits dest!: wr)

text \<open>
  C26: Nothing but a pair that is in the store with webhooks enabled is ever queued: whatever the
  client sends, and however many lookups fail, the queue of the scheduler keeps what it had and
  gains only such pairs; a lookup that answers is assumed to tell the truth.
\<close>
theorem webhook_queues_only_enabled:
  assumes c: "cell_laws (rv_force rv)" and s: "pairs_truthful rv rows"
    and read: "\<And>n w r w'. wl_read (rv_lib rv) n w = (r, w') \<Longrightarrow>
      cell_get (rv_force rv) w' = cell_get (rv_force rv) w \<and> rows w' = rows w"
    and wr: "\<And>t w r w'. wl_write_all (rv_lib rv) t w = (r, w') \<Longrightarrow> cell_get (rv_force rv) w' = cell_get (rv_force rv) w"
    and run: "webhook_connection rv w = (r, w')"
  shows "\<exists>is. fc_queue (cell_get (rv_force rv) w') = fc_queue (cell_get (rv_force rv) w) @ is
    \<and> (\<forall>i \<in> set is. \<exists>pr. rows w i = Some pr \<and> pr_webhook_enabled pr)"
proof -
  obtain res w1 where r1: "wl_read (rv_lib rv) WH_BUFFER_BYTES w = (res, w1)" by fastforce
  have "w' = w1 \<or> (\<exists>request. webhook_request rv request w1 = (r, w'))"
    using run r1 by (auto simp: webhook_connection_def io_simps split: sum.splits if_splits)
  then have "cell_get (rv_force rv) w' = cell_get (rv_force rv) w1
    \<or> (\<exists>states x v. notify_all rv states w1 = (x, v) \<and> cell_get (rv_force rv) w' = cell_get (rv_force rv) v)"
    using request_queues [of rv _ w1 r w'] wr by blast
  then show ?thesis
  proof (elim disjE exE conjE)
    assume "cell_get (rv_force rv) w' = cell_get (rv_force rv) w1"
    with read [OF r1] show ?thesis by simp
  next
    fix states x v
    assume n: "notify_all rv states w1 = (x, v)" "cell_get (rv_force rv) w' = cell_get (rv_force rv) v"
    from notify_all_queues [OF c s n(1)] n(2) read [OF r1] show ?thesis by auto
  qed
qed

section \<open>A request that does not fit\<close>

lemma find_sub_bounds: "find_sub p s = Some i \<Longrightarrow> i + length p \<le> length s"
proof (induction s arbitrary: i)
  case (Cons c s)
  then show ?case
    by (auto split: if_splits dest!: strip_prefix_SomeD) (metis length_Cons length_append le_add1)
qed (simp split: if_splits)

lemma find_sub_short: "length s < length p \<Longrightarrow> find_sub p s = None"
  using find_sub_bounds by (cases "find_sub p s") force+

lemma strip_prefix_take:
  "strip_prefix p (take k s) \<noteq> None \<longleftrightarrow> length p \<le> k \<and> strip_prefix p s \<noteq> None" if "k \<le> length s"
  using that
proof (induction p s arbitrary: k rule: strip_prefix.induct)
  case (3 q ps x xs)
  then show ?case by (cases k) auto
qed auto

text \<open>A cut text has the first occurrence of a pattern, or none.\<close>

lemma find_sub_take:
  assumes "find_sub p s = Some i" and "p \<noteq> []" and "k \<le> length s"
  shows "find_sub p (take k s) = (if i + length p \<le> k then Some i else None)"
  using assms
proof (induction s arbitrary: i k)
  case (Cons c s)
  show ?case
  proof (cases k)
    case 0
    with Cons.prems show ?thesis by (cases p) auto
  next
    case (Suc j)
    with Cons show ?thesis
      using strip_prefix_take [of k "c # s" p] find_sub_short [of "take j s" p]
      by (auto split: if_splits option.splits)
  qed
qed simp

text \<open>
  A notification that is not read as a whole is refused.  The receiver reads once, at most
  16 KiB: from any proper part of the request that arrived with that read the connection ends
  with an error, no reply is written and no pair is queued, although bodies of 256 KiB are
  meant to be accepted.
\<close>
theorem webhook_partial_read_refused:
  assumes target: "list_all visible target" "target \<noteq> []"
    and headers: "\<forall>h \<in> set headers. other_header h" and ascii: "is_ascii (post_request target headers body)"
    and body: "length body \<le> MAX_BODY_BYTES"
    and part: "k < length (post_request target headers body)"
    and read: "wl_read (rv_lib rv) WH_BUFFER_BYTES w = (Inr (Inr (take k (post_request target headers body))), w1)"
  shows "\<exists>msg. webhook_connection rv w = (Inl (WhErr msg), w1)"
proof -
  let ?req = "post_request target headers body" and ?lines = "post_lines target headers body"
  let ?part = "take k ?req" and ?head = "join_lines (post_lines target headers body)"
  have found: "find_sub (CRLF @ CRLF) ?part = (if length ?head + 4 \<le> k then Some (length ?head) else None)"
    using find_sub_take [OF post_head_split [OF target(1) headers], of k] part by (simp add: CRLF_def)
  have ascii': "is_ascii ?part" using ascii by (auto simp: is_ascii_def list_all_iff dest: in_set_takeD)
  have "\<exists>msg. webhook_request rv ?part w1 = (Inl (WhErr msg), w1)"
  proof (cases "length ?head + 4 \<le> k")
    case False
    with found show ?thesis by (simp add: webhook_request_def parse_request_head_def io_simps)
  next
    case True
    have "take (length ?head) ?part = ?head" using True by (simp add: post_request_def min_def)
    with True found have head: "parse_request_head ?part = Inr (hd ?lines, join_lines (tl ?lines), length ?head + 4)"
      using post_head_lines [OF target(1) headers] by (simp add: parse_request_head_def)
    have "length (drop (length ?head + 4) ?part) < length body"
      using True part by (simp add: post_request_def CRLF_def)
    then have "\<exists>msg. body_from_buffer ?part (length ?head + 4) (join_lines (tl ?lines)) = Inl (WhErr msg)"
      using body post_content_length [OF target(1) headers body] by (simp add: body_from_buffer_def unwrap_or_def)
    with head request_line_words [OF target] show ?thesis
      by (auto simp: webhook_request_def post_lines_def io_simps)
  qed
  with read show ?thesis
    by (simp add: webhook_connection_def lossy_ascii [OF ascii'] io_simps)
qed

section \<open>A concrete receiver\<close>

text \<open>
  The in-memory store with a pair that has webhooks enabled and one that has not, where the
  lookup of a third fails, beside a socket from which one read takes at most \<open>hx_packet\<close> bytes.
\<close>

record hook_ext =
  hx_in :: string
  hx_packet :: nat
  hx_out :: string
  hx_force :: force_channel

definition hook_receiver :: "hook_ext mem_world receiver" where
  "hook_receiver =
     \<lparr>rv_lib = \<lparr>wl_read = (\<lambda>n w. (Inr (Inr (take (min n (hx_packet (mw_ext w))) (hx_in (mw_ext w)))), w)),
        wl_write_all = (\<lambda>t w. (Inr (), w\<lparr>mw_ext := (mw_ext w)\<lparr>hx_out := hx_out (mw_ext w) @ t\<rparr>\<rparr>)),
        wl_notifications = (\<lambda>_. Inr [''pair_aa'', ''other'', ''pair_a'', ''pair_aaa'']), wl_bind = (\<lambda>_. throwE [])\<rparr>,
      rv_state = (mem_state_store ascii_lib)\<lparr>st_pair_get := (\<lambda>i w.
        (if i = Id 3 then Inl (SeIo ''locked'') else Inr (map_of (ms_pairs (mw_store w)) i), w))\<rparr>,
      rv_force = \<lparr>cell_get = (\<lambda>w. hx_force (mw_ext w)), cell_set = (\<lambda>x w. w\<lparr>mw_ext := (mw_ext w)\<lparr>hx_force := x\<rparr>\<rparr>)\<rparr>,
      rv_ulid_parse = (\<lambda>s. Inr (word_of_nat (length s)))\<rparr>"

definition hook_rows :: "'x mem_world \<Rightarrow> pair_id \<Rightarrow> pair option" where
  "hook_rows w = map_of (ms_pairs (mw_store w))"

definition hook_look :: "'x mem_world \<Rightarrow> pair_id \<Rightarrow> state_error + pair option" where
  "hook_look w i = (if i = Id 3 then Inl (SeIo ''locked'') else Inr (hook_rows w i))"

lemma hook_laws: "cell_laws (rv_force hook_receiver)" "pairs_seen hook_receiver hook_look"
  "pairs_truthful hook_receiver hook_rows"
  by (simp_all add: cell_laws_def pairs_seen_def pairs_truthful_def hook_receiver_def hook_look_def hook_rows_def
      fun_eq_iff)

definition hook_world :: "nat \<Rightarrow> hook_ext mem_world" where
  "hook_world packet =
     \<lparr>mw_store = empty_store\<lparr>ms_pairs := [(Id 1, (sample_pair (Id 1) (Id 9))\<lparr>pr_webhook_enabled := True\<rparr>),
                                          (Id 2, sample_pair (Id 2) (Id 9))]\<rparr>,
      mw_ext = \<lparr>hx_in = post_request ''/callback'' [''Host: h''] ''{}'', hx_packet = packet, hx_out = [],
                hx_force = \<lparr>fc_queue = [Id 5], fc_closed = False\<rparr>\<rparr>\<rparr>"

lemma hook_request:
  "list_all visible ''/callback''" "extract_validation_token ''/callback'' = None"
  "\<forall>h \<in> set [''Host: h'']. other_header h" "is_ascii (post_request ''/callback'' [''Host: h''] ''{}'')"
  "length (post_request ''/callback'' [''Host: h''] ''{}'') = 57"
proof -
  show "list_all visible ''/callback''" by (simp add: visible_def)
  show "extract_validation_token ''/callback'' = None" by (simp add: extract_validation_token_def)
  show "\<forall>h \<in> set [''Host: h'']. other_header h"
    by (simp add: other_header_def plain_line_def content_length_of_def eq_ignore_ascii_case_def)
      code_simp
  show "is_ascii (post_request ''/callback'' [''Host: h''] ''{}'')"
    "length (post_request ''/callback'' [''Host: h''] ''{}'') = 57"
    by code_simp+
qed

lemma hook_named:
  "named_pairs hook_receiver (hook_look (hook_world n)) [''pair_aa'', ''other'', ''pair_a'', ''pair_aaa''] = [Id 1]"
  by (simp add: named_pairs_def map_filter_simps pair_of_client_state_def hook_receiver_def id_from_str_def pair_prefix_def
      webhook_pair_def hook_look_def hook_rows_def hook_world_def sample_pair_def empty_store_def)

theorem webhook_notification_delivered_witness:
  "\<exists>w'. webhook_connection hook_receiver (hook_world 100) = (Inr (), w')
     \<and> hx_out (mw_ext w') = simple_response 202 ''accepted'' \<and> fc_queue (hx_force (mw_ext w')) = [Id 5, Id 1]"
proof -
  let ?req = "post_request ''/callback'' [''Host: h''] ''{}''"
  have read: "wl_read (rv_lib hook_receiver) WH_BUFFER_BYTES (hook_world 100) = (Inr (Inr ?req), hook_world 100)"
    using hook_request(5) by (simp add: hook_receiver_def hook_world_def WH_BUFFER_BYTES_def)
  have small: "length ?req \<le> WH_BUFFER_BYTES" using hook_request(5) by (simp add: WH_BUFFER_BYTES_def)
  have json: "wl_notifications (rv_lib hook_receiver) ''{}'' = Inr [''pair_aa'', ''other'', ''pair_a'', ''pair_aaa'']"
    by (simp add: hook_receiver_def)
  show ?thesis
    unfolding webhook_notification_delivered [OF hook_laws(1,2) hook_request(1) _ hook_request(2-4) small read json, simplified]
      hook_named
    by (simp add: write_simple_response_def queue_pairs_def hook_receiver_def hook_world_def map_errE_def)
qed

theorem webhook_queues_only_enabled_witness:
  "\<exists>r w' is. webhook_connection hook_receiver (hook_world 100) = (r, w')
     \<and> fc_queue (hx_force (mw_ext w')) = Id 5 # is \<and> (\<forall>i \<in> set is. i = Id 1)"
proof -
  obtain r w' where run: "webhook_connection hook_receiver (hook_world 100) = (r, w')" by fastforce
  have "\<exists>is. fc_queue (cell_get (rv_force hook_receiver) w') = fc_queue (cell_get (rv_force hook_receiver) (hook_world 100)) @ is
      \<and> (\<forall>i \<in> set is. \<exists>pr. hook_rows (hook_world 100) i = Some pr \<and> pr_webhook_enabled pr)"
    by (rule webhook_queues_only_enabled [OF hook_laws(1,3) _ _ run])
       (auto simp: hook_receiver_def hook_rows_def)
  with run show ?thesis
    by (auto simp: hook_receiver_def hook_world_def hook_rows_def sample_pair_def split: if_splits)
qed

theorem webhook_partial_read_refused_witness:
  "\<exists>msg. webhook_connection hook_receiver (hook_world 56) = (Inl (WhErr msg), hook_world 56)"
proof (rule webhook_partial_read_refused [OF hook_request(1) _ hook_request(3,4)])
  show "wl_read (rv_lib hook_receiver) WH_BUFFER_BYTES (hook_world 56)
      = (Inr (Inr (take 56 (post_request ''/callback'' [''Host: h''] ''{}''))), hook_world 56)"
    by (simp add: hook_receiver_def hook_world_def WH_BUFFER_BYTES_def)
qed (simp_all add: hook_request(5) MAX_BODY_BYTES_def)

end
