(* ===== verification/Cli_Client.thy ===== *)
theory Cli_Client
  imports Webhook
begin

text \<open>
  The client side of the RPC (\<open>crates/onesync-cli/src\<close>: \<open>error.rs\<close>, \<open>exit_codes.rs\<close>,
  \<open>output.rs\<close>, \<open>rpc.rs\<close>): the errors of a command with their exit codes, the output, and the
  one-shot call over the daemon's socket.  The operating system, \<open>serde_json\<close> and standard
  output are the parameter \<open>cli_lib\<close>.
\<close>

section \<open>Calls that may not return\<close>

text \<open>\<open>None\<close> is a call that never returns: a call of the socket has no timeout.\<close>

type_synonym ('w, 'e, 'a) pio = "'w \<Rightarrow> (('e + 'a) \<times> 'w) option"

definition bindP :: "('w, 'e, 'a) pio \<Rightarrow> ('a \<Rightarrow> ('w, 'e, 'b) pio) \<Rightarrow> ('w, 'e, 'b) pio" where
  "bindP m f w =
     (case m w of None \<Rightarrow> None | Some (Inl e, w') \<Rightarrow> Some (Inl e, w') | Some (Inr x, w') \<Rightarrow> f x w')"

definition ends :: "('w, 'e, 'a) io \<Rightarrow> ('w, 'e, 'a) pio" where
  "ends m w = Some (m w)"

definition map_errP :: "('e \<Rightarrow> 'f) \<Rightarrow> ('w, 'e, 'a) pio \<Rightarrow> ('w, 'f, 'a) pio" where
  "map_errP f m w =
     (case m w of None \<Rightarrow> None | Some (Inl e, w') \<Rightarrow> Some (Inl (f e), w') | Some (Inr x, w') \<Rightarrow> Some (Inr x, w'))"

definition tryP :: "('w, 'e, 'a) pio \<Rightarrow> ('w, 'f, 'e + 'a) pio" where
  "tryP m w = (case m w of None \<Rightarrow> None | Some (r, w') \<Rightarrow> Some (Inr r, w'))"

section \<open>The platform\<close>

record proc_output =
  po_success :: bool
  po_stdout :: string
  po_stderr :: string

text \<open>
  The calls of the socket wait for the other end.  An I/O error of the socket tells whether the socket was refused or missing.  \<open>cl_decode\<close> and
  \<open>cl_encode\<close> are the codecs of the RPC types, \<open>cl_envelope\<close> the kind of an error envelope;
  \<open>cl_instant\<close> is the monotonic clock in milliseconds.
\<close>

record 'w cli_lib =
  cl_connect :: "path_buf \<Rightarrow> ('w, bool \<times> string, unit) pio"
  cl_write_all :: "string \<Rightarrow> ('w, bool \<times> string, unit) pio"
  cl_flush :: "('w, bool \<times> string, unit) pio"
  cl_read_line :: "('w, bool \<times> string, string) pio"
  cl_print :: "string \<Rightarrow> 'w \<Rightarrow> 'w"
  cl_encode :: "rpc_request \<Rightarrow> string + string"
  cl_decode :: "string \<Rightarrow> string + rpc_response"
  cl_parse_json :: "string \<Rightarrow> string + json"
  cl_compact :: "json \<Rightarrow> string + string"
  cl_pretty :: "json \<Rightarrow> string + string"
  cl_envelope :: "json \<Rightarrow> string option"
  cl_version :: string
  cl_env :: "string \<Rightarrow> string option"
  cl_run :: "string \<Rightarrow> string list \<Rightarrow> ('w, string, proc_output) io"
  cl_exists :: "path_buf \<Rightarrow> 'w \<Rightarrow> bool \<times> 'w"
  cl_create_dir_all :: "path_buf \<Rightarrow> ('w, string, unit) io"
  cl_copy :: "path_buf \<Rightarrow> path_buf \<Rightarrow> ('w, string, unit) io"
  cl_stat :: "path_buf \<Rightarrow> ('w, string, unit) io"
  cl_chmod :: "path_buf \<Rightarrow> nat \<Rightarrow> ('w, string, unit) io"
  cl_write_file :: "path_buf \<Rightarrow> string \<Rightarrow> ('w, string, unit) io"
  cl_remove_file :: "path_buf \<Rightarrow> ('w, string, unit) io"
  cl_remove_dir_all :: "path_buf \<Rightarrow> ('w, string, unit) io"
  cl_current_exe :: "('w, string, path_buf) io"
  cl_instant :: "'w \<Rightarrow> nat \<times> 'w"
  cl_sleep :: "nat \<Rightarrow> 'w \<Rightarrow> 'w"

section \<open>Errors\<close>

datatype cli_error =
    CliGeneric string
  | CliInvalidArgs string
  | CliDaemonNotRunning string
  | CliAuthRequired
  | CliPairErrored string
  | CliConflictUnresolved string
  | CliPermission string
  | CliNetwork string
  | CliLimitExceeded string
  | CliVersionMajorMismatch string

fun exit_code_for :: "cli_error \<Rightarrow> nat" where
  "exit_code_for (CliGeneric _) = 1"
| "exit_code_for (CliInvalidArgs _) = 2"
| "exit_code_for (CliDaemonNotRunning _) = 3"
| "exit_code_for CliAuthRequired = 4"
| "exit_code_for (CliPairErrored _) = 5"
| "exit_code_for (CliConflictUnresolved _) = 6"
| "exit_code_for (CliPermission _) = 7"
| "exit_code_for (CliNetwork _) = 8"
| "exit_code_for (CliLimitExceeded _) = 9"
| "exit_code_for (CliVersionMajorMismatch _) = 10"

definition starts_with_str :: "string \<Rightarrow> string \<Rightarrow> bool" where
  "starts_with_str p s \<longleftrightarrow> strip_prefix p s \<noteq> None"

definition of_rpc_error :: "string \<Rightarrow> string \<Rightarrow> cli_error" where
  "of_rpc_error kind message =
     (if kind = ''auth.required'' \<or> kind = ''auth.token_revoked'' then CliAuthRequired
      else if kind = ''pair.errored'' then CliPairErrored message
      else if kind = ''conflict.unresolved'' then CliConflictUnresolved message
      else if kind = ''permission.denied'' then CliPermission message
      else if starts_with_str ''network'' kind \<or> starts_with_str ''graph'' kind then CliNetwork message
      else if starts_with_str ''limit'' kind then CliLimitExceeded message
      else if kind = ''version.major_mismatch'' then CliVersionMajorMismatch message
      else CliGeneric message)"

text \<open>\<open>i32\<close> in decimal.\<close>

definition show_int :: "int \<Rightarrow> string" where
  "show_int i = (if i < 0 then ''-'' @ show_nat (nat (- i)) else show_nat (nat i))"

definition of_json_rpc_error :: "'w cli_lib \<Rightarrow> json_rpc_error \<Rightarrow> cli_error" where
  "of_json_rpc_error cl err =
     (case Option.bind (je_data err) (cl_envelope cl) of
        Some kind \<Rightarrow> of_rpc_error kind (je_message err)
      | None \<Rightarrow> CliGeneric (je_message err @ '' (code '' @ show_int (je_code err) @ '')''))"

definition of_io_error :: "bool \<times> string \<Rightarrow> cli_error" where
  "of_io_error e = (if fst e then CliDaemonNotRunning (snd e) else CliGeneric (snd e))"

definition of_json_error :: "string \<Rightarrow> cli_error" where
  "of_json_error e = CliGeneric (''json: '' @ e)"

type_synonym ('w, 'a) cio = "('w, cli_error, 'a) io"
type_synonym ('w, 'a) cpio = "('w, cli_error, 'a) pio"

section \<open>Output\<close>

record output_cfg =
  oc_json :: bool
  oc_color :: bool

definition output_from_flags :: "'w cli_lib \<Rightarrow> bool \<Rightarrow> bool \<Rightarrow> output_cfg" where
  "output_from_flags cl json no_color =
     \<lparr>oc_json = json, oc_color = (\<not> no_color \<and> cl_env cl ''NO_COLOR'' = None)\<rparr>"

definition println :: "'w cli_lib \<Rightarrow> string \<Rightarrow> ('w, unit) cio" where
  "println cl s = modifyE (cl_print cl (s @ [CHR 0x0A]))"

definition emit_value :: "'w cli_lib \<Rightarrow> output_cfg \<Rightarrow> json \<Rightarrow> ('w, unit) cio" where
  "emit_value cl cfg v =
     bindE (map_errE of_json_error (resultE ((if oc_json cfg then cl_compact cl else cl_pretty cl) v))) (println cl)"

section \<open>The client\<close>

definition default_socket_path :: "'w cli_lib \<Rightarrow> path_buf" where
  "default_socket_path cl =
     path_join (path_join (PathBuf (unwrap_or ''/tmp/'' (cl_env cl ''TMPDIR''))) ''onesync'') ''onesync.sock''"

definition client_connect :: "'w cli_lib \<Rightarrow> path_buf \<Rightarrow> ('w, unit) cpio" where
  "client_connect cl socket = map_errP of_io_error (cl_connect cl socket)"

definition request_id :: "nat \<Rightarrow> string" where
  "request_id n = ''req_'' @ replicate (20 - length (show_nat n)) CHR ''0'' @ show_nat n"

text \<open>A connection serves one call, whose identifier is the first.\<close>

definition cli_request :: "string \<Rightarrow> json \<Rightarrow> rpc_request" where
  "cli_request meth params =
     \<lparr>jq_jsonrpc = ''2.0'', jq_id = Some (JString (request_id 1)), jq_method = meth, jq_params = params\<rparr>"

definition client_call :: "'w cli_lib \<Rightarrow> string \<Rightarrow> json \<Rightarrow> ('w, json) cpio" where
  "client_call cl meth params =
     (let req = cli_request meth params in
      bindP (ends (map_errE of_json_error (resultE (cl_encode cl req)))) (\<lambda>bytes.
      bindP (map_errP of_io_error (cl_write_all cl bytes)) (\<lambda>_.
      bindP (map_errP of_io_error (cl_write_all cl [CHR 0x0A])) (\<lambda>_.
      bindP (map_errP of_io_error (cl_flush cl)) (\<lambda>_.
      bindP (map_errP of_io_error (cl_read_line cl)) (\<lambda>line.
      if line = [] then ends (throwE (CliGeneric ''daemon closed the connection''))
      else
        bindP (ends (map_errE of_json_error (resultE (cl_decode cl (trim_end_ws line))))) (\<lambda>resp.
        ends (case resp of
          RpcOk _ _ result \<Rightarrow> returnE result
        | RpcErr _ _ err \<Rightarrow> throwE (of_json_rpc_error cl err)))))))))"

definition cli_rpc :: "'w cli_lib \<Rightarrow> path_buf \<Rightarrow> string \<Rightarrow> json \<Rightarrow> ('w, json) cpio" where
  "cli_rpc cl socket meth params = bindP (client_connect cl socket) (\<lambda>_. client_call cl meth params)"

end
