(* ===== verification/Cli_Service.thy ===== *)
theory Cli_Service
  imports Cli_Client
begin

text \<open>
  \<open>onesync service ..\<close> (\<open>crates/onesync-cli/src/service.rs\<close>): installing, starting, stopping and
  checking the daemon through \<open>launchctl\<close>.  The loops that wait for the daemon end only if the
  clock moves and the calls of the socket return; \<open>None\<close> is a command that never returns.
\<close>

section \<open>Helpers\<close>

definition LABEL :: string where "LABEL = ''dev.onesync.daemon''"
definition PING_TIMEOUT_S :: nat where "PING_TIMEOUT_S = 60"

datatype service_cmd = SvcInstall | SvcUninstall bool | SvcStart | SvcStop | SvcRestart | SvcDoctor

definition home_dir :: "'w cli_lib \<Rightarrow> cli_error + path_buf" where
  "home_dir cl = (case cl_env cl ''HOME'' of None \<Rightarrow> Inl (CliGeneric ''HOME not set'') | Some h \<Rightarrow> Inr (PathBuf h))"

definition uid_string :: "'w cli_lib \<Rightarrow> ('w, string) cio" where
  "uid_string cl =
     bindE (map_errE (\<lambda>e. CliGeneric (''id -u: '' @ e)) (cl_run cl ''id'' [''-u''])) (\<lambda>out.
     if \<not> po_success out then throwE (CliGeneric ''id -u failed'')
     else returnE (trim_ws (from_utf8_lossy (po_stdout out))))"

definition current_user_is_root :: "'w cli_lib \<Rightarrow> ('w, bool) cio" where
  "current_user_is_root cl =
     bindE (tryE (uid_string cl)) (\<lambda>r. returnE (case r of Inr u \<Rightarrow> u = ''0'' | Inl _ \<Rightarrow> False))"

record svc_paths =
  sp_state_dir :: path_buf
  sp_log_dir :: path_buf
  sp_plist :: path_buf
  sp_daemon_binary :: path_buf

definition resolve_paths :: "'w cli_lib \<Rightarrow> cli_error + svc_paths" where
  "resolve_paths cl =
     (case home_dir cl of
        Inl e \<Rightarrow> Inl e
      | Inr home \<Rightarrow>
          let state_dir = path_join home ''Library/Application Support/onesync''
          in Inr \<lparr>sp_state_dir = state_dir, sp_log_dir = path_join home ''Library/Logs/onesync'',
                  sp_plist = path_join home (''Library/LaunchAgents/'' @ LABEL @ ''.plist''),
                  sp_daemon_binary = path_join state_dir ''bin/onesyncd''\<rparr>)"

definition unlines :: "string list \<Rightarrow> string" where
  "unlines ls = concat (map (\<lambda>l. l @ [CHR 0x0A]) ls)"

definition render_plist :: "svc_paths \<Rightarrow> string" where
  "render_plist p =
     unlines
      [''<?xml version=\"1.0\" encoding=\"UTF-8\"?>'',
       ''<!DOCTYPE plist PUBLIC \"-//Apple//DTD PLIST 1.0//EN\"'',
       ''                       \"http://www.apple.com/DTDs/PropertyList-1.0.dtd\">'',
       ''<plist version=\"1.0\">'',
       ''<dict>'',
       ''    <key>Label</key><string>'' @ LABEL @ ''</string>'',
       ''    <key>ProgramArguments</key>'',
       ''    <array>'',
       ''        <string>'' @ path_display (sp_daemon_binary p) @ ''</string>'',
       ''        <string>--launchd</string>'',
       ''    </array>'',
       ''    <key>RunAtLoad</key><true/>'',
       ''    <key>KeepAlive</key>'',
       ''    <dict>'',
       ''        <key>SuccessfulExit</key><false/>'',
       ''        <key>Crashed</key><true/>'',
       ''    </dict>'',
       ''    <key>ThrottleInterval</key><integer>10</integer>'',
       ''    <key>ProcessType</key><string>Background</string>'',
       ''    <key>LowPriorityIO</key><true/>'',
       ''    <key>Nice</key><integer>5</integer>'',
       ''    <key>StandardOutPath</key>'',
       ''    <string>'' @ path_display (path_join (sp_log_dir p) ''onesyncd.out.log'') @ ''</string>'',
       ''    <key>StandardErrorPath</key>'',
       ''    <string>'' @ path_display (path_join (sp_log_dir p) ''onesyncd.err.log'') @ ''</string>'',
       ''    <key>EnvironmentVariables</key>'',
       ''    <dict>'',
       ''        <key>RUST_LOG</key><string>onesync=info</string>'',
       ''    </dict>'',
       ''    <key>SoftResourceLimits</key>'',
       ''    <dict>'',
       ''        <key>NumberOfFiles</key><integer>4096</integer>'',
       ''    </dict>'',
       ''</dict>'',
       ''</plist>'']"

definition run_launchctl :: "'w cli_lib \<Rightarrow> string list \<Rightarrow> ('w, unit) cio" where
  "run_launchctl cl args =
     bindE (map_errE (\<lambda>e. CliGeneric (''launchctl: '' @ e)) (cl_run cl ''launchctl'' args)) (\<lambda>out.
     if po_success out then returnE ()
     else throwE (CliGeneric (''launchctl '' @ (case args of [] \<Rightarrow> [] | a # _ \<Rightarrow> a) @ '' failed: ''
            @ from_utf8_lossy (po_stdout out) @ from_utf8_lossy (po_stderr out))))"

text \<open>The daemon next to the client, then the search path.\<close>

fun first_existing :: "'w cli_lib \<Rightarrow> path_buf list \<Rightarrow> 'w \<Rightarrow> path_buf option \<times> 'w" where
  "first_existing cl [] w = (None, w)"
| "first_existing cl (p # ps) w =
     (case cl_exists cl p w of (True, w') \<Rightarrow> (Some p, w') | (False, w') \<Rightarrow> first_existing cl ps w')"

definition beside_cli :: "string + path_buf \<Rightarrow> path_buf list" where
  "beside_cli exe =
     (case exe of
        Inl _ \<Rightarrow> []
      | Inr p \<Rightarrow> (case path_parent p of None \<Rightarrow> [] | Some d \<Rightarrow> [path_join d ''onesyncd'']))"

definition on_search_path :: "'w cli_lib \<Rightarrow> path_buf list" where
  "on_search_path cl =
     (case cl_env cl ''PATH'' of
        None \<Rightarrow> []
      | Some p \<Rightarrow> map (\<lambda>d. path_join (PathBuf d) ''onesyncd'') (split_on CHR '':'' p))"

definition locate_daemon_binary :: "'w cli_lib \<Rightarrow> ('w, path_buf) cio" where
  "locate_daemon_binary cl =
     bindE (tryE (cl_current_exe cl)) (\<lambda>exe.
     bindE (liftE (first_existing cl (beside_cli exe @ on_search_path cl))) (\<lambda>found.
     case found of
       Some p \<Rightarrow> returnE p
     | None \<Rightarrow> throwE (CliGeneric (''onesyncd binary not found alongside the CLI or in $PATH; build it first with ''
                 @ ''`cargo build -p onesync-daemon --release`''))))"

section \<open>Waiting\<close>

definition ping_ok :: "'w cli_lib \<Rightarrow> path_buf \<Rightarrow> 'w \<Rightarrow> (bool \<times> 'w) option" where
  "ping_ok cl socket w =
     (case cli_rpc cl socket ''health.ping'' JNull w of
        None \<Rightarrow> None
      | Some (r, w') \<Rightarrow> Some (case r of Inl _ \<Rightarrow> False | Inr _ \<Rightarrow> True, w'))"

partial_function (option) wait_ping :: "'w cli_lib \<Rightarrow> path_buf \<Rightarrow> nat \<Rightarrow> ('w, unit) cpio" where
  "wait_ping cl socket deadline w =
     (case cl_instant cl w of (t, w1) \<Rightarrow>
        if t < deadline then
          (case ping_ok cl socket w1 of
             None \<Rightarrow> None
           | Some (up, w2) \<Rightarrow>
               if up then Some (Inr (), w2) else wait_ping cl socket deadline (cl_sleep cl 500 w2))
        else Some (Inl (CliDaemonNotRunning (''daemon did not respond within '' @ show_nat PING_TIMEOUT_S @ ''s'')), w1))"

definition wait_for_daemon :: "'w cli_lib \<Rightarrow> ('w, unit) cpio" where
  "wait_for_daemon cl w =
     (case cl_instant cl w of (t, w1) \<Rightarrow> wait_ping cl (default_socket_path cl) (t + PING_TIMEOUT_S * 1000) w1)"

partial_function (option) wait_gone :: "'w cli_lib \<Rightarrow> path_buf \<Rightarrow> nat \<Rightarrow> ('w, unit) cpio" where
  "wait_gone cl socket deadline w =
     (case cl_instant cl w of (t, w1) \<Rightarrow>
        if t < deadline then
          (case cl_exists cl socket w1 of (there, w2) \<Rightarrow>
             if there then wait_gone cl socket deadline (cl_sleep cl 200 w2) else Some (Inr (), w2))
        else Some (Inr (), w1))"

section \<open>The commands\<close>

definition ask_shutdown :: "'w cli_lib \<Rightarrow> path_buf \<Rightarrow> ('w, unit) cpio" where
  "ask_shutdown cl socket =
     bindP (tryP (cli_rpc cl socket ''service.shutdown'' (JObject [(''drain'', JBool True)]))) (\<lambda>_. ends (returnE ()))"

definition install_dirs :: "'w cli_lib \<Rightarrow> svc_paths \<Rightarrow> ('w, unit) cio" where
  "install_dirs cl p =
     map_errE (\<lambda>e. CliGeneric (''mkdir: '' @ e))
       (bindE (cl_create_dir_all cl (path_join (sp_state_dir p) ''bin'')) (\<lambda>_.
        bindE (cl_create_dir_all cl (sp_log_dir p)) (\<lambda>_.
        case path_parent (sp_plist p) of None \<Rightarrow> returnE () | Some d \<Rightarrow> cl_create_dir_all cl d)))"

definition install_files :: "'w cli_lib \<Rightarrow> svc_paths \<Rightarrow> ('w, unit) cio" where
  "install_files cl p =
     bindE (install_dirs cl p) (\<lambda>_.
     bindE (locate_daemon_binary cl) (\<lambda>source.
     bindE (map_errE (\<lambda>e. CliGeneric (''copy daemon binary: '' @ e)) (cl_copy cl source (sp_daemon_binary p))) (\<lambda>_.
     bindE (map_errE (\<lambda>e. CliGeneric (''stat daemon: '' @ e)) (cl_stat cl (sp_daemon_binary p))) (\<lambda>_.
     bindE (map_errE (\<lambda>e. CliGeneric (''chmod daemon: '' @ e)) (cl_chmod cl (sp_daemon_binary p) 493)) (\<lambda>_.
     map_errE (\<lambda>e. CliGeneric (''write plist: '' @ e)) (cl_write_file cl (sp_plist p) (render_plist p)))))))"

definition install_agent :: "'w cli_lib \<Rightarrow> svc_paths \<Rightarrow> ('w, unit) cio" where
  "install_agent cl p =
     bindE (uid_string cl) (\<lambda>uid.
     bindE (run_launchctl cl [''bootstrap'', ''gui/'' @ uid, path_display (sp_plist p)]) (\<lambda>_.
     run_launchctl cl [''kickstart'', ''-k'', ''gui/'' @ uid @ ''/'' @ LABEL]))"

definition svc_install :: "'w cli_lib \<Rightarrow> output_cfg \<Rightarrow> ('w, unit) cpio" where
  "svc_install cl cfg =
     bindP (ends (current_user_is_root cl)) (\<lambda>is_root.
     if is_root then ends (throwE (CliGeneric ''refusing to install as root; run as your user''))
     else
       bindP (ends (resultE (resolve_paths cl))) (\<lambda>p.
       bindP (ends (install_files cl p)) (\<lambda>_.
       bindP (ends (install_agent cl p)) (\<lambda>_.
       bindP (wait_for_daemon cl) (\<lambda>_.
       ends (emit_value cl cfg (JObject
         [(''installed'', JBool True), (''plist'', JString (path_display (sp_plist p))),
          (''daemon'', JString (path_display (sp_daemon_binary p))),
          (''socket'', JString (path_display (default_socket_path cl)))])))))))"

definition svc_uninstall :: "'w cli_lib \<Rightarrow> output_cfg \<Rightarrow> bool \<Rightarrow> ('w, unit) cpio" where
  "svc_uninstall cl cfg purge =
     bindP (ends (resultE (resolve_paths cl))) (\<lambda>p.
     let socket = default_socket_path cl in
     bindP (ends (liftE (cl_exists cl socket))) (\<lambda>there.
     bindP (if there then ask_shutdown cl socket else ends (returnE ())) (\<lambda>_.
     bindP (ends (uid_string cl)) (\<lambda>uid.
     bindP (ends (tryE (run_launchctl cl [''bootout'', ''gui/'' @ uid, path_display (sp_plist p)]))) (\<lambda>_.
     bindP (ends (tryE (cl_remove_file cl (sp_plist p)))) (\<lambda>_.
     bindP (ends (if purge
                  then bindE (tryE (cl_remove_dir_all cl (sp_state_dir p))) (\<lambda>_.
                       bindE (tryE (cl_remove_dir_all cl (sp_log_dir p))) (\<lambda>_. returnE ()))
                  else returnE ())) (\<lambda>_.
     ends (emit_value cl cfg (JObject
       [(''uninstalled'', JBool True), (''purged'', JBool purge),
        (''removed'', JArray (if purge then [JString ''state'', JString ''logs'', JString ''daemon binary''] else []))])))))))))"

definition svc_start :: "'w cli_lib \<Rightarrow> output_cfg \<Rightarrow> ('w, unit) cpio" where
  "svc_start cl cfg =
     bindP (ends (uid_string cl)) (\<lambda>uid.
     bindP (ends (run_launchctl cl [''kickstart'', ''gui/'' @ uid @ ''/'' @ LABEL])) (\<lambda>_.
     bindP (wait_for_daemon cl) (\<lambda>_.
     ends (emit_value cl cfg (JObject [(''started'', JBool True)])))))"

definition svc_stop :: "'w cli_lib \<Rightarrow> output_cfg \<Rightarrow> ('w, unit) cpio" where
  "svc_stop cl cfg =
     (let socket = default_socket_path cl in
      bindP (ask_shutdown cl socket) (\<lambda>_.
      bindP (ends (liftE (cl_instant cl))) (\<lambda>t.
      bindP (wait_gone cl socket (t + 30000)) (\<lambda>_.
      ends (emit_value cl cfg (JObject [(''stopped'', JBool True)]))))))"

definition svc_restart :: "'w cli_lib \<Rightarrow> output_cfg \<Rightarrow> ('w, unit) cpio" where
  "svc_restart cl cfg = bindP (svc_stop cl cfg) (\<lambda>_. svc_start cl cfg)"

definition doctor_check :: "'w cli_lib \<Rightarrow> string \<Rightarrow> path_buf \<Rightarrow> ('w, string \<times> bool \<times> string) cio" where
  "doctor_check cl name p = bindE (liftE (cl_exists cl p)) (\<lambda>b. returnE (name, b, path_display p))"

definition svc_doctor :: "'w cli_lib \<Rightarrow> output_cfg \<Rightarrow> ('w, unit) cpio" where
  "svc_doctor cl cfg =
     bindP (ends (resultE (resolve_paths cl))) (\<lambda>p.
     bindP (ends (doctor_check cl ''plist file exists'' (sp_plist p))) (\<lambda>c1.
     bindP (ends (doctor_check cl ''daemon binary exists'' (sp_daemon_binary p))) (\<lambda>c2.
     bindP (ends (doctor_check cl ''state directory exists'' (sp_state_dir p))) (\<lambda>c3.
     bindP (ends (doctor_check cl ''log directory exists'' (sp_log_dir p))) (\<lambda>c4.
     let socket = default_socket_path cl in
     bindP (tryP (client_connect cl socket)) (\<lambda>alive.
     let checks = [c1, c2, c3, c4, (''daemon responds on socket'', case alive of Inl _ \<Rightarrow> False | Inr _ \<Rightarrow> True, path_display socket)];
         all_ok = list_all (\<lambda>c. fst (snd c)) checks
     in ends (bindE (emit_value cl cfg (JObject
          [(''ok'', JBool all_ok),
           (''checks'', JArray (map (\<lambda>(name, pass, detail).
              JObject [(''name'', JString name), (''ok'', JBool pass), (''detail'', JString detail)]) checks))])) (\<lambda>_.
        if all_ok then returnE () else throwE (CliGeneric ''one or more checks failed'')))))))))"

definition svc_run :: "'w cli_lib \<Rightarrow> output_cfg \<Rightarrow> service_cmd \<Rightarrow> ('w, unit) cpio" where
  "svc_run cl cfg cmd =
     (case cmd of
        SvcInstall \<Rightarrow> svc_install cl cfg
      | SvcUninstall purge \<Rightarrow> svc_uninstall cl cfg purge
      | SvcStart \<Rightarrow> svc_start cl cfg
      | SvcStop \<Rightarrow> svc_stop cl cfg
      | SvcRestart \<Rightarrow> svc_restart cl cfg
      | SvcDoctor \<Rightarrow> svc_doctor cl cfg)"

end
