(* ===== verification/Cli_Commands.thy ===== *)
theory Cli_Commands
  imports Cli_Service
begin

text \<open>
  The commands of the client (\<open>crates/onesync-cli/src\<close>: \<open>cli.rs\<close>, \<open>commands.rs\<close>, \<open>main.rs\<close>):
  the command line as \<open>clap\<close> parses it, the method and parameters a command sends, and its exit
  code.
\<close>

section \<open>The command line\<close>

datatype account_cmd =
    AcLogin "string option"
  | AcList
  | AcRemove (ac_account: string) (ac_cascade: bool) (ac_yes: bool)
  | AcAddSharePoint (ac_base: string) (ac_host: string) (ac_site: string) (ac_library: string)

datatype pair_cmd =
    PcAdd (pc_account: string) (pc_local: path_buf) (pc_remote: string) (pc_name: "string option")
  | PcList "string option" bool
  | PcShow string
  | PcPause string
  | PcResume string
  | PcRemove (pc_pair: string) (pc_delete_local: bool) (pc_delete_remote: bool) (pc_yes: bool)
  | PcSync string bool

datatype conflicts_cmd =
    CcList "string option" bool
  | CcShow string
  | CcResolve (cc_conflict: string) (cc_pick: string) (cc_discard_loser: bool) (cc_note: "string option")

datatype logs_cmd =
    LcTail "string option" "string option"
  | LcSearch (lc_since: string) (lc_until: string) (lc_pair: "string option") (lc_level: "string option")

datatype state_cmd = StBackup path_buf | StExport path_buf | StRepairPerms | StCompact

datatype config_cmd = CgGet | CgSet string string

datatype cli_command =
    CmdStatus
  | CmdAccount account_cmd
  | CmdPair pair_cmd
  | CmdConflicts conflicts_cmd
  | CmdLogs logs_cmd
  | CmdState state_cmd
  | CmdConfig config_cmd
  | CmdService service_cmd
  | CmdVersion

record cli_args =
  ca_json :: bool
  ca_no_color :: bool
  ca_socket :: "path_buf option"
  ca_command :: "cli_command option"

section \<open>What a command sends\<close>

definition opt_json :: "string option \<Rightarrow> json" where
  "opt_json x = (case x of None \<Rightarrow> JNull | Some s \<Rightarrow> JString s)"

fun account_request :: "account_cmd \<Rightarrow> string \<times> json" where
  "account_request (AcLogin client_id) =
     (''account.login.begin'', case client_id of None \<Rightarrow> JNull | Some c \<Rightarrow> JObject [(''client_id'', JString c)])"
| "account_request AcList = (''account.list'', JNull)"
| "account_request (AcRemove account cascade yes) =
     (''account.remove'', JObject [(''account_id'', JString account), (''cascade_pairs'', JBool cascade)])"
| "account_request (AcAddSharePoint base host site library) =
     (''account.add_sharepoint'',
      JObject [(''base_account_id'', JString base), (''host'', JString host), (''site_path'', JString site),
               (''library_name'', JString library)])"

fun pair_request :: "pair_cmd \<Rightarrow> string \<times> json" where
  "pair_request (PcAdd account loc remote name) =
     (''pair.add'',
      JObject [(''account_id'', JString account), (''local_path'', JString (path_display loc)),
               (''remote_path'', JString remote), (''display_name'', opt_json name)])"
| "pair_request (PcList account removed) =
     (''pair.list'', JObject [(''account_id'', opt_json account), (''include_removed'', JBool removed)])"
| "pair_request (PcShow p) = (''pair.status'', JObject [(''pair_id'', JString p)])"
| "pair_request (PcPause p) = (''pair.pause'', JObject [(''pair_id'', JString p)])"
| "pair_request (PcResume p) = (''pair.resume'', JObject [(''pair_id'', JString p)])"
| "pair_request (PcRemove p dl dr yes) =
     (''pair.remove'',
      JObject [(''pair_id'', JString p), (''delete_local'', JBool dl), (''delete_remote'', JBool dr)])"
| "pair_request (PcSync p full) =
     (''pair.force_sync'', JObject [(''pair_id'', JString p), (''full_scan'', JBool full)])"

fun conflicts_request :: "conflicts_cmd \<Rightarrow> string \<times> json" where
  "conflicts_request (CcList pair every) =
     (''conflict.list'', JObject [(''pair_id'', opt_json pair), (''include_resolved'', JBool every)])"
| "conflicts_request (CcShow c) = (''conflict.get'', JObject [(''conflict_id'', JString c)])"
| "conflicts_request (CcResolve c pick discard nt) =
     (''conflict.resolve'',
      JObject [(''conflict_id'', JString c), (''pick'', JString pick), (''keep_loser'', JBool (\<not> discard)),
               (''note'', opt_json nt)])"

fun logs_request :: "logs_cmd \<Rightarrow> string \<times> json" where
  "logs_request (LcTail level kind) =
     (''audit.tail'', JObject [(''level'', opt_json level), (''kind_prefix'', opt_json kind)])"
| "logs_request (LcSearch since till pair level) =
     (''audit.search'',
      JObject [(''from_ts'', JString since), (''to_ts'', JString till), (''pair_id'', opt_json pair),
               (''level'', opt_json level), (''limit'', JNum 1000)])"

fun state_request :: "state_cmd \<Rightarrow> string \<times> json" where
  "state_request (StBackup p) = (''state.backup'', JObject [(''to_path'', JString (path_display p))])"
| "state_request (StExport p) = (''state.export'', JObject [(''to_dir'', JString (path_display p))])"
| "state_request StRepairPerms = (''state.repair.permissions'', JNull)"
| "state_request StCompact = (''state.compact.now'', JNull)"

fun config_request :: "'w cli_lib \<Rightarrow> config_cmd \<Rightarrow> string \<times> json" where
  "config_request cl CgGet = (''config.get'', JNull)"
| "config_request cl (CgSet key v) =
     (''config.set'', JObject [(key, case cl_parse_json cl v of Inr j \<Rightarrow> j | Inl _ \<Rightarrow> JString v)])"

section \<open>Running a command\<close>

text \<open>The commands that are one call of the daemon.\<close>

definition rpc_request_of :: "'w cli_lib \<Rightarrow> cli_command \<Rightarrow> (string \<times> json) option" where
  "rpc_request_of cl cmd =
     (case cmd of
        CmdStatus \<Rightarrow> Some (''health.diagnostics'', JNull)
      | CmdAccount c \<Rightarrow> Some (account_request c)
      | CmdPair c \<Rightarrow> Some (pair_request c)
      | CmdConflicts c \<Rightarrow> Some (conflicts_request c)
      | CmdLogs c \<Rightarrow> Some (logs_request c)
      | CmdState c \<Rightarrow> Some (state_request c)
      | CmdConfig c \<Rightarrow> Some (config_request cl c)
      | CmdService _ \<Rightarrow> None
      | CmdVersion \<Rightarrow> None)"

definition rpc_command :: "'w cli_lib \<Rightarrow> path_buf \<Rightarrow> output_cfg \<Rightarrow> string \<times> json \<Rightarrow> ('w, unit) cpio" where
  "rpc_command cl socket cfg rq = bindP (cli_rpc cl socket (fst rq) (snd rq)) (\<lambda>v. ends (emit_value cl cfg v))"

definition print_version :: "'w cli_lib \<Rightarrow> output_cfg \<Rightarrow> ('w, unit) cio" where
  "print_version cl cfg =
     (if oc_json cfg
      then println cl (case cl_compact cl (JObject [(''version'', JString (cl_version cl))]) of Inl _ \<Rightarrow> [] | Inr s \<Rightarrow> s)
      else println cl (''onesync '' @ cl_version cl))"

definition cli_run :: "'w cli_lib \<Rightarrow> cli_args \<Rightarrow> ('w, unit) cpio" where
  "cli_run cl args =
     (let cfg = output_from_flags cl (ca_json args) (ca_no_color args);
          socket = unwrap_or (default_socket_path cl) (ca_socket args);
          cmd = unwrap_or CmdStatus (ca_command args)
      in case cmd of
           CmdVersion \<Rightarrow> ends (print_version cl cfg)
         | CmdService c \<Rightarrow> svc_run cl cfg c
         | _ \<Rightarrow> (case rpc_request_of cl cmd of None \<Rightarrow> ends (returnE ()) | Some rq \<Rightarrow> rpc_command cl socket cfg rq))"

definition exit_code :: "cli_error + unit \<Rightarrow> nat" where
  "exit_code r = (case r of Inr _ \<Rightarrow> 0 | Inl e \<Rightarrow> exit_code_for e)"

end
