(* ===== verification/Cli_Props.thy ===== *)
theory Cli_Props
  imports Cli_Commands Connection_Props
begin

text \<open>
  The client and the daemon together: a call of the client over a connection of the daemon, the
  commands whose parameters the daemon never accepts, the exit codes a user can see, and the end
  of the commands that wait.
\<close>

section \<open>The socket between them\<close>

text \<open>What the client has written and not flushed, what it may still read, and its terminal.\<close>

record 'w socket_world =
  sw_daemon :: 'w
  sw_sent :: string
  sw_inbox :: string
  sw_screen :: string

definition socket_flush :: "'w dispatch_ctx \<Rightarrow> ('w socket_world, bool \<times> string, unit) io" where
  "socket_flush dx s =
     (case (handle_connection dx (\<lambda>w. (False, w)) \<lparr>bs_bytes = sw_sent s, bs_error = None\<rparr>
            :: ('w, unit, string list) io) (sw_daemon s) of
        (Inl _, d) \<Rightarrow> (Inr (), s\<lparr>sw_daemon := d, sw_sent := []\<rparr>)
      | (Inr out, d) \<Rightarrow>
          (Inr (), s\<lparr>sw_daemon := d, sw_sent := [], sw_inbox := sw_inbox s @ concat (map write_frame out)\<rparr>))"

definition socket_read_line :: "('w socket_world, bool \<times> string, string) io" where
  "socket_read_line s =
     (case split_once CHR 0x0A (sw_inbox s) of
        Some (l, r) \<Rightarrow> (Inr (l @ [CHR 0x0A]), s\<lparr>sw_inbox := r\<rparr>)
      | None \<Rightarrow> (Inr (sw_inbox s), s\<lparr>sw_inbox := []\<rparr>))"

definition connected :: "'w dispatch_ctx \<Rightarrow> 'w socket_world cli_lib \<Rightarrow> 'w socket_world cli_lib" where
  "connected dx cl =
     cl\<lparr>cl_connect := (\<lambda>_. ends (modifyE (\<lambda>s. s\<lparr>sw_sent := [], sw_inbox := []\<rparr>))),
        cl_write_all := (\<lambda>t. ends (modifyE (\<lambda>s. s\<lparr>sw_sent := sw_sent s @ t\<rparr>))),
        cl_flush := ends (socket_flush dx), cl_read_line := ends socket_read_line,
        cl_print := (\<lambda>t s. s\<lparr>sw_screen := sw_screen s @ t\<rparr>)\<rparr>"

text \<open>
  The codecs of both ends agree on a request and on the response to it: the text of either is a
  frame within the limit and decodes to what was encoded.
\<close>

definition response_to :: "'w dispatch_ctx \<Rightarrow> rpc_request \<Rightarrow> 'w \<Rightarrow> rpc_response" where
  "response_to dx rq w =
     (case run_method dx rq w of
        (Inr v, _) \<Rightarrow> response_ok (id_str (dx_rpc dx) (jq_id rq)) v
      | (Inl me, _) \<Rightarrow> response_error (Some (id_str (dx_rpc dx) (jq_id rq))) (me_code me) (me_message me))"

definition codecs_agree :: "'v cli_lib \<Rightarrow> 'w dispatch_ctx \<Rightarrow> rpc_request \<Rightarrow> 'w \<Rightarrow> bool" where
  "codecs_agree cl dx rq w \<longleftrightarrow>
     (\<exists>js. cl_encode cl rq = Inr js \<and> frame_ok js \<and> Suc (length js) \<le> IPC_FRAME_MAX_BYTES
        \<and> pm_request (dx_rpc dx) js = Inr rq)
     \<and> CHR 0x0A \<notin> set (en_response (dx_rpc dx) (response_to dx rq w))
     \<and> cl_decode cl (trim_end_ws (write_frame (en_response (dx_rpc dx) (response_to dx rq w)))) = Inr (response_to dx rq w)"

lemmas pio_simps = bindP_def ends_def map_errP_def tryP_def

lemma call_over_connection:
  assumes "codecs_agree cl dx (cli_request meth params) (sw_daemon s)"
  shows "cli_rpc (connected dx cl) socket meth params s = Some
    (case run_method dx (cli_request meth params) (sw_daemon s) of
       (Inr v, d) \<Rightarrow> (Inr v, s\<lparr>sw_daemon := d, sw_sent := [], sw_inbox := []\<rparr>)
     | (Inl me, d) \<Rightarrow>
         (Inl (CliGeneric (me_message me @ '' (code '' @ show_int (me_code me) @ '')'')),
          s\<lparr>sw_daemon := d, sw_sent := [], sw_inbox := []\<rparr>))"
proof -
  let ?rq = "cli_request meth params"
  let ?r = "response_to dx ?rq (sw_daemon s)"
  obtain js where js: "cl_encode cl ?rq = Inr js" "frame_ok js" "Suc (length js) \<le> IPC_FRAME_MAX_BYTES"
      "pm_request (dx_rpc dx) js = Inr ?rq"
    using assms by (auto simp: codecs_agree_def)
  have nl: "CHR 0x0A \<notin> set (en_response (dx_rpc dx) ?r)"
    and dec: "cl_decode cl (trim_end_ws (write_frame (en_response (dx_rpc dx) ?r))) = Inr ?r"
    using assms by (auto simp: codecs_agree_def)
  define d where "d = snd (run_method dx ?rq (sw_daemon s))"
  have ans: "answer dx js (sw_daemon s) = (?r, d)"
    by (auto simp: answer_def js(4) response_to_def Let_def d_def split: prod.splits sum.splits)
  have "(handle_connection dx (\<lambda>w. (False, w)) \<lparr>bs_bytes = write_frame js, bs_error = None\<rparr>
      :: ('a, unit, string list) io) (sw_daemon s) = (Inr [en_response (dx_rpc dx) ?r], d)"
    using serve_lines [of "[js]" dx "\<lparr>bs_bytes = [], bs_error = None\<rparr>" "[]" "sw_daemon s"] js(2,3) ans
    by (simp add: handle_connection_def)
  then have flush: "socket_flush dx (s\<lparr>sw_inbox := [], sw_sent := write_frame js\<rparr>)
      = (Inr (), s\<lparr>sw_daemon := d, sw_sent := [], sw_inbox := write_frame (en_response (dx_rpc dx) ?r)\<rparr>)"
    by (simp add: socket_flush_def)
  have line: "socket_read_line (s\<lparr>sw_daemon := d, sw_sent := [], sw_inbox := write_frame (en_response (dx_rpc dx) ?r)\<rparr>)
      = (Inr (write_frame (en_response (dx_rpc dx) ?r)), s\<lparr>sw_daemon := d, sw_sent := [], sw_inbox := []\<rparr>)"
    using split_once_append [OF nl, of "[]"] by (simp add: socket_read_line_def write_frame_def)
  have "cli_rpc (connected dx cl) socket meth params s = Some
      ((case ?r of RpcOk _ _ v \<Rightarrow> Inr v | RpcErr _ _ err \<Rightarrow> Inl (of_json_rpc_error (connected dx cl) err)),
       s\<lparr>sw_daemon := d, sw_sent := [], sw_inbox := []\<rparr>)"
    using js(1) flush line dec
    by (simp add: cli_rpc_def client_connect_def client_call_def connected_def io_simps pio_simps
        write_frame_def Let_def split: rpc_response.split)
  then show ?thesis
    by (auto simp: response_to_def d_def response_ok_def response_error_def of_json_rpc_error_def split: prod.splits sum.splits)
qed

section \<open>Commands the daemon refuses\<close>

text \<open>
  A derived decoder refuses an object that lacks a required field of its struct; the fields are
  those of the parameter structs in \<open>methods/\<close>.
\<close>

definition needs :: "(json \<Rightarrow> string + 'a) \<Rightarrow> string \<Rightarrow> bool" where
  "needs dec field \<longleftrightarrow> (\<forall>m. field \<notin> fst ` set m \<longrightarrow> (\<exists>e. dec (JObject m) = Inl e))"

definition required_fields :: "rpc_lib \<Rightarrow> bool" where
  "required_fields rp \<longleftrightarrow> needs (pm_pair_id rp) ''id'' \<and> needs (pm_account_id rp) ''id'' \<and> needs (pm_conflict_id rp) ''id''
     \<and> needs (pm_conflict_resolve rp) ''id'' \<and> needs (pm_conflict_list rp) ''pair'' \<and> needs (pm_audit_search rp) ''from''"

fun by_identifier :: "cli_command \<Rightarrow> bool" where
  "by_identifier (CmdAccount (AcRemove _ _ _)) = True"
| "by_identifier (CmdPair (PcAdd _ _ _ _)) = False"
| "by_identifier (CmdPair (PcList _ _)) = False"
| "by_identifier (CmdPair _) = True"
| "by_identifier (CmdConflicts _) = True"
| "by_identifier (CmdLogs (LcSearch _ _ _ _)) = True"
| "by_identifier _ = False"

lemma params_refused:
  assumes "dec v = Inl e"
  shows "bindE (params_of dec v) f w = (Inl (method_error_new INVALID_PARAMS (''invalid params: '' @ e)), w)"
  using assms by (simp add: params_of_def io_simps)

lemma needsD: "needs dec field \<Longrightarrow> field \<notin> fst ` set m \<Longrightarrow> \<exists>e. dec (JObject m) = Inl e"
  by (simp add: needs_def)

lemma method_lookup:
  "map_of method_table ''account.remove'' = Some account_remove" "map_of method_table ''pair.status'' = Some pair_status_of"
  "map_of method_table ''pair.pause'' = Some pair_pause" "map_of method_table ''pair.resume'' = Some pair_resume"
  "map_of method_table ''pair.remove'' = Some pair_remove" "map_of method_table ''pair.force_sync'' = Some pair_force_sync"
  "map_of method_table ''conflict.list'' = Some conflict_list" "map_of method_table ''conflict.get'' = Some conflict_get"
  "map_of method_table ''conflict.resolve'' = Some conflict_resolve"
  "map_of method_table ''audit.search'' = Some audit_search_method"
  by (simp_all add: method_table_def)

text \<open>The result of a method whose parameters do not decode.\<close>

definition refused :: "'w dispatch_ctx \<Rightarrow> string \<times> json \<Rightarrow> 'w \<Rightarrow> bool" where
  "refused dx rq w \<longleftrightarrow>
     (\<exists>e. run_method dx (cli_request (fst rq) (snd rq)) w = (Inl (method_error_new INVALID_PARAMS (''invalid params: '' @ e)), w))"

lemma refused_handler:
  assumes "map_of method_table meth = Some h" and "\<And>dx v w. h dx v w = bindE (params_of (dec dx) v) (f dx v) w"
    and "needs (dec dx) field" and "field \<notin> fst ` set m"
  shows "refused dx (meth, JObject m) w"
proof -
  obtain e where "dec dx (JObject m) = Inl e" using needsD assms(3,4) by blast
  then show ?thesis
    using assms(1,2) by (auto simp: refused_def run_method_def cli_request_def params_refused)
qed

lemma by_identifier_refused:
  assumes rp: "required_fields (dx_rpc dx)" and cmd: "by_identifier cmd" and rq: "rpc_request_of cl cmd = Some rq"
  shows "refused dx rq w"
proof -
  note law = rp [unfolded required_fields_def]
  have pair: "refused dx (meth, JObject m) w"
    if "meth \<in> {''pair.status'', ''pair.pause'', ''pair.resume'', ''pair.remove'', ''pair.force_sync''}" "''id'' \<notin> fst ` set m"
    for meth m
    using that law
    by (elim insertE emptyE)
       (auto intro!: refused_handler [where dec = "\<lambda>dx. pm_pair_id (dx_rpc dx)" and field = "''id''", OF method_lookup(2)]
          refused_handler [where dec = "\<lambda>dx. pm_pair_id (dx_rpc dx)" and field = "''id''", OF method_lookup(3)]
          refused_handler [where dec = "\<lambda>dx. pm_pair_id (dx_rpc dx)" and field = "''id''", OF method_lookup(4)]
          refused_handler [where dec = "\<lambda>dx. pm_pair_id (dx_rpc dx)" and field = "''id''", OF method_lookup(5)]
          refused_handler [where dec = "\<lambda>dx. pm_pair_id (dx_rpc dx)" and field = "''id''", OF method_lookup(6)]
          simp: pair_status_of_def pair_pause_def pair_resume_def set_paused_def pair_remove_def pair_force_sync_def)
  have account: "refused dx (''account.remove'', JObject m) w" if "''id'' \<notin> fst ` set m" for m
    by (rule refused_handler [where dec = "\<lambda>dx. pm_account_id (dx_rpc dx)", OF method_lookup(1) _ _ that])
       (use law in \<open>simp_all add: account_remove_def\<close>)
  have clist: "refused dx (''conflict.list'', JObject m) w" if "''pair'' \<notin> fst ` set m" for m
    by (rule refused_handler [where dec = "\<lambda>dx. pm_conflict_list (dx_rpc dx)", OF method_lookup(7) _ _ that])
       (use law in \<open>simp_all add: conflict_list_def\<close>)
  have cget: "refused dx (''conflict.get'', JObject m) w" if "''id'' \<notin> fst ` set m" for m
    by (rule refused_handler [where dec = "\<lambda>dx. pm_conflict_id (dx_rpc dx)", OF method_lookup(8) _ _ that])
       (use law in \<open>simp_all add: conflict_get_def\<close>)
  have cresolve: "refused dx (''conflict.resolve'', JObject m) w" if "''id'' \<notin> fst ` set m" for m
    by (rule refused_handler [where dec = "\<lambda>dx. pm_conflict_resolve (dx_rpc dx)", OF method_lookup(9) _ _ that])
       (use law in \<open>simp_all add: conflict_resolve_def\<close>)
  have search: "refused dx (''audit.search'', JObject m) w" if "''from'' \<notin> fst ` set m" for m
    by (rule refused_handler [where dec = "\<lambda>dx. pm_audit_search (dx_rpc dx)", OF method_lookup(10) _ _ that])
       (use law in \<open>simp_all add: audit_search_method_def\<close>)
  have conflicts: "refused dx (conflicts_request c) w" for c
    by (cases c) (auto intro!: clist cget cresolve)
  from cmd rq show ?thesis
    by (cases cmd rule: by_identifier.cases) (auto simp: rpc_request_of_def intro!: pair account conflicts search)
qed

lemma config_request_connected: "config_request (connected dx cl) c = config_request cl c"
  by (cases c) (simp_all add: connected_def)

lemma request_connected: "rpc_request_of (connected dx cl) cmd = rpc_request_of cl cmd"
  by (cases cmd) (simp_all add: rpc_request_of_def config_request_connected)

lemma run_rpc:
  assumes "rpc_request_of cl (unwrap_or CmdStatus (ca_command args)) = Some rq"
  obtains socket cfg where "cli_run cl args w = rpc_command cl socket cfg rq w"
proof
  show "cli_run cl args w = rpc_command cl (unwrap_or (default_socket_path cl) (ca_socket args))
      (output_from_flags cl (ca_json args) (ca_no_color args)) rq w"
    using assms
    by (cases "unwrap_or CmdStatus (ca_command args)")
       (simp_all add: cli_run_def Let_def, simp_all add: rpc_request_of_def)
qed

lemma run_rpc_command:
  assumes "rpc_request_of cl (unwrap_or CmdStatus (ca_command args)) = Some rq"
  obtains socket cfg where "cli_run (connected dx cl) args s = rpc_command (connected dx cl) socket cfg rq s"
proof -
  have "rpc_request_of (connected dx cl) (unwrap_or CmdStatus (ca_command args)) = Some rq"
    using assms by (simp add: request_connected)
  then show thesis using that by (rule run_rpc)
qed

lemma invalid_params_code: "show_int INVALID_PARAMS = ''-32602''"
  by (simp add: show_int_def INVALID_PARAMS_def show_nat.simps digit_char_def) code_simp

text \<open>
  C17: Ten commands of the client never work.  The client sends its identifiers as \<open>account_id\<close>,
  \<open>pair_id\<close> and \<open>conflict_id\<close>, and a search with \<open>from_ts\<close>, while the daemon decodes structs
  with the required fields \<open>id\<close>, \<open>pair\<close> and \<open>from\<close>.  Whatever the arguments and the state of the
  daemon, such a command ends with exit code 1 and the daemon's error for invalid parameters,
  prints nothing and leaves the daemon as it was.
\<close>
theorem cli_identifiers_refused:
  assumes rp: "required_fields (dx_rpc dx)" and cmd: "ca_command args = Some cmd" "by_identifier cmd"
    and rq: "rpc_request_of cl cmd = Some rq"
    and codecs: "codecs_agree cl dx (cli_request (fst rq) (snd rq)) (sw_daemon s)"
  shows "\<exists>e. cli_run (connected dx cl) args s =
      Some (Inl (CliGeneric (''invalid params: '' @ e @ '' (code -32602)'')), s\<lparr>sw_sent := [], sw_inbox := []\<rparr>)"
proof -
  obtain e where e: "run_method dx (cli_request (fst rq) (snd rq)) (sw_daemon s)
      = (Inl (method_error_new INVALID_PARAMS (''invalid params: '' @ e)), sw_daemon s)"
    using by_identifier_refused [OF rp cmd(2) rq] by (auto simp: refused_def)
  have "rpc_request_of cl (unwrap_or CmdStatus (ca_command args)) = Some rq" using rq cmd(1) by (simp add: unwrap_or_def)
  then obtain socket cfg where run: "cli_run (connected dx cl) args s = rpc_command (connected dx cl) socket cfg rq s"
    by (rule run_rpc_command)
  show ?thesis
    unfolding run rpc_command_def
    using call_over_connection [OF codecs, of socket] e
    by (simp add: bindP_def method_error_new_def invalid_params_code)
qed

text \<open>
  C18: The exit codes of the client.  Every error of the daemon reaches the client without an error
  envelope, so a command that the daemon answers ends with exit code 0 or 1; the documented codes
  for a missing sign-in, an errored pair, an unresolved conflict, a permission, the network, a
  limit and a version mismatch are never seen.
\<close>
theorem daemon_errors_exit_one:
  assumes rq: "rpc_request_of cl (unwrap_or CmdStatus (ca_command args)) = Some rq"
    and codecs: "codecs_agree cl dx (cli_request (fst rq) (snd rq)) (sw_daemon s)"
  shows "\<exists>r s'. cli_run (connected dx cl) args s = Some (r, s') \<and> exit_code r \<in> {0, 1}
    \<and> sw_daemon s' = snd (run_method dx (cli_request (fst rq) (snd rq)) (sw_daemon s))"
proof -
  obtain socket cfg where run: "cli_run (connected dx cl) args s = rpc_command (connected dx cl) socket cfg rq s"
    using rq by (rule run_rpc_command)
  have emit: "sw_daemon s2 = sw_daemon s1 \<and> exit_code r \<in> {0, 1}"
    if "emit_value (connected dx cl) cfg v s1 = (r, s2)" for v s1 r s2
    using that
    by (auto simp: emit_value_def println_def connected_def of_json_error_def exit_code_def io_simps split: sum.splits)
  obtain x d where m: "run_method dx (cli_request (fst rq) (snd rq)) (sw_daemon s) = (x, d)" by fastforce
  show ?thesis
  proof (cases x)
    case (Inl me)
    with run m call_over_connection [OF codecs, of socket] show ?thesis
      by (simp add: rpc_command_def bindP_def exit_code_def)
  next
    case (Inr v)
    obtain r s' where out: "emit_value (connected dx cl) cfg v (s\<lparr>sw_daemon := d, sw_sent := [], sw_inbox := []\<rparr>) = (r, s')"
      by fastforce
    with run m Inr call_over_connection [OF codecs, of socket] emit [OF out] show ?thesis
      by (simp add: rpc_command_def bindP_def ends_def)
  qed
qed

section \<open>Commands that wait\<close>

text \<open>
  A monotonic clock \<open>clock\<close>: no call turns it back, and a sleep lasts at least as long as asked.
\<close>

definition clock_moves :: "'w cli_lib \<Rightarrow> ('w \<Rightarrow> nat) \<Rightarrow> bool" where
  "clock_moves cl clock \<longleftrightarrow>
     (\<forall>w. fst (cl_instant cl w) = clock w \<and> clock w \<le> clock (snd (cl_instant cl w)))
     \<and> (\<forall>ms w. clock w + ms \<le> clock (cl_sleep cl ms w))
     \<and> (\<forall>p w up w'. ping_ok cl p w = Some (up, w') \<longrightarrow> clock w \<le> clock w')
     \<and> (\<forall>p w. clock w \<le> clock (snd (cl_exists cl p w)))"

definition returns :: "('w, 'e, 'a) pio \<Rightarrow> bool" where
  "returns m \<longleftrightarrow> (\<forall>w. \<exists>r w'. m w = Some (r, w'))"

named_theorems returns_rules

lemma returns_ends [returns_rules]: "returns (ends m)"
  by (simp add: returns_def ends_def)

lemma returns_bindP [returns_rules]: "returns m \<Longrightarrow> (\<And>x. returns (f x)) \<Longrightarrow> returns (bindP m f)"
  unfolding returns_def bindP_def by (metis (mono_tags, lifting) option.simps(5) old.prod.case sum.exhaust sum.simps(5,6))

lemma returns_map_errP [returns_rules]: "returns m \<Longrightarrow> returns (map_errP f m)"
  unfolding returns_def map_errP_def by (metis (mono_tags, lifting) option.simps(5) old.prod.case sum.exhaust sum.simps(5,6))

lemma returns_tryP [returns_rules]: "returns m \<Longrightarrow> returns (tryP m)"
  unfolding returns_def tryP_def by (metis (mono_tags, lifting) option.simps(5) old.prod.case)

lemma returns_if [returns_rules]: "returns m \<Longrightarrow> returns n \<Longrightarrow> returns (if b then m else n)"
  by simp

text \<open>Every call of the socket returns, or the daemon takes a connection and never answers on it.\<close>

definition socket_answers :: "'w cli_lib \<Rightarrow> bool" where
  "socket_answers cl \<longleftrightarrow>
     (\<forall>p. returns (cl_connect cl p)) \<and> (\<forall>s. returns (cl_write_all cl s)) \<and> returns (cl_flush cl) \<and> returns (cl_read_line cl)"

definition mute_daemon :: "'w cli_lib \<Rightarrow> bool" where
  "mute_daemon cl \<longleftrightarrow>
     (\<forall>p w. \<exists>w'. cl_connect cl p w = Some (Inr (), w')) \<and> (\<forall>s w. \<exists>w'. cl_write_all cl s w = Some (Inr (), w'))
     \<and> (\<forall>w. \<exists>w'. cl_flush cl w = Some (Inr (), w')) \<and> (\<forall>w. cl_read_line cl w = None)
     \<and> (\<forall>rq. \<exists>js. cl_encode cl rq = Inr js)"

lemma rpc_returns:
  assumes "socket_answers cl"
  shows "returns (cli_rpc cl socket meth params)"
  using assms unfolding socket_answers_def
  by (simp add: cli_rpc_def client_connect_def client_call_def Let_def returns_rules)

lemma rpc_mute:
  assumes "mute_daemon cl"
  shows "cli_rpc cl socket meth params w = None"
proof -
  note law = assms [unfolded mute_daemon_def]
  obtain w1 where w1: "cl_connect cl socket w = Some (Inr (), w1)" using law by blast
  obtain js where js: "cl_encode cl (cli_request meth params) = Inr js" using law by blast
  obtain w2 where w2: "cl_write_all cl js w1 = Some (Inr (), w2)" using law by blast
  obtain w3 where w3: "cl_write_all cl [CHR 0x0A] w2 = Some (Inr (), w3)" using law by blast
  obtain w4 where w4: "cl_flush cl w3 = Some (Inr (), w4)" using law by blast
  have "cl_read_line cl w4 = None" using law by blast
  with w1 js w2 w3 w4 show ?thesis
    by (simp add: cli_rpc_def client_connect_def client_call_def Let_def pio_simps io_simps)
qed

lemma ping_returns: "socket_answers cl \<Longrightarrow> \<exists>up w'. ping_ok cl p w = Some (up, w')"
  using rpc_returns [of cl p "''health.ping''" JNull] by (auto simp: ping_ok_def returns_def dest!: spec [of _ w])

lemma clock_step:
  assumes c: "clock_moves cl clock" and i: "cl_instant cl w = (t, w1)" and t: "t < deadline" and w: "clock w1 \<le> clock w2"
    and ms: "0 < ms"
  shows "deadline - clock (cl_sleep cl ms w2) < deadline - clock w"
proof -
  have "clock w2 + ms \<le> clock (cl_sleep cl ms w2)" and "t = clock w" and "clock w \<le> clock w1"
    using c i unfolding clock_moves_def by (metis fst_conv snd_conv)+
  then show ?thesis using t w ms by linarith
qed

lemma wait_ping_returns:
  assumes c: "clock_moves cl clock" and a: "socket_answers cl"
  shows "\<exists>r w'. wait_ping cl socket deadline w = Some (r, w')"
proof (induction "deadline - clock w" arbitrary: w rule: less_induct)
  case less
  obtain t w1 where i: "cl_instant cl w = (t, w1)" by fastforce
  obtain up w2 where p: "ping_ok cl socket w1 = Some (up, w2)" using ping_returns [OF a] by blast
  have "clock w1 \<le> clock w2" using c p unfolding clock_moves_def by blast
  then have "deadline - clock (cl_sleep cl 500 w2) < deadline - clock w" if "t < deadline"
    using clock_step [OF c i that] by simp
  from less [OF this] show ?case using i p by (subst wait_ping.simps) auto
qed

lemma wait_gone_returns:
  assumes c: "clock_moves cl clock"
  shows "\<exists>r w'. wait_gone cl socket deadline w = Some (r, w')"
proof (induction "deadline - clock w" arbitrary: w rule: less_induct)
  case less
  obtain t w1 where i: "cl_instant cl w = (t, w1)" by fastforce
  obtain there w2 where p: "cl_exists cl socket w1 = (there, w2)" by fastforce
  have "clock w1 \<le> clock w2" using c p unfolding clock_moves_def by (metis snd_conv)
  then have "deadline - clock (cl_sleep cl 200 w2) < deadline - clock w" if "t < deadline"
    using clock_step [OF c i that] by simp
  from less [OF this] show ?case using i p by (subst wait_gone.simps) auto
qed

lemma wait_for_daemon_returns: "clock_moves cl clock \<Longrightarrow> socket_answers cl \<Longrightarrow> returns (wait_for_daemon cl)"
  using wait_ping_returns by (fastforce simp: returns_def wait_for_daemon_def split: prod.splits)

lemma cli_run_returns:
  assumes c: "clock_moves cl clock" and a: "socket_answers cl"
  shows "returns (cli_run cl args)"
proof -
  have gone: "returns (wait_gone cl socket deadline)" for socket deadline
    using wait_gone_returns [OF c] by (simp add: returns_def)
  have connect: "returns (client_connect cl socket)" for socket
    using a by (simp add: client_connect_def socket_answers_def returns_rules)
  note parts = wait_for_daemon_returns [OF c a] gone connect rpc_returns [OF a]
  have "returns (svc_run cl cfg cmd)" for cfg cmd
    by (cases cmd)
       (simp_all add: svc_run_def svc_install_def svc_start_def svc_stop_def svc_restart_def svc_uninstall_def svc_doctor_def
         ask_shutdown_def Let_def returns_rules parts)
  then show ?thesis
    by (simp add: cli_run_def rpc_command_def Let_def returns_rules parts split: cli_command.splits option.splits)
qed

text \<open>
  C36: A command of the client ends if the calls of its socket return, whatever they return, and the
  clock moves: installing, starting and restarting give up on a daemon that does not answer in
  time, and stopping gives up on one that does not exit.  The calls themselves have no timeout.  With a
  daemon that accepts the connection and never answers, every command that is one call never ends,
  nor do stopping and restarting, and the wait for a started daemon hangs in its first ping
  although its deadline is a minute away.  The processes the client runs are taken to exit.
\<close>
theorem cli_commands_end:
  assumes "clock_moves cl clock"
  shows "(socket_answers cl \<longrightarrow> (\<exists>r w'. cli_run cl args w = Some (r, w')))
    \<and> (mute_daemon cl \<longrightarrow>
         (rpc_request_of cl (unwrap_or CmdStatus (ca_command args)) \<noteq> None
            \<or> ca_command args \<in> {Some (CmdService SvcStop), Some (CmdService SvcRestart)} \<longrightarrow> cli_run cl args w = None)
         \<and> (\<forall>t w1. cl_instant cl w = (t, w1) \<and> clock w1 < t + PING_TIMEOUT_S * 1000 \<longrightarrow> wait_for_daemon cl w = None))"
proof (intro conjI impI allI)
  assume "socket_answers cl"
  then show "\<exists>r w'. cli_run cl args w = Some (r, w')"
    using cli_run_returns [OF assms] by (simp add: returns_def)
next
  assume mute: "mute_daemon cl"
    and cmd: "rpc_request_of cl (unwrap_or CmdStatus (ca_command args)) \<noteq> None
      \<or> ca_command args \<in> {Some (CmdService SvcStop), Some (CmdService SvcRestart)}"
  note none = rpc_mute [OF mute]
  have stop: "svc_stop cl cfg w = None" for cfg
    by (simp add: svc_stop_def ask_shutdown_def Let_def bindP_def tryP_def none)
  show "cli_run cl args w = None"
  proof (cases "rpc_request_of cl (unwrap_or CmdStatus (ca_command args))")
    case None
    with cmd stop show ?thesis
      by (auto simp: cli_run_def Let_def svc_run_def svc_restart_def bindP_def unwrap_or_def)
  next
    case (Some rq)
    then obtain socket cfg where "cli_run cl args w = rpc_command cl socket cfg rq w" by (rule run_rpc)
    then show ?thesis by (simp add: rpc_command_def bindP_def none)
  qed
next
  fix t w1
  assume mute: "mute_daemon cl" and t: "cl_instant cl w = (t, w1) \<and> clock w1 < t + PING_TIMEOUT_S * 1000"
  obtain t' w2 where i: "cl_instant cl w1 = (t', w2)" by fastforce
  then have "t' = clock w1" using assms unfolding clock_moves_def by (metis fst_conv)
  then show "wait_for_daemon cl w = None"
    using t i by (simp add: wait_for_daemon_def wait_ping.simps ping_ok_def rpc_mute [OF mute])
qed

section \<open>A concrete client\<close>

text \<open>The client alone, on a machine where every call fails and only the clock moves.\<close>

definition idle_cli :: "('w \<Rightarrow> nat) \<Rightarrow> (nat \<Rightarrow> 'w \<Rightarrow> 'w) \<Rightarrow> 'w cli_lib" where
  "idle_cli clock sleep =
     \<lparr>cl_connect = (\<lambda>_. ends (throwE (True, ''refused''))), cl_write_all = (\<lambda>_. ends (throwE (False, ''closed''))),
      cl_flush = ends (throwE (False, ''closed'')), cl_read_line = ends (throwE (False, ''closed'')), cl_print = (\<lambda>_ w. w),
      cl_encode = (\<lambda>_. Inr ''{}''),
      cl_decode = (\<lambda>_. Inr (response_error (Some (request_id 1)) INVALID_PARAMS ''invalid params: missing field'')),
      cl_parse_json = (\<lambda>_. Inl ''no json''), cl_compact = (\<lambda>_. Inr ''{}''), cl_pretty = (\<lambda>_. Inr ''{}''),
      cl_envelope = (\<lambda>_. None), cl_version = ''0'', cl_env = (\<lambda>_. Some ''/h''),
      cl_run = (\<lambda>_ _. returnE \<lparr>po_success = True, po_stdout = ''501'', po_stderr = []\<rparr>),
      cl_exists = (\<lambda>_ w. (True, w)), cl_create_dir_all = (\<lambda>_. returnE ()), cl_copy = (\<lambda>_ _. returnE ()),
      cl_stat = (\<lambda>_. returnE ()), cl_chmod = (\<lambda>_ _. returnE ()), cl_write_file = (\<lambda>_ _. returnE ()),
      cl_remove_file = (\<lambda>_. returnE ()), cl_remove_dir_all = (\<lambda>_. returnE ()), cl_current_exe = throwE ''none'',
      cl_instant = (\<lambda>w. (clock w, w)), cl_sleep = sleep\<rparr>"

definition no_args :: "cli_command \<Rightarrow> cli_args" where
  "no_args cmd = \<lparr>ca_json = False, ca_no_color = False, ca_socket = None, ca_command = Some cmd\<rparr>"

text \<open>The same machine with a daemon that never answers.\<close>

definition mute_cli :: "('w \<Rightarrow> nat) \<Rightarrow> (nat \<Rightarrow> 'w \<Rightarrow> 'w) \<Rightarrow> 'w cli_lib" where
  "mute_cli clock sleep =
     (idle_cli clock sleep)\<lparr>cl_connect := \<lambda>_. ends (returnE ()), cl_write_all := \<lambda>_. ends (returnE ()),
        cl_flush := ends (returnE ()), cl_read_line := \<lambda>_. None\<rparr>"

lemmas cli_machines = clock_moves_def mute_daemon_def socket_answers_def returns_def mute_cli_def idle_cli_def ping_ok_def
  cli_rpc_def client_connect_def client_call_def Let_def pio_simps io_simps

theorem cli_commands_end_witness:
  "(\<exists>r w'. cli_run (idle_cli id (\<lambda>ms t. t + ms)) (no_args (CmdService SvcRestart)) 0 = Some (r, w'))
   \<and> cli_run (mute_cli id (\<lambda>ms t. t + ms)) (no_args CmdStatus) 0 = None
   \<and> wait_for_daemon (mute_cli id (\<lambda>ms t. t + ms)) (0::nat) = None"
proof (intro conjI)
  show "\<exists>r w'. cli_run (idle_cli id (\<lambda>ms t. t + ms)) (no_args (CmdService SvcRestart)) 0 = Some (r, w')"
    by (rule cli_commands_end [where clock = id, THEN conjunct1, rule_format]) (simp_all add: cli_machines)
  have mute: "clock_moves (mute_cli id (\<lambda>ms t. t + ms)) id" "mute_daemon (mute_cli id (\<lambda>ms (t::nat). t + ms))"
    by (simp_all add: cli_machines)
  note hang = cli_commands_end [OF mute(1), THEN conjunct2, THEN mp, OF mute(2)]
  show "cli_run (mute_cli id (\<lambda>ms t. t + ms)) (no_args CmdStatus) 0 = None"
    by (rule hang [THEN conjunct1, THEN mp]) (simp add: no_args_def unwrap_or_def rpc_request_of_def)
  show "wait_for_daemon (mute_cli id (\<lambda>ms t. t + ms)) 0 = None"
    by (rule hang [THEN conjunct2, rule_format, where ?w = 0 and ?w1.0 = 0 and t = 0])
       (simp add: mute_cli_def idle_cli_def PING_TIMEOUT_S_def)
qed

definition pause_cmd :: cli_command where
  "pause_cmd = CmdPair (PcPause ''pair_1'')"

definition pause_rq :: rpc_request where
  "pause_rq = cli_request ''pair.pause'' (JObject [(''pair_id'', JString ''pair_1'')])"

definition strict_rpc :: rpc_lib where
  "strict_rpc = plain_rpc\<lparr>pm_pair_id := \<lambda>_. Inl ''missing field'', pm_account_id := \<lambda>_. Inl ''missing field'',
     pm_conflict_id := \<lambda>_. Inl ''missing field'', pm_conflict_resolve := \<lambda>_. Inl ''missing field'',
     pm_conflict_list := \<lambda>_. Inl ''missing field'', pm_audit_search := \<lambda>_. Inl ''missing field'',
     pm_request := \<lambda>_. Inr pause_rq\<rparr>"

definition strict_daemon :: "host mem_world dispatch_ctx" where
  "strict_daemon = sample_mem_daemon\<lparr>dx_rpc := strict_rpc\<rparr>"

definition pause_world :: "host mem_world socket_world" where
  "pause_world = \<lparr>sw_daemon = \<lparr>mw_store = empty_store, mw_ext = idle_host\<rparr>, sw_sent = [], sw_inbox = [], sw_screen = []\<rparr>"

abbreviation plain_cli :: "'w cli_lib" where "plain_cli \<equiv> idle_cli (\<lambda>_. 0) (\<lambda>_ w. w)"

lemma strict_fields: "required_fields (dx_rpc strict_daemon)"
  by (simp add: required_fields_def needs_def strict_daemon_def strict_rpc_def)

lemma pause_response: "response_to strict_daemon pause_rq w =
    response_error (Some (request_id 1)) INVALID_PARAMS ''invalid params: missing field''"
  by (simp add: response_to_def run_method_def pause_rq_def cli_request_def method_lookup pair_pause_def set_paused_def
      strict_daemon_def strict_rpc_def params_refused method_error_new_def id_str_def)

lemma strict_texts:
  "en_response (dx_rpc strict_daemon) r = ''{}''" "pm_request (dx_rpc strict_daemon) js = Inr pause_rq"
  by (simp_all add: strict_daemon_def strict_rpc_def plain_rpc_def)

lemma pause_codecs: "codecs_agree plain_cli strict_daemon pause_rq w"
  by (simp add: codecs_agree_def pause_response idle_cli_def frame_ok_def IPC_FRAME_MAX_BYTES_def MIB_def KIB_def
      strict_texts)

theorem cli_identifiers_refused_witness:
  "\<exists>e. cli_run (connected strict_daemon plain_cli) (no_args pause_cmd) pause_world
     = Some (Inl (CliGeneric (''invalid params: '' @ e @ '' (code -32602)'')), pause_world)"
proof -
  have "\<exists>e. cli_run (connected strict_daemon plain_cli) (no_args pause_cmd) pause_world
      = Some (Inl (CliGeneric (''invalid params: '' @ e @ '' (code -32602)'')),
          pause_world\<lparr>sw_sent := [], sw_inbox := []\<rparr>)"
    by (rule cli_identifiers_refused [OF strict_fields, where cmd = pause_cmd
          and rq = "(''pair.pause'', JObject [(''pair_id'', JString ''pair_1'')])"])
       (simp_all add: no_args_def pause_cmd_def rpc_request_of_def pause_codecs [unfolded pause_rq_def])
  then show ?thesis by (simp add: pause_world_def)
qed

theorem daemon_errors_exit_one_witness:
  "\<exists>r s'. cli_run (connected strict_daemon plain_cli) (no_args pause_cmd) pause_world = Some (r, s') \<and> exit_code r \<in> {0, 1}"
  using daemon_errors_exit_one [of plain_cli "no_args pause_cmd" "(''pair.pause'', JObject [(''pair_id'', JString ''pair_1'')])"
      strict_daemon pause_world] pause_codecs [unfolded pause_rq_def]
  by (auto simp: no_args_def pause_cmd_def rpc_request_of_def unwrap_or_def)

end
