(* ===== verification/Startup.thy ===== *)
theory Startup
  imports Vault Local_Adapter Sql_Adapter
begin

text \<open>
  The start of the daemon (\<open>crates/onesync-daemon/src\<close>: \<open>startup.rs\<close>, \<open>lock.rs\<close>, \<open>wiring.rs\<close>,
  \<open>check.rs\<close>, \<open>main.rs\<close>, and the accept loop of \<open>ipc/server.rs\<close>): its directories, the lock, the
  adapters, the self-test, and the socket.  The operating system is the parameter \<open>boot_lib\<close>; the
  tasks that \<open>main\<close> spawns are the parts other theories model.
\<close>

section \<open>The platform\<close>

datatype io_kind = WouldBlock | PermissionDeniedKind | NotFoundKind | OtherKind

text \<open>What the accept loop waits for: a connection, an error of \<open>accept\<close>, or the shutdown.\<close>

datatype server_event = Accepted nat | AcceptError string | ShutdownSeen

text \<open>
  \<open>bl_recv\<close> is the first event of the watched folder within two seconds: no event, a closed stream
  or an event.  \<open>bl_spawn\<close> starts the task of an accepted connection.
\<close>

record 'w boot_lib =
  bl_env :: "string \<Rightarrow> string option"
  bl_create_dir_all :: "path_buf \<Rightarrow> ('w, string, unit) io"
  bl_remove_dir_all :: "path_buf \<Rightarrow> ('w, string, unit) io"
  bl_open_lock :: "path_buf \<Rightarrow> ('w, string, unit) io"
  bl_try_lock :: "path_buf \<Rightarrow> ('w, io_kind \<times> string, unit) io"
  bl_http_client :: "('w, string, unit) io"
  bl_runtime :: "nat \<Rightarrow> ('w, string, unit) io"
  bl_parallelism :: "nat option"
  bl_logging :: "path_buf \<Rightarrow> bool \<Rightarrow> ('w, string, unit) io"
  bl_now_nanos :: "'w \<Rightarrow> nat \<times> 'w"
  bl_pid :: nat
  bl_temp_dir :: path_buf
  bl_watch :: "abs_path \<Rightarrow> ('w, string, unit) io"
  bl_sleep :: "nat \<Rightarrow> 'w \<Rightarrow> 'w"
  bl_write_file :: "path_buf \<Rightarrow> string \<Rightarrow> ('w, string, unit) io"
  bl_recv :: "'w \<Rightarrow> local_event option option \<times> 'w"
  bl_event_debug :: "local_event \<Rightarrow> string"
  bl_read_dir :: "path_buf \<Rightarrow> ('w, io_kind \<times> string, unit) io"
  bl_print :: "json \<Rightarrow> 'w \<Rightarrow> 'w"
  bl_exists :: "path_buf \<Rightarrow> 'w \<Rightarrow> bool \<times> 'w"
  bl_remove_file :: "path_buf \<Rightarrow> ('w, string, unit) io"
  bl_bind :: "path_buf \<Rightarrow> ('w, string, unit) io"
  bl_chmod :: "path_buf \<Rightarrow> nat \<Rightarrow> ('w, string, unit) io"
  bl_select :: "'w \<Rightarrow> server_event \<times> 'w"
  bl_spawn :: "nat \<Rightarrow> 'w \<Rightarrow> 'w"
  bl_await_shutdown :: "'w \<Rightarrow> 'w option"
  bl_staged :: "'w \<Rightarrow> path_buf option"
  bl_exec :: "path_buf \<Rightarrow> 'w \<Rightarrow> 'w"

section \<open>Directories\<close>

record daemon_dirs =
  dd_state :: path_buf
  dd_runtime :: path_buf
  dd_log :: path_buf

definition boot_home :: "'w boot_lib \<Rightarrow> path_buf option" where
  "boot_home B = map_option PathBuf (bl_env B ''HOME'')"

definition base_dir :: "'w boot_lib \<Rightarrow> string + path_buf" where
  "base_dir B =
     (case bl_env B ''ONESYNC_BASE_DIR'' of
        Some base \<Rightarrow> Inr (PathBuf base)
      | None \<Rightarrow>
          (case boot_home B of
             None \<Rightarrow> Inl ''cannot determine home directory''
           | Some home \<Rightarrow> Inr (path_join home ''Library/Application Support/onesync'')))"

definition resolve_one :: "'w boot_lib \<Rightarrow> path_buf option \<Rightarrow> string \<Rightarrow> path_buf \<Rightarrow> path_buf" where
  "resolve_one B cli env_var dflt =
     (case cli of Some p \<Rightarrow> p | None \<Rightarrow> (case bl_env B env_var of Some p \<Rightarrow> PathBuf p | None \<Rightarrow> dflt))"

definition resolve_dirs ::
  "'w boot_lib \<Rightarrow> path_buf option \<Rightarrow> path_buf option \<Rightarrow> path_buf option \<Rightarrow> string + daemon_dirs" where
  "resolve_dirs B cli_state cli_runtime cli_log =
     (case base_dir B of
        Inl e \<Rightarrow> Inl e
      | Inr base \<Rightarrow>
          Inr \<lparr>dd_state = resolve_one B cli_state ''ONESYNC_STATE_DIR'' (path_join base ''state''),
               dd_runtime = resolve_one B cli_runtime ''ONESYNC_RUNTIME_DIR'' (path_join base ''run''),
               dd_log = resolve_one B cli_log ''ONESYNC_LOG_DIR'' (path_join base ''logs'')\<rparr>)"

fun create_each :: "'w boot_lib \<Rightarrow> path_buf list \<Rightarrow> ('w, string, unit) io" where
  "create_each B [] = returnE ()"
| "create_each B (d # ds) =
     bindE (map_errE (\<lambda>_. ''failed to create directory '' @ path_display d) (bl_create_dir_all B d)) (\<lambda>_. create_each B ds)"

definition create_all :: "'w boot_lib \<Rightarrow> daemon_dirs \<Rightarrow> ('w, string, unit) io" where
  "create_all B dirs = create_each B [dd_state dirs, dd_runtime dirs, dd_log dirs]"

section \<open>The lock\<close>

definition LOCK_FILE :: string where "LOCK_FILE = ''onesync.lock''"

datatype lock_error = AlreadyRunning | LockIo string

fun lock_error_display :: "lock_error \<Rightarrow> string" where
  "lock_error_display AlreadyRunning = ''another daemon instance is running (lock held)''"
| "lock_error_display (LockIo e) = ''failed to open lock file: '' @ e"

definition acquire_lock :: "'w boot_lib \<Rightarrow> path_buf \<Rightarrow> ('w, lock_error, unit) io" where
  "acquire_lock B runtime =
     (let lock_path = path_join runtime LOCK_FILE in
      bindE (map_errE LockIo (bl_open_lock B lock_path)) (\<lambda>_.
      map_errE (\<lambda>e. if fst e = WouldBlock then AlreadyRunning else LockIo (snd e)) (bl_try_lock B lock_path)))"

section \<open>The adapters\<close>

definition db_path :: "path_buf \<Rightarrow> path_buf" where
  "db_path state_dir = path_join state_dir ''onesync.sqlite''"

definition build_ports ::
  "'x sql_world boot_lib \<Rightarrow> sql_lib \<Rightarrow> 'x sql_env \<Rightarrow> path_buf \<Rightarrow> ('x sql_world, string, unit) io" where
  "build_ports B SL E state_dir =
     bindE (ask (se_now E)) (\<lambda>now.
     bindE (map_errE (\<lambda>_. ''failed to open state database at '' @ path_display (db_path state_dir)) (open_store SL E now)) (\<lambda>_.
     map_errE (\<lambda>_. ''failed to build HTTP client'') (bl_http_client B)))"

section \<open>The self-test\<close>

datatype check_status = CheckPass | CheckWarn | CheckFail

record check_result =
  cr_name :: string
  cr_status :: check_status
  cr_detail :: string

text \<open>The two characters beyond ASCII in the details, in UTF-8.\<close>

definition em_dash :: string where "em_dash = [CHR 0xE2, CHR 0x80, CHR 0x94]"
definition right_arrow :: string where "right_arrow = [CHR 0xE2, CHR 0x86, CHR 0x92]"

definition check_result_of :: "check_status \<Rightarrow> string \<Rightarrow> string \<Rightarrow> check_result" where
  "check_result_of st name detail = \<lparr>cr_name = name, cr_status = st, cr_detail = detail\<rparr>"

fun status_text :: "check_status \<Rightarrow> string" where
  "status_text CheckPass = ''pass''"
| "status_text CheckWarn = ''warn''"
| "status_text CheckFail = ''fail''"

definition aggregate_exit_code :: "check_result list \<Rightarrow> int" where
  "aggregate_exit_code results = (if list_ex (\<lambda>r. cr_status r = CheckFail) results then 1 else 0)"

definition check_state_store ::
  "'x sql_world boot_lib \<Rightarrow> sql_lib \<Rightarrow> 'x sql_env \<Rightarrow> path_buf \<Rightarrow> 'x sql_world \<Rightarrow> check_result \<times> 'x sql_world" where
  "check_state_store B SL E state_dir w =
     (case build_ports B SL E state_dir w of (r, w') \<Rightarrow>
        (case r of
           Inr _ \<Rightarrow> check_result_of CheckPass ''state_store'' (''opened state store under '' @ path_display state_dir)
         | Inl e \<Rightarrow> check_result_of CheckFail ''state_store'' (''build_ports failed: '' @ e), w'))"

text \<open>\<open>parse\<close> reads an identifier of an account; the identifier of the probe is a literal.\<close>

definition check_keychain ::
  "'w passwords \<Rightarrow> (account_id \<Rightarrow> string) \<Rightarrow> (string \<Rightarrow> account_id option) \<Rightarrow> 'w \<Rightarrow> check_result \<times> 'w" where
  "check_keychain pw shown parse w =
     (case parse ''acct_00FZFGZFGZFGZFGZFGZFGZFGZG'' of
        None \<Rightarrow> (check_result_of CheckFail ''keychain'' ''internal: probe id failed to parse'', w)
      | Some probe \<Rightarrow>
          (case tv_load_refresh (keychain_vault pw shown) probe w of (r, w') \<Rightarrow>
             (case r of
                Inr _ \<Rightarrow> check_result_of CheckWarn ''keychain'' 
                  (''probe id unexpectedly mapped to a stored credential '' @ em_dash @ '' pick a fresh probe id'')
              | Inl VeNotFound \<Rightarrow> check_result_of CheckPass ''keychain'' ''keychain reachable (probe absent, as expected)''
              | Inl e \<Rightarrow> check_result_of CheckFail ''keychain'' (''keychain unreachable: '' @ vault_error_display e), w')))"

definition probe_outcome :: "'w boot_lib \<Rightarrow> local_event option option \<Rightarrow> check_result" where
  "probe_outcome B ev =
     (case ev of
        None \<Rightarrow> check_result_of CheckWarn ''fsevents'' 
          (''no `FSEvents` notification within 2s '' @ em_dash @ '' grant Full Disk Access or check entitlements'')
      | Some None \<Rightarrow> check_result_of CheckFail ''fsevents'' ''`FSEvents` stream closed unexpectedly''
      | Some (Some (EvCreated _)) \<Rightarrow> check_result_of CheckPass ''fsevents'' ''`FSEvents` delivered a probe write event''
      | Some (Some (EvModified _)) \<Rightarrow> check_result_of CheckPass ''fsevents'' ''`FSEvents` delivered a probe write event''
      | Some (Some e) \<Rightarrow> check_result_of CheckWarn ''fsevents''
            (''`FSEvents` delivered an unexpected first event: '' @ bl_event_debug B e))"

definition run_fsevents_probe :: "'w boot_lib \<Rightarrow> path_buf \<Rightarrow> 'w \<Rightarrow> check_result \<times> 'w" where
  "run_fsevents_probe B scratch w =
     (case scratch of PathBuf s \<Rightarrow>
        if \<not> utf8_valid (map of_char s)
        then (check_result_of CheckWarn ''fsevents'' ''scratch path is not UTF-8; skipped'', w)
        else (case abs_path_from_str s of
            Inl _ \<Rightarrow> (check_result_of CheckWarn ''fsevents'' (''scratch path is not absolute-NFC: '' @ s), w)
          | Inr folder \<Rightarrow>
              (case bl_watch B folder w of
                 (Inl e, w1) \<Rightarrow> (check_result_of CheckFail ''fsevents'' (''watch failed: '' @ e), w1)
               | (Inr _, w1) \<Rightarrow>
                   (case bl_write_file B (path_join scratch ''onesync-check-probe.txt'') ''probe'' (bl_sleep B 250 w1) of
                      (Inl e, w2) \<Rightarrow> (check_result_of CheckFail ''fsevents'' (''write probe failed: '' @ e), w2)
                    | (Inr _, w2) \<Rightarrow> (case bl_recv B w2 of (ev, w3) \<Rightarrow> (probe_outcome B ev, w3))))))"

definition check_fsevents :: "'w boot_lib \<Rightarrow> 'w \<Rightarrow> check_result \<times> 'w" where
  "check_fsevents B w =
     (case bl_now_nanos B w of (nonce, w1) \<Rightarrow>
        let scratch = path_join (bl_temp_dir B) (''onesync-check-'' @ show_nat (bl_pid B) @ ''-'' @ show_nat nonce)
        in (case bl_create_dir_all B scratch w1 of
              (Inl e, w2) \<Rightarrow> (check_result_of CheckFail ''fsevents'' (''scratch dir failed: '' @ e), w2)
            | (Inr _, w2) \<Rightarrow>
                (case run_fsevents_probe B scratch w2 of (r, w3) \<Rightarrow> (r, snd (bl_remove_dir_all B scratch w3)))))"

definition check_full_disk_access :: "'w boot_lib \<Rightarrow> 'w \<Rightarrow> check_result \<times> 'w" where
  "check_full_disk_access B w =
     (case bl_env B ''HOME'' of
        None \<Rightarrow> (check_result_of CheckWarn ''full_disk_access'' ''HOME unset; probe skipped'', w)
      | Some home \<Rightarrow>
          let mail = path_join (path_join (PathBuf home) ''Library'') ''Mail''
          in (case bl_read_dir B mail w of (r, w') \<Rightarrow>
               (case r of
                  Inr _ \<Rightarrow> check_result_of CheckPass ''full_disk_access''
                    (''read '' @ path_display mail @ '' '' @ em_dash @ '' Full Disk Access appears granted'')
                | Inl (PermissionDeniedKind, _) \<Rightarrow> check_result_of CheckWarn ''full_disk_access''
                    (''Full Disk Access denied; grant onesyncd in System Settings '' @ right_arrow @ '' Privacy & Security '' @ right_arrow
                     @ '' Full Disk Access if you intend to sync from TCC-protected directories'')
                | Inl (NotFoundKind, _) \<Rightarrow> check_result_of CheckWarn ''full_disk_access''
                    (path_display mail @ '' not present; probe inconclusive'')
                | Inl (_, e) \<Rightarrow> check_result_of CheckWarn ''full_disk_access'' (''probe error: '' @ e), w')))"

section \<open>The socket\<close>

definition SOCKET_FILE :: string where "SOCKET_FILE = ''onesync.sock''"

definition server_socket :: "path_buf \<Rightarrow> path_buf" where
  "server_socket runtime = path_join runtime SOCKET_FILE"

partial_function (option) accept_loop :: "'w boot_lib \<Rightarrow> 'w \<Rightarrow> 'w option" where
  "accept_loop B w =
     (case bl_select B w of (ev, w1) \<Rightarrow>
        if ev = ShutdownSeen then Some w1
        else accept_loop B (case ev of Accepted i \<Rightarrow> bl_spawn B i w1 | _ \<Rightarrow> w1))"

definition bind_socket :: "'w boot_lib \<Rightarrow> path_buf \<Rightarrow> ('w, string, unit) io" where
  "bind_socket B sock =
     bindE (liftE (bl_exists B sock)) (\<lambda>stale.
     bindE (if stale then map_errE (\<lambda>_. ''remove stale socket '' @ path_display sock) (bl_remove_file B sock)
            else returnE ()) (\<lambda>_.
     bindE (map_errE (\<lambda>_. ''bind Unix socket '' @ path_display sock) (bl_bind B sock)) (\<lambda>_.
     map_errE (\<lambda>_. ''set permissions on '' @ path_display sock) (bl_chmod B sock 384))))"

definition server_run :: "'w boot_lib \<Rightarrow> path_buf \<Rightarrow> 'w \<Rightarrow> ((string + unit) \<times> 'w) option" where
  "server_run B runtime w =
     (let sock = server_socket runtime in
      case bind_socket B sock w of
        (Inl e, w1) \<Rightarrow> Some (Inl e, w1)
      | (Inr _, w1) \<Rightarrow>
          (case accept_loop B w1 of
             None \<Rightarrow> None
           | Some w2 \<Rightarrow> Some (Inr (), snd (bl_remove_file B sock w2))))"

section \<open>The daemon\<close>

record daemon_args =
  da_state_dir :: "path_buf option"
  da_runtime_dir :: "path_buf option"
  da_log_dir :: "path_buf option"
  da_launchd :: bool
  da_check :: bool

definition max_runtime_workers :: "'w boot_lib \<Rightarrow> nat" where
  "max_runtime_workers B = (case bl_parallelism B of None \<Rightarrow> 4 | Some n \<Rightarrow> min n 4)"

definition run_checks ::
  "'x sql_world boot_lib \<Rightarrow> sql_lib \<Rightarrow> 'x sql_env \<Rightarrow> 'x sql_world passwords \<Rightarrow> (account_id \<Rightarrow> string) \<Rightarrow>
   (string \<Rightarrow> account_id option) \<Rightarrow> daemon_dirs \<Rightarrow> 'x sql_world \<Rightarrow> check_result list \<times> 'x sql_world" where
  "run_checks B SL E pw shown parse dirs w =
     (case check_state_store B SL E (dd_state dirs) w of (c1, w1) \<Rightarrow>
      case check_keychain pw shown parse w1 of (c2, w2) \<Rightarrow>
      case check_fsevents B w2 of (c3, w3) \<Rightarrow>
      case check_full_disk_access B w3 of (c4, w4) \<Rightarrow> ([c1, c2, c3, c4], w4))"

definition check_report :: "daemon_dirs \<Rightarrow> check_result list \<Rightarrow> json" where
  "check_report dirs results =
     JObject
       [(''state_dir'', JString (path_display (dd_state dirs))), (''runtime_dir'', JString (path_display (dd_runtime dirs))),
        (''log_dir'', JString (path_display (dd_log dirs))),
        (''checks'', JArray (map (\<lambda>r. JObject
           [(''name'', JString (cr_name r)), (''status'', JString (status_text (cr_status r))),
            (''detail'', JString (cr_detail r))]) results))]"

text \<open>
  What \<open>main\<close> does before the tasks of the daemon run: \<open>Inr (Some code)\<close> is the exit of the
  self-test, \<open>Inr None\<close> goes on with the returned directories.
\<close>

definition boot ::
  "'x sql_world boot_lib \<Rightarrow> sql_lib \<Rightarrow> 'x sql_env \<Rightarrow> 'x sql_world passwords \<Rightarrow> (account_id \<Rightarrow> string) \<Rightarrow>
   (string \<Rightarrow> account_id option) \<Rightarrow> daemon_args \<Rightarrow> ('x sql_world, string, int option \<times> daemon_dirs) io" where
  "boot B SL E pw shown parse args =
     bindE (resultE (resolve_dirs B (da_state_dir args) (da_runtime_dir args) (da_log_dir args))) (\<lambda>dirs.
     bindE (create_all B dirs) (\<lambda>_.
     if da_check args then
       bindE (map_errE (\<lambda>e. ''check: failed to build runtime: '' @ e) (bl_runtime B 1)) (\<lambda>_.
       bindE (liftE (run_checks B SL E pw shown parse dirs)) (\<lambda>results.
       bindE (modifyE (bl_print B (check_report dirs results))) (\<lambda>_.
       returnE (Some (aggregate_exit_code results), dirs))))
     else
       bindE (map_errE lock_error_display (acquire_lock B (dd_runtime dirs))) (\<lambda>_.
       bindE (map_errE (\<lambda>e. ''failed to build Tokio runtime: '' @ e) (bl_runtime B (max_runtime_workers B))) (\<lambda>_.
       bindE (bl_logging B (dd_log dirs) (da_launchd args)) (\<lambda>_.
       bindE (build_ports B SL E (dd_state dirs)) (\<lambda>_.
       returnE (None, dirs)))))))"

text \<open>
  The rest of \<open>async_main\<close> with the tasks but the server left to their own theories: the main task
  waits for the shutdown whatever becomes of the server, then executes a staged binary.
\<close>

definition serve_daemon :: "'w boot_lib \<Rightarrow> daemon_dirs \<Rightarrow> 'w \<Rightarrow> 'w option" where
  "serve_daemon B dirs w =
     (case server_run B (dd_runtime dirs) w of
        None \<Rightarrow> None
      | Some (_, w1) \<Rightarrow>
          (case bl_await_shutdown B w1 of
             None \<Rightarrow> None
           | Some w2 \<Rightarrow> Some (case bl_staged B w2 of None \<Rightarrow> w2 | Some p \<Rightarrow> bl_exec B p w2)))"

definition daemon_main ::
  "'x sql_world boot_lib \<Rightarrow> sql_lib \<Rightarrow> 'x sql_env \<Rightarrow> 'x sql_world passwords \<Rightarrow> (account_id \<Rightarrow> string) \<Rightarrow>
   (string \<Rightarrow> account_id option) \<Rightarrow> daemon_args \<Rightarrow> 'x sql_world \<Rightarrow> (int \<times> 'x sql_world) option" where
  "daemon_main B SL E pw shown parse args w =
     (case boot B SL E pw shown parse args w of
        (Inl _, w1) \<Rightarrow> Some (1, w1)
      | (Inr (Some code, _), w1) \<Rightarrow> Some (code, w1)
      | (Inr (None, dirs), w1) \<Rightarrow> (case serve_daemon B dirs w1 of None \<Rightarrow> None | Some w2 \<Rightarrow> Some (0, w2)))"

end
