(* ===== verification/Startup_Props.thy ===== *)
theory Startup_Props
  imports Startup Cli_Props
begin

text \<open>
  What follows from the start of the daemon: without overrides the client and the daemon disagree
  about the path of the socket.
\<close>

section \<open>The socket\<close>

lemma joined_ends:
  assumes "n \<noteq> []" and "hd n \<noteq> CHR ''/''"
  shows "\<exists>u. path_join p n = PathBuf (u @ n)"
proof (cases p)
  case (PathBuf s)
  have "path_join (PathBuf s) n \<in> {PathBuf ([] @ n), PathBuf (s @ n), PathBuf ((s @ ''/'') @ n)}"
    using assms by (cases n) (simp_all add: starts_with_char_def)
  with PathBuf show ?thesis by blast
qed

lemma joined_twice:
  assumes "n \<noteq> []" and "hd n \<noteq> CHR ''/''" and "last n \<noteq> CHR ''/''" and "m \<noteq> []" and "hd m \<noteq> CHR ''/''"
  shows "\<exists>u. path_join (path_join p n) m = PathBuf (u @ n @ ''/'' @ m)"
proof -
  obtain u where "path_join p n = PathBuf (u @ n)" using joined_ends [OF assms(1,2)] by blast
  moreover have "path_join (PathBuf (u @ n)) m = PathBuf (u @ n @ ''/'' @ m)"
    using assms by (cases m) (simp_all add: starts_with_char_def)
  ultimately show ?thesis by auto
qed

lemma sockets_differ:
  assumes "bl_env B ''ONESYNC_BASE_DIR'' = None" and "bl_env B ''ONESYNC_RUNTIME_DIR'' = None"
    and "resolve_dirs B st None lg = Inr dirs"
  shows "default_socket_path cl \<noteq> server_socket (dd_runtime dirs)"
proof -
  obtain base where rt: "dd_runtime dirs = path_join base ''run''"
    using assms by (auto simp: resolve_dirs_def resolve_one_def split: sum.splits option.splits)
  have "\<exists>u. server_socket (dd_runtime dirs) = PathBuf (u @ ''run'' @ ''/'' @ ''onesync.sock'')"
    unfolding rt server_socket_def SOCKET_FILE_def by (rule joined_twice) simp_all
  then obtain u where u: "server_socket (dd_runtime dirs) = PathBuf (u @ ''run'' @ ''/'' @ ''onesync.sock'')" ..
  have "\<exists>v. default_socket_path cl = PathBuf (v @ ''onesync'' @ ''/'' @ ''onesync.sock'')"
    unfolding default_socket_path_def by (rule joined_twice) simp_all
  then obtain v where v: "default_socket_path cl = PathBuf (v @ ''onesync'' @ ''/'' @ ''onesync.sock'')" ..
  have "v @ ''onesync'' @ ''/'' @ ''onesync.sock'' \<noteq> u @ ''run'' @ ''/'' @ ''onesync.sock''"
  proof
    assume "v @ ''onesync'' @ ''/'' @ ''onesync.sock'' = u @ ''run'' @ ''/'' @ ''onesync.sock''"
    then have "(v @ ''onesyn'') @ ''c/onesync.sock'' = (u @ ''ru'') @ ''n/onesync.sock''" by simp
    then have "''c/onesync.sock'' = ''n/onesync.sock''" by (subst (asm) append_eq_append_conv) simp_all
    then show False by simp
  qed
  then show ?thesis using u v by simp
qed

section \<open>A client without a daemon\<close>

text \<open>No socket at the path: the connection is refused or the file is missing.\<close>

definition nobody_at :: "'w cli_lib \<Rightarrow> path_buf \<Rightarrow> bool" where
  "nobody_at cl p \<longleftrightarrow> (\<forall>w. \<exists>e w'. cl_connect cl p w = Some (Inl (True, e), w'))"

lemma rpc_refused:
  assumes "nobody_at cl p"
  shows "\<exists>e w'. cli_rpc cl p meth params w = Some (Inl (CliDaemonNotRunning e), w')"
proof -
  obtain e w' where "cl_connect cl p w = Some (Inl (True, e), w')" using assms unfolding nobody_at_def by blast
  then show ?thesis by (simp add: cli_rpc_def client_connect_def of_io_error_def pio_simps)
qed

lemma no_ping: "nobody_at cl p \<Longrightarrow> \<exists>w'. ping_ok cl p w = Some (False, w')"
  using rpc_refused [of cl p "''health.ping''" JNull w] by (auto simp: ping_ok_def)

lemma wait_ping_fails:
  assumes nobody: "nobody_at cl p" and c: "clock_moves cl clock"
  shows "\<exists>e w'. wait_ping cl p deadline w = Some (Inl (CliDaemonNotRunning e), w')"
proof (induction "deadline - clock w" arbitrary: w rule: less_induct)
  case less
  obtain t w1 where i: "cl_instant cl w = (t, w1)" by fastforce
  obtain w2 where p: "ping_ok cl p w1 = Some (False, w2)" using no_ping [OF nobody] by blast
  have "clock w1 \<le> clock w2" using c p unfolding clock_moves_def by blast
  then have "deadline - clock (cl_sleep cl 500 w2) < deadline - clock w" if "t < deadline"
    using clock_step [OF c i that] by simp
  from less [OF this] show ?case using i p by (subst wait_ping.simps) auto
qed

text \<open>A command that returns an error whatever happens.\<close>

definition fails :: "('w, 'e, 'a) pio \<Rightarrow> bool" where
  "fails m \<longleftrightarrow> (\<forall>w. \<exists>e w'. m w = Some (Inl e, w'))"

lemma fails_ends: "fails (ends (throwE e))"
  by (simp add: fails_def ends_def throwE_def)

lemma fails_bindP:
  assumes "returns m" and "\<And>x. fails (f x)"
  shows "fails (bindP m f)"
  unfolding fails_def
proof
  fix w
  obtain r w' where "m w = Some (r, w')" using assms(1) unfolding returns_def by blast
  then show "\<exists>e w'. bindP m f w = Some (Inl e, w')"
    using assms(2) by (cases r) (auto simp: bindP_def fails_def)
qed

lemma bindP_fails: "fails m \<Longrightarrow> fails (bindP m f)"
  unfolding fails_def bindP_def by (metis (mono_tags, lifting) old.prod.case option.simps(5) sum.simps(5))

lemma starts_fail:
  assumes nobody: "nobody_at cl (default_socket_path cl)" and c: "clock_moves cl clock"
  shows "fails (svc_start cl cfg)" and "fails (svc_install cl cfg)" and "fails (svc_restart cl cfg)"
proof -
  have wait: "fails (wait_for_daemon cl)"
    unfolding fails_def wait_for_daemon_def using wait_ping_fails [OF nobody c] by (simp split: prod.split) blast
  show start: "fails (svc_start cl cfg)"
    unfolding svc_start_def by (intro fails_bindP bindP_fails wait returns_rules)
  have rest: "fails (bindP (ends m1) (\<lambda>p. bindP (ends (m2 p)) (\<lambda>_. bindP (ends (m3 p)) (\<lambda>_. bindP (wait_for_daemon cl) (f p)))))"
    for m1 m2 m3 f by (intro fails_bindP bindP_fails wait returns_rules)
  show "fails (svc_install cl cfg)"
    unfolding svc_install_def
    by (rule fails_bindP [OF returns_ends]) (simp add: fails_ends rest)
  have ask: "returns (ask_shutdown cl (default_socket_path cl))"
    unfolding returns_def
  proof
    fix w
    obtain e w' where "cli_rpc cl (default_socket_path cl) ''service.shutdown'' (JObject [(''drain'', JBool True)]) w
        = Some (Inl (CliDaemonNotRunning e), w')" using rpc_refused [OF nobody] by blast
    then show "\<exists>r w'. ask_shutdown cl (default_socket_path cl) w = Some (r, w')"
      by (simp add: ask_shutdown_def pio_simps io_simps)
  qed
  have gone: "returns (wait_gone cl p deadline)" for p deadline
    using wait_gone_returns [OF c] by (simp add: returns_def)
  show "fails (svc_restart cl cfg)"
    unfolding svc_restart_def svc_stop_def Let_def
    by (intro fails_bindP start returns_rules ask gone)
qed

text \<open>
  The client never finds an installed daemon.  Without overrides the daemon binds its socket
  under \<open>run\<close> in its own folder and the client looks under \<open>onesync\<close> in \<open>TMPDIR\<close>; the paths
  differ for all values of the variables.  If nobody listens on any socket but the daemon's, every
  command that calls the daemon ends with the error for a daemon that is not running (exit code 3),
  and installing, starting and restarting the service fail, although the daemon runs.
\<close>
theorem client_misses_daemon:
  assumes env: "bl_env B = cl_env cl" "cl_env cl ''ONESYNC_BASE_DIR'' = None" "cl_env cl ''ONESYNC_RUNTIME_DIR'' = None"
    and dirs: "resolve_dirs B st None lg = Inr dirs"
    and others: "\<And>p. p \<noteq> server_socket (dd_runtime dirs) \<Longrightarrow> nobody_at cl p"
    and c: "clock_moves cl clock" and args: "ca_socket args = None"
  shows "(rpc_request_of cl (unwrap_or CmdStatus (ca_command args)) \<noteq> None \<longrightarrow>
        (\<exists>e w'. cli_run cl args w = Some (Inl (CliDaemonNotRunning e), w')))
     \<and> (ca_command args \<in> Some ` CmdService ` {SvcInstall, SvcStart, SvcRestart} \<longrightarrow>
        (\<exists>e w'. cli_run cl args w = Some (Inl e, w')))"
proof (intro conjI impI)
  have nobody: "nobody_at cl (default_socket_path cl)"
    using others sockets_differ [OF _ _ dirs] env by metis
  show "\<exists>e w'. cli_run cl args w = Some (Inl (CliDaemonNotRunning e), w')"
    if "rpc_request_of cl (unwrap_or CmdStatus (ca_command args)) \<noteq> None"
  proof -
    from that obtain rq where rq: "rpc_request_of cl (unwrap_or CmdStatus (ca_command args)) = Some rq" by blast
    then have "cli_run cl args w = rpc_command cl (default_socket_path cl)
        (output_from_flags cl (ca_json args) (ca_no_color args)) rq w"
      using args
      by (cases "unwrap_or CmdStatus (ca_command args)")
         (simp_all add: cli_run_def Let_def unwrap_or_def [of "default_socket_path cl"], simp_all add: rpc_request_of_def)
    moreover obtain e w1 where "cli_rpc cl (default_socket_path cl) (fst rq) (snd rq) w = Some (Inl (CliDaemonNotRunning e), w1)"
      using rpc_refused [OF nobody] by blast
    ultimately show ?thesis by (simp add: rpc_command_def bindP_def)
  qed
  show "\<exists>e w'. cli_run cl args w = Some (Inl e, w')"
    if "ca_command args \<in> Some ` CmdService ` {SvcInstall, SvcStart, SvcRestart}"
  proof -
    have "fails (cli_run cl args)"
      using that starts_fail [OF nobody c] by (auto simp: cli_run_def Let_def unwrap_or_def svc_run_def)
    then show ?thesis unfolding fails_def by blast
  qed
qed

text \<open>A machine with only a home directory and no socket.\<close>

definition home_cli :: "nat cli_lib" where
  "home_cli = (idle_cli id (\<lambda>ms t. t + ms))\<lparr>cl_env := \<lambda>v. if v = ''HOME'' then Some ''/h'' else None\<rparr>"

theorem client_misses_daemon_witness:
  "\<exists>e w'. cli_run home_cli (no_args CmdStatus) 0 = Some (Inl (CliDaemonNotRunning e), w')"
proof -
  let ?B = "(undefined :: unit boot_lib)\<lparr>bl_env := cl_env home_cli\<rparr>"
  have env: "cl_env home_cli v = (if v = ''HOME'' then Some ''/h'' else None)" for v
    by (simp add: home_cli_def)
  have nobody: "nobody_at home_cli p" for p
    by (simp add: nobody_at_def home_cli_def idle_cli_def ends_def throwE_def)
  have clock: "clock_moves home_cli id" by (simp add: home_cli_def cli_machines)
  obtain dirs where "resolve_dirs ?B None None None = Inr dirs"
    by (simp add: resolve_dirs_def base_dir_def boot_home_def env)
  from client_misses_daemon [OF _ _ _ this nobody clock, of "no_args CmdStatus" 0, THEN conjunct1] show ?thesis
    by (simp add: env no_args_def unwrap_or_def rpc_request_of_def)
qed

end
