(* ===== verification/Spec2Isabelle.thy ===== *)
theory Spec2Isabelle
  imports Cycle Download Scheduler Sql_Refinement Fresh_Stores Login_Props Connection_Props Method_Props Vault
    Local_Props Local_More Fake_Props Webhook_Props Cli_Props Startup_Props
begin

text \<open>
  A model of onesync, a macOS daemon that keeps a local folder and a OneDrive folder in step,
  with its command line client, and the theorems that state what its parts guarantee.

  The program.  \<open>onesync-protocol\<close> holds the canonical types.  \<open>onesync-core\<close> is the engine: pure
  decision functions and one asynchronous function, \<open>run_cycle\<close>, that reaches the world only
  through ports (a state store, the remote drive, the local file system, a clock, an id generator,
  an audit sink).  \<open>onesync-state\<close>, \<open>onesync-graph\<close>, \<open>onesync-fs-local\<close> and \<open>onesync-keychain\<close>
  implement the ports.  \<open>onesync-daemon\<close> wires them together, runs cycles on a schedule, answers
  JSON-RPC requests on a Unix socket and listens for webhook notifications; \<open>onesync-cli\<close> sends
  the requests and installs the daemon.

  A cycle (\<open>engine/cycle.rs\<close>) fetches one delta page and reconciles each item against the stored
  entry of its path, advances the pair's cursor, scans the local folder for untracked or diverged
  files, turns initial-sync collisions and diverged paths into conflict records, plans
  operations, executes them with retries, and records the run.

  The theories, below \<open>crates/\<close>:
  \<^item> \<open>Prelude\<close>: string functions of the Rust standard library, the type of fallible stateful code
    (\<open>('w, 'e, 'a) io\<close>: a function from a world to a result and a world), its combinators, and
    Hoare rules for it.
  \<^item> \<open>Protocol\<close>, \<open>Paths\<close>, \<open>Entities\<close>: \<open>onesync-protocol/src\<close>.  Enums, content hashes, prefixed
    identifiers, validated paths, and one record per DTO.  A phantom type argument keeps the
    identifier kinds apart, as \<open>Id<T>\<close> does.  Timestamps are nanoseconds.
  \<^item> \<open>Ports\<close>: \<open>onesync-core/src/ports\<close>.  Each trait is a record of operations over an arbitrary
    world \<open>'w\<close>; \<open>cycle_ctx\<close> is \<open>CycleCtx\<close>.  Error messages are kept, because the engine passes
    them on.
  \<^item> \<open>Engine_Limits\<close>, \<open>Reconcile\<close>, \<open>Planner\<close>, \<open>Conflict_Policy\<close>, \<open>Retry\<close>, \<open>Observability\<close>,
    \<open>Executor\<close>: the files of \<open>onesync-core/src/engine\<close> of those names, with \<open>limits.rs\<close> and
    \<open>case_collision.rs\<close>.  \<open>Observations\<close>: the pure helpers of \<open>engine/cycle.rs\<close>.
  \<^item> \<open>Execute_Phase\<close>, \<open>Delta_Phase\<close>, \<open>Local_Phase\<close>, \<open>Conflict_Phase\<close>, \<open>Cycle\<close>: the phases of
    \<open>engine/cycle.rs\<close> and \<open>run_cycle\<close>.
  \<^item> \<open>Mem_Store\<close>: \<open>onesync-state/src/fakes.rs\<close>, every operation.  \<open>Sql_Rows\<close> (the columns and
    their decoders), \<open>Sql_Store\<close> (tables, constraints, statements), \<open>Sql_Adapter\<close> (the query
    functions, retention, the port), with \<open>Sql_Props\<close>, \<open>Sql_Cycle\<close> and \<open>Sql_Refinement\<close>: the
    SQLite store, every operation, alone, under the engine and against the in-memory store.
  \<^item> \<open>Graph_Http\<close>, \<open>Urls\<close>, \<open>Quick_Xor\<close>, \<open>Download\<close>, \<open>Upload_Session\<close>, \<open>Graph_Adapter\<close>,
    \<open>Throttle\<close>, \<open>Auth\<close>: \<open>onesync-graph/src\<close>.  \<open>Graph_Engine\<close> puts the adapter under the engine;
    \<open>Fake_Drive\<close> and \<open>Fake_Props\<close> are the drive of the tests (\<open>fakes.rs\<close>).
  \<^item> \<open>Path_Bufs\<close>, \<open>Local_Adapter\<close>, \<open>Local_Files\<close>, \<open>Local_Scan\<close>, \<open>Local_Props\<close>, \<open>Local_More\<close>:
    \<open>onesync-fs-local/src\<close>.  The scan, the block-wise hash, the atomic write, renames, deletions,
    the watcher's channel, and the file system of the tests.
  \<^item> \<open>Vault\<close>: \<open>onesync-keychain/src\<close>.  \<open>Token_Source\<close>: the token refresh, the per-account cache
    and the daemon's vault-backed source.
  \<^item> \<open>Scheduler\<close>: \<open>onesync-daemon/src/scheduler.rs\<close>, every function of it.
  \<^item> \<open>Rpc\<close> (frames, error codes, subscriptions, sessions, shutdown), \<open>Methods\<close> and
    \<open>Account_Methods\<close> (the handlers of \<open>methods/\<close>), \<open>Dispatch\<close> (the method table, the loop of a
    connection and its writer), with \<open>Method_Props\<close>, \<open>Login_Props\<close>, \<open>Connection_Props\<close>,
    \<open>Fresh_Daemon\<close> and \<open>Fresh_Stores\<close>; \<open>Sample_Daemon\<close> is a concrete daemon for examples.
  \<^item> \<open>Webhook\<close>, \<open>Webhook_Props\<close>: \<open>onesync-daemon/src/webhook_receiver.rs\<close>.
  \<^item> \<open>Startup\<close>, \<open>Startup_Props\<close>: \<open>startup.rs\<close>, \<open>lock.rs\<close>, \<open>wiring.rs\<close>, \<open>check.rs\<close>, \<open>main.rs\<close>
    and the accept loop of the daemon.
  \<^item> \<open>Cli_Client\<close>, \<open>Cli_Commands\<close>, \<open>Cli_Service\<close>, \<open>Cli_Props\<close>: \<open>onesync-cli/src\<close>.

  Interfaces.  What one part relies on in another is a locale, interpreted on the model's own
  definitions.
  \<^item> \<open>Cycle_World\<close>: \<open>entry_view\<close>, \<open>pair_view\<close>, \<open>op_view\<close>, \<open>reliable_op_view\<close>, \<open>conflict_view\<close>
    are what the phases need of a store (rows of entries, pairs, operations and conflicts, over
    stores that may refuse a write and ones that do not); \<open>spelling_view\<close> (\<open>Delta_Phase\<close>) adds the
    lookup that ignores case.  \<open>Mem_Store\<close> and \<open>Delta_Phase\<close> interpret them on the in-memory store.
  \<^item> \<open>local_files\<close> and its extension \<open>moving_files\<close> (\<open>Local_Files\<close>) are what the executor needs of
    a local file system: the file system of the tests is an instance, and a theorem shows that
    the adapter is one on a disk that obeys \<open>disk_laws\<close> and \<open>move_laws\<close>.
  \<^item> \<open>refresh_vault\<close> (\<open>Vault\<close>), \<open>delta_feed\<close> (\<open>Fake_Drive\<close>) and \<open>unconfigured\<close> (\<open>Fresh_Daemon\<close>,
    a store that holds no client id; both stores are instances).

  How code becomes definitions.  A function body is one definition; where a body is long, its
  loop is a recursive function and the parts between awaits are named definitions, composed as
  the code composes them.  The \<open>?\<close> operator is \<open>bindE\<close>, \<open>map_err(|e| EngineError::Port(..))\<close>
  is \<open>state_call\<close>, \<open>remote_call\<close> or \<open>local_call\<close>, \<open>if let Err(e)\<close> is \<open>tryE\<close>.  A \<open>HashMap\<close> is an
  association list; where its iteration order shows, the order is a parameter
  (\<open>lib_hash_order\<close>, \<open>lib_map_order\<close>); the order in which SQLite meets the rows of a table is
  another (\<open>sl_scan_order\<close>).  Of an order only its law is used: it lists every position once.

  Code outside the repository is a parameter, a record of functions: \<open>lib\<close> (Unicode, BLAKE3,
  chrono, ULIDs), \<open>sql_lib\<close> and \<open>sql_env\<close> (the encodings of columns, the faults of pool, task and
  disk), \<open>http_lib\<close> and \<open>auth_lib\<close> (HTTP client, sockets, JSON, base64, timeouts), \<open>disk_lib\<close> and
  \<open>fake_env\<close> (file system calls), \<open>passwords\<close> (the keychain), \<open>rpc_lib\<close> and \<open>os_lib\<close> (codecs of the
  RPC types, \<open>std::fs\<close>), \<open>webhook_lib\<close>, \<open>cli_lib\<close> and \<open>boot_lib\<close>.  What a theorem needs of one is a
  named hypothesis (\<open>nfc_laws\<close>, \<open>sql_laws\<close>, \<open>disk_laws\<close>, \<open>required_fields\<close> and others); each has a
  concrete instance on which the witnesses compute.

  Loops.  Nothing in the model uses fuel.  Loops are structural, or a \<open>function\<close> with a measure:
  the attempts of an operation and of a token refresh (the attempts left), the requests of an
  upload session (the resumes and chunks left), the lines of a connection and the blocks of a
  download (the bytes left).  Loops that may run for ever are \<open>partial_function (option)\<close>, where
  \<open>None\<close> is a loop that never returns: the scan of a folder tree, the waits of the client, the
  accept loop of the daemon.  The calls of the client's socket are partial in the same way, since
  they have no timeout.  Counters of fixed width that can overflow, file sizes and ULIDs are words,
  other counters natural numbers, \<open>f64\<close> values real numbers.

  What the theorems show.
  \<^item> Values: rows of the database, identifiers, hashes, redirects of a sign-in and files sent
    through the drive round-trip; a parsed path is well formed.
  \<^item> Decisions: reconciliation overwrites a side only when that side is unchanged since the last
    sync; the planner emits one operation per decision that needs one, directories first and
    deletions last.
  \<^item> Phases and cycle: what each phase leaves in the rows of the store for every behaviour of the
    other ports; every operation is counted once; the cursor moves exactly when the delta page was
    observed; the run is recorded; on SQLite no operation can be inserted before its run.
  \<^item> Stores: the constraints of the schema are an invariant; SQLite refines the in-memory store up
    to the order of rows of one time; retention keeps the documented windows.
  \<^item> Transfers: the hasher computes its reference definition, a download returns the bytes of the
    response that arrived and verified, an upload session sends exactly the ranges of the file in a
    bounded number of requests, the throttle refines a rate limiter, an executed operation
    touches one file, a scan reports the tree.
  \<^item> Daemon: responses come in the order of the requests, notifications in the order of the
    events, a sign-in code only with the state issued for it; adding a pair is all or nothing; a
    token is asked for at most three times; a webhook queues only pairs that want it.
  \<^item> Client: which commands end and which hang, which never work, which exit codes can be seen.
  \<^item> Where the code departs from its documents or from what it means to do, a theorem states what
    it does.

  Not modelled: the clock and id adapters (\<open>onesync-time\<close>), logging, unit and integration tests, the
  part of \<open>async_main\<close> that hands the adapters to its tasks, Unix signals and the FSEvents backend
  of the watcher.  Tasks that run at the same time are modelled where their interleaving matters
  (the callers of the throttle, the writer of a connection, the calls of a drive); otherwise a
  task awaits its calls one after the other, requests of different connections do not overlap,
  and the listener of a sign-in runs when its result is awaited.
\<close>

end
